(* ===== verification/Prelude.thy ===== *)
theory Prelude imports Main "HOL-Library.Sublist" begin

text \<open>
  What every component shares: the C++ string operations the sources use
  (\<open>std::string\<close> is a sequence of 8-bit characters, so it is modelled by \<open>string\<close>),
  ASCII lower-casing, and generic facts about searching, prefixes and first-match lists.

  An index cursor \<open>i\<close> into a C++ string \<open>s\<close> is modelled by the suffix \<open>drop i s\<close> where
  a loop only reads forward from the cursor.
\<close>

named_theorems str_simps \<open>rewriting of string searches\<close>

type_synonym cpp_string = string

abbreviation quot :: char where "quot \<equiv> CHR 0x22"
abbreviation bslash :: char where "bslash \<equiv> CHR 0x5C"
abbreviation newline :: char where "newline \<equiv> CHR 0x0A"
abbreviation carriage :: char where "carriage \<equiv> CHR 0x0D"
abbreviation tab :: char where "tab \<equiv> CHR 0x09"
abbreviation blank :: char where "blank \<equiv> CHR 0x20"
abbreviation slash :: char where "slash \<equiv> CHR 0x2F"
abbreviation colon :: char where "colon \<equiv> CHR 0x3A"
abbreviation comma :: char where "comma \<equiv> CHR 0x2C"
abbreviation lbrace :: char where "lbrace \<equiv> CHR 0x7B"
abbreviation rbrace :: char where "rbrace \<equiv> CHR 0x7D"

section \<open>Searching\<close>

text \<open>\<open>s.find(p)\<close>: the index of the first occurrence, \<open>None\<close> for \<open>npos\<close>.\<close>

fun find_str :: "cpp_string \<Rightarrow> cpp_string \<Rightarrow> nat option" where
  "find_str p [] = (if p = [] then Some 0 else None)"
| "find_str p (c # s) = (if prefix p (c # s) then Some 0 else map_option Suc (find_str p s))"

text \<open>\<open>s.find(p, from)\<close>: as above, from an index on; \<open>npos\<close> when the index is past the end.\<close>

definition find_from :: "cpp_string \<Rightarrow> cpp_string \<Rightarrow> nat \<Rightarrow> nat option" where
  "find_from p s from =
     (if from \<le> length s then map_option (\<lambda>i. i + from) (find_str p (drop from s)) else None)"

text \<open>What follows the first occurrence of \<open>p\<close>.\<close>

definition after_str :: "cpp_string \<Rightarrow> cpp_string \<Rightarrow> cpp_string option" where
  "after_str p s = map_option (\<lambda>i. drop (i + length p) s) (find_str p s)"

text \<open>\<open>s.find(p) != npos\<close>.\<close>

definition contains :: "cpp_string \<Rightarrow> cpp_string \<Rightarrow> bool" where
  "contains s p \<longleftrightarrow> find_str p s \<noteq> None"

text \<open>\<open>s.rfind(p, 0) == 0\<close>: the string starts with \<open>p\<close>.\<close>

definition starts_with :: "cpp_string \<Rightarrow> cpp_string \<Rightarrow> bool" where
  "starts_with s p \<longleftrightarrow> prefix p s"

text \<open>\<open>s.substr(pos, count)\<close> for a position in range.\<close>

definition substr :: "cpp_string \<Rightarrow> nat \<Rightarrow> nat \<Rightarrow> cpp_string" where
  "substr s pos cnt = take cnt (drop pos s)"

lemma find_str_empty [simp]: "find_str [] s = Some 0"
  by (cases s) auto

lemma find_str_prefix_at: "find_str p s = Some i \<Longrightarrow> i \<le> length s \<and> prefix p (drop i s)"
proof (induction s arbitrary: i)
  case Nil
  then show ?case by (auto split: if_splits)
next
  case (Cons c s)
  then show ?case by (auto split: if_splits)
qed

lemma find_str_le: "find_str p s = Some i \<Longrightarrow> i + length p \<le> length s"
  using find_str_prefix_at [of p s i] prefix_length_le [of p "drop i s"] by auto

lemma find_str_drop:
  assumes "find_str p s = Some i"
  shows "drop i s = p @ drop (i + length p) s"
proof -
  from assms have "prefix p (drop i s)" by (simp add: find_str_prefix_at)
  then have "drop i s = p @ drop (length p) (drop i s)" by (metis append_eq_conv_conj prefix_def)
  then show ?thesis by (simp add: add.commute)
qed

lemma find_str_Some_split:
  assumes "find_str p s = Some i"
  shows "s = take i s @ p @ drop (i + length p) s"
  using find_str_drop [OF assms] by (metis append_take_drop_id)

lemma find_str_first:
  "find_str p s = Some i \<Longrightarrow> j < i \<Longrightarrow> \<not> prefix p (drop j s)"
proof (induction s arbitrary: i j)
  case Nil
  then show ?case by (auto split: if_splits)
next
  case (Cons c s)
  then show ?case by (cases j) (auto split: if_splits)
qed

lemma find_str_exists: "prefix p (drop i s) \<Longrightarrow> i \<le> length s \<Longrightarrow> \<exists>j \<le> i. find_str p s = Some j"
proof (induction s arbitrary: i)
  case Nil
  then show ?case by auto
next
  case (Cons c s)
  show ?case
  proof (cases "prefix p (c # s)")
    case True
    then show ?thesis by auto
  next
    case False
    with Cons.prems obtain k where "i = Suc k" by (cases i) auto
    with Cons.prems Cons.IH [of k] False show ?thesis by auto
  qed
qed

lemma find_str_None_iff: "find_str p s = None \<longleftrightarrow> (\<forall>i \<le> length s. \<not> prefix p (drop i s))"
  using find_str_exists [of p _ s] find_str_prefix_at [of p s] find_str_le [of p s]
  by (cases "find_str p s") fastforce+

lemma contains_iff: "contains s p \<longleftrightarrow> (\<exists>a b. s = a @ p @ b)"
proof
  assume "contains s p"
  then show "\<exists>a b. s = a @ p @ b"
    by (auto simp: contains_def dest: find_str_Some_split)
next
  assume "\<exists>a b. s = a @ p @ b"
  then obtain a b where "s = a @ p @ b" by blast
  then show "contains s p"
    using find_str_exists [of p "length a" s] by (auto simp: contains_def)
qed

lemma find_str_skip:
  assumes "\<And>j. j < length u \<Longrightarrow> \<not> prefix p (drop j (u @ s))"
  shows "find_str p (u @ s) = map_option (\<lambda>i. length u + i) (find_str p s)"
  using assms
proof (induction u)
  case Nil
  then show ?case by (simp add: option.map_ident)
next
  case (Cons c u)
  have "\<not> prefix p (c # u @ s)" using Cons.prems [of 0] by simp
  moreover have "find_str p (u @ s) = map_option (\<lambda>i. length u + i) (find_str p s)"
    by (rule Cons.IH) (use Cons.prems [of "Suc _"] in auto)
  ultimately show ?case by (simp add: option.map_comp comp_def)
qed

lemma find_str_hit [simp]: "find_str p (p @ s) = Some 0"
  by (cases p) (auto simp: prefix_def)

lemma after_str_hit [simp]: "after_str p (p @ s) = Some s"
  by (simp add: after_str_def)

lemma after_str_skip:
  assumes "\<And>j. j < length u \<Longrightarrow> \<not> prefix p (drop j (u @ s))"
  shows "after_str p (u @ s) = after_str p s"
  by (simp add: after_str_def find_str_skip [OF assms] option.map_comp comp_def)

lemma after_str_Cons: "\<not> prefix p (c # s) \<Longrightarrow> after_str p (c # s) = after_str p s"
  by (simp add: after_str_def option.map_comp comp_def)

lemma after_str_Nil: "p \<noteq> [] \<Longrightarrow> after_str p [] = None"
  by (simp add: after_str_def)

section \<open>ASCII letters\<close>

text \<open>\<open>std::tolower\<close> in the C locale: only the 26 upper-case ASCII letters change.\<close>

definition tolower :: "char \<Rightarrow> char" where
  "tolower c = (let n = (of_char c :: nat) in if 65 \<le> n \<and> n \<le> 90 then char_of (n + 32) else c)"

definition to_lower_ascii :: "cpp_string \<Rightarrow> cpp_string" where
  "to_lower_ascii s = map tolower s"

definition is_digit :: "char \<Rightarrow> bool" where
  "is_digit c \<longleftrightarrow> (let n = (of_char c :: nat) in 48 \<le> n \<and> n \<le> 57)"

text \<open>\<open>std::isalnum\<close> in the C locale.\<close>

definition is_alnum :: "char \<Rightarrow> bool" where
  "is_alnum c \<longleftrightarrow> (let n = (of_char c :: nat) in
     (48 \<le> n \<and> n \<le> 57) \<or> (65 \<le> n \<and> n \<le> 90) \<or> (97 \<le> n \<and> n \<le> 122))"

lemma tolower_idem [simp]: "tolower (tolower c) = tolower c"
  by (simp add: tolower_def Let_def)

lemma to_lower_ascii_idem [simp]: "to_lower_ascii (to_lower_ascii s) = to_lower_ascii s"
  by (simp add: to_lower_ascii_def)

lemma length_to_lower_ascii [simp]: "length (to_lower_ascii s) = length s"
  by (simp add: to_lower_ascii_def)

lemma to_lower_ascii_append [simp]: "to_lower_ascii (s @ t) = to_lower_ascii s @ to_lower_ascii t"
  by (simp add: to_lower_ascii_def)

end
