(* ===== verification/Decimal.thy ===== *)
theory Decimal imports Prelude begin

text \<open>
  Decimal text of integers as the C++ standard library writes and reads it:
  \<open>std::to_string\<close> and \<open>operator<<\<close> on integers, \<open>std::stoll\<close> on an optional minus sign
  followed by digits, \<open>std::atoi\<close>, and the 64-bit and 32-bit ranges. A value that
  \<open>std::stoll\<close> cannot represent throws \<open>std::out_of_range\<close> (\<open>Inl OutOfRange\<close>); one that
  \<open>std::atoi\<close> cannot represent is undefined behaviour (\<open>None\<close>, and \<open>Inl UndefinedBehaviour\<close> as the
  outcome of a host operation that ran into it).
\<close>

datatype cpp_exception = OutOfRange | UndefinedBehaviour | FilesystemError

definition in_i64 :: "int \<Rightarrow> bool" where
  "in_i64 n \<longleftrightarrow> - (2 ^ 63) \<le> n \<and> n < 2 ^ 63"

definition in_i32 :: "int \<Rightarrow> bool" where
  "in_i32 n \<longleftrightarrow> - (2 ^ 31) \<le> n \<and> n < 2 ^ 31"

text \<open>Two's complement wrap-around of a 64-bit and a 32-bit signed result.\<close>

definition wrap64 :: "int \<Rightarrow> int" where
  "wrap64 n = (n + 2 ^ 63) mod 2 ^ 64 - 2 ^ 63"

definition wrap32 :: "int \<Rightarrow> int" where
  "wrap32 n = (n + 2 ^ 31) mod 2 ^ 32 - 2 ^ 31"

lemma in_i64_wrap64 [simp]: "in_i64 (wrap64 n)"
  by (simp add: in_i64_def wrap64_def)

lemma wrap64_id: "in_i64 n \<Longrightarrow> wrap64 n = n"
  by (simp add: in_i64_def wrap64_def)

lemma wrap32_id: "in_i32 n \<Longrightarrow> wrap32 n = n"
  by (simp add: in_i32_def wrap32_def)

section \<open>Digits\<close>

definition digit_char :: "nat \<Rightarrow> char" where
  "digit_char d = char_of (48 + d)"

definition digit_val :: "char \<Rightarrow> int" where
  "digit_val c = int (of_char c) - 48"

fun dec_nat :: "nat \<Rightarrow> cpp_string" where
  "dec_nat n = (if n < 10 then [digit_char n] else dec_nat (n div 10) @ [digit_char (n mod 10)])"

declare dec_nat.simps [simp del]

text \<open>\<open>std::to_string\<close> of a signed integer.\<close>

definition to_string :: "int \<Rightarrow> cpp_string" where
  "to_string n = (if n < 0 then CHR ''-'' # dec_nat (nat (- n)) else dec_nat (nat n))"

definition digits_val :: "cpp_string \<Rightarrow> int" where
  "digits_val ds = foldl (\<lambda>a d. 10 * a + digit_val d) 0 ds"

text \<open>\<open>std::stoll\<close> on the text the callers cut out: an optional \<open>-\<close> and digits.\<close>

definition stoll :: "cpp_string \<Rightarrow> cpp_exception + int" where
  "stoll s =
     (let v = (case s of c # ds \<Rightarrow> if c = CHR ''-'' then - digits_val ds else digits_val s
               | [] \<Rightarrow> 0)
      in if in_i64 v then Inr v else Inl OutOfRange)"

text \<open>
  \<open>std::atoi\<close>: skip white space, an optional sign, then digits up to the first other
  character; no digits give 0.
\<close>

definition is_space :: "char \<Rightarrow> bool" where
  "is_space c \<longleftrightarrow> (let n = (of_char c :: nat) in n = 32 \<or> (9 \<le> n \<and> n \<le> 13))"

definition atoi :: "cpp_string \<Rightarrow> int option" where
  "atoi s =
     (let t = dropWhile is_space s;
          v = (case t of
                 [] \<Rightarrow> 0
               | c # r \<Rightarrow>
                   if c = CHR ''-'' then - digits_val (takeWhile is_digit r)
                   else if c = CHR ''+'' then digits_val (takeWhile is_digit r)
                   else digits_val (takeWhile is_digit t))
      in if in_i32 v then Some v else None)"

lemma digit_char_props:
  assumes "d < 10"
  shows "is_digit (digit_char d)" and "digit_val (digit_char d) = int d"
    and "digit_char d \<noteq> CHR ''-''"
proof -
  have "(of_char (digit_char d) :: nat) = 48 + d"
    using assms by (simp add: digit_char_def)
  then show "is_digit (digit_char d)" "digit_val (digit_char d) = int d"
    using assms by (auto simp: is_digit_def digit_val_def Let_def)
  then show "digit_char d \<noteq> CHR ''-''"
    by (auto simp: is_digit_def)
qed

lemma dec_nat_digits: "\<forall>c \<in> set (dec_nat n). is_digit c"
proof (induction n rule: dec_nat.induct)
  case (1 n)
  then show ?case
    by (subst dec_nat.simps) (auto simp: digit_char_props)
qed

lemma dec_nat_nonempty [simp]: "dec_nat n \<noteq> []"
  by (subst dec_nat.simps) simp

lemma digits_val_snoc [simp]: "digits_val (ds @ [d]) = 10 * digits_val ds + digit_val d"
  by (simp add: digits_val_def)

lemma digits_val_dec_nat [simp]: "digits_val (dec_nat n) = int n"
proof (induction n rule: dec_nat.induct)
  case (1 n)
  show ?case
  proof (cases "n < 10")
    case True
    then show ?thesis
      by (subst dec_nat.simps) (simp add: digits_val_def digit_char_props)
  next
    case False
    then have "digits_val (dec_nat n) = 10 * int (n div 10) + int (n mod 10)"
      using 1 by (subst dec_nat.simps) (simp add: digit_char_props)
    also have "\<dots> = int n" by presburger
    finally show ?thesis .
  qed
qed

lemma is_digit_not_special:
  "is_digit c \<Longrightarrow> c \<noteq> quot \<and> c \<noteq> bslash \<and> c \<noteq> comma \<and> c \<noteq> colon \<and> c \<noteq> rbrace \<and> c \<noteq> lbrace
     \<and> c \<noteq> blank \<and> c \<noteq> tab \<and> c \<noteq> CHR ''-'' \<and> c \<noteq> CHR ''t'' \<and> c \<noteq> CHR ''f'' \<and> c \<noteq> CHR 0x5B"
  by (auto simp: is_digit_def)

lemma dec_nat_hd_not_minus: "hd (dec_nat n) \<noteq> CHR ''-''"
  using dec_nat_digits [of n] hd_in_set [OF dec_nat_nonempty, of n] is_digit_not_special
  by blast

text \<open>Reading back what \<open>std::to_string\<close> wrote, in and out of the 64-bit range.\<close>

lemma stoll_to_string:
  "stoll (to_string n) = (if in_i64 n then Inr n else Inl OutOfRange)"
proof (cases "n < 0")
  case True
  then show ?thesis by (simp add: stoll_def to_string_def)
next
  case False
  obtain c ds where d: "dec_nat (nat n) = c # ds"
    using dec_nat_nonempty [of "nat n"] by (cases "dec_nat (nat n)") auto
  then have "c \<noteq> CHR ''-''"
    using dec_nat_hd_not_minus [of "nat n"] by simp
  with False d show ?thesis
    using digits_val_dec_nat [of "nat n"] by (simp add: stoll_def to_string_def)
qed

end
