(* ===== verification/Json.thy ===== *)
theory Json imports Decimal begin

text \<open>
  The hand-rolled JSON layer of \<open>src/net/json.cpp\<close>: escaping, the field writers, and the
  three field extractors that scan for \<open>"key":\<close> instead of parsing. The second half states
  what a flat JSON object is (a list of keys with string, boolean or integer values) and
  proves that the extractors read such an object back, whatever text the values hold.
\<close>

section \<open>Writers\<close>

fun escape_char :: "char \<Rightarrow> cpp_string" where
  "escape_char c =
     (if c = bslash then [bslash, bslash]
      else if c = quot then [bslash, quot]
      else if c = newline then [bslash, CHR ''n'']
      else if c = carriage then [bslash, CHR ''r'']
      else if c = tab then [bslash, CHR ''t'']
      else [c])"

definition escape_json_string :: "cpp_string \<Rightarrow> cpp_string" where
  "escape_json_string s = concat (map escape_char s)"

definition json_string_field :: "cpp_string \<Rightarrow> cpp_string \<Rightarrow> cpp_string" where
  "json_string_field key v = [quot] @ key @ [quot, colon, quot] @ escape_json_string v @ [quot]"

definition json_bool_field :: "cpp_string \<Rightarrow> bool \<Rightarrow> cpp_string" where
  "json_bool_field key v = [quot] @ key @ [quot, colon] @ (if v then ''true'' else ''false'')"

section \<open>Extractors\<close>

text \<open>The text searched for: \<open>"key":\<close>, with no white space before the colon.\<close>

definition needle :: "cpp_string \<Rightarrow> cpp_string" where
  "needle key = [quot] @ key @ [quot, colon]"

definition skip_blank :: "cpp_string \<Rightarrow> cpp_string" where
  "skip_blank = dropWhile (\<lambda>c. c = blank \<or> c = tab)"

definition unescape_char :: "char \<Rightarrow> char" where
  "unescape_char c =
     (if c = quot then quot
      else if c = bslash then bslash
      else if c = CHR ''n'' then newline
      else if c = CHR ''r'' then carriage
      else if c = CHR ''t'' then tab
      else c)"

text \<open>The loop behind the opening quote: up to the closing quote or the end of the text.\<close>

fun read_string_body :: "cpp_string \<Rightarrow> cpp_string" where
  "read_string_body [] = []"
| "read_string_body [c] = (if c = quot then [] else [c])"
| "read_string_body (c # d # s) =
     (if c = bslash then unescape_char d # read_string_body s
      else if c = quot then []
      else c # read_string_body (d # s))"

text \<open>
  \<open>drop (i + length (needle key)) json\<close> is the text at the cursor behind the needle that
  \<open>json.find(needle, search_from)\<close> found.
\<close>

definition field_text :: "cpp_string \<Rightarrow> cpp_string \<Rightarrow> nat \<Rightarrow> cpp_string option" where
  "field_text json key from =
     map_option (\<lambda>i. skip_blank (drop (i + length (needle key)) json)) (find_from (needle key) json from)"

definition extract_json_string_field :: "cpp_string \<Rightarrow> cpp_string \<Rightarrow> nat \<Rightarrow> cpp_string" where
  "extract_json_string_field json key from =
     (case field_text json key from of
        None \<Rightarrow> []
      | Some t \<Rightarrow>
          (case t of
             [] \<Rightarrow> []
           | c # s \<Rightarrow> if c \<noteq> quot then [] else read_string_body s))"

text \<open>
  The out-parameter is left alone when the result is \<open>false\<close>: \<open>None\<close> here, and callers keep
  their default.
\<close>

definition extract_json_bool_field :: "cpp_string \<Rightarrow> cpp_string \<Rightarrow> nat \<Rightarrow> bool option" where
  "extract_json_bool_field json key from =
     (case field_text json key from of
        None \<Rightarrow> None
      | Some t \<Rightarrow>
          if take 4 t = ''true'' then Some True
          else if take 5 t = ''false'' then Some False
          else None)"

text \<open>
  \<open>std::stoll\<close> throws for a literal outside 64 bits, and nothing in the function catches it:
  \<open>Inl OutOfRange\<close>. \<open>Inr None\<close> is the result \<open>false\<close>.
\<close>

definition extract_json_int_field :: "cpp_string \<Rightarrow> cpp_string \<Rightarrow> nat \<Rightarrow> cpp_exception + int option" where
  "extract_json_int_field json key from =
     (case field_text json key from of
        None \<Rightarrow> Inr None
      | Some t \<Rightarrow>
          let sign = (case t of c # _ \<Rightarrow> if c = CHR ''-'' then ''-'' else [] | [] \<Rightarrow> []);
              ds = takeWhile is_digit (drop (length sign) t)
          in if ds = [] then Inr None
             else (case stoll (sign @ ds) of Inl e \<Rightarrow> Inl e | Inr v \<Rightarrow> Inr (Some v)))"

section \<open>Flat objects\<close>

datatype jval = JStr string | JBool bool | JInt int

fun render_value :: "jval \<Rightarrow> string" where
  "render_value (JStr v) = [quot] @ escape_json_string v @ [quot]"
| "render_value (JBool b) = (if b then ''true'' else ''false'')"
| "render_value (JInt n) = to_string n"

definition render_field :: "string \<times> jval \<Rightarrow> string" where
  "render_field f = [quot] @ fst f @ [quot, colon] @ render_value (snd f)"

fun join_comma :: "string list \<Rightarrow> string" where
  "join_comma [] = []"
| "join_comma [x] = x"
| "join_comma (x # y # ys) = x @ [comma] @ join_comma (y # ys)"

definition render_object :: "(string \<times> jval) list \<Rightarrow> string" where
  "render_object fs = [lbrace] @ join_comma (map render_field fs) @ [rbrace]"

text \<open>Keys made of ordinary characters, as every key the sources use is.\<close>

definition plain_char :: "char \<Rightarrow> bool" where
  "plain_char c \<longleftrightarrow> c \<notin> {quot, bslash, newline, carriage, tab, blank, comma, colon, lbrace, rbrace}"

definition plain_key :: "string \<Rightarrow> bool" where
  "plain_key k \<longleftrightarrow> list_all plain_char k"

lemma json_string_field_render: "json_string_field k v = render_field (k, JStr v)"
  by (simp add: json_string_field_def render_field_def)

lemma json_bool_field_render: "json_bool_field k b = render_field (k, JBool b)"
  by (simp add: json_bool_field_def render_field_def)

lemma escape_json_string_simps [simp]:
  "escape_json_string [] = []"
  "escape_json_string (c # s) = escape_char c @ escape_json_string s"
  by (simp_all add: escape_json_string_def)

lemma escape_json_string_append [simp]:
  "escape_json_string (s @ t) = escape_json_string s @ escape_json_string t"
  by (simp add: escape_json_string_def)

text \<open>The escaped text, followed by a closing quote, reads back as the original.\<close>

lemma read_string_body_escape:
  "read_string_body (escape_json_string v @ quot # rest) = v"
proof (induction v)
  case Nil
  then show ?case by (cases rest) auto
next
  case (Cons c v)
  obtain d s where "escape_json_string v @ quot # rest = d # s"
    by (cases "escape_json_string v @ quot # rest") auto
  with Cons show ?case by (auto simp: unescape_char_def)
qed

section \<open>Reading flat objects back\<close>

lemma field_text_after:
  "field_text json key n = map_option skip_blank (after_str (needle key) (drop n json))"
proof (cases "n \<le> length json")
  case True
  then show ?thesis
    by (simp add: field_text_def find_from_def after_str_def option.map_comp comp_def ac_simps)
next
  case False
  then show ?thesis
    by (simp add: field_text_def find_from_def after_str_def needle_def)
qed

lemma skip_noquote:
  assumes "quot \<notin> set u"
  shows "after_str (needle k) (u @ s) = after_str (needle k) s"
  using assms by (induction u) (auto simp: after_str_Cons needle_def)

lemma needle_prefix_iff:
  assumes "plain_key k" and "plain_key k'"
  shows "prefix (k @ [quot, colon]) (k' @ quot # colon # t) \<longleftrightarrow> k = k'"
  using assms
proof (induction k arbitrary: k')
  case Nil
  then show ?case by (cases k') (auto simp: plain_key_def plain_char_def)
next
  case (Cons a k)
  then show ?case by (cases k') (auto simp: plain_key_def plain_char_def)
qed

lemma no_needle_in_escaped:
  assumes "plain_key k" and "rest = [] \<or> hd rest \<noteq> colon"
  shows "\<not> prefix (k @ [quot, colon]) (escape_json_string v @ quot # rest)"
  using assms
proof (induction v arbitrary: k)
  case Nil
  then show ?case by (cases k; cases rest) (auto simp: plain_key_def plain_char_def)
next
  case (Cons c v)
  show ?case
  proof (cases k)
    case Nil
    then show ?thesis by (auto split: if_splits)
  next
    case (Cons a k')
    then show ?thesis
      using Cons.prems Cons.IH [of k'] by (auto simp: plain_key_def plain_char_def split: if_splits)
  qed
qed

lemma skip_escaped:
  assumes "plain_key k" and "hd rest = comma \<or> hd rest = rbrace" and "rest \<noteq> []"
  shows "after_str (needle k) (escape_json_string v @ quot # rest) = after_str (needle k) rest"
proof (induction v)
  case Nil
  have "\<not> prefix (k @ [quot, colon]) rest"
    using assms by (cases k; cases rest) (auto simp: plain_key_def plain_char_def)
  then show ?case by (simp add: after_str_Cons needle_def)
next
  case (Cons c v)
  have "\<not> prefix (k @ [quot, colon]) (escape_json_string v @ quot # rest)"
    using assms by (intro no_needle_in_escaped) auto
  with Cons show ?case by (auto simp: after_str_Cons needle_def)
qed

lemma not_digit_not_dec: "\<not> is_digit c \<Longrightarrow> c \<notin> set (dec_nat n)"
  using dec_nat_digits by blast

lemma to_string_no_quote: "quot \<notin> set (to_string n)"
  using not_digit_not_dec [of quot] by (auto simp: to_string_def is_digit_def)

lemma after_str_field:
  assumes "plain_key k" and "plain_key k'" and "hd rest = comma \<or> hd rest = rbrace" and "rest \<noteq> []"
  shows "after_str (needle k) (render_field (k', v) @ rest) =
    (if k' = k then Some (render_value v @ rest) else after_str (needle k) rest)"
proof (cases "k' = k")
  case True
  then have "render_field (k', v) @ rest = needle k @ render_value v @ rest"
    by (simp add: render_field_def needle_def)
  with True show ?thesis by simp
next
  case False
  have nq: "quot \<notin> set k'" using assms(2) by (auto simp: plain_key_def plain_char_def list_all_iff)
  have "after_str (needle k) (render_field (k', v) @ rest)
      = after_str (needle k) (k' @ quot # colon # render_value v @ rest)"
    using False assms(1,2) needle_prefix_iff [of k k']
    by (simp add: render_field_def after_str_Cons needle_def)
  also have "\<dots> = after_str (needle k) (quot # colon # render_value v @ rest)"
    by (rule skip_noquote [OF nq])
  also have "\<dots> = after_str (needle k) (render_value v @ rest)"
    using assms(1) by (cases k) (auto simp: after_str_Cons needle_def plain_key_def plain_char_def)
  also have "\<dots> = after_str (needle k) rest"
  proof (cases v)
    case (JStr x)
    have "\<not> prefix (k @ [quot, colon]) (escape_json_string x @ quot # rest)"
      using assms by (intro no_needle_in_escaped) auto
    then have "after_str (needle k) (quot # escape_json_string x @ quot # rest)
        = after_str (needle k) (escape_json_string x @ quot # rest)"
      by (intro after_str_Cons) (simp add: needle_def)
    with JStr show ?thesis by (simp add: skip_escaped [OF assms(1,3,4)])
  qed (simp_all add: skip_noquote to_string_no_quote)
  finally show ?thesis using False by simp
qed

text \<open>
  The needle of a key is found at the first field of that key and nowhere else; text held by
  the values cannot be mistaken for a field. \<open>tail\<close> is whatever follows the fields.
\<close>

lemma after_str_fields:
  assumes "plain_key k" and "\<forall>f \<in> set fs. plain_key (fst f)"
    and "hd tail = comma \<or> hd tail = rbrace" and "tail \<noteq> []"
  shows "case map_of fs k of
      None \<Rightarrow> fs \<noteq> [] \<longrightarrow> after_str (needle k) (join_comma (map render_field fs) @ tail) = after_str (needle k) tail
    | Some v \<Rightarrow> \<exists>rest. rest \<noteq> [] \<and> (hd rest = comma \<or> hd rest = rbrace)
        \<and> after_str (needle k) (join_comma (map render_field fs) @ tail) = Some (render_value v @ rest)"
  using assms(2)
proof (induction fs)
  case Nil
  then show ?case by simp
next
  case (Cons f fs)
  obtain k' v where f: "f = (k', v)" by (cases f)
  show ?case
  proof (cases fs)
    case Nil
    then show ?thesis
      using Cons.prems assms f after_str_field [of k k' tail v] by auto
  next
    case (Cons g gs)
    let ?rest = "comma # join_comma (map render_field fs) @ tail"
    have "after_str (needle k) (join_comma (map render_field (f # fs)) @ tail) =
        (if k' = k then Some (render_value v @ ?rest) else after_str (needle k) ?rest)"
      using Cons.prems assms f \<open>fs = g # gs\<close> after_str_field [of k k' ?rest v] by simp
    moreover have "after_str (needle k) ?rest = after_str (needle k) (join_comma (map render_field fs) @ tail)"
      by (simp add: after_str_Cons needle_def)
    ultimately show ?thesis
      using Cons.IH Cons.prems f \<open>fs = g # gs\<close>
      by (cases "k' = k") (auto split: option.splits)
  qed
qed

lemma render_value_first:
  "\<exists>c s. render_value v = c # s \<and> c \<noteq> blank \<and> c \<noteq> tab \<and> (c = quot \<longleftrightarrow> (\<exists>x. v = JStr x))"
proof (cases v)
  case (JInt n)
  obtain c s where d: "dec_nat (nat n) = c # s"
    using dec_nat_nonempty [of "nat n"] by (cases "dec_nat (nat n)") auto
  then have "is_digit c" using dec_nat_digits [of "nat n"] by simp
  then show ?thesis using JInt d is_digit_not_special by (auto simp: to_string_def)
qed simp_all

lemma skip_blank_render [simp]: "skip_blank (render_value v @ rest) = render_value v @ rest"
  using render_value_first [of v] by (auto simp: skip_blank_def)

text \<open>A flat object, possibly followed by more members that are not flat.\<close>

definition render_members :: "(string \<times> jval) list \<Rightarrow> string \<Rightarrow> string" where
  "render_members fs tail = [lbrace] @ join_comma (map render_field fs) @ tail"

definition member_end :: "string \<Rightarrow> bool" where
  "member_end t \<longleftrightarrow> (case t of c # _ \<Rightarrow> c = comma \<or> c = rbrace | [] \<Rightarrow> False)"

lemma member_end_iff: "member_end t \<longleftrightarrow> t \<noteq> [] \<and> (hd t = comma \<or> hd t = rbrace)"
  by (cases t) (auto simp: member_end_def)

lemma member_end_rbrace [simp]: "member_end [rbrace]" "member_end (rbrace # t)" "member_end (comma # t)"
  by (simp_all add: member_end_def)

lemma render_object_members: "render_object fs = render_members fs [rbrace]"
  by (simp add: render_object_def render_members_def)

definition plain_keys :: "(string \<times> jval) list \<Rightarrow> bool" where
  "plain_keys fs \<longleftrightarrow> list_all (\<lambda>f. plain_key (fst f)) fs"

lemma field_text_members:
  assumes "plain_key k" and "plain_keys fs" and "member_end tail" and "map_of fs k = Some v"
  obtains rest where "member_end rest" and "field_text (render_members fs tail) k 0 = Some (render_value v @ rest)"
proof -
  have "after_str (needle k) (render_members fs tail) = after_str (needle k) (join_comma (map render_field fs) @ tail)"
    by (simp add: render_members_def after_str_Cons needle_def)
  moreover obtain rest where "member_end rest"
      and "after_str (needle k) (join_comma (map render_field fs) @ tail) = Some (render_value v @ rest)"
    using after_str_fields [of k fs tail] assms by (auto simp: plain_keys_def list_all_iff member_end_iff)
  ultimately show thesis using that [of rest] by (simp add: field_text_after)
qed

lemma field_text_object_None:
  assumes "plain_key k" and "plain_keys fs" and "map_of fs k = None"
  shows "field_text (render_object fs) k 0 = None"
proof -
  have "after_str (needle k) [rbrace] = None"
    by (simp add: after_str_def needle_def)
  moreover have "after_str (needle k) [lbrace, rbrace] = None"
    by (simp add: after_str_def needle_def)
  ultimately have "after_str (needle k) (render_object fs) = None"
    using after_str_fields [of k fs "[rbrace]"] assms
    by (cases fs) (auto simp: render_object_def after_str_Cons needle_def plain_keys_def list_all_iff)
  then show ?thesis by (simp add: field_text_after)
qed

lemma extract_string_after:
  "extract_json_string_field json key n =
     (case after_str (needle key) (drop n json) of
        None \<Rightarrow> []
      | Some t \<Rightarrow> (case skip_blank t of [] \<Rightarrow> [] | c # s \<Rightarrow> if c = quot then read_string_body s else []))"
  by (auto simp: extract_json_string_field_def field_text_after split: option.splits list.splits)

section \<open>The reader interface\<close>

text \<open>
  Three translation units of the sources carry a copy of the string-field scanner
  (\<open>net\<close>, \<open>ai\<close> and \<open>notify\<close>). Their common contract: what follows the first needle,
  with blanks skipped, read as a string body. Everything a client needs is proved from it.
\<close>

locale string_field_reader =
  fixes read_field :: "string \<Rightarrow> string \<Rightarrow> string"
  assumes read_contract:
    "read_field json key =
       (case after_str (needle key) json of
          None \<Rightarrow> []
        | Some t \<Rightarrow> (case skip_blank t of [] \<Rightarrow> [] | c # s \<Rightarrow> if c = quot then read_string_body s else []))"
begin

lemma read_eq_net: "read_field json key = extract_json_string_field json key 0"
  by (simp add: read_contract extract_string_after)

lemma read_members_string:
  assumes "plain_key k" and "plain_keys fs" and "member_end tail" and "map_of fs k = Some (JStr v)"
  shows "read_field (render_members fs tail) k = v"
proof -
  obtain rest where "field_text (render_members fs tail) k 0 = Some (render_value (JStr v) @ rest)"
    using assms by (rule field_text_members)
  then show ?thesis
    by (simp add: read_eq_net extract_json_string_field_def read_string_body_escape)
qed

lemma read_members_other:
  assumes "plain_key k" and "plain_keys fs" and "member_end tail" and "map_of fs k = Some v" and "\<nexists>x. v = JStr x"
  shows "read_field (render_members fs tail) k = []"
proof -
  obtain rest where "field_text (render_members fs tail) k 0 = Some (render_value v @ rest)"
    using assms(1-4) by (rule field_text_members)
  then show ?thesis
    using assms(5) render_value_first [of v] by (auto simp: read_eq_net extract_json_string_field_def)
qed

lemma read_object:
  assumes "plain_key k" and "plain_keys fs"
  shows "read_field (render_object fs) k = (case map_of fs k of Some (JStr v) \<Rightarrow> v | _ \<Rightarrow> [])"
proof (cases "map_of fs k")
  case None
  then show ?thesis
    using field_text_object_None [OF assms] by (simp add: read_eq_net extract_json_string_field_def)
next
  case (Some v)
  then show ?thesis
    using read_members_string [OF assms, of "[rbrace]"] read_members_other [OF assms, of "[rbrace]" v]
    by (cases v) (simp_all add: render_object_members)
qed

end

interpretation net_json: string_field_reader "\<lambda>json key. extract_json_string_field json key 0"
  by unfold_locales (simp add: extract_string_after)

lemmas members_string = net_json.read_members_string

lemma members_bool:
  assumes "plain_key k" and "plain_keys fs" and "member_end tail" and "map_of fs k = Some (JBool b)"
  shows "extract_json_bool_field (render_members fs tail) k 0 = Some b"
proof -
  obtain rest where "field_text (render_members fs tail) k 0 = Some (render_value (JBool b) @ rest)"
    using assms by (rule field_text_members)
  then show ?thesis by (simp add: extract_json_bool_field_def)
qed

lemma not_digit_member_end: "member_end rest \<Longrightarrow> takeWhile is_digit (ds @ rest) = takeWhile is_digit ds"
  by (induction ds) (auto simp: member_end_def is_digit_def split: list.splits)

lemma takeWhile_dec_nat: "takeWhile is_digit (dec_nat n) = dec_nat n"
  using dec_nat_digits [of n] by (simp only: takeWhile_eq_all_conv)

lemma read_int_field_text:
  assumes t: "field_text json k from = Some (render_value (JInt n) @ rest)" and m: "member_end rest"
  shows "extract_json_int_field json k from = (if in_i64 n then Inr (Some n) else Inl OutOfRange)"
proof (cases "n < 0")
  case True
  with t m stoll_to_string [of n] show ?thesis
    by (simp add: extract_json_int_field_def to_string_def not_digit_member_end takeWhile_dec_nat)
next
  case False
  obtain c ds where d: "dec_nat (nat n) = c # ds"
    using dec_nat_nonempty [of "nat n"] by (cases "dec_nat (nat n)") auto
  have c: "c \<noteq> CHR ''-''" using dec_nat_hd_not_minus [of "nat n"] d by simp
  have w: "takeWhile is_digit (c # ds @ rest) = c # ds"
    using not_digit_member_end [OF m, of "c # ds"] takeWhile_dec_nat [of "nat n"] d by simp
  show ?thesis
    using False t c w stoll_to_string [of n] d
    by (simp add: extract_json_int_field_def to_string_def del: takeWhile.simps)
qed

lemma members_int:
  assumes "plain_key k" and "plain_keys fs" and "member_end tail" and "map_of fs k = Some (JInt n)"
  shows "extract_json_int_field (render_members fs tail) k 0 = (if in_i64 n then Inr (Some n) else Inl OutOfRange)"
proof -
  obtain rest where "member_end rest"
      and "field_text (render_members fs tail) k 0 = Some (render_value (JInt n) @ rest)"
    using assms by (rule field_text_members)
  then show ?thesis by (simp add: read_int_field_text)
qed

text \<open>What the three extractors read in a flat object, as functions of the object.\<close>

definition flat_string :: "(string \<times> jval) list \<Rightarrow> string \<Rightarrow> string" where
  "flat_string fs k = (case map_of fs k of Some (JStr s) \<Rightarrow> s | _ \<Rightarrow> [])"

definition flat_bool :: "(string \<times> jval) list \<Rightarrow> string \<Rightarrow> bool option" where
  "flat_bool fs k = (case map_of fs k of Some (JBool b) \<Rightarrow> Some b | _ \<Rightarrow> None)"

lemma extract_flat_string:
  "plain_key k \<Longrightarrow> plain_keys fs \<Longrightarrow> extract_json_string_field (render_object fs) k 0 = flat_string fs k"
  by (simp add: net_json.read_object flat_string_def)

lemma members_flat_string:
  assumes "plain_key k" and "plain_keys fs" and "member_end tail" and "map_of fs k \<noteq> None"
  shows "extract_json_string_field (render_members fs tail) k 0 = flat_string fs k"
proof -
  obtain v where v: "map_of fs k = Some v" using assms(4) by auto
  with net_json.read_members_string [OF assms(1-3)] net_json.read_members_other [OF assms(1-3) v]
  show ?thesis by (cases v) (simp_all add: flat_string_def)
qed

lemma not_bool_text:
  "\<nexists>b. v = JBool b \<Longrightarrow> take 4 (render_value v @ rest) \<noteq> ''true'' \<and> take 5 (render_value v @ rest) \<noteq> ''false''"
proof (cases v)
  case (JInt n)
  obtain c s where d: "dec_nat (nat n) = c # s"
    using dec_nat_nonempty [of "nat n"] by (cases "dec_nat (nat n)") auto
  then have "is_digit c" using dec_nat_digits [of "nat n"] by simp
  then show ?thesis using JInt d is_digit_not_special by (auto simp: to_string_def)
qed simp_all

lemma members_flat_bool:
  assumes "plain_key k" and "plain_keys fs" and "member_end tail" and "map_of fs k \<noteq> None"
  shows "extract_json_bool_field (render_members fs tail) k 0 = flat_bool fs k"
proof -
  obtain v where v: "map_of fs k = Some v" using assms(4) by auto
  obtain rest where "field_text (render_members fs tail) k 0 = Some (render_value v @ rest)"
    using assms(1-3) v by (rule field_text_members)
  then show ?thesis
    using v not_bool_text [of v rest] by (cases v) (simp_all add: extract_json_bool_field_def flat_bool_def)
qed

lemma extract_flat_bool:
  "plain_key k \<Longrightarrow> plain_keys fs \<Longrightarrow> extract_json_bool_field (render_object fs) k 0 = flat_bool fs k"
proof (cases "map_of fs k")
  case None
  assume "plain_key k" "plain_keys fs"
  with None show ?thesis
    by (simp add: extract_json_bool_field_def field_text_object_None flat_bool_def)
next
  case (Some v)
  assume "plain_key k" "plain_keys fs"
  with Some show ?thesis by (simp add: render_object_members members_flat_bool)
qed

lemma extract_flat_int:
  "plain_key k \<Longrightarrow> plain_keys fs \<Longrightarrow> map_of fs k = Some (JInt n) \<Longrightarrow>
     extract_json_int_field (render_object fs) k 0 = (if in_i64 n then Inr (Some n) else Inl OutOfRange)"
  by (simp add: render_object_members members_int)

lemma members_read:
  assumes "plain_keys fs" and "member_end tail" and "k \<in> fst ` set fs"
  shows "extract_json_string_field (render_members fs tail) k 0 = flat_string fs k"
    and "extract_json_bool_field (render_members fs tail) k 0 = flat_bool fs k"
proof -
  have "plain_key k" using assms(1,3) by (auto simp: plain_keys_def list_all_iff)
  moreover have "map_of fs k \<noteq> None" using assms(3) by (simp add: map_of_eq_None_iff)
  ultimately show "extract_json_string_field (render_members fs tail) k 0 = flat_string fs k"
      "extract_json_bool_field (render_members fs tail) k 0 = flat_bool fs k"
    using members_flat_string members_flat_bool assms(1,2) by blast+
qed

text \<open>
  C25: no value can forge a field. In a flat JSON object with ordinary keys and arbitrary text
  in its values (quotes, backslashes, line breaks, text that looks like another field), every
  string extractor call returns the first value of the requested key, and the empty string
  when that key is absent or not a string.
\<close>

theorem extract_string_injection_safe:
  assumes "plain_key k" and "plain_keys fs"
  shows "extract_json_string_field (render_object fs) k 0 = (case map_of fs k of Some (JStr v) \<Rightarrow> v | _ \<Rightarrow> [])"
  using net_json.read_object [OF assms] .

theorem extract_string_injection_safe_witness:
  "extract_json_string_field (render_object
     [(''a'', JStr ([quot] @ ''role'' @ [quot, colon, quot] @ ''admin'' @ [quot])), (''role'', JStr ''guest'')]) ''role'' 0
   = ''guest''"
  using extract_string_injection_safe [of "''role''"
      "[(''a'', JStr ([quot] @ ''role'' @ [quot, colon, quot] @ ''admin'' @ [quot])), (''role'', JStr ''guest'')]"]
  by (simp add: plain_key_def plain_keys_def plain_char_def)

text \<open>
  Boolean and integer fields read back as well: a boolean is found exactly when the key
  holds one, and an integer literal is read unless it does not fit 64 bits, where the
  extractor throws.
\<close>

theorem extract_bool_int_flat:
  assumes "plain_key k" and "plain_keys fs"
  shows "extract_json_bool_field (render_object fs) k 0 = flat_bool fs k
    \<and> (\<forall>n. map_of fs k = Some (JInt n) \<longrightarrow>
         extract_json_int_field (render_object fs) k 0 = (if in_i64 n then Inr (Some n) else Inl OutOfRange))"
  using extract_flat_bool [OF assms] extract_flat_int [OF assms] by blast

theorem extract_bool_int_flat_witness:
  "extract_json_int_field (render_object [(''s'', JStr ''true''), (''n'', JInt (-42))]) ''n'' 0 = Inr (Some (-42))"
  using extract_bool_int_flat [of "''n''" "[(''s'', JStr ''true''), (''n'', JInt (-42))]"]
  by (simp add: plain_key_def plain_keys_def plain_char_def in_i64_def)

text \<open>
  The escapes of JSON beyond the five the writer produces are not decoded: a \<open>\u\<close> escape
  loses its backslash and keeps its four digits as text.
\<close>

theorem unicode_escape_not_decoded:
  assumes "list_all (\<lambda>c. c \<noteq> quot \<and> c \<noteq> bslash) [a, b, c, d]"
  shows "read_string_body (bslash # CHR ''u'' # a # b # c # d # quot # rest) = [CHR ''u'', a, b, c, d]"
  using assms by (cases rest) (auto simp: unescape_char_def)

theorem unicode_escape_not_decoded_witness:
  "read_string_body (bslash # CHR ''u'' # CHR ''0'' # CHR ''0'' # CHR ''3'' # CHR ''c'' # quot # []) = ''u003c''"
  by (rule unicode_escape_not_decoded) simp

end
