(* ===== verification/Notify.thy ===== *)
theory Notify imports Json begin

text \<open>
  \<open>src/notify/parse.cpp\<close>: the body of a \<open>POST /notify\<close> request, as JSON with a \<open>message\<close>
  field or as plain text. The unit has its own copy of the string-field scanner; its loop is
  modelled with the accumulator the code has, and is an instance of the reader interface.
\<close>

record notify_message =
  nm_text :: string
  nm_raw_body :: string
  nm_parsed_from_json :: bool

record notify_parse_result =
  np_success :: bool
  np_message :: notify_message

definition is_ws :: "char \<Rightarrow> bool" where
  "is_ws c \<longleftrightarrow> c = blank \<or> c = tab \<or> c = carriage \<or> c = newline"

definition notify_trim_ascii :: "string \<Rightarrow> string" where
  "notify_trim_ascii input = rev (dropWhile is_ws (rev (dropWhile is_ws input)))"

fun notify_value_loop :: "string \<Rightarrow> string \<Rightarrow> string" where
  "notify_value_loop val [] = val"
| "notify_value_loop val (c # s) =
     (if c = bslash \<and> s \<noteq> [] then notify_value_loop (val @ [unescape_char (hd s)]) (tl s)
      else if c = quot then val
      else notify_value_loop (val @ [c]) s)"

definition notify_extract_json_string_field :: "string \<Rightarrow> string \<Rightarrow> string" where
  "notify_extract_json_string_field json field_name =
     (case find_str (needle field_name) json of
        None \<Rightarrow> []
      | Some i \<Rightarrow>
          (let t = skip_blank (drop (i + length (needle field_name)) json)
           in if t = [] \<or> hd t \<noteq> quot then [] else notify_value_loop [] (tl t)))"

definition parse_notify_body :: "string \<Rightarrow> notify_parse_result" where
  "parse_notify_body body =
     (let trimmed = notify_trim_ascii body;
          message_field = notify_extract_json_string_field trimmed ''message''
      in if trimmed = [] then
           \<lparr>np_success = True, np_message = \<lparr>nm_text = ''(no message)'', nm_raw_body = body, nm_parsed_from_json = False\<rparr>\<rparr>
         else if hd trimmed = lbrace \<and> message_field \<noteq> [] then
           \<lparr>np_success = True, np_message = \<lparr>nm_text = message_field, nm_raw_body = body, nm_parsed_from_json = True\<rparr>\<rparr>
         else
           \<lparr>np_success = True, np_message = \<lparr>nm_text = trimmed, nm_raw_body = body, nm_parsed_from_json = False\<rparr>\<rparr>)"

lemma notify_value_loop_body: "notify_value_loop val s = val @ read_string_body s"
proof (induction val s rule: notify_value_loop.induct)
  case (1 val)
  then show ?case by simp
next
  case (2 val c s)
  then show ?case by (cases s) auto
qed

interpretation notify_json: string_field_reader notify_extract_json_string_field
  by unfold_locales
     (auto simp: notify_extract_json_string_field_def after_str_def Let_def notify_value_loop_body
           split: option.splits list.splits)

lemma notify_trim_ascii_pad:
  assumes "list_all is_ws pre" and "list_all is_ws post" and "t \<noteq> []"
    and "\<not> is_ws (hd t)" and "\<not> is_ws (last t)"
  shows "notify_trim_ascii (pre @ t @ post) = t"
proof -
  have 1: "dropWhile is_ws (pre @ t @ post) = t @ post"
    using assms by (cases t) (auto simp: dropWhile_append2 list_all_iff dropWhile_append)
  have 2: "dropWhile is_ws (rev post @ rev t) = rev t"
    using assms by (cases t rule: rev_cases) (auto simp: dropWhile_append2 list_all_iff dropWhile_append)
  show ?thesis by (simp add: notify_trim_ascii_def 1 2)
qed

text \<open>
  Whatever the body is, parsing a notification succeeds, keeps the raw body, and yields a
  text that is never empty.
\<close>

theorem notify_text_never_empty:
  "np_success (parse_notify_body body) \<and> nm_raw_body (np_message (parse_notify_body body)) = body
   \<and> nm_text (np_message (parse_notify_body body)) \<noteq> []"
  by (auto simp: parse_notify_body_def Let_def)

text \<open>
  A body that is a flat JSON object with a non-empty \<open>message\<close>, padded with white space,
  is read as JSON and its text is exactly the message, whatever characters the message and the
  other values hold.
\<close>

theorem notify_reads_message:
  assumes "list_all is_ws pre" and "list_all is_ws post" and "plain_keys fs"
    and "map_of fs ''message'' = Some (JStr m)" and "m \<noteq> []"
  shows "np_message (parse_notify_body (pre @ render_object fs @ post)) =
    \<lparr>nm_text = m, nm_raw_body = pre @ render_object fs @ post, nm_parsed_from_json = True\<rparr>"
proof -
  have obj: "render_object fs \<noteq> []" "hd (render_object fs) = lbrace" "last (render_object fs) = rbrace"
    by (simp_all add: render_object_def)
  have trim: "notify_trim_ascii (pre @ render_object fs @ post) = render_object fs"
    using assms(1,2) obj by (intro notify_trim_ascii_pad) (auto simp: is_ws_def)
  have "plain_key ''message''" by (simp add: plain_key_def plain_char_def)
  then have "notify_extract_json_string_field (render_object fs) ''message'' = m"
    using notify_json.read_object [OF _ assms(3)] assms(4) by simp
  with trim obj assms(5) show ?thesis by (simp add: parse_notify_body_def)
qed

theorem notify_reads_message_witness:
  "nm_text (np_message (parse_notify_body
     ([blank] @ render_object [(''k'', JInt 3), (''message'', JStr [quot, CHR ''h'', newline])] @ [newline])))
   = [quot, CHR ''h'', newline]"
  using notify_reads_message [of "[blank]" "[newline]" "[(''k'', JInt 3), (''message'', JStr [quot, CHR ''h'', newline])]"
      "[quot, CHR ''h'', newline]"]
  by (simp add: is_ws_def plain_keys_def plain_key_def plain_char_def)

end
