(* ===== verification/Session.thy ===== *)
theory Session imports Decimal begin

text \<open>\<open>src/session\<close>: the runtime session record and the two status lines built from it.\<close>

record feature_flags =
  ff_ai :: bool
  ff_networking :: bool
  ff_recording :: bool
  ff_ui :: bool

record runtime_session =
  rs_active :: bool
  rs_features :: feature_flags
  rs_map_name :: string
  rs_build_label :: string
  rs_http_port :: int
  rs_http_enabled :: bool
  rs_http_router_bound :: bool

definition default_runtime_session :: runtime_session where
  "default_runtime_session = \<lparr>rs_active = True,
     rs_features = \<lparr>ff_ai = True, ff_networking = True, ff_recording = True, ff_ui = True\<rparr>,
     rs_map_name = ''unknown'', rs_build_label = ''unknown'', rs_http_port = 30080,
     rs_http_enabled = True, rs_http_router_bound = False\<rparr>"

definition enabled_label :: "bool \<Rightarrow> string" where
  "enabled_label v = (if v then ''On'' else ''Off'')"

definition bound_label :: "bool \<Rightarrow> string" where
  "bound_label v = (if v then ''bound'' else ''not-bound'')"

definition http_enabled_label :: "bool \<Rightarrow> string" where
  "http_enabled_label v = (if v then ''enabled'' else ''disabled'')"

definition build_http_server_status_text :: "runtime_session \<Rightarrow> string" where
  "build_http_server_status_text s =
     ''HTTP '' @ http_enabled_label (rs_http_enabled s) @ '', port='' @ to_string (rs_http_port s)
     @ '', router='' @ bound_label (rs_http_router_bound s) @ '', endpoints=/health,/echo,/notify''"

definition build_startup_feature_flags_text :: "runtime_session \<Rightarrow> string" where
  "build_startup_feature_flags_text s =
     ''AI='' @ enabled_label (ff_ai (rs_features s))
     @ '' Networking='' @ enabled_label (ff_networking (rs_features s))
     @ '' Recording='' @ enabled_label (ff_recording (rs_features s))
     @ '' UI='' @ enabled_label (ff_ui (rs_features s))"

end
