(* ===== verification/Path_Guards.thy ===== *)
theory Path_Guards imports Prelude begin

text \<open>
  \<open>src/reliability\<close>: the guards that run on the paths and commands the model proposes.
  Loops over an index are kept as loops over an index.
\<close>

section \<open>command_guards.cpp\<close>

definition destructive_patterns :: "string list" where
  "destructive_patterns =
    [''rm -rf'', ''rm -fr'', ''rm -r -f'', ''rm -f -r'', ''rd /s'', ''rmdir /s'',
     ''del /f /s'', ''del /s /f'', ''remove-item -recurse -force'',
     ''format '', ''diskpart'', ''mkfs'', ''dd if='', ''fdisk'',
     ''taskkill /f /im *'', ''shutdown /r'', ''shutdown /s'', ''shutdown -r'', ''shutdown -h'',
     '':(){ :|:& };:'', '':(){:|:&};:'']"

definition looks_like_destructive_command :: "string \<Rightarrow> bool" where
  "looks_like_destructive_command command_or_args \<longleftrightarrow>
     list_ex (contains (to_lower_ascii command_or_args)) destructive_patterns"

section \<open>path_guards.cpp\<close>

definition is_sep :: "char \<Rightarrow> bool" where
  "is_sep c \<longleftrightarrow> c = slash \<or> c = bslash"

definition leading_separator :: "string \<Rightarrow> nat \<Rightarrow> bool" where
  "leading_separator args cursor \<longleftrightarrow> cursor = 1 \<and> is_sep (args ! 0)"

definition leading_dot_separator :: "string \<Rightarrow> nat \<Rightarrow> bool" where
  "leading_dot_separator args cursor \<longleftrightarrow> cursor = 2 \<and> args ! 0 = CHR ''.'' \<and> is_sep (args ! 1)"

definition at_word_boundary :: "string \<Rightarrow> nat \<Rightarrow> bool" where
  "at_word_boundary args cursor \<longleftrightarrow>
     cursor = 0
     \<or> args ! (cursor - 1) = blank \<or> args ! (cursor - 1) = quot \<or> args ! (cursor - 1) = CHR 0x27
     \<or> leading_separator args cursor \<or> leading_dot_separator args cursor"

definition matches_slash :: "string \<Rightarrow> nat \<Rightarrow> bool" where
  "matches_slash args cursor \<longleftrightarrow> take 8 (drop cursor (to_lower_ascii args)) = ''desktop/''"

definition matches_backslash :: "string \<Rightarrow> nat \<Rightarrow> bool" where
  "matches_backslash args cursor \<longleftrightarrow> take 8 (drop cursor (to_lower_ascii args)) = ''desktop'' @ [bslash]"

function desktop_loop :: "string \<Rightarrow> string \<Rightarrow> nat \<Rightarrow> string \<Rightarrow> string" where
  "desktop_loop args desktop cursor result =
     (if cursor < length args then
        if at_word_boundary args cursor \<and> (matches_slash args cursor \<or> matches_backslash args cursor) then
          desktop_loop args desktop (cursor + 8)
            ((if (leading_separator args cursor \<or> leading_dot_separator args cursor) \<and> length result \<ge> cursor
              then take (length result - cursor) result else result)
             @ desktop @ [if matches_slash args cursor then slash else bslash])
        else desktop_loop args desktop (cursor + 1) (result @ [args ! cursor])
      else result)"
  by pat_completeness auto
termination
  by (relation "measure (\<lambda>(args, desktop, cursor, result). length args - cursor)") auto

declare desktop_loop.simps [simp del]

definition substitute_bare_desktop_token :: "string \<Rightarrow> string \<Rightarrow> string" where
  "substitute_bare_desktop_token args desktop_path =
     (if desktop_path = [] then args else desktop_loop args desktop_path 0 [])"

definition default_bare_filename_to_desktop :: "string \<Rightarrow> string \<Rightarrow> string" where
  "default_bare_filename_to_desktop path desktop_path =
     (if path = [] \<or> desktop_path = [] then path
      else if contains path [slash] \<or> contains path [bslash] then path
      else desktop_path
           @ (if last desktop_path \<noteq> slash \<and> last desktop_path \<noteq> bslash then [bslash] else [])
           @ path)"

definition looks_like_placeholder_path :: "string \<Rightarrow> bool" where
  "looks_like_placeholder_path path =
     (let lowered = to_lower_ascii path
      in contains lowered ''path/to/''
       \<or> contains lowered (''path'' @ [bslash] @ ''to'' @ [bslash])
       \<or> contains lowered ''<''
       \<or> contains lowered ''your_file''
       \<or> contains lowered ''yourfile''
       \<or> contains lowered ''example.txt''
       \<or> contains lowered ''filename.ext''
       \<or> contains lowered ''username'')"

definition segment_at :: "string \<Rightarrow> nat \<Rightarrow> bool" where
  "segment_at lowered found \<longleftrightarrow>
     (found = 0 \<or> is_sep (lowered ! (found - 1)))
     \<and> (found + 7 = length lowered \<or> is_sep (lowered ! (found + 7)))"

function invented_loop :: "string \<Rightarrow> nat \<Rightarrow> bool" where
  "invented_loop lowered search_position =
     (case find_from ''desktop'' lowered search_position of
        None \<Rightarrow> False
      | Some found \<Rightarrow> if segment_at lowered found then True else invented_loop lowered (found + 7))"
  by pat_completeness auto

definition looks_like_mismatched_binary_content_signatures :: "(string \<times> string) list" where
  "looks_like_mismatched_binary_content_signatures =
    [(''.png'', [CHR 0x89, CHR ''P'', CHR ''N'', CHR ''G'', CHR 0x0D, CHR 0x0A, CHR 0x1A, CHR 0x0A]),
     (''.jpg'', [CHR 0xFF, CHR 0xD8, CHR 0xFF]),
     (''.jpeg'', [CHR 0xFF, CHR 0xD8, CHR 0xFF]),
     (''.gif'', ''GIF8''),
     (''.bmp'', ''BM'')]"

fun mismatched_loop :: "(string \<times> string) list \<Rightarrow> string \<Rightarrow> string \<Rightarrow> bool" where
  "mismatched_loop [] lowered_path content = False"
| "mismatched_loop ((extension, magic) # sigs) lowered_path content =
     (if length lowered_path < length extension
         \<or> drop (length lowered_path - length extension) lowered_path \<noteq> extension
      then mismatched_loop sigs lowered_path content
      else length content < length magic \<or> take (length magic) content \<noteq> magic)"

definition looks_like_mismatched_binary_content :: "string \<Rightarrow> string \<Rightarrow> bool" where
  "looks_like_mismatched_binary_content path content =
     mismatched_loop looks_like_mismatched_binary_content_signatures (to_lower_ascii path) content"

lemma find_from_bounds:
  assumes "find_from p s n = Some i"
  shows "n \<le> i" and "i + length p \<le> length s" and "prefix p (drop i s)"
    and "\<And>j. n \<le> j \<Longrightarrow> j < i \<Longrightarrow> \<not> prefix p (drop j s)"
proof -
  obtain k where n: "n \<le> length s" and k: "find_str p (drop n s) = Some k" and i: "i = k + n"
    using assms by (auto simp: find_from_def split: if_splits)
  show "n \<le> i" using i by simp
  show "i + length p \<le> length s" using find_str_le [OF k] n i by simp
  show "prefix p (drop i s)" using find_str_prefix_at [OF k] i by (simp add: add.commute)
  fix j assume "n \<le> j" "j < i"
  then show "\<not> prefix p (drop j s)"
    using find_str_first [OF k, of "j - n"] i by simp
qed

termination invented_loop
proof (relation "measure (\<lambda>(lowered, pos). length lowered + 1 - pos)", goal_cases)
  case 1
  show ?case by simp
next
  case (2 lowered pos found)
  then show ?case using find_from_bounds(1,2) [of "''desktop''" lowered pos found] by simp
qed

declare invented_loop.simps [simp del]

definition looks_like_invented_desktop_path :: "string \<Rightarrow> string \<Rightarrow> bool" where
  "looks_like_invented_desktop_path resolved_path real_desktop_path =
     (if real_desktop_path = [] then False
      else if starts_with (to_lower_ascii resolved_path) (to_lower_ascii real_desktop_path) then False
      else invented_loop (to_lower_ascii resolved_path) 0)"

section \<open>What the guards guarantee\<close>

lemma contains_mono: "contains s p \<Longrightarrow> contains (a @ s @ b) p"
  by (auto simp: contains_iff) (metis append.assoc)

text \<open>
  A destructive command stays flagged in any letter case and with any text around it.\<close>

theorem destructive_monotone:
  assumes "looks_like_destructive_command c"
  shows "looks_like_destructive_command (pre @ to_lower_ascii c @ post)"
  using assms by (auto simp: looks_like_destructive_command_def list_ex_iff intro: contains_mono)

theorem destructive_monotone_witness:
  "looks_like_destructive_command (''sudo '' @ to_lower_ascii ''RM -rf /'' @ '' now'')"
  by (rule destructive_monotone) code_simp

text \<open>
  The default directory of a bare file name is applied once: applying it again changes
  nothing, because its result always holds a separator (or was left alone).
\<close>

theorem default_bare_filename_idempotent:
  "default_bare_filename_to_desktop (default_bare_filename_to_desktop p d) d = default_bare_filename_to_desktop p d"
proof (cases "p = [] \<or> d = [] \<or> contains p [slash] \<or> contains p [bslash]")
  case True
  then show ?thesis by (auto simp: default_bare_filename_to_desktop_def)
next
  case False
  then have p: "p \<noteq> []" "\<not> contains p [slash]" "\<not> contains p [bslash]" and d: "d \<noteq> []" by auto
  let ?r = "default_bare_filename_to_desktop p d"
  have r: "?r = d @ (if last d \<noteq> slash \<and> last d \<noteq> bslash then [bslash] else []) @ p"
    using p d by (simp add: default_bare_filename_to_desktop_def)
  have "contains ?r [slash] \<or> contains ?r [bslash]"
  proof (cases "last d = slash \<or> last d = bslash")
    case True
    then have "?r = d @ p" using r by auto
    also have "\<dots> = butlast d @ [last d] @ p"
      using append_butlast_last_id [OF d] by (metis append.assoc)
    finally have "?r = butlast d @ [last d] @ p" .
    then have "contains ?r [last d]" unfolding contains_iff by blast
    with True show ?thesis by auto
  next
    case False
    then have "?r = d @ [bslash] @ p" using r by simp
    then show ?thesis unfolding contains_iff by blast
  qed
  then show ?thesis by (simp add: default_bare_filename_to_desktop_def [of ?r])
qed

text \<open>The word looked for has no border, so two occurrences are seven characters apart.\<close>

lemma desktop_no_overlap:
  assumes "prefix ''desktop'' (drop i s)" and "i < j" and "j < i + 7"
  shows "\<not> prefix ''desktop'' (drop j s)"
proof
  assume "prefix ''desktop'' (drop j s)"
  then obtain t where t: "drop j s = ''desktop'' @ t" by (auto simp: prefix_def)
  obtain u where u: "drop i s = ''desktop'' @ u" using assms(1) by (auto simp: prefix_def)
  define k where "k = j - i"
  have k: "j = k + i" "0 < k" "k < 7" using assms(2,3) by (simp_all add: k_def)
  have "drop j s = drop k (drop i s)" by (simp add: k(1))
  then have "drop k (''desktop'' @ u) = ''desktop'' @ t" by (simp only: t u)
  moreover have "k \<in> {1, 2, 3, 4, 5, 6}" using k(2,3) by auto
  ultimately show False by auto
qed

lemma invented_loop_iff:
  "invented_loop s n \<longleftrightarrow> (\<exists>i \<ge> n. prefix ''desktop'' (drop i s) \<and> segment_at s i)"
proof (induction s n rule: invented_loop.induct)
  case (1 s n)
  show ?case
  proof (cases "find_from ''desktop'' s n")
    case None
    have "\<not> prefix ''desktop'' (drop i s)" if "i \<ge> n" for i
    proof (cases "i \<le> length s")
      case True
      then have "find_str ''desktop'' (drop n s) = None"
        using None that by (simp add: find_from_def)
      then show ?thesis
        using find_str_None_iff [of "''desktop''" "drop n s"] True that
        by (auto dest: spec [where x = "i - n"])
    next
      case False
      then show ?thesis by simp
    qed
    with None show ?thesis by (auto simp: invented_loop.simps)
  next
    case (Some found)
    note b = find_from_bounds [OF Some]
    have skip: "i = found \<or> found + 7 \<le> i" if "i \<ge> n" "prefix ''desktop'' (drop i s)" for i
      using that b(4) [of i] desktop_no_overlap [OF b(3), of i] by (meson leI linorder_neqE_nat)
    show ?thesis
    proof (cases "segment_at s found")
      case True
      then show ?thesis using Some b(1,3) by (auto simp: invented_loop.simps)
    next
      case False
      then have "invented_loop s n = invented_loop s (found + 7)"
        using Some by (simp add: invented_loop.simps [of s n])
      also have "\<dots> \<longleftrightarrow> (\<exists>i \<ge> found + 7. prefix ''desktop'' (drop i s) \<and> segment_at s i)"
        using 1 [OF Some False] .
      also have "\<dots> \<longleftrightarrow> (\<exists>i \<ge> n. prefix ''desktop'' (drop i s) \<and> segment_at s i)"
      proof
        assume "\<exists>i \<ge> found + 7. prefix ''desktop'' (drop i s) \<and> segment_at s i"
        then obtain i where "found + 7 \<le> i" "prefix ''desktop'' (drop i s)" "segment_at s i" by blast
        then show "\<exists>i \<ge> n. prefix ''desktop'' (drop i s) \<and> segment_at s i"
          using b(1) by (intro exI [of _ i]) linarith
      next
        assume "\<exists>i \<ge> n. prefix ''desktop'' (drop i s) \<and> segment_at s i"
        then obtain i where i: "n \<le> i" "prefix ''desktop'' (drop i s)" "segment_at s i" by blast
        then have "found + 7 \<le> i" using skip [of i] False by blast
        with i show "\<exists>i \<ge> found + 7. prefix ''desktop'' (drop i s) \<and> segment_at s i" by blast
      qed
      finally show ?thesis .
    qed
  qed
qed


text \<open>Where no bare token starts, the substitution loop copies its input.\<close>

definition bare_token_at :: "string \<Rightarrow> nat \<Rightarrow> bool" where
  "bare_token_at args i \<longleftrightarrow> at_word_boundary args i \<and> (matches_slash args i \<or> matches_backslash args i)"

lemma desktop_loop_copies:
  assumes "\<forall>i. c \<le> i \<and> i < n \<longrightarrow> \<not> bare_token_at args i" and "c \<le> n" and "n \<le> length args"
  shows "desktop_loop args d c r = desktop_loop args d n (r @ drop c (take n args))"
  using assms
proof (induction "n - c" arbitrary: c r)
  case 0
  then show ?case by simp
next
  case (Suc k)
  then have lt: "c < n" by simp
  have "desktop_loop args d c r = desktop_loop args d (c + 1) (r @ [args ! c])"
    using Suc.prems lt by (subst desktop_loop.simps) (auto simp: bare_token_at_def)
  also have "\<dots> = desktop_loop args d n ((r @ [args ! c]) @ drop (c + 1) (take n args))"
    using Suc by (intro Suc.hyps(1)) auto
  also have "(r @ [args ! c]) @ drop (c + 1) (take n args) = r @ drop c (take n args)"
    using lt Suc.prems(3) by (simp add: Cons_nth_drop_Suc [symmetric])
  finally show ?case .
qed

text \<open>
  Arguments that hold no bare \<open>desktop\<close> token reach the shell unchanged.\<close>

theorem substitute_without_token:
  assumes "\<forall>i < length args. \<not> bare_token_at args i"
  shows "substitute_bare_desktop_token args d = args"
  using desktop_loop_copies [of 0 "length args" args d "[]"] assms
  by (simp add: substitute_bare_desktop_token_def desktop_loop.simps [of args d "length args"])

theorem substitute_without_token_witness:
  "substitute_bare_desktop_token ''cat D:/Desktop/a'' ''C:/Users/me/Desktop'' = ''cat D:/Desktop/a''"
  by (rule substitute_without_token) code_simp

text \<open>
  The first bare token after a word boundary is replaced by the real Desktop, keeping the
  separator that followed it and everything before it.
\<close>

theorem substitute_first_token:
  assumes "d \<noteq> []" and "n < length args" and "\<forall>i < n. \<not> bare_token_at args i" and "bare_token_at args n"
    and "\<not> leading_separator args n" and "\<not> leading_dot_separator args n"
  shows "\<exists>rest. substitute_bare_desktop_token args d =
    take n args @ d @ [if matches_slash args n then slash else bslash] @ rest"
proof -
  have grows: "\<exists>rest. desktop_loop args d c r = r @ rest" if "c > 2" for c r
    using that
  proof (induction args d c r rule: desktop_loop.induct)
    case (1 args d c r)
    then show ?case
      by (subst desktop_loop.simps)
         (auto simp: leading_separator_def leading_dot_separator_def)
  qed
  have "desktop_loop args d 0 [] = desktop_loop args d n (take n args)"
    using desktop_loop_copies [of 0 n args d "[]"] assms by simp
  also have "\<dots> = desktop_loop args d (n + 8) (take n args @ d @ [if matches_slash args n then slash else bslash])"
    using assms by (subst desktop_loop.simps) (auto simp: bare_token_at_def)
  also obtain rest where "\<dots> = (take n args @ d @ [if matches_slash args n then slash else bslash]) @ rest"
    using grows [of "n + 8"] by fastforce
  finally show ?thesis
    using assms(1) by (auto simp: substitute_bare_desktop_token_def)
qed

theorem substitute_first_token_witness:
  "\<exists>rest. substitute_bare_desktop_token ''-y desktop/a'' ''C:/D'' =
    take 3 ''-y desktop/a'' @ ''C:/D'' @ [if matches_slash ''-y desktop/a'' 3 then slash else bslash] @ rest"
  by (rule substitute_first_token) code_simp+

end
