(* ===== verification/Keyed_Store.thy ===== *)
theory Keyed_Store imports Prelude begin

text \<open>
  Collections of the sources that are vectors searched front to back by a string key (tasks,
  connectors, cached images): the first-match list operations, and the interface the rest of
  the program relies on as two locales.
\<close>

named_theorems store_simps \<open>first-match list operations\<close>

text \<open>\<open>for (T& x : xs) if (p(x)) \{ x = f(x); return; \}\<close>\<close>

fun update_first :: "('a \<Rightarrow> bool) \<Rightarrow> ('a \<Rightarrow> 'a) \<Rightarrow> 'a list \<Rightarrow> 'a list" where
  "update_first p f [] = []"
| "update_first p f (x # xs) = (if p x then f x # xs else x # update_first p f xs)"

text \<open>\<open>for (it = begin; ...) if (p(*it)) \{ erase(it); break; \}\<close>\<close>

fun erase_first :: "('a \<Rightarrow> bool) \<Rightarrow> 'a list \<Rightarrow> 'a list" where
  "erase_first p [] = []"
| "erase_first p (x # xs) = (if p x then xs else x # erase_first p xs)"

lemma length_update_first [simp, store_simps]: "length (update_first p f xs) = length xs"
  by (induction xs) auto

lemma map_update_first [store_simps]:
  "(\<And>x. p x \<Longrightarrow> k (f x) = k x) \<Longrightarrow> map k (update_first p f xs) = map k xs"
  by (induction xs) auto

lemma set_update_first: "x \<in> set (update_first p f xs) \<Longrightarrow> x \<in> set xs \<or> (\<exists>y \<in> set xs. p y \<and> x = f y)"
  by (induction xs) (auto split: if_splits)

lemma update_first_none [store_simps]: "\<forall>x \<in> set xs. \<not> p x \<Longrightarrow> update_first p f xs = xs"
  by (induction xs) auto

lemma length_erase_first: "\<exists>x \<in> set xs. p x \<Longrightarrow> Suc (length (erase_first p xs)) = length xs"
  by (induction xs) auto

lemma erase_first_none [store_simps]: "\<forall>x \<in> set xs. \<not> p x \<Longrightarrow> erase_first p xs = xs"
  by (induction xs) auto

lemma set_erase_first: "x \<in> set (erase_first p xs) \<Longrightarrow> x \<in> set xs"
  by (induction xs) (auto split: if_splits)

lemma distinct_map_erase_first: "distinct (map k xs) \<Longrightarrow> distinct (map k (erase_first p xs))"
  by (induction xs) (auto dest: set_erase_first)

lemma keeps_erase_first: "x \<in> set xs \<Longrightarrow> \<not> p x \<Longrightarrow> x \<in> set (erase_first p xs)"
  by (induction xs) auto

lemma find_update_first_same:
  "find (\<lambda>x. key x = k) xs = Some x \<Longrightarrow> key (f x) = k \<Longrightarrow>
     find (\<lambda>x. key x = k) (update_first (\<lambda>x. key x = k) f xs) = Some (f x)"
  by (induction xs) (auto split: if_splits)

lemma find_update_first_other:
  "k \<noteq> k' \<Longrightarrow> (\<And>x. key x = k \<Longrightarrow> key (f x) = k) \<Longrightarrow>
     find (\<lambda>x. key x = k') (update_first (\<lambda>x. key x = k) f xs) = find (\<lambda>x. key x = k') xs"
  by (induction xs) auto

lemma find_erase_first_other:
  "k \<noteq> k' \<Longrightarrow> find (\<lambda>x. key x = k') (erase_first (\<lambda>x. key x = k) xs) = find (\<lambda>x. key x = k') xs"
  by (induction xs) auto

lemma find_erase_first_same:
  "distinct (map key xs) \<Longrightarrow> find (\<lambda>x. key x = k) (erase_first (\<lambda>x. key x = k) xs) = None"
  by (induction xs) (auto simp: find_None_iff rev_image_eqI)

lemma find_snoc:
  "find p (xs @ [x]) = (case find p xs of Some y \<Rightarrow> Some y | None \<Rightarrow> if p x then Some x else None)"
  by (induction xs) auto

lemma find_Some_key: "find (\<lambda>x. key x = k) xs = Some x \<Longrightarrow> x \<in> set xs \<and> key x = k"
  by (auto simp: find_Some_iff)

section \<open>The store interface\<close>

locale keyed_store =
  fixes key :: "'a \<Rightarrow> string"
    and items :: "'s \<Rightarrow> 'a list"
    and lookup :: "'s \<Rightarrow> string \<Rightarrow> 'a option"
  assumes lookup_first: "lookup s k = find (\<lambda>x. key x = k) (items s)"
begin

lemma lookup_sound: "lookup s k = Some x \<Longrightarrow> x \<in> set (items s) \<and> key x = k"
  using find_Some_key [of key k "items s" x] by (simp add: lookup_first)

lemma lookup_None: "lookup s k = None \<longleftrightarrow> k \<notin> key ` set (items s)"
  by (auto simp: lookup_first find_None_iff)

lemma lookup_distinct: "distinct (map key (items s)) \<Longrightarrow> x \<in> set (items s) \<Longrightarrow> lookup s (key x) = Some x"
proof (cases "lookup s (key x)")
  case None
  assume "x \<in> set (items s)"
  with None show ?thesis by (simp add: lookup_None)
next
  case (Some y)
  assume "distinct (map key (items s))" and "x \<in> set (items s)"
  with lookup_sound [OF Some] have "y = x" by (auto simp: distinct_map dest: inj_onD)
  with Some show ?thesis by simp
qed

end

locale mutable_store = keyed_store key items lookup
  for key :: "'a \<Rightarrow> string" and items :: "'s \<Rightarrow> 'a list" and lookup :: "'s \<Rightarrow> string \<Rightarrow> 'a option" +
  fixes put :: "'a \<Rightarrow> 's \<Rightarrow> 's"
    and remove :: "string \<Rightarrow> 's \<Rightarrow> 's"
    and admissible :: "'a \<Rightarrow> bool"
  assumes put_items: "items (put x s) =
      (if \<not> admissible x then items s
       else if key x \<in> key ` set (items s) then update_first (\<lambda>y. key y = key x) (\<lambda>_. x) (items s)
       else items s @ [x])"
    and remove_items: "items (remove k s) = erase_first (\<lambda>y. key y = k) (items s)"
begin

lemma lookup_put: "admissible x \<Longrightarrow> lookup (put x s) k = (if k = key x then Some x else lookup s k)"
proof (cases "key x \<in> key ` set (items s)")
  case True
  assume a: "admissible x"
  from True obtain y where "find (\<lambda>y. key y = key x) (items s) = Some y"
    by (metis lookup_None lookup_first option.exhaust)
  with a True show ?thesis
    by (auto simp: lookup_first put_items find_update_first_same find_update_first_other)
next
  case False
  assume a: "admissible x"
  have "find (\<lambda>y. key y = key x) (items s) = None"
    using False unfolding find_None_iff by (metis imageI)
  with a False show ?thesis
    by (cases "k = key x") (simp_all add: lookup_first put_items find_snoc split: option.split)
qed

lemma put_inadmissible: "\<not> admissible x \<Longrightarrow> lookup (put x s) k = lookup s k"
  by (simp add: lookup_first put_items)

lemma distinct_put: "distinct (map key (items s)) \<Longrightarrow> distinct (map key (items (put x s)))"
  by (auto simp: put_items map_update_first)

lemma distinct_remove: "distinct (map key (items s)) \<Longrightarrow> distinct (map key (items (remove k s)))"
  by (simp add: remove_items distinct_map_erase_first)

lemma lookup_remove:
  "distinct (map key (items s)) \<Longrightarrow> lookup (remove k s) k' = (if k' = k then None else lookup s k')"
  by (auto simp: lookup_first remove_items find_erase_first_same find_erase_first_other)

end

end
