(* ===== verification/Task_Queue.thy ===== *)
theory Task_Queue imports Json Keyed_Store begin

text \<open>
  \<open>src/app/tasks.cpp\<close>: the task record and the queue. The wall clock is an argument of every
  operation that reads it, and the static id counter is part of the queue's state. 64-bit
  timestamps are integers; the additions that can leave the range are wrapped (\<open>wrap64\<close>).
\<close>

record task =
  task_id :: string
  task_connector_id :: string
  task_command :: string
  task_payload_json :: string
  task_status :: string
  task_created_at_ms :: int
  task_updated_at_ms :: int
  task_scheduled_for_ms :: int
  task_recurrence_ms :: int
  task_run_count :: int
  task_error_message :: string
  task_result_json :: string

definition empty_task :: task where
  "empty_task = \<lparr>task_id = [], task_connector_id = [], task_command = [], task_payload_json = [],
     task_status = [], task_created_at_ms = 0, task_updated_at_ms = 0, task_scheduled_for_ms = 0,
     task_recurrence_ms = 0, task_run_count = 0, task_error_message = [], task_result_json = []\<rparr>"

record task_queue =
  tq_tasks :: "task list"
  tq_counter :: int

definition empty_queue :: task_queue where
  "empty_queue = \<lparr>tq_tasks = [], tq_counter = 0\<rparr>"

definition kMaxHistoryEntries :: nat where
  "kMaxHistoryEntries = 256"

definition generate_task_id :: "int \<Rightarrow> int \<Rightarrow> string" where
  "generate_task_id clock sequence = ''task-'' @ to_string clock @ ''-'' @ to_string sequence"

definition is_terminal :: "task \<Rightarrow> bool" where
  "is_terminal t \<longleftrightarrow> task_status t = ''done'' \<or> task_status t = ''failed'' \<or> task_status t = ''cancelled''"

text \<open>The \<open>while\<close> loop of \<open>trim_history\<close>; it stops when nothing was erased.\<close>

function trim_history :: "task list \<Rightarrow> task list" where
  "trim_history ts =
     (if length ts > kMaxHistoryEntries
      then if \<exists>t \<in> set ts. is_terminal t then trim_history (erase_first is_terminal ts) else ts
      else ts)"
  by pat_completeness auto
termination
  by (relation "measure length") (auto dest!: length_erase_first)

declare trim_history.simps [simp del]

definition enqueue :: "int \<Rightarrow> int \<Rightarrow> task \<Rightarrow> task_queue \<Rightarrow> string \<times> task_queue" where
  "enqueue id_clock now t q =
     (let fresh = task_id t = [];
          cnt = (if fresh then tq_counter q + 1 else tq_counter q);
          t1 = (if fresh then t\<lparr>task_id := generate_task_id id_clock cnt\<rparr> else t);
          t2 = (if task_status t1 = [] then t1\<lparr>task_status := ''pending''\<rparr> else t1);
          t3 = t2\<lparr>task_created_at_ms := now, task_updated_at_ms := now\<rparr>
      in (task_id t3, \<lparr>tq_tasks = trim_history (tq_tasks q @ [t3]), tq_counter = cnt\<rparr>))"

definition claimable :: "int \<Rightarrow> task \<Rightarrow> bool" where
  "claimable now t \<longleftrightarrow> task_status t = ''pending'' \<and> \<not> task_scheduled_for_ms t > now"

definition mark_running :: "int \<Rightarrow> task \<Rightarrow> task" where
  "mark_running now t = t\<lparr>task_status := ''running'', task_updated_at_ms := now,
     task_run_count := task_run_count t + 1\<rparr>"

definition claim_next :: "int \<Rightarrow> task_queue \<Rightarrow> task option \<times> task_queue" where
  "claim_next now q =
     (case find (claimable now) (tq_tasks q) of
        None \<Rightarrow> (None, q)
      | Some t \<Rightarrow> (Some (mark_running now t),
          q\<lparr>tq_tasks := update_first (claimable now) (mark_running now) (tq_tasks q)\<rparr>))"

definition mark_complete :: "int \<Rightarrow> string \<Rightarrow> task \<Rightarrow> task" where
  "mark_complete now result t =
     (let u = t\<lparr>task_updated_at_ms := now, task_result_json := result\<rparr>
      in if task_recurrence_ms u > 0
         then u\<lparr>task_status := ''pending'', task_scheduled_for_ms := wrap64 (task_updated_at_ms u + task_recurrence_ms u)\<rparr>
         else u\<lparr>task_status := ''done''\<rparr>)"

definition complete :: "int \<Rightarrow> string \<Rightarrow> string \<Rightarrow> task_queue \<Rightarrow> bool \<times> task_queue" where
  "complete now tid result q =
     (case find (\<lambda>t. task_id t = tid) (tq_tasks q) of
        None \<Rightarrow> (False, q)
      | Some _ \<Rightarrow> (True, q\<lparr>tq_tasks :=
          trim_history (update_first (\<lambda>t. task_id t = tid) (mark_complete now result) (tq_tasks q))\<rparr>))"

definition mark_failed :: "int \<Rightarrow> string \<Rightarrow> task \<Rightarrow> task" where
  "mark_failed now err t =
     (let u = t\<lparr>task_error_message := err, task_updated_at_ms := now\<rparr>
      in if task_recurrence_ms u > 0
         then u\<lparr>task_status := ''pending'', task_scheduled_for_ms := wrap64 (task_updated_at_ms u + task_recurrence_ms u)\<rparr>
         else u\<lparr>task_status := ''failed''\<rparr>)"

definition fail :: "int \<Rightarrow> string \<Rightarrow> string \<Rightarrow> task_queue \<Rightarrow> bool \<times> task_queue" where
  "fail now tid err q =
     (case find (\<lambda>t. task_id t = tid) (tq_tasks q) of
        None \<Rightarrow> (False, q)
      | Some _ \<Rightarrow> (True, q\<lparr>tq_tasks :=
          trim_history (update_first (\<lambda>t. task_id t = tid) (mark_failed now err) (tq_tasks q))\<rparr>))"

definition mark_cancelled :: "int \<Rightarrow> task \<Rightarrow> task" where
  "mark_cancelled now t = t\<lparr>task_status := ''cancelled'', task_updated_at_ms := now\<rparr>"

definition cancel :: "int \<Rightarrow> string \<Rightarrow> task_queue \<Rightarrow> bool \<times> task_queue" where
  "cancel now tid q =
     (case find (\<lambda>t. task_id t = tid) (tq_tasks q) of
        None \<Rightarrow> (False, q)
      | Some t \<Rightarrow>
          if is_terminal t then (False, q)
          else (True, q\<lparr>tq_tasks :=
            trim_history (update_first (\<lambda>t. task_id t = tid) (mark_cancelled now) (tq_tasks q))\<rparr>))"

definition find_task :: "task_queue \<Rightarrow> string \<Rightarrow> task option" where
  "find_task q tid = find (\<lambda>t. task_id t = tid) (tq_tasks q)"

definition list_tasks :: "task_queue \<Rightarrow> task list" where
  "list_tasks q = tq_tasks q"

section \<open>JSON of a task\<close>

definition build_task_json :: "task \<Rightarrow> string" where
  "build_task_json t =
     [lbrace]
     @ json_string_field ''id'' (task_id t) @ [comma]
     @ json_string_field ''connector_id'' (task_connector_id t) @ [comma]
     @ json_string_field ''command'' (task_command t) @ [comma]
     @ json_string_field ''payload_json'' (task_payload_json t) @ [comma]
     @ json_string_field ''status'' (task_status t) @ [comma]
     @ needle ''created_at_ms'' @ to_string (task_created_at_ms t) @ [comma]
     @ needle ''updated_at_ms'' @ to_string (task_updated_at_ms t) @ [comma]
     @ needle ''scheduled_for_ms'' @ to_string (task_scheduled_for_ms t) @ [comma]
     @ needle ''recurrence_ms'' @ to_string (task_recurrence_ms t) @ [comma]
     @ needle ''run_count'' @ to_string (task_run_count t) @ [comma]
     @ json_string_field ''error_message'' (task_error_message t) @ [comma]
     @ json_string_field ''result_json'' (task_result_json t)
     @ [rbrace]"

definition build_tasks_json :: "task list \<Rightarrow> string" where
  "build_tasks_json ts =
     [lbrace] @ json_bool_field ''ok'' True @ [comma] @ needle ''tasks'' @ ''[''
     @ join_comma (map build_task_json ts) @ '']'' @ [rbrace]"

text \<open>
  \<open>parse_task_request_from_json\<close>: the exception of \<open>std::stoll\<close> leaves the function; \<open>Inr (Inl e)\<close>
  is the result \<open>false\<close> with its error text.
\<close>

definition parse_task_request_from_json :: "int \<Rightarrow> string \<Rightarrow> cpp_exception + (string + task)" where
  "parse_task_request_from_json now json =
     (let command = extract_json_string_field json ''command'' 0
      in if command = [] then Inr (Inl ''Task requires a command.'')
         else
           (let t = empty_task\<lparr>task_command := command,
                      task_connector_id := extract_json_string_field json ''connector_id'' 0,
                      task_payload_json := extract_json_string_field json ''payload_json'' 0\<rparr>
            in (case extract_json_int_field json ''delay_ms'' 0 of
                  Inl e \<Rightarrow> Inl e
                | Inr delay \<Rightarrow>
                    (let t1 = (case delay of
                                 Some d \<Rightarrow> if d > 0 then t\<lparr>task_scheduled_for_ms := wrap64 (now + d)\<rparr> else t
                               | None \<Rightarrow> t)
                     in (case extract_json_int_field json ''recurrence_ms'' 0 of
                           Inl e \<Rightarrow> Inl e
                         | Inr recurrence \<Rightarrow>
                             Inr (Inr (case recurrence of
                                         Some r \<Rightarrow> if r > 0 then t1\<lparr>task_recurrence_ms := r\<rparr> else t1
                                       | None \<Rightarrow> t1)))))))"

section \<open>The task's JSON reads back\<close>

definition task_fields :: "task \<Rightarrow> (string \<times> jval) list" where
  "task_fields t =
    [(''id'', JStr (task_id t)), (''connector_id'', JStr (task_connector_id t)),
     (''command'', JStr (task_command t)), (''payload_json'', JStr (task_payload_json t)),
     (''status'', JStr (task_status t)), (''created_at_ms'', JInt (task_created_at_ms t)),
     (''updated_at_ms'', JInt (task_updated_at_ms t)), (''scheduled_for_ms'', JInt (task_scheduled_for_ms t)),
     (''recurrence_ms'', JInt (task_recurrence_ms t)), (''run_count'', JInt (task_run_count t)),
     (''error_message'', JStr (task_error_message t)), (''result_json'', JStr (task_result_json t))]"

lemma build_task_json_fields: "build_task_json t = render_object (task_fields t)"
  by (simp add: build_task_json_def render_object_def task_fields_def json_string_field_render
      render_field_def needle_def)

lemma plain_keys_task_fields: "plain_keys (task_fields t)"
  by (simp add: task_fields_def plain_keys_def plain_key_def plain_char_def)

text \<open>
  Every field of a task survives the trip through its JSON text: the extractor of the
  field's type reads back the value, for any contents of the text fields.
\<close>

theorem task_json_roundtrip:
  "list_all (\<lambda>(k, v). case v of
       JStr s \<Rightarrow> extract_json_string_field (build_task_json t) k 0 = s
     | JInt n \<Rightarrow> extract_json_int_field (build_task_json t) k 0 = (if in_i64 n then Inr (Some n) else Inl OutOfRange)
     | JBool b \<Rightarrow> False) (task_fields t)"
proof -
  note pk = plain_keys_task_fields [of t]
  have d: "distinct (map fst (task_fields t))" by (simp add: task_fields_def)
  have keys: "plain_key k" if "(k, v) \<in> set (task_fields t)" for k v
    using pk that by (auto simp: plain_keys_def list_all_iff)
  have m: "map_of (task_fields t) k = Some v" if "(k, v) \<in> set (task_fields t)" for k v
    using d that by (rule map_of_is_SomeI)
  have nb: "v \<noteq> JBool b" if "(k, v) \<in> set (task_fields t)" for k v b
    using that by (auto simp: task_fields_def)
  show ?thesis
    unfolding list_all_iff build_task_json_fields render_object_members
    using members_string [OF keys pk] members_int [OF keys pk] m nb
    by (auto split: jval.splits)
qed

text \<open>What a request for a task turns into, when its JSON is a flat object.\<close>

text \<open>
  A request with a command, a positive delay and a positive recurrence becomes a task that
  is due exactly that delay after now (as long as the sum fits 64 bits) and repeats at the
  requested interval.
\<close>

theorem parse_task_request_scheduled:
  assumes "plain_keys fs" and "flat_string fs ''command'' \<noteq> []"
    and "map_of fs ''delay_ms'' = Some (JInt d)" and "0 < d" and "in_i64 d" and "in_i64 (now + d)"
    and "map_of fs ''recurrence_ms'' = Some (JInt r)" and "0 < r" and "in_i64 r"
  shows "\<exists>t. parse_task_request_from_json now (render_object fs) = Inr (Inr t)
    \<and> task_command t = flat_string fs ''command'' \<and> task_connector_id t = flat_string fs ''connector_id''
    \<and> task_payload_json t = flat_string fs ''payload_json''
    \<and> task_scheduled_for_ms t = now + d \<and> task_recurrence_ms t = r \<and> task_id t = [] \<and> task_status t = []"
proof -
  have "plain_key ''command''" "plain_key ''connector_id''" "plain_key ''payload_json''"
      "plain_key ''delay_ms''" "plain_key ''recurrence_ms''"
    by (simp_all add: plain_key_def plain_char_def)
  then show ?thesis
    using assms
    by (simp add: parse_task_request_from_json_def extract_flat_string extract_flat_int empty_task_def wrap64_id)
qed

theorem parse_task_request_scheduled_witness:
  "\<exists>t. parse_task_request_from_json 1000
       (render_object [(''command'', JStr ''run''), (''delay_ms'', JInt 500), (''recurrence_ms'', JInt 60000)]) = Inr (Inr t)
    \<and> task_scheduled_for_ms t = 1500 \<and> task_recurrence_ms t = 60000"
  using parse_task_request_scheduled
    [of "[(''command'', JStr ''run''), (''delay_ms'', JInt 500), (''recurrence_ms'', JInt 60000)]" 500 1000 60000]
  by (auto simp: flat_string_def plain_keys_def plain_key_def plain_char_def in_i64_def)

text \<open>
  An integer field whose literal does not fit 64 bits does not make the parser answer
  \<open>false\<close>: the exception of \<open>std::stoll\<close> escapes it.
\<close>

theorem parse_task_request_throws:
  assumes "plain_keys fs" and "flat_string fs ''command'' \<noteq> []"
    and "map_of fs ''delay_ms'' = Some (JInt d)" and "\<not> in_i64 d"
  shows "parse_task_request_from_json now (render_object fs) = Inl OutOfRange"
proof -
  have "plain_key ''command''" "plain_key ''delay_ms''"
    by (simp_all add: plain_key_def plain_char_def)
  then show ?thesis
    using assms
    by (simp add: parse_task_request_from_json_def extract_flat_string extract_flat_int)
qed

theorem parse_task_request_throws_witness:
  "parse_task_request_from_json 0 (render_object [(''command'', JStr ''run''), (''delay_ms'', JInt (10 ^ 20))]) = Inl OutOfRange"
  by (rule parse_task_request_throws [where d = "10 ^ 20"])
     (simp_all add: flat_string_def plain_keys_def plain_key_def plain_char_def in_i64_def)

end
