(* ===== verification/Task_Machine.thy ===== *)
theory Task_Machine imports Task_Queue begin

text \<open>
  The task queue as a state machine: one step per public operation, for any clock readings,
  and what holds in every reachable queue.
\<close>

named_theorems task_marks \<open>the status changes of a single task\<close>

lemmas mark_defs = mark_running_def mark_complete_def mark_failed_def mark_cancelled_def Let_def

lemma mark_ids [task_marks, simp]:
  "task_id (mark_running n t) = task_id t" "task_id (mark_complete n r t) = task_id t"
  "task_id (mark_failed n e t) = task_id t" "task_id (mark_cancelled n t) = task_id t"
  by (simp_all add: mark_defs)

lemma mark_recurrence [task_marks, simp]:
  "task_recurrence_ms (mark_running n t) = task_recurrence_ms t"
  "task_recurrence_ms (mark_complete n r t) = task_recurrence_ms t"
  "task_recurrence_ms (mark_failed n e t) = task_recurrence_ms t"
  "task_recurrence_ms (mark_cancelled n t) = task_recurrence_ms t"
  by (simp_all add: mark_defs)

lemma mark_status [task_marks, simp]:
  "task_status (mark_running n t) = ''running''"
  "task_status (mark_complete n r t) = (if task_recurrence_ms t > 0 then ''pending'' else ''done'')"
  "task_status (mark_failed n e t) = (if task_recurrence_ms t > 0 then ''pending'' else ''failed'')"
  "task_status (mark_cancelled n t) = ''cancelled''"
  by (simp_all add: mark_defs)

section \<open>Trimming\<close>

lemma trim_history_induct:
  assumes "P ts" and "\<And>us. P us \<Longrightarrow> length us > kMaxHistoryEntries \<Longrightarrow> \<exists>t \<in> set us. is_terminal t \<Longrightarrow> P (erase_first is_terminal us)"
  shows "P (trim_history ts)"
  using assms(1)
proof (induction ts rule: trim_history.induct)
  case (1 ts)
  then show ?case using assms(2) by (subst trim_history.simps) auto
qed

lemma set_trim_history: "set (trim_history ts) \<subseteq> set ts"
  by (rule trim_history_induct [of "\<lambda>us. set us \<subseteq> set ts"]) (auto dest: set_erase_first)

lemma distinct_trim_history: "distinct (map task_id ts) \<Longrightarrow> distinct (map task_id (trim_history ts))"
  by (rule trim_history_induct [of "\<lambda>us. distinct (map task_id us)"]) (auto simp: distinct_map_erase_first)

lemma filter_erase_first: "filter (\<lambda>x. \<not> p x) (erase_first p xs) = filter (\<lambda>x. \<not> p x) xs"
  by (induction xs) auto

lemma filter_trim_history: "filter (\<lambda>t. \<not> is_terminal t) (trim_history ts) = filter (\<lambda>t. \<not> is_terminal t) ts"
  by (rule trim_history_induct [of "\<lambda>us. filter (\<lambda>t. \<not> is_terminal t) us = filter (\<lambda>t. \<not> is_terminal t) ts"])
     (auto simp: filter_erase_first)

lemma trim_history_short: "length ts \<le> kMaxHistoryEntries \<Longrightarrow> trim_history ts = ts"
  by (simp add: trim_history.simps)

lemma trim_history_bound:
  "length (trim_history ts) \<le> kMaxHistoryEntries \<or> (\<forall>t \<in> set (trim_history ts). \<not> is_terminal t)"
proof (induction ts rule: trim_history.induct)
  case (1 ts)
  then show ?case by (subst (1 2) trim_history.simps) auto
qed

text \<open>
  Trimming keeps every pending and running task, in order; it only ever drops finished
  ones, and leaves at most 256 entries unless nothing finished is left to drop.
\<close>

theorem trim_history_keeps_live:
  "filter (\<lambda>t. \<not> is_terminal t) (trim_history ts) = filter (\<lambda>t. \<not> is_terminal t) ts
   \<and> (length (trim_history ts) > kMaxHistoryEntries \<longrightarrow> list_all (\<lambda>t. \<not> is_terminal t) (trim_history ts))"
  using filter_trim_history trim_history_bound [of ts] by (auto simp: list_all_iff)

theorem trim_history_keeps_live_witness:
  "list_all (\<lambda>t. \<not> is_terminal t) (trim_history (replicate 257 (empty_task\<lparr>task_status := ''pending''\<rparr>)))"
proof -
  let ?t = "empty_task\<lparr>task_status := ''pending''\<rparr>"
  have "trim_history (replicate 257 ?t) = replicate 257 ?t"
    by (subst trim_history.simps) (simp add: is_terminal_def)
  then show ?thesis
    using trim_history_keeps_live [of "replicate 257 ?t"] by (simp add: kMaxHistoryEntries_def)
qed

section \<open>Steps and reachable queues\<close>

text \<open>A task as \<open>parse_task_request_from_json\<close> hands it to \<open>enqueue\<close>.\<close>

definition fresh_task :: "task \<Rightarrow> bool" where
  "fresh_task t \<longleftrightarrow> task_id t = [] \<and> task_status t = []"

inductive queue_step :: "task_queue \<Rightarrow> task_queue \<Rightarrow> bool" where
  enqueue_step: "fresh_task t \<Longrightarrow> queue_step q (snd (enqueue c n t q))"
| claim_step: "queue_step q (snd (claim_next n q))"
| complete_step: "queue_step q (snd (complete n i r q))"
| fail_step: "queue_step q (snd (fail n i e q))"
| cancel_step: "queue_step q (snd (cancel n i q))"

inductive_cases queue_stepE: "queue_step q q'"

inductive reachable_queue :: "task_queue \<Rightarrow> bool" where
  reach_empty: "reachable_queue empty_queue"
| reach_step: "reachable_queue q \<Longrightarrow> queue_step q q' \<Longrightarrow> reachable_queue q'"

definition task_statuses :: "string list" where
  "task_statuses = [''pending'', ''running'', ''done'', ''failed'', ''cancelled'']"

definition task_ok :: "int \<Rightarrow> task \<Rightarrow> bool" where
  "task_ok counter t \<longleftrightarrow>
     task_status t \<in> set task_statuses
     \<and> (task_recurrence_ms t > 0 \<longrightarrow> task_status t \<noteq> ''done'' \<and> task_status t \<noteq> ''failed'')
     \<and> (\<exists>c s. task_id t = generate_task_id c s \<and> 1 \<le> s \<and> s \<le> counter)"

definition queue_inv :: "task_queue \<Rightarrow> bool" where
  "queue_inv q \<longleftrightarrow> 0 \<le> tq_counter q \<and> distinct (map task_id (tq_tasks q)) \<and> list_all (task_ok (tq_counter q)) (tq_tasks q)"

text \<open>The sequence number is read back from the end of a generated id.\<close>

definition id_sequence :: "string \<Rightarrow> int" where
  "id_sequence i = digits_val (rev (takeWhile is_digit (rev i)))"

lemma id_sequence_generated: "0 \<le> s \<Longrightarrow> id_sequence (generate_task_id c s) = s"
proof -
  assume s: "0 \<le> s"
  have "takeWhile is_digit (rev (dec_nat (nat s)) @ CHR ''-'' # x) = rev (dec_nat (nat s))" for x
    using dec_nat_digits [of "nat s"] by (subst takeWhile_append2) (auto simp: is_digit_def)
  with s show ?thesis
    by (simp add: id_sequence_def generate_task_id_def to_string_def)
qed

lemma task_ok_mono: "task_ok m t \<Longrightarrow> m \<le> n \<Longrightarrow> task_ok n t"
  by (force simp: task_ok_def)

lemma task_ok_marks:
  "task_ok n t \<Longrightarrow> task_ok n (mark_running k t)"
  "task_ok n t \<Longrightarrow> task_ok n (mark_complete k r t)"
  "task_ok n t \<Longrightarrow> task_ok n (mark_failed k e t)"
  "task_ok n t \<Longrightarrow> task_ok n (mark_cancelled k t)"
  by (auto simp: task_ok_def task_statuses_def)

lemma list_all_update_first: "list_all P xs \<Longrightarrow> (\<And>x. P x \<Longrightarrow> P (f x)) \<Longrightarrow> list_all P (update_first p f xs)"
  by (induction xs) auto

lemma list_all_trim: "list_all P ts \<Longrightarrow> list_all P (trim_history ts)"
  using set_trim_history by (fastforce simp: list_all_iff)

lemma queue_inv_update:
  assumes "queue_inv q" and "\<And>t. task_id (f t) = task_id t" and "\<And>t. task_ok (tq_counter q) t \<Longrightarrow> task_ok (tq_counter q) (f t)"
  shows "queue_inv (q\<lparr>tq_tasks := trim_history (update_first p f (tq_tasks q))\<rparr>)"
    and "queue_inv (q\<lparr>tq_tasks := update_first p f (tq_tasks q)\<rparr>)"
  using assms
  by (auto simp: queue_inv_def list_all_update_first list_all_trim distinct_trim_history map_update_first)

lemma enqueue_inv:
  assumes "queue_inv q" and "fresh_task t"
  shows "queue_inv (snd (enqueue c n t q))"
proof -
  let ?k = "tq_counter q + 1"
  let ?t = "t\<lparr>task_id := generate_task_id c ?k, task_status := ''pending'', task_created_at_ms := n, task_updated_at_ms := n\<rparr>"
  have old: "list_all (task_ok ?k) (tq_tasks q)" and nonneg: "0 \<le> tq_counter q"
    using assms(1) by (auto simp: queue_inv_def list_all_iff intro: task_ok_mono)
  have "id_sequence (task_id u) \<le> tq_counter q" if "u \<in> set (tq_tasks q)" for u
    using assms(1) that by (fastforce simp: queue_inv_def list_all_iff task_ok_def id_sequence_generated)
  moreover have "id_sequence (generate_task_id c ?k) = ?k"
    using nonneg by (simp add: id_sequence_generated)
  ultimately have "generate_task_id c ?k \<notin> task_id ` set (tq_tasks q)" by fastforce
  then have "distinct (map task_id (tq_tasks q @ [?t]))"
    using assms(1) by (auto simp: queue_inv_def)
  moreover have "\<exists>ca s. generate_task_id c ?k = generate_task_id ca s \<and> 1 \<le> s \<and> s \<le> ?k"
    using nonneg by (intro exI [of _ c] exI [of _ ?k]) simp
  then have "task_ok ?k ?t"
    by (simp add: task_ok_def task_statuses_def)
  moreover have "snd (enqueue c n t q) = \<lparr>tq_tasks = trim_history (tq_tasks q @ [?t]), tq_counter = ?k\<rparr>"
    using assms(2) by (simp add: enqueue_def fresh_task_def Let_def)
  ultimately show ?thesis
    using old nonneg by (simp add: queue_inv_def distinct_trim_history list_all_trim)
qed

lemma queue_step_inv: "queue_step q q' \<Longrightarrow> queue_inv q \<Longrightarrow> queue_inv q'"
proof (induction rule: queue_step.induct)
  case (enqueue_step t q c n)
  then show ?case by (rule enqueue_inv [rotated])
qed (auto simp: claim_next_def complete_def fail_def cancel_def task_ok_marks
       intro: queue_inv_update split: option.splits)

lemma reachable_queue_inv: "reachable_queue q \<Longrightarrow> queue_inv q"
proof (induction rule: reachable_queue.induct)
  case reach_empty
  show ?case by (simp add: queue_inv_def empty_queue_def)
next
  case (reach_step q q')
  then show ?case by (blast intro: queue_step_inv)
qed

text \<open>
  C26: in every queue reachable through the public operations, for any clock, ids are unique,
  every status is one of the five documented ones, and a recurring task is never \<open>done\<close> or
  \<open>failed\<close>.
\<close>

theorem reachable_queue_well_formed:
  assumes "reachable_queue q"
  shows "distinct (map task_id (tq_tasks q))
    \<and> (\<forall>t \<in> set (tq_tasks q). task_status t \<in> set task_statuses
         \<and> (task_recurrence_ms t > 0 \<longrightarrow> task_status t \<noteq> ''done'' \<and> task_status t \<noteq> ''failed''))"
  using reachable_queue_inv [OF assms] by (auto simp: queue_inv_def list_all_iff task_ok_def)

definition demo_queue :: task_queue where
  "demo_queue = snd (enqueue 7 8 (empty_task\<lparr>task_command := ''run'', task_recurrence_ms := 5000\<rparr>) empty_queue)"

lemma demo_queue_reachable: "reachable_queue demo_queue"
  unfolding demo_queue_def
  by (rule reach_step [OF reach_empty]) (rule enqueue_step, simp add: fresh_task_def empty_task_def)

theorem reachable_queue_well_formed_witness:
  "distinct (map task_id (tq_tasks (snd (claim_next 9 demo_queue))))"
  using reachable_queue_well_formed [OF reach_step [OF demo_queue_reachable claim_step [of demo_queue 9]]]
  by blast

section \<open>Lookup, claiming and cancelling\<close>

interpretation task_store: keyed_store task_id tq_tasks find_task
  by unfold_locales (simp add: find_task_def)

text \<open>
  C38: \<open>claim_next\<close> answers nothing exactly when no pending task is due; otherwise it hands out
  the first one that is, marked running with its run counter increased, and one fewer task
  stays claimable at that time.
\<close>

theorem claim_next_spec:
  "case claim_next now q of
     (None, q') \<Rightarrow> q' = q \<and> filter (claimable now) (tq_tasks q) = []
   | (Some t, q') \<Rightarrow>
       (\<exists>u us. filter (claimable now) (tq_tasks q) = u # us \<and> t = mark_running now u
          \<and> task_status t = ''running'' \<and> task_run_count t = task_run_count u + 1
          \<and> filter (claimable now) (tq_tasks q') = us)"
proof -
  have split: "find P xs = None \<and> filter P xs = [] \<or>
      (\<exists>u us. find P xs = Some u \<and> filter P xs = u # us \<and> filter P (update_first P f xs) = us)"
    if "\<And>x. \<not> P (f x)" for P f and xs :: "task list"
    using that by (induction xs) auto
  have "\<not> claimable now (mark_running now x)" for x
    by (simp add: claimable_def)
  from split [of "claimable now" "mark_running now" "tq_tasks q", OF this] show ?thesis
    by (auto simp: claim_next_def mark_running_def)
qed

lemma find_task_update:
  assumes "find_task q i = Some t" and "task_id (f t) = task_id t" and "length (tq_tasks q) \<le> kMaxHistoryEntries"
  shows "find_task (q\<lparr>tq_tasks := trim_history (update_first (\<lambda>t. task_id t = i) f (tq_tasks q))\<rparr>) i = Some (f t)"
  using assms task_store.lookup_sound [OF assms(1)]
  by (simp add: find_task_def trim_history_short find_update_first_same)

text \<open>
  A recurring task that is cancelled while it runs does not stay cancelled: the operation
  that reports the end of the run puts it back to \<open>pending\<close>, due one interval later.
\<close>

theorem cancelled_recurring_task_revived:
  assumes "find_task q i = Some t" and "task_status t = ''running''" and "task_recurrence_ms t > 0"
    and "length (tq_tasks q) \<le> kMaxHistoryEntries" and "in_i64 (n2 + task_recurrence_ms t)"
  shows "fst (cancel n1 i q) \<and> (\<exists>u. find_task (snd (complete n2 i r (snd (cancel n1 i q)))) i = Some u
     \<and> task_status u = ''pending'' \<and> claimable (n2 + task_recurrence_ms t) u)"
proof -
  let ?q1 = "q\<lparr>tq_tasks := trim_history (update_first (\<lambda>t. task_id t = i) (mark_cancelled n1) (tq_tasks q))\<rparr>"
  let ?u = "mark_complete n2 r (mark_cancelled n1 t)"
  have c: "cancel n1 i q = (True, ?q1)"
    using assms(1,2) by (simp add: cancel_def find_task_def is_terminal_def)
  have f1: "find_task ?q1 i = Some (mark_cancelled n1 t)"
    by (rule find_task_update [OF assms(1) _ assms(4)]) simp
  have "length (tq_tasks ?q1) \<le> kMaxHistoryEntries"
    using assms(4) by (simp add: trim_history_short)
  then have "find_task (snd (complete n2 i r ?q1)) i = Some ?u"
    using find_task_update [OF f1, of "mark_complete n2 r"] f1 by (simp add: complete_def find_task_def)
  moreover have "task_status ?u = ''pending''" "task_scheduled_for_ms ?u = n2 + task_recurrence_ms t"
    using assms(3,5) by (simp_all add: mark_complete_def mark_cancelled_def wrap64_id)
  ultimately show ?thesis by (simp add: c claimable_def)
qed

text \<open>A queue with one recurring task that has just been claimed.\<close>

definition demo_running :: task_queue where
  "demo_running = snd (claim_next 9 demo_queue)"

lemma demo_running_eval:
  "tq_tasks demo_running = [empty_task\<lparr>task_id := generate_task_id 7 1, task_command := ''run'', task_status := ''running'',
     task_created_at_ms := 8, task_updated_at_ms := 9, task_recurrence_ms := 5000, task_run_count := 1\<rparr>]"
  by (simp add: demo_running_def demo_queue_def enqueue_def Let_def empty_queue_def empty_task_def trim_history_short
      kMaxHistoryEntries_def claim_next_def claimable_def mark_running_def)

theorem cancelled_recurring_task_revived_witness:
  "fst (cancel 10 (generate_task_id 7 1) demo_running) \<and>
   (\<exists>u. find_task (snd (complete 11 (generate_task_id 7 1) [] (snd (cancel 10 (generate_task_id 7 1) demo_running))))
        (generate_task_id 7 1) = Some u \<and> task_status u = ''pending'' \<and> claimable 5011 u)"
proof -
  let ?t = "empty_task\<lparr>task_id := generate_task_id 7 1, task_command := ''run'', task_status := ''running'',
     task_created_at_ms := 8, task_updated_at_ms := 9, task_recurrence_ms := 5000, task_run_count := 1\<rparr>"
  show ?thesis
    using cancelled_recurring_task_revived [of demo_running "generate_task_id 7 1" ?t 11 10 "[]"]
    by (simp add: find_task_def demo_running_eval kMaxHistoryEntries_def in_i64_def)
qed

end
