(* ===== verification/Json_Array.thy ===== *)
theory Json_Array imports Json begin

text \<open>
  The brace-depth walk that splits the text of a JSON array into its objects. Two translation
  units hold a copy (\<open>ai::extract_json_object_array_at\<close> and \<open>extract_connector_objects\<close>); the
  walk counts braces without looking at string boundaries.
\<close>

definition is_array_gap :: "char \<Rightarrow> bool" where
  "is_array_gap c \<longleftrightarrow> c = blank \<or> c = tab \<or> c = newline \<or> c = carriage \<or> c = comma"

text \<open>
  The inner \<open>for\<close> loop, from the cursor on: the characters it passes, and what is left behind
  the brace that brings the depth back to 0 (or the end of the text).
\<close>

fun close_object :: "nat \<Rightarrow> string \<Rightarrow> string \<times> string" where
  "close_object depth [] = ([], [])"
| "close_object depth (c # s) =
     (if c = lbrace then apfst ((#) c) (close_object (depth + 1) s)
      else if c = rbrace then
        (if depth - 1 = 0 then ([c], s) else apfst ((#) c) (close_object (depth - 1) s))
      else apfst ((#) c) (close_object depth s))"

lemma close_object_length: "length (snd (close_object d s)) \<le> length s"
  by (induction d s rule: close_object.induct) auto

lemma close_object_shrinks: "s \<noteq> [] \<Longrightarrow> length (snd (close_object d s)) < length s"
  by (cases s) (auto simp: less_Suc_eq_le close_object_length)

text \<open>The outer loop behind the opening bracket.\<close>

function objects_loop :: "string \<Rightarrow> string list" where
  "objects_loop s =
     (let t = dropWhile is_array_gap s
      in if t = [] \<or> hd t = CHR '']'' then []
         else if hd t \<noteq> lbrace then []
         else fst (close_object 0 t) # objects_loop (snd (close_object 0 t)))"
  by pat_completeness auto
termination
proof (relation "measure length", goal_cases)
  case 1
  show ?case by simp
next
  case (2 s t)
  then have "length (snd (close_object 0 t)) < length t"
    by (intro close_object_shrinks) auto
  also have "length t \<le> length s" using 2 by (simp add: length_dropWhile_le)
  finally show ?case by simp
qed

declare objects_loop.simps [simp del]

text \<open>Running depth over a text that must stay inside the object it belongs to.\<close>

fun walk_depth :: "nat \<Rightarrow> string \<Rightarrow> nat option" where
  "walk_depth d [] = Some d"
| "walk_depth d (c # s) =
     (if c = lbrace then walk_depth (d + 1) s
      else if c = rbrace then (if d \<le> 1 then None else walk_depth (d - 1) s)
      else walk_depth d s)"

definition object_text :: "string \<Rightarrow> bool" where
  "object_text t \<longleftrightarrow> (\<exists>inner. t = lbrace # inner @ [rbrace] \<and> walk_depth 1 inner = Some 1)"

lemma close_object_inner:
  "walk_depth d inner = Some 1 \<Longrightarrow> 1 \<le> d \<Longrightarrow> close_object d (inner @ rbrace # r) = (inner @ [rbrace], r)"
proof (induction d inner rule: walk_depth.induct)
  case (1 d)
  then show ?case by simp
next
  case (2 d c s)
  then show ?case by (auto split: if_splits)
qed

lemma close_object_text: "object_text t \<Longrightarrow> close_object 0 (t @ r) = (t, r)"
  using close_object_inner [of 1 _ r] by (auto simp: object_text_def)

lemma objects_loop_text:
  "object_text t \<Longrightarrow> objects_loop (t @ r) = t # objects_loop r"
proof -
  assume t: "object_text t"
  then have "dropWhile is_array_gap (t @ r) = t @ r" "t @ r \<noteq> []" "hd (t @ r) = lbrace"
    by (auto simp: object_text_def is_array_gap_def)
  with close_object_text [OF t] show ?thesis by (subst objects_loop.simps) (simp add: Let_def)
qed

lemma objects_loop_gap: "is_array_gap c \<Longrightarrow> objects_loop (c # s) = objects_loop s"
  by (subst (1 2) objects_loop.simps) simp

lemma objects_loop_end [simp]: "objects_loop (CHR '']'' # s) = []"
  by (subst objects_loop.simps) (simp add: is_array_gap_def)

text \<open>
  Splitting inverts joining. A comma-separated array of objects whose braces balance is
  split into exactly these objects, and the text behind the closing bracket is ignored.
\<close>

theorem objects_loop_join:
  assumes "list_all object_text ts"
  shows "objects_loop (join_comma ts @ CHR '']'' # rest) = ts"
  using assms
proof (induction ts rule: join_comma.induct)
  case 1
  then show ?case by simp
next
  case (2 x)
  then show ?case by (simp add: objects_loop_text)
next
  case (3 x y ys)
  have "objects_loop (comma # join_comma (y # ys) @ CHR '']'' # rest) = y # ys"
    using 3 by (subst objects_loop_gap) (simp_all add: is_array_gap_def)
  with 3 show ?case by (simp add: objects_loop_text)
qed

theorem objects_loop_join_witness:
  "objects_loop (join_comma [''{a}'', ''{b{c}}''] @ CHR '']'' # ''x'') = [''{a}'', ''{b{c}}'']"
proof (rule objects_loop_join)
  have "object_text ''{a}''" "object_text ''{b{c}}''"
    unfolding object_text_def
    by (intro exI [of _ "''a''"], simp) (intro exI [of _ "''b{c}''"], simp)
  then show "list_all object_text [''{a}'', ''{b{c}}'']" by simp
qed

lemma walk_depth_append: "walk_depth d (s @ t) = Option.bind (walk_depth d s) (\<lambda>e. walk_depth e t)"
  by (induction d s rule: walk_depth.induct) auto

lemma walk_depth_braceless: "lbrace \<notin> set s \<Longrightarrow> rbrace \<notin> set s \<Longrightarrow> walk_depth d s = Some d"
  by (induction s) auto

section \<open>Scanning composed text\<close>

text \<open>
  Rewrite rules for texts composed of keys, string fields, numbers and punctuation: where the
  needle of a key is found, and how the brace depth moves. The pieces stay folded.
\<close>

named_theorems scan_simps \<open>where a needle is found in composed text\<close>
named_theorems walk_simps \<open>brace depth over composed text\<close>

lemma scan_char [scan_simps]: "c \<noteq> quot \<Longrightarrow> after_str (needle k) (c # t) = after_str (needle k) t"
  by (simp add: after_str_Cons needle_def)

lemma scan_colon: "plain_key k \<Longrightarrow> after_str (needle k) (quot # colon # t) = after_str (needle k) t"
  by (cases k) (auto simp: after_str_Cons needle_def plain_key_def plain_char_def)

lemma scan_key [scan_simps]:
  assumes "plain_key k" and "plain_key k'"
  shows "after_str (needle k) (needle k' @ t) = (if k = k' then Some t else after_str (needle k) t)"
proof (cases "k = k'")
  case False
  have nq: "quot \<notin> set k'" using assms(2) by (auto simp: plain_key_def plain_char_def list_all_iff)
  have "after_str (needle k) (needle k' @ t) = after_str (needle k) (k' @ quot # colon # t)"
    using False assms needle_prefix_iff [of k k' t] by (simp add: after_str_Cons needle_def)
  also have "\<dots> = after_str (needle k) (quot # colon # t)"
    by (rule skip_noquote [OF nq])
  also have "\<dots> = after_str (needle k) t"
    by (rule scan_colon [OF assms(1)])
  finally show ?thesis using False by simp
qed simp

lemma scan_string_value:
  assumes "plain_key k" and "member_end t"
  shows "after_str (needle k) (quot # escape_json_string v @ quot # t) = after_str (needle k) t"
proof -
  have "\<not> prefix (k @ [quot, colon]) (escape_json_string v @ quot # t)"
    using assms by (intro no_needle_in_escaped) (auto simp: member_end_iff)
  then show ?thesis
    using skip_escaped [OF assms(1), of t v] assms(2)
    by (simp add: after_str_Cons needle_def member_end_iff)
qed

lemma string_field_text: "json_string_field k v @ t = needle k @ quot # escape_json_string v @ quot # t"
  by (simp add: json_string_field_def needle_def)

lemma scan_string_field [scan_simps]:
  assumes "plain_key k" and "plain_key k'" and "member_end t"
  shows "after_str (needle k) (json_string_field k' v @ t) =
    (if k = k' then Some (quot # escape_json_string v @ quot # t) else after_str (needle k) t)"
  by (simp add: string_field_text scan_key assms scan_string_value)

lemma scan_to_string [scan_simps]: "after_str (needle k) (to_string n @ t) = after_str (needle k) t"
  by (rule skip_noquote [OF to_string_no_quote])

lemma read_after_string_field [scan_simps]:
  "after_str (needle k) (drop n json) = Some (quot # escape_json_string v @ quot # t) \<Longrightarrow>
     extract_json_string_field json k n = v"
  by (simp add: extract_string_after skip_blank_def read_string_body_escape)

lemma bracket_after:
  assumes "after_str (needle k) s = Some (CHR ''['' # u)" and "CHR ''['' \<notin> set k"
  obtains i b where "find_str (needle k) s = Some i" and "find_from ''['' s i = Some b"
    and "b < length s" and "s ! b = CHR ''[''" and "drop (Suc b) s = u"
proof -
  obtain i where i: "find_str (needle k) s = Some i" and d: "drop (i + length (needle k)) s = CHR ''['' # u"
    using assms(1) by (auto simp: after_str_def)
  let ?b = "i + length (needle k)"
  have le: "?b < length s"
    using d by (metis drop_all linorder_not_less list.distinct(1))
  have "drop i s = needle k @ CHR ''['' # u"
    using find_str_drop [OF i] d by simp
  moreover have "find_str ''['' (needle k @ CHR ''['' # u) = Some (length (needle k))"
  proof -
    have "find_str ''['' (w @ CHR ''['' # u) = Some (length w)" if "CHR ''['' \<notin> set w" for w
      using that by (induction w) auto
    moreover have "CHR ''['' \<notin> set (needle k)" using assms(2) by (auto simp: needle_def)
    ultimately show ?thesis by blast
  qed
  ultimately have "find_from ''['' s i = Some ?b"
    using le by (simp add: find_from_def add.commute)
  moreover have "s ! ?b = CHR ''[''" "drop (Suc ?b) s = u"
    using d le by (simp_all add: Cons_nth_drop_Suc [symmetric])
  ultimately show thesis using that i le by blast
qed

lemma walk_escape [walk_simps]: "walk_depth d (escape_json_string v) = walk_depth d v"
  by (induction v arbitrary: d) auto

lemma walk_shift: "walk_depth d s = Some e \<Longrightarrow> walk_depth (d + n) s = Some (e + n)"
proof (induction d s rule: walk_depth.induct)
  case (1 d)
  then show ?case by simp
next
  case (2 d c s)
  then show ?case by (auto split: if_splits)
qed

definition balanced :: "string \<Rightarrow> bool" where
  "balanced s \<longleftrightarrow> walk_depth 1 s = Some 1"

lemma walk_balanced: "balanced s \<Longrightarrow> 1 \<le> d \<Longrightarrow> walk_depth d (s @ t) = walk_depth d t"
  using walk_shift [of 1 s 1 "d - 1"] by (simp add: balanced_def walk_depth_append)

lemma walk_string_field [walk_simps]:
  assumes "lbrace \<notin> set k" and "rbrace \<notin> set k" and "balanced v" and "1 \<le> d"
  shows "walk_depth d (json_string_field k v @ t) = walk_depth d t"
proof -
  have "balanced (escape_json_string v)" using assms(3) by (simp add: balanced_def walk_escape)
  then have "walk_depth d (escape_json_string v) = Some d"
    using walk_balanced [of "escape_json_string v" d "[]"] assms(4) by simp
  then show ?thesis
    using assms by (simp add: json_string_field_def walk_depth_append walk_depth_braceless)
qed

lemma walk_key [walk_simps]:
  "lbrace \<notin> set k \<Longrightarrow> rbrace \<notin> set k \<Longrightarrow> walk_depth d (needle k @ t) = walk_depth d t"
  by (simp add: needle_def walk_depth_append walk_depth_braceless)

lemma walk_to_string [walk_simps]: "walk_depth d (to_string n @ t) = walk_depth d t"
proof -
  have "lbrace \<notin> set (to_string n)" "rbrace \<notin> set (to_string n)"
    using not_digit_not_dec [of lbrace] not_digit_not_dec [of rbrace] by (auto simp: to_string_def is_digit_def)
  then show ?thesis by (simp add: walk_depth_append walk_depth_braceless)
qed

lemma read_after_bare:
  assumes "after_str (needle k) (drop n json) = None"
  shows "extract_json_string_field json k n = []"
  by (simp add: extract_string_after assms)

lemma read_int_after:
  assumes "after_str (needle k) (drop n json) = Some (to_string v @ t)" and "member_end t"
  shows "extract_json_int_field json k n = (if in_i64 v then Inr (Some v) else Inl OutOfRange)"
proof -
  have "skip_blank (to_string v @ t) = to_string v @ t"
    using skip_blank_render [of "JInt v" t] by simp
  then have "field_text json k n = Some (render_value (JInt v) @ t)"
    by (simp add: field_text_after assms)
  then show ?thesis by (rule read_int_field_text) (rule assms)
qed

end
