(* ===== verification/Connector.thy ===== *)
theory Connector imports Json_Array Keyed_Store begin

text \<open>\<open>src/net/connector.cpp\<close>: the connector registry and its JSON.\<close>

record connector =
  con_id :: string
  con_kind :: string
  con_base_url :: string
  con_launch_cmd :: string
  con_work_dir :: string
  con_capabilities :: "string list"
  con_enabled :: bool

definition empty_connector :: connector where
  "empty_connector = \<lparr>con_id = [], con_kind = [], con_base_url = [], con_launch_cmd = [],
     con_work_dir = [], con_capabilities = [], con_enabled = True\<rparr>"

record connector_registry =
  reg_connectors :: "connector list"

definition register_connector :: "connector \<Rightarrow> connector_registry \<Rightarrow> connector_registry" where
  "register_connector c r =
     (if con_id c = [] \<or> con_kind c = [] then r
      else if \<exists>e \<in> set (reg_connectors r). con_id e = con_id c
      then r\<lparr>reg_connectors := update_first (\<lambda>e. con_id e = con_id c) (\<lambda>_. c) (reg_connectors r)\<rparr>
      else r\<lparr>reg_connectors := reg_connectors r @ [c]\<rparr>)"

definition unregister_connector :: "string \<Rightarrow> connector_registry \<Rightarrow> bool \<times> connector_registry" where
  "unregister_connector cid r =
     (if \<exists>e \<in> set (reg_connectors r). con_id e = cid
      then (True, r\<lparr>reg_connectors := erase_first (\<lambda>e. con_id e = cid) (reg_connectors r)\<rparr>)
      else (False, r))"

definition list_connectors :: "connector_registry \<Rightarrow> connector list" where
  "list_connectors r = reg_connectors r"

definition find_connector :: "connector_registry \<Rightarrow> string \<Rightarrow> connector option" where
  "find_connector r cid = find (\<lambda>c. con_id c = cid) (reg_connectors r)"

definition connector_json :: "connector \<Rightarrow> string" where
  "connector_json c =
     [lbrace]
     @ json_string_field ''id'' (con_id c) @ [comma]
     @ json_string_field ''kind'' (con_kind c) @ [comma]
     @ json_string_field ''base_url'' (con_base_url c) @ [comma]
     @ json_string_field ''launch_cmd'' (con_launch_cmd c) @ [comma]
     @ json_string_field ''work_dir'' (con_work_dir c) @ [comma]
     @ json_bool_field ''enabled'' (con_enabled c) @ [comma]
     @ needle ''capabilities'' @ ''[''
     @ join_comma (map (\<lambda>s. [quot] @ escape_json_string s @ [quot]) (con_capabilities c))
     @ '']'' @ [rbrace]"

definition build_connectors_json :: "connector list \<Rightarrow> string" where
  "build_connectors_json cs =
     [lbrace] @ json_bool_field ''ok'' True @ [comma] @ needle ''connectors'' @ ''[''
     @ join_comma (map connector_json cs) @ '']'' @ [rbrace]"

text \<open>\<open>Inl\<close> is the result \<open>false\<close> with the error text.\<close>

definition parse_connector_from_json :: "string \<Rightarrow> string + connector" where
  "parse_connector_from_json json =
     (let cid = extract_json_string_field json ''id'' 0;
          kind = extract_json_string_field json ''kind'' 0
      in if cid = [] \<or> kind = [] then Inl ''Connector requires id and kind.''
         else if kind \<noteq> ''http_peer'' \<and> kind \<noteq> ''launched_process''
         then Inl ''Connector kind must be http_peer or launched_process.''
         else
           (let capability = extract_json_string_field json ''capabilities'' 0
            in Inr (empty_connector\<lparr>con_id := cid, con_kind := kind,
                 con_base_url := extract_json_string_field json ''base_url'' 0,
                 con_launch_cmd := extract_json_string_field json ''launch_cmd'' 0,
                 con_work_dir := extract_json_string_field json ''work_dir'' 0,
                 con_enabled := (case extract_json_bool_field json ''enabled'' 0 of Some b \<Rightarrow> b | None \<Rightarrow> True),
                 con_capabilities := (if capability = [] then [] else [capability])\<rparr>)))"

section \<open>The registry as a store\<close>

interpretation registry: mutable_store con_id reg_connectors find_connector register_connector
  "\<lambda>cid r. snd (unregister_connector cid r)" "\<lambda>c. con_id c \<noteq> [] \<and> con_kind c \<noteq> []"
proof (unfold_locales, goal_cases)
  case (1 s k)
  show ?case by (simp add: find_connector_def)
next
  case (2 x s)
  show ?case by (auto simp: register_connector_def image_iff)
next
  case (3 k s)
  show ?case by (auto simp: unregister_connector_def erase_first_none)
qed

datatype registry_op = Register connector | Unregister string

fun registry_run :: "registry_op list \<Rightarrow> connector_registry \<Rightarrow> connector_registry" where
  "registry_run [] r = r"
| "registry_run (Register c # ops) r = registry_run ops (register_connector c r)"
| "registry_run (Unregister i # ops) r = registry_run ops (snd (unregister_connector i r))"

definition registry_ok :: "connector_registry \<Rightarrow> bool" where
  "registry_ok r \<longleftrightarrow> distinct (map con_id (reg_connectors r))
     \<and> list_all (\<lambda>c. con_id c \<noteq> [] \<and> con_kind c \<noteq> []) (reg_connectors r)"

lemma registry_ok_step:
  "registry_ok r \<Longrightarrow> registry_ok (register_connector c r)"
  "registry_ok r \<Longrightarrow> registry_ok (snd (unregister_connector i r))"
  using registry.distinct_put [of r c] registry.distinct_remove [of r i]
  by (auto simp: registry_ok_def register_connector_def unregister_connector_def list_all_iff
      dest!: set_update_first set_erase_first split: if_splits)

lemma registry_ok_run: "registry_ok r \<Longrightarrow> registry_ok (registry_run ops r)"
  by (induction ops r rule: registry_run.induct) (auto simp: registry_ok_step)

text \<open>
  After any sequence of registrations and removals, a further registration of a connector
  with an id and a kind is what a lookup of its id finds, a removal makes the lookup fail, and
  both leave every other id alone.
\<close>

theorem registry_lookup_laws:
  assumes "r = registry_run ops \<lparr>reg_connectors = []\<rparr>" and "con_id c \<noteq> []" and "con_kind c \<noteq> []"
  shows "find_connector (register_connector c r) i = (if i = con_id c then Some c else find_connector r i)
    \<and> find_connector (snd (unregister_connector j r)) i = (if i = j then None else find_connector r i)
    \<and> registry_ok r"
proof -
  have ok: "registry_ok r"
    using assms(1) registry_ok_run [of "\<lparr>reg_connectors = []\<rparr>"] by (simp add: registry_ok_def)
  then have "distinct (map con_id (reg_connectors r))" by (simp add: registry_ok_def)
  with ok show ?thesis
    using registry.lookup_put [of c r i] registry.lookup_remove [of r j i] assms(2,3) by simp
qed

theorem registry_lookup_laws_witness:
  "find_connector (register_connector (empty_connector\<lparr>con_id := ''a'', con_kind := ''http_peer''\<rparr>)
      (registry_run [Unregister ''b''] \<lparr>reg_connectors = []\<rparr>)) ''a''
    = Some (empty_connector\<lparr>con_id := ''a'', con_kind := ''http_peer''\<rparr>)"
  using registry_lookup_laws [of "registry_run [Unregister ''b''] \<lparr>reg_connectors = []\<rparr>" "[Unregister ''b'']"
      "empty_connector\<lparr>con_id := ''a'', con_kind := ''http_peer''\<rparr>" "''a''" "''b''"]
  by simp

section \<open>The JSON of one connector\<close>

definition connector_fields :: "connector \<Rightarrow> (string \<times> jval) list" where
  "connector_fields c =
    [(''id'', JStr (con_id c)), (''kind'', JStr (con_kind c)), (''base_url'', JStr (con_base_url c)),
     (''launch_cmd'', JStr (con_launch_cmd c)), (''work_dir'', JStr (con_work_dir c)),
     (''enabled'', JBool (con_enabled c))]"

definition connector_tail :: "connector \<Rightarrow> string" where
  "connector_tail c = [comma] @ needle ''capabilities'' @ ''[''
     @ join_comma (map (\<lambda>s. [quot] @ escape_json_string s @ [quot]) (con_capabilities c)) @ '']'' @ [rbrace]"

lemma connector_json_members: "connector_json c = render_members (connector_fields c) (connector_tail c)"
  by (simp add: connector_json_def render_members_def connector_fields_def connector_tail_def
      json_string_field_render json_bool_field_render)

lemma plain_connector_fields: "plain_keys (connector_fields c)"
  by (simp add: connector_fields_def plain_keys_def plain_key_def plain_char_def)

lemma member_end_connector_tail [simp]: "member_end (connector_tail c)"
  by (simp add: connector_tail_def)

lemma connector_json_reads:
  "extract_json_string_field (connector_json c) ''id'' 0 = con_id c"
  "extract_json_string_field (connector_json c) ''kind'' 0 = con_kind c"
  "extract_json_string_field (connector_json c) ''base_url'' 0 = con_base_url c"
  "extract_json_string_field (connector_json c) ''launch_cmd'' 0 = con_launch_cmd c"
  "extract_json_string_field (connector_json c) ''work_dir'' 0 = con_work_dir c"
  "extract_json_bool_field (connector_json c) ''enabled'' 0 = Some (con_enabled c)"
  using members_read [OF plain_connector_fields member_end_connector_tail, of _ c c]
  by (simp_all add: connector_json_members flat_string_def flat_bool_def connector_fields_def)

text \<open>The array of capabilities that was written is not what the parser reads.\<close>

lemma connector_json_capabilities: "extract_json_string_field (connector_json c) ''capabilities'' 0 = []"
proof -
  have k: "plain_key ''capabilities''" by (simp add: plain_key_def plain_char_def)
  have "after_str (needle ''capabilities'') (connector_json c) = after_str (needle ''capabilities'') (connector_tail c)"
  proof -
    have "after_str (needle ''capabilities'') (connector_json c) =
        after_str (needle ''capabilities'') (join_comma (map render_field (connector_fields c)) @ connector_tail c)"
      by (simp add: connector_json_members render_members_def after_str_Cons needle_def)
    also have "\<dots> = after_str (needle ''capabilities'') (connector_tail c)"
      using after_str_fields [OF k, of "connector_fields c" "connector_tail c"] plain_connector_fields [of c]
      by (simp add: connector_fields_def connector_tail_def plain_keys_def del: join_comma.simps)
    finally show ?thesis .
  qed
  also have "\<dots> = Some (''['' @ join_comma (map (\<lambda>s. [quot] @ escape_json_string s @ [quot]) (con_capabilities c)) @ '']'' @ [rbrace])"
    unfolding connector_tail_def
    by (subst append_Cons, subst after_str_Cons) (simp add: needle_def, simp)
  finally show ?thesis
    by (simp add: extract_string_after skip_blank_def)
qed

end
