(* ===== verification/App_State.thy ===== *)
theory App_State imports Connector begin

text \<open>
  The persistence of the connector registry in \<open>cli/droidcli.cpp\<close>: the saved state is the text
  of \<open>list_connectors_json\<close>, loaded again at the next start through the loader of \<open>--config\<close>
  files. The contents of the file are an argument.
\<close>

definition extract_connector_objects :: "string \<Rightarrow> string list" where
  "extract_connector_objects json =
     (case find_str (needle ''connectors'') json of
        None \<Rightarrow> []
      | Some array_key \<Rightarrow>
          (case find_from ''['' json array_key of
             None \<Rightarrow> []
           | Some cursor \<Rightarrow> objects_loop (drop (cursor + 1) json)))"

text \<open>\<open>DroidHost::register_connector\<close>: the response body and the new registry.\<close>

definition host_register_connector :: "string \<Rightarrow> connector_registry \<Rightarrow> string \<times> connector_registry" where
  "host_register_connector body r =
     (case parse_connector_from_json body of
        Inl err \<Rightarrow> ([lbrace] @ json_bool_field ''success'' False @ [comma] @ json_string_field ''error'' err @ [rbrace], r)
      | Inr c \<Rightarrow> ([lbrace] @ json_bool_field ''success'' True @ [comma] @ json_string_field ''id'' (con_id c) @ [rbrace],
                  register_connector c r))"

fun load_objects :: "string list \<Rightarrow> connector_registry \<Rightarrow> connector_registry" where
  "load_objects [] r = r"
| "load_objects (obj # objs) r =
     (case parse_connector_from_json obj of
        Inl _ \<Rightarrow> load_objects objs r
      | Inr _ \<Rightarrow> load_objects objs (snd (host_register_connector obj r)))"

definition load_connectors_from_config :: "string \<Rightarrow> connector_registry \<Rightarrow> connector_registry" where
  "load_connectors_from_config content r =
     (if content = [] then r else load_objects (extract_connector_objects content) r)"

text \<open>The state file may be missing (\<open>None\<close>).\<close>

definition load_state_if_present :: "string option \<Rightarrow> connector_registry \<Rightarrow> connector_registry" where
  "load_state_if_present file r =
     (case file of None \<Rightarrow> r | Some content \<Rightarrow> load_connectors_from_config content r)"

definition save_state :: "connector_registry \<Rightarrow> string" where
  "save_state r = build_connectors_json (list_connectors r)"

section \<open>Saving and loading\<close>

definition braceless :: "string \<Rightarrow> bool" where
  "braceless s \<longleftrightarrow> lbrace \<notin> set s \<and> rbrace \<notin> set s"

definition braceless_connector :: "connector \<Rightarrow> bool" where
  "braceless_connector c \<longleftrightarrow> list_all braceless
     ([con_id c, con_kind c, con_base_url c, con_launch_cmd c, con_work_dir c] @ con_capabilities c)"

lemma braceless_escape [simp]: "braceless s \<Longrightarrow> braceless (escape_json_string s)"
  by (induction s) (auto simp: braceless_def)

lemma braceless_append [simp]: "braceless (s @ t) \<longleftrightarrow> braceless s \<and> braceless t"
  by (auto simp: braceless_def)

lemma braceless_Cons [simp]: "braceless (c # s) \<longleftrightarrow> c \<noteq> lbrace \<and> c \<noteq> rbrace \<and> braceless s"
  by (auto simp: braceless_def)

lemma braceless_Nil [simp]: "braceless []"
  by (simp add: braceless_def)

lemma braceless_join: "list_all braceless ts \<Longrightarrow> braceless (join_comma ts)"
  by (induction ts rule: join_comma.induct) auto

lemma connector_object_text:
  assumes "braceless_connector c"
  shows "object_text (connector_json c)"
proof -
  obtain inner where j: "connector_json c = lbrace # inner @ [rbrace]" and b: "braceless inner"
  proof
    let ?caps = "join_comma (map (\<lambda>s. [quot] @ escape_json_string s @ [quot]) (con_capabilities c))"
    let ?inner = "json_string_field ''id'' (con_id c) @ [comma]
     @ json_string_field ''kind'' (con_kind c) @ [comma]
     @ json_string_field ''base_url'' (con_base_url c) @ [comma]
     @ json_string_field ''launch_cmd'' (con_launch_cmd c) @ [comma]
     @ json_string_field ''work_dir'' (con_work_dir c) @ [comma]
     @ json_bool_field ''enabled'' (con_enabled c) @ [comma] @ needle ''capabilities'' @ ''['' @ ?caps @ '']''"
    show "connector_json c = lbrace # ?inner @ [rbrace]" by (simp add: connector_json_def)
    have "braceless ?caps"
      using assms by (intro braceless_join) (auto simp: braceless_connector_def list_all_iff)
    then show "braceless ?inner"
      using assms by (simp add: braceless_connector_def json_string_field_def json_bool_field_def needle_def)
  qed
  then show ?thesis by (auto simp: object_text_def braceless_def walk_depth_braceless)
qed

lemma extract_saved_objects:
  assumes "list_all braceless_connector cs"
  shows "extract_connector_objects (build_connectors_json cs) = map connector_json cs"
proof -
  let ?arr = "join_comma (map connector_json cs) @ '']'' @ [rbrace]"
  let ?head = "[lbrace] @ json_bool_field ''ok'' True @ [comma]"
  have j: "build_connectors_json cs = ?head @ needle ''connectors'' @ ''['' @ ?arr"
    by (simp add: build_connectors_json_def)
  have 1: "find_str (needle ''connectors'') (build_connectors_json cs) = Some 11"
    by (simp add: j json_bool_field_def needle_def)
  have 2: "find_from ''['' (build_connectors_json cs) 11 = Some 24"
    by (simp add: j json_bool_field_def needle_def find_from_def)
  have "drop 25 (build_connectors_json cs) = ?arr"
    by (simp add: j json_bool_field_def needle_def)
  moreover have "objects_loop (join_comma (map connector_json cs) @ CHR '']'' # [rbrace]) = map connector_json cs"
    using objects_loop_join [of "map connector_json cs" "[rbrace]"] assms
    by (auto simp: list_all_iff connector_object_text)
  ultimately show ?thesis by (simp add: extract_connector_objects_def 1 2)
qed

definition known_kind :: "connector \<Rightarrow> bool" where
  "known_kind c \<longleftrightarrow> con_kind c = ''http_peer'' \<or> con_kind c = ''launched_process''"

lemma parse_connector_json:
  "con_id c \<noteq> [] \<Longrightarrow> known_kind c \<Longrightarrow>
     parse_connector_from_json (connector_json c) = Inr (c\<lparr>con_capabilities := []\<rparr>)"
  by (cases c) (auto simp: parse_connector_from_json_def connector_json_reads connector_json_capabilities
      known_kind_def empty_connector_def)

lemma load_objects_fresh:
  assumes "list_all (\<lambda>c. con_id c \<noteq> [] \<and> known_kind c) cs" and "distinct (map con_id (reg_connectors r) @ map con_id cs)"
  shows "reg_connectors (load_objects (map connector_json cs) r)
    = reg_connectors r @ map (\<lambda>c. c\<lparr>con_capabilities := []\<rparr>) cs"
  using assms
proof (induction cs arbitrary: r)
  case Nil
  then show ?case by simp
next
  case (Cons c cs)
  let ?c = "c\<lparr>con_capabilities := []\<rparr>"
  have p: "parse_connector_from_json (connector_json c) = Inr ?c"
    using Cons.prems(1) by (intro parse_connector_json) auto
  have "con_kind c \<noteq> []" using Cons.prems(1) by (auto simp: known_kind_def)
  moreover have "con_id c \<notin> set (map con_id (reg_connectors r))" using Cons.prems(2) by simp
  then have "\<not> (\<exists>e \<in> set (reg_connectors r). con_id e = con_id c)" by (metis image_eqI set_map)
  ultimately have r: "reg_connectors (snd (host_register_connector (connector_json c) r)) = reg_connectors r @ [?c]"
    using Cons.prems(1) by (simp add: host_register_connector_def p register_connector_def)
  show ?case
    using Cons.IH [of "snd (host_register_connector (connector_json c) r)"] Cons.prems by (simp add: p r)
qed

text \<open>
  Saving the registry and loading it at the next start restores every connector in order,
  with its kind, address, command, directory and enabled flag, for any text free of braces;
  its capabilities are lost.
\<close>

theorem state_roundtrip:
  assumes "registry_ok r" and "list_all (\<lambda>c. known_kind c \<and> braceless_connector c) (reg_connectors r)"
  shows "reg_connectors (load_state_if_present (Some (save_state r)) \<lparr>reg_connectors = []\<rparr>)
    = map (\<lambda>c. c\<lparr>con_capabilities := []\<rparr>) (reg_connectors r)"
proof -
  have "extract_connector_objects (save_state r) = map connector_json (reg_connectors r)"
    using assms(2) by (simp add: save_state_def list_connectors_def extract_saved_objects list_all_iff)
  moreover have "save_state r \<noteq> []" by (simp add: save_state_def build_connectors_json_def)
  ultimately show ?thesis
    using assms load_objects_fresh [of "reg_connectors r" "\<lparr>reg_connectors = []\<rparr>"]
    by (auto simp: load_state_if_present_def load_connectors_from_config_def registry_ok_def list_all_iff)
qed

theorem state_roundtrip_witness:
  "reg_connectors (load_state_if_present (Some (save_state
     \<lparr>reg_connectors = [empty_connector\<lparr>con_id := ''a'', con_kind := ''http_peer'', con_capabilities := [''x'']\<rparr>]\<rparr>))
     \<lparr>reg_connectors = []\<rparr>) = [empty_connector\<lparr>con_id := ''a'', con_kind := ''http_peer''\<rparr>]"
  using state_roundtrip [of "\<lparr>reg_connectors = [empty_connector\<lparr>con_id := ''a'', con_kind := ''http_peer'', con_capabilities := [''x'']\<rparr>]\<rparr>"]
  by (simp add: registry_ok_def known_kind_def braceless_connector_def empty_connector_def)

text \<open>
  A closing brace inside one connector's command ends the walk over the saved state: that
  connector loses its working directory and every connector after it is gone after a restart.
\<close>

theorem state_brace_loses_connectors:
  "map (\<lambda>c. (con_id c, con_launch_cmd c, con_work_dir c)) (reg_connectors (load_state_if_present (Some (save_state
      \<lparr>reg_connectors =
        [empty_connector\<lparr>con_id := ''a'', con_kind := ''launched_process'', con_launch_cmd := ''}'', con_work_dir := ''w''\<rparr>,
         empty_connector\<lparr>con_id := ''b'', con_kind := ''http_peer''\<rparr>]\<rparr>)) \<lparr>reg_connectors = []\<rparr>))
   = [(''a'', ''}'', [])]"
  by code_simp

end
