(* ===== verification/Response_Templates.thy ===== *)
theory Response_Templates imports Json begin

text \<open>
  \<open>src/classify\<close>: the decision type of a chat turn and the deterministic reply templates, the
  Phrase step that needs no model call. A template reads the fields of a tool's JSON result; an
  integer field outside 64 bits throws, so a reply is a result value.
\<close>

section \<open>turn_decision.hpp\<close>

datatype turn_decision_kind = LlmTool | PlainReply | TransportFailed

record turn_decision =
  td_kind :: turn_decision_kind
  td_tool_name :: string
  td_arguments_json :: string
  td_plain_reply_text :: string
  td_error_message :: string
  td_thinking_text :: string

definition empty_decision :: turn_decision where
  "empty_decision = \<lparr>td_kind = PlainReply, td_tool_name = [], td_arguments_json = [],
     td_plain_reply_text = [], td_error_message = [], td_thinking_text = []\<rparr>"

section \<open>response_templates.cpp\<close>

definition field :: "string \<Rightarrow> string \<Rightarrow> string" where
  "field json name = extract_json_string_field json name 0"

definition ok_field :: "string \<Rightarrow> bool" where
  "ok_field json = (case extract_json_bool_field json ''ok'' 0 of Some v \<Rightarrow> v | None \<Rightarrow> False)"

definition requested_path_or_name :: "string \<Rightarrow> string" where
  "requested_path_or_name arguments_json =
     (let v = field arguments_json ''path_or_name'' in if v = [] then field arguments_json ''path'' else v)"

text \<open>The path a result reports, or the one that was asked for.\<close>

definition resolved_or_requested :: "string \<Rightarrow> string \<Rightarrow> string" where
  "resolved_or_requested arguments_json result_json =
     (let resolved = field result_json ''resolved_path''
      in if resolved = [] then requested_path_or_name arguments_json else resolved)"

definition reply_for_open_application :: "string \<Rightarrow> string \<Rightarrow> string" where
  "reply_for_open_application arguments_json result_json =
     (if ok_field result_json then
        (let display_name = field result_json ''resolved_display_name''
         in if display_name \<noteq> [] then ''Opened '' @ display_name @ ''.''
            else ''Opened '' @ resolved_or_requested arguments_json result_json @ ''.'')
      else ''Couldn't open it: '' @ field result_json ''error'')"

definition reply_for_file_mutation :: "string \<Rightarrow> string \<Rightarrow> string \<Rightarrow> string \<Rightarrow> string" where
  "reply_for_file_mutation verb_done verb_failed arguments_json result_json =
     (if ok_field result_json then verb_done @ '' '' @ resolved_or_requested arguments_json result_json @ ''.''
      else verb_failed @ '': '' @ field result_json ''error'')"

definition reply_for_write_clipboard :: "string \<Rightarrow> string" where
  "reply_for_write_clipboard result_json =
     (if ok_field result_json then ''Copied to the clipboard.''
      else ''Couldn't write to the clipboard: '' @ field result_json ''error'')"

definition reply_for_shell_command :: "string \<Rightarrow> string \<Rightarrow> cpp_exception + string" where
  "reply_for_shell_command tool_name result_json =
     (case extract_json_int_field result_json ''exit_code'' 0 of
        Inl e \<Rightarrow> Inl e
      | Inr code \<Rightarrow>
          (let exit_code = (case code of Some n \<Rightarrow> n | None \<Rightarrow> 0); err = field result_json ''error''
           in if ok_field result_json
              then Inr ((if tool_name = ''run_ffmpeg'' then ''ffmpeg finished'' else ''The command finished'') @ '' successfully.'')
              else if err \<noteq> [] then Inr (''That failed: '' @ err)
              else Inr (''That failed (exit code '' @ to_string exit_code @ '').'')))"

definition try_template_reply :: "string \<Rightarrow> string \<Rightarrow> string \<Rightarrow> cpp_exception + string" where
  "try_template_reply tool_name arguments_json result_json =
     (if tool_name = ''open_application'' then Inr (reply_for_open_application arguments_json result_json)
      else if tool_name = ''write_file''
      then Inr (reply_for_file_mutation ''Wrote'' ''Couldn't write the file'' arguments_json result_json)
      else if tool_name = ''copy_file''
      then Inr (reply_for_file_mutation ''Copied to'' ''Couldn't copy the file'' arguments_json result_json)
      else if tool_name = ''move_path''
      then Inr (reply_for_file_mutation ''Moved to'' ''Couldn't move it'' arguments_json result_json)
      else if tool_name = ''delete_file''
      then Inr (reply_for_file_mutation ''Deleted'' ''Couldn't delete it'' arguments_json result_json)
      else if tool_name = ''create_directory''
      then Inr (reply_for_file_mutation ''Created'' ''Couldn't create the directory'' arguments_json result_json)
      else if tool_name = ''write_clipboard'' then Inr (reply_for_write_clipboard result_json)
      else if tool_name = ''run_command'' \<or> tool_name = ''run_ffmpeg'' then reply_for_shell_command tool_name result_json
      else Inr [])"

section \<open>Replies are honest\<close>

definition templated_tools :: "string list" where
  "templated_tools = [''open_application'', ''write_file'', ''copy_file'', ''move_path'', ''delete_file'',
     ''create_directory'', ''write_clipboard'', ''run_command'', ''run_ffmpeg'']"

text \<open>The openings of a reply that reports a failure.\<close>

definition reports_failure :: "string \<Rightarrow> bool" where
  "reports_failure reply \<longleftrightarrow> starts_with reply ''Couldn't'' \<or> starts_with reply ''That failed''"

lemma templated_tools_cases:
  "tool \<in> set templated_tools \<Longrightarrow> tool = ''open_application'' \<or> tool = ''write_file'' \<or> tool = ''copy_file''
     \<or> tool = ''move_path'' \<or> tool = ''delete_file'' \<or> tool = ''create_directory'' \<or> tool = ''write_clipboard''
     \<or> tool = ''run_command'' \<or> tool = ''run_ffmpeg''"
  by (simp add: templated_tools_def)

text \<open>
  A templated reply reports a failure exactly when the tool's result does not say that it
  succeeded: no template announces a success over a missing or false \<open>ok\<close> field, and none hides
  a success. Tools without a template give the empty reply.
\<close>

theorem template_reply_honest:
  "case try_template_reply tool args res of
     Inl e \<Rightarrow> tool = ''run_command'' \<or> tool = ''run_ffmpeg''
   | Inr reply \<Rightarrow>
       if tool \<in> set templated_tools then reply \<noteq> [] \<and> (reports_failure reply \<longleftrightarrow> \<not> ok_field res)
       else reply = []"
proof (cases "tool \<in> set templated_tools")
  case False
  then show ?thesis by (simp add: try_template_reply_def templated_tools_def)
next
  case True
  have shell: "case reply_for_shell_command t res of Inl e \<Rightarrow> True
      | Inr reply \<Rightarrow> reply \<noteq> [] \<and> (reports_failure reply \<longleftrightarrow> \<not> ok_field res)" for t
    by (simp add: reply_for_shell_command_def Let_def reports_failure_def starts_with_def split: sum.split)
  from True show ?thesis
    using templated_tools_cases [OF True] shell [of tool]
    by (elim disjE)
      (simp_all add: try_template_reply_def reply_for_open_application_def reply_for_file_mutation_def
        reply_for_write_clipboard_def reports_failure_def starts_with_def Let_def split: sum.splits)
qed

text \<open>
  A file tool's error text reaches the user verbatim, whatever characters it holds; it
  cannot turn the reply into a success.
\<close>

theorem template_reports_error_verbatim:
  "try_template_reply ''write_file'' args (render_object [(''ok'', JBool False), (''error'', JStr e)])
     = Inr (''Couldn't write the file: '' @ e)
   \<and> try_template_reply ''delete_file'' args (render_object [(''ok'', JBool False), (''error'', JStr e)])
     = Inr (''Couldn't delete it: '' @ e)"
proof -
  have k: "plain_key ''ok''" "plain_key ''error''" "plain_keys [(''ok'', JBool False), (''error'', JStr e)]"
    by (simp_all add: plain_key_def plain_keys_def plain_char_def)
  then have "\<not> ok_field (render_object [(''ok'', JBool False), (''error'', JStr e)])"
    and "field (render_object [(''ok'', JBool False), (''error'', JStr e)]) ''error'' = e"
    by (simp_all add: ok_field_def field_def extract_flat_bool extract_flat_string flat_bool_def flat_string_def)
  then show ?thesis by (simp add: try_template_reply_def reply_for_file_mutation_def)
qed

end
