(* ===== verification/Http_Wire.thy ===== *)
theory Http_Wire imports Decimal begin

text \<open>
  What the HTTP server and the HTTP client share: receiving from a socket, header lines and
  sending. A socket is the list of the byte runs its successive \<open>recv\<close> calls give; the end of
  the list, or an empty run, is a \<open>recv\<close> that returns 0 or an error.
\<close>

abbreviation crlf :: string where "crlf \<equiv> [carriage, newline]"
abbreviation blank_line :: string where "blank_line \<equiv> [carriage, newline, carriage, newline]"

text \<open>The loop \<open>while (buffer.find("\r\n\r\n") == npos)\<close> with its size limit.\<close>

fun recv_until :: "nat \<Rightarrow> string \<Rightarrow> string list \<Rightarrow> (string \<times> string list) option" where
  "recv_until limit buffer [] = (if contains buffer blank_line then Some (buffer, []) else None)"
| "recv_until limit buffer (chunk # chunks) =
     (if contains buffer blank_line then Some (buffer, chunk # chunks)
      else if chunk = [] then None
      else if length (buffer @ chunk) > limit then None
      else recv_until limit (buffer @ chunk) chunks)"

text \<open>The loop \<open>while (static_cast<int>(body.size()) < content_length)\<close>.\<close>

fun recv_body :: "int \<Rightarrow> string \<Rightarrow> string list \<Rightarrow> string" where
  "recv_body n body [] = body"
| "recv_body n body (chunk # chunks) =
     (if wrap32 (int (length body)) < n then
        (if chunk = [] then body else recv_body n (body @ chunk) chunks)
      else body)"

text \<open>\<open>std::getline\<close> until it fails.\<close>

function getlines :: "string \<Rightarrow> string list" where
  "getlines s =
     (if s = [] then []
      else takeWhile (\<lambda>c. c \<noteq> newline) s # getlines (drop 1 (dropWhile (\<lambda>c. c \<noteq> newline) s)))"
  by pat_completeness auto
termination
proof (relation "measure length", goal_cases)
  case (2 s)
  have "length (dropWhile (\<lambda>c. c \<noteq> newline) s) \<le> length s" by (rule length_dropWhile_le)
  with 2 show ?case by (cases s) (auto simp: less_Suc_eq_le)
qed simp

declare getlines.simps [simp del]

definition strip_cr :: "string \<Rightarrow> string" where
  "strip_cr line = (if line \<noteq> [] \<and> last line = carriage then butlast line else line)"

definition is_pad :: "char \<Rightarrow> bool" where
  "is_pad c \<longleftrightarrow> c = blank \<or> c = tab \<or> c = carriage"

definition trim_ascii :: "string \<Rightarrow> string" where
  "trim_ascii s = rev (dropWhile is_pad (rev (dropWhile is_pad s)))"

text \<open>\<open>stream >> word\<close> until it fails.\<close>

function words :: "string \<Rightarrow> string list" where
  "words s =
     (let t = dropWhile is_space s
      in if t = [] then [] else takeWhile (\<lambda>c. \<not> is_space c) t # words (dropWhile (\<lambda>c. \<not> is_space c) t))"
  by pat_completeness auto
termination
proof (relation "measure length", goal_cases)
  case (2 s t)
  from 2(2) obtain c r where t: "t = c # r" by (metis neq_Nil_conv)
  with 2(1) have "\<not> is_space c" by (metis hd_dropWhile list.sel(1) list.distinct(1))
  then have "length (dropWhile (\<lambda>c. \<not> is_space c) t) < length t"
    using length_dropWhile_le [of "\<lambda>c. \<not> is_space c" r] by (simp add: t less_Suc_eq_le)
  also have "\<dots> \<le> length s" using 2(1) by (simp add: length_dropWhile_le)
  finally show ?case by simp
qed simp

declare words.simps [simp del]

text \<open>
  The loop around \<open>send\<close>: each call reports how many bytes it took, 0 or less for a failure. The
  result is what went out and whether all of it did.
\<close>

fun send_loop :: "int list \<Rightarrow> string \<Rightarrow> string \<times> bool" where
  "send_loop sents [] = ([], True)"
| "send_loop [] data = ([], False)"
| "send_loop (n # ns) data =
     (if n \<le> 0 then ([], False) else apfst ((@) (take (nat n) data)) (send_loop ns (drop (nat n) data)))"

section \<open>Receiving does not depend on how the bytes arrive\<close>

lemma find_str_append:
  "find_str p s = Some i \<Longrightarrow> find_str p (s @ t) = Some i"
proof (induction s arbitrary: i)
  case Nil
  then show ?case by (auto split: if_splits)
next
  case (Cons c s)
  show ?case
  proof (cases "prefix p (c # s)")
    case True
    then have "prefix p ((c # s) @ t)" by (rule prefix_prefix)
    with True Cons.prems show ?thesis by auto
  next
    case False
    with Cons.prems obtain k where k: "find_str p s = Some k" "i = Suc k" by auto
    then have "i + length p \<le> length (c # s)" using find_str_le [OF Cons.prems] by simp
    then have "length p \<le> length (c # s)" by simp
    with False have "\<not> prefix p (c # s @ t)"
      by (metis append_Cons prefix_append prefix_length_prefix prefixI)
    with k Cons.IH [of k] show ?thesis by simp
  qed
qed

lemma recv_until_any_chunks:
  assumes "contains (buffer @ concat chunks) blank_line" and "[] \<notin> set chunks"
    and "length (buffer @ concat chunks) \<le> limit"
  obtains received rest where "recv_until limit buffer chunks = Some (received, rest)"
    and "received @ concat rest = buffer @ concat chunks" and "[] \<notin> set rest"
    and "find_str blank_line received = find_str blank_line (buffer @ concat chunks)"
proof -
  have "\<exists>received rest. recv_until limit buffer chunks = Some (received, rest)
      \<and> received @ concat rest = buffer @ concat chunks \<and> [] \<notin> set rest \<and> contains received blank_line"
    using assms
  proof (induction limit buffer chunks rule: recv_until.induct)
    case (1 limit buffer)
    then show ?case by simp
  next
    case (2 limit buffer chunk chunks)
    then show ?case by auto
  qed
  then obtain received rest where r: "recv_until limit buffer chunks = Some (received, rest)"
      "received @ concat rest = buffer @ concat chunks" "[] \<notin> set rest" "contains received blank_line" by blast
  then obtain i where "find_str blank_line received = Some i" by (auto simp: contains_def)
  then have "find_str blank_line received = find_str blank_line (received @ concat rest)"
    by (simp add: find_str_append)
  with r that show thesis by simp
qed

lemma recv_body_any_chunks:
  assumes "length (body @ concat chunks) < 2 ^ 31" and "[] \<notin> set chunks"
    and "int (length (body @ concat chunks)) = n"
  shows "recv_body n body chunks = body @ concat chunks"
  using assms
proof (induction n body chunks rule: recv_body.induct)
  case (1 n body)
  then show ?case by simp
next
  case (2 n body chunk chunks)
  then have "in_i32 (int (length body))" by (auto simp: in_i32_def)
  then have "wrap32 (int (length body)) = int (length body)" by (rule wrap32_id)
  moreover have "chunk \<noteq> []" using 2 by auto
  moreover have "0 < int (length chunk) + int (length (concat chunks))"
    using \<open>chunk \<noteq> []\<close> by (cases chunk) auto
  ultimately show ?case using 2 by auto
qed

lemma send_loop_prefix: "prefix (fst (send_loop ns data)) data \<and> (snd (send_loop ns data) \<longrightarrow> fst (send_loop ns data) = data)"
proof (induction ns data rule: send_loop.induct)
  case (3 n ns v va)
  let ?d = "v # va"
  show ?case
  proof (cases "n \<le> 0")
    case False
    with 3 have p: "prefix (fst (send_loop ns (drop (nat n) ?d))) (drop (nat n) ?d)"
      and e: "snd (send_loop ns (drop (nat n) ?d)) \<Longrightarrow> fst (send_loop ns (drop (nat n) ?d)) = drop (nat n) ?d"
      by auto
    have "prefix (take (nat n) ?d @ fst (send_loop ns (drop (nat n) ?d))) (take (nat n) ?d @ drop (nat n) ?d)"
      using p by (simp only: same_prefix_prefix)
    then show ?thesis using False e by (simp only: append_take_drop_id) auto
  qed simp
qed simp_all

section \<open>Header blocks\<close>

fun join_crlf :: "string list \<Rightarrow> string" where
  "join_crlf [] = []"
| "join_crlf [l] = l"
| "join_crlf (l # m # ls) = l @ crlf @ join_crlf (m # ls)"

definition header_line :: "string \<Rightarrow> bool" where
  "header_line l \<longleftrightarrow> l \<noteq> [] \<and> carriage \<notin> set l \<and> newline \<notin> set l"

lemma join_crlf_lines:
  "l @ crlf @ concat (map (\<lambda>h. h @ crlf) hs) @ crlf @ b = join_crlf (l # hs) @ blank_line @ b"
  by (induction hs arbitrary: l) simp_all

lemma find_str_skip_char: "c \<notin> set u \<Longrightarrow> find_str (c # p) (u @ s) = map_option (\<lambda>i. length u + i) (find_str (c # p) s)"
  by (rule find_str_skip) (auto simp: prefix_Cons dest: nth_mem simp: Cons_nth_drop_Suc [symmetric])

lemma find_blank_line:
  assumes "list_all header_line ls" and "ls \<noteq> []"
  shows "find_str blank_line (join_crlf ls @ blank_line @ b) = Some (length (join_crlf ls))"
  using assms
proof (induction ls rule: join_crlf.induct)
  case 1
  then show ?case by simp
next
  case (2 l)
  then have "carriage \<notin> set l" by (simp add: header_line_def)
  then show ?case by (simp add: find_str_skip_char)
next
  case (3 l m ls)
  then have "carriage \<notin> set l" "m \<noteq> []" "carriage \<notin> set m" by (auto simp: header_line_def)
  moreover obtain c r where "join_crlf (m # ls) @ blank_line @ b = c # r" "c \<noteq> carriage"
    using calculation(2,3) by (cases m; cases ls) auto
  ultimately show ?case
    using 3 by (simp add: find_str_skip_char)
qed

lemma takeWhile_line: "newline \<notin> set l \<Longrightarrow> takeWhile (\<lambda>c. c \<noteq> newline) (l @ newline # t) = l"
  "newline \<notin> set l \<Longrightarrow> dropWhile (\<lambda>c. c \<noteq> newline) (l @ newline # t) = newline # t"
  by (induction l) auto

lemma strip_cr_line: "carriage \<notin> set l \<Longrightarrow> strip_cr l = l" "strip_cr (l @ [carriage]) = l"
proof -
  show "carriage \<notin> set l \<Longrightarrow> strip_cr l = l" by (auto simp: strip_cr_def dest: last_in_set)
  show "strip_cr (l @ [carriage]) = l" by (simp add: strip_cr_def)
qed

lemma getlines_join:
  assumes "list_all header_line ls"
  shows "map strip_cr (getlines (join_crlf ls)) = ls"
  using assms
proof (induction ls rule: join_crlf.induct)
  case 1
  then show ?case by (simp add: getlines.simps)
next
  case (2 l)
  then have l: "l \<noteq> []" "newline \<notin> set l" "carriage \<notin> set l" by (auto simp: header_line_def)
  then have eqs: "takeWhile (\<lambda>c. c \<noteq> newline) l = l" "dropWhile (\<lambda>c. c \<noteq> newline) l = []"
    by (auto simp: takeWhile_eq_all_conv)
  from l have "getlines l = [l]" by (subst getlines.simps) (simp add: eqs getlines.simps [of "[]"])
  with l show ?case by (simp add: strip_cr_line)
next
  case (3 l m ls)
  then have "newline \<notin> set (l @ [carriage])" by (simp add: header_line_def)
  from takeWhile_line [OF this, of "join_crlf (m # ls)"]
  have "getlines (join_crlf (l # m # ls)) = (l @ [carriage]) # getlines (join_crlf (m # ls))"
    by (subst getlines.simps) simp
  with 3 show ?case by (simp add: strip_cr_line)
qed

section \<open>Numbers and words\<close>

lemma atoi_to_string:
  assumes "0 \<le> n" and "n < 2 ^ 31" and "r = [] \<or> \<not> is_digit (hd r)"
  shows "atoi (to_string n @ r) = Some n"
proof -
  obtain c ds where d: "dec_nat (nat n) = c # ds"
    using dec_nat_nonempty [of "nat n"] by (cases "dec_nat (nat n)") auto
  then have c: "is_digit c" and ds: "\<forall>x \<in> set ds. is_digit x"
    using dec_nat_digits [of "nat n"] by simp_all
  have "\<not> is_space c" "c \<noteq> CHR ''-''" "c \<noteq> CHR ''+''" using c by (auto simp: is_digit_def is_space_def Let_def)
  moreover have "takeWhile is_digit (c # ds @ r) = c # ds"
    using c ds assms(3) by (cases r) (auto simp: takeWhile_append2)
  moreover have "digits_val (c # ds) = n" using digits_val_dec_nat [of "nat n"] d assms(1) by simp
  ultimately show ?thesis
    using assms(1,2) d by (simp add: atoi_def to_string_def in_i32_def del: takeWhile.simps)
qed

lemma trim_to_string: "trim_ascii (blank # to_string n) = to_string n"
proof -
  have pad: "\<not> is_pad c" if "c \<in> set (to_string n)" for c
    using that dec_nat_digits [of "nat n"] dec_nat_digits [of "nat (- n)"]
    by (auto simp: to_string_def is_pad_def is_digit_def split: if_splits)
  then have "dropWhile is_pad (to_string n) = to_string n"
    by (cases "to_string n") (auto simp: to_string_def)
  moreover have "dropWhile is_pad (rev (to_string n)) = rev (to_string n)"
    using pad by (cases "rev (to_string n)") (auto simp: to_string_def dest: arg_cong [where f = set])
  ultimately show ?thesis by (simp add: trim_ascii_def is_pad_def [of blank])
qed

lemma words_step:
  assumes "w \<noteq> []" and "list_all (\<lambda>c. \<not> is_space c) w"
  shows "words (w @ blank # t) = w # words t" and "words w = [w]"
proof -
  have sp: "is_space blank" by (simp add: is_space_def)
  have w: "dropWhile is_space (w @ t) = w @ t" for t using assms by (cases w) auto
  have "words (blank # t) = words t" by (subst (1 2) words.simps) (simp add: sp)
  moreover have "takeWhile (\<lambda>c. \<not> is_space c) (w @ blank # t) = w" "dropWhile (\<lambda>c. \<not> is_space c) (w @ blank # t) = blank # t"
    using assms(2) sp by (induction w) auto
  ultimately show "words (w @ blank # t) = w # words t"
    using w [of "blank # t"] assms(1) by (subst words.simps) (simp add: Let_def)
  have eqs: "takeWhile (\<lambda>c. \<not> is_space c) w = w" "dropWhile (\<lambda>c. \<not> is_space c) w = []" "dropWhile is_space w = w"
    using assms(2) w [of "[]"] by (simp_all add: list_all_iff takeWhile_eq_all_conv)
  show "words w = [w]"
    using assms(1) by (subst words.simps) (simp add: eqs Let_def words.simps [of "[]"])
qed

end
