(* ===== verification/OpenAI_Client.thy ===== *)
theory OpenAI_Client imports Complex_Main Json_Array begin

text \<open>
  \<open>src/ai/types\<close>, \<open>openai_compat_client.cpp\<close>: the chat data types, the request that is sent
  to an OpenAI-compatible backend and the reading of its response. The unit's copy of the
  string scanner is modelled with the index cursor the code uses. A \<open>float\<close> is the rational
  number it denotes.
\<close>

section \<open>types.hpp, types.cpp\<close>

datatype chat_role = System | User | Assistant | Tool

record chat_message =
  msg_role :: chat_role
  msg_content :: string

record tool_definition =
  tool_name :: string
  tool_description :: string
  tool_parameters_json_schema :: string

record tool_call =
  call_id :: string
  call_name :: string
  call_arguments_json :: string

record openai_config =
  oc_base_url :: string
  oc_model :: string
  oc_enabled :: bool
  oc_stream :: bool
  oc_temperature :: rat
  oc_num_ctx :: int

definition default_openai_config :: openai_config where
  "default_openai_config = \<lparr>oc_base_url = ''http://127.0.0.1:11434'', oc_model = ''llama3.2'',
     oc_enabled = True, oc_stream = False, oc_temperature = -1, oc_num_ctx = 32768\<rparr>"

record outbound_request =
  or_valid :: bool
  or_url :: string
  or_body :: string
  or_error_message :: string

definition empty_outbound :: outbound_request where
  "empty_outbound = \<lparr>or_valid = False, or_url = [], or_body = [], or_error_message = []\<rparr>"

record chat_response =
  cr_transport_ok :: bool
  cr_http_success :: bool
  cr_status_code :: int
  cr_done :: bool
  cr_model :: string
  cr_assistant_message :: string
  cr_thinking_text :: string
  cr_tool_calls :: "tool_call list"
  cr_error_message :: string
  cr_prompt_tokens :: int
  cr_completion_tokens :: int
  cr_done_reason :: string

definition empty_chat_response :: chat_response where
  "empty_chat_response = \<lparr>cr_transport_ok = False, cr_http_success = False, cr_status_code = 0,
     cr_done = False, cr_model = [], cr_assistant_message = [], cr_thinking_text = [],
     cr_tool_calls = [], cr_error_message = [], cr_prompt_tokens = 0, cr_completion_tokens = 0,
     cr_done_reason = []\<rparr>"

fun chat_role_to_string :: "chat_role \<Rightarrow> string" where
  "chat_role_to_string System = ''system''"
| "chat_role_to_string User = ''user''"
| "chat_role_to_string Assistant = ''assistant''"
| "chat_role_to_string Tool = ''tool''"

definition chat_role_from_string :: "string \<Rightarrow> chat_role" where
  "chat_role_from_string r =
     (if r = ''system'' then System
      else if r = ''assistant'' then Assistant
      else if r = ''tool'' then Tool
      else User)"

lemma chat_role_string_inverse [simp]: "chat_role_from_string (chat_role_to_string r) = r"
  by (cases r) (simp_all add: chat_role_from_string_def)

section \<open>The unit's copy of the string scanner\<close>

function ai_skip_blank :: "string \<Rightarrow> nat \<Rightarrow> nat" where
  "ai_skip_blank json cursor =
     (if cursor < length json \<and> (json ! cursor = blank \<or> json ! cursor = tab)
      then ai_skip_blank json (cursor + 1) else cursor)"
  by pat_completeness auto
termination
  by (relation "measure (\<lambda>(json, cursor). length json - cursor)") auto

function ai_value_loop :: "string \<Rightarrow> nat \<Rightarrow> string \<Rightarrow> string" where
  "ai_value_loop json cursor val =
     (if cursor < length json then
        if json ! cursor = bslash \<and> cursor + 1 < length json
        then ai_value_loop json (cursor + 2) (val @ [unescape_char (json ! (cursor + 1))])
        else if json ! cursor = quot then val
        else ai_value_loop json (cursor + 1) (val @ [json ! cursor])
      else val)"
  by pat_completeness auto
termination
  by (relation "measure (\<lambda>(json, cursor, val). length json - cursor)") auto

declare ai_skip_blank.simps [simp del] ai_value_loop.simps [simp del]

definition ai_extract_json_string_field :: "string \<Rightarrow> string \<Rightarrow> nat \<Rightarrow> string" where
  "ai_extract_json_string_field json field_name from =
     (case find_from (needle field_name) json from of
        None \<Rightarrow> []
      | Some field_index \<Rightarrow>
          (let cursor = ai_skip_blank json (field_index + length (needle field_name))
           in if cursor \<ge> length json \<or> json ! cursor \<noteq> quot then []
              else ai_value_loop json (cursor + 1) []))"

lemma drop_ai_skip_blank: "drop (ai_skip_blank json c) json = skip_blank (drop c json)"
proof (induction json c rule: ai_skip_blank.induct)
  case (1 json c)
  show ?case
  proof (cases "c < length json")
    case True
    then have "drop c json = json ! c # drop (c + 1) json" by (simp add: Cons_nth_drop_Suc)
    with 1 True show ?thesis by (subst ai_skip_blank.simps) (auto simp: skip_blank_def)
  next
    case False
    then show ?thesis by (subst ai_skip_blank.simps) (simp add: skip_blank_def)
  qed
qed

lemma ai_value_loop_body: "ai_value_loop json c v = v @ read_string_body (drop c json)"
proof (induction json c v rule: ai_value_loop.induct)
  case (1 json c v)
  consider "\<not> c < length json" | "c < length json" "\<not> c + 1 < length json" | "c + 1 < length json"
    by linarith
  then show ?case
  proof cases
    case 1
    then show ?thesis by (subst ai_value_loop.simps) simp
  next
    case 2
    then have "drop c json = [json ! c]" by (simp add: Cons_nth_drop_Suc [symmetric])
    moreover have "drop (c + 1) json = []" using 2 by simp
    ultimately show ?thesis using 1 2 by (subst ai_value_loop.simps) simp
  next
    case 3
    then have "drop c json = json ! c # json ! (c + 1) # drop (c + 2) json"
      and "drop (c + 1) json = json ! (c + 1) # drop (c + 2) json"
      by (simp_all add: Cons_nth_drop_Suc)
    with 1 3 show ?thesis by (subst ai_value_loop.simps) simp
  qed
qed

lemma ai_extract_eq: "ai_extract_json_string_field json key n = extract_json_string_field json key n"
proof (cases "find_from (needle key) json n")
  case None
  then show ?thesis by (simp add: ai_extract_json_string_field_def extract_json_string_field_def field_text_def)
next
  case (Some i)
  let ?c = "ai_skip_blank json (i + length (needle key))"
  have d: "drop ?c json = skip_blank (drop (i + length (needle key)) json)"
    by (rule drop_ai_skip_blank)
  show ?thesis
  proof (cases "?c < length json")
    case True
    then have "drop ?c json = json ! ?c # drop (?c + 1) json" by (simp add: Cons_nth_drop_Suc)
    with Some True d [symmetric] show ?thesis
      by (simp add: ai_extract_json_string_field_def extract_json_string_field_def field_text_def ai_value_loop_body)
  next
    case False
    with Some d [symmetric] show ?thesis
      by (simp add: ai_extract_json_string_field_def extract_json_string_field_def field_text_def)
  qed
qed

interpretation ai_json: string_field_reader "\<lambda>json key. ai_extract_json_string_field json key 0"
  by unfold_locales (simp add: ai_extract_eq extract_string_after)

definition extract_json_object_array_at :: "string \<Rightarrow> nat \<Rightarrow> string list" where
  "extract_json_object_array_at json cursor =
     (if cursor \<ge> length json \<or> json ! cursor \<noteq> CHR ''['' then []
      else objects_loop (drop (cursor + 1) json))"

section \<open>The request\<close>

definition trim_trailing_slash :: "string \<Rightarrow> string" where
  "trim_trailing_slash s = rev (dropWhile (\<lambda>c. c = slash) (rev s))"

definition serialize_tool :: "tool_definition \<Rightarrow> string" where
  "serialize_tool t =
     [lbrace] @ json_string_field ''type'' ''function'' @ [comma] @ needle ''function'' @ [lbrace]
     @ json_string_field ''name'' (tool_name t) @ [comma]
     @ json_string_field ''description'' (tool_description t) @ [comma]
     @ needle ''parameters''
     @ (if tool_parameters_json_schema t = [] then ''{}'' else tool_parameters_json_schema t)
     @ ''}}''"

definition serialize_tools :: "tool_definition list \<Rightarrow> string" where
  "serialize_tools ts = ''['' @ join_comma (map serialize_tool ts) @ '']''"

definition serialize_message :: "chat_message \<Rightarrow> string" where
  "serialize_message m =
     [lbrace] @ json_string_field ''role'' (chat_role_to_string (msg_role m)) @ [comma]
     @ json_string_field ''content'' (msg_content m) @ [rbrace]"

definition serialize_chat_messages :: "chat_message list \<Rightarrow> string" where
  "serialize_chat_messages ms = ''['' @ join_comma (map serialize_message ms) @ '']''"

definition build_openai_chat_url :: "openai_config \<Rightarrow> string" where
  "build_openai_chat_url c =
     (if oc_base_url c = [] then [] else trim_trailing_slash (oc_base_url c) @ ''/v1/chat/completions'')"

text \<open>\<open>std::to_string\<close> of a non-negative \<open>float\<close>: six decimals, ties to even.\<close>

definition round_half_even :: "rat \<Rightarrow> int" where
  "round_half_even x =
     (let f = \<lfloor>x\<rfloor>; d = x - of_int f
      in if d < 1 / 2 then f else if d > 1 / 2 then f + 1 else if even f then f else f + 1)"

definition to_string_float :: "rat \<Rightarrow> string" where
  "to_string_float x =
     (let n = nat (round_half_even (x * 1000000)); ds = dec_nat (n mod 1000000)
      in dec_nat (n div 1000000) @ ''.'' @ replicate (6 - length ds) (CHR ''0'') @ ds)"

definition build_openai_chat_request ::
    "openai_config \<Rightarrow> chat_message list \<Rightarrow> tool_definition list \<Rightarrow> outbound_request" where
  "build_openai_chat_request c ms ts =
     (if \<not> oc_enabled c then empty_outbound\<lparr>or_error_message := ''The LLM provider is disabled.''\<rparr>
      else if oc_model c = [] then empty_outbound\<lparr>or_error_message := ''Model name is empty.''\<rparr>
      else if ms = [] then empty_outbound\<lparr>or_error_message := ''Chat transcript is empty.''\<rparr>
      else if build_openai_chat_url c = [] then empty_outbound\<lparr>or_error_message := ''Provider base URL is empty.''\<rparr>
      else
        \<lparr>or_valid = True,
         or_url = build_openai_chat_url c,
         or_body =
           [lbrace] @ json_string_field ''model'' (oc_model c) @ [comma]
           @ needle ''messages'' @ serialize_chat_messages ms @ [comma]
           @ json_bool_field ''stream'' (oc_stream c)
           @ (if oc_temperature c \<ge> 0 then [comma] @ needle ''temperature'' @ to_string_float (oc_temperature c) else [])
           @ [comma] @ needle ''options'' @ [lbrace] @ needle ''num_ctx'' @ to_string (oc_num_ctx c) @ [rbrace]
           @ (if ts \<noteq> [] then [comma] @ needle ''tools'' @ serialize_tools ts else [])
           @ [rbrace],
         or_error_message = []\<rparr>)"

section \<open>The response\<close>

definition extract_reasoning_field :: "string \<Rightarrow> string" where
  "extract_reasoning_field obj =
     (let v = ai_extract_json_string_field obj ''reasoning_content'' 0
      in if v \<noteq> [] then v else ai_extract_json_string_field obj ''reasoning'' 0)"

definition parse_tool_call :: "string \<Rightarrow> tool_call" where
  "parse_tool_call call_object =
     (let from = (case find_str (needle ''function'') call_object of None \<Rightarrow> 0 | Some i \<Rightarrow> i)
      in \<lparr>call_id = ai_extract_json_string_field call_object ''id'' 0,
          call_name = ai_extract_json_string_field call_object ''name'' from,
          call_arguments_json = ai_extract_json_string_field call_object ''arguments'' from\<rparr>)"

definition parse_tool_calls :: "string \<Rightarrow> tool_call list" where
  "parse_tool_calls first_choice =
     (case find_str (needle ''tool_calls'') first_choice of
        None \<Rightarrow> []
      | Some k \<Rightarrow>
          (case find_from ''['' first_choice k of
             None \<Rightarrow> []
           | Some b \<Rightarrow> filter (\<lambda>c. call_name c \<noteq> [])
               (map parse_tool_call (extract_json_object_array_at first_choice b))))"

text \<open>The first object of the \<open>choices\<close> array, if the body has one.\<close>

definition first_choice_of :: "string \<Rightarrow> string option" where
  "first_choice_of body =
     (case find_str (needle ''choices'') body of
        None \<Rightarrow> None
      | Some k \<Rightarrow>
          (case find_from ''['' body k of
             None \<Rightarrow> None
           | Some b \<Rightarrow> (case extract_json_object_array_at body b of [] \<Rightarrow> None | c # _ \<Rightarrow> Some c)))"

definition parse_openai_chat_response :: "int \<Rightarrow> string \<Rightarrow> bool \<Rightarrow> cpp_exception + chat_response" where
  "parse_openai_chat_response status_code body transport_ok =
     (let r0 = empty_chat_response\<lparr>cr_transport_ok := transport_ok, cr_status_code := status_code\<rparr>
      in if \<not> transport_ok
         then Inr (r0\<lparr>cr_error_message := ''Network failure while calling the LLM provider.''\<rparr>)
         else if status_code < 200 \<or> status_code \<ge> 300
         then Inr (r0\<lparr>cr_error_message := (if body = [] then ''The LLM provider returned a non-success HTTP status.'' else body)\<rparr>)
         else
           (let r1 = r0\<lparr>cr_http_success := True, cr_model := ai_extract_json_string_field body ''model'' 0\<rparr>;
                r2 = (case first_choice_of body of
                        None \<Rightarrow> r1
                      | Some ch \<Rightarrow> r1\<lparr>cr_assistant_message := ai_extract_json_string_field ch ''content'' 0,
                          cr_done_reason := ai_extract_json_string_field ch ''finish_reason'' 0,
                          cr_thinking_text := extract_reasoning_field ch,
                          cr_tool_calls := parse_tool_calls ch\<rparr>);
                r3 = r2\<lparr>cr_done := True\<rparr>
            in (case extract_json_int_field body ''prompt_tokens'' 0 of
                  Inl e \<Rightarrow> Inl e
                | Inr p \<Rightarrow>
                    (case extract_json_int_field body ''completion_tokens'' 0 of
                       Inl e \<Rightarrow> Inl e
                     | Inr q \<Rightarrow>
                         Inr (r3\<lparr>cr_prompt_tokens := (case p of Some n \<Rightarrow> n | None \<Rightarrow> 0),
                            cr_completion_tokens := (case q of Some n \<Rightarrow> n | None \<Rightarrow> 0),
                            cr_error_message :=
                              (if cr_assistant_message r3 = [] \<and> cr_tool_calls r3 = []
                               then ''The LLM provider's response contained no assistant text or tool calls.''
                               else [])\<rparr>)))))"

section \<open>Requests\<close>

text \<open>
  A request is built exactly when the provider is enabled, a model is named, the transcript
  is not empty and a base URL is set; otherwise the request carries an error text and nothing
  else. A built request goes to the chat endpoint below the base URL.
\<close>

theorem chat_request_valid_iff:
  "or_valid (build_openai_chat_request c ms ts) \<longleftrightarrow>
     oc_enabled c \<and> oc_model c \<noteq> [] \<and> ms \<noteq> [] \<and> oc_base_url c \<noteq> []
   \<and> (let r = build_openai_chat_request c ms ts
      in if or_valid r then or_error_message r = [] \<and> or_url r = trim_trailing_slash (oc_base_url c) @ ''/v1/chat/completions''
         else or_error_message r \<noteq> [] \<and> or_url r = [] \<and> or_body r = [])"
  by (auto simp: build_openai_chat_request_def build_openai_chat_url_def empty_outbound_def Let_def)

text \<open>The message array of a request, read back object by object.\<close>

definition read_message :: "string \<Rightarrow> chat_message" where
  "read_message obj =
     \<lparr>msg_role = chat_role_from_string (extract_json_string_field obj ''role'' 0),
      msg_content = extract_json_string_field obj ''content'' 0\<rparr>"

lemma serialize_message_fields:
  "serialize_message m = render_object [(''role'', JStr (chat_role_to_string (msg_role m))), (''content'', JStr (msg_content m))]"
  by (simp add: serialize_message_def render_object_def json_string_field_render)

lemma read_serialized_message: "read_message (serialize_message m) = m"
proof -
  have "plain_keys [(''role'', JStr r), (''content'', JStr v)]" "plain_key ''role''" "plain_key ''content''" for r v
    by (simp_all add: plain_keys_def plain_key_def plain_char_def)
  then show ?thesis
    by (simp add: read_message_def serialize_message_fields extract_flat_string flat_string_def)
qed

lemma balanced_role [simp]: "balanced (chat_role_to_string r)"
  by (cases r) (simp_all add: balanced_def)

lemma serialize_message_object: "balanced (msg_content m) \<Longrightarrow> object_text (serialize_message m)"
proof -
  assume b: "balanced (msg_content m)"
  let ?inner = "json_string_field ''role'' (chat_role_to_string (msg_role m)) @ [comma]
     @ json_string_field ''content'' (msg_content m)"
  have "walk_depth 1 (?inner @ []) = Some 1"
    using b walk_string_field [of "''content''" "msg_content m" 1 "[]"] by (simp add: walk_string_field)
  moreover have "serialize_message m = lbrace # ?inner @ [rbrace]" by (simp add: serialize_message_def)
  ultimately show ?thesis unfolding object_text_def by auto
qed

text \<open>
  The transcript reaches the backend intact: splitting the serialized message array and
  reading each object gives back every role and content, in order, for any contents whose
  braces balance.
\<close>

theorem chat_messages_roundtrip:
  assumes "list_all (\<lambda>m. balanced (msg_content m)) ms"
  shows "map read_message (extract_json_object_array_at (serialize_chat_messages ms) 0) = ms"
proof -
  have "objects_loop (join_comma (map serialize_message ms) @ CHR '']'' # []) = map serialize_message ms"
    using assms by (intro objects_loop_join) (auto simp: list_all_iff serialize_message_object)
  then show ?thesis
    by (simp add: extract_json_object_array_at_def serialize_chat_messages_def read_serialized_message map_idI)
qed

theorem chat_messages_roundtrip_witness:
  "map read_message (extract_json_object_array_at (serialize_chat_messages
     [\<lparr>msg_role = System, msg_content = [quot]\<rparr>, \<lparr>msg_role = User, msg_content = ''{a}''\<rparr>]) 0)
   = [\<lparr>msg_role = System, msg_content = [quot]\<rparr>, \<lparr>msg_role = User, msg_content = ''{a}''\<rparr>]"
  by (rule chat_messages_roundtrip) (simp add: balanced_def)

section \<open>Responses\<close>

text \<open>A chat completion as an OpenAI-compatible backend writes it.\<close>

definition call_text :: "tool_call \<Rightarrow> string" where
  "call_text t =
     [lbrace] @ json_string_field ''id'' (call_id t) @ [comma] @ json_string_field ''type'' ''function'' @ [comma]
     @ needle ''function'' @ [lbrace] @ json_string_field ''name'' (call_name t) @ [comma]
     @ json_string_field ''arguments'' (call_arguments_json t) @ [rbrace, rbrace]"

definition choice_text :: "string \<Rightarrow> string \<Rightarrow> tool_call list \<Rightarrow> string" where
  "choice_text content reason calls =
     [lbrace] @ needle ''index'' @ to_string 0 @ [comma]
     @ needle ''message'' @ [lbrace] @ json_string_field ''role'' ''assistant'' @ [comma]
     @ json_string_field ''content'' content @ [comma]
     @ needle ''tool_calls'' @ ''['' @ join_comma (map call_text calls) @ '']'' @ [rbrace, comma]
     @ json_string_field ''finish_reason'' reason @ [rbrace]"

definition completion_text :: "string \<Rightarrow> string \<Rightarrow> string \<Rightarrow> tool_call list \<Rightarrow> int \<Rightarrow> int \<Rightarrow> string" where
  "completion_text model content reason calls p q =
     [lbrace] @ json_string_field ''model'' model @ [comma]
     @ needle ''choices'' @ ''['' @ join_comma [choice_text content reason calls] @ '']'' @ [comma]
     @ needle ''usage'' @ [lbrace] @ needle ''prompt_tokens'' @ to_string p @ [comma]
     @ needle ''completion_tokens'' @ to_string q @ [rbrace, rbrace]"

definition call_ok :: "tool_call \<Rightarrow> bool" where
  "call_ok t \<longleftrightarrow> balanced (call_id t) \<and> balanced (call_name t) \<and> balanced (call_arguments_json t) \<and> call_name t \<noteq> []"

lemma plain_response_keys [simp]:
  "plain_key ''id''" "plain_key ''type''" "plain_key ''function''" "plain_key ''name''" "plain_key ''arguments''"
  "plain_key ''index''" "plain_key ''message''" "plain_key ''role''" "plain_key ''content''" "plain_key ''tool_calls''"
  "plain_key ''finish_reason''" "plain_key ''model''" "plain_key ''choices''" "plain_key ''usage''"
  "plain_key ''prompt_tokens''" "plain_key ''completion_tokens''" "plain_key ''reasoning''" "plain_key ''reasoning_content''"
  by (simp_all add: plain_key_def plain_char_def)

lemma call_text_object:
  assumes "call_ok t"
  shows "object_text (call_text t)"
proof -
  let ?inner = "json_string_field ''id'' (call_id t) @ [comma] @ json_string_field ''type'' ''function'' @ [comma]
     @ needle ''function'' @ [lbrace] @ json_string_field ''name'' (call_name t) @ [comma]
     @ json_string_field ''arguments'' (call_arguments_json t) @ [rbrace]"
  have "balanced ''function''" by (simp add: balanced_def)
  then have "walk_depth 1 ?inner = Some 1"
    using assms by (simp add: walk_simps call_ok_def)
  moreover have "call_text t = lbrace # ?inner @ [rbrace]" by (simp add: call_text_def)
  ultimately show ?thesis unfolding object_text_def by blast
qed

lemma parse_call_text:
  "parse_tool_call (call_text t) = t"
proof -
  let ?tail = "[lbrace] @ json_string_field ''name'' (call_name t) @ [comma]
     @ json_string_field ''arguments'' (call_arguments_json t) @ [rbrace, rbrace]"
  have "after_str (needle ''function'') (call_text t) = Some ?tail"
    by (simp add: call_text_def scan_simps)
  then obtain i where i: "find_str (needle ''function'') (call_text t) = Some i"
      and "drop (i + length (needle ''function'')) (call_text t) = ?tail"
    by (auto simp: after_str_def)
  with find_str_drop [OF i] have d: "drop i (call_text t) = needle ''function'' @ ?tail" by simp
  have "extract_json_string_field (call_text t) ''id'' 0 = call_id t"
    by (rule read_after_string_field) (simp add: call_text_def scan_simps)
  moreover have "extract_json_string_field (call_text t) ''name'' i = call_name t"
    by (rule read_after_string_field) (simp add: d scan_simps)
  moreover have "extract_json_string_field (call_text t) ''arguments'' i = call_arguments_json t"
    by (rule read_after_string_field) (simp add: d scan_simps)
  ultimately show ?thesis by (simp add: parse_tool_call_def i ai_extract_eq)
qed

lemma calls_scan [scan_simps]:
  assumes "plain_key k" and "k \<notin> {''id'', ''type'', ''function'', ''name'', ''arguments''}"
  shows "after_str (needle k) (join_comma (map call_text calls) @ t) = after_str (needle k) t"
proof (induction calls rule: induct_list012)
  case 1
  then show ?case by simp
next
  case (2 x)
  then show ?case using assms by (simp add: call_text_def scan_simps)
next
  case (3 x y zs)
  have "after_str (needle k) (call_text x @ comma # u) = after_str (needle k) u" for u
    using assms by (simp add: call_text_def scan_simps)
  with 3 show ?case by simp
qed

lemma call_walk:
  assumes "call_ok c" and "1 \<le> d"
  shows "walk_depth d (call_text c @ t) = walk_depth d t"
proof -
  have "balanced ''function''" by (simp add: balanced_def)
  then show ?thesis
    using assms by (simp add: call_text_def call_ok_def walk_simps)
qed

lemma calls_walk [walk_simps]:
  "list_all call_ok calls \<Longrightarrow> 1 \<le> d \<Longrightarrow>
     walk_depth d (join_comma (map call_text calls) @ t) = walk_depth d t"
  by (induction calls rule: induct_list012) (simp_all add: call_walk)

lemma choice_text_object:
  assumes "balanced content" and "balanced reason" and "list_all call_ok calls"
  shows "object_text (choice_text content reason calls)"
proof -
  let ?inner = "needle ''index'' @ to_string 0 @ [comma]
     @ needle ''message'' @ [lbrace] @ json_string_field ''role'' ''assistant'' @ [comma]
     @ json_string_field ''content'' content @ [comma]
     @ needle ''tool_calls'' @ ''['' @ join_comma (map call_text calls) @ '']'' @ [rbrace, comma]
     @ json_string_field ''finish_reason'' reason"
  have "balanced ''assistant''" by (simp add: balanced_def)
  moreover have "walk_depth 1 (?inner @ []) = Some 1"
    using assms \<open>balanced ''assistant''\<close> walk_string_field [of "''finish_reason''" reason 1 "[]"] by (simp add: walk_simps)
  moreover have "choice_text content reason calls = lbrace # ?inner @ [rbrace]" by (simp add: choice_text_def)
  ultimately show ?thesis unfolding object_text_def by auto
qed

lemma parse_choice_calls:
  assumes "list_all call_ok calls"
  shows "parse_tool_calls (choice_text content reason calls) = calls"
proof -
  let ?u = "join_comma (map call_text calls) @ CHR '']'' # rbrace # comma # json_string_field ''finish_reason'' reason @ [rbrace]"
  have "after_str (needle ''tool_calls'') (choice_text content reason calls) = Some (CHR ''['' # ?u)"
    by (simp add: choice_text_def scan_simps)
  then obtain i b where f: "find_str (needle ''tool_calls'') (choice_text content reason calls) = Some i"
      "find_from ''['' (choice_text content reason calls) i = Some b"
      "b < length (choice_text content reason calls)" "choice_text content reason calls ! b = CHR ''[''"
      and d: "drop (Suc b) (choice_text content reason calls) = ?u"
    by (rule bracket_after) simp
  have "objects_loop ?u = map call_text calls"
    using assms by (intro objects_loop_join) (simp add: list_all_iff call_text_object)
  moreover have "filter (\<lambda>c. call_name c \<noteq> []) (map parse_tool_call (map call_text calls)) = calls"
    using assms by (induction calls) (auto simp: parse_call_text call_ok_def)
  ultimately show ?thesis
    by (simp add: parse_tool_calls_def f d extract_json_object_array_at_def iffD2 [OF not_le f(3)])
qed

lemma choice_fields:
  "ai_extract_json_string_field (choice_text content reason calls) ''content'' 0 = content"
  "ai_extract_json_string_field (choice_text content reason calls) ''finish_reason'' 0 = reason"
  "extract_reasoning_field (choice_text content reason calls) = []"
proof -
  show "ai_extract_json_string_field (choice_text content reason calls) ''content'' 0 = content"
    unfolding ai_extract_eq by (rule read_after_string_field) (simp add: choice_text_def scan_simps)
  show "ai_extract_json_string_field (choice_text content reason calls) ''finish_reason'' 0 = reason"
    unfolding ai_extract_eq by (rule read_after_string_field) (simp add: choice_text_def scan_simps)
  have "after_str (needle k) (drop 0 (choice_text content reason calls)) = None"
    if "k = ''reasoning'' \<or> k = ''reasoning_content''" for k
    using that by (auto simp: choice_text_def scan_simps) (simp_all add: after_str_def needle_def)
  then show "extract_reasoning_field (choice_text content reason calls) = []"
    by (simp add: extract_reasoning_field_def ai_extract_eq read_after_bare)
qed

lemma completion_first_choice:
  assumes "balanced content" and "balanced reason" and "list_all call_ok calls"
  shows "first_choice_of (completion_text model content reason calls p q) = Some (choice_text content reason calls)"
proof -
  let ?c = "choice_text content reason calls" and ?b = "completion_text model content reason calls p q"
  let ?u = "join_comma [?c] @ CHR '']'' # comma # needle ''usage'' @ [lbrace] @ needle ''prompt_tokens'' @ to_string p @ [comma]
     @ needle ''completion_tokens'' @ to_string q @ [rbrace, rbrace]"
  have "after_str (needle ''choices'') ?b = Some (CHR ''['' # ?u)"
    by (simp add: completion_text_def scan_simps)
  then obtain i b where f: "find_str (needle ''choices'') ?b = Some i" "find_from ''['' ?b i = Some b"
      "b < length ?b" "?b ! b = CHR ''[''" and d: "drop (Suc b) ?b = ?u"
    by (rule bracket_after) simp
  have "objects_loop ?u = [?c]"
    by (rule objects_loop_join) (simp add: choice_text_object assms)
  then show ?thesis
    by (simp add: first_choice_of_def f d extract_json_object_array_at_def iffD2 [OF not_le f(3)])
qed

lemma choice_scan [scan_simps]:
  assumes "plain_key k" and "k \<notin> {''id'', ''type'', ''function'', ''name'', ''arguments'', ''index'', ''message'',
    ''role'', ''content'', ''tool_calls'', ''finish_reason''}"
  shows "after_str (needle k) (choice_text content reason calls @ t) = after_str (needle k) t"
  using assms by (simp add: choice_text_def scan_simps)

lemma completion_fields:
  "ai_extract_json_string_field (completion_text model content reason calls p q) ''model'' 0 = model"
  "extract_json_int_field (completion_text model content reason calls p q) ''prompt_tokens'' 0
     = (if in_i64 p then Inr (Some p) else Inl OutOfRange)"
  "extract_json_int_field (completion_text model content reason calls p q) ''completion_tokens'' 0
     = (if in_i64 q then Inr (Some q) else Inl OutOfRange)"
proof -
  show "ai_extract_json_string_field (completion_text model content reason calls p q) ''model'' 0 = model"
    unfolding ai_extract_eq by (rule read_after_string_field) (simp add: completion_text_def scan_simps)
  show "extract_json_int_field (completion_text model content reason calls p q) ''prompt_tokens'' 0
     = (if in_i64 p then Inr (Some p) else Inl OutOfRange)"
  proof (rule read_int_after)
    show "after_str (needle ''prompt_tokens'') (drop 0 (completion_text model content reason calls p q))
      = Some (to_string p @ comma # needle ''completion_tokens'' @ to_string q @ [rbrace, rbrace])"
      by (simp add: completion_text_def scan_simps)
  qed simp
  show "extract_json_int_field (completion_text model content reason calls p q) ''completion_tokens'' 0
     = (if in_i64 q then Inr (Some q) else Inl OutOfRange)"
  proof (rule read_int_after)
    show "after_str (needle ''completion_tokens'') (drop 0 (completion_text model content reason calls p q))
      = Some (to_string q @ [rbrace, rbrace])"
      by (simp add: completion_text_def scan_simps)
  qed simp
qed

lemma parse_completion:
  assumes "balanced content" and "balanced reason" and "list_all call_ok calls" and "in_i64 p" and "in_i64 q"
    and "200 \<le> code \<and> code < 300" and "content \<noteq> [] \<or> calls \<noteq> []"
  shows "parse_openai_chat_response code (completion_text model content reason calls p q) True =
    Inr \<lparr>cr_transport_ok = True, cr_http_success = True, cr_status_code = code, cr_done = True, cr_model = model,
      cr_assistant_message = content, cr_thinking_text = [], cr_tool_calls = calls, cr_error_message = [],
      cr_prompt_tokens = p, cr_completion_tokens = q, cr_done_reason = reason\<rparr>"
proof -
  have "\<not> (content = [] \<and> calls = [])" using assms(7) by blast
  with assms show ?thesis
    by (simp add: parse_openai_chat_response_def empty_chat_response_def Let_def completion_fields
        completion_first_choice choice_fields parse_choice_calls)
qed

text \<open>
  C22: a chat completion is read back field by field: whatever texts the model, the answer, the
  stop reason and the tool calls hold (quotes and newlines included), as long as their braces
  balance and every call is named, the parser returns them and the token counts.
\<close>

theorem completion_parsed:
  assumes "balanced content" and "balanced reason" and "list_all call_ok calls" and "in_i64 p" and "in_i64 q"
    and "200 \<le> code \<and> code < 300" and "content \<noteq> [] \<or> calls \<noteq> []"
  shows "parse_openai_chat_response code (completion_text model content reason calls p q) True =
    Inr \<lparr>cr_transport_ok = True, cr_http_success = True, cr_status_code = code, cr_done = True, cr_model = model,
      cr_assistant_message = content, cr_thinking_text = [], cr_tool_calls = calls, cr_error_message = [],
      cr_prompt_tokens = p, cr_completion_tokens = q, cr_done_reason = reason\<rparr>"
  using parse_completion [OF assms] .

theorem completion_parsed_witness:
  "parse_openai_chat_response 200 (completion_text ''m'' [] ''tool_calls''
     [\<lparr>call_id = ''1'', call_name = ''read'', call_arguments_json = [lbrace, quot] @ ''path'' @ [quot, rbrace]\<rparr>] 7 9) True =
    Inr \<lparr>cr_transport_ok = True, cr_http_success = True, cr_status_code = 200, cr_done = True, cr_model = ''m'',
      cr_assistant_message = [], cr_thinking_text = [],
      cr_tool_calls = [\<lparr>call_id = ''1'', call_name = ''read'', call_arguments_json = [lbrace, quot] @ ''path'' @ [quot, rbrace]\<rparr>],
      cr_error_message = [], cr_prompt_tokens = 7, cr_completion_tokens = 9, cr_done_reason = ''tool_calls''\<rparr>"
  by (rule completion_parsed) (simp_all add: balanced_def call_ok_def in_i64_def)

lemma parsed_calls_named: "c \<in> set (parse_tool_calls ch) \<Longrightarrow> call_name c \<noteq> []"
  by (auto simp: parse_tool_calls_def split: option.splits)

lemma parse_response_shape:
  "case parse_openai_chat_response code body ok of
     Inl e \<Rightarrow> ok \<and> 200 \<le> code \<and> code < 300
   | Inr r \<Rightarrow>
       cr_transport_ok r = ok \<and> cr_http_success r = (ok \<and> 200 \<le> code \<and> code < 300)
     \<and> (if cr_http_success r then cr_error_message r = [] \<longleftrightarrow> cr_assistant_message r \<noteq> [] \<or> cr_tool_calls r \<noteq> []
        else cr_error_message r \<noteq> [] \<and> cr_assistant_message r = [] \<and> cr_tool_calls r = [])
     \<and> (\<forall>c \<in> set (cr_tool_calls r). call_name c \<noteq> [])"
proof -
  consider "\<not> ok" | "ok" "code < 200 \<or> code \<ge> 300" | "ok" "200 \<le> code" "code < 300" by linarith
  then show ?thesis
  proof cases
    case 1
    then show ?thesis by (simp add: parse_openai_chat_response_def empty_chat_response_def Let_def)
  next
    case 2
    then show ?thesis by (auto simp: parse_openai_chat_response_def empty_chat_response_def Let_def)
  next
    case 3
    then show ?thesis
      by (simp add: parse_openai_chat_response_def empty_chat_response_def Let_def
          parsed_calls_named split: sum.split option.split)
  qed
qed

text \<open>
  A response never carries an answer or a tool call unless the transport worked and the
  status is 2xx; without either it carries an error text.
\<close>

theorem response_failure_has_error:
  "case parse_openai_chat_response code body ok of
     Inl e \<Rightarrow> ok \<and> 200 \<le> code \<and> code < 300
   | Inr r \<Rightarrow>
       cr_transport_ok r = ok \<and> cr_http_success r = (ok \<and> 200 \<le> code \<and> code < 300)
     \<and> (if cr_http_success r then cr_error_message r = [] \<longleftrightarrow> \<not> (cr_assistant_message r = [] \<and> cr_tool_calls r = [])
        else cr_error_message r \<noteq> [] \<and> cr_assistant_message r = [] \<and> cr_tool_calls r = [])"
  using parse_response_shape [where code = code and body = body and ok = ok] by (auto split: sum.splits)

text \<open>
  The brace walk ignores string boundaries. An answer whose text closes more braces than it
  opens cuts the choice short: the tool calls and the stop reason behind it are lost.
\<close>

theorem response_brace_loses_calls:
  "case parse_openai_chat_response 200 (completion_text ''m'' ''}}'' ''stop''
       [\<lparr>call_id = ''1'', call_name = ''read'', call_arguments_json = ''{}''\<rparr>] 1 2) True of
     Inl e \<Rightarrow> False
   | Inr r \<Rightarrow> cr_assistant_message r = ''}}'' \<and> cr_tool_calls r = [] \<and> cr_done_reason r = []"
  by code_simp

end
