(* ===== verification/Language_Runtime.thy ===== *)
theory Language_Runtime imports Complex_Main OpenAI_Client begin

text \<open>
  \<open>src/ai/language_runtime\<close> and \<open>src/ai/model_provider\<close>: the transcript and turn state behind
  \<open>/ai/chat\<close>, and the provider interface with its adapter. The HTTP transport is the callback
  the host binds, so it is an argument: a function of the URL, the body and the extra headers
  that gives the transport flag, the status code and the response body.
\<close>

type_synonym post_json = "string \<Rightarrow> string \<Rightarrow> string list \<Rightarrow> bool \<times> int \<times> string"

record language_snapshot =
  ls_runtime_enabled :: bool
  ls_connected :: bool
  ls_awaiting_response :: bool
  ls_model :: string
  ls_status_text :: string
  ls_last_user_message :: string
  ls_last_assistant_message :: string
  ls_representation_text :: string
  ls_transcript_length :: int

record language_runtime =
  lr_config :: openai_config
  lr_transcript :: "chat_message list"
  lr_last_user_message :: string
  lr_last_assistant_message :: string
  lr_status_text :: string
  lr_runtime_enabled :: bool
  lr_awaiting_response :: bool

definition initial_runtime :: language_runtime where
  "initial_runtime = \<lparr>lr_config = default_openai_config, lr_transcript = [], lr_last_user_message = [],
     lr_last_assistant_message = [], lr_status_text = ''Language AI runtime idle.'',
     lr_runtime_enabled = True, lr_awaiting_response = False\<rparr>"

section \<open>Operations\<close>

definition upsert_system_message :: "chat_message list \<Rightarrow> string \<Rightarrow> chat_message list" where
  "upsert_system_message transcript prompt =
     (case transcript of
        [] \<Rightarrow> [\<lparr>msg_role = System, msg_content = prompt\<rparr>]
      | m # ms \<Rightarrow>
          if msg_role m \<noteq> System then \<lparr>msg_role = System, msg_content = prompt\<rparr> # m # ms
          else m\<lparr>msg_content := prompt\<rparr> # ms)"

definition set_ollama_config :: "openai_config \<Rightarrow> language_runtime \<Rightarrow> language_runtime" where
  "set_ollama_config c r = r\<lparr>lr_config := c\<rparr>"

definition set_runtime_enabled :: "bool \<Rightarrow> language_runtime \<Rightarrow> language_runtime" where
  "set_runtime_enabled b r = r\<lparr>lr_runtime_enabled := b\<rparr>"

definition clear_transcript :: "language_runtime \<Rightarrow> language_runtime" where
  "clear_transcript r = r\<lparr>lr_transcript := [], lr_last_user_message := [], lr_last_assistant_message := [],
     lr_awaiting_response := False, lr_status_text := ''Language AI transcript cleared.''\<rparr>"

definition set_system_prompt :: "string \<Rightarrow> language_runtime \<Rightarrow> language_runtime" where
  "set_system_prompt prompt r =
     (if prompt = [] then
        (case lr_transcript r of
           [] \<Rightarrow> r
         | m # ms \<Rightarrow> if msg_role m = System then r\<lparr>lr_transcript := ms\<rparr> else r)
      else r\<lparr>lr_transcript := upsert_system_message (lr_transcript r) prompt\<rparr>)"

definition submit_user_message :: "string \<Rightarrow> language_runtime \<Rightarrow> bool \<times> language_runtime" where
  "submit_user_message message r =
     (if \<not> lr_runtime_enabled r then (False, r\<lparr>lr_status_text := ''Language AI runtime is disabled.''\<rparr>)
      else if \<not> oc_enabled (lr_config r) then (False, r\<lparr>lr_status_text := ''Ollama integration is disabled.''\<rparr>)
      else if message = [] then (False, r\<lparr>lr_status_text := ''User message is empty.''\<rparr>)
      else if lr_awaiting_response r
      then (False, r\<lparr>lr_status_text := ''Waiting for the previous Ollama response.''\<rparr>)
      else (True, r\<lparr>lr_transcript := lr_transcript r @ [\<lparr>msg_role = User, msg_content = message\<rparr>],
                    lr_last_user_message := message, lr_awaiting_response := True,
                    lr_status_text := ''User message queued for Ollama.''\<rparr>))"

definition build_pending_chat_request :: "language_runtime \<Rightarrow> outbound_request" where
  "build_pending_chat_request r =
     (if \<not> lr_runtime_enabled r then empty_outbound\<lparr>or_error_message := ''Language AI runtime is disabled.''\<rparr>
      else if \<not> lr_awaiting_response r then empty_outbound\<lparr>or_error_message := ''No pending user message.''\<rparr>
      else build_openai_chat_request (lr_config r) (lr_transcript r) [])"

definition apply_chat_response :: "chat_response \<Rightarrow> language_runtime \<Rightarrow> bool \<times> language_runtime" where
  "apply_chat_response response r =
     (if \<not> lr_awaiting_response r then (False, r\<lparr>lr_status_text := ''No pending Ollama request.''\<rparr>)
      else if \<not> cr_transport_ok response \<or> \<not> cr_http_success response
      then (False, r\<lparr>lr_status_text :=
              (if cr_error_message response = [] then ''Ollama request failed.'' else cr_error_message response)\<rparr>)
      else if cr_assistant_message response = []
      then (False, r\<lparr>lr_status_text :=
              (if cr_error_message response = [] then ''Ollama returned an empty assistant message.''
               else cr_error_message response)\<rparr>)
      else (True, r\<lparr>lr_transcript := lr_transcript r @
                      [\<lparr>msg_role = Assistant, msg_content = cr_assistant_message response\<rparr>],
                    lr_last_assistant_message := cr_assistant_message response,
                    lr_awaiting_response := False, lr_status_text := ''Ollama response applied.''\<rparr>))"

text \<open>An exception of the response parser leaves the runtime as it was.\<close>

definition complete_turn ::
    "post_json option \<Rightarrow> language_runtime \<Rightarrow> (cpp_exception + bool) \<times> language_runtime" where
  "complete_turn transport r =
     (let request = build_pending_chat_request r
      in if \<not> or_valid request then (Inr False, r\<lparr>lr_status_text := or_error_message request\<rparr>)
         else (case transport of
             None \<Rightarrow> (Inr False, r\<lparr>lr_status_text := ''Language AI transport is not bound.''\<rparr>)
           | Some post \<Rightarrow>
               (case post (or_url request) (or_body request) [] of
                  (transport_ok, status_code, body) \<Rightarrow>
                    (case parse_openai_chat_response status_code body transport_ok of
                       Inl e \<Rightarrow> (Inl e, r)
                     | Inr response \<Rightarrow> apfst Inr (apply_chat_response response r)))))"

definition representation_text :: "language_runtime \<Rightarrow> string" where
  "representation_text r =
     (if lr_last_assistant_message r \<noteq> [] then lr_last_assistant_message r
      else if lr_last_user_message r \<noteq> [] then lr_last_user_message r
      else lr_status_text r)"

fun format_messages :: "chat_message list \<Rightarrow> string" where
  "format_messages [] = []"
| "format_messages [m] = chat_role_to_string (msg_role m) @ '': '' @ msg_content m"
| "format_messages (m # n # ms) =
     chat_role_to_string (msg_role m) @ '': '' @ msg_content m @ [newline] @ format_messages (n # ms)"

definition format_transcript :: "language_runtime \<Rightarrow> string" where
  "format_transcript r = format_messages (lr_transcript r)"

definition snapshot :: "language_runtime \<Rightarrow> language_snapshot" where
  "snapshot r =
     \<lparr>ls_runtime_enabled = lr_runtime_enabled r,
      ls_connected = (oc_enabled (lr_config r) \<and> oc_base_url (lr_config r) \<noteq> []),
      ls_awaiting_response = lr_awaiting_response r,
      ls_model = oc_model (lr_config r),
      ls_status_text = lr_status_text r,
      ls_last_user_message = lr_last_user_message r,
      ls_last_assistant_message = lr_last_assistant_message r,
      ls_representation_text = representation_text r,
      ls_transcript_length = wrap32 (int (length (lr_transcript r)))\<rparr>"

definition default_language_ai_snapshot :: language_snapshot where
  "default_language_ai_snapshot =
     \<lparr>ls_runtime_enabled = False, ls_connected = False, ls_awaiting_response = False, ls_model = [],
      ls_status_text = ''Language AI runtime not initialized.'', ls_last_user_message = [],
      ls_last_assistant_message = [], ls_representation_text = [], ls_transcript_length = 0\<rparr>"

section \<open>Reachable runtimes\<close>

datatype runtime_event =
    SetConfig openai_config
  | SetEnabled bool
  | ClearTranscript
  | SetSystemPrompt string
  | SubmitUser string
  | ApplyResponse chat_response
  | CompleteTurn "post_json option"

fun runtime_step :: "runtime_event \<Rightarrow> language_runtime \<Rightarrow> language_runtime" where
  "runtime_step (SetConfig c) r = set_ollama_config c r"
| "runtime_step (SetEnabled b) r = set_runtime_enabled b r"
| "runtime_step ClearTranscript r = clear_transcript r"
| "runtime_step (SetSystemPrompt p) r = set_system_prompt p r"
| "runtime_step (SubmitUser m) r = snd (submit_user_message m r)"
| "runtime_step (ApplyResponse a) r = snd (apply_chat_response a r)"
| "runtime_step (CompleteTurn t) r = snd (complete_turn t r)"

inductive reachable_runtime :: "language_runtime \<Rightarrow> bool" where
  initial: "reachable_runtime initial_runtime"
| step: "reachable_runtime r \<Longrightarrow> reachable_runtime (runtime_step e r)"

text \<open>
  The dialogue behind an optional system message: user and assistant in turn, the last user
  message unanswered exactly while a response is awaited.
\<close>

definition dialogue :: "chat_message list \<Rightarrow> chat_message list" where
  "dialogue ms = (case ms of m # ns \<Rightarrow> if msg_role m = System then ns else ms | [] \<Rightarrow> [])"

fun takes_turns :: "chat_message list \<Rightarrow> bool \<Rightarrow> bool" where
  "takes_turns [] pending \<longleftrightarrow> \<not> pending"
| "takes_turns [m] pending \<longleftrightarrow> msg_role m = User \<and> pending"
| "takes_turns (m # n # ms) pending \<longleftrightarrow> msg_role m = User \<and> msg_role n = Assistant \<and> takes_turns ms pending"

definition last_content :: "chat_role \<Rightarrow> chat_message list \<Rightarrow> string" where
  "last_content role ms =
     (case rev (filter (\<lambda>m. msg_role m = role) ms) of [] \<Rightarrow> [] | m # _ \<Rightarrow> msg_content m)"

definition runtime_ok :: "language_runtime \<Rightarrow> bool" where
  "runtime_ok r \<longleftrightarrow>
     takes_turns (dialogue (lr_transcript r)) (lr_awaiting_response r)
   \<and> list_all (\<lambda>m. msg_content m \<noteq> []) (lr_transcript r)
   \<and> lr_last_user_message r = last_content User (lr_transcript r)
   \<and> lr_last_assistant_message r = last_content Assistant (lr_transcript r)"

lemma takes_turns_snoc_user: "takes_turns ms False \<Longrightarrow> msg_role m = User \<Longrightarrow> takes_turns (ms @ [m]) True"
  by (induction ms "False" rule: takes_turns.induct) auto

lemma takes_turns_snoc_assistant: "takes_turns ms True \<Longrightarrow> msg_role m = Assistant \<Longrightarrow> takes_turns (ms @ [m]) False"
  by (induction ms "True" rule: takes_turns.induct) auto

lemma takes_turns_nonempty: "takes_turns ms True \<Longrightarrow> ms \<noteq> []"
  by auto

lemma dialogue_append: "ms \<noteq> [] \<or> msg_role m \<noteq> System \<Longrightarrow> dialogue (ms @ [m]) = dialogue ms @ [m]"
  by (cases ms) (auto simp: dialogue_def)

lemma takes_turns_head: "takes_turns (m # ms) p \<Longrightarrow> msg_role m = User"
  by (cases ms) auto

lemma dialogue_turns: "takes_turns ms p \<Longrightarrow> dialogue ms = ms"
  by (cases ms) (auto simp: dialogue_def dest: takes_turns_head)

lemma dialogue_upsert: "takes_turns (dialogue ms) p \<Longrightarrow> dialogue (upsert_system_message ms t) = dialogue ms"
  by (cases ms) (auto simp: dialogue_def upsert_system_message_def)

lemma last_content_snoc:
  "last_content role (ms @ [m]) = (if msg_role m = role then msg_content m else last_content role ms)"
  by (simp add: last_content_def)

lemma last_content_upsert:
  "role \<noteq> System \<Longrightarrow> last_content role (upsert_system_message ms t) = last_content role ms"
  by (cases ms) (simp_all add: last_content_def upsert_system_message_def)

lemma contents_upsert:
  "list_all (\<lambda>m. msg_content m \<noteq> []) ms \<Longrightarrow> t \<noteq> [] \<Longrightarrow> list_all (\<lambda>m. msg_content m \<noteq> []) (upsert_system_message ms t)"
  by (cases ms) (auto simp: upsert_system_message_def)

lemma submit_ok: "runtime_ok r \<Longrightarrow> runtime_ok (snd (submit_user_message m r))"
  by (cases "lr_awaiting_response r")
    (auto simp: submit_user_message_def runtime_ok_def dialogue_append takes_turns_snoc_user last_content_snoc)

lemma apply_ok: "runtime_ok r \<Longrightarrow> runtime_ok (snd (apply_chat_response a r))"
  by (cases "lr_awaiting_response r")
    (auto simp: apply_chat_response_def runtime_ok_def dialogue_append takes_turns_snoc_assistant last_content_snoc)

lemma complete_turn_cases:
  "snd (complete_turn t r) = r \<or> (\<exists>s. snd (complete_turn t r) = r\<lparr>lr_status_text := s\<rparr>)
     \<or> (\<exists>a. snd (complete_turn t r) = snd (apply_chat_response a r))"
  by (auto simp: complete_turn_def Let_def split: option.split prod.split sum.split)

lemma status_ok: "runtime_ok r \<Longrightarrow> runtime_ok (r\<lparr>lr_status_text := s\<rparr>)"
  by (simp add: runtime_ok_def)

lemma complete_turn_ok: "runtime_ok r \<Longrightarrow> runtime_ok (snd (complete_turn t r))"
  using complete_turn_cases [of t r] by (auto intro: status_ok apply_ok)

lemma set_system_prompt_ok:
  assumes "runtime_ok r"
  shows "runtime_ok (set_system_prompt p r)"
proof (cases "p = []")
  case False
  with assms show ?thesis
    by (auto simp: set_system_prompt_def runtime_ok_def dialogue_upsert last_content_upsert contents_upsert)
next
  case True
  show ?thesis
  proof (cases "lr_transcript r")
    case Nil
    with True assms show ?thesis by (simp add: set_system_prompt_def)
  next
    case (Cons m ms)
    show ?thesis
    proof (cases "msg_role m = System")
      case True
      with Cons assms have "takes_turns ms (lr_awaiting_response r)"
        by (simp add: runtime_ok_def dialogue_def)
      then have "dialogue ms = ms" by (rule dialogue_turns)
      with True Cons \<open>p = []\<close> assms show ?thesis
        by (simp add: set_system_prompt_def runtime_ok_def dialogue_def [of "m # ms"] last_content_def)
    next
      case False
      with Cons \<open>p = []\<close> assms show ?thesis by (simp add: set_system_prompt_def)
    qed
  qed
qed

lemma runtime_step_ok: "runtime_ok r \<Longrightarrow> runtime_ok (runtime_step e r)"
  by (cases e) (simp_all add: submit_ok apply_ok complete_turn_ok set_system_prompt_ok,
      simp_all add: runtime_ok_def set_ollama_config_def set_runtime_enabled_def clear_transcript_def
        dialogue_def last_content_def)

text \<open>
  C24: in every reachable runtime the transcript is an optional system message followed by user
  and assistant messages strictly in turn, none of them empty; a user message is unanswered
  exactly while a response is awaited, and the remembered last messages are those of the
  transcript.
\<close>

theorem reachable_runtime_takes_turns:
  assumes "reachable_runtime r"
  shows "takes_turns (dialogue (lr_transcript r)) (lr_awaiting_response r)
    \<and> list_all (\<lambda>m. msg_content m \<noteq> []) (lr_transcript r)
    \<and> lr_last_user_message r = last_content User (lr_transcript r)
    \<and> lr_last_assistant_message r = last_content Assistant (lr_transcript r)"
proof -
  have "runtime_ok r"
    using assms
  proof (induction rule: reachable_runtime.induct)
    case initial
    then show ?case by (simp add: runtime_ok_def initial_runtime_def dialogue_def last_content_def)
  next
    case (step r e)
    then show ?case by (simp add: runtime_step_ok)
  qed
  then show ?thesis by (simp add: runtime_ok_def)
qed

theorem reachable_runtime_takes_turns_witness:
  "takes_turns (dialogue (lr_transcript (runtime_step (SubmitUser ''hi'') (runtime_step (SetSystemPrompt ''s'') initial_runtime)))) True"
proof -
  let ?r = "runtime_step (SubmitUser ''hi'') (runtime_step (SetSystemPrompt ''s'') initial_runtime)"
  have "reachable_runtime ?r" by (intro reachable_runtime.intros)
  moreover have "lr_awaiting_response ?r" by code_simp
  ultimately show ?thesis using reachable_runtime_takes_turns [of ?r] by (simp del: runtime_step.simps)
qed

section \<open>Turns\<close>

lemma complete_turn_answer:
  assumes "lr_runtime_enabled r" and "\<not> lr_awaiting_response r" and "oc_enabled (lr_config r)"
    and "oc_model (lr_config r) \<noteq> []" and "oc_base_url (lr_config r) \<noteq> []" and "message \<noteq> []"
    and "\<And>url body headers. post url body headers = (True, 200, completion_text model answer reason [] p q)"
    and "balanced answer" and "balanced reason" and "in_i64 p" and "in_i64 q" and "answer \<noteq> []"
  shows "complete_turn (Some post) (snd (submit_user_message message r)) =
    (Inr True, r\<lparr>lr_transcript := lr_transcript r @ [\<lparr>msg_role = User, msg_content = message\<rparr>,
                   \<lparr>msg_role = Assistant, msg_content = answer\<rparr>],
                 lr_last_user_message := message, lr_last_assistant_message := answer,
                 lr_awaiting_response := False, lr_status_text := ''Ollama response applied.''\<rparr>)"
proof -
  have "or_valid (build_openai_chat_request (lr_config r) (ms @ [m]) [])" for ms m
    using assms(3-5) by (simp add: build_openai_chat_request_def build_openai_chat_url_def)
  moreover have "case parse_openai_chat_response 200 (completion_text model answer reason [] p q) True of
      Inl e \<Rightarrow> False | Inr a \<Rightarrow> cr_transport_ok a \<and> cr_http_success a \<and> cr_assistant_message a = answer"
    using assms(8-12) by (simp add: parse_completion)
  ultimately show ?thesis
    using assms(1-3,6,7,12)
    by (auto simp: complete_turn_def submit_user_message_def build_pending_chat_request_def
        apply_chat_response_def split: sum.splits)
qed

text \<open>
  A whole turn. An enabled, idle runtime that submits a message and completes the turn over
  a transport that answers with a completion applies that answer: the transcript grows by exactly
  the message and the answer, and nothing is awaited.
\<close>

theorem complete_turn_applies_answer:
  assumes "lr_runtime_enabled r" and "\<not> lr_awaiting_response r" and "oc_enabled (lr_config r)"
    and "oc_model (lr_config r) \<noteq> []" and "oc_base_url (lr_config r) \<noteq> []" and "message \<noteq> []"
    and "\<And>url body headers. post url body headers = (True, 200, completion_text model answer reason [] p q)"
    and "balanced answer" and "balanced reason" and "in_i64 p" and "in_i64 q" and "answer \<noteq> []"
  shows "complete_turn (Some post) (snd (submit_user_message message r)) =
    (Inr True, r\<lparr>lr_transcript := lr_transcript r @ [\<lparr>msg_role = User, msg_content = message\<rparr>,
                   \<lparr>msg_role = Assistant, msg_content = answer\<rparr>],
                 lr_last_user_message := message, lr_last_assistant_message := answer,
                 lr_awaiting_response := False, lr_status_text := ''Ollama response applied.''\<rparr>)"
  using complete_turn_answer [OF assms] .

theorem complete_turn_applies_answer_witness:
  "fst (complete_turn (Some (\<lambda>url body headers. (True, 200, completion_text ''m'' ''hello'' ''stop'' [] 1 2)))
     (snd (submit_user_message ''hi'' initial_runtime))) = Inr True"
  using complete_turn_applies_answer [of initial_runtime "''hi''"
      "\<lambda>url body headers. (True, 200, completion_text ''m'' ''hello'' ''stop'' [] 1 2)" "''m''" "''hello''" "''stop''" 1 2]
  by (simp add: initial_runtime_def default_openai_config_def balanced_def in_i64_def)

text \<open>
  A turn that fails (no transport, no network, a status outside 2xx) leaves its message
  pending: every later message is refused, without changing the transcript, until the turn is
  completed or the transcript is cleared.
\<close>

theorem failed_turn_blocks_submit:
  assumes "lr_awaiting_response r" and "fst (complete_turn t r) \<noteq> Inr True"
  shows "lr_awaiting_response (snd (complete_turn t r))
    \<and> lr_transcript (snd (complete_turn t r)) = lr_transcript r
    \<and> (\<forall>m. fst (submit_user_message m (snd (complete_turn t r))) = False
         \<and> lr_transcript (snd (submit_user_message m (snd (complete_turn t r)))) = lr_transcript r)"
proof -
  have "(\<exists>s. snd (complete_turn t r) = r\<lparr>lr_status_text := s\<rparr>)"
    using assms by (auto simp: complete_turn_def apply_chat_response_def Let_def split: option.splits prod.splits sum.splits if_splits)
      (rule exI [of _ "lr_status_text r"], simp)
  then obtain s where "snd (complete_turn t r) = r\<lparr>lr_status_text := s\<rparr>" by blast
  then show ?thesis using assms(1) by (simp add: submit_user_message_def)
qed

theorem failed_turn_blocks_submit_witness:
  "fst (submit_user_message ''again'' (snd (complete_turn (Some (\<lambda>url body headers. (False, 0, [])))
     (snd (submit_user_message ''hi'' initial_runtime))))) = False"
proof -
  let ?r = "snd (submit_user_message ''hi'' initial_runtime)" and ?t = "Some (\<lambda>url body headers. (False, 0, []))"
  have "lr_awaiting_response ?r"
    by (simp add: submit_user_message_def initial_runtime_def default_openai_config_def)
  moreover have "fst (complete_turn ?t r) \<noteq> Inr True" for r
    by (simp add: complete_turn_def parse_openai_chat_response_def empty_chat_response_def apply_chat_response_def Let_def)
  ultimately show ?thesis using failed_turn_blocks_submit [of ?r ?t] by blast
qed

section \<open>model_provider\<close>

record provider_request =
  pr_valid :: bool
  pr_url :: string
  pr_body :: string
  pr_error_message :: string
  pr_headers :: "string list"

record provider_response =
  pv_transport_ok :: bool
  pv_http_success :: bool
  pv_assistant_message :: string
  pv_thinking_text :: string
  pv_tool_calls :: "tool_call list"
  pv_error_message :: string
  pv_total_duration_ms :: int
  pv_eval_duration_ms :: int
  pv_prompt_tokens :: int
  pv_completion_tokens :: int
  pv_done_reason :: string

definition provider_build_request ::
    "openai_config \<Rightarrow> chat_message list \<Rightarrow> tool_definition list \<Rightarrow> provider_request" where
  "provider_build_request config transcript tools =
     (let request = build_openai_chat_request config transcript tools
      in \<lparr>pr_valid = or_valid request, pr_url = or_url request, pr_body = or_body request,
          pr_error_message = or_error_message request, pr_headers = []\<rparr>)"

definition provider_parse_response :: "int \<Rightarrow> string \<Rightarrow> bool \<Rightarrow> cpp_exception + provider_response" where
  "provider_parse_response status_code body transport_ok =
     (case parse_openai_chat_response status_code body transport_ok of
        Inl e \<Rightarrow> Inl e
      | Inr r \<Rightarrow> Inr \<lparr>pv_transport_ok = cr_transport_ok r, pv_http_success = cr_http_success r,
          pv_assistant_message = cr_assistant_message r, pv_thinking_text = cr_thinking_text r,
          pv_tool_calls = cr_tool_calls r, pv_error_message = cr_error_message r,
          pv_total_duration_ms = 0, pv_eval_duration_ms = 0,
          pv_prompt_tokens = cr_prompt_tokens r, pv_completion_tokens = cr_completion_tokens r,
          pv_done_reason = cr_done_reason r\<rparr>)"

text \<open>
  The interface \<open>ModelProvider\<close>: what the host relies on. A request that is not valid explains
  itself and carries nothing; a response reports an answer or a call only over a working exchange,
  and without either it explains itself; a call always has a name.
\<close>

locale model_provider =
  fixes build :: "chat_message list \<Rightarrow> tool_definition list \<Rightarrow> provider_request"
    and parse :: "int \<Rightarrow> string \<Rightarrow> bool \<Rightarrow> cpp_exception + provider_response"
  assumes build_valid: "pr_valid (build ts tools) \<Longrightarrow> pr_url (build ts tools) \<noteq> [] \<and> pr_body (build ts tools) \<noteq> []"
    and build_invalid: "\<not> pr_valid (build ts tools) \<Longrightarrow> pr_error_message (build ts tools) \<noteq> [] \<and> pr_body (build ts tools) = []"
    and parse_exchange: "parse code body ok = Inr r \<Longrightarrow> pv_assistant_message r \<noteq> [] \<or> pv_tool_calls r \<noteq> [] \<Longrightarrow>
      pv_transport_ok r \<and> pv_http_success r"
    and parse_explains: "parse code body ok = Inr r \<Longrightarrow> pv_assistant_message r = [] \<Longrightarrow> pv_tool_calls r = [] \<Longrightarrow>
      pv_error_message r \<noteq> []"
    and parse_named: "parse code body ok = Inr r \<Longrightarrow> c \<in> set (pv_tool_calls r) \<Longrightarrow> call_name c \<noteq> []"
begin

text \<open>What a caller that only looks at the reply can act on.\<close>

lemma actionable:
  assumes "parse code body ok = Inr r"
  obtains (call) c cs where "pv_tool_calls r = c # cs" "call_name c \<noteq> []" "pv_http_success r"
  | (answer) "pv_tool_calls r = []" "pv_assistant_message r \<noteq> []" "pv_http_success r"
  | (neither) "pv_tool_calls r = []" "pv_assistant_message r = []" "pv_error_message r \<noteq> []"
proof (cases "pv_tool_calls r")
  case Nil
  then show thesis using parse_exchange [OF assms] parse_explains [OF assms] answer neither by blast
next
  case (Cons c cs)
  then show thesis using parse_exchange [OF assms] parse_named [OF assms, of c] call by simp
qed

lemma request_or_reason: "pr_valid (build ts tools) \<noteq> (pr_body (build ts tools) = [] \<and> pr_error_message (build ts tools) \<noteq> [])"
  using build_valid [of ts tools] build_invalid [of ts tools] by auto

end

interpretation openai_provider: model_provider "provider_build_request config" provider_parse_response
proof unfold_locales
  fix ts tools
  show "pr_valid (provider_build_request config ts tools) \<Longrightarrow>
      pr_url (provider_build_request config ts tools) \<noteq> [] \<and> pr_body (provider_build_request config ts tools) \<noteq> []"
    by (simp add: provider_build_request_def build_openai_chat_request_def empty_outbound_def split: if_splits)
  show "\<not> pr_valid (provider_build_request config ts tools) \<Longrightarrow>
      pr_error_message (provider_build_request config ts tools) \<noteq> [] \<and> pr_body (provider_build_request config ts tools) = []"
    by (simp add: provider_build_request_def build_openai_chat_request_def empty_outbound_def split: if_splits)
next
  fix code body ok r
  assume p: "provider_parse_response code body ok = Inr r"
  then obtain a where a: "parse_openai_chat_response code body ok = Inr a"
    and r: "pv_transport_ok r = cr_transport_ok a" "pv_http_success r = cr_http_success a"
      "pv_assistant_message r = cr_assistant_message a" "pv_tool_calls r = cr_tool_calls a"
      "pv_error_message r = cr_error_message a"
    by (auto simp: provider_parse_response_def split: sum.splits)
  note shape = parse_response_shape [where code = code and body = body and ok = ok, unfolded a, simplified]
  show "pv_assistant_message r \<noteq> [] \<or> pv_tool_calls r \<noteq> [] \<Longrightarrow> pv_transport_ok r \<and> pv_http_success r"
    using shape r by (auto split: if_splits)
  show "pv_assistant_message r = [] \<Longrightarrow> pv_tool_calls r = [] \<Longrightarrow> pv_error_message r \<noteq> []"
    using shape r by (auto split: if_splits)
  show "c \<in> set (pv_tool_calls r) \<Longrightarrow> call_name c \<noteq> []" for c
    using shape r by auto
qed

end
