(* ===== verification/Net_Handlers.thy ===== *)
theory Net_Handlers imports Complex_Main Notify Session Language_Runtime begin

text \<open>
  \<open>src/net/types.hpp\<close>, \<open>handlers.cpp\<close> and \<open>router.cpp\<close>: the request and response types, the
  built-in handlers and the route table. A handler that reaches the language runtime returns it
  updated in its context; an exception of the field extractors is a result.
\<close>

section \<open>types.hpp\<close>

datatype http_method = Get | Post | Unknown

datatype http_status = Ok | BadRequest | Unauthorized | NotFound | InternalError

fun status_number :: "http_status \<Rightarrow> int" where
  "status_number Ok = 200"
| "status_number BadRequest = 400"
| "status_number Unauthorized = 401"
| "status_number NotFound = 404"
| "status_number InternalError = 500"

record http_header =
  hh_name :: string
  hh_value :: string

record http_request =
  rq_method :: http_method
  rq_path :: string
  rq_query_string :: string
  rq_body :: string
  rq_headers :: "http_header list"

definition empty_request :: http_request where
  "empty_request = \<lparr>rq_method = Unknown, rq_path = [], rq_query_string = [], rq_body = [], rq_headers = []\<rparr>"

record http_response =
  rp_status :: http_status
  rp_content_type :: string
  rp_body :: string

definition empty_response :: http_response where
  "empty_response = \<lparr>rp_status = Ok, rp_content_type = ''application/json'', rp_body = []\<rparr>"

section \<open>handlers\<close>

record handler_context =
  hc_session :: runtime_session
  hc_language_ai :: "language_runtime option"
  hc_transport :: "post_json option option"

record notify_handle_result =
  nh_response :: http_response
  nh_message :: notify_message
  nh_has_message :: bool

record ai_chat_handle_result =
  ac_response :: http_response
  ac_completed_turn :: bool

abbreviation amp :: char where "amp \<equiv> CHR 0x26"
abbreviation equal_sign :: char where "equal_sign \<equiv> CHR 0x3D"

function query_param :: "string \<Rightarrow> string \<Rightarrow> string" where
  "query_param query_string key =
     (if query_string = [] then []
      else
        (let pair = takeWhile (\<lambda>c. c \<noteq> amp) query_string;
             rest = dropWhile (\<lambda>c. c \<noteq> amp) query_string;
             next = (if rest = [] then [] else query_param (tl rest) key)
         in case find_str [equal_sign] pair of
              Some equal \<Rightarrow> if take equal pair = key then drop (equal + 1) pair else next
            | None \<Rightarrow> if pair = key then [] else next))"
  by pat_completeness auto
termination
proof (relation "measure (\<lambda>(s, k). length s)", goal_cases)
  case (2 s key pair rest)
  then have "rest \<noteq> []" "length rest \<le> length s" by (auto simp: length_dropWhile_le)
  then show ?case by (cases rest) auto
qed simp

declare query_param.simps [simp del]

definition extract_prompt_field :: "string \<Rightarrow> string" where
  "extract_prompt_field body =
     (let p = extract_json_string_field body ''prompt'' 0; t = extract_json_string_field body ''text'' 0
      in if p \<noteq> [] then p else if t \<noteq> [] then t else extract_json_string_field body ''message'' 0)"

definition handle_health :: "handler_context \<Rightarrow> http_response" where
  "handle_health context = empty_response\<lparr>rp_body :=
     [lbrace] @ json_string_field ''status'' ''ok'' @ [comma]
     @ json_string_field ''map'' (rs_map_name (hc_session context)) @ [comma]
     @ json_string_field ''build'' (rs_build_label (hc_session context)) @ [rbrace]\<rparr>"

definition handle_echo :: "http_request \<Rightarrow> http_response" where
  "handle_echo request =
     (let m = query_param (rq_query_string request) ''msg'';
          echo_text = (if m = [] \<and> rq_body request \<noteq> [] then rq_body request else m)
      in empty_response\<lparr>rp_body := [lbrace] @ json_string_field ''echo'' echo_text @ [rbrace]\<rparr>)"

definition handle_notify :: "http_request \<Rightarrow> notify_handle_result" where
  "handle_notify request =
     (let parsed = parse_notify_body (rq_body request)
      in \<lparr>nh_response = empty_response\<lparr>rp_body := [lbrace] @ json_bool_field ''ok'' (np_success parsed) @ [rbrace]\<rparr>,
          nh_message = np_message parsed, nh_has_message = np_success parsed\<rparr>)"

text \<open>The error responses of the chat handler.\<close>

definition chat_error :: "http_status \<Rightarrow> string \<Rightarrow> ai_chat_handle_result" where
  "chat_error status msg =
     \<lparr>ac_response = \<lparr>rp_status = status, rp_content_type = ''application/json'',
        rp_body = [lbrace] @ json_bool_field ''ok'' False @ [comma] @ json_string_field ''error'' msg @ [rbrace]\<rparr>,
      ac_completed_turn = False\<rparr>"

definition missing_prompt_text :: string where
  "missing_prompt_text = ''Missing prompt. Send JSON: {'' @ [quot] @ ''prompt'' @ [quot] @ '':'' @ [quot] @ ''...'' @ [quot] @ ''}''"

text \<open>The runtime as the handler prepares it before the message is submitted.\<close>

definition prepare_runtime :: "string \<Rightarrow> language_runtime \<Rightarrow> language_runtime" where
  "prepare_runtime body ai =
     (let ai1 = (if extract_json_bool_field body ''clear'' 0 = Some True then clear_transcript ai else ai);
          system_prompt = extract_json_string_field body ''system'' 0
      in if system_prompt \<noteq> [] then set_system_prompt system_prompt ai1 else ai1)"

definition chat_success :: "language_runtime \<Rightarrow> ai_chat_handle_result" where
  "chat_success ai =
     (let s = snapshot ai
      in \<lparr>ac_response = empty_response\<lparr>rp_body :=
            [lbrace] @ json_bool_field ''ok'' True @ [comma]
            @ json_string_field ''assistant'' (ls_last_assistant_message s) @ [comma]
            @ json_string_field ''representation'' (ls_representation_text s) @ [comma]
            @ json_string_field ''model'' (ls_model s) @ [comma]
            @ json_string_field ''status'' (ls_status_text s) @ [rbrace]\<rparr>,
          ac_completed_turn = True\<rparr>)"

definition handle_ai_chat ::
    "http_request \<Rightarrow> handler_context \<Rightarrow> (cpp_exception + ai_chat_handle_result) \<times> handler_context" where
  "handle_ai_chat request context =
     (case (hc_language_ai context, hc_transport context) of
        (Some ai, Some transport) \<Rightarrow>
          (let prompt = extract_prompt_field (rq_body request)
           in if prompt = [] then (Inr (chat_error BadRequest missing_prompt_text), context)
              else
                (case submit_user_message prompt (prepare_runtime (rq_body request) ai) of
                   (False, ai1) \<Rightarrow>
                     (Inr (chat_error BadRequest (ls_status_text (snapshot ai1))), context\<lparr>hc_language_ai := Some ai1\<rparr>)
                 | (True, ai1) \<Rightarrow>
                     (case complete_turn transport ai1 of
                        (Inl e, ai2) \<Rightarrow> (Inl e, context\<lparr>hc_language_ai := Some ai2\<rparr>)
                      | (Inr False, ai2) \<Rightarrow>
                          (Inr (chat_error InternalError (ls_status_text (snapshot ai2))), context\<lparr>hc_language_ai := Some ai2\<rparr>)
                      | (Inr True, ai2) \<Rightarrow> (Inr (chat_success ai2), context\<lparr>hc_language_ai := Some ai2\<rparr>))))
      | _ \<Rightarrow> (Inr (chat_error InternalError ''Language AI runtime is not available on this host.''), context))"

section \<open>router\<close>

record route_dispatch_result =
  rd_handled :: bool
  rd_response :: http_response
  rd_notify :: notify_handle_result

definition empty_notify_result :: notify_handle_result where
  "empty_notify_result =
     \<lparr>nh_response = empty_response, nh_message = \<lparr>nm_text = [], nm_raw_body = [], nm_parsed_from_json = False\<rparr>,
      nh_has_message = False\<rparr>"

definition unhandled :: route_dispatch_result where
  "unhandled = \<lparr>rd_handled = False, rd_response = empty_response, rd_notify = empty_notify_result\<rparr>"

text \<open>\<open>while (path.size() > 1 && path.back() == '/') path.pop_back()\<close>, from the last character on.\<close>

fun pop_slashes :: "string \<Rightarrow> string" where
  "pop_slashes (c # d # s) = (if c = slash then pop_slashes (d # s) else c # d # s)"
| "pop_slashes s = s"

definition normalize_path :: "string \<Rightarrow> string" where
  "normalize_path path = rev (pop_slashes (rev path))"

definition dispatch ::
    "http_request \<Rightarrow> handler_context \<Rightarrow> (cpp_exception + route_dispatch_result) \<times> handler_context" where
  "dispatch request context =
     (let path = normalize_path (rq_path request)
      in if rq_method request = Get \<and> path = ''/health''
         then (Inr (unhandled\<lparr>rd_handled := True, rd_response := handle_health context\<rparr>), context)
         else if (rq_method request = Get \<or> rq_method request = Post) \<and> path = ''/echo''
         then (Inr (unhandled\<lparr>rd_handled := True, rd_response := handle_echo request\<rparr>), context)
         else if rq_method request = Post \<and> path = ''/notify''
         then (let n = handle_notify request
               in (Inr (unhandled\<lparr>rd_handled := True, rd_notify := n, rd_response := nh_response n\<rparr>), context))
         else if rq_method request = Post \<and> path = ''/ai/chat''
         then (case handle_ai_chat request context of
                 (Inl e, ctx) \<Rightarrow> (Inl e, ctx)
               | (Inr a, ctx) \<Rightarrow> (Inr (unhandled\<lparr>rd_handled := True, rd_response := ac_response a\<rparr>), ctx))
         else (Inr unhandled, context))"

section \<open>Query strings\<close>

fun render_query :: "(string \<times> string) list \<Rightarrow> string" where
  "render_query [] = []"
| "render_query [(k, v)] = k @ equal_sign # v"
| "render_query ((k, v) # p # ps) = k @ equal_sign # v @ amp # render_query (p # ps)"

definition query_text :: "string \<Rightarrow> bool" where
  "query_text s \<longleftrightarrow> amp \<notin> set s"

lemma find_char_first: "c \<notin> set k \<Longrightarrow> find_str [c] (k @ c # v) = Some (length k)"
  by (induction k) auto

lemma takeWhile_upto: "amp \<notin> set s \<Longrightarrow> takeWhile (\<lambda>c. c \<noteq> amp) (s @ amp # t) = s \<and> dropWhile (\<lambda>c. c \<noteq> amp) (s @ amp # t) = amp # t"
  by (induction s) auto

lemma takeWhile_all: "amp \<notin> set s \<Longrightarrow> takeWhile (\<lambda>c. c \<noteq> amp) s = s \<and> dropWhile (\<lambda>c. c \<noteq> amp) s = []"
  by (induction s) auto

text \<open>
  A query parameter is the value of the first pair with its name, for any pairs whose
  names and values hold no separator; a missing name gives the empty text.
\<close>

theorem query_param_map_of:
  assumes "list_all (\<lambda>(k, v). amp \<notin> set k \<and> equal_sign \<notin> set k \<and> amp \<notin> set v) ps"
  shows "query_param (render_query ps) key = (case map_of ps key of Some v \<Rightarrow> v | None \<Rightarrow> [])"
  using assms
proof (induction ps rule: render_query.induct)
  case 1
  then show ?case by (simp add: query_param.simps)
next
  case (2 k v)
  then have "amp \<notin> set (k @ equal_sign # v)" "equal_sign \<notin> set k" by auto
  with takeWhile_all [of "k @ equal_sign # v"] show ?case
    by (subst query_param.simps) (simp add: find_char_first)
next
  case (3 k v p ps)
  then have "amp \<notin> set (k @ equal_sign # v)" "equal_sign \<notin> set k" by auto
  with takeWhile_upto [of "k @ equal_sign # v" "render_query (p # ps)"] 3 show ?case
    by (subst query_param.simps) (simp add: find_char_first)
qed

theorem query_param_map_of_witness:
  "query_param (render_query [(''a'', ''1''), (''msg'', ''x=y'')]) ''msg'' = ''x=y''"
  using query_param_map_of [of "[(''a'', ''1''), (''msg'', ''x=y'')]" "''msg''"] by simp

text \<open>
  The echo handler answers with JSON that decodes to the \<open>msg\<close> parameter, or to the request
  body when the parameter is missing or empty, whatever characters they hold.
\<close>

theorem echo_decodes:
  "extract_json_string_field (rp_body (handle_echo request)) ''echo'' 0 =
     (let m = query_param (rq_query_string request) ''msg'' in if m \<noteq> [] then m else rq_body request)
   \<and> rp_status (handle_echo request) = Ok"
proof -
  have "extract_json_string_field ([lbrace] @ json_string_field ''echo'' v @ [rbrace]) ''echo'' 0 = v" for v
    by (rule read_after_string_field) (simp add: scan_simps plain_key_def plain_char_def)
  then show ?thesis by (auto simp: handle_echo_def empty_response_def Let_def)
qed

section \<open>Routing\<close>

lemma pop_slashes_all: "pop_slashes (replicate n slash @ c # s) = (if c = slash \<and> s \<noteq> [] then pop_slashes (c # s) else c # s)"
proof (induction n)
  case 0
  then show ?case by (cases s) auto
next
  case (Suc n)
  then show ?case by (cases n) auto
qed

lemma normalize_trailing:
  assumes "s \<noteq> []" and "last s \<noteq> slash"
  shows "normalize_path (s @ replicate n slash) = s"
proof -
  obtain c t where r: "rev s = c # t" using assms(1) by (cases "rev s") auto
  then have s: "s = rev t @ [c]" by (metis rev.simps(2) rev_rev_ident)
  with assms(2) have c: "c \<noteq> slash" by simp
  have "normalize_path (s @ replicate n slash) = rev (pop_slashes (replicate n slash @ c # t))"
    by (simp add: normalize_path_def r)
  also have "\<dots> = s" using c s by (simp add: pop_slashes_all)
  finally show ?thesis .
qed

definition builtin_route :: "http_request \<Rightarrow> bool" where
  "builtin_route request \<longleftrightarrow>
     (rq_method request, normalize_path (rq_path request)) \<in>
       {(Get, ''/health''), (Get, ''/echo''), (Post, ''/echo''), (Post, ''/notify''), (Post, ''/ai/chat'')}"

text \<open>
  The route table handles exactly the four built-in endpoints, each with its methods, with
  any number of trailing slashes; on every other request it answers nothing and changes nothing.
\<close>

theorem dispatch_handled_iff:
  "if builtin_route request
   then (case fst (dispatch request context) of
           Inr d \<Rightarrow> rd_handled d
         | Inl e \<Rightarrow> rq_method request = Post \<and> normalize_path (rq_path request) = ''/ai/chat'')
   else dispatch request context = (Inr unhandled, context)"
  by (auto simp: dispatch_def builtin_route_def unhandled_def Let_def split: sum.splits prod.splits)

lemma dispatch_builtin: "builtin_route request \<Longrightarrow> fst (dispatch request context) = Inr d \<Longrightarrow> rd_handled d"
  by (auto simp: dispatch_def builtin_route_def unhandled_def Let_def split: sum.splits prod.splits)

lemma dispatch_other_context: "normalize_path (rq_path request) \<noteq> ''/ai/chat'' \<Longrightarrow> snd (dispatch request context) = context"
  by (simp add: dispatch_def Let_def)

section \<open>The chat endpoint\<close>

definition prompt_request :: "(string \<times> jval) list \<Rightarrow> http_request" where
  "prompt_request fs = empty_request\<lparr>rq_method := Post, rq_path := ''/ai/chat'', rq_body := render_object fs\<rparr>"

lemma prompt_of_request:
  "plain_keys fs \<Longrightarrow> flat_string fs ''prompt'' = p \<Longrightarrow> p \<noteq> [] \<Longrightarrow> extract_prompt_field (render_object fs) = p"
  by (simp add: extract_prompt_field_def extract_flat_string plain_key_def plain_char_def)

lemma prepare_of_request:
  assumes "plain_keys fs" and "flat_string fs ''system'' = []"
  shows "prepare_runtime (render_object fs) ai = (if flat_bool fs ''clear'' = Some True then clear_transcript ai else ai)"
  using assms by (simp add: prepare_runtime_def extract_flat_string extract_flat_bool plain_key_def plain_char_def)

lemma chat_error_decodes:
  "extract_json_bool_field (rp_body (ac_response (chat_error st msg))) ''ok'' 0 = Some False"
  "extract_json_string_field (rp_body (ac_response (chat_error st msg))) ''error'' 0 = msg"
proof -
  have b: "rp_body (ac_response (chat_error st msg)) = render_object [(''ok'', JBool False), (''error'', JStr msg)]"
    by (simp add: chat_error_def render_object_def json_bool_field_render json_string_field_render)
  have k: "plain_key ''ok''" "plain_key ''error''" "plain_keys [(''ok'', JBool False), (''error'', JStr msg)]"
    by (simp_all add: plain_key_def plain_keys_def plain_char_def)
  show "extract_json_bool_field (rp_body (ac_response (chat_error st msg))) ''ok'' 0 = Some False"
    using k by (simp add: b extract_flat_bool flat_bool_def)
  show "extract_json_string_field (rp_body (ac_response (chat_error st msg))) ''error'' 0 = msg"
    using k by (simp add: b extract_flat_string flat_string_def)
qed

lemma chat_success_decodes:
  "ac_completed_turn (chat_success ai)" "rp_status (ac_response (chat_success ai)) = Ok"
  "extract_json_bool_field (rp_body (ac_response (chat_success ai))) ''ok'' 0 = Some True"
  "extract_json_string_field (rp_body (ac_response (chat_success ai))) ''assistant'' 0 = lr_last_assistant_message ai"
proof -
  let ?fs = "[(''ok'', JBool True), (''assistant'', JStr (lr_last_assistant_message ai)),
    (''representation'', JStr (representation_text ai)), (''model'', JStr (oc_model (lr_config ai))),
    (''status'', JStr (lr_status_text ai))]"
  have b: "rp_body (ac_response (chat_success ai)) = render_object ?fs"
    by (simp add: chat_success_def snapshot_def render_object_def json_bool_field_render json_string_field_render)
  have k: "plain_key ''ok''" "plain_key ''assistant''" "plain_keys ?fs"
    by (simp_all add: plain_key_def plain_keys_def plain_char_def)
  show "ac_completed_turn (chat_success ai)" "rp_status (ac_response (chat_success ai)) = Ok"
    by (simp_all add: chat_success_def empty_response_def Let_def)
  show "extract_json_bool_field (rp_body (ac_response (chat_success ai))) ''ok'' 0 = Some True"
    using k by (simp add: b extract_flat_bool flat_bool_def)
  show "extract_json_string_field (rp_body (ac_response (chat_success ai))) ''assistant'' 0 = lr_last_assistant_message ai"
    using k by (simp add: b extract_flat_string flat_string_def)
qed

text \<open>
  Once a chat turn has failed, every further chat request that does not ask to clear the
  transcript is answered with 400 and the waiting text, and leaves the transcript and the
  pending state as they are, whatever the transport would answer.
\<close>

theorem chat_refused_while_pending:
  assumes "hc_language_ai context = Some ai" and "hc_transport context = Some transport"
    and "lr_awaiting_response ai" and "lr_runtime_enabled ai" and "oc_enabled (lr_config ai)"
    and "plain_keys fs" and "flat_string fs ''prompt'' \<noteq> []" and "flat_string fs ''system'' = []"
    and "flat_bool fs ''clear'' \<noteq> Some True"
  shows "handle_ai_chat (prompt_request fs) context =
    (Inr (chat_error BadRequest ''Waiting for the previous Ollama response.''),
     context\<lparr>hc_language_ai := Some (ai\<lparr>lr_status_text := ''Waiting for the previous Ollama response.''\<rparr>)\<rparr>)"
  using assms by (simp add: handle_ai_chat_def prompt_request_def prompt_of_request prepare_of_request
      submit_user_message_def snapshot_def)

theorem chat_refused_while_pending_witness:
  "\<exists>ctx. handle_ai_chat (prompt_request [(''prompt'', JStr ''again'')])
      \<lparr>hc_session = default_runtime_session, hc_language_ai = Some (initial_runtime\<lparr>lr_awaiting_response := True\<rparr>),
       hc_transport = Some None\<rparr>
    = (Inr (chat_error BadRequest ''Waiting for the previous Ollama response.''), ctx)"
proof -
  let ?fs = "[(''prompt'', JStr ''again'')]" and ?ai = "initial_runtime\<lparr>lr_awaiting_response := True\<rparr>"
  have "plain_keys ?fs" "flat_string ?fs ''prompt'' \<noteq> []" "flat_string ?fs ''system'' = []" "flat_bool ?fs ''clear'' \<noteq> Some True"
    by (simp_all add: plain_keys_def plain_key_def plain_char_def flat_string_def flat_bool_def)
  moreover have "lr_awaiting_response ?ai" "lr_runtime_enabled ?ai" "oc_enabled (lr_config ?ai)"
    by (simp_all add: initial_runtime_def default_openai_config_def)
  ultimately show ?thesis
    using chat_refused_while_pending [of "\<lparr>hc_session = default_runtime_session, hc_language_ai = Some ?ai, hc_transport = Some None\<rparr>"
        ?ai None ?fs] by auto
qed

text \<open>
  A chat request over a working provider answers 200 with JSON whose \<open>assistant\<close> field
  decodes to the provider's answer, whatever characters the prompt and the answer hold, and
  records prompt and answer in the transcript.
\<close>

theorem chat_answers:
  assumes "hc_language_ai context = Some ai" and "hc_transport context = Some (Some post)"
    and "lr_runtime_enabled ai" and "\<not> lr_awaiting_response ai" and "oc_enabled (lr_config ai)"
    and "oc_model (lr_config ai) \<noteq> []" and "oc_base_url (lr_config ai) \<noteq> []"
    and "plain_keys fs" and "flat_string fs ''prompt'' \<noteq> []" and "flat_string fs ''system'' = []"
    and "flat_bool fs ''clear'' \<noteq> Some True"
    and "\<And>url body headers. post url body headers = (True, 200, completion_text model answer reason [] p q)"
    and "balanced answer" and "balanced reason" and "in_i64 p" and "in_i64 q" and "answer \<noteq> []"
  shows "case handle_ai_chat (prompt_request fs) context of
      (Inl e, ctx) \<Rightarrow> False
    | (Inr r, ctx) \<Rightarrow> ac_completed_turn r \<and> rp_status (ac_response r) = Ok
        \<and> extract_json_bool_field (rp_body (ac_response r)) ''ok'' 0 = Some True
        \<and> extract_json_string_field (rp_body (ac_response r)) ''assistant'' 0 = answer
        \<and> map_option lr_transcript (hc_language_ai ctx) =
            Some (lr_transcript ai @ [\<lparr>msg_role = User, msg_content = flat_string fs ''prompt''\<rparr>,
                                      \<lparr>msg_role = Assistant, msg_content = answer\<rparr>])"
proof -
  let ?m = "flat_string fs ''prompt''"
  let ?r = "ai\<lparr>lr_transcript := lr_transcript ai @ [\<lparr>msg_role = User, msg_content = ?m\<rparr>,
                   \<lparr>msg_role = Assistant, msg_content = answer\<rparr>],
                 lr_last_user_message := ?m, lr_last_assistant_message := answer,
                 lr_awaiting_response := False, lr_status_text := ''Ollama response applied.''\<rparr>"
  have turn: "complete_turn (Some post) (snd (submit_user_message ?m ai)) = (Inr True, ?r)"
    by (rule complete_turn_answer [OF assms(3-7) assms(9) assms(12-17)])
  have sub: "fst (submit_user_message ?m ai)"
    using assms by (simp add: submit_user_message_def)
  then obtain ai1 where pair: "submit_user_message ?m ai = (True, ai1)"
    by (cases "submit_user_message ?m ai") simp
  have "handle_ai_chat (prompt_request fs) context = (Inr (chat_success ?r), context\<lparr>hc_language_ai := Some ?r\<rparr>)"
    using assms(1,2,8-11) turn
    by (simp add: handle_ai_chat_def prompt_request_def prompt_of_request prepare_of_request pair Let_def)
  then show ?thesis
    using chat_success_decodes [of ?r] by simp
qed

theorem chat_answers_witness:
  "case handle_ai_chat (prompt_request [(''prompt'', JStr ''hi'')])
      \<lparr>hc_session = default_runtime_session, hc_language_ai = Some initial_runtime,
       hc_transport = Some (Some (\<lambda>url body headers. (True, 200, completion_text ''m'' ''hello'' ''stop'' [] 1 2)))\<rparr> of
      (Inl e, ctx) \<Rightarrow> False
    | (Inr r, ctx) \<Rightarrow> ac_completed_turn r"
proof -
  let ?post = "\<lambda>url body headers. (True, 200, completion_text ''m'' ''hello'' ''stop'' [] 1 2)"
  let ?ctx = "\<lparr>hc_session = default_runtime_session, hc_language_ai = Some initial_runtime, hc_transport = Some (Some ?post)\<rparr>"
  let ?fs = "[(''prompt'', JStr ''hi'')]"
  have "plain_keys ?fs" "flat_string ?fs ''prompt'' \<noteq> []" "flat_string ?fs ''system'' = []" "flat_bool ?fs ''clear'' \<noteq> Some True"
    by (simp_all add: plain_keys_def plain_key_def plain_char_def flat_string_def flat_bool_def)
  then show ?thesis
    using chat_answers [of ?ctx initial_runtime ?post ?fs "''m''" "''hello''" "''stop''" 1 2]
    by (auto simp: initial_runtime_def default_openai_config_def balanced_def in_i64_def split: prod.splits sum.splits)
qed

end
