(* ===== verification/Http_Server.thy ===== *)
theory Http_Server imports Complex_Main Http_Wire Net_Handlers begin

text \<open>
  \<open>src/tools/mini_http_server.cpp\<close>: reading a request from a socket, the bearer-token gate, and
  one poll of the server. The socket calls, the outbound transport and the custom routes are
  arguments; \<open>std::atoi\<close> out of range, which is undefined behaviour, is the result \<open>Undefined\<close>.
\<close>

section \<open>Requests\<close>

definition find_header_value :: "http_request \<Rightarrow> string \<Rightarrow> string" where
  "find_header_value request lower_name =
     (case find (\<lambda>h. to_lower_ascii (hh_name h) = lower_name) (rq_headers request) of
        Some h \<Rightarrow> hh_value h
      | None \<Rightarrow> [])"

definition request_requires_auth :: "string \<Rightarrow> bool" where
  "request_requires_auth path \<longleftrightarrow> starts_with path ''/api/'' \<or> path = ''/ai/chat''"

definition is_authorized :: "http_request \<Rightarrow> string \<Rightarrow> bool" where
  "is_authorized request api_token =
     (if api_token = [] then False
      else
        (let header_value = find_header_value request ''authorization''
         in if \<not> starts_with header_value ''Bearer '' then False
            else drop (length ''Bearer '') header_value = api_token))"

definition method_of_word :: "string \<Rightarrow> http_method" where
  "method_of_word w =
     (let m = to_lower_ascii w in if m = ''get'' then Get else if m = ''post'' then Post else Unknown)"

definition parse_request_line :: "string \<Rightarrow> http_request \<Rightarrow> http_request option" where
  "parse_request_line line request =
     (case words line of
        method # path # _ \<Rightarrow>
          (let r = request\<lparr>rq_method := method_of_word method\<rparr>
           in case find_str ''?'' path of
                Some q \<Rightarrow> Some (r\<lparr>rq_query_string := drop (q + 1) path, rq_path := take q path\<rparr>)
              | None \<Rightarrow> Some (r\<lparr>rq_path := path\<rparr>))
      | _ \<Rightarrow> None)"

text \<open>The header of a line, if it has a colon, and the \<open>Content-Length\<close> the line sets.\<close>

definition header_of_line :: "string \<Rightarrow> http_header list" where
  "header_of_line line =
     (case find_str [colon] line of
        Some i \<Rightarrow> [\<lparr>hh_name = trim_ascii (take i line), hh_value = trim_ascii (drop (i + 1) line)\<rparr>]
      | None \<Rightarrow> [])"

fun read_header_lines :: "string list \<Rightarrow> http_header list \<Rightarrow> int \<Rightarrow> (http_header list \<times> int) option" where
  "read_header_lines [] headers content_length = Some (headers, content_length)"
| "read_header_lines (l # ls) headers content_length =
     (let line = strip_cr l; headers' = headers @ header_of_line line
      in if starts_with (to_lower_ascii line) ''content-length:''
         then (case atoi (trim_ascii (drop 15 line)) of
                 None \<Rightarrow> None
               | Some n \<Rightarrow> read_header_lines ls headers' n)
         else read_header_lines ls headers' content_length)"

datatype 'a read_result = Undefined | Closed | Received 'a

definition read_request :: "string list \<Rightarrow> http_request read_result" where
  "read_request chunks =
     (case recv_until 65536 [] chunks of
        None \<Rightarrow> Closed
      | Some (buffer, rest) \<Rightarrow>
          (case find_str blank_line buffer of
             None \<Rightarrow> Closed
           | Some header_end \<Rightarrow>
               (case getlines (take header_end buffer) of
                  [] \<Rightarrow> Closed
                | first # ls \<Rightarrow>
                    (case parse_request_line (strip_cr first) empty_request of
                       None \<Rightarrow> Closed
                     | Some r \<Rightarrow>
                         (case read_header_lines ls [] 0 of
                            None \<Rightarrow> Undefined
                          | Some (headers, n) \<Rightarrow>
                              (let body = recv_body n (drop (header_end + 4) buffer) rest
                               in Received (r\<lparr>rq_headers := headers,
                                    rq_body := (if n > 0 then take (nat n) body else body)\<rparr>)))))))"

definition response_payload :: "http_response \<Rightarrow> string" where
  "response_payload response =
     ''HTTP/1.1 '' @ to_string (status_number (rp_status response)) @ '' OK'' @ crlf
     @ ''Content-Type: '' @ rp_content_type response @ crlf
     @ ''Content-Length: '' @ to_string (int (length (rp_body response))) @ crlf
     @ ''Connection: close'' @ blank_line
     @ rp_body response"

definition write_response :: "int list \<Rightarrow> http_response \<Rightarrow> string \<times> bool" where
  "write_response sents response = send_loop sents (response_payload response)"

section \<open>The server\<close>

record server_options =
  so_port :: int
  so_session :: runtime_session
  so_on_notify :: bool
  so_enable_language_ai :: bool
  so_ollama_config :: openai_config
  so_system_prompt :: string
  so_api_token :: string

record 'h mini_http_server =
  ms_running :: bool
  ms_options :: server_options
  ms_language_ai :: language_runtime
  ms_host :: 'h

text \<open>The routes of the host: whether it handled the request, the response, and its new state.\<close>

type_synonym 'h custom_route = "http_request \<Rightarrow> 'h \<Rightarrow> (cpp_exception + http_response option) \<times> 'h"

text \<open>The response of a served request, or the exception that leaves \<open>poll_once\<close>, and the messages notified.\<close>

record served =
  sv_response :: "cpp_exception + http_response"
  sv_notified :: "string list"

definition configure_language_ai :: "server_options \<Rightarrow> 'h mini_http_server \<Rightarrow> 'h mini_http_server" where
  "configure_language_ai options server =
     (let ai = ms_language_ai server
      in if \<not> so_enable_language_ai options then server\<lparr>ms_language_ai := set_runtime_enabled False ai\<rparr>
         else
           (let ai1 = set_ollama_config (so_ollama_config options) (set_runtime_enabled True ai)
            in server\<lparr>ms_language_ai :=
                 (if so_system_prompt options \<noteq> [] then set_system_prompt (so_system_prompt options) ai1 else ai1)\<rparr>))"

text \<open>\<open>start\<close>: the socket calls \<open>socket\<close>, \<open>bind\<close> and \<open>listen\<close> succeed or not.\<close>

definition stop_server :: "'h mini_http_server \<Rightarrow> 'h mini_http_server" where
  "stop_server server = server\<lparr>ms_running := False\<rparr>"

definition start_server :: "bool \<Rightarrow> bool \<Rightarrow> server_options \<Rightarrow> 'h mini_http_server \<Rightarrow> bool \<times> 'h mini_http_server" where
  "start_server library_ok sockets_ok options server =
     (let stopped = stop_server server
      in if \<not> library_ok then (False, stopped)
         else (let configured = configure_language_ai options (stopped\<lparr>ms_options := options\<rparr>)
               in if \<not> sockets_ok then (False, configured) else (True, configured\<lparr>ms_running := True\<rparr>)))"

definition unauthorized_response :: http_response where
  "unauthorized_response = empty_response\<lparr>rp_status := Unauthorized,
     rp_body := [lbrace] @ json_string_field ''error'' ''unauthorized'' @ [comma]
       @ json_string_field ''message'' ''missing or invalid Authorization: Bearer <token> header'' @ [rbrace]\<rparr>"

definition not_found_response :: http_response where
  "not_found_response = empty_response\<lparr>rp_status := NotFound,
     rp_body := [lbrace] @ json_string_field ''error'' ''not_found'' @ [rbrace]\<rparr>"

text \<open>What \<open>poll_once\<close> does with a request it has read.\<close>

definition serve_request ::
    "post_json \<Rightarrow> 'h custom_route option \<Rightarrow> http_request \<Rightarrow> 'h mini_http_server \<Rightarrow> served \<times> 'h mini_http_server" where
  "serve_request post custom request server =
     (let options = ms_options server
      in if request_requires_auth (rq_path request) \<and> \<not> is_authorized request (so_api_token options)
         then (\<lparr>sv_response = Inr unauthorized_response, sv_notified = []\<rparr>, server)
         else
           (let context = \<lparr>hc_session = so_session options,
                  hc_language_ai = (if so_enable_language_ai options then Some (ms_language_ai server) else None),
                  hc_transport = (if so_enable_language_ai options then Some (Some post) else None)\<rparr>;
                (outcome, context') = dispatch request context;
                server' = server\<lparr>ms_language_ai :=
                  (case hc_language_ai context' of Some ai \<Rightarrow> ai | None \<Rightarrow> ms_language_ai server)\<rparr>
            in case outcome of
                 Inl e \<Rightarrow> (\<lparr>sv_response = Inl e, sv_notified = []\<rparr>, server')
               | Inr d \<Rightarrow>
                   if rd_handled d then
                     (\<lparr>sv_response = Inr (rd_response d),
                       sv_notified = (if nh_has_message (rd_notify d) \<and> so_on_notify options
                                      then [nm_text (nh_message (rd_notify d))] else [])\<rparr>, server')
                   else
                     (case custom of
                        None \<Rightarrow> (\<lparr>sv_response = Inr not_found_response, sv_notified = []\<rparr>, server')
                      | Some route \<Rightarrow>
                          (case route request (ms_host server') of
                             (Inl e, h) \<Rightarrow> (\<lparr>sv_response = Inl e, sv_notified = []\<rparr>, server'\<lparr>ms_host := h\<rparr>)
                           | (Inr (Some response), h) \<Rightarrow>
                               (\<lparr>sv_response = Inr response, sv_notified = []\<rparr>, server'\<lparr>ms_host := h\<rparr>)
                           | (Inr None, h) \<Rightarrow>
                               (\<lparr>sv_response = Inr not_found_response, sv_notified = []\<rparr>, server'\<lparr>ms_host := h\<rparr>)))))"

text \<open>
  One poll. The first argument after the routes is what \<open>select\<close> and \<open>accept\<close> give: no client,
  or the byte runs of one. The result is the value \<open>poll_once\<close> returns and what was served.
\<close>

datatype poll_outcome = NotRunning | NoClient | BadRequestDropped | UndefinedBehaviour | Served served

definition poll_once ::
    "post_json \<Rightarrow> 'h custom_route option \<Rightarrow> string list option \<Rightarrow> 'h mini_http_server \<Rightarrow> poll_outcome \<times> 'h mini_http_server" where
  "poll_once post custom client server =
     (if \<not> ms_running server then (NotRunning, server)
      else
        (case client of
           None \<Rightarrow> (NoClient, server)
         | Some chunks \<Rightarrow>
             (case read_request chunks of
                Closed \<Rightarrow> (BadRequestDropped, server)
              | Undefined \<Rightarrow> (UndefinedBehaviour, server)
              | Received request \<Rightarrow> apfst Served (serve_request post custom request server))))"

section \<open>The gate\<close>

lemma is_authorized_iff:
  "is_authorized request token \<longleftrightarrow> token \<noteq> [] \<and> find_header_value request ''authorization'' = ''Bearer '' @ token"
  by (auto simp: is_authorized_def starts_with_def Let_def prefix_def)

text \<open>
  C7: the gate fails closed. A request to any \<open>/api/\<close> path whose first Authorization header is
  not exactly the bearer token is answered 401, nothing is notified and neither the host nor the
  language runtime changes; with an empty configured token every such request is refused.
\<close>

theorem api_requires_token:
  assumes "starts_with (rq_path request) ''/api/''"
    and "so_api_token (ms_options server) = []
      \<or> find_header_value request ''authorization'' \<noteq> ''Bearer '' @ so_api_token (ms_options server)"
  shows "serve_request post custom request server = (\<lparr>sv_response = Inr unauthorized_response, sv_notified = []\<rparr>, server)
    \<and> rp_status unauthorized_response = Unauthorized"
  using assms by (auto simp: serve_request_def request_requires_auth_def is_authorized_iff Let_def
      unauthorized_response_def empty_response_def)

theorem api_requires_token_witness:
  "fst (serve_request (\<lambda>u b h. (False, 0, [])) None
      (empty_request\<lparr>rq_method := Post, rq_path := ''/api/run'', rq_headers := [\<lparr>hh_name = ''Authorization'', hh_value = ''Bearer no''\<rparr>]\<rparr>)
      \<lparr>ms_running = True, ms_options = \<lparr>so_port = 30080, so_session = default_runtime_session, so_on_notify = True,
         so_enable_language_ai = True, so_ollama_config = default_openai_config, so_system_prompt = [], so_api_token = ''yes''\<rparr>,
       ms_language_ai = initial_runtime, ms_host = ()\<rparr>)
    = \<lparr>sv_response = Inr unauthorized_response, sv_notified = []\<rparr>"
  by (simp add: api_requires_token empty_request_def starts_with_def find_header_value_def)

text \<open>The context \<open>poll_once\<close> builds for the built-in routes when the language runtime is enabled.\<close>

definition ai_context :: "post_json \<Rightarrow> 'h mini_http_server \<Rightarrow> handler_context" where
  "ai_context post server =
     \<lparr>hc_session = so_session (ms_options server), hc_language_ai = Some (ms_language_ai server), hc_transport = Some (Some post)\<rparr>"

lemma normalize_chat_slash: "normalize_path ''/ai/chat/'' = ''/ai/chat''"
  using normalize_trailing [of "''/ai/chat''" 1] by simp

text \<open>
  C39: the gate and the route table disagree on trailing slashes. A \<open>POST /ai/chat/\<close> without any
  header is not gated, yet it is routed to the chat handler, which runs the turn and spends a
  provider call; the same request without the slash is refused.
\<close>

theorem chat_gate_bypassed_by_slash:
  assumes "so_enable_language_ai (ms_options server)"
  shows "serve_request post custom (empty_request\<lparr>rq_method := Post, rq_path := ''/ai/chat/'', rq_body := body\<rparr>) server =
      (case handle_ai_chat (empty_request\<lparr>rq_method := Post, rq_path := ''/ai/chat/'', rq_body := body\<rparr>) (ai_context post server) of
         (outcome, context) \<Rightarrow>
           (\<lparr>sv_response = map_sum id ac_response outcome, sv_notified = []\<rparr>,
            server\<lparr>ms_language_ai := (case hc_language_ai context of Some ai \<Rightarrow> ai | None \<Rightarrow> ms_language_ai server)\<rparr>))
    \<and> serve_request post custom (empty_request\<lparr>rq_method := Post, rq_path := ''/ai/chat'', rq_body := body\<rparr>) server =
      (\<lparr>sv_response = Inr unauthorized_response, sv_notified = []\<rparr>, server)"
proof -
  have "\<not> request_requires_auth ''/ai/chat/''" "request_requires_auth ''/ai/chat''"
    by (simp_all add: request_requires_auth_def starts_with_def)
  moreover have "\<not> is_authorized (empty_request\<lparr>rq_method := m, rq_path := p, rq_body := b\<rparr>) token" for m p b token
    by (simp add: is_authorized_iff find_header_value_def empty_request_def)
  ultimately show ?thesis
    using assms
    by (simp add: serve_request_def dispatch_def normalize_chat_slash ai_context_def unhandled_def empty_notify_result_def
        empty_request_def split: prod.split sum.split)
qed

theorem chat_gate_bypassed_by_slash_witness:
  "\<exists>server'. serve_request (\<lambda>u b h. (True, 200, [])) None
      (empty_request\<lparr>rq_method := Post, rq_path := ''/ai/chat'', rq_body := ''x''\<rparr>)
      \<lparr>ms_running = True, ms_options = \<lparr>so_port = 30080, so_session = default_runtime_session, so_on_notify = True,
         so_enable_language_ai = True, so_ollama_config = default_openai_config, so_system_prompt = [], so_api_token = ''yes''\<rparr>,
       ms_language_ai = initial_runtime, ms_host = ()\<rparr> = (\<lparr>sv_response = Inr unauthorized_response, sv_notified = []\<rparr>, server')"
  by (rule exI, rule chat_gate_bypassed_by_slash [THEN conjunct2]) simp

text \<open>The context any request is dispatched in, and what serving a built-in route comes down to.\<close>

definition poll_context :: "post_json \<Rightarrow> 'h mini_http_server \<Rightarrow> handler_context" where
  "poll_context post server =
     \<lparr>hc_session = so_session (ms_options server),
      hc_language_ai = (if so_enable_language_ai (ms_options server) then Some (ms_language_ai server) else None),
      hc_transport = (if so_enable_language_ai (ms_options server) then Some (Some post) else None)\<rparr>"

lemma serve_builtin:
  assumes "builtin_route request"
  shows "snd (serve_request post custom request server) = server \<or>
    snd (serve_request post custom request server) = server\<lparr>ms_language_ai :=
      (case hc_language_ai (snd (dispatch request (poll_context post server))) of Some ai \<Rightarrow> ai | None \<Rightarrow> ms_language_ai server)\<rparr>"
proof -
  obtain res ctx where d: "dispatch request (poll_context post server) = (res, ctx)" by fastforce
  show ?thesis
  proof (cases res)
    case (Inl e)
    with d show ?thesis by (simp add: serve_request_def poll_context_def Let_def)
  next
    case (Inr r)
    then have "rd_handled r" using dispatch_builtin [OF assms, of "poll_context post server"] d by simp
    with d Inr show ?thesis by (simp add: serve_request_def poll_context_def Let_def)
  qed
qed

text \<open>
  The built-in routes, which need no token, never touch the host or the options of the
  server; all but the chat route leave the whole server as it is.
\<close>

theorem builtin_routes_keep_host:
  assumes "builtin_route request"
  shows "ms_host (snd (serve_request post custom request server)) = ms_host server
    \<and> ms_options (snd (serve_request post custom request server)) = ms_options server
    \<and> (normalize_path (rq_path request) \<noteq> ''/ai/chat'' \<longrightarrow> snd (serve_request post custom request server) = server)"
proof -
  have "normalize_path (rq_path request) \<noteq> ''/ai/chat'' \<Longrightarrow>
      server\<lparr>ms_language_ai := (case hc_language_ai (snd (dispatch request (poll_context post server))) of
        Some ai \<Rightarrow> ai | None \<Rightarrow> ms_language_ai server)\<rparr> = server"
    by (simp add: dispatch_other_context poll_context_def)
  then show ?thesis using serve_builtin [OF assms, of post custom server] by auto
qed

theorem builtin_routes_keep_host_witness:
  "snd (serve_request (\<lambda>u b h. (True, 200, [])) (Some (\<lambda>r h. (Inr None, h + 1)))
      (empty_request\<lparr>rq_method := Get, rq_path := ''/health''\<rparr>)
      \<lparr>ms_running = True, ms_options = \<lparr>so_port = 30080, so_session = default_runtime_session, so_on_notify = True,
         so_enable_language_ai = True, so_ollama_config = default_openai_config, so_system_prompt = [], so_api_token = ''yes''\<rparr>,
       ms_language_ai = initial_runtime, ms_host = 5::nat\<rparr>) =
      \<lparr>ms_running = True, ms_options = \<lparr>so_port = 30080, so_session = default_runtime_session, so_on_notify = True,
         so_enable_language_ai = True, so_ollama_config = default_openai_config, so_system_prompt = [], so_api_token = ''yes''\<rparr>,
       ms_language_ai = initial_runtime, ms_host = 5\<rparr>"
proof -
  have "builtin_route (empty_request\<lparr>rq_method := Get, rq_path := ''/health''\<rparr>)"
    "normalize_path (rq_path (empty_request\<lparr>rq_method := Get, rq_path := ''/health''\<rparr>)) \<noteq> ''/ai/chat''"
    by (simp_all add: builtin_route_def normalize_path_def)
  then show ?thesis using builtin_routes_keep_host by blast
qed

section \<open>Reading a request\<close>

lemma read_header_lines_strip:
  "list_all header_line (map strip_cr ls) \<Longrightarrow> read_header_lines ls hs n = read_header_lines (map strip_cr ls) hs n"
proof (induction ls arbitrary: hs n)
  case (Cons l ls)
  then have "strip_cr (strip_cr l) = strip_cr l" by (simp add: strip_cr_line header_line_def)
  with Cons show ?case by (simp add: Let_def split: option.split)
qed simp

lemma read_request_text:
  assumes lines: "list_all header_line (first # ls)" and chunks: "[] \<notin> set chunks"
    and whole: "concat chunks = join_crlf (first # ls) @ blank_line @ body" and "length (concat chunks) \<le> 65536"
    and first: "parse_request_line first empty_request = Some r"
    and headers: "read_header_lines ls [] 0 = Some (hs, int (length body))"
  shows "read_request chunks = Received (r\<lparr>rq_headers := hs, rq_body := body\<rparr>)"
proof -
  let ?h = "join_crlf (first # ls)"
  have f: "find_str blank_line (?h @ blank_line @ body) = Some (length ?h)"
    using lines by (intro find_blank_line) simp_all
  then have c: "contains ([] @ concat chunks) blank_line" by (simp add: contains_def whole)
  obtain got rest where r: "recv_until 65536 [] chunks = Some (got, rest)" "got @ concat rest = [] @ concat chunks"
      "[] \<notin> set rest" "find_str blank_line got = find_str blank_line ([] @ concat chunks)"
    using recv_until_any_chunks [OF c chunks] assms(4) by auto
  have find: "find_str blank_line got = Some (length ?h)" using r(4) f by (simp add: whole)
  have d: "got @ concat rest = ?h @ blank_line @ body" using r(2) whole by simp
  have le: "length ?h + 4 \<le> length got" using find_str_le [OF find] by simp
  have "take (length ?h) (got @ concat rest) = ?h" by (simp only: d) simp
  then have t: "take (length ?h) got = ?h" using le by simp
  have "drop (length ?h + 4) (got @ concat rest) = body" by (simp only: d) simp
  then have b: "drop (length ?h + 4) got @ concat rest = body" using le by simp
  have len: "length body \<le> length (concat chunks)" by (simp add: whole)
  have rb: "recv_body (int (length body)) (drop (length ?h + 4) got) rest = body"
    using b r(3) assms(4) len by (subst recv_body_any_chunks) simp_all
  obtain g gs where g: "getlines ?h = g # gs" "strip_cr g = first" "map strip_cr gs = ls"
    using getlines_join [OF lines] by auto
  have "read_header_lines gs [] 0 = Some (hs, int (length body))"
    using read_header_lines_strip [of gs] lines headers g(3) by simp
  with r(1) find t g(1,2) first rb show ?thesis
    by (cases "body = []") (simp_all add: read_request_def Let_def)
qed

lemma header_of_line_pair:
  "colon \<notin> set name \<Longrightarrow> header_of_line (name @ colon # v) = [\<lparr>hh_name = trim_ascii name, hh_value = trim_ascii v\<rparr>]"
  by (simp add: header_of_line_def find_char_first)

lemma trim_ascii_inner:
  assumes "v \<noteq> []" and "\<not> is_pad (hd v)" and "\<not> is_pad (last v)"
  shows "trim_ascii v = v" "trim_ascii (blank # v) = v"
proof -
  have "dropWhile is_pad v = v" using assms(1,2) by (cases v) auto
  moreover have "dropWhile is_pad (rev v) = rev v" using assms(1,3) by (cases v rule: rev_cases) auto
  ultimately show "trim_ascii v = v" "trim_ascii (blank # v) = v"
    by (simp_all add: trim_ascii_def is_pad_def [of blank])
qed

lemma prefix_upto_colon:
  "colon \<notin> set w \<Longrightarrow> colon \<notin> set x \<Longrightarrow> prefix (w @ [colon]) (x @ colon # y) \<longleftrightarrow> w = x"
proof (induction w arbitrary: x)
  case Nil
  then show ?case by (cases x) auto
next
  case (Cons a w)
  then show ?case by (cases x) auto
qed

lemma tolower_colon: "tolower c = colon \<longleftrightarrow> c = colon"
proof
  assume "tolower c = colon"
  then have "(of_char (tolower c) :: nat) = 58" by simp
  then have "(of_char c :: nat) = 58"
    by (auto simp: tolower_def Let_def split: if_splits)
  then have "char_of (of_char c :: nat) = char_of (58 :: nat)" by simp
  moreover have "char_of (58 :: nat) = colon" by code_simp
  ultimately show "c = colon" by simp
next
  assume "c = colon"
  then show "tolower c = colon" by (simp add: tolower_def)
qed

lemma length_line_iff:
  assumes "colon \<notin> set name"
  shows "starts_with (to_lower_ascii (name @ colon # v)) ''content-length:'' \<longleftrightarrow> to_lower_ascii name = ''content-length''"
proof -
  have "to_lower_ascii (name @ colon # v) = to_lower_ascii name @ colon # to_lower_ascii v"
    by (simp add: to_lower_ascii_def tolower_colon)
  moreover have "colon \<notin> set (to_lower_ascii name)"
    using assms unfolding to_lower_ascii_def set_map by (metis imageE tolower_colon)
  ultimately show ?thesis
    using prefix_upto_colon [of "''content-length''" "to_lower_ascii name"] by (auto simp: starts_with_def)
qed

text \<open>One header line of the form \<open>Name:value\<close>.\<close>

lemma read_header_pair:
  assumes "colon \<notin> set name" and "carriage \<notin> set name" and "carriage \<notin> set v"
    and "trim_ascii name = name" and "to_lower_ascii name \<noteq> ''content-length''"
  shows "read_header_lines ((name @ colon # v) # ls) hs n = read_header_lines ls (hs @ [\<lparr>hh_name = name, hh_value = trim_ascii v\<rparr>]) n"
proof -
  have "strip_cr (name @ colon # v) = name @ colon # v" using assms(2,3) by (simp add: strip_cr_line)
  then show ?thesis
    using assms(1,4,5) by (simp add: Let_def length_line_iff header_of_line_pair del: to_lower_ascii_append)
qed

lemma read_length_line:
  assumes "0 \<le> k" and "k < 2 ^ 31"
  shows "read_header_lines ((''Content-Length'' @ colon # blank # to_string k) # ls) hs n =
    read_header_lines ls (hs @ [\<lparr>hh_name = ''Content-Length'', hh_value = to_string k\<rparr>]) k"
proof -
  let ?l = "''Content-Length'' @ colon # blank # to_string k"
  have "carriage \<notin> set (to_string k)"
    using not_digit_not_dec [of carriage] by (auto simp: to_string_def is_digit_def)
  then have "strip_cr ?l = ?l" by (intro strip_cr_line) simp
  moreover have "to_lower_ascii ''Content-Length'' = ''content-length''" by code_simp
  then have "starts_with (to_lower_ascii ?l) ''content-length:''"
    by (subst length_line_iff) simp_all
  moreover have "atoi (trim_ascii (drop 15 ?l)) = Some k"
    using atoi_to_string [of k "[]"] assms by (simp add: trim_to_string)
  moreover have "header_of_line ?l = [\<lparr>hh_name = ''Content-Length'', hh_value = to_string k\<rparr>]"
    using header_of_line_pair [of "''Content-Length''" "blank # to_string k"]
    by (simp add: trim_to_string trim_ascii_inner is_pad_def)
  ultimately show ?thesis by (simp add: Let_def del: append.simps)
qed

end
