(* ===== verification/Http_Client.thy ===== *)
theory Http_Client imports Complex_Main Http_Server begin

text \<open>
  \<open>src/tools/sync_http_client.cpp\<close>: URLs, the request that goes out and the response that is
  read back, and what client and server of this program make of each other's bytes. Sockets,
  name resolution and the WinHTTP transport for \<open>https\<close> are arguments.
\<close>

section \<open>URLs\<close>

record parsed_http_url =
  pu_host :: string
  pu_path :: string
  pu_port :: int
  pu_is_https :: bool
  pu_valid :: bool

definition empty_url :: parsed_http_url where
  "empty_url = \<lparr>pu_host = [], pu_path = [slash], pu_port = 80, pu_is_https = False, pu_valid = False\<rparr>"

text \<open>\<open>None\<close> stands for the undefined \<open>std::atoi\<close> of a port outside 32 bits.\<close>

definition parse_http_url :: "string \<Rightarrow> parsed_http_url option" where
  "parse_http_url url =
     (let is_https = starts_with url ''https://''
      in if \<not> is_https \<and> \<not> starts_with url ''http://'' then Some empty_url
         else
           (let parsed = (if is_https then empty_url\<lparr>pu_is_https := True, pu_port := 443\<rparr> else empty_url);
                remainder0 = drop (length (if is_https then ''https://'' else ''http://'')) url;
                (parsed, remainder) =
                  (case find_str [slash] remainder0 of
                     Some i \<Rightarrow> (parsed\<lparr>pu_path := drop i remainder0\<rparr>, take i remainder0)
                   | None \<Rightarrow> (parsed, remainder0))
            in case find_str [colon] remainder of
                 Some i \<Rightarrow>
                   (case atoi (drop (i + 1) remainder) of
                      None \<Rightarrow> None
                    | Some p \<Rightarrow> Some (parsed\<lparr>pu_host := take i remainder, pu_port := max 1 p, pu_valid := take i remainder \<noteq> []\<rparr>))
               | None \<Rightarrow> Some (parsed\<lparr>pu_host := remainder, pu_valid := remainder \<noteq> []\<rparr>)))"

text \<open>\<open>static_cast<uint16_t>(parsed.port)\<close>.\<close>

definition port_on_wire :: "parsed_http_url \<Rightarrow> int" where
  "port_on_wire parsed = pu_port parsed mod 2 ^ 16"

section \<open>The request\<close>

definition request_text :: "string \<Rightarrow> parsed_http_url \<Rightarrow> string \<Rightarrow> string list \<Rightarrow> string" where
  "request_text method parsed body extra_headers =
     method @ '' '' @ pu_path parsed @ '' HTTP/1.1'' @ crlf
     @ ''Host: '' @ pu_host parsed @ crlf
     @ ''Connection: close'' @ crlf
     @ (if method = ''POST''
        then ''Content-Type: application/json'' @ crlf
          @ ''Content-Length: '' @ to_string (int (length body)) @ crlf
        else [])
     @ concat (map (\<lambda>h. h @ crlf) extra_headers)
     @ crlf
     @ (if method = ''POST'' then body else [])"

section \<open>The response\<close>

fun response_length :: "string list \<Rightarrow> int \<Rightarrow> int option" where
  "response_length [] content_length = Some content_length"
| "response_length (l # ls) content_length =
     (let line = strip_cr l
      in if starts_with (to_lower_ascii line) ''content-length:''
         then (case atoi (drop 15 line) of None \<Rightarrow> None | Some n \<Rightarrow> response_length ls n)
         else response_length ls content_length)"

definition response_status :: "string \<Rightarrow> int option" where
  "response_status header_block =
     (case find_str '' '' header_block of None \<Rightarrow> Some 0 | Some i \<Rightarrow> atoi (drop (i + 1) header_block))"

definition read_http_response :: "string list \<Rightarrow> (int \<times> string) read_result" where
  "read_http_response chunks =
     (case recv_until 1048576 [] chunks of
        None \<Rightarrow> Closed
      | Some (buffer, rest) \<Rightarrow>
          (case find_str blank_line buffer of
             None \<Rightarrow> Closed
           | Some header_end \<Rightarrow>
               (let header_block = take header_end buffer; body0 = drop (header_end + 4) buffer
                in case (response_status header_block, response_length (getlines header_block) (-1)) of
                     (Some status, Some n) \<Rightarrow>
                       (if n \<ge> 0 then Received (status, take (nat n) (recv_body n body0 rest))
                        else Received (status, body0))
                   | _ \<Rightarrow> Undefined)))"

section \<open>sync_http_request\<close>

record network =
  nw_library_ok :: bool
  nw_socket_ok :: bool
  nw_resolves :: "string \<Rightarrow> bool"
  nw_connects :: "string \<Rightarrow> int \<Rightarrow> bool"
  nw_sents :: "int list"
  nw_received :: "string list"
  nw_https :: "(string \<Rightarrow> parsed_http_url \<Rightarrow> string \<Rightarrow> string list \<Rightarrow> bool \<times> int \<times> string) option"

text \<open>
  The result is the returned flag, the status and the body; \<open>None\<close> is undefined behaviour.
  \<open>nw_https\<close> is the WinHTTP transport, absent on other platforms.
\<close>

definition sync_http_request ::
    "network \<Rightarrow> string \<Rightarrow> string \<Rightarrow> string \<Rightarrow> string list \<Rightarrow> (bool \<times> int \<times> string) option" where
  "sync_http_request net method url body extra_headers =
     (case parse_http_url url of
        None \<Rightarrow> None
      | Some parsed \<Rightarrow>
          if \<not> pu_valid parsed then Some (False, 0, [])
          else if pu_is_https parsed then
            (case nw_https net of
               Some https \<Rightarrow> Some (https method parsed body extra_headers)
             | None \<Rightarrow> Some (False, 0, []))
          else if \<not> nw_library_ok net \<or> \<not> nw_socket_ok net then Some (False, 0, [])
          else if pu_host parsed \<noteq> ''localhost'' \<and> pu_host parsed \<noteq> ''127.0.0.1'' \<and> \<not> nw_resolves net (pu_host parsed)
          then Some (False, 0, [])
          else if \<not> nw_connects net (pu_host parsed) (port_on_wire parsed) then Some (False, 0, [])
          else if \<not> snd (send_loop (nw_sents net) (request_text method parsed body extra_headers)) then Some (False, 0, [])
          else
            (case read_http_response (nw_received net) of
               Undefined \<Rightarrow> None
             | Closed \<Rightarrow> Some (False, 0, [])
             | Received (status, response_body) \<Rightarrow> Some (True, status, response_body)))"

definition sync_http_post_json :: "network \<Rightarrow> string \<Rightarrow> string \<Rightarrow> string list \<Rightarrow> (bool \<times> int \<times> string) option" where
  "sync_http_post_json net url body extra_headers = sync_http_request net ''POST'' url body extra_headers"

definition sync_http_get :: "network \<Rightarrow> string \<Rightarrow> (bool \<times> int \<times> string) option" where
  "sync_http_get net url = sync_http_request net ''GET'' url [] []"

section \<open>What the server reads of a client's request\<close>

definition request_line :: "string \<Rightarrow> string \<Rightarrow> string" where
  "request_line method path = method @ '' '' @ path @ '' HTTP/1.1''"

definition length_line :: "string \<Rightarrow> string" where
  "length_line body = ''Content-Length: '' @ to_string (int (length body))"

lemma post_request_text:
  "request_text ''POST'' parsed body extra =
     join_crlf (request_line ''POST'' (pu_path parsed) # [''Host: '' @ pu_host parsed, ''Connection: close'',
       ''Content-Type: application/json'', length_line body] @ extra) @ blank_line @ body"
  using join_crlf_lines [of "request_line ''POST'' (pu_path parsed)" "[''Host: '' @ pu_host parsed, ''Connection: close'',
       ''Content-Type: application/json'', length_line body] @ extra" body]
  by (simp add: request_text_def request_line_def length_line_def)

lemma parse_client_line:
  assumes "path \<noteq> []" and "list_all (\<lambda>c. \<not> is_space c) path" and "CHR ''?'' \<notin> set path"
  shows "parse_request_line (request_line ''POST'' path) empty_request = Some (empty_request\<lparr>rq_method := Post, rq_path := path\<rparr>)"
proof -
  have "words (request_line ''POST'' path) = [''POST'', path, ''HTTP/1.1'']"
    using words_step(1) [of "''POST''" "path @ '' HTTP/1.1''"] words_step(1) [OF assms(1,2), of "''HTTP/1.1''"]
      words_step(2) [of "''HTTP/1.1''"]
    by (simp add: request_line_def is_space_def)
  moreover have "find_str ''?'' path = None"
    using assms(3) find_str_skip_char [of "CHR ''?''" path "[]" "[]"] by simp
  moreover have "method_of_word ''POST'' = Post"
    by code_simp
  ultimately show ?thesis by (simp add: parse_request_line_def empty_request_def)
qed

text \<open>The header lines behind the request line, and the token header a caller adds.\<close>

definition token_header :: "string \<Rightarrow> string" where
  "token_header tok = ''Authorization'' @ colon # '' Bearer '' @ tok"

lemma client_header_lines:
  assumes "length body < 2 ^ 31" and "tok \<noteq> []" and "\<not> is_pad (last tok)" and "carriage \<notin> set tok" and "carriage \<notin> set host"
  shows "\<exists>hs. read_header_lines [''Host'' @ colon # blank # host, ''Connection'' @ colon # '' close'',
      ''Content-Type'' @ colon # '' application/json'', ''Content-Length'' @ colon # blank # to_string (int (length body)),
      token_header tok] [] 0 = Some (hs, int (length body))
    \<and> find (\<lambda>h. to_lower_ascii (hh_name h) = ''authorization'') hs = Some \<lparr>hh_name = ''Authorization'', hh_value = ''Bearer '' @ tok\<rparr>"
proof -
  have low: "to_lower_ascii ''Host'' = ''host''" "to_lower_ascii ''Connection'' = ''connection''"
    "to_lower_ascii ''Content-Type'' = ''content-type''" "to_lower_ascii ''Content-Length'' = ''content-length''"
    "to_lower_ascii ''Authorization'' = ''authorization''"
    by code_simp+
  have name: "trim_ascii ''Host'' = ''Host''" "trim_ascii ''Connection'' = ''Connection''" "trim_ascii ''Content-Type'' = ''Content-Type''"
    "trim_ascii ''Authorization'' = ''Authorization''"
    by (simp_all add: trim_ascii_inner is_pad_def)
  have tok: "trim_ascii ('' Bearer '' @ tok) = ''Bearer '' @ tok"
  proof -
    have "\<not> is_pad (hd (''Bearer '' @ tok))" "\<not> is_pad (last (''Bearer '' @ tok))"
      using assms(2,3) by (simp_all add: is_pad_def)
    then have "trim_ascii (blank # ''Bearer '' @ tok) = ''Bearer '' @ tok" by (intro trim_ascii_inner(2)) simp_all
    then show ?thesis by simp
  qed
  let ?h = "\<lambda>n v. \<lparr>hh_name = n, hh_value = v\<rparr>"
  let ?a = "?h ''Host'' (trim_ascii (blank # host))" and ?b = "?h ''Connection'' (trim_ascii '' close'')"
    and ?c = "?h ''Content-Type'' (trim_ascii '' application/json'')"
    and ?d = "?h ''Content-Length'' (to_string (int (length body)))" and ?e = "?h ''Authorization'' (''Bearer '' @ tok)"
  have "read_header_lines [''Host'' @ colon # blank # host, ''Connection'' @ colon # '' close'',
      ''Content-Type'' @ colon # '' application/json'', ''Content-Length'' @ colon # blank # to_string (int (length body)),
      token_header tok] [] 0
    = read_header_lines [''Connection'' @ colon # '' close'', ''Content-Type'' @ colon # '' application/json'',
      ''Content-Length'' @ colon # blank # to_string (int (length body)), token_header tok] ([] @ [?a]) 0"
    by (rule read_header_pair) (use assms in \<open>simp_all add: low name\<close>)
  also have "\<dots> = read_header_lines [''Content-Type'' @ colon # '' application/json'',
      ''Content-Length'' @ colon # blank # to_string (int (length body)), token_header tok] (([] @ [?a]) @ [?b]) 0"
    by (rule read_header_pair) (simp_all add: low name)
  also have "\<dots> = read_header_lines [''Content-Length'' @ colon # blank # to_string (int (length body)), token_header tok]
      ((([] @ [?a]) @ [?b]) @ [?c]) 0"
    by (rule read_header_pair) (simp_all add: low name)
  also have "\<dots> = read_header_lines [token_header tok] (((([] @ [?a]) @ [?b]) @ [?c]) @ [?d]) (int (length body))"
    by (rule read_length_line) (use assms in simp_all)
  also have "\<dots> = read_header_lines [] ((((([] @ [?a]) @ [?b]) @ [?c]) @ [?d]) @ [?h ''Authorization'' (trim_ascii ('' Bearer '' @ tok))]) (int (length body))"
    unfolding token_header_def by (rule read_header_pair) (use assms in \<open>simp_all add: low name\<close>)
  also have "\<dots> = Some ([?a, ?b, ?c, ?d, ?e], int (length body))" unfolding tok by simp
  finally show ?thesis by (simp add: low)
qed

text \<open>
  C23: this client and this server agree on the wire. A JSON post with a bearer token, for any
  body, host, token and path the request line can carry, cut into any runs on the way, is read
  by the server with exactly that path and body, and passes its gate.
\<close>

theorem client_post_accepted:
  assumes "pu_path parsed \<noteq> []" and "list_all (\<lambda>c. \<not> is_space c) (pu_path parsed)" and "CHR ''?'' \<notin> set (pu_path parsed)"
    and "carriage \<notin> set (pu_host parsed)" and "newline \<notin> set (pu_host parsed)"
    and "tok \<noteq> []" and "\<not> is_pad (last tok)" and "carriage \<notin> set tok" and "newline \<notin> set tok"
    and "concat chunks = request_text ''POST'' parsed body [token_header tok]" and "[] \<notin> set chunks"
    and "length (concat chunks) \<le> 65536"
  shows "\<exists>r. read_request chunks = Received r \<and> rq_method r = Post \<and> rq_path r = pu_path parsed \<and> rq_body r = body
    \<and> is_authorized r tok"
proof -
  let ?ls = "[''Host'' @ colon # blank # pu_host parsed, ''Connection'' @ colon # '' close'',
      ''Content-Type'' @ colon # '' application/json'', ''Content-Length'' @ colon # blank # to_string (int (length body)),
      token_header tok]"
  have whole: "concat chunks = join_crlf (request_line ''POST'' (pu_path parsed) # ?ls) @ blank_line @ body"
    using assms(10) by (simp add: post_request_text length_line_def)
  then have "length body < 2 ^ 31" using assms(12) by simp
  then obtain hs where hs: "read_header_lines ?ls [] 0 = Some (hs, int (length body))"
      "find (\<lambda>h. to_lower_ascii (hh_name h) = ''authorization'') hs = Some \<lparr>hh_name = ''Authorization'', hh_value = ''Bearer '' @ tok\<rparr>"
    using client_header_lines [of body tok "pu_host parsed"] assms(4,6-8) by blast
  have "carriage \<notin> set (pu_path parsed)" "newline \<notin> set (pu_path parsed)"
    using assms(2) by (auto simp: list_all_iff is_space_def Let_def)
  moreover have "carriage \<notin> set (to_string n)" "newline \<notin> set (to_string n)" for n
    using not_digit_not_dec [of carriage] not_digit_not_dec [of newline] by (auto simp: to_string_def is_digit_def)
  ultimately have "list_all header_line (request_line ''POST'' (pu_path parsed) # ?ls)"
    using assms by (simp add: header_line_def request_line_def token_header_def)
  from read_request_text [OF this assms(11) whole assms(12) parse_client_line [OF assms(1-3)] hs(1)]
  show ?thesis using hs(2) assms(6) by (simp add: is_authorized_iff find_header_value_def)
qed

text \<open>A body of two bytes, sent to \<open>/api/run\<close> in two runs.\<close>

theorem client_post_accepted_witness:
  "\<exists>r. read_request [take 40 (request_text ''POST'' (empty_url\<lparr>pu_host := ''127.0.0.1'', pu_path := ''/api/run''\<rparr>) ''{}'' [token_header ''t'']),
      drop 40 (request_text ''POST'' (empty_url\<lparr>pu_host := ''127.0.0.1'', pu_path := ''/api/run''\<rparr>) ''{}'' [token_header ''t''])]
    = Received r \<and> rq_method r = Post \<and> rq_path r = ''/api/run'' \<and> rq_body r = ''{}'' \<and> is_authorized r ''t''"
proof -
  let ?u = "empty_url\<lparr>pu_host := ''127.0.0.1'', pu_path := ''/api/run''\<rparr>"
  let ?t = "request_text ''POST'' ?u ''{}'' [token_header ''t'']"
  have t: "length ?t = 140" by code_simp
  have "\<exists>r. read_request [take 40 ?t, drop 40 ?t] = Received r \<and> rq_method r = Post \<and> rq_path r = pu_path ?u \<and> rq_body r = ''{}''
    \<and> is_authorized r ''t''"
  proof (rule client_post_accepted)
    show "concat [take 40 ?t, drop 40 ?t] = ?t" by simp
    show "[] \<notin> set [take 40 ?t, drop 40 ?t]"
    proof -
      have "length (take 40 ?t) = 40" "length (drop 40 ?t) = 100" by (simp_all add: t)
      then have "take 40 ?t \<noteq> []" "drop 40 ?t \<noteq> []" by force+
      then show ?thesis by auto
    qed
    show "length (concat [take 40 ?t, drop 40 ?t]) \<le> 65536" by (simp add: t)
  qed (simp_all add: is_space_def is_pad_def)
  then show ?thesis by simp
qed

section \<open>What the client reads of a server's response\<close>

lemma atoi_blank: "0 \<le> n \<Longrightarrow> n < 2 ^ 31 \<Longrightarrow> atoi (blank # to_string n) = Some n"
  using atoi_to_string [of n "[]"] by (simp add: atoi_def is_space_def)

lemma response_length_other:
  assumes "colon \<notin> set name" and "carriage \<notin> set name" and "carriage \<notin> set v" and "to_lower_ascii name \<noteq> ''content-length''"
  shows "response_length ((name @ colon # v) # ls) n = response_length ls n"
proof -
  have "strip_cr (name @ colon # v) = name @ colon # v" using assms(2,3) by (simp add: strip_cr_line)
  then show ?thesis
    using assms(1,4) by (simp add: Let_def length_line_iff del: to_lower_ascii_append)
qed

lemma response_length_line:
  assumes "0 \<le> k" and "k < 2 ^ 31"
  shows "response_length ((''Content-Length'' @ colon # blank # to_string k) # ls) n = response_length ls k"
proof -
  let ?l = "''Content-Length'' @ colon # blank # to_string k"
  have "carriage \<notin> set (to_string k)"
    using not_digit_not_dec [of carriage] by (auto simp: to_string_def is_digit_def)
  then have "strip_cr ?l = ?l" by (intro strip_cr_line) simp
  moreover have "to_lower_ascii ''Content-Length'' = ''content-length''" by code_simp
  then have "starts_with (to_lower_ascii ?l) ''content-length:''"
    by (subst length_line_iff) simp_all
  moreover have "atoi (drop 15 ?l) = Some k" using atoi_blank [OF assms] by simp
  ultimately show ?thesis by (simp add: Let_def del: append.simps)
qed

lemma response_length_strip:
  "list_all header_line (map strip_cr ls) \<Longrightarrow> response_length ls n = response_length (map strip_cr ls) n"
proof (induction ls arbitrary: n)
  case (Cons l ls)
  then have "strip_cr (strip_cr l) = strip_cr l" by (simp add: strip_cr_line header_line_def)
  with Cons show ?case by (simp add: Let_def split: option.split)
qed simp

definition status_line :: "http_response \<Rightarrow> string" where
  "status_line response = ''HTTP/1.1 '' @ to_string (status_number (rp_status response)) @ '' OK''"

lemma response_payload_text:
  "response_payload response =
     join_crlf [status_line response, ''Content-Type'' @ colon # blank # rp_content_type response,
       ''Content-Length'' @ colon # blank # to_string (int (length (rp_body response))), ''Connection'' @ colon # '' close'']
     @ blank_line @ rp_body response"
  by (simp add: response_payload_def status_line_def)

lemma status_of_payload:
  "response_status (join_crlf (status_line response # l # ls)) = Some (status_number (rp_status response))"
proof -
  have "find_str '' '' (''HTTP/1.1'' @ blank # t) = Some 8" for t
    using find_char_first [of blank "''HTTP/1.1''" t] by simp
  moreover have "0 \<le> status_number (rp_status response) \<and> status_number (rp_status response) < 2 ^ 31"
    by (cases "rp_status response") simp_all
  ultimately show ?thesis
    using atoi_to_string [of "status_number (rp_status response)" "'' OK'' @ crlf @ join_crlf (l # ls)"]
    by (simp add: response_status_def status_line_def is_digit_def)
qed

lemma payload_length:
  assumes "carriage \<notin> set ct" and "0 \<le> k" and "k < 2 ^ 31"
  shows "response_length [status_line response, ''Content-Type'' @ colon # blank # ct,
      ''Content-Length'' @ colon # blank # to_string k, ''Connection'' @ colon # '' close''] n = Some k"
proof -
  have low: "to_lower_ascii ''Content-Type'' = ''content-type''" "to_lower_ascii ''Connection'' = ''connection''"
    "to_lower_ascii ''HTTP/1.1 '' = ''http/1.1 ''"
    by code_simp+
  have "carriage \<notin> set (to_string m)" for m
    using not_digit_not_dec [of carriage] by (auto simp: to_string_def is_digit_def)
  then have "strip_cr (status_line response) = status_line response"
    by (intro strip_cr_line) (simp add: status_line_def)
  moreover have "\<not> starts_with (to_lower_ascii (status_line response)) ''content-length:''"
    unfolding status_line_def to_lower_ascii_append low starts_with_def by simp
  ultimately have "response_length (status_line response # ls) n = response_length ls n" for ls
    by (simp add: Let_def)
  moreover have "response_length ((''Content-Type'' @ colon # blank # ct) # ls) n = response_length ls n" for ls
    by (rule response_length_other) (use assms(1) in \<open>simp_all add: low\<close>)
  moreover have "response_length [''Connection'' @ colon # '' close''] k = response_length [] k"
    by (rule response_length_other) (simp_all add: low)
  ultimately show ?thesis
    using response_length_line [OF assms(2,3)] by (simp del: append.simps)
qed

text \<open>
  What the server writes, the client reads: for any response body and status, cut into any
  runs on the way, the client gets exactly that status and body.
\<close>

theorem server_response_read:
  assumes "carriage \<notin> set (rp_content_type response)" and "newline \<notin> set (rp_content_type response)"
    and "concat chunks = response_payload response" and "[] \<notin> set chunks"
    and "length (concat chunks) \<le> 1048576"
  shows "read_http_response chunks = Received (status_number (rp_status response), rp_body response)"
proof -
  let ?b = "rp_body response"
  let ?ls = "[status_line response, ''Content-Type'' @ colon # blank # rp_content_type response,
       ''Content-Length'' @ colon # blank # to_string (int (length ?b)), ''Connection'' @ colon # '' close'']"
  let ?h = "join_crlf ?ls"
  have "carriage \<notin> set (to_string n)" "newline \<notin> set (to_string n)" for n
    using not_digit_not_dec [of carriage] not_digit_not_dec [of newline] by (auto simp: to_string_def is_digit_def)
  then have lines: "list_all header_line ?ls"
    using assms(1,2) by (simp add: header_line_def status_line_def)
  have whole: "concat chunks = ?h @ blank_line @ ?b" using assms(3) by (simp only: response_payload_text)
  have len: "length ?b \<le> length (concat chunks)" by (simp add: whole)
  have f: "find_str blank_line (?h @ blank_line @ ?b) = Some (length ?h)"
    using lines by (intro find_blank_line) simp_all
  then have c: "contains ([] @ concat chunks) blank_line" by (simp add: contains_def whole)
  obtain got rest where r: "recv_until 1048576 [] chunks = Some (got, rest)" "got @ concat rest = [] @ concat chunks"
      "[] \<notin> set rest" "find_str blank_line got = find_str blank_line ([] @ concat chunks)"
    using recv_until_any_chunks [OF c assms(4)] assms(5) by auto
  have find: "find_str blank_line got = Some (length ?h)" using r(4) f by (simp only: whole append_Nil)
  have d: "got @ concat rest = ?h @ blank_line @ ?b" using r(2) whole by (simp only: append_Nil)
  have le: "length ?h + 4 \<le> length got" using find_str_le [OF find] by simp
  have "take (length ?h) (got @ concat rest) = ?h" by (simp only: d) (simp del: join_crlf.simps)
  then have t: "take (length ?h) got = ?h" using le by (simp del: join_crlf.simps)
  have "drop (length ?h + 4) (got @ concat rest) = ?b" by (simp only: d) (simp del: join_crlf.simps)
  then have b: "drop (length ?h + 4) got @ concat rest = ?b" using le by (simp del: join_crlf.simps)
  have rb: "recv_body (int (length ?b)) (drop (length ?h + 4) got) rest = ?b"
    using b r(3) assms(5) len by (subst recv_body_any_chunks) (simp_all del: join_crlf.simps)
  have "response_length (getlines ?h) (-1) = response_length ?ls (-1)"
    using response_length_strip [of "getlines ?h" "-1"] getlines_join [OF lines] lines by metis
  also have "\<dots> = Some (int (length ?b))"
    using assms(1) len assms(5) by (intro payload_length) simp_all
  finally have n: "response_length (getlines ?h) (-1) = Some (int (length ?b))" .
  have s: "response_status ?h = Some (status_number (rp_status response))" by (rule status_of_payload)
  show ?thesis
    unfolding read_http_response_def r(1) option.case prod.case find Let_def t n s using rb by simp
qed

theorem server_response_read_witness:
  "read_http_response [take 9 (response_payload not_found_response), drop 9 (response_payload not_found_response)]
    = Received (404, rp_body not_found_response)"
proof -
  let ?t = "response_payload not_found_response"
  have t: "length ?t = 111" by code_simp
  have "read_http_response [take 9 ?t, drop 9 ?t] = Received (status_number (rp_status not_found_response), rp_body not_found_response)"
  proof (rule server_response_read)
    show "concat [take 9 ?t, drop 9 ?t] = ?t" by simp
    show "[] \<notin> set [take 9 ?t, drop 9 ?t]"
    proof -
      have "length (take 9 ?t) = 9" "length (drop 9 ?t) = 102" by (simp_all add: t)
      then have "take 9 ?t \<noteq> []" "drop 9 ?t \<noteq> []" by force+
      then show ?thesis by auto
    qed
    show "length (concat [take 9 ?t, drop 9 ?t]) \<le> 1048576" by (simp add: t)
  qed (simp_all add: not_found_response_def empty_response_def)
  then show ?thesis by (simp add: not_found_response_def)
qed

text \<open>
  Without a \<open>Content-Length\<close> the client keeps only what arrived together with the headers;
  the rest of a response that ends with the connection is not read, although the request asks for
  exactly that with \<open>Connection: close\<close>.
\<close>

theorem response_without_length_truncated:
  assumes "find_str blank_line h = Some n" and "length h \<le> 1048576" and "h \<noteq> []"
    and "response_status (take n h) = Some status" and "response_length (getlines (take n h)) (-1) = Some (-1)"
  shows "read_http_response (h # rest) = Received (status, drop (n + 4) h)"
proof -
  have "recv_until 1048576 [] (h # rest) = Some (h, rest)"
    using assms(1-3) by (cases rest) (simp_all add: contains_def)
  then show ?thesis using assms by (simp add: read_http_response_def)
qed

theorem response_without_length_truncated_witness:
  "read_http_response [''HTTP/1.0 200 OK'' @ blank_line @ ''first'', '' second''] = Received (200, ''first'')"
proof -
  let ?h = "''HTTP/1.0 200 OK'' @ blank_line @ ''first''"
  have "find_str blank_line ?h = Some 15" by code_simp
  moreover have "length ?h \<le> 1048576" "?h \<noteq> []" by simp_all
  moreover have "response_status (take 15 ?h) = Some 200" "response_length (getlines (take 15 ?h)) (-1) = Some (-1)" by code_simp+
  ultimately have "read_http_response [?h, '' second''] = Received (200, drop (15 + 4) ?h)"
    by (rule response_without_length_truncated)
  then show ?thesis by simp
qed

section \<open>URLs, read back\<close>

text \<open>
  An address of host, port and path is taken apart into exactly these, with either scheme;
  ports keep their value up to 32 bits here, and only their low 16 bits reach the socket.
\<close>

theorem url_parts:
  assumes "slash \<notin> set host" and "colon \<notin> set host" and "host \<noteq> []" and "1 \<le> port" and "port < 2 ^ 31"
  shows "parse_http_url ((if tls then ''https://'' else ''http://'') @ host @ colon # to_string port @ slash # path)
    = Some \<lparr>pu_host = host, pu_path = slash # path, pu_port = port, pu_is_https = tls, pu_valid = True\<rparr>
    \<and> port_on_wire \<lparr>pu_host = host, pu_path = slash # path, pu_port = port, pu_is_https = tls, pu_valid = True\<rparr> = port mod 65536"
proof -
  have ns: "slash \<notin> set (to_string port)"
    using not_digit_not_dec [of slash] by (auto simp: to_string_def is_digit_def)
  have f1: "find_str [slash] ((host @ colon # to_string port) @ slash # path) = Some (length (host @ colon # to_string port))"
    using assms(1) ns by (intro find_char_first) simp
  have f2: "find_str [colon] (host @ colon # to_string port) = Some (length host)"
    using assms(2) by (rule find_char_first)
  have "atoi (to_string port) = Some port" using atoi_to_string [of port "[]"] assms(4,5) by simp
  then show ?thesis
    using f1 f2 assms(3,4)
    by (cases tls) (simp_all add: parse_http_url_def starts_with_def empty_url_def port_on_wire_def max_def Let_def)
qed

theorem url_parts_witness:
  "parse_http_url ''http://127.0.0.1:80/v1'' =
     Some \<lparr>pu_host = ''127.0.0.1'', pu_path = ''/v1'', pu_port = 80, pu_is_https = False, pu_valid = True\<rparr>"
proof -
  have "to_string 80 = ''80''" by code_simp
  then show ?thesis using url_parts [of "''127.0.0.1''" 80 False "''v1''"] by simp
qed

end
