(* ===== verification/Json_Object.thy ===== *)
theory Json_Object imports Complex_Main Json begin

text \<open>
  The objects \<open>cli/host.cpp\<close> writes member by member, and what a search for \<open>"key":true\<close> or
  \<open>"key":false\<close> in the text of one finds: exactly the boolean member of that key, whatever text
  the string members hold.
\<close>

section \<open>Writing\<close>

text \<open>\<open>"\{" + ok + "," + error + "\}"\<close>, the shape of most refusals, and objects in general.\<close>

definition json_object :: "string list \<Rightarrow> string" where
  "json_object members = [lbrace] @ join_comma members @ [rbrace]"

definition refusal :: "string \<Rightarrow> string" where
  "refusal message = json_object [json_bool_field ''ok'' False, json_string_field ''error'' message]"

definition json_int_field :: "string \<Rightarrow> int \<Rightarrow> string" where
  "json_int_field k n = needle k @ to_string n"

definition json_array_field :: "string \<Rightarrow> string list \<Rightarrow> string" where
  "json_array_field k elements = needle k @ ''['' @ join_comma elements @ '']''"

lemma json_int_field_render: "json_int_field k n = render_field (k, JInt n)"
  by (simp add: json_int_field_def render_field_def needle_def)

named_theorems object_simps \<open>an object written member by member is a flat object\<close>

lemmas [object_simps] = json_string_field_render json_bool_field_render json_int_field_render

lemma json_object_render: "json_object (map render_field fs) = render_object fs"
  by (simp add: json_object_def render_object_def)

lemma json_objectI: "ms = map render_field fs \<Longrightarrow> json_object ms = render_object fs"
  by (simp add: json_object_render)

text \<open>The first member of an object is read back whatever follows it.\<close>

lemma bool_first_member:
  assumes "plain_key k"
  shows "extract_json_bool_field (json_object (json_bool_field k b # ms)) k 0 = Some b"
proof -
  let ?tail = "(if ms = [] then [] else comma # join_comma ms) @ [rbrace]"
  have "json_object (json_bool_field k b # ms) = render_members [(k, JBool b)] ?tail"
    by (cases ms) (simp_all add: json_object_def render_members_def json_bool_field_render)
  moreover have "extract_json_bool_field (render_members [(k, JBool b)] ?tail) k 0 = flat_bool [(k, JBool b)] k"
    by (rule members_read) (simp_all add: plain_keys_def assms)
  ultimately show ?thesis by (simp add: flat_bool_def)
qed

lemma bool_first: "extract_json_bool_field (json_object (json_bool_field ''ok'' b # ms)) ''ok'' 0 = Some b"
  by (rule bool_first_member) (simp add: plain_key_def plain_char_def)

section \<open>Searching\<close>

lemma contains_Cons: "contains (c # s) p \<longleftrightarrow> prefix p (c # s) \<or> contains s p"
  by (auto simp: contains_def)

lemma contains_Nil: "contains [] p \<longleftrightarrow> p = []"
  by (simp add: contains_def)

lemma contains_after: "contains s p \<longleftrightarrow> after_str p s \<noteq> None"
  by (simp add: contains_def after_str_def)

lemma contains_longer: "contains s (p @ w) \<Longrightarrow> contains s p"
  by (auto simp: contains_iff)

text \<open>When \<open>p\<close> is not found before \<open>s\<close>, nothing that starts with \<open>p\<close> is.\<close>

lemma contains_skip:
  assumes "after_str p (u @ s) = after_str p s"
  shows "contains (u @ s) (p @ w) \<longleftrightarrow> contains s (p @ w)"
proof
  assume c: "contains (u @ s) (p @ w)"
  then obtain a b where ab: "u @ s = a @ (p @ w) @ b" by (auto simp: contains_iff)
  obtain j where j: "find_str p (u @ s) = Some j"
    using contains_longer [OF c] by (auto simp: contains_def)
  obtain i where i: "find_str p s = Some i" and d: "drop (j + length p) (u @ s) = drop (i + length p) s"
    using assms j by (cases "find_str p s") (simp_all add: after_str_def del: drop_append)
  have "length (u @ s) - (j + length p) = length s - (i + length p)" using d by (metis length_drop)
  with find_str_le [OF j] find_str_le [OF i] have "length u \<le> j" by simp
  moreover have "j \<le> length a"
  proof (rule ccontr)
    assume "\<not> j \<le> length a"
    then have "\<not> prefix p (drop (length a) (u @ s))" using find_str_first [OF j, of "length a"] by simp
    then show False by (simp add: ab)
  qed
  ultimately have "length u \<le> length a" by simp
  then have "drop (length u) (u @ s) = drop (length u) a @ (p @ w) @ b" unfolding ab by simp
  then show "contains s (p @ w)" by (auto simp: contains_iff)
next
  assume "contains s (p @ w)"
  then show "contains (u @ s) (p @ w)" by (metis append.assoc contains_iff)
qed

text \<open>No needle starts inside a member, behind its opening quote.\<close>

lemma after_str_inside_field:
  assumes "plain_key k" and "plain_key k'" and "hd rest = comma \<or> hd rest = rbrace" and "rest \<noteq> []"
  shows "after_str (needle k) (k' @ quot # colon # render_value v @ rest) = after_str (needle k) rest"
proof -
  have nq: "quot \<notin> set k'" using assms(2) by (auto simp: plain_key_def plain_char_def list_all_iff)
  have "after_str (needle k) (k' @ quot # colon # render_value v @ rest)
      = after_str (needle k) (quot # colon # render_value v @ rest)"
    by (rule skip_noquote [OF nq])
  also have "\<dots> = after_str (needle k) (render_value v @ rest)"
    using assms(1) by (cases k) (auto simp: after_str_Cons needle_def plain_key_def plain_char_def)
  also have "\<dots> = after_str (needle k) rest"
  proof (cases v)
    case (JStr x)
    have "\<not> prefix (k @ [quot, colon]) (escape_json_string x @ quot # rest)"
      using assms by (intro no_needle_in_escaped) auto
    then have "after_str (needle k) (quot # escape_json_string x @ quot # rest)
        = after_str (needle k) (escape_json_string x @ quot # rest)"
      by (intro after_str_Cons) (simp add: needle_def)
    with JStr show ?thesis by (simp add: skip_escaped [OF assms(1,3,4)])
  qed (simp_all add: skip_noquote to_string_no_quote)
  finally show ?thesis .
qed

lemma contains_field:
  assumes "plain_key k" and "plain_key k'" and "hd rest = comma \<or> hd rest = rbrace" and "rest \<noteq> []"
  shows "contains (render_field (k', v) @ rest) (needle k @ w) \<longleftrightarrow>
    (k' = k \<and> prefix w (render_value v @ rest)) \<or> contains rest (needle k @ w)"
proof -
  let ?in = "k' @ quot # colon # render_value v"
  have "render_field (k', v) @ rest = quot # (?in @ rest)" by (simp add: render_field_def)
  then have "contains (render_field (k', v) @ rest) (needle k @ w) \<longleftrightarrow>
      prefix (needle k @ w) (quot # (?in @ rest)) \<or> contains (?in @ rest) (needle k @ w)"
    by (simp add: contains_Cons)
  also have "contains (?in @ rest) (needle k @ w) \<longleftrightarrow> contains rest (needle k @ w)"
    by (rule contains_skip) (use after_str_inside_field [OF assms] in simp)
  also have "prefix (needle k @ w) (quot # (?in @ rest)) \<longleftrightarrow> k' = k \<and> prefix w (render_value v @ rest)"
  proof (cases "k' = k")
    case True
    then show ?thesis by (simp add: needle_def)
  next
    case False
    then have "\<not> prefix (k @ [quot, colon]) (k' @ quot # colon # render_value v @ rest)"
      using needle_prefix_iff [OF assms(1,2)] by simp
    then have "\<not> prefix (needle k) (quot # (?in @ rest))" by (simp add: needle_def)
    with False show ?thesis by (meson append_prefixD)
  qed
  finally show ?thesis .
qed

lemma prefix_bool_value:
  assumes "hd rest = comma \<or> hd rest = rbrace" and "rest \<noteq> []"
  shows "prefix (if b then ''true'' else ''false'') (render_value v @ rest) \<longleftrightarrow> v = JBool b"
proof (cases v)
  case (JInt n)
  obtain c s where d: "dec_nat (nat n) = c # s"
    using dec_nat_nonempty [of "nat n"] by (cases "dec_nat (nat n)") auto
  then have "is_digit c" using dec_nat_digits [of "nat n"] by simp
  then have "CHR ''t'' \<noteq> c" "CHR ''f'' \<noteq> c" by (auto simp: is_digit_def)
  with JInt d show ?thesis by (cases "n < 0"; cases b) (simp_all add: to_string_def)
qed simp_all

text \<open>A search for a boolean member finds exactly a member with that key and value.\<close>

lemma contains_bool_fields:
  assumes "plain_key k" and "plain_keys fs" and "fs \<noteq> []"
  shows "contains (join_comma (map render_field fs) @ [rbrace]) (json_bool_field k b) \<longleftrightarrow> (k, JBool b) \<in> set fs"
  using assms(2,3)
proof (induction fs)
  case (Cons f fs)
  obtain k' v where f: "f = (k', v)" by (cases f)
  have k': "plain_key k'" using Cons.prems f by (simp add: plain_keys_def)
  have p: "json_bool_field k b = needle k @ (if b then ''true'' else ''false'')" by (simp add: json_bool_field_def needle_def)
  show ?case
  proof (cases fs)
    case Nil
    have "\<not> contains [rbrace] (json_bool_field k b)" by (simp add: contains_Cons contains_Nil json_bool_field_def)
    then show ?thesis
      using contains_field [OF assms(1) k', of "[rbrace]" v "if b then ''true'' else ''false''"]
        prefix_bool_value [of "[rbrace]" b v] Nil f unfolding p by auto
  next
    case (Cons g gs)
    let ?rest = "comma # join_comma (map render_field fs) @ [rbrace]"
    have t: "join_comma (map render_field (f # fs)) @ [rbrace] = render_field (k', v) @ ?rest"
      using f Cons by simp
    have "contains ?rest (json_bool_field k b) \<longleftrightarrow> contains (join_comma (map render_field fs) @ [rbrace]) (json_bool_field k b)"
      by (simp add: contains_Cons json_bool_field_def)
    then show ?thesis
      using contains_field [OF assms(1) k', of ?rest v "if b then ''true'' else ''false''"]
        prefix_bool_value [of ?rest b v] Cons.IH Cons.prems Cons f unfolding t p
      by (auto simp: plain_keys_def)
  qed
qed simp

lemma contains_bool_object:
  assumes "plain_key k" and "plain_keys fs"
  shows "contains (render_object fs) (json_bool_field k b) \<longleftrightarrow> (k, JBool b) \<in> set fs"
proof (cases "fs = []")
  case True
  then show ?thesis by (simp add: render_object_def contains_Cons contains_Nil json_bool_field_def)
next
  case False
  have "contains (render_object fs) (json_bool_field k b)
      \<longleftrightarrow> contains (join_comma (map render_field fs) @ [rbrace]) (json_bool_field k b)"
    by (simp add: render_object_def contains_Cons json_bool_field_def)
  then show ?thesis using contains_bool_fields [OF assms False] by simp
qed

end
