(* ===== verification/Agent_Schemas.thy ===== *)
theory Agent_Schemas imports Complex_Main Json_Object OpenAI_Client begin

text \<open>
  The tools offered to the model (\<open>cli/host.cpp\<close>, \<open>agent_tool_definitions\<close>): name, description and
  parameter schema, in the groups of the source and in its order.
\<close>

section \<open>Schemas\<close>

definition schema_property :: "string \<times> string \<times> string \<Rightarrow> string" where
  "schema_property p = needle (fst p) @ json_object
     [json_string_field ''type'' (fst (snd p)), needle ''description'' @ [quot] @ snd (snd p) @ [quot]]"

text \<open>\<open>{"type":"object","properties":{...},"required":[...]}\<close>, the last field only where there is one.\<close>

definition object_schema :: "(string \<times> string \<times> string) list \<Rightarrow> string list \<Rightarrow> string" where
  "object_schema properties required = json_object
     ([json_string_field ''type'' ''object'', needle ''properties'' @ json_object (map schema_property properties)]
      @ (if required = [] then [] else [json_array_field ''required'' (map (\<lambda>n. [quot] @ n @ [quot]) required)]))"

section \<open>Tools\<close>

definition connector_tools :: "tool_definition list" where
  \<open>connector_tools =
    [\<lparr>tool_name = ''list_connectors'',
       tool_description =
         ''List every registered connector (http_peer or launched_process), with kind, ''
         @ ''base_url/launch_cmd, and enabled state. Takes no arguments.'',
       tool_parameters_json_schema = object_schema
         []
         []\<rparr>,
     \<lparr>tool_name = ''connector_status'',
       tool_description =
         ''Get the live status of one connector by id: for a launched_process, its PID and running ''
         @ ''state; for an http_peer, whether its /health endpoint is reachable.'',
       tool_parameters_json_schema = object_schema
         [(''id'', ''string'',
           ''connector id'')]
         [''id'']\<rparr>,
     \<lparr>tool_name = ''launch_connector'',
       tool_description =
         ''Launch a launched_process connector by id (starts the configured command in its work_dir). ''
         @ ''No effect on http_peer connectors.'',
       tool_parameters_json_schema = object_schema
         [(''id'', ''string'',
           ''connector id'')]
         [''id'']\<rparr>,
     \<lparr>tool_name = ''stop_connector'',
       tool_description =
         ''Stop a running launched_process connector by id.'',
       tool_parameters_json_schema = object_schema
         [(''id'', ''string'',
           ''connector id'')]
         [''id'']\<rparr>,
     \<lparr>tool_name = ''call_connector'',
       tool_description =
         ''Call an HTTP path on an http_peer connector by id, e.g. to invoke one of its endpoints. ''
         @ ''payload_json is a raw JSON string sent as the request body for POST.'',
       tool_parameters_json_schema = object_schema
         [(''id'', ''string'',
           ''connector id''),
          (''path'', ''string'',
           ''request path, e.g. /status''),
          (''method'', ''string'',
           ''GET or POST, default POST''),
          (''payload_json'', ''string'',
           ''raw JSON body for POST, optional'')]
         [''id'', ''path'']\<rparr>]\<close>

definition task_tools :: "tool_definition list" where
  \<open>task_tools =
    [\<lparr>tool_name = ''enqueue_task'',
       tool_description =
         ''Queue a task for droidcli's background task loop to process later: "launch"/"stop" a ''
         @ ''connector_id, "run" a shell command (payload_json {"command":..,"work_dir":..}), or any ''
         @ ''other command string treated as an HTTP path called on connector_id. Pass delay_ms to ''
         @ ''schedule it for later instead of as soon as possible - e.g. delay_ms:120000 for "do this in ''
         @ ''2 minutes" - the task stays visible as pending (with its due time) until then; omit ''
         @ ''delay_ms (or pass 0) to make it claimable immediately, same as before. Pass recurrence_ms ''
         @ ''to make it recurring instead of one-shot - e.g. recurrence_ms:3600000 for "run this every ''
         @ ''hour" - after each run it automatically reschedules itself recurrence_ms later (whether ''
         @ ''that run succeeded or failed) instead of terminating; call cancel_task to stop it for good. ''
         @ ''Use delay_ms and recurrence_ms together to also control when the *first* run happens.'',
       tool_parameters_json_schema = object_schema
         [(''connector_id'', ''string'',
           ''optional, required for launch/stop/http-path commands''),
          (''command'', ''string'',
           ''launch | stop | run | <http path>''),
          (''payload_json'', ''string'',
           ''optional raw JSON payload''),
          (''delay_ms'', ''integer'',
           ''optional - milliseconds from now before this task's first run becomes runnable, e.g. 120000 ''
           @ ''for 'in 2 minutes'' @ [CHR 0x27]),
          (''recurrence_ms'', ''integer'',
           ''optional - milliseconds between runs, e.g. 3600000 for 'every hour'; omit (or 0) for ''
           @ ''one-shot'')]
         [''command'']\<rparr>,
     \<lparr>tool_name = ''list_tasks'',
       tool_description =
         ''List all tasks in the task queue with their status (pending/running/done/failed/cancelled), ''
         @ ''recurrence_ms (0 means one-shot), and run_count (how many times it has run so far). Takes ''
         @ ''no arguments.'',
       tool_parameters_json_schema = object_schema
         []
         []\<rparr>,
     \<lparr>tool_name = ''cancel_task'',
       tool_description =
         ''Stop a task for good - the only way to end a recurring task (enqueue_task's recurrence_ms), ''
         @ ''which would otherwise keep rescheduling itself forever. Also works on a one-shot task ''
         @ ''that's still pending/running (e.g. to cancel a delayed task before it fires). ok:false if ''
         @ ''the task id is unknown or it's already in a terminal state.'',
       tool_parameters_json_schema = object_schema
         [(''task_id'', ''string'',
           ''the task id, from enqueue_task's result or list_tasks'')]
         [''task_id'']\<rparr>]\<close>

definition launch_tools :: "tool_definition list" where
  \<open>launch_tools =
    [\<lparr>tool_name = ''run_command'',
       tool_description =
         ''Run a one-shot shell command synchronously and capture its stdout/stderr/exit code. This ''
         @ ''executes arbitrary shell commands on the host machine - use only for tasks the user ''
         @ ''actually asked for. If your command contains a bare relative "desktop/..." path, it's ''
         @ ''automatically replaced with the real Desktop folder (see get_system_info's desktop_path) ''
         @ ''before running - the result includes a "resolved_command" field when that happened, report ''
         @ ''the location from there, not from what you originally typed. If you don't pass work_dir, ''
         @ ''this runs in the user's real Desktop folder by default (not droidcli's own working ''
         @ ''directory) - so a bare relative output filename the command writes lands there, not in ''
         @ ''droidcli's own directory. The result includes a "resolved_work_dir" field whenever that ''
         @ ''default applied; pass work_dir explicitly to run somewhere else instead.'',
       tool_parameters_json_schema = object_schema
         [(''command'', ''string'',
           ''the shell command to run''),
          (''work_dir'', ''string'',
           ''optional working directory'')]
         [''command'']\<rparr>,
     \<lparr>tool_name = ''find_application'',
       tool_description =
         ''Search the index of applications on this machine (scanned once at startup from Windows' ''
         @ ''Add/Remove Programs registry, plus built-in accessories like ''
         @ ''Notepad/Calculator/Paint/Command Prompt/PowerShell that don't appear in that registry) for ''
         @ ''a name matching or containing the query - matching ignores case and spacing, so 'notepad', ''
         @ [CHR 0x27] @ ''NotePad', and 'note pad' all match 'Notepad'. Use this BEFORE open_application when you ''
         @ ''aren't certain of an app's exact name, or after open_application fails - it tells you the ''
         @ ''exact installed name and resolved path so you don't have to guess. Returns a list of {name, ''
         @ ''path} matches; if there's more than one plausible match, ask the user which one they mean ''
         @ ''instead of picking for them. An EMPTY match list does not mean the app can't be opened - ''
         @ ''open_application has its own independent PATH/App Paths lookup and can succeed even when ''
         @ ''this index has nothing, so still try open_application with the user's own wording before ''
         @ ''telling them it couldn't be found.'',
       tool_parameters_json_schema = object_schema
         [(''query'', ''string'',
           ''app name or partial name to search for, e.g. 'blender' or 'kicad'' @ [CHR 0x27])]
         [''query'']\<rparr>,
     \<lparr>tool_name = ''list_open_windows'',
       tool_description =
         ''List every currently open, visible window on this machine right now - title, owning process ''
         @ ''name, and PID - the same set Alt+Tab would show. Use this to check whether an app is ''
         @ ''already running/open before deciding to launch it again, to find the PID of something the ''
         @ ''user is referring to, or to answer questions like 'what's open right now' or 'is <app> ''
         @ ''running'. This is a live snapshot (re-checked every call), not the installed-apps index ''
         @ ''(find_application) or the connector list.'',
       tool_parameters_json_schema = object_schema
         []
         []\<rparr>,
     \<lparr>tool_name = ''list_windows_locations'',
       tool_description =
         ''List every built-in Windows panel/location/Settings page droidcli knows how to open by name ''
         @ ''(Task Manager, Resource Monitor, Performance Monitor, Device Manager, Control Panel, ''
         @ ''Recycle Bin, Windows Security, etc.) - this is droidcli's own hand-maintained knowledge of ''
         @ ''Windows itself, separate from the installed-apps index (find_application). Call this when ''
         @ ''the user asks what you can open, what panels/settings are available, or similar - answer ''
         @ ''from this real list, never guess or invent one. Takes no arguments.'',
       tool_parameters_json_schema = object_schema
         []
         []\<rparr>,
     \<lparr>tool_name = ''open_application'',
       tool_description =
         ''Open/launch a GUI application (e.g. Notepad, a browser, an image viewer) OR a built-in ''
         @ ''Windows location/Settings page (e.g. Recycle Bin, Sound Settings, Control Panel, Task ''
         @ ''Manager, Device Manager, This PC) so the user can see and use it. Detached - does not wait ''
         @ ''for it to close and does not capture output. Use this instead of run_command for opening ''
         @ ''apps, since run_command waits for the process to exit and GUI apps don't exit on their own. ''
         @ ''A bare name is resolved in trust order - the Windows App Paths registry, then the ''
         @ ''installed-apps index (find_application's data source), then droidcli's own built-in ''
         @ ''knowledge of Windows itself (list_windows_locations) for things that are not installed ''
         @ ''applications at all, then, only as a last resort, a verified PATH search - just pass the ''
         @ ''name naturally ('Recycle Bin', 'Sound Settings'), you do not need to know or construct the ''
         @ ''underlying ms-settings:/shell: target yourself. For a vague/descriptive request ('the panel ''
         @ ''that shows memory usage', 'the thing for managing disk partitions') call ''
         @ ''list_windows_locations first and pass back the real name it returns, rather than guessing a ''
         @ ''path_or_name yourself. If you're not confident which exact app/path the user means ''
         @ ''(ambiguous name, multiple plausible matches from find_application, or a prior call failed ''
         @ ''to resolve it), ask the user to confirm rather than guessing. A successful result's ''
         @ ''"resolved_path" is the real path the OS actually launched (not just an echo of ''
         @ ''path_or_name), and "resolution_source" says which of those tiers matched - report the ''
         @ ''resolved_path (or its filename) back to the user so they know exactly what opened, ''
         @ ''especially for a loosely-worded request. An unresolved bare name is rejected outright with ''
         @ ''a clear error rather than attempted blindly - if you see that error, ask the user for the ''
         @ ''exact name or full path instead of retrying the same guess.'',
       tool_parameters_json_schema = object_schema
         [(''path_or_name'', ''string'',
           ''executable name (e.g. 'chrome', 'notepad.exe') or a full path''),
          (''args'', ''string'',
           ''optional command-line arguments''),
          (''work_dir'', ''string'',
           ''optional working directory'')]
         [''path_or_name'']\<rparr>]\<close>

definition file_tools :: "tool_definition list" where
  \<open>file_tools =
    [\<lparr>tool_name = ''read_file'',
       tool_description =
         ''Read a file's contents from the local filesystem. Caps the read at max_bytes (default ''
         @ ''65536) to avoid overloading context - the result reports whether the file was truncated. If ''
         @ ''you are not certain of the exact path, call list_dir on the real directory (or ''
         @ ''get_system_info for the real username/Desktop path) first - do not guess or invent a path ''
         @ ''(e.g. a template like "/Users/username/..."), that is rejected outright rather than ''
         @ ''attempted. A bare "desktop/..." token or a bare filename with no directory at all is ''
         @ ''resolved against the real Desktop - report the location from "resolved_path" when present.'',
       tool_parameters_json_schema = object_schema
         [(''path'', ''string'',
           ''file path, absolute or relative to droidcli's working directory''),
          (''max_bytes'', ''integer'',
           ''optional read cap, default 65536'')]
         [''path'']\<rparr>,
     \<lparr>tool_name = ''write_file'',
       tool_description =
         ''Create a new file, or overwrite/append to an existing one, on the local filesystem. Creates ''
         @ ''the file if it doesn't exist yet (this is also the tool to use for 'create a file'), and ''
         @ ''creates any missing parent directories. Overwrites by default - use only for tasks the user ''
         @ ''actually asked for. If your path contains a bare "desktop/..." token, it's automatically ''
         @ ''replaced with the real Desktop folder (see get_system_info's desktop_path) before writing - ''
         @ ''the result includes a "resolved_path" field when that happened, report the location from ''
         @ ''there, not from what you originally typed. If path is just a bare filename with no ''
         @ ''directory in it at all (e.g. 'notes.txt', not './notes.txt' or 'subdir/notes.txt'), it's ''
         @ ''created on the user's real Desktop by default, not droidcli's own working directory - the ''
         @ ''result's "resolved_path" reports that too. The result also includes ''
         @ ''"verified_exists"/"verified_size_bytes", a fresh, independent filesystem check performed ''
         @ ''right after the write - these are ground truth, not a repeat of what you asked for; trust ''
         @ ''them over your own assumption about what got written, and never claim success beyond what ''
         @ ''"verified_exists" actually confirms. This does NOT write real binary image/audio/video data ''
         @ ''for you - content is written exactly as given as text, so it cannot produce a valid image ''
         @ ''file; use run_ffmpeg to actually generate image/media files.'',
       tool_parameters_json_schema = object_schema
         [(''path'', ''string'',
           ''file path to write''),
          (''content'', ''string'',
           ''text to write''),
          (''append'', ''boolean'',
           ''append instead of overwrite, default false'')]
         [''path'', ''content'']\<rparr>,
     \<lparr>tool_name = ''list_dir'',
       tool_description =
         ''List the entries (name, is_dir, size_bytes) of a directory, one level deep. Omit path to ''
         @ ''list droidcli's current working directory.'',
       tool_parameters_json_schema = object_schema
         [(''path'', ''string'',
           ''directory path, optional (defaults to the current working directory)'')]
         []\<rparr>,
     \<lparr>tool_name = ''stat_path'',
       tool_description =
         ''Check whether a path exists and whether it's a file or directory, without reading its ''
         @ ''content.'',
       tool_parameters_json_schema = object_schema
         [(''path'', ''string'',
           ''path to check'')]
         [''path'']\<rparr>,
     \<lparr>tool_name = ''get_cwd'',
       tool_description =
         ''Get droidcli's current working directory as an absolute path. Takes no arguments.'',
       tool_parameters_json_schema = object_schema
         []
         []\<rparr>,
     \<lparr>tool_name = ''which'',
       tool_description =
         ''Resolve an executable name to its full path by searching PATH, the same lookup a shell does ''
         @ ''before running a bare command name. Use this to check whether a tool is installed before ''
         @ ''trying to run it.'',
       tool_parameters_json_schema = object_schema
         [(''name'', ''string'',
           ''executable name, e.g. 'git' or 'python'' @ [CHR 0x27])]
         [''name'']\<rparr>,
     \<lparr>tool_name = ''copy_file'',
       tool_description =
         ''Copy a single file from source_path to destination_path on the local filesystem, creating ''
         @ ''destination parent directories if needed. Overwrites an existing destination file. Only ''
         @ ''files, not directories. If you are not certain of the exact source filename, call list_dir ''
         @ ''on its directory first to find the real name - do not guess or invent a path (e.g. a ''
         @ ''template like "/path/to/file.png"), that is rejected outright rather than attempted. A bare ''
         @ ''"desktop/..." token is auto-resolved to the real Desktop folder, and a bare filename with ''
         @ ''no directory at all in either source_path or destination_path defaults to the real Desktop ''
         @ ''too, not droidcli's own working directory - report the location from the result's ''
         @ ''"resolved_source_path"/"resolved_destination_path" fields when present, not from what you ''
         @ ''originally typed. The result also includes "verified_exists"/"verified_size_bytes", a ''
         @ ''fresh, independent filesystem check on the destination performed right after the copy - ''
         @ ''ground truth, not a repeat of what you asked for.'',
       tool_parameters_json_schema = object_schema
         [(''source_path'', ''string'',
           ''file to copy - the real path, not a guess''),
          (''destination_path'', ''string'',
           ''where to copy it to'')]
         [''source_path'', ''destination_path'']\<rparr>,
     \<lparr>tool_name = ''move_path'',
       tool_description =
         ''Move/rename a file or directory from source_path to destination_path on the local ''
         @ ''filesystem, creating destination parent directories if needed. Overwrites an existing ''
         @ ''destination file. If you are not certain of the exact source path, call list_dir/stat_path ''
         @ ''first to find the real one - a guessed or template path (e.g. "/path/to/file.png") is ''
         @ ''rejected outright rather than attempted. A bare "desktop/..." token is auto-resolved to the ''
         @ ''real Desktop folder, and a bare filename with no directory at all in either source_path or ''
         @ ''destination_path defaults to the real Desktop too, not droidcli's own working directory - ''
         @ ''report the location from "resolved_source_path"/"resolved_destination_path" when present. ''
         @ ''The result also includes "verified_exists" (the destination, checked fresh right after the ''
         @ ''move) and "verified_source_removed" (the source no longer exists) - ground truth, not a ''
         @ ''repeat of what you asked for; a real move means both are true, not just one.'',
       tool_parameters_json_schema = object_schema
         [(''source_path'', ''string'',
           ''file or directory to move - the real path, not a guess''),
          (''destination_path'', ''string'',
           ''where to move it to'')]
         [''source_path'', ''destination_path'']\<rparr>,
     \<lparr>tool_name = ''delete_file'',
       tool_description =
         ''Permanently delete a single file from the local filesystem. Only files, not directories - ''
         @ ''this never does a recursive directory delete. This is destructive and cannot be undone - ''
         @ ''only use it for a file the user actually asked to remove, and only a real path confirmed ''
         @ ''via list_dir/stat_path, never a guess. A bare filename with no directory at all defaults to ''
         @ ''the real Desktop, same as the other file tools - report the location from "resolved_path" ''
         @ ''when present. The result also includes "verified_deleted", a fresh, independent filesystem ''
         @ ''check performed right after the delete confirming the path no longer exists - ground truth, ''
         @ ''not a repeat of what you asked for.'',
       tool_parameters_json_schema = object_schema
         [(''path'', ''string'',
           ''file to delete - the real path, not a guess'')]
         [''path'']\<rparr>,
     \<lparr>tool_name = ''create_directory'',
       tool_description =
         ''Create a real directory (folder) on the local filesystem, creating any missing parent ''
         @ ''directories too. This is the tool for 'create a folder'/'make a directory' - write_file ''
         @ ''creates a FILE, never a real directory, even with empty content. Idempotent: succeeds ''
         @ ''(ok:true) if the directory already exists. A bare name with no directory at all defaults to ''
         @ ''the real Desktop, same as the other file tools - report the location from "resolved_path" ''
         @ ''when present. The result also includes "verified_is_directory", a fresh, independent ''
         @ ''filesystem check performed right after creation - ground truth, not a repeat of what you ''
         @ ''asked for.'',
       tool_parameters_json_schema = object_schema
         [(''path'', ''string'',
           ''the directory to create'')]
         [''path'']\<rparr>,
     \<lparr>tool_name = ''read_clipboard'',
       tool_description =
         ''Read the current text content of the OS clipboard (whatever the user last copied, e.g. with ''
         @ ''Ctrl+C). Returns ok:false if the clipboard doesn't currently hold text (empty, or holds an ''
         @ ''image/file selection instead). Takes no arguments.'',
       tool_parameters_json_schema = object_schema
         []
         []\<rparr>,
     \<lparr>tool_name = ''write_clipboard'',
       tool_description =
         ''Replace the OS clipboard's current content with the given text, so the user can paste it ''
         @ ''(e.g. with Ctrl+V) into any other application. The result includes "verified_matches", a ''
         @ ''fresh read-back of the clipboard performed right after the write confirming it actually ''
         @ ''holds the exact text you set - ground truth, not a repeat of what you asked for; another ''
         @ ''application (or the user, mid-copy) can race for clipboard ownership, so trust this field ''
         @ ''over assuming the write stuck.'',
       tool_parameters_json_schema = object_schema
         [(''text'', ''string'',
           ''text to place on the clipboard'')]
         [''text'']\<rparr>,
     \<lparr>tool_name = ''run_ffmpeg'',
       tool_description =
         ''Run the ffmpeg CLI for media transcode/convert/clip/extract/thumbnail work - the binary is ''
         @ ''resolved automatically (PATH, then $DROIDCLI_FFMPEG_ROOT), you don't need to know where it ''
         @ ''lives. args is the raw ffmpeg argument string exactly as you'd type it after 'ffmpeg', e.g. ''
         @ [CHR 0x27] @ ''-y -i input.mp4 -vf scale=1280:-1 output.mp4' or '-i in.wav -ar 16000 out.wav'. Always ''
         @ ''pass -y to overwrite outputs without prompting, since there is no interactive terminal to ''
         @ ''answer that prompt. To generate a single static image from nothing (a solid color, a test ''
         @ ''pattern, etc.) rather than transcode an existing file, use the lavfi virtual input with ''
         @ ''-frames:v 1 and -update 1 - both are required or the image2 muxer rejects a plain ''
         @ ''(non-%d-pattern) output filename with 'does not contain an image sequence pattern': '-y -f ''
         @ ''lavfi -i color=red:s=512x512 -frames:v 1 -update 1 output.png'. If your args contain a bare ''
         @ ''relative "desktop/..." path, it's automatically replaced with the real Desktop folder (see ''
         @ ''get_system_info's desktop_path) before running - the result includes a "resolved_args" ''
         @ ''field when that happened, report the location from there, not from what you originally ''
         @ ''typed. If you don't pass work_dir, this runs in the user's real Desktop folder by default ''
         @ ''(not droidcli's own working directory) - so a bare relative output filename (like the ''
         @ [CHR 0x27] @ ''output.png' example above) lands there, not in droidcli's own directory. The result ''
         @ ''includes a "resolved_work_dir" field whenever that default applied; pass work_dir ''
         @ ''explicitly to run somewhere else instead. Runs synchronously and returns captured ''
         @ ''stdout/stderr/exit_code - encodes can take a while, so raise timeout_ms for large files ''
         @ ''(default 120000ms).'',
       tool_parameters_json_schema = object_schema
         [(''args'', ''string'',
           ''ffmpeg arguments, e.g. '-y -i input.mp4 output.webm'' @ [CHR 0x27]),
          (''work_dir'', ''string'',
           ''optional working directory''),
          (''timeout_ms'', ''integer'',
           ''optional timeout in milliseconds, default 120000'')]
         [''args'']\<rparr>]\<close>

definition memory_tools :: "tool_definition list" where
  \<open>memory_tools =
    [\<lparr>tool_name = ''get_system_info'',
       tool_description =
         ''Get the host machine droidcli is actually running on right now: OS name, OS version/build, ''
         @ ''CPU architecture, hostname, username, current working directory, desktop_path (the user's ''
         @ ''actual Desktop folder, resolved via the OS - not a guess, use this instead of constructing ''
         @ ''a 'C:'' @ [bslash] @ ''Users'' @ [bslash] @ ''<name>'' @ [bslash] @ ''Desktop'-style path yourself, which breaks for a redirected or localized ''
         @ ''Desktop folder), and current_datetime (the real current date and time, freshly read every ''
         @ ''call - your system prompt only has the date/time from when this session started, which goes ''
         @ ''stale in a long-running session; call this whenever you need to know what time/date it ''
         @ ''actually is right now, not just at session start). Most fields were already queried once at ''
         @ ''startup and are in your system prompt, but call this if you need to double-check or report ''
         @ ''them precisely (e.g. the user asks 'what machine/OS is this', 'where is my Desktop', or ''
         @ [CHR 0x27] @ ''what's today's date'). Takes no arguments.'',
       tool_parameters_json_schema = object_schema
         []
         []\<rparr>,
     \<lparr>tool_name = ''search_command_fixes'',
       tool_description =
         ''Search previously recorded fixes for run_command/run_ffmpeg failures - a persistent memory ''
         @ ''of bugs already solved before, so you don't have to rediscover the same fix from scratch ''
         @ ''every time. Call this BEFORE attempting a run_command/run_ffmpeg call similar to something ''
         @ ''that failed earlier (same tool, similar error, similar kind of task), not after. query is ''
         @ ''matched case-insensitively against the tool name, the broken command, its failure reason, ''
         @ ''and the lesson text - keep it short and specific (e.g. 'ffmpeg static image' or 'ffmpeg ''
         @ ''quotes'), not the full failing command.'',
       tool_parameters_json_schema = object_schema
         [(''query'', ''string'',
           ''short search text, e.g. 'ffmpeg static image'' @ [CHR 0x27])]
         [''query'']\<rparr>,
     \<lparr>tool_name = ''get_hardware_info'',
       tool_description =
         ''Get this machine's local hardware inventory: CPU name/core count, total RAM, GPU adapter ''
         @ ''name(s), and per-drive disk capacity (total/free bytes for each fixed local drive). This is ''
         @ ''read-only, local-only information about what the machine is made of - not geolocation, not ''
         @ ''network scanning, not device control. Only returns real data if the human enabled it at ''
         @ ''droidcli startup (--enable-hardware-scan); if not, the result reports enabled:false ''
         @ ''honestly - tell the user that instead of claiming the data isn't available for some other ''
         @ ''reason. Takes no arguments.'',
       tool_parameters_json_schema = object_schema
         []
         []\<rparr>,
     \<lparr>tool_name = ''self_status'',
       tool_description =
         ''Check droidcli's own current health before acting or reporting on its capabilities: whether ''
         @ ''Ollama is reachable right now (cached from a background check, not a fresh call), ''
         @ ''connector/task counts, and how many of the last 20 log entries were failures. Call this ''
         @ ''when you're about to say you can't do something, when a tool call just failed and you want ''
         @ ''to know if it's a one-off or a wider problem (e.g. Ollama down), or when the user asks what ''
         @ ''state you're in / whether something is working. A false ollama_reachable does not mean you ''
         @ ''should give up - keep using non-AI tools (run_command, filesystem, connectors) normally and ''
         @ ''tell the user honestly that the AI backend specifically is degraded. Takes no arguments.'',
       tool_parameters_json_schema = object_schema
         []
         []\<rparr>,
     \<lparr>tool_name = ''record_command_fix'',
       tool_description =
         ''Record a 'this was broken, this is what fixed it' lesson so future run_command/run_ffmpeg ''
         @ ''calls (in this or a later session) can look it up via search_command_fixes instead of ''
         @ ''hitting the same wall again. Call this right after you fix something that failed at least ''
         @ ''once first - not for a command that worked on the first try, and not for a fix you haven't ''
         @ ''actually verified worked (an 'ok':true tool result). broken/working should be the actual ''
         @ ''command/args strings, not a paraphrase; lesson should be one short, specific, reusable ''
         @ ''sentence (e.g. 'ffmpeg embeds nested double-quotes badly through cmd.exe - avoid quoting ''
         @ ''filter expressions that don't need it').'',
       tool_parameters_json_schema = object_schema
         [(''tool'', ''string'',
           ''which tool this is about, e.g. 'run_ffmpeg'' @ [CHR 0x27]),
          (''broken'', ''string'',
           ''the command/args string that failed''),
          (''failure_reason'', ''string'',
           ''what the failure was, e.g. from the tool result's failure_reason field''),
          (''working'', ''string'',
           ''the command/args string that worked instead''),
          (''lesson'', ''string'',
           ''one short, specific, reusable takeaway'')]
         [''tool'', ''broken'', ''working'', ''lesson'']\<rparr>,
     \<lparr>tool_name = ''remember_location'',
       tool_description =
         ''Remember a name -> real path mapping so a later turn (or a later session) can recall it ''
         @ ''instead of re-listing the same directory again - e.g. after list_dir/stat_path resolves ''
         @ ''what the user meant by 'the green image' or 'Release_1', call this to remember it under ''
         @ ''that name. path is verified against the real filesystem before it's stored (stat_path must ''
         @ ''confirm it exists right now) - this will fail with ok:false rather than remember a location ''
         @ ''that doesn't actually exist, so always resolve the real path first, don't guess one to ''
         @ ''remember. Calling this again with a name already remembered updates it to the new path ''
         @ ''rather than creating a duplicate.'',
       tool_parameters_json_schema = object_schema
         [(''name'', ''string'',
           ''short name to remember it under, e.g. 'Release_1' or 'the green image'' @ [CHR 0x27]),
          (''path'', ''string'',
           ''the real, resolved path (not a guess)'')]
         [''name'', ''path'']\<rparr>,
     \<lparr>tool_name = ''get_known_locations'',
       tool_description =
         ''Get a view of the system's locations: where droidcli is right now (current working ''
         @ ''directory, the user's real Desktop folder), other real OS locations on this machine ''
         @ ''(Home/profile folder, Documents, Downloads, where installed applications live), and every ''
         @ ''name -> path mapping remembered so far via remember_location, across this and prior ''
         @ ''sessions. Call this before falling back to list_dir when the user refers to a place by name ''
         @ ''(their Home folder, Downloads, 'Release_1 again', 'the folder we made earlier') - if it's a ''
         @ ''real OS location or already remembered, you can act on the real path directly instead of ''
         @ ''searching for it again. Takes no arguments.'',
       tool_parameters_json_schema = object_schema
         []
         []\<rparr>]\<close>

definition agent_tool_definitions :: "tool_definition list" where
  "agent_tool_definitions = connector_tools @ task_tools @ launch_tools @ file_tools @ memory_tools"

lemma agent_tool_names:
  "map tool_name agent_tool_definitions =
     [''list_connectors'', ''connector_status'', ''launch_connector'', ''stop_connector'',
      ''call_connector'', ''enqueue_task'', ''list_tasks'', ''cancel_task'', ''run_command'',
      ''find_application'', ''list_open_windows'', ''list_windows_locations'', ''open_application'',
      ''read_file'', ''write_file'', ''list_dir'', ''stat_path'', ''get_cwd'', ''which'',
      ''copy_file'', ''move_path'', ''delete_file'', ''create_directory'', ''read_clipboard'',
      ''write_clipboard'', ''run_ffmpeg'', ''get_system_info'', ''search_command_fixes'',
      ''get_hardware_info'', ''self_status'', ''record_command_fix'', ''remember_location'',
      ''get_known_locations'']"
  by (simp only: agent_tool_definitions_def connector_tools_def task_tools_def launch_tools_def file_tools_def
      memory_tools_def list.map tool_definition.simps append.simps map_append)

end
