(* ===== verification/Host_Text.thy ===== *)
theory Host_Text imports Complex_Main Json_Array begin

text \<open>
  The text helpers of \<open>cli/host.cpp\<close>: URLs, the 32-bit field reader, rewriting one string field
  of a JSON object, the approval gate's tool list, and the summary of a failed command.
\<close>

definition strip_trailing_slashes :: "string \<Rightarrow> string" where
  "strip_trailing_slashes v = rev (dropWhile (\<lambda>c. c = slash) (rev v))"

definition join_url :: "string \<Rightarrow> string \<Rightarrow> string" where
  "join_url base path =
     (let trimmed_base = strip_trailing_slashes base
      in case path of
           [] \<Rightarrow> trimmed_base
         | c # _ \<Rightarrow> if c = slash then trimmed_base @ path else trimmed_base @ [slash] @ path)"

section \<open>The 32-bit field reader\<close>

text \<open>
  The value is left alone when the field is missing (\<open>Some None\<close>); \<open>None\<close> is \<open>std::atoi\<close> out of
  range, which is undefined behaviour.
\<close>

definition extract_json_int32_field :: "string \<Rightarrow> string \<Rightarrow> int option option" where
  "extract_json_int32_field json field_name =
     (case field_text json field_name 0 of
        None \<Rightarrow> Some None
      | Some t \<Rightarrow>
          (let sign = (case t of c # _ \<Rightarrow> if c = CHR ''-'' then ''-'' else [] | [] \<Rightarrow> []);
               text = sign @ takeWhile is_digit (drop (length sign) t)
           in if text = [] then Some None else map_option Some (atoi text)))"

section \<open>Rewriting a field\<close>

text \<open>From behind the opening quote to behind the closing one.\<close>

fun skip_string_body :: "string \<Rightarrow> string" where
  "skip_string_body [] = []"
| "skip_string_body [c] = []"
| "skip_string_body (c # d # s) =
     (if c = bslash then skip_string_body s
      else if c = quot then d # s
      else skip_string_body (d # s))"

definition replace_json_string_field_value :: "string \<Rightarrow> string \<Rightarrow> string \<Rightarrow> string" where
  "replace_json_string_field_value json field_name new_value =
     (case find_str (needle field_name) json of
        None \<Rightarrow> json
      | Some field_index \<Rightarrow>
          (let t = skip_blank (drop (field_index + length (needle field_name)) json)
           in if t = [] \<or> hd t \<noteq> quot then json
              else take (length json - length t) json @ [quot] @ escape_json_string new_value @ [quot]
                   @ skip_string_body (tl t)))"

section \<open>Tools that need approval\<close>

definition tool_call_requires_approval :: "string \<Rightarrow> bool" where
  "tool_call_requires_approval tool_name \<longleftrightarrow>
     tool_name = ''run_command'' \<or> tool_name = ''run_ffmpeg'' \<or> tool_name = ''write_file''
   \<or> tool_name = ''open_application'' \<or> tool_name = ''launch_connector'' \<or> tool_name = ''stop_connector''
   \<or> tool_name = ''enqueue_task'' \<or> tool_name = ''cancel_task'' \<or> tool_name = ''copy_file''
   \<or> tool_name = ''move_path'' \<or> tool_name = ''delete_file'' \<or> tool_name = ''create_directory''
   \<or> tool_name = ''write_clipboard''"

section \<open>Failed commands\<close>

record command_run_result =
  rr_launched :: bool
  rr_exit_code :: int
  rr_stdout_text :: string
  rr_stderr_text :: string
  rr_error_message :: string

definition empty_run_result :: command_run_result where
  "empty_run_result = \<lparr>rr_launched = False, rr_exit_code = 0, rr_stdout_text = [], rr_stderr_text = [], rr_error_message = []\<rparr>"

definition command_succeeded :: "command_run_result \<Rightarrow> bool" where
  "command_succeeded result \<longleftrightarrow> rr_launched result \<and> rr_exit_code result = 0 \<and> rr_error_message result = []"

definition is_line_pad :: "char \<Rightarrow> bool" where
  "is_line_pad c \<longleftrightarrow> c = carriage \<or> c = blank"

function nonempty_lines :: "string \<Rightarrow> string list" where
  "nonempty_lines s =
     (let line = rev (dropWhile is_line_pad (rev (takeWhile (\<lambda>c. c \<noteq> newline) s)));
          rest = dropWhile (\<lambda>c. c \<noteq> newline) s;
          more = (if rest = [] then [] else nonempty_lines (tl rest))
      in if line \<noteq> [] then line # more else more)"
  by pat_completeness auto
termination
proof (relation "measure length", goal_cases)
  case (2 s line rest)
  then have "rest \<noteq> []" "length rest \<le> length s" by (auto simp: length_dropWhile_le)
  then show ?case by (cases rest) auto
qed simp

declare nonempty_lines.simps [simp del]

fun join_bars :: "string list \<Rightarrow> string" where
  "join_bars [] = []"
| "join_bars [l] = l"
| "join_bars (l # m # ls) = l @ '' | '' @ join_bars (m # ls)"

definition last_nonempty_lines :: "string \<Rightarrow> nat \<Rightarrow> string" where
  "last_nonempty_lines t max_lines =
     (let lines = nonempty_lines t; n = (if length lines < max_lines then length lines else max_lines)
      in join_bars (drop (length lines - n) lines))"

definition summarize_command_failure :: "command_run_result \<Rightarrow> string" where
  "summarize_command_failure result =
     (if rr_error_message result \<noteq> [] then rr_error_message result
      else
        (let stderr_tail = last_nonempty_lines (rr_stderr_text result) 3
         in if stderr_tail \<noteq> [] then stderr_tail else last_nonempty_lines (rr_stdout_text result) 3))"

section \<open>Rewriting keeps the rest\<close>

lemma skip_escaped_body: "skip_string_body (escape_json_string v @ quot # r) = r"
proof (induction v)
  case Nil
  then show ?case by (cases r) auto
next
  case (Cons c v)
  have "skip_string_body (escape_char c @ s) = skip_string_body s" if "s \<noteq> []" for s
    using that by (cases s) auto
  moreover have "escape_json_string v @ quot # r \<noteq> []" by simp
  ultimately show ?case using Cons by simp
qed

lemma find_from_after:
  assumes "after_str p (u @ p @ t) = Some t"
  shows "find_str p (u @ p @ t) = Some (length u)"
proof -
  obtain i where i: "find_str p (u @ p @ t) = Some i" and d: "drop (i + length p) (u @ p @ t) = t"
    using assms by (auto simp: after_str_def)
  have "i + length p \<le> length (u @ p @ t)" by (rule find_str_le [OF i])
  moreover have "length (u @ p @ t) - (i + length p) = length t" using d by (metis length_drop)
  ultimately have "i = length u" by simp
  with i show ?thesis by simp
qed

lemma replace_field_text:
  assumes "after_str (needle k) (u @ json_string_field k v @ r) = Some (quot # escape_json_string v @ quot # r)"
  shows "replace_json_string_field_value (u @ json_string_field k v @ r) k w = u @ json_string_field k w @ r"
proof -
  let ?t = "quot # escape_json_string v @ quot # r"
  have e: "u @ json_string_field k v @ r = u @ needle k @ ?t" by (simp add: string_field_text)
  then have "find_str (needle k) (u @ needle k @ ?t) = Some (length u)"
    using assms by (intro find_from_after) simp
  then show ?thesis
    unfolding e by (simp add: replace_json_string_field_value_def skip_blank_def skip_escaped_body string_field_text)
qed

text \<open>
  Rewriting a string field of a flat JSON object changes exactly the value of the first field
  with that name: the result is the same object with that one value replaced, whatever characters
  the old, the new and the other values hold.
\<close>

theorem replace_field_exact:
  assumes "plain_keys (as @ (k, JStr v) # bs)" and "k \<notin> fst ` set as"
  shows "replace_json_string_field_value (render_object (as @ (k, JStr v) # bs)) k w = render_object (as @ (k, JStr w) # bs)"
proof -
  have k: "plain_key k" and as: "plain_keys as" using assms(1) by (auto simp: plain_keys_def list_all_iff)
  let ?r = "(if bs = [] then [] else comma # join_comma (map render_field bs)) @ [rbrace]"
  let ?u = "lbrace # (if as = [] then [] else join_comma (map render_field as) @ [comma])"
  have jc: "join_comma (xs @ y # ys) = (if xs = [] then [] else join_comma xs @ [comma]) @ y
      @ (if ys = [] then [] else comma # join_comma ys)" for xs y ys
    by (induction xs rule: induct_list012) (cases ys; simp)+
  have o: "render_object (as @ (k, JStr x) # bs) = ?u @ json_string_field k x @ ?r" for x
    by (simp add: render_object_def jc json_string_field_render)
  have m: "member_end ?r" by (cases "bs = []") (simp_all add: member_end_def)
  have "after_str (needle k) (?u @ json_string_field k v @ ?r) = Some (quot # escape_json_string v @ quot # ?r)"
  proof (cases "as = []")
    case True
    then show ?thesis using k m by (simp add: scan_simps)
  next
    case False
    have "map_of as k = None" using assms(2) by (simp add: map_of_eq_None_iff)
    moreover have "\<forall>f \<in> set as. plain_key (fst f)" using as by (simp add: plain_keys_def list_all_iff)
    ultimately have "after_str (needle k) (join_comma (map render_field as) @ comma # json_string_field k v @ ?r)
        = after_str (needle k) (comma # json_string_field k v @ ?r)"
      using after_str_fields [of k as "comma # json_string_field k v @ ?r"] k False by simp
    then show ?thesis using False k m by (simp add: scan_simps)
  qed
  then show ?thesis unfolding o by (rule replace_field_text)
qed

theorem replace_field_exact_witness:
  "replace_json_string_field_value (render_object [(''path'', JStr ''a''), (''content'', JStr ''x'')]) ''path'' ''C:/a'' =
     render_object [(''path'', JStr ''C:/a''), (''content'', JStr ''x'')]"
  using replace_field_exact [of "[]" "''path''" "''a''" "[(''content'', JStr ''x'')]" "''C:/a''"]
  by (simp add: plain_keys_def plain_key_def plain_char_def)

end
