(* ===== verification/Os_Interface.thy ===== *)
theory Os_Interface imports Complex_Main Host_Text begin

text \<open>
  What the host asks of the operating system, the C++ filesystem library and the network, as one
  record of operations on a world \<open>'w\<close>: a query reads the world, an effect returns it changed.
  Nothing is assumed of these operations where a theorem does not say so. \<open>std::filesystem\<close>
  reports errors through an \<open>error_code\<close>: its text is the \<open>Some\<close> or \<open>Inl\<close> of a result.
\<close>

datatype write_outcome = Not_Opened | Write_Failed | Written

record dir_entry =
  de_path_filename :: string
  de_is_directory :: bool
  de_file_size :: "nat option"

record launch_app_result =
  la_launched :: bool
  la_pid :: int
  la_error_message :: string
  la_resolved_path :: string

definition empty_launch :: launch_app_result where
  "empty_launch = \<lparr>la_launched = False, la_pid = 0, la_error_message = [], la_resolved_path = []\<rparr>"

record process_info =
  pi_key :: string
  pi_label :: string
  pi_pid :: int
  pi_running :: bool
  pi_status_text :: string

record open_window =
  ow_title :: string
  ow_process_name :: string
  ow_pid :: int

record clipboard_read =
  cb_ok :: bool
  cb_text :: string
  cb_error_message :: string

record clipboard_write =
  cw_ok :: bool
  cw_error_message :: string

text \<open>
  Reads of the clock move the world on: two reads in one operation may differ. \<open>os_sql_done\<close> is
  whether a prepared SQLite statement ran to its end, \<open>os_protect\<close> and \<open>os_unprotect\<close> are
  DPAPI's \<open>CryptProtectData\<close> and \<open>CryptUnprotectData\<close>. The first group, up to those, is what a tool
  that needs no approval may use, the second (from \<open>fs_create_directories\<close> on) what only an
  approved one may.
\<close>

record 'w os =
  os_windows :: bool
  os_now_ms :: "'w \<Rightarrow> int \<times> 'w"
  os_steady_ms :: "'w \<Rightarrow> int \<times> 'w"
  os_time :: "'w \<Rightarrow> int \<times> 'w"
  os_local_time :: "string \<Rightarrow> 'w \<Rightarrow> string \<times> 'w"
  os_stack_address :: "'w \<Rightarrow> nat \<times> 'w"
  os_getenv :: "string \<Rightarrow> 'w \<Rightarrow> string option"
  fs_exists :: "string \<Rightarrow> 'w \<Rightarrow> bool"
  fs_is_directory :: "string \<Rightarrow> 'w \<Rightarrow> bool \<times> string option"
  fs_is_regular_file :: "string \<Rightarrow> 'w \<Rightarrow> bool"
  fs_file_size :: "string \<Rightarrow> 'w \<Rightarrow> string + nat"
  fs_parent_path :: "string \<Rightarrow> string"
  fs_join :: "string \<Rightarrow> string \<Rightarrow> string"
  fs_absolute :: "string \<Rightarrow> 'w \<Rightarrow> string option"
  fs_current_path :: "'w \<Rightarrow> string option"
  fs_directory :: "string \<Rightarrow> 'w \<Rightarrow> dir_entry list \<times> string option"
  fs_read :: "string \<Rightarrow> 'w \<Rightarrow> string option"
  os_http_get :: "string \<Rightarrow> 'w \<Rightarrow> (bool \<times> int \<times> string) \<times> 'w"
  os_http_post :: "string \<Rightarrow> string \<Rightarrow> string list \<Rightarrow> 'w \<Rightarrow> (bool \<times> int \<times> string) \<times> 'w"
  os_app_paths_registry :: "string \<Rightarrow> 'w \<Rightarrow> string"
  os_system_executable :: "string \<Rightarrow> 'w \<Rightarrow> string"
  os_process_snapshot :: "'w \<Rightarrow> process_info list \<times> 'w"
  os_open_windows :: "'w \<Rightarrow> open_window list"
  os_clipboard_read :: "'w \<Rightarrow> clipboard_read \<times> 'w"
  os_sql_done :: "'w \<Rightarrow> bool \<times> 'w"
  os_protect :: "string \<Rightarrow> 'w \<Rightarrow> string option \<times> 'w"
  os_unprotect :: "string \<Rightarrow> 'w \<Rightarrow> string option"
  fs_create_directories :: "string \<Rightarrow> 'w \<Rightarrow> (string + bool) \<times> 'w"
  fs_copy_file :: "string \<Rightarrow> string \<Rightarrow> 'w \<Rightarrow> string option \<times> 'w"
  fs_rename :: "string \<Rightarrow> string \<Rightarrow> 'w \<Rightarrow> string option \<times> 'w"
  fs_remove :: "string \<Rightarrow> 'w \<Rightarrow> (string + bool) \<times> 'w"
  fs_write :: "string \<Rightarrow> string \<Rightarrow> bool \<Rightarrow> 'w \<Rightarrow> write_outcome \<times> 'w"
  os_run_command_once :: "string \<Rightarrow> string \<Rightarrow> int \<Rightarrow> bool \<Rightarrow> 'w \<Rightarrow> command_run_result \<times> 'w"
  os_launch_application :: "string \<Rightarrow> string \<Rightarrow> string \<Rightarrow> 'w \<Rightarrow> launch_app_result \<times> 'w"
  os_process_launch :: "string \<Rightarrow> string \<Rightarrow> string \<Rightarrow> string \<Rightarrow> 'w \<Rightarrow> (bool \<times> string) \<times> 'w"
  os_process_stop :: "string \<Rightarrow> 'w \<Rightarrow> (bool \<times> string) \<times> 'w"
  os_clipboard_write :: "string \<Rightarrow> 'w \<Rightarrow> clipboard_write \<times> 'w"

text \<open>Two systems that differ at most in the effects of the second group.\<close>

definition same_senses :: "'w os \<Rightarrow> 'w os \<Rightarrow> bool" where
  "same_senses a b \<longleftrightarrow>
     b = a\<lparr>fs_create_directories := fs_create_directories b, fs_copy_file := fs_copy_file b,
           fs_rename := fs_rename b, fs_remove := fs_remove b, fs_write := fs_write b,
           os_run_command_once := os_run_command_once b, os_launch_application := os_launch_application b,
           os_process_launch := os_process_launch b, os_process_stop := os_process_stop b,
           os_clipboard_write := os_clipboard_write b\<rparr>"

named_theorems sense_simps \<open>what two systems with the same senses share\<close>

lemma same_sensesD [sense_simps]:
  assumes "same_senses a b"
  shows "os_windows b = os_windows a" "os_now_ms b = os_now_ms a" "os_steady_ms b = os_steady_ms a"
    "os_time b = os_time a"
    "os_local_time b = os_local_time a" "os_stack_address b = os_stack_address a" "os_getenv b = os_getenv a"
    "fs_exists b = fs_exists a" "fs_is_directory b = fs_is_directory a" "fs_is_regular_file b = fs_is_regular_file a"
    "fs_file_size b = fs_file_size a" "fs_parent_path b = fs_parent_path a" "fs_join b = fs_join a"
    "fs_absolute b = fs_absolute a" "fs_current_path b = fs_current_path a" "fs_directory b = fs_directory a"
    "fs_read b = fs_read a" "os_http_get b = os_http_get a" "os_http_post b = os_http_post a"
    "os_app_paths_registry b = os_app_paths_registry a" "os_system_executable b = os_system_executable a"
    "os_process_snapshot b = os_process_snapshot a" "os_open_windows b = os_open_windows a"
    "os_clipboard_read b = os_clipboard_read a" "os_sql_done b = os_sql_done a"
    "os_protect b = os_protect a" "os_unprotect b = os_unprotect a"
  by (subst assms [unfolded same_senses_def], simp)+

text \<open>A system on which nothing exists and nothing happens, for examples to start from.\<close>

definition idle_os :: "'w os" where
  "idle_os = \<lparr>os_windows = False, os_now_ms = (\<lambda>w. (0, w)), os_steady_ms = (\<lambda>w. (0, w)),
     os_time = (\<lambda>w. (0, w)), os_local_time = (\<lambda>f w. ([], w)),
     os_stack_address = (\<lambda>w. (0, w)), os_getenv = (\<lambda>v w. None), fs_exists = (\<lambda>p w. False),
     fs_is_directory = (\<lambda>p w. (False, None)), fs_is_regular_file = (\<lambda>p w. False), fs_file_size = (\<lambda>p w. Inl []),
     fs_parent_path = (\<lambda>p. []), fs_join = (\<lambda>p q. p @ [slash] @ q), fs_absolute = (\<lambda>p w. Some p),
     fs_current_path = (\<lambda>w. Some [slash]), fs_directory = (\<lambda>p w. ([], None)), fs_read = (\<lambda>p w. None),
     os_http_get = (\<lambda>u w. ((False, 0, []), w)), os_http_post = (\<lambda>u b h w. ((False, 0, []), w)),
     os_app_paths_registry = (\<lambda>n w. []), os_system_executable = (\<lambda>n w. []), os_process_snapshot = (\<lambda>w. ([], w)),
     os_open_windows = (\<lambda>w. []), os_clipboard_read = (\<lambda>w. (\<lparr>cb_ok = False, cb_text = [], cb_error_message = []\<rparr>, w)),
     os_sql_done = (\<lambda>w. (True, w)), os_protect = (\<lambda>p w. (None, w)), os_unprotect = (\<lambda>p w. None),
     fs_create_directories = (\<lambda>p w. (Inr False, w)), fs_copy_file = (\<lambda>p q w. (Some [], w)),
     fs_rename = (\<lambda>p q w. (Some [], w)), fs_remove = (\<lambda>p w. (Inr False, w)), fs_write = (\<lambda>p c a w. (Not_Opened, w)),
     os_run_command_once = (\<lambda>c d t v w. (empty_run_result, w)), os_launch_application = (\<lambda>p a d w. (empty_launch, w)),
     os_process_launch = (\<lambda>k l d c w. ((False, []), w)), os_process_stop = (\<lambda>k w. ((False, []), w)),
     os_clipboard_write = (\<lambda>t w. (\<lparr>cw_ok = False, cw_error_message = []\<rparr>, w))\<rparr>"

section \<open>Sequencing what may throw\<close>

text \<open>Run \<open>m\<close>; unless it threw, go on with its value. What was changed before a throw stays changed.\<close>

definition bindE ::
    "('s \<Rightarrow> (cpp_exception + 'a) \<times> 's) \<Rightarrow> ('a \<Rightarrow> 's \<Rightarrow> (cpp_exception + 'b) \<times> 's) \<Rightarrow> 's \<Rightarrow> (cpp_exception + 'b) \<times> 's" where
  "bindE m f s = (case m s of (Inl e, t) \<Rightarrow> (Inl e, t) | (Inr a, t) \<Rightarrow> f a t)"

lemma bindE_Inl: "m s = (Inl e, t) \<Longrightarrow> bindE m f s = (Inl e, t)"
  by (simp add: bindE_def)

lemma bindE_Inr: "m s = (Inr a, t) \<Longrightarrow> bindE m f s = f a t"
  by (simp add: bindE_def)

lemma bindE_InrE:
  assumes "bindE m f s = (Inr b, u)"
  obtains a t where "m s = (Inr a, t)" "f a t = (Inr b, u)"
  using assms by (auto simp: bindE_def split: prod.splits sum.splits)

end
