(* ===== verification/Memory_Store.thy ===== *)
theory Memory_Store imports Complex_Main Keyed_Store "HOL-Library.Char_ord" "HOL-Library.List_Lexorder"
  "HOL-Library.Multiset" begin

text \<open>
  \<open>cli/memory_store.cpp\<close>: the SQLite tables behind the agent's memory, as lists of rows in the
  order of insertion. SQLite itself is vendored; of it the model uses what is documented of the
  statements the source prepares: what \<open>WHERE\<close>, \<open>ORDER BY\<close>, \<open>LIKE\<close>, \<open>NOCASE\<close> and the upsert
  select and change, with rows that compare equal left in the order of insertion. Whether a
  statement ran to \<open>SQLITE_DONE\<close> is an argument (\<open>done\<close>), and so is the text of the clock.
  Texts are bound as C strings: they end at the first NUL.
\<close>

record memory_record =
  mr_session_id :: string
  mr_hop_index :: int
  mr_role :: string
  mr_content :: string
  mr_created_at :: string

record command_lesson =
  cl_id :: int
  cl_tool :: string
  cl_broken :: string
  cl_failure_reason :: string
  cl_working :: string
  cl_lesson :: string
  cl_created_at :: string

record known_location =
  kl_name :: string
  kl_resolved_path :: string
  kl_created_at :: string
  kl_updated_at :: string

record memory_store =
  ms_is_open :: bool
  ms_memory_entries :: "memory_record list"
  ms_command_lessons :: "command_lesson list"
  ms_known_locations :: "known_location list"

definition closed_store :: memory_store where
  "closed_store = \<lparr>ms_is_open = False, ms_memory_entries = [], ms_command_lessons = [], ms_known_locations = []\<rparr>"

text \<open>\<open>c_str()\<close> with length \<open>-1\<close>.\<close>

definition bound_text :: "string \<Rightarrow> string" where
  "bound_text v = takeWhile (\<lambda>c. c \<noteq> CHR 0x00) v"

text \<open>A stable sort, largest key first.\<close>

definition sort_desc :: "('a \<Rightarrow> string) \<Rightarrow> 'a list \<Rightarrow> 'a list" where
  "sort_desc k xs = rev (sort_key k (rev xs))"

section \<open>Messages\<close>

definition memory_append ::
    "bool \<Rightarrow> string \<Rightarrow> string \<Rightarrow> int \<Rightarrow> string \<Rightarrow> string \<Rightarrow> memory_store \<Rightarrow> bool \<times> memory_store" where
  "memory_append done now session_id hop_index role content m =
     (if \<not> ms_is_open m then (False, m)
      else if \<not> done then (False, m)
      else (True, m\<lparr>ms_memory_entries := ms_memory_entries m @
        [\<lparr>mr_session_id = bound_text session_id, mr_hop_index = hop_index, mr_role = bound_text role,
          mr_content = bound_text content, mr_created_at = now\<rparr>]\<rparr>))"

definition load_session :: "memory_store \<Rightarrow> string \<Rightarrow> memory_record list" where
  "load_session m session_id =
     (if \<not> ms_is_open m then []
      else map (\<lambda>r. r\<lparr>mr_session_id := session_id\<rparr>)
        (sort_key mr_hop_index (filter (\<lambda>r. mr_session_id r = bound_text session_id) (ms_memory_entries m))))"

definition delete_session :: "bool \<Rightarrow> string \<Rightarrow> memory_store \<Rightarrow> bool \<times> memory_store" where
  "delete_session done session_id m =
     (if \<not> ms_is_open m then (False, m)
      else if \<not> done then (False, m)
      else (True, m\<lparr>ms_memory_entries :=
        filter (\<lambda>r. mr_session_id r \<noteq> bound_text session_id) (ms_memory_entries m)\<rparr>))"

definition last_seen :: "memory_record list \<Rightarrow> string \<Rightarrow> string" where
  "last_seen rs session_id = fold max (map mr_created_at (filter (\<lambda>r. mr_session_id r = session_id) rs)) []"

definition list_session_ids :: "memory_store \<Rightarrow> string list" where
  "list_session_ids m =
     (if \<not> ms_is_open m then []
      else sort_desc (last_seen (ms_memory_entries m)) (sort (remdups (map mr_session_id (ms_memory_entries m)))))"

section \<open>Lessons\<close>

text \<open>\<open>LIKE\<close>: \<open>%\<close> stands for any text and \<open>_\<close> for any one character; letters match in either case.\<close>

fun sql_like :: "string \<Rightarrow> string \<Rightarrow> bool" where
  "sql_like [] [] = True"
| "sql_like [] (c # s) = False"
| "sql_like (p # ps) [] = (p = CHR ''%'' \<and> sql_like ps [])"
| "sql_like (p # ps) (c # s) =
     (if p = CHR ''%'' then sql_like ps (c # s) \<or> sql_like (p # ps) s
      else (p = CHR ''_'' \<or> tolower p = tolower c) \<and> sql_like ps s)"

definition record_lesson ::
    "bool \<Rightarrow> string \<Rightarrow> string \<Rightarrow> string \<Rightarrow> string \<Rightarrow> string \<Rightarrow> string \<Rightarrow> memory_store \<Rightarrow> bool \<times> memory_store" where
  "record_lesson done now tool broken failure_reason working lesson m =
     (if \<not> ms_is_open m then (False, m)
      else if \<not> done then (False, m)
      else (True, m\<lparr>ms_command_lessons := ms_command_lessons m @
        [\<lparr>cl_id = int (length (ms_command_lessons m)) + 1, cl_tool = bound_text tool, cl_broken = bound_text broken,
          cl_failure_reason = bound_text failure_reason, cl_working = bound_text working,
          cl_lesson = bound_text lesson, cl_created_at = now\<rparr>]\<rparr>))"

definition lesson_matches :: "string \<Rightarrow> command_lesson \<Rightarrow> bool" where
  "lesson_matches pat e \<longleftrightarrow>
     sql_like pat (to_lower_ascii (cl_tool e)) \<or> sql_like pat (to_lower_ascii (cl_broken e))
   \<or> sql_like pat (to_lower_ascii (cl_failure_reason e)) \<or> sql_like pat (to_lower_ascii (cl_lesson e))"

definition search_lessons :: "memory_store \<Rightarrow> string \<Rightarrow> int \<Rightarrow> command_lesson list" where
  "search_lessons m query max_results =
     (if \<not> ms_is_open m then []
      else
        (let pat = bound_text (''%'' @ to_lower_ascii query @ ''%'');
             rows = sort_desc cl_created_at (filter (lesson_matches pat) (ms_command_lessons m))
         in if max_results < 0 then rows else take (nat max_results) rows))"

section \<open>Known locations\<close>

definition same_name :: "string \<Rightarrow> known_location \<Rightarrow> bool" where
  "same_name name l \<longleftrightarrow> to_lower_ascii (kl_name l) = to_lower_ascii (bound_text name)"

definition remember_location :: "bool \<Rightarrow> string \<Rightarrow> string \<Rightarrow> string \<Rightarrow> memory_store \<Rightarrow> bool \<times> memory_store" where
  "remember_location done now name resolved_path m =
     (if \<not> ms_is_open m then (False, m)
      else if \<not> done then (False, m)
      else (True, m\<lparr>ms_known_locations :=
        (if \<exists>l \<in> set (ms_known_locations m). same_name name l
         then update_first (same_name name)
                (\<lambda>l. l\<lparr>kl_resolved_path := bound_text resolved_path, kl_updated_at := now\<rparr>) (ms_known_locations m)
         else ms_known_locations m @
           [\<lparr>kl_name = bound_text name, kl_resolved_path = bound_text resolved_path,
             kl_created_at = now, kl_updated_at = now\<rparr>])\<rparr>))"

definition list_locations :: "memory_store \<Rightarrow> known_location list" where
  "list_locations m = (if \<not> ms_is_open m then [] else sort_desc kl_updated_at (ms_known_locations m))"

section \<open>What a session log keeps\<close>

lemma sort_key_snoc:
  assumes "\<forall>y \<in> set xs. f y \<le> f x"
  shows "sort_key f (xs @ [x]) = sort_key f xs @ [x]"
proof (rule properties_for_sort_key)
  show "mset (sort_key f xs @ [x]) = mset (xs @ [x])" by simp
  show "filter (\<lambda>y. f k = f y) (sort_key f xs @ [x]) = filter (\<lambda>y. f k = f y) (xs @ [x])"
    if "k \<in> set (sort_key f xs @ [x])" for k
    using sort_key_stable [of f "f k" xs] by (simp add: eq_commute)
  show "sorted (map f (sort_key f xs @ [x]))" using assms by (simp add: sorted_append)
qed

text \<open>Role and content of the messages of a session, in the order in which it is resumed.\<close>

definition session_messages :: "memory_store \<Rightarrow> string \<Rightarrow> (string \<times> string) list" where
  "session_messages m session_id = map (\<lambda>r. (mr_role r, mr_content r)) (load_session m session_id)"

definition session_hops :: "memory_store \<Rightarrow> string \<Rightarrow> int set" where
  "session_hops m session_id =
     mr_hop_index ` set (filter (\<lambda>r. mr_session_id r = bound_text session_id) (ms_memory_entries m))"

text \<open>The interface the agent turn relies on: a log of messages per session.\<close>

locale session_log =
  fixes is_open :: "'m \<Rightarrow> bool"
    and put :: "string \<Rightarrow> int \<Rightarrow> string \<Rightarrow> string \<Rightarrow> 'm \<Rightarrow> 'm"
    and remove :: "string \<Rightarrow> 'm \<Rightarrow> 'm"
    and messages :: "'m \<Rightarrow> string \<Rightarrow> (string \<times> string) list"
    and hops :: "'m \<Rightarrow> string \<Rightarrow> int set"
    and same_session :: "string \<Rightarrow> string \<Rightarrow> bool"
    and stored :: "string \<Rightarrow> string"
  assumes open_put: "is_open (put s h r c m) = is_open m"
    and open_remove: "is_open (remove s m) = is_open m"
    and same_refl: "same_session s s"
    and messages_put: "is_open m \<Longrightarrow> same_session s' s \<Longrightarrow> (\<forall>i \<in> hops m s. i \<le> h) \<Longrightarrow>
      messages (put s h r c m) s' = messages m s' @ [(stored r, stored c)]"
    and messages_other: "\<not> same_session s' s \<Longrightarrow> messages (put s h r c m) s' = messages m s'"
    and hops_put: "is_open m \<Longrightarrow> hops (put s h r c m) s = insert h (hops m s)"
    and messages_remove: "is_open m \<Longrightarrow> messages (remove s m) s' = (if same_session s' s then [] else messages m s')"
    and hops_remove: "is_open m \<Longrightarrow> hops (remove s m) s = {}"
begin

fun put_all :: "string \<Rightarrow> int \<Rightarrow> (string \<times> string) list \<Rightarrow> 'm \<Rightarrow> 'm" where
  "put_all s h [] m = m"
| "put_all s h ((r, c) # ms) m = put_all s (h + 1) ms (put s h r c m)"

text \<open>A transcript written message by message is resumed as it was.\<close>

lemma messages_put_all:
  assumes "is_open m" and "\<forall>i \<in> hops m s. i < h"
  shows "messages (put_all s h ms m) s = messages m s @ map (\<lambda>(r, c). (stored r, stored c)) ms"
  using assms
proof (induction s h ms m rule: put_all.induct)
  case (2 s h r c ms m)
  have "\<forall>i \<in> hops (put s h r c m) s. i < h + 1" using 2(2,3) by (auto simp: hops_put)
  then have "messages (put_all s (h + 1) ms (put s h r c m)) s
      = messages (put s h r c m) s @ map (\<lambda>(r, c). (stored r, stored c)) ms"
    using 2 by (simp add: open_put)
  moreover have "messages (put s h r c m) s = messages m s @ [(stored r, stored c)]"
    using 2(2,3) same_refl [of s] by (intro messages_put) auto
  ultimately show ?case by simp
qed simp

lemma messages_put_all_other:
  "\<not> same_session s' s \<Longrightarrow> messages (put_all s h ms m) s' = messages m s'"
  by (induction s h ms m rule: put_all.induct) (auto simp: messages_other)

lemma removed_then_rewritten:
  assumes "is_open m"
  shows "messages (put_all s 0 ms (remove s m)) s = map (\<lambda>(r, c). (stored r, stored c)) ms"
  using assms same_refl [of s]
  by (subst messages_put_all) (simp_all add: open_remove hops_remove messages_remove)

end

definition same_session_id :: "string \<Rightarrow> string \<Rightarrow> bool" where
  "same_session_id a b \<longleftrightarrow> bound_text a = bound_text b"

interpretation sqlite_log: session_log ms_is_open
    "\<lambda>s h r c m. snd (memory_append True now s h r c m)" "\<lambda>s m. snd (delete_session True s m)"
    session_messages session_hops same_session_id bound_text
proof unfold_locales
  fix s s' :: string and h r c and m :: memory_store
  show "ms_is_open (snd (memory_append True now s h r c m)) = ms_is_open m"
    by (simp add: memory_append_def)
  show "ms_is_open (snd (delete_session True s m)) = ms_is_open m" by (simp add: delete_session_def)
  show "same_session_id s s" by (simp add: same_session_id_def)
  show "ms_is_open m \<Longrightarrow> same_session_id s' s \<Longrightarrow> \<forall>i \<in> session_hops m s. i \<le> h \<Longrightarrow>
      session_messages (snd (memory_append True now s h r c m)) s' = session_messages m s' @ [(bound_text r, bound_text c)]"
    by (simp add: session_messages_def load_session_def memory_append_def same_session_id_def session_hops_def
        sort_key_snoc)
  show "\<not> same_session_id s' s \<Longrightarrow>
      session_messages (snd (memory_append True now s h r c m)) s' = session_messages m s'"
    by (simp add: session_messages_def load_session_def memory_append_def same_session_id_def)
  show "ms_is_open m \<Longrightarrow> session_hops (snd (memory_append True now s h r c m)) s = insert h (session_hops m s)"
    by (simp add: session_hops_def memory_append_def)
  have other: "filter (\<lambda>r. mr_session_id r = bound_text s') (filter (\<lambda>r. mr_session_id r \<noteq> bound_text s) rs)
      = filter (\<lambda>r. mr_session_id r = bound_text s') rs" if "\<not> same_session_id s' s" for rs
    using that by (auto simp: same_session_id_def intro: filter_cong)
  show "ms_is_open m \<Longrightarrow> session_messages (snd (delete_session True s m)) s' =
      (if same_session_id s' s then [] else session_messages m s')"
  proof (cases "same_session_id s' s")
    case False
    then show "ms_is_open m \<Longrightarrow> ?thesis"
      by (simp add: session_messages_def load_session_def delete_session_def other del: filter_filter)
  qed (simp add: session_messages_def load_session_def delete_session_def same_session_id_def)
  show "ms_is_open m \<Longrightarrow> session_hops (snd (delete_session True s m)) s = {}"
    by (auto simp: session_hops_def delete_session_def)
qed

section \<open>What a search finds\<close>

lemma sql_like_percent: "sql_like (CHR ''%'' # ps) s \<longleftrightarrow> (\<exists>u v. s = u @ v \<and> sql_like ps v)"
proof (induction s)
  case (Cons c s)
  have "(\<exists>u v. c # s = u @ v \<and> sql_like ps v) \<longleftrightarrow> sql_like ps (c # s) \<or> (\<exists>u v. s = u @ v \<and> sql_like ps v)"
  proof
    assume "\<exists>u v. c # s = u @ v \<and> sql_like ps v"
    then obtain u v where "c # s = u @ v" "sql_like ps v" by blast
    then show "sql_like ps (c # s) \<or> (\<exists>u v. s = u @ v \<and> sql_like ps v)" by (cases u) auto
  next
    assume "sql_like ps (c # s) \<or> (\<exists>u v. s = u @ v \<and> sql_like ps v)"
    then show "\<exists>u v. c # s = u @ v \<and> sql_like ps v" by (metis append_Cons append_Nil)
  qed
  then show ?case using Cons.IH by simp
qed simp

definition like_plain :: "string \<Rightarrow> bool" where
  "like_plain q \<longleftrightarrow> list_all (\<lambda>c. c \<noteq> CHR ''%'' \<and> c \<noteq> CHR ''_'' \<and> c \<noteq> CHR 0x00) q"

lemma sql_like_prefix:
  "like_plain q \<Longrightarrow> sql_like (q @ ''%'') v \<longleftrightarrow> (\<exists>w. map tolower v = map tolower q @ w)"
proof (induction q arbitrary: v)
  case Nil
  have "sql_like ''%'' v" unfolding sql_like_percent by (rule exI [of _ v], rule exI [of _ "[]"]) simp
  then show ?case by simp
next
  case (Cons c q)
  then show ?case by (cases v) (auto simp: like_plain_def)
qed

lemma of_char_tolower: "(of_char (tolower c) :: nat) = (let n = of_char c in if 65 \<le> n \<and> n \<le> 90 then n + 32 else n)"
  by (simp add: tolower_def Let_def)

lemma tolower_marks:
  "tolower c = CHR ''%'' \<longleftrightarrow> c = CHR ''%''" "tolower c = CHR ''_'' \<longleftrightarrow> c = CHR ''_''" "tolower c = CHR 0x00 \<longleftrightarrow> c = CHR 0x00"
proof -
  have e: "a = b \<longleftrightarrow> (of_char a :: nat) = of_char b" for a b :: char by simp
  show "tolower c = CHR ''%'' \<longleftrightarrow> c = CHR ''%''" "tolower c = CHR ''_'' \<longleftrightarrow> c = CHR ''_''" "tolower c = CHR 0x00 \<longleftrightarrow> c = CHR 0x00"
    unfolding e of_char_tolower by (auto simp: Let_def)
qed

lemma like_plain_lower [simp]: "like_plain (to_lower_ascii q) = like_plain q"
  by (simp add: like_plain_def to_lower_ascii_def list_all_iff tolower_marks)

lemma bound_plain: "like_plain q \<Longrightarrow> bound_text (''%'' @ q @ ''%'') = ''%'' @ q @ ''%''"
  by (induction q) (auto simp: like_plain_def bound_text_def)

lemma like_substring:
  assumes "like_plain q"
  shows "sql_like (''%'' @ to_lower_ascii q @ ''%'') (to_lower_ascii s) \<longleftrightarrow> contains (to_lower_ascii s) (to_lower_ascii q)"
proof -
  have l: "map tolower (to_lower_ascii t) = to_lower_ascii t" for t by (simp add: to_lower_ascii_def)
  have "sql_like (''%'' @ to_lower_ascii q @ ''%'') (to_lower_ascii s)
      \<longleftrightarrow> (\<exists>u v. to_lower_ascii s = u @ v \<and> sql_like (to_lower_ascii q @ ''%'') v)"
    by (simp add: sql_like_percent)
  also have "\<dots> \<longleftrightarrow> (\<exists>u v. to_lower_ascii s = u @ v \<and> (\<exists>w. map tolower v = to_lower_ascii q @ w))"
    using assms by (simp add: sql_like_prefix l)
  also have "\<dots> \<longleftrightarrow> (\<exists>u w. to_lower_ascii s = u @ to_lower_ascii q @ w)"
  proof
    assume "\<exists>u v. to_lower_ascii s = u @ v \<and> (\<exists>w. map tolower v = to_lower_ascii q @ w)"
    then obtain u v w where s: "to_lower_ascii s = u @ v" and v: "map tolower v = to_lower_ascii q @ w" by blast
    have "map tolower u @ map tolower v = to_lower_ascii s" using l [of s] s by simp
    with v show "\<exists>u w. to_lower_ascii s = u @ to_lower_ascii q @ w" by metis
  next
    assume "\<exists>u w. to_lower_ascii s = u @ to_lower_ascii q @ w"
    then obtain u w where s: "to_lower_ascii s = u @ to_lower_ascii q @ w" by blast
    have "map tolower (to_lower_ascii q @ w) = to_lower_ascii q @ map tolower w" by (simp add: l)
    with s show "\<exists>u v. to_lower_ascii s = u @ v \<and> (\<exists>w. map tolower v = to_lower_ascii q @ w)" by blast
  qed
  finally show ?thesis by (simp add: contains_iff)
qed

definition mentions :: "string \<Rightarrow> command_lesson \<Rightarrow> bool" where
  "mentions q e \<longleftrightarrow> (\<exists>t \<in> {cl_tool e, cl_broken e, cl_failure_reason e, cl_lesson e}.
     contains (to_lower_ascii t) (to_lower_ascii q))"

lemma lesson_matches_mentions:
  "like_plain q \<Longrightarrow> lesson_matches (bound_text (''%'' @ to_lower_ascii q @ ''%'')) e = mentions q e"
  by (simp add: lesson_matches_def mentions_def bound_plain like_substring del: append.simps)

text \<open>
  A search whose text holds no wildcard finds exactly the recorded lessons that mention it, in
  any case, in the tool, the broken command, the reason or the lesson: every one of them when at
  most the limit match, and never one that does not.
\<close>

theorem lesson_search_exact:
  assumes "ms_is_open m" and "like_plain query" and "0 \<le> max_results"
  shows "length (search_lessons m query max_results) =
      min (nat max_results) (length (filter (mentions query) (ms_command_lessons m)))
    \<and> (\<forall>e \<in> set (search_lessons m query max_results). e \<in> set (ms_command_lessons m) \<and> mentions query e)
    \<and> (length (filter (mentions query) (ms_command_lessons m)) \<le> nat max_results \<longrightarrow>
        set (search_lessons m query max_results) = {e \<in> set (ms_command_lessons m). mentions query e})"
proof -
  have "lesson_matches (bound_text (''%'' @ to_lower_ascii query @ ''%'')) = mentions query"
    using lesson_matches_mentions [OF assms(2)] by (intro ext)
  then have r: "search_lessons m query max_results =
      take (nat max_results) (sort_desc cl_created_at (filter (mentions query) (ms_command_lessons m)))"
    using assms(1,3) by (simp add: search_lessons_def Let_def del: append.simps)
  have "set (sort_desc k xs) = set xs" "length (sort_desc k xs) = length xs" for k and xs :: "command_lesson list"
    by (simp_all add: sort_desc_def)
  then show ?thesis unfolding r by (auto dest: in_set_takeD)
qed

theorem lesson_search_exact_witness:
  "\<exists>m. length (search_lessons m ''QUOTE'' 5) = 1"
proof -
  define e where "e = \<lparr>cl_id = 1, cl_tool = ''run_ffmpeg'', cl_broken = ''x'', cl_failure_reason = [], cl_working = ''y'',
    cl_lesson = ''Quote less'', cl_created_at = []\<rparr>"
  define m where "m = closed_store\<lparr>ms_is_open := True, ms_command_lessons := [e]\<rparr>"
  have "mentions ''QUOTE'' e" unfolding e_def by code_simp
  then have "filter (mentions ''QUOTE'') (ms_command_lessons m) = [e]" by (simp add: m_def)
  moreover have "ms_is_open m" by (simp add: m_def)
  moreover have "like_plain ''QUOTE''" by code_simp
  ultimately have "length (search_lessons m ''QUOTE'' 5) = min (nat 5) (length [e])"
    using lesson_search_exact [of m "''QUOTE''" 5, THEN conjunct1] by (simp only:)
  then have "length (search_lessons m ''QUOTE'' 5) = 1" by simp
  then show ?thesis by blast
qed

text \<open>
  An underscore in the text of a search is not searched for: it matches any character, so a
  search for one finds every lesson, whether or not it holds an underscore.
\<close>

theorem underscore_search_finds_all:
  assumes "ms_is_open m" and "\<forall>e \<in> set (ms_command_lessons m). cl_tool e \<noteq> []" and "max_results < 0"
  shows "set (search_lessons m ''_'' max_results) = set (ms_command_lessons m)"
proof -
  have "sql_like ''%_%'' t" if t: "t \<noteq> []" for t
  proof -
    obtain c s where "t = c # s" using t by (cases t) auto
    moreover have "sql_like ''%'' s" unfolding sql_like_percent by (rule exI [of _ s], rule exI [of _ "[]"]) simp
    ultimately show ?thesis by (intro iffD2 [OF sql_like_percent] exI [of _ "[]"] exI [of _ t]) simp
  qed
  then have "lesson_matches ''%_%'' e" if "cl_tool e \<noteq> []" for e
    using that by (simp add: lesson_matches_def to_lower_ascii_def)
  then have "filter (lesson_matches ''%_%'') (ms_command_lessons m) = ms_command_lessons m"
    using assms(2) by (simp add: filter_id_conv)
  moreover have "bound_text (''%'' @ to_lower_ascii ''_'' @ ''%'') = ''%_%''" by code_simp
  ultimately show ?thesis using assms(1,3) by (simp add: search_lessons_def sort_desc_def Let_def)
qed

theorem underscore_search_finds_all_witness:
  "set (search_lessons (closed_store\<lparr>ms_is_open := True, ms_command_lessons :=
     [\<lparr>cl_id = 1, cl_tool = ''ffmpeg'', cl_broken = ''x'', cl_failure_reason = [], cl_working = ''y'', cl_lesson = ''z'', cl_created_at = []\<rparr>]\<rparr>) ''_'' (- 1))
   = {\<lparr>cl_id = 1, cl_tool = ''ffmpeg'', cl_broken = ''x'', cl_failure_reason = [], cl_working = ''y'', cl_lesson = ''z'', cl_created_at = []\<rparr>}"
  by (subst underscore_search_finds_all) simp_all

section \<open>What a location keeps\<close>

text \<open>
  Remembering a location again, whatever the case of its name, replaces its path in place: the
  names stay distinct up to case, its creation time is kept, and every other location is untouched.
\<close>

theorem remember_location_upserts:
  assumes "ms_is_open m" and "distinct (map (\<lambda>l. to_lower_ascii (kl_name l)) (ms_known_locations m))"
    and "remember_location True now name path m = (ok, m')"
  shows "ok
    \<and> distinct (map (\<lambda>l. to_lower_ascii (kl_name l)) (ms_known_locations m'))
    \<and> map kl_resolved_path (filter (same_name name) (ms_known_locations m')) = [bound_text path]
    \<and> filter (\<lambda>l. \<not> same_name name l) (ms_known_locations m') = filter (\<lambda>l. \<not> same_name name l) (ms_known_locations m)
    \<and> (\<forall>l \<in> set (ms_known_locations m). same_name name l \<longrightarrow>
        map kl_created_at (filter (same_name name) (ms_known_locations m')) = [kl_created_at l])"
proof -
  let ?key = "\<lambda>l. to_lower_ascii (kl_name l)"
  let ?f = "\<lambda>l. l\<lparr>kl_resolved_path := bound_text path, kl_updated_at := now\<rparr>"
  have k: "same_name name (?f l) = same_name name l" "?key (?f l) = ?key l" for l by (simp_all add: same_name_def)
  have u: "filter (same_name name) (update_first (same_name name) ?f ls) =
        (case filter (same_name name) ls of [] \<Rightarrow> [] | l # r \<Rightarrow> ?f l # r)"
      "filter (\<lambda>l. \<not> same_name name l) (update_first (same_name name) ?f ls) = filter (\<lambda>l. \<not> same_name name l) ls" for ls
    by (induction ls) (auto simp: k)
  have one: "filter (same_name name) ls = [l]"
    if "distinct (map ?key ls)" "l \<in> set ls" "same_name name l" for ls l
    using that by (induction ls) (auto simp: same_name_def filter_empty_conv image_iff)
  show ?thesis
  proof (cases "\<exists>l \<in> set (ms_known_locations m). same_name name l")
    case True
    then obtain l where l: "l \<in> set (ms_known_locations m)" "same_name name l" by blast
    have m': "ok" "ms_known_locations m' = update_first (same_name name) ?f (ms_known_locations m)"
      using assms(1,3) True by (auto simp: remember_location_def)
    have "l' = l" if "l' \<in> set (ms_known_locations m)" "same_name name l'" for l'
      using one [OF assms(2) l] one [OF assms(2) that] by simp
    moreover have "map ?key (ms_known_locations m') = map ?key (ms_known_locations m)"
      unfolding m' by (rule map_update_first) (simp add: k)
    ultimately show ?thesis using m' assms(2) one [OF assms(2) l] by (auto simp: u)
  next
    case False
    have m': "ok" "ms_known_locations m' = ms_known_locations m @ [\<lparr>kl_name = bound_text name,
        kl_resolved_path = bound_text path, kl_created_at = now, kl_updated_at = now\<rparr>]"
      using assms(1,3) False by (auto simp: remember_location_def)
    have b: "bound_text (bound_text name) = bound_text name" by (simp add: bound_text_def)
    have "filter (same_name name) (ms_known_locations m) = []" using False by (simp add: filter_empty_conv)
    moreover have "to_lower_ascii (bound_text name) \<notin> ?key ` set (ms_known_locations m)"
      using False by (auto simp: same_name_def)
    ultimately show ?thesis using m' assms(2) False by (auto simp: same_name_def)
  qed
qed

theorem remember_location_upserts_witness:
  "\<exists>m'. remember_location True ''now'' ''DOCS'' ''/b'' (closed_store\<lparr>ms_is_open := True, ms_known_locations :=
      [\<lparr>kl_name = ''docs'', kl_resolved_path = ''/a'', kl_created_at = ''t'', kl_updated_at = ''t''\<rparr>]\<rparr>) = (True, m')
    \<and> map kl_resolved_path (filter (same_name ''DOCS'') (ms_known_locations m')) = [''/b'']"
proof -
  define m where "m = closed_store\<lparr>ms_is_open := True, ms_known_locations :=
      [\<lparr>kl_name = ''docs'', kl_resolved_path = ''/a'', kl_created_at = ''t'', kl_updated_at = ''t''\<rparr>]\<rparr>"
  obtain ok m' where r: "remember_location True ''now'' ''DOCS'' ''/b'' m = (ok, m')" by (meson surj_pair)
  have "bound_text ''/b'' = ''/b''" by code_simp
  with remember_location_upserts [OF _ _ r] have "ok" "map kl_resolved_path (filter (same_name ''DOCS'') (ms_known_locations m')) = [''/b'']"
    by (simp_all add: m_def)
  with r show ?thesis unfolding m_def by auto
qed

end
