(* ===== verification/Settings_Store.thy ===== *)
theory Settings_Store imports Complex_Main Os_Interface begin

text \<open>
  \<open>cli/settings_store.cpp\<close>: the settings file, a flat JSON object in which the bearer token is
  encrypted and written in hexadecimal where the system has DPAPI. Bytes are characters.
\<close>

section \<open>Hexadecimal\<close>

definition hex_digit :: "nat \<Rightarrow> char" where
  "hex_digit n = (if n < 10 then char_of (48 + n) else char_of (87 + n))"

definition hex_encode :: "string \<Rightarrow> string" where
  "hex_encode data = concat (map (\<lambda>c. [hex_digit (of_char c div 16 mod 16), hex_digit (of_char c mod 16)]) data)"

definition nibble :: "char \<Rightarrow> nat option" where
  "nibble c =
     (let n = (of_char c :: nat)
      in if 48 \<le> n \<and> n \<le> 57 then Some (n - 48)
         else if 97 \<le> n \<and> n \<le> 102 then Some (n - 97 + 10)
         else if 65 \<le> n \<and> n \<le> 70 then Some (n - 65 + 10)
         else None)"

fun hex_pairs :: "string \<Rightarrow> string option" where
  "hex_pairs [] = Some []"
| "hex_pairs [c] = None"
| "hex_pairs (a # b # s) =
     (case (nibble a, nibble b) of
        (Some high, Some low) \<Rightarrow> map_option ((#) (char_of (16 * high + low))) (hex_pairs s)
      | _ \<Rightarrow> None)"

definition hex_decode :: "string \<Rightarrow> string option" where
  "hex_decode hex = (if hex = [] \<or> odd (length hex) then None else hex_pairs hex)"

section \<open>The settings\<close>

record host_settings =
  hs_port :: int
  hs_enable_ai :: bool
  hs_enable_hardware_scan :: bool
  hs_ollama_url :: string
  hs_ollama_model :: string
  hs_ollama_num_ctx :: int
  hs_api_token :: string

definition default_settings :: host_settings where
  "default_settings = \<lparr>hs_port = 30080, hs_enable_ai = True, hs_enable_hardware_scan = False,
     hs_ollama_url = ''http://127.0.0.1:11434'', hs_ollama_model = ''llama3.2'', hs_ollama_num_ctx = 32768,
     hs_api_token = []\<rparr>"

text \<open>The two DPAPI wrappers. \<open>assign\<close> of an empty buffer gives the empty token.\<close>

definition dpapi_protect :: "'w os \<Rightarrow> string \<Rightarrow> 'w \<Rightarrow> string option \<times> 'w" where
  "dpapi_protect os plaintext w =
     (case os_protect os plaintext w of (r, w1) \<Rightarrow> (map_option hex_encode r, w1))"

definition dpapi_unprotect :: "'w os \<Rightarrow> string \<Rightarrow> 'w \<Rightarrow> string option" where
  "dpapi_unprotect os hex w =
     (case hex_decode hex of
        None \<Rightarrow> None
      | Some bytes \<Rightarrow> if bytes = [] then None else os_unprotect os bytes w)"

definition serialize_secret_field :: "'w os \<Rightarrow> string \<Rightarrow> string \<Rightarrow> 'w \<Rightarrow> string \<times> 'w" where
  "serialize_secret_field os field_name v w =
     (if v = [] then (json_string_field field_name [], w)
      else if os_windows os then
        (case dpapi_protect os v w of
           (Some encrypted_hex, w1) \<Rightarrow> (json_string_field (field_name @ ''_dpapi_hex'') encrypted_hex, w1)
         | (None, w1) \<Rightarrow> (json_string_field field_name v, w1))
      else (json_string_field field_name v, w))"

definition decrypt_secret_field :: "'w os \<Rightarrow> string \<Rightarrow> string \<Rightarrow> 'w \<Rightarrow> string" where
  "decrypt_secret_field os json field_name w =
     (let encrypted_hex = extract_json_string_field json (field_name @ ''_dpapi_hex'') 0
      in if encrypted_hex \<noteq> [] then
           (if os_windows os then
              (case dpapi_unprotect os encrypted_hex w of Some plaintext \<Rightarrow> plaintext | None \<Rightarrow> [])
            else [])
         else extract_json_string_field json field_name 0)"

text \<open>
  A missing or empty file leaves the settings alone (\<open>False\<close>); an integer outside 64 bits throws.
  The narrowing to \<open>int32_t\<close> wraps.
\<close>

definition load_settings :: "'w os \<Rightarrow> string \<Rightarrow> host_settings \<Rightarrow> 'w \<Rightarrow> cpp_exception + bool \<times> host_settings" where
  "load_settings os path out w =
     (case fs_read os path w of
        None \<Rightarrow> Inr (False, out)
      | Some json \<Rightarrow>
          if json = [] then Inr (False, out)
          else
            (case extract_json_int_field json ''port'' 0 of
               Inl e \<Rightarrow> Inl e
             | Inr port \<Rightarrow>
                 (case extract_json_int_field json ''ollama_num_ctx'' 0 of
                    Inl e \<Rightarrow> Inl e
                  | Inr num_ctx \<Rightarrow>
                      (let url = extract_json_string_field json ''ollama_url'' 0;
                           model = extract_json_string_field json ''ollama_model'' 0
                       in Inr (True,
                         \<lparr>hs_port = (case port of None \<Rightarrow> hs_port out | Some n \<Rightarrow> wrap32 n),
                          hs_enable_ai = (case extract_json_bool_field json ''enable_ai'' 0 of
                            None \<Rightarrow> hs_enable_ai out | Some b \<Rightarrow> b),
                          hs_enable_hardware_scan = (case extract_json_bool_field json ''enable_hardware_scan'' 0 of
                            None \<Rightarrow> hs_enable_hardware_scan out | Some b \<Rightarrow> b),
                          hs_ollama_url = (if url \<noteq> [] then url else hs_ollama_url out),
                          hs_ollama_model = (if model \<noteq> [] then model else hs_ollama_model out),
                          hs_ollama_num_ctx = (case num_ctx of None \<Rightarrow> hs_ollama_num_ctx out | Some n \<Rightarrow> wrap32 n),
                          hs_api_token = decrypt_secret_field os json ''api_token'' w\<rparr>)))))"

definition settings_json :: "host_settings \<Rightarrow> string \<Rightarrow> string" where
  "settings_json settings secret =
     [lbrace]
     @ needle ''port'' @ to_string (hs_port settings) @ [comma]
     @ json_bool_field ''enable_ai'' (hs_enable_ai settings) @ [comma]
     @ json_bool_field ''enable_hardware_scan'' (hs_enable_hardware_scan settings) @ [comma]
     @ json_string_field ''ollama_url'' (hs_ollama_url settings) @ [comma]
     @ json_string_field ''ollama_model'' (hs_ollama_model settings) @ [comma]
     @ needle ''ollama_num_ctx'' @ to_string (hs_ollama_num_ctx settings) @ [comma]
     @ secret
     @ [rbrace]"

text \<open>Whether the bytes reached the file is not checked: only a file that cannot be opened is a failure.\<close>

definition save_settings :: "'w os \<Rightarrow> string \<Rightarrow> host_settings \<Rightarrow> 'w \<Rightarrow> bool \<times> 'w" where
  "save_settings os path settings w =
     (case serialize_secret_field os ''api_token'' (hs_api_token settings) w of
        (secret, w1) \<Rightarrow>
          (case fs_write os path (settings_json settings secret) False w1 of
             (outcome, w2) \<Rightarrow> (outcome \<noteq> Not_Opened, w2)))"

section \<open>Hexadecimal is read back\<close>

lemma nibble_hex_digit: "n < 16 \<Longrightarrow> nibble (hex_digit n) = Some n"
  by (simp add: nibble_def hex_digit_def Let_def)

lemma hex_pairs_encode: "hex_pairs (hex_encode data) = Some data"
proof (induction data)
  case Nil
  then show ?case by (simp add: hex_encode_def)
next
  case (Cons c data)
  have n: "(of_char c :: nat) < 256" by simp
  then have "(of_char c :: nat) div 16 < 16" by (intro less_mult_imp_div_less) simp
  then have "(of_char c div 16 mod 16 :: nat) = of_char c div 16" by (rule mod_less)
  with n have "nibble (hex_digit (of_char c div 16 mod 16)) = Some (of_char c div 16)"
      "nibble (hex_digit (of_char c mod 16)) = Some (of_char c mod 16)"
    by (simp_all add: nibble_hex_digit)
  moreover have "of_char c div 16 * 16 + of_char c mod 16 = (of_char c :: nat)" by simp
  ultimately have "hex_pairs (hex_encode [c] @ s) = map_option ((#) c) (hex_pairs s)" for s
    by (simp add: hex_encode_def)
  with Cons show ?case by (simp add: hex_encode_def)
qed

lemma length_hex_encode: "length (hex_encode data) = 2 * length data"
  by (induction data) (simp_all add: hex_encode_def)

lemma hex_decode_encode: "data \<noteq> [] \<Longrightarrow> hex_decode (hex_encode data) = Some data"
  using length_hex_encode [of data] by (auto simp: hex_decode_def hex_pairs_encode)

lemma hex_encode_Nil_iff: "hex_encode data = [] \<longleftrightarrow> data = []"
  by (cases data) (simp_all add: hex_encode_def)

section \<open>Settings are read back\<close>

definition settings_fields :: "host_settings \<Rightarrow> string \<Rightarrow> string \<Rightarrow> (string \<times> jval) list" where
  "settings_fields s k v =
     [(''port'', JInt (hs_port s)), (''enable_ai'', JBool (hs_enable_ai s)),
      (''enable_hardware_scan'', JBool (hs_enable_hardware_scan s)), (''ollama_url'', JStr (hs_ollama_url s)),
      (''ollama_model'', JStr (hs_ollama_model s)), (''ollama_num_ctx'', JInt (hs_ollama_num_ctx s)), (k, JStr v)]"

lemma settings_json_object: "settings_json s (json_string_field k v) = render_object (settings_fields s k v)"
  by (simp add: settings_json_def settings_fields_def render_object_def render_field_def needle_def
      json_string_field_def json_bool_field_def)

lemma plain_settings_fields: "plain_key k \<Longrightarrow> plain_keys (settings_fields s k v)"
  by (simp add: settings_fields_def plain_keys_def plain_key_def plain_char_def)

lemma load_settings_object:
  assumes "fs_read os path w = Some (render_object (settings_fields s k v))" and "plain_key k"
    and "in_i32 (hs_port s)" and "in_i32 (hs_ollama_num_ctx s)"
    and "hs_ollama_url s \<noteq> []" and "hs_ollama_model s \<noteq> []" and "k \<notin> set [''port'', ''ollama_num_ctx'']"
    and "decrypt_secret_field os (render_object (settings_fields s k v)) ''api_token'' w = hs_api_token s"
  shows "load_settings os path out w = Inr (True, s)"
proof -
  let ?fs = "settings_fields s k v"
  have i64: "in_i64 (hs_port s)" "in_i64 (hs_ollama_num_ctx s)" using assms(3,4) by (simp_all add: in_i64_def in_i32_def)
  have pk: "plain_keys ?fs" by (rule plain_settings_fields [OF assms(2)])
  have k: "plain_key ''port''" "plain_key ''enable_ai''" "plain_key ''enable_hardware_scan''" "plain_key ''ollama_url''"
      "plain_key ''ollama_model''" "plain_key ''ollama_num_ctx''"
    by (simp_all add: plain_key_def plain_char_def)
  have m: "map_of ?fs ''port'' = Some (JInt (hs_port s))" "map_of ?fs ''ollama_num_ctx'' = Some (JInt (hs_ollama_num_ctx s))"
      "flat_bool ?fs ''enable_ai'' = Some (hs_enable_ai s)"
      "flat_bool ?fs ''enable_hardware_scan'' = Some (hs_enable_hardware_scan s)"
      "flat_string ?fs ''ollama_url'' = hs_ollama_url s" "flat_string ?fs ''ollama_model'' = hs_ollama_model s"
    by (simp_all add: settings_fields_def flat_bool_def flat_string_def)
  note read = extract_flat_int [OF k(1) pk m(1)] extract_flat_int [OF k(6) pk m(2)]
    extract_flat_bool [OF k(2) pk] extract_flat_bool [OF k(3) pk]
    extract_flat_string [OF k(4) pk] extract_flat_string [OF k(5) pk]
  have "render_object ?fs \<noteq> []" by (simp add: render_object_def)
  then show ?thesis
    using assms(1,5,6,8) wrap32_id [OF assms(3)] wrap32_id [OF assms(4)] by (simp add: load_settings_def read m i64)
qed

text \<open>What the secret field of a saved file decrypts to.\<close>

lemma secret_field_read:
  assumes "serialize_secret_field os ''api_token'' (hs_api_token s) w = (secret, w1)"
    and "\<forall>b w1. os_protect os (hs_api_token s) w = (Some b, w1) \<longrightarrow> b \<noteq> [] \<and> os_unprotect os b w2 = Some (hs_api_token s)"
  shows "\<exists>k v. secret = json_string_field k v \<and> plain_key k \<and> k \<notin> set [''port'', ''ollama_num_ctx'']
    \<and> decrypt_secret_field os (render_object (settings_fields s k v)) ''api_token'' w2 = hs_api_token s"
proof -
  let ?plain = "''api_token''" and ?hex = "''api_token_dpapi_hex''"
  have k: "plain_key ?plain" "plain_key ?hex" by (simp_all add: plain_key_def plain_char_def)
  have read: "extract_json_string_field (render_object (settings_fields s j v)) key 0 = flat_string (settings_fields s j v) key"
    if "plain_key j" "plain_key key" for j key v
    using that by (simp add: extract_flat_string plain_settings_fields)
  have flat: "flat_string (settings_fields s ?plain v) ?hex = []" "flat_string (settings_fields s ?plain v) ?plain = v"
      "flat_string (settings_fields s ?hex v) ?hex = v" for v
    by (simp_all add: flat_string_def settings_fields_def)
  have dec: "decrypt_secret_field os (render_object (settings_fields s ?plain v)) ?plain w2 = v" for v
    by (simp add: decrypt_secret_field_def read k flat)
  show ?thesis
  proof (cases "\<exists>b w1. hs_api_token s \<noteq> [] \<and> os_windows os \<and> os_protect os (hs_api_token s) w = (Some b, w1)")
    case True
    then obtain b u where t: "hs_api_token s \<noteq> []" "os_windows os" "os_protect os (hs_api_token s) w = (Some b, u)" by blast
    then have b: "b \<noteq> []" "os_unprotect os b w2 = Some (hs_api_token s)" using assms(2) by blast+
    then have "decrypt_secret_field os (render_object (settings_fields s ?hex (hex_encode b))) ?plain w2 = hs_api_token s"
      using t(2) by (simp add: decrypt_secret_field_def read k flat hex_encode_Nil_iff dpapi_unprotect_def hex_decode_encode)
    moreover have "secret = json_string_field ?hex (hex_encode b)"
      using assms(1) t by (simp add: serialize_secret_field_def dpapi_protect_def)
    ultimately show ?thesis using k by (intro exI [of _ ?hex] exI [of _ "hex_encode b"]) simp
  next
    case False
    then have "secret = json_string_field ?plain (hs_api_token s)"
      using assms(1) by (auto simp: serialize_secret_field_def dpapi_protect_def split: if_splits prod.splits option.splits)
    with dec k show ?thesis by (intro exI [of _ ?plain] exI [of _ "hs_api_token s"]) simp
  qed
qed

lemma saved_settings_load:
  assumes "serialize_secret_field os ''api_token'' (hs_api_token s) w = (secret, w1)"
    and "fs_read os path w2 = Some (settings_json s secret)"
    and "\<forall>b w1. os_protect os (hs_api_token s) w = (Some b, w1) \<longrightarrow> b \<noteq> [] \<and> os_unprotect os b w2 = Some (hs_api_token s)"
    and "in_i32 (hs_port s)" and "in_i32 (hs_ollama_num_ctx s)" and "hs_ollama_url s \<noteq> []" and "hs_ollama_model s \<noteq> []"
  shows "load_settings os path out w2 = Inr (True, s)"
proof -
  obtain k v where kv: "secret = json_string_field k v" "plain_key k" "k \<notin> set [''port'', ''ollama_num_ctx'']"
      "decrypt_secret_field os (render_object (settings_fields s k v)) ''api_token'' w2 = hs_api_token s"
    using secret_field_read [OF assms(1,3)] by blast
  show ?thesis
    by (rule load_settings_object [OF _ kv(2) assms(4-7) kv(3,4)]) (simp add: assms(2) kv(1) settings_json_object)
qed

text \<open>
  Settings that were saved are loaded back field by field, the token included, when the file
  holds what was written and DPAPI decrypts what it encrypted; a token that cannot be encrypted, or
  a system without DPAPI, takes the plain text through instead.
\<close>

theorem settings_roundtrip:
  assumes "save_settings os path s w = (True, w2)"
    and "\<And>json w1 w2 outcome. fs_write os path json False w1 = (outcome, w2) \<Longrightarrow> outcome \<noteq> Not_Opened \<Longrightarrow> fs_read os path w2 = Some json"
    and "\<And>b w1. os_protect os (hs_api_token s) w = (Some b, w1) \<Longrightarrow> b \<noteq> [] \<and> os_unprotect os b w2 = Some (hs_api_token s)"
    and "in_i32 (hs_port s)" and "in_i32 (hs_ollama_num_ctx s)" and "hs_ollama_url s \<noteq> []" and "hs_ollama_model s \<noteq> []"
  shows "load_settings os path out w2 = Inr (True, s)"
proof -
  obtain secret w1 where s: "serialize_secret_field os ''api_token'' (hs_api_token s) w = (secret, w1)" by (meson surj_pair)
  obtain outcome where o: "fs_write os path (settings_json s secret) False w1 = (outcome, w2)" "outcome \<noteq> Not_Opened"
    using assms(1) s by (auto simp: save_settings_def split: prod.splits)
  show ?thesis using saved_settings_load [OF s assms(2) [OF o] _ assms(4-7)] assms(3) by blast
qed

theorem settings_roundtrip_witness:
  "\<exists>w2. save_settings (idle_os\<lparr>os_windows := True, os_protect := (\<lambda>p w. (Some (rev p), w)), os_unprotect := (\<lambda>p w. Some (rev p)),
        fs_read := (\<lambda>p w. Some w), fs_write := (\<lambda>p c a w. (Written, c))\<rparr>) ''s.json''
        (default_settings\<lparr>hs_api_token := ''secret''\<rparr>) [] = (True, w2)
    \<and> load_settings (idle_os\<lparr>os_windows := True, os_protect := (\<lambda>p w. (Some (rev p), w)), os_unprotect := (\<lambda>p w. Some (rev p)),
        fs_read := (\<lambda>p w. Some w), fs_write := (\<lambda>p c a w. (Written, c))\<rparr>) ''s.json'' default_settings w2
      = Inr (True, default_settings\<lparr>hs_api_token := ''secret''\<rparr>)"
proof -
  let ?os = "idle_os\<lparr>os_windows := True, os_protect := (\<lambda>p w. (Some (rev p), w)), os_unprotect := (\<lambda>p w. Some (rev p)),
        fs_read := (\<lambda>p w. Some w), fs_write := (\<lambda>p c a w. (Written, c))\<rparr>"
  let ?s = "default_settings\<lparr>hs_api_token := ''secret''\<rparr>"
  obtain ok w2 where w: "save_settings ?os ''s.json'' ?s [] = (ok, w2)" by (meson surj_pair)
  then have "ok" by (auto simp: save_settings_def split: prod.splits)
  with w have s: "save_settings ?os ''s.json'' ?s [] = (True, w2)" by simp
  have "load_settings ?os ''s.json'' default_settings w2 = Inr (True, ?s)"
    by (rule settings_roundtrip [OF s]) (auto simp: default_settings_def in_i32_def)
  with s show ?thesis by blast
qed

end
