(* ===== verification/Host_Match.thy ===== *)
theory Host_Match imports Complex_Main Json_Array "HOL-Library.Multiset" begin

text \<open>
  The name-matching helpers at the top of \<open>cli/host.cpp\<close>: installed applications, known
  Windows locations and the model names a backend lists. Matching ignores case and everything
  but ASCII letters and digits.
\<close>

section \<open>Normalised names\<close>

definition normalize_for_match :: "string \<Rightarrow> string" where
  "normalize_for_match v = map tolower (filter is_alnum v)"

fun split_words_loop :: "string \<Rightarrow> string \<Rightarrow> string list" where
  "split_words_loop current [] = (if current = [] then [] else [current])"
| "split_words_loop current (c # s) =
     (if is_alnum c then split_words_loop (current @ [tolower c]) s
      else if current \<noteq> [] then current # split_words_loop [] s
      else split_words_loop [] s)"

definition split_words_for_match :: "string \<Rightarrow> string list" where
  "split_words_for_match v = split_words_loop [] v"

definition words_all_present :: "string list \<Rightarrow> string list \<Rightarrow> bool" where
  "words_all_present query_words alias_words \<longleftrightarrow>
     \<not> length query_words < 2 \<and> list_all (\<lambda>q. list_ex (\<lambda>a. q = a) alias_words) query_words"

definition retriable_tools :: "string list" where
  "retriable_tools = [''run_command'', ''run_ffmpeg'', ''read_file'', ''write_file'', ''copy_file'', ''move_path'',
     ''delete_file'', ''create_directory'', ''open_application'']"

definition is_retriable_tool :: "string \<Rightarrow> bool" where
  "is_retriable_tool tool_name \<longleftrightarrow> list_ex (\<lambda>t. tool_name = t) retriable_tools"

section \<open>Installed applications\<close>

record installed_app =
  ia_name :: string
  ia_path :: string

text \<open>A substring match in either direction.\<close>

definition overlaps :: "string \<Rightarrow> string \<Rightarrow> bool" where
  "overlaps a b \<longleftrightarrow> contains a b \<or> contains b a"

definition find_installed_app_match :: "installed_app list \<Rightarrow> string \<Rightarrow> string" where
  "find_installed_app_match apps query =
     (if query = [] then []
      else
        (let q = normalize_for_match query
         in if q = [] then []
            else
              (case find (\<lambda>a. normalize_for_match (ia_name a) = q) apps of
                 Some a \<Rightarrow> ia_path a
               | None \<Rightarrow>
                   (case find (\<lambda>a. overlaps (normalize_for_match (ia_name a)) q) apps of
                      Some a \<Rightarrow> ia_path a
                    | None \<Rightarrow> []))))"

fun collect_loop :: "string \<Rightarrow> nat \<Rightarrow> installed_app list \<Rightarrow> installed_app list \<Rightarrow> installed_app list" where
  "collect_loop q max_results matches [] = matches"
| "collect_loop q max_results matches (a # apps) =
     (if overlaps (normalize_for_match (ia_name a)) q then
        (if length (matches @ [a]) \<ge> max_results then matches @ [a]
         else collect_loop q max_results (matches @ [a]) apps)
      else collect_loop q max_results matches apps)"

definition collect_installed_app_matches :: "installed_app list \<Rightarrow> string \<Rightarrow> nat \<Rightarrow> installed_app list" where
  "collect_installed_app_matches apps query max_results =
     (let q = normalize_for_match query
      in if q = [] then []
         else
           (case find (\<lambda>a. normalize_for_match (ia_name a) = q) apps of
              Some a \<Rightarrow> [a]
            | None \<Rightarrow> collect_loop q max_results [] apps))"

section \<open>Windows locations\<close>

record windows_location =
  wl_alias :: string
  wl_display_name :: string
  wl_path_or_name :: string
  wl_args :: string

record well_known_target =
  wk_display_name :: string
  wk_path_or_name :: string
  wk_args :: string

definition target_of :: "windows_location \<Rightarrow> well_known_target" where
  "target_of t = \<lparr>wk_display_name = wl_display_name t, wk_path_or_name = wl_path_or_name t, wk_args = wl_args t\<rparr>"

definition find_known_windows_target :: "string \<Rightarrow> windows_location list \<Rightarrow> well_known_target option" where
  "find_known_windows_target query targets =
     (let q = normalize_for_match query
      in if q = [] then None
         else
           (case find (\<lambda>t. normalize_for_match (wl_alias t) = q \<or> overlaps (normalize_for_match (wl_alias t)) q) targets of
              Some t \<Rightarrow> Some (target_of t)
            | None \<Rightarrow>
                map_option target_of
                  (find (\<lambda>t. words_all_present (split_words_for_match query) (split_words_for_match (wl_alias t))) targets)))"

fun distinct_names :: "string list \<Rightarrow> windows_location list \<Rightarrow> string list" where
  "distinct_names seen [] = []"
| "distinct_names seen (t # ts) =
     (if list_ex (\<lambda>e. e = wl_display_name t) seen then distinct_names seen ts
      else wl_display_name t # distinct_names (seen @ [wl_display_name t]) ts)"

definition quoted :: "string \<Rightarrow> string" where
  "quoted s = [quot] @ escape_json_string s @ [quot]"

definition list_well_known_windows_targets_json :: "windows_location list \<Rightarrow> string" where
  "list_well_known_windows_targets_json targets =
     [lbrace] @ json_bool_field ''ok'' True @ [comma] @ needle ''locations'' @ ''[''
     @ join_comma (map quoted (distinct_names [] targets)) @ '']}''"

section \<open>Model names\<close>

function model_names_loop :: "string \<Rightarrow> nat \<Rightarrow> string list \<Rightarrow> string list" where
  "model_names_loop tags cursor names =
     (if cursor < length tags then
        (case find_from (needle ''name'') tags cursor of
           None \<Rightarrow> names
         | Some name_key \<Rightarrow>
             (let name = extract_json_string_field tags ''name'' name_key
              in if name = [] then names
                 else model_names_loop tags (name_key + 6)
                        (if list_ex (\<lambda>e. e = name) names then names else names @ [name])))
      else names)"
  by pat_completeness auto
termination
proof (relation "measure (\<lambda>(tags, cursor, names). length tags - cursor)", goal_cases)
  case (2 tags cursor names k name)
  then have "cursor \<le> k" by (auto simp: find_from_def split: if_splits)
  with 2 show ?case by auto
qed simp

declare model_names_loop.simps [simp del]

definition parse_ollama_model_names :: "string \<Rightarrow> string list" where
  "parse_ollama_model_names tags_json =
     (case find_str (needle ''models'') tags_json of
        None \<Rightarrow> []
      | Some i \<Rightarrow> model_names_loop tags_json i [])"

section \<open>What matching finds\<close>

lemma find_SomeD: "find P xs = Some x \<Longrightarrow> x \<in> set xs \<and> P x"
  by (induction xs) (auto split: if_splits)

lemma find_NoneD: "find P xs = None \<Longrightarrow> x \<in> set xs \<Longrightarrow> \<not> P x"
  by (induction xs) (auto split: if_splits)

text \<open>
  A lookup answers only paths of installed applications whose name equals the query, or, when
  none does, overlaps it, up to case, spacing and punctuation; an application whose name equals
  the query is never passed over for one that merely overlaps.
\<close>

theorem app_match_sound:
  assumes "find_installed_app_match apps query = path" and "path \<noteq> []"
  shows "\<exists>a \<in> set apps. ia_path a = path \<and>
      (if \<exists>b \<in> set apps. normalize_for_match (ia_name b) = normalize_for_match query
       then normalize_for_match (ia_name a) = normalize_for_match query
       else overlaps (normalize_for_match (ia_name a)) (normalize_for_match query))"
proof -
  let ?q = "normalize_for_match query"
  have q: "query \<noteq> []" "?q \<noteq> []" using assms by (auto simp: find_installed_app_match_def Let_def split: if_splits)
  show ?thesis
  proof (cases "find (\<lambda>a. normalize_for_match (ia_name a) = ?q) apps")
    case (Some a)
    with q assms have "ia_path a = path" by (simp add: find_installed_app_match_def)
    with find_SomeD [OF Some] show ?thesis by auto
  next
    case None
    with q assms obtain a where a: "find (\<lambda>a. overlaps (normalize_for_match (ia_name a)) ?q) apps = Some a"
        and p: "ia_path a = path"
      by (auto simp: find_installed_app_match_def split: option.splits)
    have "\<not> (\<exists>b \<in> set apps. normalize_for_match (ia_name b) = ?q)"
      using find_NoneD [OF None] by blast
    with find_SomeD [OF a] p show ?thesis by auto
  qed
qed

theorem app_match_sound_witness:
  "\<exists>a \<in> set [\<lparr>ia_name = ''A b'', ia_path = ''c''\<rparr>, \<lparr>ia_name = ''N-p'', ia_path = ''n''\<rparr>]. ia_path a = ''n'' \<and>
     (if \<exists>b \<in> set [\<lparr>ia_name = ''A b'', ia_path = ''c''\<rparr>, \<lparr>ia_name = ''N-p'', ia_path = ''n''\<rparr>].
           normalize_for_match (ia_name b) = normalize_for_match ''N P''
      then normalize_for_match (ia_name a) = normalize_for_match ''N P''
      else overlaps (normalize_for_match (ia_name a)) (normalize_for_match ''N P''))"
proof (rule app_match_sound)
  show "find_installed_app_match [\<lparr>ia_name = ''A b'', ia_path = ''c''\<rparr>, \<lparr>ia_name = ''N-p'', ia_path = ''n''\<rparr>] ''N P'' = ''n''"
    by code_simp
qed simp

text \<open>
  An application whose name holds no ASCII letter or digit normalises to the empty name, which
  every name contains: it answers every query that no other application answers before it.
\<close>

theorem nameless_app_answers_every_query:
  assumes "normalize_for_match (ia_name a) = []" and "normalize_for_match query \<noteq> []"
    and "\<forall>b \<in> set apps. normalize_for_match (ia_name b) \<noteq> normalize_for_match query"
  shows "find_installed_app_match (a # apps) query = ia_path a"
proof -
  have "query \<noteq> []" using assms(2) by (auto simp: normalize_for_match_def)
  moreover have "find (\<lambda>b. normalize_for_match (ia_name b) = normalize_for_match query) apps = None"
    using assms(3) by (simp add: find_None_iff)
  moreover have "overlaps [] q" for q by (simp add: overlaps_def contains_def)
  ultimately show ?thesis using assms(1,2) by (simp add: find_installed_app_match_def)
qed

theorem nameless_app_answers_every_query_witness:
  "find_installed_app_match [\<lparr>ia_name = ''()'', ia_path = ''x''\<rparr>, \<lparr>ia_name = ''Google Chrome'', ia_path = ''c''\<rparr>] ''chrome'' = ''x''"
proof (rule nameless_app_answers_every_query [of "\<lparr>ia_name = ''()'', ia_path = ''x''\<rparr>", simplified])
  show "normalize_for_match ''()'' = []" "normalize_for_match ''chrome'' \<noteq> []" by code_simp+
  show "\<forall>b \<in> set [\<lparr>ia_name = ''Google Chrome'', ia_path = ''c''\<rparr>]. normalize_for_match (ia_name b) \<noteq> normalize_for_match ''chrome''"
    by code_simp
qed

text \<open>
  A location whose alias has the same words as the query, two or more of them in any order, is
  always found (possibly through a location listed before it).
\<close>

theorem location_found_in_any_word_order:
  assumes "t \<in> set targets" and "mset (split_words_for_match query) = mset (split_words_for_match (wl_alias t))"
    and "2 \<le> length (split_words_for_match query)"
  shows "find_known_windows_target query targets \<noteq> None"
proof -
  have "split_words_loop cur s \<noteq> [] \<Longrightarrow> cur \<noteq> [] \<or> filter is_alnum s \<noteq> []" for cur s
    by (induction cur s rule: split_words_loop.induct) auto
  moreover have "split_words_loop [] query \<noteq> []" using assms(3) by (auto simp: split_words_for_match_def)
  ultimately have "normalize_for_match query \<noteq> []" by (force simp: normalize_for_match_def)
  moreover have "words_all_present (split_words_for_match query) (split_words_for_match (wl_alias t))"
    using assms(2,3) by (auto simp: words_all_present_def list_all_iff list_ex_iff dest: mset_eq_setD)
  then have "find (\<lambda>t. words_all_present (split_words_for_match query) (split_words_for_match (wl_alias t))) targets \<noteq> None"
    using assms(1) by (auto simp: find_None_iff)
  ultimately show ?thesis by (auto simp: find_known_windows_target_def Let_def split: option.split)
qed

theorem location_found_in_any_word_order_witness:
  "find_known_windows_target ''Partition, DISK''
     [\<lparr>wl_alias = ''disk partition'', wl_display_name = ''Disk Management'', wl_path_or_name = ''diskmgmt.msc'', wl_args = []\<rparr>] \<noteq> None"
proof (rule location_found_in_any_word_order)
  let ?t = "\<lparr>wl_alias = ''disk partition'', wl_display_name = ''Disk Management'', wl_path_or_name = ''diskmgmt.msc'', wl_args = []\<rparr>"
  have s: "split_words_for_match ''Partition, DISK'' = [''partition'', ''disk'']" "split_words_for_match ''disk partition'' = [''disk'', ''partition'']"
    by code_simp+
  show "?t \<in> set [?t]" by simp
  show "mset (split_words_for_match ''Partition, DISK'') = mset (split_words_for_match (wl_alias ?t))" by (simp add: s)
  show "2 \<le> length (split_words_for_match ''Partition, DISK'')" by (simp add: s)
qed

lemma distinct_names_spec: "distinct (distinct_names seen ts) \<and> set (distinct_names seen ts) = wl_display_name ` set ts - set seen"
  by (induction seen ts rule: distinct_names.induct) (auto simp: list_ex_iff)

end
