(* ===== verification/Host_State.thy ===== *)
theory Host_State
  imports Complex_Main Json_Object Os_Interface Memory_Store Settings_Store Session Task_Queue Connector Host_Match
    Language_Runtime Response_Templates
begin

text \<open>
  The state of \<open>DroidHost\<close> (\<open>cli/host.hpp\<close>), its logs and its configuration (\<open>cli/host.cpp\<close>). The
  mutex makes every member function that locks it one step here; what the functions do between
  two locks is one step as well, since the model runs one call at a time. \<open>h_world\<close> is
  everything outside: files, processes, clipboard, network, clock.
\<close>

record host_config =
  hc_enable_ai :: bool
  hc_enable_hardware_scan :: bool
  hc_ollama_url :: string
  hc_ollama_model :: string
  hc_ollama_num_ctx :: int
  hc_settings_path :: string
  hc_system_prompt :: string

record system_info =
  si_os_name :: string
  si_os_version :: string
  si_architecture :: string
  si_hostname :: string
  si_username :: string
  si_cwd :: string
  si_desktop_path :: string
  si_home_path :: string
  si_documents_path :: string
  si_downloads_path :: string
  si_program_files_path :: string

record disk_volume =
  dv_drive :: string
  dv_total_bytes :: int
  dv_free_bytes :: int

record hardware_info =
  hw_cpu_name :: string
  hw_cpu_core_count :: int
  hw_total_ram_bytes :: int
  hw_gpus :: "string list"
  hw_disks :: "disk_volume list"

record app_log_entry =
  al_timestamp :: string
  al_channel :: string
  al_direction :: string
  al_summary :: string
  al_success :: bool

record action_record =
  ar_tool :: string
  ar_arguments_json :: string
  ar_result_json :: string

record pending_call =
  pc_active :: bool
  pc_session_id :: string
  pc_decided_call :: tool_call
  pc_actions :: "action_record list"

definition no_pending_call :: pending_call where
  "no_pending_call = \<lparr>pc_active = False, pc_session_id = [],
     pc_decided_call = \<lparr>call_id = [], call_name = [], call_arguments_json = []\<rparr>, pc_actions = []\<rparr>"

text \<open>\<open>h_log_file\<close> holds the lines written to \<open>logs/log.jsonl\<close>, \<open>None\<close> when it is not open.\<close>

record 'w host =
  h_world :: 'w
  h_config :: host_config
  h_session :: runtime_session
  h_language_ai :: language_runtime
  h_transport_set :: bool
  h_notify_log :: "string list"
  h_connectors :: connector_registry
  h_tasks :: task_queue
  h_installed_apps :: "installed_app list"
  h_windows_locations :: "windows_location list"
  h_system_info :: system_info
  h_hardware_info :: hardware_info
  h_memory_store :: memory_store
  h_current_session_id :: string
  h_app_log :: "app_log_entry list"
  h_log_file :: "string list option"
  h_agent_transcript :: "chat_message list"
  h_pending_tool_call :: pending_call
  h_ollama_reachable :: bool
  h_ollama_last_check_ms :: int
  h_ollama_last_check_error :: string
  h_watchdog_last_check_utc :: int

section \<open>Clocks and ids\<close>

text \<open>Read the world, keep what it becomes.\<close>

definition sense :: "('w \<Rightarrow> 'a \<times> 'w) \<Rightarrow> 'w host \<Rightarrow> 'a \<times> 'w host" where
  "sense f h = (case f (h_world h) of (a, w) \<Rightarrow> (a, h\<lparr>h_world := w\<rparr>))"

definition make_log_timestamp :: "'w os \<Rightarrow> 'w host \<Rightarrow> string \<times> 'w host" where
  "make_log_timestamp os = sense (os_local_time os ''%H:%M:%S'')"

definition make_full_log_timestamp :: "'w os \<Rightarrow> 'w host \<Rightarrow> string \<times> 'w host" where
  "make_full_log_timestamp os = sense (os_local_time os ''%Y-%m-%d %H:%M:%S'')"

fun hex_nat :: "nat \<Rightarrow> string" where
  "hex_nat n = (if n < 16 then [hex_digit n] else hex_nat (n div 16) @ [hex_digit (n mod 16)])"

declare hex_nat.simps [simp del]

definition generate_session_id :: "'w os \<Rightarrow> 'w host \<Rightarrow> string \<times> 'w host" where
  "generate_session_id os h =
     (case sense (os_local_time os ''%Y%m%dT%H%M%S'') h of (buffer, h1) \<Rightarrow>
        (case sense (os_stack_address os) h1 of (address_bits, h2) \<Rightarrow>
           (buffer @ ''-'' @ hex_nat (address_bits mod 65536), h2)))"

section \<open>Logs\<close>

text \<open>\<open>push_back\<close>, then drop the oldest entry when there are more than \<open>limit\<close>.\<close>

definition push_bounded :: "nat \<Rightarrow> 'a \<Rightarrow> 'a list \<Rightarrow> 'a list" where
  "push_bounded limit x xs = (let ys = xs @ [x] in if length ys > limit then tl ys else ys)"

definition on_notify :: "string \<Rightarrow> 'w host \<Rightarrow> 'w host" where
  "on_notify message h = h\<lparr>h_notify_log := push_bounded 64 message (h_notify_log h)\<rparr>"

definition log_json_line :: "string \<Rightarrow> string \<Rightarrow> string \<Rightarrow> string \<Rightarrow> bool \<Rightarrow> string \<Rightarrow> string \<Rightarrow> string" where
  "log_json_line ts channel direction summary success session_id extra_json_fields =
     [lbrace] @ json_string_field ''ts'' ts @ [comma] @ json_string_field ''channel'' channel @ [comma]
     @ json_string_field ''direction'' direction @ [comma] @ json_string_field ''summary'' summary @ [comma]
     @ json_bool_field ''success'' success
     @ (if session_id \<noteq> [] then [comma] @ json_string_field ''session_id'' session_id else [])
     @ (if extra_json_fields \<noteq> [] then [comma] @ extra_json_fields else [])
     @ [rbrace]"

definition append_app_log_full ::
    "'w os \<Rightarrow> string \<Rightarrow> string \<Rightarrow> string \<Rightarrow> bool \<Rightarrow> string \<Rightarrow> string \<Rightarrow> 'w host \<Rightarrow> 'w host" where
  "append_app_log_full os channel direction summary success session_id extra_json_fields h =
     (case make_log_timestamp os h of (timestamp, h1) \<Rightarrow>
        (let h2 = h1\<lparr>h_app_log := push_bounded 256
               \<lparr>al_timestamp = timestamp, al_channel = channel, al_direction = direction, al_summary = summary,
                al_success = success\<rparr> (h_app_log h1)\<rparr>
         in case h_log_file h2 of
              None \<Rightarrow> h2
            | Some lines \<Rightarrow>
                (case make_full_log_timestamp os h2 of (ts, h3) \<Rightarrow>
                   h3\<lparr>h_log_file := Some (lines @
                     [log_json_line ts channel direction summary success session_id extra_json_fields])\<rparr>)))"

definition append_app_log :: "'w os \<Rightarrow> string \<Rightarrow> string \<Rightarrow> string \<Rightarrow> bool \<Rightarrow> string \<Rightarrow> 'w host \<Rightarrow> 'w host" where
  "append_app_log os channel direction summary success session_id h =
     append_app_log_full os channel direction summary success session_id [] h"

definition build_notify_log_json :: "'w host \<Rightarrow> string" where
  "build_notify_log_json h =
     json_object [json_array_field ''entries'' (map (\<lambda>m. json_object [json_string_field ''message'' m]) (h_notify_log h))]"

definition app_log_entry_json :: "app_log_entry \<Rightarrow> string" where
  "app_log_entry_json e = json_object
     [json_string_field ''timestamp'' (al_timestamp e), json_string_field ''channel'' (al_channel e),
      json_string_field ''direction'' (al_direction e), json_string_field ''summary'' (al_summary e),
      json_bool_field ''success'' (al_success e)]"

definition build_app_log_json :: "'w host \<Rightarrow> string" where
  "build_app_log_json h = json_object [json_array_field ''entries'' (map app_log_entry_json (h_app_log h))]"

definition log_thread_event :: "'w os \<Rightarrow> string \<Rightarrow> string \<Rightarrow> 'w host \<Rightarrow> 'w host" where
  "log_thread_event os thread_name event h =
     append_app_log os ''thread'' thread_name event (\<not> starts_with event ''threw'') [] h"

definition log_chat_entry :: "'w os \<Rightarrow> string \<Rightarrow> string \<Rightarrow> 'w host \<Rightarrow> 'w host" where
  "log_chat_entry os role t h = append_app_log os ''chat'' role t (role \<noteq> ''error'') [] h"

section \<open>Configuration\<close>

definition model_config :: "host_config \<Rightarrow> openai_config" where
  "model_config c = default_openai_config\<lparr>oc_base_url := hc_ollama_url c, oc_model := hc_ollama_model c,
     oc_enabled := True, oc_num_ctx := hc_ollama_num_ctx c\<rparr>"

definition apply_model_config :: "'w host \<Rightarrow> 'w host" where
  "apply_model_config h =
     (if hc_enable_ai (h_config h)
      then h\<lparr>h_language_ai := set_ollama_config (model_config (h_config h)) (h_language_ai h)\<rparr>
      else h)"

definition persist_current_settings :: "'w os \<Rightarrow> 'w host \<Rightarrow> (cpp_exception + unit) \<times> 'w host" where
  "persist_current_settings os h =
     (let c = h_config h
      in if hc_settings_path c = [] then (Inr (), h)
         else
           (case load_settings os (hc_settings_path c) default_settings (h_world h) of
              Inl e \<Rightarrow> (Inl e, h)
            | Inr (_, settings) \<Rightarrow>
                (case sense (save_settings os (hc_settings_path c)
                       (settings\<lparr>hs_enable_ai := hc_enable_ai c, hs_enable_hardware_scan := hc_enable_hardware_scan c,
                         hs_ollama_url := hc_ollama_url c, hs_ollama_model := hc_ollama_model c,
                         hs_ollama_num_ctx := hc_ollama_num_ctx c\<rparr>)) h of
                   (_, h1) \<Rightarrow> (Inr (), h1))))"

definition build_config_json :: "'w host \<Rightarrow> string" where
  "build_config_json h = json_object
     [json_bool_field ''ai_enabled'' (hc_enable_ai (h_config h)),
      json_string_field ''ollama_url'' (hc_ollama_url (h_config h)),
      json_string_field ''ollama_model'' (hc_ollama_model (h_config h))]"

definition active_model_name :: "'w host \<Rightarrow> string" where
  "active_model_name h = hc_ollama_model (h_config h)"

text \<open>A non-empty value replaces the old one.\<close>

definition or_keep :: "string \<Rightarrow> string \<Rightarrow> string" where
  "or_keep v old = (if v \<noteq> [] then v else old)"

definition update_config :: "'w os \<Rightarrow> string \<Rightarrow> 'w host \<Rightarrow> (cpp_exception + string) \<times> 'w host" where
  "update_config os body h =
     (let c = h_config h;
          c1 = c\<lparr>hc_ollama_url := or_keep (extract_json_string_field body ''ollama_url'' 0) (hc_ollama_url c),
                 hc_ollama_model := or_keep (extract_json_string_field body ''ollama_model'' 0) (hc_ollama_model c)\<rparr>;
          h1 = apply_model_config (h\<lparr>h_config := c1\<rparr>)
      in case persist_current_settings os h1 of
           (Inl e, h2) \<Rightarrow> (Inl e, h2)
         | (Inr _, h2) \<Rightarrow> (Inr (json_object
             [json_bool_field ''success'' True, json_bool_field ''ai_enabled'' (hc_enable_ai (h_config h2)),
              json_string_field ''ollama_url'' (hc_ollama_url (h_config h2)),
              json_string_field ''ollama_model'' (hc_ollama_model (h_config h2))]), h2))"

definition update_ollama_config :: "'w os \<Rightarrow> string \<Rightarrow> 'w host \<Rightarrow> (cpp_exception + string) \<times> 'w host" where
  "update_ollama_config os body h =
     (let model = extract_json_string_field body ''model'' 0
      in if model = [] then
           (Inr (json_object [json_bool_field ''success'' False, json_string_field ''message'' ''Missing model field.'']), h)
         else
           (let h1 = apply_model_config (h\<lparr>h_config := (h_config h)\<lparr>hc_ollama_model := model\<rparr>\<rparr>)
            in case persist_current_settings os h1 of
                 (Inl e, h2) \<Rightarrow> (Inl e, h2)
               | (Inr _, h2) \<Rightarrow> (Inr (json_object
                   [json_bool_field ''success'' True, json_string_field ''model'' (hc_ollama_model (h_config h2))]), h2)))"

end
