(* ===== verification/Host_Status.thy ===== *)
theory Host_Status imports Complex_Main Host_State begin

text \<open>
  The read-only reports of \<open>DroidHost\<close> (status, health, Ollama, history, memory, locations,
  hardware), and the watchdog that watches the model backend (\<open>cli/host.cpp\<close>).
\<close>

section \<open>Status reports\<close>

definition build_status_json :: "'w host \<Rightarrow> string" where
  "build_status_json h = json_object
     [json_string_field ''host'' ''droidcli'', json_string_field ''map'' (rs_map_name (h_session h)),
      json_string_field ''build'' (rs_build_label (h_session h)), json_bool_field ''active'' (rs_active (h_session h)),
      json_bool_field ''ai_enabled'' (hc_enable_ai (h_config h)),
      json_int_field ''connector_count'' (int (length (list_connectors (h_connectors h)))),
      json_int_field ''task_count'' (int (length (list_tasks (h_tasks h))))]"

definition build_network_status_json :: "'w host \<Rightarrow> string" where
  "build_network_status_json h = json_object
     [json_bool_field ''networking_enabled'' (ff_networking (rs_features (h_session h))),
      json_int_field ''connector_count'' (int (length (list_connectors (h_connectors h))))]"

text \<open>
  The loop over the log runs from the newest entry back while fewer than 20 have been looked at,
  so it reads the last 20 entries.
\<close>

definition recent_failures :: "app_log_entry list \<Rightarrow> nat" where
  "recent_failures entries = length (filter (\<lambda>e. \<not> al_success e) (take 20 (rev entries)))"

definition tasks_in :: "string \<Rightarrow> task list \<Rightarrow> int" where
  "tasks_in status ts = int (length (filter (\<lambda>t. task_status t = status) ts))"

definition build_self_status_json :: "'w host \<Rightarrow> string" where
  "build_self_status_json h =
     (let cs = list_connectors (h_connectors h); ts = list_tasks (h_tasks h)
      in json_object
        [json_bool_field ''ok'' True, json_bool_field ''ai_enabled'' (hc_enable_ai (h_config h)),
         json_bool_field ''ollama_reachable'' (h_ollama_reachable h),
         json_int_field ''ollama_last_check_ms'' (h_ollama_last_check_ms h),
         json_string_field ''ollama_last_check_error'' (h_ollama_last_check_error h),
         json_int_field ''connector_count'' (int (length cs)),
         json_int_field ''connectors_enabled'' (int (length (filter con_enabled cs))),
         json_int_field ''tasks_pending'' (tasks_in ''pending'' ts), json_int_field ''tasks_running'' (tasks_in ''running'' ts),
         json_int_field ''tasks_failed'' (tasks_in ''failed'' ts),
         json_bool_field ''memory_store_open'' (ms_is_open (h_memory_store h)),
         json_int_field ''recent_failures_last_20_log_entries'' (int (recent_failures (h_app_log h)))])"

definition process_json :: "process_info \<Rightarrow> string" where
  "process_json p = json_object
     [json_string_field ''key'' (pi_key p), json_string_field ''label'' (pi_label p), json_int_field ''pid'' (pi_pid p),
      json_bool_field ''running'' (pi_running p), json_string_field ''status'' (pi_status_text p)]"

definition build_process_status_json :: "'w os \<Rightarrow> 'w host \<Rightarrow> string \<times> 'w host" where
  "build_process_status_json os h =
     (case sense (os_process_snapshot os) h of (processes, h1) \<Rightarrow>
        (json_object [json_array_field ''processes'' (map process_json processes)], h1))"

definition build_system_info_json :: "'w os \<Rightarrow> 'w host \<Rightarrow> string \<times> 'w host" where
  "build_system_info_json os h =
     (let s = h_system_info h
      in case make_full_log_timestamp os h of (now, h1) \<Rightarrow>
        (json_object
           [json_bool_field ''ok'' True, json_string_field ''os_name'' (si_os_name s),
            json_string_field ''os_version'' (si_os_version s), json_string_field ''architecture'' (si_architecture s),
            json_string_field ''hostname'' (si_hostname s), json_string_field ''username'' (si_username s),
            json_string_field ''cwd'' (si_cwd s), json_string_field ''desktop_path'' (si_desktop_path s),
            json_string_field ''current_datetime'' now], h1))"

definition disk_json :: "disk_volume \<Rightarrow> string" where
  "disk_json d = json_object
     [json_string_field ''drive'' (dv_drive d), json_int_field ''total_bytes'' (dv_total_bytes d),
      json_int_field ''free_bytes'' (dv_free_bytes d)]"

definition build_hardware_info_json :: "'w host \<Rightarrow> string" where
  "build_hardware_info_json h =
     (if \<not> hc_enable_hardware_scan (h_config h) then
        json_object [json_bool_field ''ok'' True, json_bool_field ''enabled'' False, json_string_field ''error''
          ''hardware scanning is disabled - restart droidcli with --enable-hardware-scan to turn it on'']
      else
        (let i = h_hardware_info h
         in json_object
           [json_bool_field ''ok'' True, json_bool_field ''enabled'' True, json_string_field ''cpu_name'' (hw_cpu_name i),
            json_int_field ''cpu_core_count'' (hw_cpu_core_count i), json_int_field ''total_ram_bytes'' (hw_total_ram_bytes i),
            json_array_field ''gpus'' (map (\<lambda>g. json_object [json_string_field ''name'' g]) (hw_gpus i)),
            json_array_field ''disks'' (map disk_json (hw_disks i))]))"

section \<open>Ollama\<close>

definition success_status :: "int \<Rightarrow> bool" where
  "success_status code \<longleftrightarrow> code \<ge> 200 \<and> code < 300"

definition tags_url :: "string \<Rightarrow> string" where
  "tags_url ollama_url = strip_trailing_slashes ollama_url @ ''/api/tags''"

definition build_ollama_status_json :: "'w os \<Rightarrow> 'w host \<Rightarrow> string \<times> 'w host" where
  "build_ollama_status_json os h =
     (let c = h_config h
      in case sense (os_http_get os (tags_url (hc_ollama_url c))) h of ((transport_ok, status_code, body), h1) \<Rightarrow>
        (let online = (hc_enable_ai c \<and> transport_ok \<and> success_status status_code);
             models = (if online then parse_ollama_model_names body else [])
         in (json_object
               [json_bool_field ''ai_enabled'' (hc_enable_ai c), json_string_field ''ollama_url'' (hc_ollama_url c),
                json_string_field ''model'' (hc_ollama_model c), json_bool_field ''online'' online,
                json_int_field ''status_code'' status_code, json_array_field ''models'' (map quoted models)], h1)))"

definition ollama_setup_status_json :: "'w os \<Rightarrow> 'w host \<Rightarrow> string \<times> 'w host" where
  "ollama_setup_status_json os h =
     (case sense (os_run_command_once os (if os_windows os then ''where ollama'' else ''which ollama'') [] 5000 True) h of
        (where_result, h1) \<Rightarrow>
          (let installed = (rr_launched where_result \<and> rr_exit_code where_result = 0 \<and> rr_stdout_text where_result \<noteq> []);
               c = h_config h1
           in case sense (os_http_get os (tags_url (hc_ollama_url c))) h1 of ((transport_ok, status_code, body), h2) \<Rightarrow>
             (let online = (transport_ok \<and> success_status status_code);
                  models = (if online then parse_ollama_model_names body else [])
              in (json_object
                    [json_bool_field ''installed'' installed, json_bool_field ''online'' online,
                     json_array_field ''models'' (map quoted models),
                     json_string_field ''configured_model'' (hc_ollama_model c),
                     json_bool_field ''configured_model_pulled'' (list_ex (\<lambda>n. n = hc_ollama_model c) models)], h2))))"

definition ollama_result_json :: "bool \<Rightarrow> int \<Rightarrow> string \<Rightarrow> string \<Rightarrow> string \<Rightarrow> string" where
  "ollama_result_json ok exit_code out err message = json_object
     [json_bool_field ''ok'' ok, json_int_field ''exit_code'' exit_code, json_string_field ''stdout'' out,
      json_string_field ''stderr'' err, json_string_field ''error'' message]"

definition install_ollama :: "'w os \<Rightarrow> 'w host \<Rightarrow> string \<times> 'w host" where
  "install_ollama os h =
     (if os_windows os then
        (case sense (os_run_command_once os ''where winget'' [] 5000 True) h of (where_winget, h1) \<Rightarrow>
           (if \<not> rr_launched where_winget \<or> rr_exit_code where_winget \<noteq> 0 then
              (ollama_result_json False 0 [] []
                 ''winget is not available on this system. Install Ollama manually from https://ollama.com/download.'', h1)
            else
              (case sense (os_run_command_once os
                     ''winget install --id Ollama.Ollama -e --source winget --accept-package-agreements --accept-source-agreements''
                     [] 300000 True) h1 of (result, h2) \<Rightarrow>
                 (let ok = command_succeeded result;
                      h3 = append_app_log os ''ollama'' ''out''
                             (if ok then ''installed Ollama via winget'' else ''winget install failed'') ok [] h2
                  in (ollama_result_json ok (rr_exit_code result) (rr_stdout_text result) (rr_stderr_text result)
                        (rr_error_message result), h3)))))
      else
        (ollama_result_json False 0 [] []
           ''automatic install is only implemented on Windows; install Ollama manually from https://ollama.com/download.'', h))"

text \<open>Up to \<open>n\<close> polls, half a second apart, until one answers.\<close>

fun poll_online :: "nat \<Rightarrow> 'w os \<Rightarrow> string \<Rightarrow> 'w host \<Rightarrow> bool \<times> 'w host" where
  "poll_online 0 os url h = (False, h)"
| "poll_online (Suc n) os url h =
     (case sense (os_http_get os url) h of ((transport_ok, status_code, body), h1) \<Rightarrow>
        (if transport_ok \<and> success_status status_code then (True, h1) else poll_online n os url h1))"

definition start_ollama :: "'w os \<Rightarrow> 'w host \<Rightarrow> string \<times> 'w host" where
  "start_ollama os h =
     (case sense (os_process_launch os ''__ollama__'' ''ollama serve'' [] ''ollama serve'') h of ((launched, err), h1) \<Rightarrow>
        (if \<not> launched then
           (let h2 = append_app_log os ''ollama'' ''out'' (''failed to launch ollama serve: '' @ err) False [] h1
            in (json_object [json_bool_field ''ok'' False, json_bool_field ''online'' False, json_string_field ''error'' err], h2))
         else
           (case sense (os_process_snapshot os) h1 of (processes, h2) \<Rightarrow>
              (let pid = (case find (\<lambda>p. pi_key p = ''__ollama__'') processes of Some p \<Rightarrow> pi_pid p | None \<Rightarrow> 0)
               in case poll_online 6 os (tags_url (hc_ollama_url (h_config h2))) h2 of (online, h3) \<Rightarrow>
                 (let h4 = append_app_log os ''ollama'' ''out''
                        (if online then ''ollama serve came online'' else ''ollama serve launched but is not yet reachable'')
                        online [] h3
                  in (json_object [json_bool_field ''ok'' True, json_int_field ''pid'' pid,
                        json_bool_field ''online'' online], h4))))))"

definition pull_ollama_model :: "'w os \<Rightarrow> string \<Rightarrow> 'w host \<Rightarrow> (cpp_exception + string) \<times> 'w host" where
  "pull_ollama_model os body h =
     (let model = extract_json_string_field body ''model'' 0
      in if model = [] then
           (Inr (json_object [json_bool_field ''ok'' False, json_string_field ''model'' [], json_int_field ''exit_code'' 0,
              json_string_field ''error'' ''missing model'']), h)
         else
           (case sense (os_run_command_once os (''ollama pull '' @ model) [] 600000 True) h of (result, h1) \<Rightarrow>
              (let ok = command_succeeded result;
                   h2 = append_app_log os ''ollama'' ''out''
                          ((if ok then ''pulled model: '' else ''pull failed: '') @ model) ok [] h1
               in bindE
                    (\<lambda>s. if ok then update_ollama_config os (json_object [json_string_field ''model'' model]) s else (Inr [], s))
                    (\<lambda>_ s. (Inr (json_object
                       [json_bool_field ''ok'' ok, json_string_field ''model'' model,
                        json_int_field ''exit_code'' (rr_exit_code result),
                        json_string_field ''error'' (if rr_error_message result = [] \<and> \<not> ok
                          then rr_stderr_text result else rr_error_message result)]), s)) h2)))"

section \<open>The watchdog\<close>

text \<open>Whether to act now, and the new time of the last action.\<close>

definition should_emit_periodic_log :: "int \<Rightarrow> int \<Rightarrow> int \<Rightarrow> bool \<times> int" where
  "should_emit_periodic_log now_utc last_emit_utc min_interval_seconds =
     (if now_utc \<le> 0 then (True, last_emit_utc)
      else if last_emit_utc = 0 \<or> now_utc - last_emit_utc \<ge> min_interval_seconds then (True, now_utc)
      else (False, last_emit_utc))"

definition kWatchdogIntervalSeconds :: int where
  "kWatchdogIntervalSeconds = 15"

definition tick_watchdog :: "'w os \<Rightarrow> 'w host \<Rightarrow> 'w host" where
  "tick_watchdog os h =
     (if \<not> hc_enable_ai (h_config h) then h
      else
        (case sense (os_time os) h of (now_utc, h1) \<Rightarrow>
           (case should_emit_periodic_log now_utc (h_watchdog_last_check_utc h1) kWatchdogIntervalSeconds of
              (False, _) \<Rightarrow> h1
            | (True, last_check) \<Rightarrow>
                (let h2 = h1\<lparr>h_watchdog_last_check_utc := last_check\<rparr>; url = hc_ollama_url (h_config h2)
                 in case sense (os_http_get os (tags_url url)) h2 of ((transport_ok, status_code, body), h3) \<Rightarrow>
                   (let reachable = (transport_ok \<and> success_status status_code)
                    in case sense (os_now_ms os) h3 of (checked_at_ms, h4) \<Rightarrow>
                      (let was_reachable = h_ollama_reachable h4;
                           h5 = h4\<lparr>h_ollama_reachable := reachable, h_ollama_last_check_ms := checked_at_ms,
                             h_ollama_last_check_error :=
                               (if reachable then [] else ''status_code='' @ to_string status_code)\<rparr>
                       in if reachable \<noteq> was_reachable then
                            append_app_log os ''watchdog'' ''ollama''
                              (if reachable then ''Ollama is reachable again at '' @ url
                               else ''Ollama became unreachable at '' @ url @
                                 '' - agent_turn will keep responding with ok:false rather than hanging or crashing'')
                              reachable [] h5
                          else h5))))))"

section \<open>Memory reports\<close>

definition lesson_json :: "command_lesson \<Rightarrow> string" where
  "lesson_json e = json_object
     [json_string_field ''tool'' (cl_tool e), json_string_field ''broken'' (cl_broken e),
      json_string_field ''failure_reason'' (cl_failure_reason e), json_string_field ''working'' (cl_working e),
      json_string_field ''lesson'' (cl_lesson e), json_string_field ''created_at'' (cl_created_at e)]"

definition search_command_fixes_json :: "string \<Rightarrow> 'w host \<Rightarrow> string" where
  "search_command_fixes_json body h = json_object
     [json_bool_field ''ok'' True,
      json_array_field ''lessons'' (map lesson_json
        (search_lessons (h_memory_store h) (extract_json_string_field body ''query'' 0) 5))]"

definition system_location_json :: "string \<times> string \<Rightarrow> string" where
  "system_location_json l = json_object [json_string_field ''name'' (fst l), json_string_field ''path'' (snd l)]"

definition known_location_json :: "known_location \<Rightarrow> string" where
  "known_location_json l = json_object
     [json_string_field ''name'' (kl_name l), json_string_field ''resolved_path'' (kl_resolved_path l),
      json_string_field ''updated_at'' (kl_updated_at l)]"

definition list_known_locations_json :: "'w host \<Rightarrow> string" where
  "list_known_locations_json h =
     (let s = h_system_info h;
          system_locations = [(''Home'', si_home_path s), (''Documents'', si_documents_path s),
            (''Downloads'', si_downloads_path s), (''Program Files (apps)'', si_program_files_path s)]
      in json_object
        [json_bool_field ''ok'' True, json_string_field ''cwd'' (si_cwd s),
         json_string_field ''desktop_path'' (si_desktop_path s),
         json_array_field ''system_locations'' (map system_location_json (filter (\<lambda>l. snd l \<noteq> []) system_locations)),
         json_array_field ''known_locations'' (map known_location_json (list_locations (h_memory_store h)))])"

definition message_json :: "memory_record \<Rightarrow> string" where
  "message_json r = json_object
     [json_int_field ''hop_index'' (mr_hop_index r), json_string_field ''role'' (mr_role r),
      json_string_field ''content'' (mr_content r), json_string_field ''created_at'' (mr_created_at r)]"

definition build_agent_history_json :: "string \<Rightarrow> 'w host \<Rightarrow> string" where
  "build_agent_history_json session_id h =
     (let resolved = (if session_id = [] then h_current_session_id h else session_id)
      in json_object
        [json_string_field ''session_id'' resolved,
         json_array_field ''messages'' (map message_json (load_session (h_memory_store h) resolved))])"

definition build_agent_sessions_json :: "'w host \<Rightarrow> string" where
  "build_agent_sessions_json h = json_object
     [json_string_field ''current_session_id'' (h_current_session_id h),
      json_array_field ''session_ids'' (map quoted (list_session_ids (h_memory_store h)))]"

end
