(* ===== verification/Filesystem_Tools.thy ===== *)
theory Filesystem_Tools imports Complex_Main Os_Interface begin

text \<open>
  \<open>cli/filesystem_tools.cpp\<close>: the file operations behind the agent's file tools, over the
  \<open>std::filesystem\<close> calls of the operating system. What they guarantee over a documented file
  system is in \<open>Filesystem_Laws\<close>.
\<close>

section \<open>Reading\<close>

record file_read_result =
  fr_ok :: bool
  fr_content :: string
  fr_size_bytes :: int
  fr_truncated :: bool
  fr_error_message :: string

definition empty_read :: file_read_result where
  "empty_read = \<lparr>fr_ok = False, fr_content = [], fr_size_bytes = 0, fr_truncated = False, fr_error_message = []\<rparr>"

text \<open>A read that comes back short leaves the NULs that \<open>resize\<close> put into the buffer.\<close>

definition read_bytes :: "nat \<Rightarrow> string \<Rightarrow> string" where
  "read_bytes to_read data = take to_read (data @ replicate to_read (CHR 0x00))"

definition fs_read_file :: "'w os \<Rightarrow> string \<Rightarrow> int \<Rightarrow> 'w \<Rightarrow> file_read_result" where
  "fs_read_file os path max_bytes w =
     (if path = [] then empty_read\<lparr>fr_error_message := ''path is empty''\<rparr>
      else if \<not> fs_exists os path w then empty_read\<lparr>fr_error_message := ''path does not exist: '' @ path\<rparr>
      else if fst (fs_is_directory os path w) \<or> snd (fs_is_directory os path w) \<noteq> None then
        empty_read\<lparr>fr_error_message := ''path is a directory, not a file: '' @ path\<rparr>
      else
        (case fs_read os path w of
           None \<Rightarrow> empty_read\<lparr>fr_error_message := ''could not open file: '' @ path\<rparr>
         | Some data \<Rightarrow>
             (case fs_file_size os path w of
                Inl _ \<Rightarrow> empty_read\<lparr>fr_error_message := ''could not determine file size: '' @ path\<rparr>
              | Inr bytes \<Rightarrow>
                  (let file_size = int bytes;
                       read_limit = (if max_bytes > 0 then max_bytes else file_size);
                       to_read = nat (if file_size > read_limit then read_limit else file_size)
                   in \<lparr>fr_ok = True, fr_content = read_bytes to_read data, fr_size_bytes = file_size,
                       fr_truncated = file_size > read_limit, fr_error_message = []\<rparr>))))"

record list_dir_result =
  ld_ok :: bool
  ld_entries :: "(string \<times> bool \<times> int) list"
  ld_error_message :: string

text \<open>A file size that could not be read is \<open>static_cast<uintmax_t>(-1)\<close>, so \<open>-1\<close> as an \<open>int64_t\<close>.\<close>

definition size_or_minus_one :: "nat option \<Rightarrow> int" where
  "size_or_minus_one bytes = (case bytes of None \<Rightarrow> - 1 | Some n \<Rightarrow> int n)"

definition entry_info :: "dir_entry \<Rightarrow> string \<times> bool \<times> int" where
  "entry_info e = (de_path_filename e, de_is_directory e,
     if de_is_directory e then 0 else size_or_minus_one (de_file_size e))"

text \<open>Without a path, the current directory; \<open>None\<close> is its \<open>filesystem_error\<close> when there is none.\<close>

definition fs_list_dir :: "'w os \<Rightarrow> string \<Rightarrow> 'w \<Rightarrow> list_dir_result option" where
  "fs_list_dir os path w =
     map_option
       (\<lambda>target.
          if \<not> fs_exists os target w then
            \<lparr>ld_ok = False, ld_entries = [], ld_error_message = ''path does not exist: '' @ path\<rparr>
          else if \<not> fst (fs_is_directory os target w) \<or> snd (fs_is_directory os target w) \<noteq> None then
            \<lparr>ld_ok = False, ld_entries = [], ld_error_message = ''path is not a directory: '' @ path\<rparr>
          else
            (case fs_directory os target w of (entries, err) \<Rightarrow>
               (case err of
                  Some message \<Rightarrow> \<lparr>ld_ok = False, ld_entries = map entry_info entries,
                    ld_error_message = ''error while listing directory: '' @ message\<rparr>
                | None \<Rightarrow> \<lparr>ld_ok = True, ld_entries = map entry_info entries, ld_error_message = []\<rparr>)))
       (if path = [] then fs_current_path os w else Some path)"

record stat_result =
  st_ok :: bool
  st_exists :: bool
  st_is_dir :: bool
  st_is_file :: bool
  st_size_bytes :: int
  st_error_message :: string

definition empty_stat :: stat_result where
  "empty_stat = \<lparr>st_ok = False, st_exists = False, st_is_dir = False, st_is_file = False, st_size_bytes = 0,
     st_error_message = []\<rparr>"

definition fs_stat_path :: "'w os \<Rightarrow> string \<Rightarrow> 'w \<Rightarrow> stat_result" where
  "fs_stat_path os path w =
     (if path = [] then empty_stat\<lparr>st_error_message := ''path is empty''\<rparr>
      else if \<not> fs_exists os path w then empty_stat\<lparr>st_ok := True\<rparr>
      else
        \<lparr>st_ok = True, st_exists = True, st_is_dir = fst (fs_is_directory os path w),
         st_is_file = fs_is_regular_file os path w,
         st_size_bytes = (if fs_is_regular_file os path w then
             (case fs_file_size os path w of Inl _ \<Rightarrow> - 1 | Inr n \<Rightarrow> int n) else 0),
         st_error_message = []\<rparr>)"

definition get_current_working_directory :: "'w os \<Rightarrow> 'w \<Rightarrow> string" where
  "get_current_working_directory os w = (case fs_current_path os w of None \<Rightarrow> [] | Some p \<Rightarrow> p)"

section \<open>Searching the path\<close>

record which_result =
  wr_ok :: bool
  wr_resolved_path :: string
  wr_error_message :: string

definition found_at :: "string \<Rightarrow> which_result" where
  "found_at path = \<lparr>wr_ok = True, wr_resolved_path = path, wr_error_message = []\<rparr>"

definition not_found :: "string \<Rightarrow> which_result" where
  "not_found message = \<lparr>wr_ok = False, wr_resolved_path = [], wr_error_message = message\<rparr>"

definition path_list_separator :: "'w os \<Rightarrow> char" where
  "path_list_separator os = (if os_windows os then CHR '';'' else colon)"

text \<open>The non-empty runs between the separators.\<close>

fun split_path_env :: "char \<Rightarrow> string \<Rightarrow> string \<Rightarrow> string list" where
  "split_path_env sep part [] = (if part = [] then [] else [part])"
| "split_path_env sep part (c # s) =
     (if c = sep then (if part = [] then split_path_env sep [] s else part # split_path_env sep [] s)
      else split_path_env sep (part @ [c]) s)"

definition is_executable_file :: "'w os \<Rightarrow> 'w \<Rightarrow> string \<Rightarrow> bool" where
  "is_executable_file os w path \<longleftrightarrow> fs_exists os path w \<and> fs_is_regular_file os path w"

definition absolute_or_empty :: "'w os \<Rightarrow> string \<Rightarrow> 'w \<Rightarrow> string" where
  "absolute_or_empty os path w = (case fs_absolute os path w of None \<Rightarrow> [] | Some p \<Rightarrow> p)"

definition which_executable :: "'w os \<Rightarrow> string \<Rightarrow> 'w \<Rightarrow> which_result" where
  "which_executable os name w =
     (if name = [] then not_found ''name is empty''
      else if fs_parent_path os name \<noteq> [] then
        (if is_executable_file os w name then found_at (absolute_or_empty os name w)
         else not_found (''not found: '' @ name))
      else
        (let extensions = (if os_windows os then [[], ''.exe'', ''.bat'', ''.cmd''] else [[]]);
             directories = split_path_env (path_list_separator os) []
               (case os_getenv os ''PATH'' w of None \<Rightarrow> [] | Some v \<Rightarrow> v);
             candidates = [fs_join os directory (name @ extension). directory \<leftarrow> directories, extension \<leftarrow> extensions]
         in case find (is_executable_file os w) candidates of
              Some candidate \<Rightarrow> found_at candidate
            | None \<Rightarrow> not_found (''not found on PATH: '' @ name)))"

section \<open>Changing files\<close>

record file_op_result =
  fo_ok :: bool
  fo_error_message :: string

definition op_failed :: "string \<Rightarrow> file_op_result" where
  "op_failed message = \<lparr>fo_ok = False, fo_error_message = message\<rparr>"

definition op_done :: file_op_result where
  "op_done = \<lparr>fo_ok = True, fo_error_message = []\<rparr>"

record file_write_result =
  fw_ok :: bool
  fw_bytes_written :: int
  fw_error_message :: string

definition write_failed :: "string \<Rightarrow> file_write_result" where
  "write_failed message = \<lparr>fw_ok = False, fw_bytes_written = 0, fw_error_message = message\<rparr>"

text \<open>Create the missing parent directories; the error of \<open>create_directories\<close> if it has one.\<close>

definition ensure_parent :: "'w os \<Rightarrow> string \<Rightarrow> 'w \<Rightarrow> string option \<times> 'w" where
  "ensure_parent os path w =
     (let parent = fs_parent_path os path
      in if parent \<noteq> [] \<and> \<not> fs_exists os parent w then
           (case fs_create_directories os parent w of
              (Inl message, w1) \<Rightarrow> (Some message, w1)
            | (Inr _, w1) \<Rightarrow> (None, w1))
         else (None, w))"

definition fs_write_file :: "'w os \<Rightarrow> string \<Rightarrow> string \<Rightarrow> bool \<Rightarrow> 'w \<Rightarrow> file_write_result \<times> 'w" where
  "fs_write_file os path content append_mode w =
     (if path = [] then (write_failed ''path is empty'', w)
      else
        (case ensure_parent os path w of
           (Some message, w1) \<Rightarrow> (write_failed (''could not create parent directories: '' @ message), w1)
         | (None, w1) \<Rightarrow>
             (case fs_write os path content append_mode w1 of
                (Not_Opened, w2) \<Rightarrow> (write_failed (''could not open file for writing: '' @ path), w2)
              | (Write_Failed, w2) \<Rightarrow> (write_failed (''write failed: '' @ path), w2)
              | (Written, w2) \<Rightarrow>
                  (\<lparr>fw_ok = True, fw_bytes_written = int (length content), fw_error_message = []\<rparr>, w2))))"

definition fs_copy :: "'w os \<Rightarrow> string \<Rightarrow> string \<Rightarrow> 'w \<Rightarrow> file_op_result \<times> 'w" where
  "fs_copy os source_path destination_path w =
     (if source_path = [] \<or> destination_path = [] then
        (op_failed ''source_path and destination_path are both required'', w)
      else if fst (fs_is_directory os source_path w) then
        (op_failed ''source is a directory - copy_file only copies a single file'', w)
      else
        (case ensure_parent os destination_path w of
           (Some message, w1) \<Rightarrow> (op_failed (''could not create destination parent directories: '' @ message), w1)
         | (None, w1) \<Rightarrow>
             (case fs_copy_file os source_path destination_path w1 of
                (Some message, w2) \<Rightarrow> (op_failed (''copy failed: '' @ message), w2)
              | (None, w2) \<Rightarrow> (op_done, w2))))"

definition fs_move_path :: "'w os \<Rightarrow> string \<Rightarrow> string \<Rightarrow> 'w \<Rightarrow> file_op_result \<times> 'w" where
  "fs_move_path os source_path destination_path w =
     (if source_path = [] \<or> destination_path = [] then
        (op_failed ''source_path and destination_path are both required'', w)
      else if \<not> fs_exists os source_path w then (op_failed (''source does not exist: '' @ source_path), w)
      else
        (case ensure_parent os destination_path w of
           (Some message, w1) \<Rightarrow> (op_failed (''could not create destination parent directories: '' @ message), w1)
         | (None, w1) \<Rightarrow>
             (case fs_rename os source_path destination_path w1 of
                (Some message, w2) \<Rightarrow> (op_failed (''move failed: '' @ message), w2)
              | (None, w2) \<Rightarrow> (op_done, w2))))"

text \<open>An error, or nothing was removed (created).\<close>

definition settle :: "string \<Rightarrow> (string + bool) \<times> 'w \<Rightarrow> file_op_result \<times> 'w" where
  "settle what r =
     (case r of
        (Inl message, w1) \<Rightarrow> (op_failed (what @ '' failed: '' @ message), w1)
      | (Inr did, w1) \<Rightarrow> (if did then op_done else op_failed (what @ '' failed: unknown error''), w1))"

definition fs_delete_file :: "'w os \<Rightarrow> string \<Rightarrow> 'w \<Rightarrow> file_op_result \<times> 'w" where
  "fs_delete_file os path w =
     (if path = [] then (op_failed ''path is empty'', w)
      else if \<not> fs_exists os path w then (op_failed (''path does not exist: '' @ path), w)
      else if fst (fs_is_directory os path w) then
        (op_failed ''path is a directory - delete_file only deletes a single file, not a directory tree'', w)
      else settle ''delete'' (fs_remove os path w))"

definition fs_create_directory :: "'w os \<Rightarrow> string \<Rightarrow> 'w \<Rightarrow> file_op_result \<times> 'w" where
  "fs_create_directory os path w =
     (if path = [] then (op_failed ''path is empty'', w)
      else if fs_exists os path w then
        (if fst (fs_is_directory os path w) then (op_done, w)
         else (op_failed (''path already exists as a file, not a directory: '' @ path), w))
      else settle ''create_directory'' (fs_create_directories os path w))"

end
