(* ===== verification/Host_Commands.thy ===== *)
theory Host_Commands imports Complex_Main Host_State Filesystem_Tools Path_Guards begin

text \<open>
  The shell and ffmpeg tools of \<open>DroidHost\<close> (\<open>cli/host.cpp\<close>, \<open>cli/ffmpeg_tool.cpp\<close>): the guards
  on the command text and the working directory, one run, and the JSON that reports it. The run
  itself (\<open>run_command_once\<close>, pipes and process handles) is \<open>os_run_command_once\<close>.
\<close>

definition desktop :: "'w host \<Rightarrow> string" where
  "desktop h = si_desktop_path (h_system_info h)"

text \<open>A 32-bit field with a default; out of range is undefined.\<close>

definition int32_field :: "string \<Rightarrow> string \<Rightarrow> int \<Rightarrow> cpp_exception + int" where
  "int32_field json name default_value =
     (case extract_json_int32_field json name of
        None \<Rightarrow> Inl UndefinedBehaviour
      | Some None \<Rightarrow> Inr default_value
      | Some (Some v) \<Rightarrow> Inr v)"

definition resolve_work_dir_or_desktop :: "string \<Rightarrow> string \<Rightarrow> string" where
  "resolve_work_dir_or_desktop desktop_path requested_work_dir =
     (if requested_work_dir = [] then desktop_path
      else
        (let substituted = substitute_bare_desktop_token requested_work_dir desktop_path
         in if looks_like_placeholder_path substituted \<or> looks_like_invented_desktop_path substituted desktop_path
            then desktop_path else substituted))"

definition not_launched_json :: "string \<Rightarrow> string" where
  "not_launched_json message = json_object
     [json_bool_field ''ok'' False, json_bool_field ''launched'' False, json_int_field ''exit_code'' 0,
      json_string_field ''stdout'' [], json_string_field ''stderr'' [], json_string_field ''error'' message]"

definition placeholder_command_error :: "string \<Rightarrow> string" where
  "placeholder_command_error desktop_path =
     ''this references a placeholder path (e.g. '' @ [quot] @ ''path/to/...'' @ [quot] @ '') instead of a real one - ''
     @ ''the real Desktop path is '' @ desktop_path @ '', use that exact path instead''"

text \<open>
  The report of a run: \<open>what\<close> names the field of the substituted text, \<open>who\<close> starts the failure
  reason.
\<close>

definition run_report :: "string \<Rightarrow> string \<Rightarrow> string \<Rightarrow> string \<Rightarrow> string \<Rightarrow> string \<Rightarrow> command_run_result \<Rightarrow> string" where
  "run_report what who requested effective work_dir effective_work_dir result =
     json_object
       ([json_bool_field ''ok'' (command_succeeded result), json_bool_field ''launched'' (rr_launched result),
         json_int_field ''exit_code'' (rr_exit_code result), json_string_field ''stdout'' (rr_stdout_text result),
         json_string_field ''stderr'' (rr_stderr_text result), json_string_field ''error'' (rr_error_message result)]
        @ (if effective \<noteq> requested then [json_string_field what effective] else [])
        @ (if work_dir \<noteq> effective_work_dir then [json_string_field ''resolved_work_dir'' effective_work_dir] else [])
        @ (if \<not> command_succeeded result then
             [json_string_field ''failure_reason''
                (who @ '' failed (exit_code='' @ to_string (rr_exit_code result) @ ''): '' @ summarize_command_failure result)]
           else []))"

definition run_command :: "'w os \<Rightarrow> string \<Rightarrow> 'w host \<Rightarrow> (cpp_exception + string) \<times> 'w host" where
  "run_command os body h =
     (let requested_command = extract_json_string_field body ''command'' 0;
          work_dir = extract_json_string_field body ''work_dir'' 0
      in case int32_field body ''timeout_ms'' 30000 of
           Inl e \<Rightarrow> (Inl e, h)
         | Inr timeout_ms \<Rightarrow>
             (if requested_command = [] then (Inr (not_launched_json ''missing command''), h)
              else if looks_like_placeholder_path requested_command then
                (Inr (not_launched_json (placeholder_command_error (desktop h))), h)
              else
                (let command = substitute_bare_desktop_token requested_command (desktop h);
                     effective_work_dir = resolve_work_dir_or_desktop (desktop h) work_dir
                 in case sense (os_run_command_once os command effective_work_dir timeout_ms True) h of (result, h1) \<Rightarrow>
                   (Inr (run_report ''resolved_command'' ''Command'' requested_command command work_dir effective_work_dir result),
                    append_app_log os ''run'' ''out'' command (command_succeeded result) [] h1))))"

section \<open>ffmpeg\<close>

definition ffmpeg_binary_name :: "'w os \<Rightarrow> string" where
  "ffmpeg_binary_name os = (if os_windows os then ''ffmpeg.exe'' else ''ffmpeg'')"

definition ffmpeg_not_found :: "'w os \<Rightarrow> string" where
  "ffmpeg_not_found os =
     ''ffmpeg not found on PATH or under $DROIDCLI_FFMPEG_ROOT/bin - install it ''
     @ ''(e.g. `winget install ffmpeg` on Windows) or set DROIDCLI_FFMPEG_ROOT to a ''
     @ ''prefix with a bin/'' @ ffmpeg_binary_name os @ '' in it.''"

text \<open>\<open>Inl\<close> is the error message.\<close>

definition resolve_ffmpeg :: "'w os \<Rightarrow> 'w \<Rightarrow> string + string" where
  "resolve_ffmpeg os w =
     (let on_path = which_executable os ''ffmpeg'' w
      in if wr_ok on_path then Inr (wr_resolved_path on_path)
         else
           (case os_getenv os ''DROIDCLI_FFMPEG_ROOT'' w of
              None \<Rightarrow> Inl (ffmpeg_not_found os)
            | Some ffmpeg_root \<Rightarrow>
                (let candidate = fs_join os (fs_join os ffmpeg_root ''bin'') (ffmpeg_binary_name os)
                 in if ffmpeg_root \<noteq> [] \<and> is_executable_file os w candidate
                    then Inr (absolute_or_empty os candidate w)
                    else Inl (ffmpeg_not_found os))))"

definition run_ffmpeg :: "'w os \<Rightarrow> string \<Rightarrow> string \<Rightarrow> int \<Rightarrow> 'w \<Rightarrow> command_run_result \<times> 'w" where
  "run_ffmpeg os args work_dir timeout_ms w =
     (case resolve_ffmpeg os w of
        Inl message \<Rightarrow> (empty_run_result\<lparr>rr_error_message := message\<rparr>, w)
      | Inr path \<Rightarrow> os_run_command_once os ([quot] @ path @ [quot, blank] @ args) work_dir timeout_ms False w)"

definition run_ffmpeg_json :: "'w os \<Rightarrow> string \<Rightarrow> 'w host \<Rightarrow> (cpp_exception + string) \<times> 'w host" where
  "run_ffmpeg_json os body h =
     (let requested_args = extract_json_string_field body ''args'' 0;
          work_dir = extract_json_string_field body ''work_dir'' 0
      in case int32_field body ''timeout_ms'' 120000 of
           Inl e \<Rightarrow> (Inl e, h)
         | Inr timeout_ms \<Rightarrow>
             (if requested_args = [] then (Inr (not_launched_json ''missing args''), h)
              else if looks_like_placeholder_path requested_args then
                (Inr (not_launched_json (placeholder_command_error (desktop h))), h)
              else
                (let args = substitute_bare_desktop_token requested_args (desktop h);
                     effective_work_dir = resolve_work_dir_or_desktop (desktop h) work_dir
                 in case sense (run_ffmpeg os args effective_work_dir timeout_ms) h of (result, h1) \<Rightarrow>
                   (Inr (run_report ''resolved_args'' ''ffmpeg'' requested_args args work_dir effective_work_dir result),
                    append_app_log os ''ffmpeg'' ''out'' args (command_succeeded result) [] h1))))"

end
