(* ===== verification/Host_Launch.thy ===== *)
theory Host_Launch imports Complex_Main Host_Commands begin

text \<open>
  Opening applications (\<open>cli/host.cpp\<close>): the trust-ordered resolution of a name to a target, the
  check and rewriting of a gated call before the user is asked, and the launch. Resolution reads
  the world and does not change it.
\<close>

text \<open>\<open>looks_like_path\<close> of \<open>cli/command_runner.cpp\<close>.\<close>

definition looks_like_path :: "string \<Rightarrow> bool" where
  "looks_like_path v \<longleftrightarrow> contains v [bslash] \<or> contains v [slash]"

record resolved_target =
  rt_resolved :: bool
  rt_target :: string
  rt_effective_args :: string
  rt_source :: string
  rt_display_name :: string
  rt_error_message :: string

definition target_found :: "string \<Rightarrow> string \<Rightarrow> string \<Rightarrow> string \<Rightarrow> resolved_target" where
  "target_found target args source display_name =
     \<lparr>rt_resolved = True, rt_target = target, rt_effective_args = args, rt_source = source,
      rt_display_name = display_name, rt_error_message = []\<rparr>"

definition target_missing :: "string \<Rightarrow> string \<Rightarrow> string \<Rightarrow> resolved_target" where
  "target_missing path_or_name args message =
     \<lparr>rt_resolved = False, rt_target = path_or_name, rt_effective_args = args, rt_source = [],
      rt_display_name = [], rt_error_message = message\<rparr>"

definition unresolved_error :: "string \<Rightarrow> string" where
  "unresolved_error path_or_name =
     [CHR 0x27] @ path_or_name @ [CHR 0x27] @ '' could not be resolved to a real, existing ''
     @ ''executable via the Windows App Paths registry, the installed-apps index, droidcli's ''
     @ ''built-in knowledge of Windows locations (call list_windows_locations to see what it ''
     @ ''knows), or a PATH search. Ask the user for the exact executable name or full path ''
     @ ''rather than guessing.''"

definition missing_path_error :: "string \<Rightarrow> string" where
  "missing_path_error path_or_name =
     [CHR 0x27] @ path_or_name @ [CHR 0x27] @ '' does not exist. Ask the user for the exact ''
     @ ''executable name or full path rather than guessing.''"

definition missing_location_error :: "string \<Rightarrow> string \<Rightarrow> string" where
  "missing_location_error display_name path_or_name =
     [CHR 0x27] @ display_name @ [CHR 0x27] @ '' (matched from '' @ [CHR 0x27] @ path_or_name @ [CHR 0x27]
     @ '') could not be found in the Windows system directory - this may indicate a damaged ''
     @ ''Windows installation. Ask the user for the exact executable name or full path instead.''"

definition resolve_open_application_target :: "'w os \<Rightarrow> string \<Rightarrow> string \<Rightarrow> 'w host \<Rightarrow> resolved_target" where
  "resolve_open_application_target os path_or_name args h =
     (let w = h_world h
      in if looks_like_path path_or_name then
           (if is_executable_file os w path_or_name
            then target_found (absolute_or_empty os path_or_name w) args ''given_path'' []
            else target_missing path_or_name args (missing_path_error path_or_name))
         else
           (let registry_path = os_app_paths_registry os path_or_name w
            in if registry_path \<noteq> [] then target_found registry_path args ''app_paths_registry'' []
               else
                 (let indexed_path = find_installed_app_match (h_installed_apps h) path_or_name
                  in if indexed_path \<noteq> [] then target_found indexed_path args ''installed_apps_index'' []
                     else
                       (case find_known_windows_target path_or_name (h_windows_locations h) of
                          Some t \<Rightarrow>
                            (let system_path = os_system_executable os (wk_path_or_name t) w
                             in if system_path = []
                                then target_missing path_or_name args (missing_location_error (wk_display_name t) path_or_name)
                                else target_found system_path (if args = [] then wk_args t else args)
                                       ''windows_known_location'' (wk_display_name t))
                        | None \<Rightarrow>
                            (let which_result = which_executable os path_or_name w
                             in if wr_ok which_result
                                then target_found (wr_resolved_path which_result) args ''path_search'' []
                                else target_missing path_or_name args (unresolved_error path_or_name))))))"

section \<open>Before the user is asked\<close>

definition placeholder_gated_error :: "string \<Rightarrow> string" where
  "placeholder_gated_error desktop_path =
     ''this references a placeholder path (e.g. '' @ [quot] @ ''path/to/...'' @ [quot] @ '') instead of a real one - ''
     @ ''the real Desktop path is '' @ desktop_path @ '', use that exact path (or a ''
     @ ''bare relative filename, which already defaults to the Desktop) instead of a placeholder''"

definition launch_failure_json :: "string \<Rightarrow> string" where
  "launch_failure_json message = json_object
     [json_bool_field ''ok'' False, json_bool_field ''launched'' False, json_int_field ''pid'' 0,
      json_string_field ''resolved_path'' [], json_string_field ''resolution_source'' [], json_string_field ''error'' message]"

definition resolved_arguments :: "resolved_target \<Rightarrow> string \<Rightarrow> string" where
  "resolved_arguments t work_dir = json_object
     ([json_string_field ''path_or_name'' (rt_target t), json_string_field ''args'' (rt_effective_args t),
       json_string_field ''work_dir'' work_dir]
      @ (if rt_display_name t \<noteq> [] then [json_string_field ''resolved_display_name'' (rt_display_name t)] else []))"

text \<open>\<open>Inr\<close> is the call to show and run, \<open>Inl\<close> the result of one that is not proposed.\<close>

definition precheck_and_resolve_gated_call :: "'w os \<Rightarrow> tool_call \<Rightarrow> 'w host \<Rightarrow> string + tool_call" where
  "precheck_and_resolve_gated_call os call h =
     (let arguments = call_arguments_json call
      in if call_name call = ''run_command'' \<or> call_name call = ''run_ffmpeg'' then
           (let command_text = extract_json_string_field arguments
                  (if call_name call = ''run_ffmpeg'' then ''args'' else ''command'') 0
            in if looks_like_placeholder_path command_text
               then Inl (not_launched_json (placeholder_gated_error (desktop h)))
               else
                 (let requested = extract_json_string_field arguments ''work_dir'' 0;
                      resolved = resolve_work_dir_or_desktop (desktop h) requested
                  in if resolved \<noteq> requested \<and> requested \<noteq> []
                     then Inr (call\<lparr>call_arguments_json := replace_json_string_field_value arguments ''work_dir'' resolved\<rparr>)
                     else Inr call))
         else if call_name call \<noteq> ''open_application'' then Inr call
         else
           (let path_or_name = extract_json_string_field arguments ''path_or_name'' 0;
                args = extract_json_string_field arguments ''args'' 0;
                work_dir = extract_json_string_field arguments ''work_dir'' 0
            in if path_or_name = [] then Inr call
               else
                 (let t = resolve_open_application_target os path_or_name args h
                  in if \<not> rt_resolved t then Inl (launch_failure_json (rt_error_message t))
                     else Inr (call\<lparr>call_arguments_json := resolved_arguments t work_dir\<rparr>))))"

section \<open>The launch\<close>

definition open_application :: "'w os \<Rightarrow> string \<Rightarrow> 'w host \<Rightarrow> string \<times> 'w host" where
  "open_application os body h =
     (let path_or_name = extract_json_string_field body ''path_or_name'' 0;
          args = extract_json_string_field body ''args'' 0;
          work_dir = extract_json_string_field body ''work_dir'' 0;
          passthrough = extract_json_string_field body ''resolved_display_name'' 0
      in if path_or_name = [] then
           (json_object [json_bool_field ''launched'' False, json_int_field ''pid'' 0,
              json_string_field ''error'' ''missing path_or_name''], h)
         else
           (let t = resolve_open_application_target os path_or_name args h
            in case (if rt_resolved t then sense (os_launch_application os (rt_target t) (rt_effective_args t) work_dir) h
                     else (empty_launch\<lparr>la_error_message := rt_error_message t\<rparr>, h)) of
                 (result, h1) \<Rightarrow>
                   (let display_name = (if passthrough \<noteq> [] then passthrough else rt_display_name t)
                    in (json_object
                          ([json_bool_field ''ok'' (la_launched result), json_bool_field ''launched'' (la_launched result),
                            json_int_field ''pid'' (la_pid result), json_string_field ''resolved_path'' (la_resolved_path result),
                            json_string_field ''resolution_source'' (rt_source t),
                            json_string_field ''error'' (la_error_message result)]
                           @ (if display_name \<noteq> [] then [json_string_field ''resolved_display_name'' display_name] else [])),
                        append_app_log os ''open'' ''out'' path_or_name (la_launched result) [] h1))))"

definition application_json :: "installed_app \<Rightarrow> string" where
  "application_json a = json_object [json_string_field ''name'' (ia_name a), json_string_field ''path'' (ia_path a)]"

definition find_applications_json :: "string \<Rightarrow> 'w host \<Rightarrow> string" where
  "find_applications_json body h =
     (let q = normalize_for_match (extract_json_string_field body ''query'' 0)
      in json_object
        [json_bool_field ''ok'' True,
         json_array_field ''matches'' (map application_json
           (filter (\<lambda>a. q = [] \<or> contains (normalize_for_match (ia_name a)) q) (h_installed_apps h)))])"

definition window_json :: "open_window \<Rightarrow> string" where
  "window_json v = json_object
     [json_string_field ''title'' (ow_title v), json_string_field ''process_name'' (ow_process_name v),
      json_int_field ''pid'' (ow_pid v)]"

definition list_open_windows_json :: "'w os \<Rightarrow> 'w host \<Rightarrow> string" where
  "list_open_windows_json os h = json_object
     [json_bool_field ''ok'' True, json_array_field ''windows'' (map window_json (os_open_windows os (h_world h)))]"

end
