(* ===== verification/Host_Files.thy ===== *)
theory Host_Files imports Complex_Main Host_Commands begin

text \<open>
  The file and clipboard tools of \<open>DroidHost\<close> (\<open>cli/host.cpp\<close>): every path is refused as a
  placeholder, moved to the real Desktop, or refused as an invented one before the operation of
  \<open>Filesystem_Tools\<close> sees it, and each change is checked with a fresh look afterwards.
\<close>

section \<open>Guards\<close>

definition resolve_path :: "string \<Rightarrow> string \<Rightarrow> string" where
  "resolve_path desktop_path path =
     default_bare_filename_to_desktop (substitute_bare_desktop_token path desktop_path) desktop_path"

definition placeholder_path_error :: "string \<Rightarrow> string \<Rightarrow> string \<Rightarrow> string" where
  "placeholder_path_error example place what =
     ''this looks like a placeholder path (e.g. '' @ [quot] @ example @ [quot] @ ''), not a real one - ''
     @ ''call list_dir '' @ place @ '' first to find the real '' @ what @ '', ''
     @ ''then retry with that exact path''"

definition invented_path_error :: "string \<Rightarrow> string \<Rightarrow> string" where
  "invented_path_error who desktop_path =
     who @ '' its own '' @ [quot] @ ''desktop'' @ [quot] @ '' location instead of using the real one - ''
     @ ''the actual Desktop is '' @ desktop_path @ '', use that exact path''"

text \<open>The error of a path that is refused, or the path the operation works on.\<close>

definition guard_path :: "string \<Rightarrow> string \<Rightarrow> string \<Rightarrow> string + string" where
  "guard_path placeholder_error desktop_path path =
     (if looks_like_placeholder_path path then Inl placeholder_error
      else if looks_like_invented_desktop_path (resolve_path desktop_path path) desktop_path
        then Inl (invented_path_error ''this path invents'' desktop_path)
      else Inr (resolve_path desktop_path path))"

definition guard_paths :: "string \<Rightarrow> string \<Rightarrow> string \<Rightarrow> string \<Rightarrow> string + string \<times> string" where
  "guard_paths placeholder_error desktop_path a b =
     (if looks_like_placeholder_path a \<or> looks_like_placeholder_path b then Inl placeholder_error
      else if looks_like_invented_desktop_path (resolve_path desktop_path a) desktop_path
            \<or> looks_like_invented_desktop_path (resolve_path desktop_path b) desktop_path
        then Inl (invented_path_error ''one of these paths invents'' desktop_path)
      else Inr (resolve_path desktop_path a, resolve_path desktop_path b))"

section \<open>Reading\<close>

definition read_failure_json :: "string \<Rightarrow> string" where
  "read_failure_json message = json_object
     [json_bool_field ''ok'' False, json_string_field ''content'' [], json_int_field ''size_bytes'' 0,
      json_bool_field ''truncated'' False, json_string_field ''error'' message]"

definition read_placeholder_error :: string where
  "read_placeholder_error =
     ''this looks like a placeholder path (e.g. '' @ [quot] @ ''/Users/username/...'' @ [quot] @ ''), not a real one - ''
     @ ''call list_dir on the actual directory (or get_system_info for the real username/''
     @ ''Desktop path) first, then retry with that exact path''"

definition read_file :: "'w os \<Rightarrow> string \<Rightarrow> 'w host \<Rightarrow> (cpp_exception + string) \<times> 'w host" where
  "read_file os body h =
     (let path = extract_json_string_field body ''path'' 0
      in case int32_field body ''max_bytes'' 65536 of
           Inl e \<Rightarrow> (Inl e, h)
         | Inr max_bytes \<Rightarrow>
             (case guard_path read_placeholder_error (desktop h) path of
                Inl message \<Rightarrow> (Inr (read_failure_json message), h)
              | Inr resolved_path \<Rightarrow>
                  (let result = fs_read_file os resolved_path max_bytes (h_world h)
                   in (Inr (json_object
                         ([json_bool_field ''ok'' (fr_ok result), json_string_field ''content'' (fr_content result),
                           json_int_field ''size_bytes'' (fr_size_bytes result),
                           json_bool_field ''truncated'' (fr_truncated result),
                           json_string_field ''error'' (fr_error_message result)]
                          @ (if resolved_path \<noteq> path then [json_string_field ''resolved_path'' resolved_path] else []))),
                       append_app_log os ''fs'' ''in'' (''read '' @ resolved_path) (fr_ok result) [] h))))"

definition dir_entry_json :: "string \<times> bool \<times> int \<Rightarrow> string" where
  "dir_entry_json e =
     (case e of (name, is_dir, size_bytes) \<Rightarrow>
        json_object [json_string_field ''name'' name, json_bool_field ''is_dir'' is_dir, json_int_field ''size_bytes'' size_bytes])"

text \<open>Without a current directory the throwing \<open>current_path()\<close> ends the call.\<close>

definition list_dir :: "'w os \<Rightarrow> string \<Rightarrow> 'w host \<Rightarrow> (cpp_exception + string) \<times> 'w host" where
  "list_dir os body h =
     (let path = extract_json_string_field body ''path'' 0
      in case fs_list_dir os path (h_world h) of
           None \<Rightarrow> (Inl FilesystemError, h)
         | Some result \<Rightarrow>
             (Inr (json_object
                [json_bool_field ''ok'' (ld_ok result), json_array_field ''entries'' (map dir_entry_json (ld_entries result)),
                 json_string_field ''error'' (ld_error_message result)]),
              append_app_log os ''fs'' ''in'' (''list '' @ (if path = [] then ''.'' else path)) (ld_ok result) [] h))"

definition stat_path :: "'w os \<Rightarrow> string \<Rightarrow> 'w host \<Rightarrow> string" where
  "stat_path os body h =
     (let result = fs_stat_path os (extract_json_string_field body ''path'' 0) (h_world h)
      in json_object
        [json_bool_field ''ok'' (st_ok result), json_bool_field ''exists'' (st_exists result),
         json_bool_field ''is_dir'' (st_is_dir result), json_bool_field ''is_file'' (st_is_file result),
         json_int_field ''size_bytes'' (st_size_bytes result), json_string_field ''error'' (st_error_message result)])"

definition get_cwd_json :: "'w os \<Rightarrow> 'w host \<Rightarrow> string" where
  "get_cwd_json os h = json_object
     [json_bool_field ''ok'' True, json_string_field ''cwd'' (get_current_working_directory os (h_world h))]"

definition which_executable_json :: "'w os \<Rightarrow> string \<Rightarrow> 'w host \<Rightarrow> string" where
  "which_executable_json os body h =
     (let result = which_executable os (extract_json_string_field body ''name'' 0) (h_world h)
      in json_object
        [json_bool_field ''ok'' (wr_ok result), json_string_field ''path'' (wr_resolved_path result),
         json_string_field ''error'' (wr_error_message result)])"

section \<open>Changing files\<close>

definition file_placeholder_error :: string where
  "file_placeholder_error = placeholder_path_error ''/path/to/...'' ''or stat_path on the actual directory'' ''file''"

definition mismatched_content_error :: string where
  "mismatched_content_error =
     ''the path looks like a real image/media file, but the content does not start with ''
     @ ''that format'' @ [CHR 0x27] @ ''s actual file signature - write_file writes exact text, it cannot ''
     @ ''generate real binary image/media data. Use run_ffmpeg to actually create an image ''
     @ ''or media file, then write_file for text files only''"

definition write_file :: "'w os \<Rightarrow> string \<Rightarrow> 'w host \<Rightarrow> string \<times> 'w host" where
  "write_file os body h =
     (let path = extract_json_string_field body ''path'' 0;
          content = extract_json_string_field body ''content'' 0;
          append_mode = (case extract_json_bool_field body ''append'' 0 of Some b \<Rightarrow> b | None \<Rightarrow> False)
      in case guard_path (placeholder_path_error ''/path/to/...'' ''or stat_path on the actual directory'' ''location'')
                (desktop h) path of
           Inl message \<Rightarrow> (refusal message, h)
         | Inr resolved_path \<Rightarrow>
             (if looks_like_mismatched_binary_content resolved_path content then (refusal mismatched_content_error, h)
              else
                (case sense (fs_write_file os resolved_path content append_mode) h of (result, h1) \<Rightarrow>
                   (let h2 = append_app_log os ''fs'' ''out''
                          ((if append_mode then ''append '' else ''write '') @ resolved_path) (fw_ok result) [] h1;
                        verification = fs_stat_path os resolved_path (h_world h2)
                    in (json_object
                          ([json_bool_field ''ok'' (fw_ok result), json_int_field ''bytes_written'' (fw_bytes_written result),
                            json_string_field ''error'' (fw_error_message result)]
                           @ (if resolved_path \<noteq> path then [json_string_field ''resolved_path'' resolved_path] else [])
                           @ (if fw_ok result then
                                [json_bool_field ''verified_exists''
                                   (st_ok verification \<and> st_exists verification \<and> st_is_file verification),
                                 json_int_field ''verified_size_bytes'' (st_size_bytes verification)]
                              else [])), h2)))))"

text \<open>The members of a copy's or a move's report that say where it really went.\<close>

definition resolved_pair :: "string \<Rightarrow> string \<Rightarrow> string \<Rightarrow> string \<Rightarrow> string list" where
  "resolved_pair source_path destination_path resolved_source resolved_destination =
     (if resolved_source \<noteq> source_path \<or> resolved_destination \<noteq> destination_path then
        [json_string_field ''resolved_source_path'' resolved_source,
         json_string_field ''resolved_destination_path'' resolved_destination]
      else [])"

definition copy_file_json :: "'w os \<Rightarrow> string \<Rightarrow> 'w host \<Rightarrow> string \<times> 'w host" where
  "copy_file_json os body h =
     (let source_path = extract_json_string_field body ''source_path'' 0;
          destination_path = extract_json_string_field body ''destination_path'' 0
      in case guard_paths file_placeholder_error (desktop h) source_path destination_path of
           Inl message \<Rightarrow> (refusal message, h)
         | Inr (resolved_source, resolved_destination) \<Rightarrow>
             (case sense (fs_copy os resolved_source resolved_destination) h of (result, h1) \<Rightarrow>
                (let h2 = append_app_log os ''fs'' ''out''
                       (''copy '' @ resolved_source @ '' -> '' @ resolved_destination) (fo_ok result) [] h1;
                     verification = fs_stat_path os resolved_destination (h_world h2)
                 in (json_object
                       ([json_bool_field ''ok'' (fo_ok result), json_string_field ''error'' (fo_error_message result)]
                        @ resolved_pair source_path destination_path resolved_source resolved_destination
                        @ (if fo_ok result then
                             [json_bool_field ''verified_exists''
                                (st_ok verification \<and> st_exists verification \<and> st_is_file verification),
                              json_int_field ''verified_size_bytes'' (st_size_bytes verification)]
                           else [])), h2))))"

definition move_path_json :: "'w os \<Rightarrow> string \<Rightarrow> 'w host \<Rightarrow> string \<times> 'w host" where
  "move_path_json os body h =
     (let source_path = extract_json_string_field body ''source_path'' 0;
          destination_path = extract_json_string_field body ''destination_path'' 0
      in case guard_paths file_placeholder_error (desktop h) source_path destination_path of
           Inl message \<Rightarrow> (refusal message, h)
         | Inr (resolved_source, resolved_destination) \<Rightarrow>
             (case sense (fs_move_path os resolved_source resolved_destination) h of (result, h1) \<Rightarrow>
                (let h2 = append_app_log os ''fs'' ''out''
                       (''move '' @ resolved_source @ '' -> '' @ resolved_destination) (fo_ok result) [] h1;
                     destination_check = fs_stat_path os resolved_destination (h_world h2);
                     source_check = fs_stat_path os resolved_source (h_world h2)
                 in (json_object
                       ([json_bool_field ''ok'' (fo_ok result), json_string_field ''error'' (fo_error_message result)]
                        @ resolved_pair source_path destination_path resolved_source resolved_destination
                        @ (if fo_ok result then
                             [json_bool_field ''verified_exists'' (st_ok destination_check \<and> st_exists destination_check),
                              json_bool_field ''verified_source_removed'' (st_ok source_check \<and> \<not> st_exists source_check)]
                           else [])), h2))))"

definition delete_file_json :: "'w os \<Rightarrow> string \<Rightarrow> 'w host \<Rightarrow> string \<times> 'w host" where
  "delete_file_json os body h =
     (let path = extract_json_string_field body ''path'' 0
      in case guard_path file_placeholder_error (desktop h) path of
           Inl message \<Rightarrow> (refusal message, h)
         | Inr resolved_path \<Rightarrow>
             (case sense (fs_delete_file os resolved_path) h of (result, h1) \<Rightarrow>
                (let h2 = append_app_log os ''fs'' ''out'' (''delete '' @ resolved_path) (fo_ok result) [] h1;
                     verification = fs_stat_path os resolved_path (h_world h2)
                 in (json_object
                       ([json_bool_field ''ok'' (fo_ok result), json_string_field ''error'' (fo_error_message result)]
                        @ (if resolved_path \<noteq> path then [json_string_field ''resolved_path'' resolved_path] else [])
                        @ (if fo_ok result then
                             [json_bool_field ''verified_deleted'' (st_ok verification \<and> \<not> st_exists verification)]
                           else [])), h2))))"

definition create_directory_json :: "'w os \<Rightarrow> string \<Rightarrow> 'w host \<Rightarrow> string \<times> 'w host" where
  "create_directory_json os body h =
     (let path = extract_json_string_field body ''path'' 0
      in case guard_path (placeholder_path_error ''/path/to/...'' ''or stat_path on the actual parent directory'' ''location'')
                (desktop h) path of
           Inl message \<Rightarrow> (refusal message, h)
         | Inr resolved_path \<Rightarrow>
             (case sense (fs_create_directory os resolved_path) h of (result, h1) \<Rightarrow>
                (let h2 = append_app_log os ''fs'' ''out'' (''mkdir '' @ resolved_path) (fo_ok result) [] h1;
                     verification = fs_stat_path os resolved_path (h_world h2)
                 in (json_object
                       ([json_bool_field ''ok'' (fo_ok result), json_string_field ''error'' (fo_error_message result)]
                        @ (if resolved_path \<noteq> path then [json_string_field ''resolved_path'' resolved_path] else [])
                        @ (if fo_ok result then
                             [json_bool_field ''verified_is_directory''
                                (st_ok verification \<and> st_exists verification \<and> st_is_dir verification)]
                           else [])), h2))))"

section \<open>The clipboard\<close>

definition read_clipboard_json :: "'w os \<Rightarrow> 'w host \<Rightarrow> string \<times> 'w host" where
  "read_clipboard_json os h =
     (case sense (os_clipboard_read os) h of (result, h1) \<Rightarrow>
        (json_object [json_bool_field ''ok'' (cb_ok result), json_string_field ''text'' (cb_text result),
           json_string_field ''error'' (cb_error_message result)], h1))"

definition write_clipboard_json :: "'w os \<Rightarrow> string \<Rightarrow> 'w host \<Rightarrow> string \<times> 'w host" where
  "write_clipboard_json os body h =
     (let t = extract_json_string_field body ''text'' 0
      in case sense (os_clipboard_write os t) h of (result, h1) \<Rightarrow>
           (let h2 = append_app_log os ''clipboard'' ''out''
                  (''wrote '' @ to_string (int (length t)) @ '' chars to clipboard'') (cw_ok result) [] h1
            in case (if cw_ok result then
                       (case sense (os_clipboard_read os) h2 of (v, h3) \<Rightarrow> (cb_ok v \<and> cb_text v = t, h3))
                     else (False, h2)) of
                 (verified_matches, h3) \<Rightarrow>
                   (json_object [json_bool_field ''ok'' (cw_ok result), json_string_field ''error'' (cw_error_message result),
                      json_bool_field ''verified_matches'' verified_matches], h3)))"

end
