(* ===== verification/Host_Tasks.thy ===== *)
theory Host_Tasks imports Complex_Main Host_Commands App_State begin

text \<open>
  Connectors and the background tasks of \<open>DroidHost\<close> (\<open>cli/host.cpp\<close>), and the tools that write
  to the agent's memory. Launched processes belong to the process manager, which is part of the
  world.
\<close>

section \<open>Connectors\<close>

definition set_connectors :: "connector_registry \<Rightarrow> 'w host \<Rightarrow> 'w host" where
  "set_connectors r h = h\<lparr>h_connectors := r\<rparr>"

definition register_connector_body :: "string \<Rightarrow> 'w host \<Rightarrow> string \<times> 'w host" where
  "register_connector_body body h =
     (case host_register_connector body (h_connectors h) of (response, r) \<Rightarrow> (response, set_connectors r h))"

definition host_unregister_connector :: "string \<Rightarrow> 'w host \<Rightarrow> bool \<times> 'w host" where
  "host_unregister_connector connector_id h =
     (case unregister_connector connector_id (h_connectors h) of (ok, r) \<Rightarrow> (ok, set_connectors r h))"

definition list_connectors_json :: "'w host \<Rightarrow> string" where
  "list_connectors_json h = build_connectors_json (list_connectors (h_connectors h))"

definition success_refusal :: "string \<Rightarrow> string" where
  "success_refusal message = json_object [json_bool_field ''success'' False, json_string_field ''error'' message]"

definition ok_error_json :: "bool \<Rightarrow> string \<Rightarrow> string" where
  "ok_error_json ok err = json_object [json_bool_field ''ok'' ok, json_string_field ''error'' err]"

definition connector_status_json :: "'w os \<Rightarrow> string \<Rightarrow> 'w host \<Rightarrow> string \<times> 'w host" where
  "connector_status_json os connector_id h =
     (case find_connector (h_connectors h) connector_id of
        None \<Rightarrow> (refusal ''unknown connector'', h)
      | Some c \<Rightarrow>
          if con_kind c = ''launched_process'' then
            (case sense (os_process_snapshot os) h of (processes, h1) \<Rightarrow>
               (case find (\<lambda>p. pi_key p = con_id c) processes of
                  Some p \<Rightarrow>
                    (json_object [json_bool_field ''ok'' True, json_string_field ''kind'' (con_kind c),
                       json_int_field ''pid'' (pi_pid p), json_bool_field ''running'' (pi_running p),
                       json_string_field ''status'' (pi_status_text p)], h1)
                | None \<Rightarrow>
                    (json_object [json_bool_field ''ok'' True, json_string_field ''kind'' (con_kind c),
                       json_bool_field ''running'' False, json_string_field ''status'' ''not launched''], h1)))
          else
            (case sense (os_http_get os (join_url (con_base_url c) ''/health'')) h of ((transport_ok, status_code, body), h1) \<Rightarrow>
               (json_object [json_bool_field ''ok'' True, json_string_field ''kind'' (con_kind c),
                  json_bool_field ''online'' (transport_ok \<and> status_code \<ge> 200 \<and> status_code < 300),
                  json_string_field ''base_url'' (con_base_url c)], h1)))"

definition launch_connector :: "'w os \<Rightarrow> string \<Rightarrow> 'w host \<Rightarrow> string \<times> 'w host" where
  "launch_connector os connector_id h =
     (case find_connector (h_connectors h) connector_id of
        None \<Rightarrow> (success_refusal ''unknown connector'', h)
      | Some c \<Rightarrow>
          if con_kind c \<noteq> ''launched_process'' then (success_refusal ''connector is not a launched_process'', h)
          else
            (case sense (os_process_launch os (con_id c) (con_id c) (con_work_dir c) (con_launch_cmd c)) h of ((ok, err), h1) \<Rightarrow>
               (ok_error_json ok err,
                append_app_log os ''process'' ''out''
                  (if ok then ''launched connector: '' @ con_id c else ''launch failed: '' @ err) ok [] h1)))"

definition stop_connector :: "'w os \<Rightarrow> string \<Rightarrow> 'w host \<Rightarrow> string \<times> 'w host" where
  "stop_connector os connector_id h =
     (case sense (os_process_stop os connector_id) h of ((ok, err), h1) \<Rightarrow>
        (ok_error_json ok err,
         append_app_log os ''process'' ''out''
           (if ok then ''stopped connector: '' @ connector_id else ''stop failed: '' @ err) ok [] h1))"

definition call_connector :: "'w os \<Rightarrow> string \<Rightarrow> string \<Rightarrow> string \<Rightarrow> string \<Rightarrow> 'w host \<Rightarrow> string \<times> 'w host" where
  "call_connector os connector_id path call_method body h =
     (case find_connector (h_connectors h) connector_id of
        None \<Rightarrow> (refusal ''unknown connector'', h)
      | Some c \<Rightarrow>
          if con_kind c \<noteq> ''http_peer'' then (refusal ''connector is not an http_peer'', h)
          else if \<not> con_enabled c then (refusal ''connector is disabled'', h)
          else
            (let url = join_url (con_base_url c) path
             in case sense (if call_method = ''GET'' then os_http_get os url else os_http_post os url body []) h of
                  ((transport_ok, status_code, response_body), h1) \<Rightarrow>
                    (let h2 = append_app_log os ''connector'' ''out'' (call_method @ '' '' @ con_id c @ path) transport_ok [] h1
                     in if \<not> transport_ok then (refusal ''connector unreachable'', h2)
                        else (if response_body = [] then [lbrace, rbrace] else response_body, h2))))"

section \<open>Tasks\<close>

text \<open>The queue reads the clock in \<open>enqueue\<close>, for the id and for the times, and in each update.\<close>

definition enqueue_task :: "'w os \<Rightarrow> string \<Rightarrow> 'w host \<Rightarrow> (cpp_exception + string) \<times> 'w host" where
  "enqueue_task os body h =
     (case sense (os_now_ms os) h of (now, h1) \<Rightarrow>
        (case parse_task_request_from_json now body of
           Inl e \<Rightarrow> (Inl e, h1)
         | Inr (Inl err) \<Rightarrow> (Inr (refusal err), h1)
         | Inr (Inr t) \<Rightarrow>
             (case sense (os_now_ms os) h1 of (id_clock, h2) \<Rightarrow>
                (case sense (os_now_ms os) h2 of (created, h3) \<Rightarrow>
                   (case enqueue id_clock created t (h_tasks h3) of (tid, q) \<Rightarrow>
                      (Inr (json_object [json_bool_field ''ok'' True, json_string_field ''id'' tid,
                         json_int_field ''scheduled_for_ms'' (task_scheduled_for_ms t)]),
                       h3\<lparr>h_tasks := q\<rparr>))))))"

definition list_tasks_json :: "'w host \<Rightarrow> string" where
  "list_tasks_json h = build_tasks_json (list_tasks (h_tasks h))"

definition task_status_json :: "string \<Rightarrow> 'w host \<Rightarrow> string" where
  "task_status_json tid h =
     (case find_task (h_tasks h) tid of None \<Rightarrow> refusal ''unknown task'' | Some t \<Rightarrow> build_task_json t)"

definition cancel_task_json :: "'w os \<Rightarrow> string \<Rightarrow> 'w host \<Rightarrow> string \<times> 'w host" where
  "cancel_task_json os tid h =
     (case find_task (h_tasks h) tid of
        None \<Rightarrow> (refusal ''unknown task'', h)
      | Some _ \<Rightarrow>
          (case sense (os_now_ms os) h of (now, h1) \<Rightarrow>
             (case cancel now tid (h_tasks h1) of (cancelled, q) \<Rightarrow>
                (if \<not> cancelled then (refusal ''task is already in a terminal state'', h1\<lparr>h_tasks := q\<rparr>)
                 else (json_object [json_bool_field ''ok'' True], h1\<lparr>h_tasks := q\<rparr>)))))"

text \<open>What a claimed task did: whether it succeeded, the error and the result to record.\<close>

definition dispatch_task :: "'w os \<Rightarrow> task \<Rightarrow> 'w host \<Rightarrow> (cpp_exception + bool \<times> string \<times> string) \<times> 'w host" where
  "dispatch_task os t h =
     (if task_command t = ''run'' then
        bindE (run_command os (task_payload_json t))
          (\<lambda>run_result s.
             (let success = contains run_result (json_bool_field ''launched'' True)
              in (Inr (success, if success then [] else run_result, run_result), s))) h
      else if task_command t = ''launch'' \<and> task_connector_id t \<noteq> [] then
        (case launch_connector os (task_connector_id t) h of (result, h1) \<Rightarrow>
           (let success = contains result (json_bool_field ''success'' True)
            in (Inr (success, if success then [] else ''launch_connector failed'', []), h1)))
      else if task_command t = ''stop'' \<and> task_connector_id t \<noteq> [] then
        (case stop_connector os (task_connector_id t) h of (result, h1) \<Rightarrow>
           (let success = contains result (json_bool_field ''success'' True)
            in (Inr (success, if success then [] else ''stop_connector failed'', []), h1)))
      else if task_connector_id t \<noteq> [] then
        (case call_connector os (task_connector_id t) (task_command t) ''POST'' (task_payload_json t) h of (result, h1) \<Rightarrow>
           (let success = (\<not> contains result (json_bool_field ''ok'' False))
            in (Inr (success, if success then [] else result, []), h1)))
      else (Inr (False, ''task has no connector_id and command is not launch/stop'', []), h))"

definition settle_task :: "'w os \<Rightarrow> task \<Rightarrow> bool \<times> string \<times> string \<Rightarrow> 'w host \<Rightarrow> 'w host" where
  "settle_task os t outcome h =
     (case outcome of (success, err, result_json) \<Rightarrow>
        (case sense (os_now_ms os) h of (now, h1) \<Rightarrow>
           (let h2 = h1\<lparr>h_tasks := snd (if success then complete now (task_id t) result_json (h_tasks h1)
                                    else fail now (task_id t) err (h_tasks h1))\<rparr>
            in append_app_log os ''task'' (task_command t)
                 (task_id t @ (if success then '' completed'' else '' failed: '' @ err)) success [] h2)))"

definition tick_tasks :: "'w os \<Rightarrow> 'w host \<Rightarrow> (cpp_exception + unit) \<times> 'w host" where
  "tick_tasks os h =
     (case sense (os_now_ms os) h of (now, h1) \<Rightarrow>
        (case claim_next now (h_tasks h1) of
           (None, q) \<Rightarrow> (Inr (), h1\<lparr>h_tasks := q\<rparr>)
         | (Some t, q) \<Rightarrow>
             bindE (dispatch_task os t) (\<lambda>outcome s. (Inr (), settle_task os t outcome s)) (h1\<lparr>h_tasks := q\<rparr>)))"

section \<open>Memory\<close>

text \<open>One statement against an open store: the clock, whether SQLite finished it, and the change.\<close>

definition run_statement ::
    "'w os \<Rightarrow> (bool \<Rightarrow> string \<Rightarrow> memory_store \<Rightarrow> bool \<times> memory_store) \<Rightarrow> 'w host \<Rightarrow> bool \<times> 'w host" where
  "run_statement os statement h =
     (if \<not> ms_is_open (h_memory_store h) then (False, h)
      else
        (case make_full_log_timestamp os h of (now, h1) \<Rightarrow>
           (case sense (os_sql_done os) h1 of (done, h2) \<Rightarrow>
              (case statement done now (h_memory_store h2) of (ok, m) \<Rightarrow> (ok, h2\<lparr>h_memory_store := m\<rparr>)))))"

definition record_command_fix_json :: "'w os \<Rightarrow> string \<Rightarrow> 'w host \<Rightarrow> string \<times> 'w host" where
  "record_command_fix_json os body h =
     (let tool = extract_json_string_field body ''tool'' 0;
          broken = extract_json_string_field body ''broken'' 0;
          failure_reason = extract_json_string_field body ''failure_reason'' 0;
          working = extract_json_string_field body ''working'' 0;
          lesson = extract_json_string_field body ''lesson'' 0
      in if tool = [] \<or> broken = [] \<or> working = [] \<or> lesson = [] then
           (refusal ''tool, broken, working, and lesson are all required'', h)
         else
           (case run_statement os (\<lambda>done now. record_lesson done now tool broken failure_reason working lesson) h of
              (ok, h1) \<Rightarrow>
                (json_object [json_bool_field ''ok'' ok],
                 append_app_log os ''lessons'' ''in'' (''recorded fix for '' @ tool @ '': '' @ lesson) ok [] h1)))"

definition remember_location_json :: "'w os \<Rightarrow> string \<Rightarrow> 'w host \<Rightarrow> string \<times> 'w host" where
  "remember_location_json os body h =
     (let name = extract_json_string_field body ''name'' 0;
          path = extract_json_string_field body ''path'' 0
      in if name = [] \<or> path = [] then (refusal ''name and path are both required'', h)
         else if looks_like_placeholder_path path then
           (refusal (''this looks like a placeholder path, not a real one - resolve it with list_dir/stat_path ''
              @ ''first, then remember the real path''), h)
         else
           (let resolved_path = substitute_bare_desktop_token path (desktop h);
                verification = fs_stat_path os resolved_path (h_world h)
            in if \<not> st_ok verification \<or> \<not> st_exists verification then
                 (refusal (''path does not exist - cannot remember a location that isn'' @ [CHR 0x27] @ ''t real: '' @ resolved_path), h)
               else
                 (case run_statement os (\<lambda>done now. remember_location done now name resolved_path) h of (ok, h1) \<Rightarrow>
                    (json_object
                       ([json_bool_field ''ok'' ok, json_string_field ''resolved_path'' resolved_path]
                        @ (if resolved_path \<noteq> path then [json_string_field ''original_path'' path] else [])),
                     append_app_log os ''locations'' ''in''
                       (''remembered '' @ [CHR 0x27] @ name @ [CHR 0x27] @ '' -> '' @ resolved_path) ok [] h1))))"

text \<open>A message joins the transcript and, if it can be stored, the session's log at the same index.\<close>

definition record_agent_message :: "'w os \<Rightarrow> string \<Rightarrow> chat_role \<Rightarrow> string \<Rightarrow> 'w host \<Rightarrow> 'w host" where
  "record_agent_message os session_id role content h =
     (let h1 = h\<lparr>h_agent_transcript := h_agent_transcript h @ [\<lparr>msg_role = role, msg_content = content\<rparr>]\<rparr>;
          hop_index = int (length (h_agent_transcript h1)) - 1
      in snd (run_statement os (\<lambda>done now. memory_append done now session_id hop_index (chat_role_to_string role) content) h1))"

definition delete_agent_session_json :: "'w os \<Rightarrow> string \<Rightarrow> 'w host \<Rightarrow> string \<times> 'w host" where
  "delete_agent_session_json os body h =
     (let requested = extract_json_string_field body ''session_id'' 0;
          target = (if requested = [] then h_current_session_id h else requested)
      in case (if \<not> ms_is_open (h_memory_store h) then (False, h)
               else (case sense (os_sql_done os) h of (done, h1) \<Rightarrow>
                  (case delete_session done target (h_memory_store h1) of (ok, m) \<Rightarrow> (ok, h1\<lparr>h_memory_store := m\<rparr>)))) of
           (ok, h2) \<Rightarrow>
             (case (if target = h_current_session_id h2 then
                      (case generate_session_id os (h2\<lparr>h_agent_transcript := []\<rparr>) of (fresh, h3) \<Rightarrow>
                         (fresh, h3\<lparr>h_current_session_id := fresh\<rparr>))
                    else ([], h2)) of
                (new_session_id, h4) \<Rightarrow>
                  (json_object
                     ([json_bool_field ''ok'' ok, json_string_field ''session_id'' target]
                      @ (if new_session_id \<noteq> [] then [json_string_field ''new_session_id'' new_session_id] else [])),
                   append_app_log os ''chat'' ''out'' (''deleted session '' @ target) ok [] h4)))"

end
