(* ===== verification/Agent_Tools.thy ===== *)
theory Agent_Tools imports Complex_Main Agent_Schemas Host_Status Host_Launch Host_Files Host_Tasks begin

text \<open>
  The agent's tool set (\<open>cli/host.cpp\<close>, \<open>agent_tool_definitions\<close> and \<open>execute_agent_tool\<close>): the
  definitions offered to the model (\<open>Agent_Schemas\<close>) as JSON, and what each tool runs.
\<close>

definition agent_tool_json :: "tool_definition \<Rightarrow> string" where
  "agent_tool_json t = json_object
     [json_string_field ''name'' (tool_name t), json_string_field ''description'' (tool_description t),
      needle ''parameters'' @ (if tool_parameters_json_schema t = [] then [lbrace, rbrace] else tool_parameters_json_schema t)]"

definition build_agent_tools_json :: string where
  "build_agent_tools_json =
     json_object [json_array_field ''tools'' (map agent_tool_json agent_tool_definitions)]"

text \<open>A result of an operation that cannot throw, and of one that only reads the host.\<close>

definition total :: "'a \<times> 's \<Rightarrow> (cpp_exception + 'a) \<times> 's" where
  "total r = (Inr (fst r), snd r)"

definition report :: "string \<Rightarrow> 'w host \<Rightarrow> (cpp_exception + string) \<times> 'w host" where
  "report s h = (Inr s, h)"

definition execute_agent_tool :: "'w os \<Rightarrow> string \<Rightarrow> string \<Rightarrow> 'w host \<Rightarrow> (cpp_exception + string) \<times> 'w host" where
  "execute_agent_tool os name arguments_json h =
     (let arg = (\<lambda>k. extract_json_string_field arguments_json k 0)
      in if name = ''list_connectors'' then report (list_connectors_json h) h
      else if name = ''connector_status'' then total (connector_status_json os (arg ''id'') h)
      else if name = ''launch_connector'' then total (launch_connector os (arg ''id'') h)
      else if name = ''stop_connector'' then total (stop_connector os (arg ''id'') h)
      else if name = ''call_connector'' then
        total (call_connector os (arg ''id'') (arg ''path'')
          (if arg ''method'' = [] then ''POST'' else arg ''method'') (arg ''payload_json'') h)
      else if name = ''enqueue_task'' then enqueue_task os arguments_json h
      else if name = ''list_tasks'' then report (list_tasks_json h) h
      else if name = ''cancel_task'' then total (cancel_task_json os (arg ''task_id'') h)
      else if name = ''run_command'' then run_command os arguments_json h
      else if name = ''find_application'' then report (find_applications_json arguments_json h) h
      else if name = ''list_open_windows'' then report (list_open_windows_json os h) h
      else if name = ''list_windows_locations'' then
        report (list_well_known_windows_targets_json (h_windows_locations h)) h
      else if name = ''open_application'' then total (open_application os arguments_json h)
      else if name = ''read_file'' then read_file os arguments_json h
      else if name = ''write_file'' then total (write_file os arguments_json h)
      else if name = ''list_dir'' then list_dir os arguments_json h
      else if name = ''stat_path'' then report (stat_path os arguments_json h) h
      else if name = ''get_cwd'' then report (get_cwd_json os h) h
      else if name = ''which'' then report (which_executable_json os arguments_json h) h
      else if name = ''copy_file'' then total (copy_file_json os arguments_json h)
      else if name = ''move_path'' then total (move_path_json os arguments_json h)
      else if name = ''delete_file'' then total (delete_file_json os arguments_json h)
      else if name = ''create_directory'' then total (create_directory_json os arguments_json h)
      else if name = ''read_clipboard'' then total (read_clipboard_json os h)
      else if name = ''write_clipboard'' then total (write_clipboard_json os arguments_json h)
      else if name = ''get_system_info'' then total (build_system_info_json os h)
      else if name = ''run_ffmpeg'' then run_ffmpeg_json os arguments_json h
      else if name = ''get_hardware_info'' then report (build_hardware_info_json h) h
      else if name = ''self_status'' then report (build_self_status_json h) h
      else if name = ''search_command_fixes'' then report (search_command_fixes_json arguments_json h) h
      else if name = ''remember_location'' then total (remember_location_json os arguments_json h)
      else if name = ''get_known_locations'' then report (list_known_locations_json h) h
      else if name = ''record_command_fix'' then total (record_command_fix_json os arguments_json h)
      else report (refusal (''unknown tool: '' @ name)) h)"

end
