(* ===== verification/Agent_Turn.thy ===== *)
theory Agent_Turn imports Complex_Main Agent_Tools begin

text \<open>
  The agent turn of \<open>cli/host.cpp\<close>: the model classifies a message into at most one tool call, the
  host runs it or pauses for the user's approval, and the outcome is phrased. One call is in flight at a time.
\<close>

section \<open>Classify\<close>

definition kMaxEmptyRetries :: nat where
  "kMaxEmptyRetries = 2"

definition post_request :: "'w os \<Rightarrow> provider_request \<Rightarrow> 'w host \<Rightarrow> (bool \<times> int \<times> string) \<times> 'w host" where
  "post_request os request h =
     (if h_transport_set h
      then sense (os_http_post os (pr_url request) (pr_body request) (pr_headers request)) h
      else ((False, 0, []), h))"

text \<open>
  The retry loop: the response and how often the model was asked. \<open>left\<close> counts the retries that
  remain.
\<close>

fun ask_model ::
    "nat \<Rightarrow> 'w os \<Rightarrow> provider_request \<Rightarrow> string \<Rightarrow> nat \<Rightarrow> 'w host \<Rightarrow> (cpp_exception + provider_response \<times> nat) \<times> 'w host" where
  "ask_model left os request session_id attempt h =
     (case post_request os request h of ((transport_ok, status_code, body), h1) \<Rightarrow>
        (case provider_parse_response status_code body transport_ok of
           Inl e \<Rightarrow> (Inl e, h1)
         | Inr r \<Rightarrow>
             (if \<not> pv_transport_ok r \<or> \<not> pv_http_success r then (Inr (r, attempt + 1), h1)
              else if pv_assistant_message r \<noteq> [] \<or> pv_tool_calls r \<noteq> [] then (Inr (r, attempt + 1), h1)
              else
                (case left of
                   0 \<Rightarrow>
                     (Inr (r, attempt + 1),
                      append_app_log os ''chat'' ''out''
                        (''classify: model returned neither text nor a tool call after '' @ to_string (int kMaxEmptyRetries + 1)
                         @ '' attempts, raw response: '' @ take 500 body) False session_id h1)
                 | Suc fewer \<Rightarrow>
                     ask_model fewer os request session_id (attempt + 1)
                       (append_app_log os ''chat'' ''out''
                          (''classify: model returned neither text nor a tool call, retrying ('' @ to_string (int attempt + 1)
                           @ [slash] @ to_string (int kMaxEmptyRetries) @ '')'') False session_id h1)))))"

declare ask_model.simps [simp del]

definition classify_metrics :: "string \<Rightarrow> nat \<Rightarrow> int \<Rightarrow> provider_response \<Rightarrow> string" where
  "classify_metrics model attempts wall_clock_ms r = join_comma
     [json_string_field ''model'' model, json_int_field ''attempts'' (int attempts),
      json_int_field ''wall_clock_ms'' wall_clock_ms, json_int_field ''model_total_ms'' (pv_total_duration_ms r),
      json_int_field ''model_eval_ms'' (pv_eval_duration_ms r), json_int_field ''prompt_tokens'' (pv_prompt_tokens r),
      json_int_field ''completion_tokens'' (pv_completion_tokens r), json_string_field ''done_reason'' (pv_done_reason r),
      json_int_field ''tool_calls'' (int (length (pv_tool_calls r)))]"

definition no_reply_text :: string where
  "no_reply_text = ''(no reply text - the model returned an empty response, try rephrasing)''"

text \<open>What a response decides.\<close>

definition decision_of :: "provider_response \<Rightarrow> turn_decision" where
  "decision_of r =
     (let d = empty_decision\<lparr>td_thinking_text := pv_thinking_text r\<rparr>
      in if \<not> pv_transport_ok r \<or> \<not> pv_http_success r then
           d\<lparr>td_kind := TransportFailed,
             td_error_message := (if pv_error_message r = [] then ''provider request failed'' else pv_error_message r)\<rparr>
         else
           (case pv_tool_calls r of
              c # _ \<Rightarrow> d\<lparr>td_kind := LlmTool, td_tool_name := call_name c, td_arguments_json := call_arguments_json c\<rparr>
            | [] \<Rightarrow> d\<lparr>td_kind := PlainReply,
                td_plain_reply_text := (if pv_assistant_message r = [] then no_reply_text else pv_assistant_message r)\<rparr>))"

definition log_response :: "'w os \<Rightarrow> string \<Rightarrow> nat \<Rightarrow> int \<Rightarrow> provider_response \<Rightarrow> 'w host \<Rightarrow> 'w host" where
  "log_response os session_id attempts ms r h =
     (let h1 = append_app_log_full os ''ollama'' ''out''
            (''classify ('' @ to_string (int attempts) @ '' attempt(s), '' @ to_string ms @ ''ms)'')
            (pv_transport_ok r \<and> pv_http_success r) session_id (classify_metrics (active_model_name h) attempts ms r) h;
          h2 = (if pv_thinking_text r \<noteq> [] then append_app_log os ''thinking'' ''out'' (pv_thinking_text r) True session_id h1
                else h1)
      in if pv_transport_ok r \<and> pv_http_success r \<and> length (pv_tool_calls r) > 1 then
           append_app_log os ''chat'' ''out''
             (''classify: model returned '' @ to_string (int (length (pv_tool_calls r))) @ '' tool calls - taking the first (''
              @ call_name (hd (pv_tool_calls r)) @ '') and discarding the rest, no multi-call chaining'') True session_id h2
         else h2)"

definition classify_via_llm ::
    "'w os \<Rightarrow> string \<Rightarrow> tool_definition list \<Rightarrow> openai_config \<Rightarrow> 'w host \<Rightarrow> (cpp_exception + turn_decision) \<times> 'w host" where
  "classify_via_llm os session_id tools provider h =
     (let request = provider_build_request provider (h_agent_transcript h) tools
      in if \<not> pr_valid request then
           (Inr (empty_decision\<lparr>td_kind := TransportFailed, td_error_message := pr_error_message request\<rparr>),
            append_app_log os ''chat'' ''out'' (''classify request build failed: '' @ pr_error_message request) False session_id h)
         else
           (case sense (os_steady_ms os) h of (start, h1) \<Rightarrow>
              bindE (ask_model kMaxEmptyRetries os request session_id 0)
                (\<lambda>(r, attempts) s.
                   (case sense (os_steady_ms os) s of (stop, s1) \<Rightarrow>
                      (Inr (decision_of r), log_response os session_id attempts (stop - start) r s1))) h1))"

section \<open>What the user sees\<close>

text \<open>One path field rewritten to a full path, for display only.\<close>

definition display_field :: "'w os \<Rightarrow> 'w host \<Rightarrow> string \<Rightarrow> string \<Rightarrow> string" where
  "display_field os h json field_name =
     (let raw_path = extract_json_string_field json field_name 0
      in if raw_path = [] \<or> looks_like_placeholder_path raw_path then json
         else
           (let resolved = resolve_path (desktop h) raw_path
            in if looks_like_invented_desktop_path resolved (desktop h) then json
               else
                 (case fs_absolute os resolved (h_world h) of
                    None \<Rightarrow> json
                  | Some full_path \<Rightarrow>
                      if full_path = [] then json else replace_json_string_field_value json field_name full_path)))"

definition display_arguments_with_full_paths :: "'w os \<Rightarrow> 'w host \<Rightarrow> string \<Rightarrow> string \<Rightarrow> string" where
  "display_arguments_with_full_paths os h name arguments_json =
     (if name = ''write_file'' \<or> name = ''delete_file'' \<or> name = ''create_directory'' then
        display_field os h arguments_json ''path''
      else if name = ''copy_file'' \<or> name = ''move_path'' then
        display_field os h (display_field os h arguments_json ''source_path'') ''destination_path''
      else if name = ''open_application'' then
        (let raw_value = extract_json_string_field arguments_json ''path_or_name'' 0
         in if raw_value = [] \<or> \<not> looks_like_path raw_value then arguments_json
            else
              (case fs_absolute os raw_value (h_world h) of
                 None \<Rightarrow> arguments_json
               | Some full_path \<Rightarrow>
                   if full_path = [] then arguments_json
                   else replace_json_string_field_value arguments_json ''path_or_name'' full_path))
      else arguments_json)"

definition action_json :: "string \<Rightarrow> action_record \<Rightarrow> string" where
  "action_json shown_arguments a = json_object
     [json_string_field ''tool'' (ar_tool a), json_string_field ''arguments_json'' shown_arguments,
      json_string_field ''result_json'' (ar_result_json a)]"

definition build_final_agent_response :: "string \<Rightarrow> string \<Rightarrow> action_record list \<Rightarrow> string \<Rightarrow> string" where
  "build_final_agent_response session_id assistant_text actions thinking_text = json_object
     ([json_bool_field ''ok'' True]
      @ (if thinking_text \<noteq> [] then [json_string_field ''thinking'' thinking_text] else [])
      @ [json_string_field ''assistant'' assistant_text, json_string_field ''session_id'' session_id,
         json_array_field ''actions'' (map (\<lambda>a. action_json (ar_arguments_json a) a) actions)])"

definition looks_destructive :: "tool_call \<Rightarrow> bool" where
  "looks_destructive call =
     (if call_name call = ''run_command'' then
        looks_like_destructive_command (extract_json_string_field (call_arguments_json call) ''command'' 0)
      else if call_name call = ''run_ffmpeg'' then
        looks_like_destructive_command (extract_json_string_field (call_arguments_json call) ''args'' 0)
      else False)"

definition build_pending_tool_call_response ::
    "'w os \<Rightarrow> 'w host \<Rightarrow> string \<Rightarrow> tool_call \<Rightarrow> action_record list \<Rightarrow> string \<Rightarrow> string" where
  "build_pending_tool_call_response os h session_id call actions_so_far thinking_text = json_object
     ([json_bool_field ''ok'' True]
      @ (if thinking_text \<noteq> [] then [json_string_field ''thinking'' thinking_text] else [])
      @ [json_string_field ''session_id'' session_id,
         needle ''pending_tool_call'' @ json_object
           [json_string_field ''tool'' (call_name call),
            json_string_field ''arguments_json'' (display_arguments_with_full_paths os h (call_name call) (call_arguments_json call)),
            json_bool_field ''looks_destructive'' (looks_destructive call)],
         json_array_field ''actions''
           (map (\<lambda>a. action_json (display_arguments_with_full_paths os h (ar_tool a) (ar_arguments_json a)) a) actions_so_far)])"

section \<open>Execute or pause\<close>

datatype execution = Executed (ex_actions: "action_record list") (ex_result: string) | Paused (ex_response: string)

definition executed :: "tool_call \<Rightarrow> action_record list \<Rightarrow> string \<Rightarrow> execution" where
  "executed call actions result = Executed (actions @ [\<lparr>ar_tool = call_name call,
     ar_arguments_json = call_arguments_json call, ar_result_json = result\<rparr>]) result"

definition log_tool_result :: "'w os \<Rightarrow> string \<Rightarrow> string \<Rightarrow> tool_call \<Rightarrow> string \<Rightarrow> bool \<Rightarrow> 'w host \<Rightarrow> 'w host" where
  "log_tool_result os session_id what call result success h =
     record_agent_message os session_id Tool result
       (append_app_log os ''chat'' ''out''
          (what @ call_name call @ ''('' @ call_arguments_json call @ '') -> '' @ result) success session_id h)"

definition execute_decision_or_pause ::
    "'w os \<Rightarrow> string \<Rightarrow> string \<Rightarrow> string \<Rightarrow> action_record list \<Rightarrow> string \<Rightarrow> 'w host \<Rightarrow> (cpp_exception + execution) \<times> 'w host" where
  "execute_decision_or_pause os session_id name arguments_json actions thinking_text h =
     (let call = \<lparr>call_id = ''classified-0'', call_name = name, call_arguments_json = arguments_json\<rparr>
      in if tool_call_requires_approval name then
           (case precheck_and_resolve_gated_call os call h of
              Inl failure \<Rightarrow>
                (Inr (executed call actions failure), log_tool_result os session_id ''tool '' call failure False h)
            | Inr proposed \<Rightarrow>
                (Inr (Paused (build_pending_tool_call_response os h session_id proposed actions thinking_text)),
                 h\<lparr>h_pending_tool_call := \<lparr>pc_active = True, pc_session_id = session_id, pc_decided_call = proposed,
                   pc_actions = actions\<rparr>\<rparr>))
         else
           bindE (execute_agent_tool os name arguments_json)
             (\<lambda>result s. (Inr (executed call actions result), log_tool_result os session_id ''tool '' call result True s)) h)"

section \<open>Phrase\<close>

definition generic_result_sentence :: "string \<Rightarrow> string" where
  "generic_result_sentence result_json =
     (if ok_field result_json then ''Done.''
      else
        (let err = extract_json_string_field result_json ''error'' 0
         in if err = [] then ''That didn'' @ [CHR 0x27] @ ''t work.''
            else ''That didn'' @ [CHR 0x27] @ ''t work: '' @ err))"

definition phrasing_prompt :: "string \<Rightarrow> string \<Rightarrow> string" where
  "phrasing_prompt name result_json =
     ''The '' @ [quot] @ name @ [quot] @ '' action just ran with this exact result (ground truth, already happened): ''
     @ result_json @ ''. In one or two short sentences, tell the user what happened. State only what this ''
     @ ''JSON says - do not claim anything else, do not describe additional actions, do not apologize at length.''"

definition phrase_via_llm ::
    "'w os \<Rightarrow> openai_config \<Rightarrow> string \<Rightarrow> string \<Rightarrow> 'w host \<Rightarrow> (cpp_exception + string) \<times> 'w host" where
  "phrase_via_llm os provider name result_json h =
     (let request = provider_build_request provider
            [\<lparr>msg_role = User, msg_content = phrasing_prompt name result_json\<rparr>] []
      in if \<not> pr_valid request then (Inr (generic_result_sentence result_json), h)
         else
           (case post_request os request h of ((transport_ok, status_code, body), h1) \<Rightarrow>
              (case provider_parse_response status_code body transport_ok of
                 Inl e \<Rightarrow> (Inl e, h1)
               | Inr r \<Rightarrow>
                   (Inr (if \<not> pv_transport_ok r \<or> \<not> pv_http_success r \<or> pv_assistant_message r = []
                         then generic_result_sentence result_json else pv_assistant_message r), h1))))"

definition phrase_result ::
    "'w os \<Rightarrow> openai_config \<Rightarrow> string \<Rightarrow> string \<Rightarrow> string \<Rightarrow> 'w host \<Rightarrow> (cpp_exception + string) \<times> 'w host" where
  "phrase_result os provider name arguments_json result_json h =
     (case try_template_reply name arguments_json result_json of
        Inl e \<Rightarrow> (Inl e, h)
      | Inr templated \<Rightarrow>
          if templated \<noteq> [] then (Inr templated, h) else phrase_via_llm os provider name result_json h)"

section \<open>The turn\<close>

definition retry_note :: "string \<Rightarrow> string \<Rightarrow> string" where
  "retry_note name failure_reason =
     ''('' @ name @ '' failed: '' @ (if failure_reason = [] then ''unknown error'' else failure_reason)
     @ ''. This is your one automatic retry - if you can fix the input, call the right tool now with a ''
     @ ''corrected argument; otherwise just explain what went wrong.)''"

definition conclude ::
    "'w os \<Rightarrow> openai_config \<Rightarrow> string \<Rightarrow> string \<Rightarrow> string \<Rightarrow> string \<Rightarrow> action_record list \<Rightarrow> string \<Rightarrow> 'w host \<Rightarrow>
     (cpp_exception + string) \<times> 'w host" where
  "conclude os provider session_id name arguments_json result_json actions thinking_text =
     bindE (phrase_result os provider name arguments_json result_json)
       (\<lambda>assistant_text s.
          (Inr (build_final_agent_response session_id assistant_text actions thinking_text),
           append_app_log os ''chat'' ''out'' (''assistant: '' @ assistant_text) True session_id
             (record_agent_message os session_id Assistant assistant_text s)))"

definition finish_turn_after_execution ::
    "'w os \<Rightarrow> string \<Rightarrow> string \<Rightarrow> string \<Rightarrow> string \<Rightarrow> action_record list \<Rightarrow> tool_definition list \<Rightarrow> openai_config \<Rightarrow>
     bool \<Rightarrow> string \<Rightarrow> 'w host \<Rightarrow> (cpp_exception + string) \<times> 'w host" where
  "finish_turn_after_execution os session_id name arguments_json result_json actions tools provider allow_retry
     thinking_text h =
     (if allow_retry \<and> \<not> ok_field result_json \<and> is_retriable_tool name then
        bindE (classify_via_llm os session_id tools provider)
          (\<lambda>retry.
             if td_kind retry = LlmTool then
               bindE (execute_decision_or_pause os session_id (td_tool_name retry) (td_arguments_json retry) actions
                        (td_thinking_text retry))
                 (\<lambda>e. case e of
                    Paused response \<Rightarrow> (\<lambda>s. (Inr response, s))
                  | Executed actions' result \<Rightarrow>
                      conclude os provider session_id (td_tool_name retry) (td_arguments_json retry) result actions' thinking_text)
             else conclude os provider session_id name arguments_json result_json actions thinking_text)
          (record_agent_message os session_id System
             (retry_note name (extract_json_string_field result_json ''error'' 0)) h)
      else conclude os provider session_id name arguments_json result_json actions thinking_text h)"

text \<open>The session the turn runs in: a new one, another one resumed from its log, or the current one.\<close>

definition resumed_transcript :: "memory_store \<Rightarrow> string \<Rightarrow> chat_message list" where
  "resumed_transcript m session_id =
     map (\<lambda>r. \<lparr>msg_role = chat_role_from_string (mr_role r), msg_content = mr_content r\<rparr>) (load_session m session_id)"

definition select_session :: "'w os \<Rightarrow> bool \<Rightarrow> string \<Rightarrow> 'w host \<Rightarrow> 'w host" where
  "select_session os fresh_session requested_session_id h =
     (if fresh_session then
        (case generate_session_id os (h\<lparr>h_agent_transcript := []\<rparr>) of (sid, h1) \<Rightarrow> h1\<lparr>h_current_session_id := sid\<rparr>)
      else if requested_session_id \<noteq> [] \<and> requested_session_id \<noteq> h_current_session_id h then
        h\<lparr>h_agent_transcript := resumed_transcript (h_memory_store h) requested_session_id,
          h_current_session_id := requested_session_id\<rparr>
      else h)"

definition abandoned_note :: string where
  "abandoned_note =
     ''(A previously pending tool call in this session was abandoned - the user sent a new ''
     @ ''message instead of approving or declining it. If it'' @ [CHR 0x27] @ ''s still relevant, call the tool again.)''"

definition abandon_pending_call :: "'w os \<Rightarrow> string \<Rightarrow> 'w host \<Rightarrow> 'w host" where
  "abandon_pending_call os session_id h =
     (let p = h_pending_tool_call h
      in if pc_active p \<and> pc_session_id p = session_id then
           append_app_log os ''chat'' ''out''
             ''pending tool call abandoned (new message arrived before it was approved/declined)'' False session_id
             (record_agent_message os session_id System abandoned_note (h\<lparr>h_pending_tool_call := no_pending_call\<rparr>))
         else h)"

definition seeded_prompt :: "'w host \<Rightarrow> string \<Rightarrow> string" where
  "seeded_prompt h now =
     hc_system_prompt (h_config h) @ '' Right now this index has '' @ to_string (int (length (h_installed_apps h)))
     @ '' installed applications in it.'' @ '' As of the start of this session, the date and time was '' @ now
     @ '' - call get_system_info if you '' @ ''need the actual current date/time later in a long session, ''
     @ ''since this won'' @ [CHR 0x27] @ ''t update on its own.''"

definition seed_system_prompt :: "'w os \<Rightarrow> string \<Rightarrow> 'w host \<Rightarrow> 'w host" where
  "seed_system_prompt os session_id h =
     (if h_agent_transcript h = [] \<and> hc_system_prompt (h_config h) \<noteq> [] then
        (case make_full_log_timestamp os h of (now, h1) \<Rightarrow>
           record_agent_message os session_id System (seeded_prompt h1 now) h1)
      else h)"

text \<open>What a turn does with the decision of its one classification.\<close>

definition act_on_decision ::
    "'w os \<Rightarrow> string \<Rightarrow> tool_definition list \<Rightarrow> openai_config \<Rightarrow> turn_decision \<Rightarrow> 'w host \<Rightarrow> (cpp_exception + string) \<times> 'w host" where
  "act_on_decision os session_id tools provider decision h =
     (case td_kind decision of
        TransportFailed \<Rightarrow>
          (Inr (json_object [json_bool_field ''ok'' False, json_string_field ''error'' (td_error_message decision),
             json_string_field ''session_id'' session_id]), h)
      | PlainReply \<Rightarrow>
          (Inr (build_final_agent_response session_id (td_plain_reply_text decision) [] (td_thinking_text decision)),
           append_app_log os ''chat'' ''out'' (''assistant: '' @ td_plain_reply_text decision) True session_id
             (record_agent_message os session_id Assistant (td_plain_reply_text decision) h))
      | LlmTool \<Rightarrow>
          bindE (execute_decision_or_pause os session_id (td_tool_name decision) (td_arguments_json decision) []
                   (td_thinking_text decision))
            (\<lambda>e. case e of
               Paused response \<Rightarrow> (\<lambda>s. (Inr response, s))
             | Executed actions result \<Rightarrow>
                 finish_turn_after_execution os session_id (td_tool_name decision) (td_arguments_json decision) result actions
                   tools provider True (td_thinking_text decision)) h)"

definition agent_turn ::
    "'w os \<Rightarrow> string \<Rightarrow> 'w host \<Rightarrow> (cpp_exception + string) \<times> 'w host" where
  "agent_turn os body h =
     (let user_message = extract_json_string_field body ''message'' 0;
          fresh_session = (case extract_json_bool_field body ''clear'' 0 of Some b \<Rightarrow> b | None \<Rightarrow> False);
          h1 = select_session os fresh_session (extract_json_string_field body ''session_id'' 0) h;
          session_id = h_current_session_id h1
      in if user_message = [] then (Inr (refusal ''missing message''), h1)
         else
           (let h2 = append_app_log os ''chat'' ''in'' (''user: '' @ user_message) True session_id
                  (abandon_pending_call os session_id h1)
            in if \<not> hc_enable_ai (h_config h2) then
                 (Inr (refusal ''AI is disabled (--no-ai)''),
                  append_app_log os ''chat'' ''out'' ''rejected: AI is disabled (--no-ai)'' False session_id h2)
               else
                 (let h3 = record_agent_message os session_id User user_message (seed_system_prompt os session_id h2);
                      tools = agent_tool_definitions;
                      provider = model_config (h_config h3)
                  in bindE (classify_via_llm os session_id tools provider)
                       (act_on_decision os session_id tools provider) h3)))"

section \<open>The user's decision\<close>

definition declined_result :: "string \<Rightarrow> string" where
  "declined_result reason = refusal (if reason = [] then ''user declined this action'' else ''user declined: '' @ reason)"

definition agent_tool_decision ::
    "'w os \<Rightarrow> string \<Rightarrow> 'w host \<Rightarrow> (cpp_exception + string) \<times> 'w host" where
  "agent_tool_decision os body h =
     (let approved = (case extract_json_bool_field body ''approved'' 0 of Some b \<Rightarrow> b | None \<Rightarrow> False);
          reason = extract_json_string_field body ''reason'' 0;
          requested_session_id = extract_json_string_field body ''session_id'' 0;
          p = h_pending_tool_call h;
          call = pc_decided_call p;
          session_id = pc_session_id p
      in if \<not> pc_active p \<or> requested_session_id \<noteq> [] \<and> requested_session_id \<noteq> session_id then
           (Inr (refusal ''no tool call is awaiting a decision''), h)
         else
           bindE (if approved then execute_agent_tool os (call_name call) (call_arguments_json call)
                  else (\<lambda>s. (Inr (declined_result reason), s)))
             (\<lambda>tool_result s.
                (let s1 = log_tool_result os session_id (if approved then ''tool '' else ''tool declined '') call
                       tool_result approved s
                 in finish_turn_after_execution os session_id (call_name call) (call_arguments_json call) tool_result
                      (pc_actions p @ [\<lparr>ar_tool = call_name call, ar_arguments_json = call_arguments_json call,
                         ar_result_json = tool_result\<rparr>])
                      agent_tool_definitions (model_config (h_config s1)) approved [] s1))
             (h\<lparr>h_pending_tool_call := no_pending_call\<rparr>))"

end
