(* ===== verification/Agent_Safety.thy ===== *)
theory Agent_Safety imports Complex_Main Agent_Turn begin

text \<open>
  What the approval gate guarantees. The operations of \<open>os\<close> fall into senses, which any tool may
  use, and effects, which change files, start or stop processes, or write the clipboard. Two
  systems with the same senses cannot be told apart by a turn of the agent: no effect is ever
  performed before the user has approved it, and then only that of the approved call.
\<close>

section \<open>Two systems that differ in their effects\<close>

locale same_system =
  fixes a b :: "'w os"
  assumes same: "same_senses a b"
begin

lemmas senses = same_sensesD [OF same]

lemma stamps: "make_log_timestamp b = make_log_timestamp a" "make_full_log_timestamp b = make_full_log_timestamp a"
    "generate_session_id b = generate_session_id a"
  by (unfold make_log_timestamp_def make_full_log_timestamp_def generate_session_id_def senses, (rule refl)+)

lemma full_log: "append_app_log_full b = append_app_log_full a"
  by (unfold append_app_log_full_def stamps, (rule refl)+)

lemma log: "append_app_log b = append_app_log a"
  by (unfold append_app_log_def full_log, (rule refl)+)

lemmas logs = stamps full_log log

lemma lookups: "is_executable_file b = is_executable_file a" "absolute_or_empty b = absolute_or_empty a"
    "path_list_separator b = path_list_separator a"
  by (unfold is_executable_file_def absolute_or_empty_def path_list_separator_def senses, (rule refl)+)

lemma files: "fs_read_file b = fs_read_file a" "fs_list_dir b = fs_list_dir a" "fs_stat_path b = fs_stat_path a"
    "get_current_working_directory b = get_current_working_directory a" "which_executable b = which_executable a"
  by (unfold fs_read_file_def fs_list_dir_def fs_stat_path_def get_current_working_directory_def
      which_executable_def lookups senses, (rule refl)+)

lemma statement: "run_statement b = run_statement a"
  by (unfold run_statement_def logs senses, (rule refl)+)

lemma memory: "record_agent_message b = record_agent_message a"
    "record_command_fix_json b = record_command_fix_json a" "remember_location_json b = remember_location_json a"
  by (unfold record_agent_message_def record_command_fix_json_def remember_location_json_def
      statement logs files, (rule refl)+)

text \<open>The tools that need no approval.\<close>

lemma ungated: "connector_status_json b = connector_status_json a" "call_connector b = call_connector a"
    "list_open_windows_json b = list_open_windows_json a" "read_file b = read_file a" "list_dir b = list_dir a"
    "stat_path b = stat_path a" "get_cwd_json b = get_cwd_json a" "which_executable_json b = which_executable_json a"
    "read_clipboard_json b = read_clipboard_json a" "build_system_info_json b = build_system_info_json a"
  by (unfold connector_status_json_def call_connector_def list_open_windows_json_def read_file_def
      list_dir_def stat_path_def get_cwd_json_def which_executable_json_def read_clipboard_json_def
      build_system_info_json_def files logs senses, (rule refl)+)

lemma ungated_tool:
  assumes "\<not> tool_call_requires_approval name"
  shows "execute_agent_tool b name = execute_agent_tool a name"
proof (intro ext)
  fix arguments_json h
  from assms show "execute_agent_tool b name arguments_json h = execute_agent_tool a name arguments_json h"
    unfolding execute_agent_tool_def ungated memory tool_call_requires_approval_def de_Morgan_disj
    by (simp only: if_False)
qed

section \<open>The turn\<close>

lemma target: "resolve_open_application_target b = resolve_open_application_target a"
  by (unfold resolve_open_application_target_def lookups files senses, (rule refl)+)

lemma precheck: "precheck_and_resolve_gated_call b = precheck_and_resolve_gated_call a"
  by (unfold precheck_and_resolve_gated_call_def target, (rule refl)+)

lemma field_shown: "display_field b = display_field a"
  by (unfold display_field_def senses, (rule refl)+)

lemma arguments_shown: "display_arguments_with_full_paths b = display_arguments_with_full_paths a"
  by (unfold display_arguments_with_full_paths_def field_shown senses, (rule refl)+)

lemma proposal: "build_pending_tool_call_response b = build_pending_tool_call_response a"
  by (unfold build_pending_tool_call_response_def arguments_shown, (rule refl)+)

lemma request: "post_request b = post_request a"
  by (unfold post_request_def senses, (rule refl)+)

lemma asked: "ask_model n b r s i h = ask_model n a r s i h"
proof (induction n arbitrary: i h)
  case 0
  show ?case by (subst (1 2) ask_model.simps, unfold request logs nat.case, rule refl)
next
  case (Suc n)
  show ?case by (subst (1 2) ask_model.simps, unfold request logs nat.case Suc, rule refl)
qed

lemma asked_fun: "ask_model n b = ask_model n a"
  by (intro ext) (rule asked)

lemma responses: "log_response b = log_response a"
  by (unfold log_response_def logs, (rule refl)+)

lemma classified: "classify_via_llm b = classify_via_llm a"
  by (unfold classify_via_llm_def asked_fun responses logs senses, (rule refl)+)

lemma phrased_by_model: "phrase_via_llm b = phrase_via_llm a"
  by (unfold phrase_via_llm_def request, (rule refl)+)

lemma phrased: "phrase_result b = phrase_result a"
  by (unfold phrase_result_def phrased_by_model, (rule refl)+)

lemma concluded: "conclude b = conclude a"
  by (unfold conclude_def phrased logs memory, (rule refl)+)

lemma tool_logged: "log_tool_result b = log_tool_result a"
  by (unfold log_tool_result_def logs memory, (rule refl)+)

lemma executed_or_paused: "execute_decision_or_pause b = execute_decision_or_pause a"
proof (intro ext)
  fix s name args actions thinking h
  show "execute_decision_or_pause b s name args actions thinking h = execute_decision_or_pause a s name args actions thinking h"
    by (cases "tool_call_requires_approval name")
      (unfold execute_decision_or_pause_def precheck proposal tool_logged, simp_all only: ungated_tool if_True if_False not_False_eq_True)
qed

lemma finished: "finish_turn_after_execution b = finish_turn_after_execution a"
  by (unfold finish_turn_after_execution_def classified executed_or_paused concluded memory, (rule refl)+)

lemma acted: "act_on_decision b = act_on_decision a"
  by (unfold act_on_decision_def executed_or_paused finished memory logs, (rule refl)+)

lemma prepared: "select_session b = select_session a" "abandon_pending_call b = abandon_pending_call a"
    "seed_system_prompt b = seed_system_prompt a"
  by (unfold select_session_def abandon_pending_call_def seed_system_prompt_def memory logs, (rule refl)+)

lemma turn: "agent_turn b = agent_turn a"
  by (unfold agent_turn_def prepared classified acted memory logs, (rule refl)+)

lemma decision:
  assumes "extract_json_bool_field body ''approved'' 0 = Some True \<Longrightarrow>
      execute_agent_tool b (call_name (pc_decided_call (h_pending_tool_call h)))
        (call_arguments_json (pc_decided_call (h_pending_tool_call h))) (h\<lparr>h_pending_tool_call := no_pending_call\<rparr>)
      = execute_agent_tool a (call_name (pc_decided_call (h_pending_tool_call h)))
        (call_arguments_json (pc_decided_call (h_pending_tool_call h))) (h\<lparr>h_pending_tool_call := no_pending_call\<rparr>)"
  shows "agent_tool_decision b body h = agent_tool_decision a body h"
proof (cases "extract_json_bool_field body ''approved'' 0 = Some True")
  case True
  then have "(case extract_json_bool_field body ''approved'' 0 of None \<Rightarrow> False | Some b \<Rightarrow> b) = True" by simp
  then show ?thesis
    unfolding agent_tool_decision_def Let_def bindE_def tool_logged finished by (simp only: if_True assms [OF True])
next
  case False
  then have "(case extract_json_bool_field body ''approved'' 0 of None \<Rightarrow> False | Some b \<Rightarrow> b) = False"
    by (auto split: option.split)
  then show ?thesis
    unfolding agent_tool_decision_def Let_def tool_logged finished by (simp only: if_False)
qed

end

lemma same_senses_effects:
  "same_senses os (os\<lparr>fs_create_directories := mk, fs_copy_file := cp, fs_rename := mv, fs_remove := rm, fs_write := wr,
     os_run_command_once := run, os_launch_application := open_app, os_process_launch := start, os_process_stop := stop,
     os_clipboard_write := clip\<rparr>)"
  by (simp add: same_senses_def)

interpretation effects: same_system os "os\<lparr>fs_create_directories := mk, fs_copy_file := cp, fs_rename := mv,
     fs_remove := rm, fs_write := wr, os_run_command_once := run, os_launch_application := open_app,
     os_process_launch := start, os_process_stop := stop, os_clipboard_write := clip\<rparr>"
  by unfold_locales (rule same_senses_effects)

text \<open>
  C1: A turn of the agent never performs an effect. Whatever creating directories, copying,
  moving, deleting and writing files, running commands, launching applications, starting and
  stopping processes, and writing the clipboard would do, the response, the state of the host
  and the world after the turn are the same.
\<close>

theorem agent_turn_never_acts:
  "agent_turn (os\<lparr>fs_create_directories := mk, fs_copy_file := cp, fs_rename := mv, fs_remove := rm, fs_write := wr,
     os_run_command_once := run, os_launch_application := open_app, os_process_launch := start, os_process_stop := stop,
     os_clipboard_write := clip\<rparr>) body h = agent_turn os body h"
  by (simp only: effects.turn)

end
