(* ===== verification/Host_Frame.thy ===== *)
theory Host_Frame imports Complex_Main Agent_Tools begin

text \<open>
  What the operations of the host leave alone. The agent's own state is the transcript, the
  session, the pending call, the configuration and the stored messages; no tool touches it, and
  the log in memory never grows beyond its bound.
\<close>

definition agent_core ::
    "'w host \<Rightarrow> chat_message list \<times> string \<times> pending_call \<times> host_config \<times> bool \<times> bool \<times> memory_record list" where
  "agent_core h = (h_agent_transcript h, h_current_session_id h, h_pending_tool_call h, h_config h, h_transport_set h,
     ms_is_open (h_memory_store h), ms_memory_entries (h_memory_store h))"

text \<open>The agent's state is \<open>c\<close> and the log is within its bound.\<close>

definition framed ::
    "chat_message list \<times> string \<times> pending_call \<times> host_config \<times> bool \<times> bool \<times> memory_record list \<Rightarrow> 'w host \<Rightarrow> bool" where
  "framed c h \<longleftrightarrow> agent_core h = c \<and> length (h_app_log h) \<le> 256"

named_theorems frame_simps \<open>operations that keep a frame\<close>

lemma framed_sense [frame_simps]: "framed c (snd (sense f h)) = framed c h"
  by (simp add: framed_def agent_core_def sense_def case_prod_beta)

lemma framed_updates [frame_simps]:
  "framed c (h\<lparr>h_tasks := q\<rparr>) = framed c h" "framed c (h\<lparr>h_connectors := r\<rparr>) = framed c h"
  "framed c (h\<lparr>h_log_file := l\<rparr>) = framed c h" "framed c (h\<lparr>h_notify_log := n\<rparr>) = framed c h"
  "framed c (h\<lparr>h_language_ai := ai\<rparr>) = framed c h"
  by (simp_all add: framed_def agent_core_def)

lemma length_push_bounded: "length xs \<le> n \<Longrightarrow> length (push_bounded n x xs) \<le> n"
  by (simp add: push_bounded_def Let_def)

lemma framed_log [frame_simps]:
  "framed c h \<Longrightarrow> framed c (append_app_log_full os channel direction summary success session_id extra h)"
  using length_push_bounded [of "h_app_log h" 256]
  by (simp add: append_app_log_full_def make_log_timestamp_def make_full_log_timestamp_def framed_def agent_core_def
      sense_def case_prod_beta Let_def split: option.split)

lemma framed_app_log [frame_simps]:
  "framed c h \<Longrightarrow> framed c (append_app_log os channel direction summary success session_id h)"
  by (simp add: append_app_log_def framed_log)

lemma framed_stamp [frame_simps]:
  "framed c (snd (make_log_timestamp os h)) = framed c h" "framed c (snd (make_full_log_timestamp os h)) = framed c h"
  by (simp_all add: make_log_timestamp_def make_full_log_timestamp_def framed_sense)

lemma sense_proj [frame_simps]:
  "h_memory_store (snd (sense f h)) = h_memory_store h" "h_tasks (snd (sense f h)) = h_tasks h"
  "h_memory_store (snd (make_full_log_timestamp os h)) = h_memory_store h"
  by (simp_all add: sense_def case_prod_beta make_full_log_timestamp_def)

lemma framed_statement:
  assumes "framed c h"
    and "\<And>done now m. ms_is_open (snd (statement done now m)) = ms_is_open m
      \<and> ms_memory_entries (snd (statement done now m)) = ms_memory_entries m"
  shows "framed c (snd (run_statement os statement h))"
proof -
  have u: "framed c (g\<lparr>h_memory_store := m\<rparr>) = framed c g"
    if "ms_is_open m = ms_is_open (h_memory_store g)" "ms_memory_entries m = ms_memory_entries (h_memory_store g)" for g m
    using that by (simp add: framed_def agent_core_def)
  show ?thesis using assms
    by (simp add: run_statement_def case_prod_beta u frame_simps)
qed

lemma framed_lesson [frame_simps]:
  "framed c h \<Longrightarrow> framed c (snd (run_statement os (\<lambda>done now. record_lesson done now t b f w l) h))"
  by (rule framed_statement) (simp_all add: record_lesson_def)

lemma framed_location [frame_simps]:
  "framed c h \<Longrightarrow> framed c (snd (run_statement os (\<lambda>done now. remember_location done now n p) h))"
  by (rule framed_statement) (simp_all add: remember_location_def)

section \<open>The tools\<close>

lemma framed_commands [frame_simps]:
  assumes "framed c h"
  shows "framed c (snd (run_command os body h))" "framed c (snd (run_ffmpeg_json os body h))"
  using assms by (simp_all add: run_command_def run_ffmpeg_json_def Let_def case_prod_beta frame_simps split: sum.split)

lemma framed_launch [frame_simps]:
  assumes "framed c h"
  shows "framed c (snd (open_application os body h))"
  using assms by (simp add: open_application_def Let_def case_prod_beta frame_simps)

lemma framed_reading [frame_simps]:
  assumes "framed c h"
  shows "framed c (snd (read_file os body h))" "framed c (snd (list_dir os body h))"
    "framed c (snd (read_clipboard_json os h))" "framed c (snd (build_system_info_json os h))"
  using assms
  by (simp_all add: read_file_def list_dir_def read_clipboard_json_def build_system_info_json_def Let_def case_prod_beta
      frame_simps split: sum.split option.split)

lemma framed_writing [frame_simps]:
  assumes "framed c h"
  shows "framed c (snd (write_file os body h))" "framed c (snd (copy_file_json os body h))"
    "framed c (snd (move_path_json os body h))" "framed c (snd (delete_file_json os body h))"
    "framed c (snd (create_directory_json os body h))" "framed c (snd (write_clipboard_json os body h))"
  using assms
  by (simp_all add: write_file_def copy_file_json_def move_path_json_def delete_file_json_def create_directory_json_def
      write_clipboard_json_def Let_def case_prod_beta frame_simps split: sum.split)

lemma framed_connectors [frame_simps]:
  assumes "framed c h"
  shows "framed c (snd (connector_status_json os cid h))" "framed c (snd (launch_connector os cid h))"
    "framed c (snd (stop_connector os cid h))" "framed c (snd (call_connector os cid path m body h))"
  using assms
  by (simp_all add: connector_status_json_def launch_connector_def stop_connector_def call_connector_def Let_def
      case_prod_beta frame_simps split: option.split)

lemma framed_tasks [frame_simps]:
  assumes "framed c h"
  shows "framed c (snd (enqueue_task os body h))" "framed c (snd (cancel_task_json os tid h))"
  using assms
  by (simp_all add: enqueue_task_def cancel_task_json_def Let_def case_prod_beta frame_simps split: option.split sum.split)

lemma framed_memory [frame_simps]:
  assumes "framed c h"
  shows "framed c (snd (record_command_fix_json os body h))" "framed c (snd (remember_location_json os body h))"
  using assms
  by (simp_all add: record_command_fix_json_def remember_location_json_def Let_def case_prod_beta frame_simps)

lemma framed_total [frame_simps]: "framed c (snd (total r)) = framed c (snd r)" "framed c (snd (report s h)) = framed c h"
  by (simp_all add: total_def report_def)

lemma framed_tool:
  assumes "framed c h"
  shows "framed c (snd (execute_agent_tool os name arguments_json h))"
  using assms unfolding execute_agent_tool_def Let_def
  by (intro if_split [where P = "\<lambda>x. framed c (snd x)", THEN iffD2] conjI impI) (simp_all add: frame_simps)

end
