(* ===== verification/Agent_Invariant.thy ===== *)
theory Agent_Invariant imports Complex_Main Agent_Turn Host_Frame begin

text \<open>
  Invariants of the agent. A predicate on hosts that survives what the tools and the model calls may
  change, a recorded message and a proposed call survives every step of a turn; the locale proves
  it once for any such predicate.
\<close>

section \<open>Steps that keep a predicate\<close>

definition keeps :: "('w host \<Rightarrow> bool) \<Rightarrow> ('w host \<Rightarrow> 'a \<times> 'w host) \<Rightarrow> bool" where
  "keeps P m \<longleftrightarrow> (\<forall>h. P h \<longrightarrow> P (snd (m h)))"

lemma keepsI: "(\<And>h. P h \<Longrightarrow> P (snd (m h))) \<Longrightarrow> keeps P m"
  by (simp add: keeps_def)

lemma keepsD: "keeps P m \<Longrightarrow> P h \<Longrightarrow> P (snd (m h))"
  by (simp add: keeps_def)

lemma keeps_bindE:
  assumes "keeps P m" and "\<And>x. keeps P (f x)"
  shows "keeps P (bindE m f)"
proof (rule keepsI)
  fix h assume "P h"
  then have "P (snd (m h))" by (rule keepsD [OF assms(1)])
  then show "P (snd (bindE m f h))"
    using keepsD [OF assms(2)] by (auto simp: bindE_def split: prod.split sum.split)
qed

lemma keeps_return [simp, intro]: "keeps P (Pair x)"
  by (simp add: keeps_def)

lemma framed_request: "framed c h \<Longrightarrow> framed c (snd (post_request os request h))"
  by (simp add: post_request_def frame_simps)

lemma framed_ask: "framed c h \<Longrightarrow> framed c (snd (ask_model n os request s i h))"
proof (induction n arbitrary: i h)
  case 0
  from framed_request [OF 0, of os request] show ?case
    by (subst ask_model.simps) (simp add: frame_simps case_prod_beta split: sum.split)
next
  case (Suc n)
  from framed_request [OF Suc.prems, of os request] show ?case
    by (subst ask_model.simps) (auto simp: frame_simps case_prod_beta intro!: Suc.IH split: sum.split)
qed

lemma framed_response: "framed c h \<Longrightarrow> framed c (log_response os s i ms r h)"
  by (simp add: log_response_def Let_def frame_simps)

lemma framed_phrase_llm: "framed c h \<Longrightarrow> framed c (snd (phrase_via_llm os provider name result h))"
  by (simp add: phrase_via_llm_def Let_def case_prod_beta framed_request split: sum.split)

lemma framed_phrase: "framed c h \<Longrightarrow> framed c (snd (phrase_result os provider name args result h))"
  by (simp add: phrase_result_def framed_phrase_llm split: sum.split)

lemmas framed_model = framed_request framed_ask framed_response framed_phrase

lemma framed_classify:
  assumes "framed c h"
  shows "framed c (snd (classify_via_llm os s tools provider h))"
proof -
  have "keeps (framed c) (bindE (ask_model n os request s i) (\<lambda>(r, attempts) g.
      (case sense (os_steady_ms os) g of (stop, g1) \<Rightarrow>
         (Inr (decision_of r), log_response os s attempts (stop - start) r g1))))" for n request i start
    by (intro keeps_bindE keepsI)
      (auto simp: framed_model frame_simps case_prod_beta)
  from keepsD [OF this] assms show ?thesis
    by (simp add: classify_via_llm_def Let_def case_prod_beta frame_simps)
qed

lemma precheck_name:
  "precheck_and_resolve_gated_call os call h = Inr proposed \<Longrightarrow> call_name proposed = call_name call"
  by (auto simp: precheck_and_resolve_gated_call_def Let_def split: if_splits)

section \<open>An invariant of the turn\<close>

definition wants_clear :: "string \<Rightarrow> bool" where
  "wants_clear body \<longleftrightarrow> extract_json_bool_field body ''clear'' 0 = Some True"

lemma clear_case: "(case extract_json_bool_field body ''clear'' 0 of None \<Rightarrow> False | Some b \<Rightarrow> b) = wants_clear body"
  by (simp add: wants_clear_def split: option.split)

locale agent_invariant =
  fixes os :: "'w os" and session_id :: string and P :: "'w host \<Rightarrow> bool"
  assumes bounded: "P h \<Longrightarrow> length (h_app_log h) \<le> 256"
    and frame: "P h \<Longrightarrow> framed (agent_core h) h' \<Longrightarrow> P h'"
    and record_message: "P h \<Longrightarrow> P (record_agent_message os session_id role content h)"
    and propose: "P h \<Longrightarrow> (pc_active p \<Longrightarrow> tool_call_requires_approval (call_name (pc_decided_call p))) \<Longrightarrow>
      P (h\<lparr>h_pending_tool_call := p\<rparr>)"
begin

lemma own_frame: "P h \<Longrightarrow> framed (agent_core h) h"
  by (simp add: framed_def bounded)

lemma keeps_framed:
  assumes "\<And>c h. framed c h \<Longrightarrow> framed c (snd (m h))"
  shows "keeps P m"
  by (rule keepsI) (rule frame [OF _ assms [OF own_frame]])

lemma ok_log: "P h \<Longrightarrow> P (append_app_log os channel direction summary success s h)"
  by (rule frame) (auto intro: framed_app_log own_frame)

lemma ok_no_pending: "P h \<Longrightarrow> P (h\<lparr>h_pending_tool_call := no_pending_call\<rparr>)"
  by (rule propose) (simp_all add: no_pending_call_def)

lemma ok_tool_log: "P h \<Longrightarrow> P (log_tool_result os session_id what call result success h)"
  by (simp add: log_tool_result_def record_message ok_log)

lemma ok_abandon: "P h \<Longrightarrow> P (abandon_pending_call os session_id h)"
  by (simp add: abandon_pending_call_def Let_def ok_log record_message ok_no_pending)

lemma ok_seed:
  assumes "P h"
  shows "P (seed_system_prompt os session_id h)"
proof -
  have "P (snd (make_full_log_timestamp os h))"
    by (rule frame [OF assms]) (simp add: frame_simps own_frame [OF assms])
  then show ?thesis using assms by (simp add: seed_system_prompt_def case_prod_beta record_message)
qed

lemma keeps_conclude:
  "keeps P (conclude os provider session_id name args result actions thinking)"
proof -
  have "keeps P (phrase_result os provider name args result)"
    by (rule keeps_framed) (rule framed_model)
  then show ?thesis
    unfolding conclude_def by (rule keeps_bindE, intro keepsI) (simp add: ok_log record_message)
qed

lemma keeps_execute:
  "keeps P (execute_decision_or_pause os session_id name args actions thinking)"
proof (rule keepsI)
  fix h :: "'w host" assume h: "P h"
  have "keeps P (execute_agent_tool os name args)"
    by (rule keeps_framed) (rule framed_tool)
  then have "keeps P (bindE (execute_agent_tool os name args)
      (\<lambda>result s. (Inr (executed call actions result), log_tool_result os session_id what call result True s)))" for call what
    by (rule keeps_bindE, intro keepsI) (simp add: ok_tool_log)
  from keepsD [OF this h] show "P (snd (execute_decision_or_pause os session_id name args actions thinking h))"
    using h precheck_name [of os _ h]
    by (auto simp: execute_decision_or_pause_def Let_def ok_tool_log intro!: propose split: sum.split)
qed

lemma keeps_finish:
  "keeps P
    (finish_turn_after_execution os session_id name args result actions tools provider allow_retry thinking)"
proof (rule keepsI)
  fix h :: "'w host" assume h: "P h"
  have c: "keeps P (classify_via_llm os session_id tools provider)"
    by (rule keeps_framed) (rule framed_classify)
  have "keeps P (bindE (classify_via_llm os session_id tools provider)
      (\<lambda>retry. if td_kind retry = LlmTool then
               bindE (execute_decision_or_pause os session_id (td_tool_name retry) (td_arguments_json retry) actions
                        (td_thinking_text retry))
                 (\<lambda>e. case e of
                    Paused response \<Rightarrow> (\<lambda>s. (Inr response, s))
                  | Executed actions' result \<Rightarrow>
                      conclude os provider session_id (td_tool_name retry) (td_arguments_json retry) result actions' thinking)
             else conclude os provider session_id name args result actions thinking))"
    by (intro keeps_bindE [OF c]) (auto intro!: keeps_bindE keeps_execute keeps_conclude split: execution.split)
  from keepsD [OF this record_message [OF h]] keepsD [OF keeps_conclude h]
  show "P (snd (finish_turn_after_execution os session_id name args result actions tools provider allow_retry thinking h))"
    by (simp add: finish_turn_after_execution_def)
qed

lemma keeps_act:
  "keeps P (act_on_decision os session_id tools provider decision)"
proof -
  have "keeps P (bindE (execute_decision_or_pause os session_id (td_tool_name decision) (td_arguments_json decision) []
                   (td_thinking_text decision))
            (\<lambda>e. case e of
               Paused response \<Rightarrow> (\<lambda>s. (Inr response, s))
             | Executed actions result \<Rightarrow>
                 finish_turn_after_execution os session_id (td_tool_name decision) (td_arguments_json decision) result actions
                   tools provider True (td_thinking_text decision)))"
    by (auto intro!: keeps_bindE keeps_execute keeps_finish split: execution.split)
  then show ?thesis
    by (intro keepsI) (auto simp: act_on_decision_def ok_log record_message keepsD split: turn_decision_kind.split)
qed

text \<open>The turn once its session is selected, and a decision about a call of this session.\<close>

lemma turn_kept:
  assumes "h_current_session_id h1 = session_id" and "P h1"
    and "h1 = select_session os (wants_clear body) (extract_json_string_field body ''session_id'' 0) h"
  shows "P (snd (agent_turn os body h))"
proof -
  have acts: "keeps P (bindE (classify_via_llm os session_id tools provider) (act_on_decision os session_id tools provider))"
    for tools provider
    by (intro keeps_bindE keeps_act keeps_framed framed_classify)
  show ?thesis
    unfolding agent_turn_def Let_def clear_case assms(3) [symmetric] assms(1)
    using assms(2) by (simp add: ok_abandon ok_seed record_message ok_log keepsD [OF acts])
qed

lemma decision_kept:
  assumes "P h" and "pc_active (h_pending_tool_call h) \<Longrightarrow> pc_session_id (h_pending_tool_call h) = session_id"
  shows "P (snd (agent_tool_decision os body h))"
proof (cases "pc_active (h_pending_tool_call h)")
  case True
  have s: "pc_session_id (h_pending_tool_call h) = session_id" using assms(2) True .
  have run: "keeps P (if approved then execute_agent_tool os name args else (\<lambda>s. (Inr (declined_result reason), s)))"
    for approved name args reason
    by (simp add: keeps_framed [OF framed_tool])
  have "keeps P (bindE (if approved then execute_agent_tool os name args else (\<lambda>s. (Inr (declined_result reason), s)))
      (\<lambda>r s. finish_turn_after_execution os session_id name' args' r (acts r) tools
         (model_config (h_config (log_tool_result os session_id what call r approved s))) approved []
         (log_tool_result os session_id what call r approved s)))"
    for approved name name' args args' acts tools what call reason
    by (rule keeps_bindE [OF run], rule keepsI) (simp add: keepsD [OF keeps_finish] ok_tool_log)
  from keepsD [OF this ok_no_pending [OF assms(1)]] assms(1) show ?thesis
    unfolding agent_tool_decision_def Let_def s by simp
next
  case False
  then show ?thesis using assms(1) by (simp add: agent_tool_decision_def Let_def)
qed

end

end
