(* ===== verification/Agent_Log.thy ===== *)
theory Agent_Log imports Complex_Main Agent_Invariant begin

text \<open>
  The transcript in memory and the stored log of its session. \<open>record_agent_message\<close> writes both,
  so that a session can be resumed; the first part shows that a turn keeps them in step, the second
  what happens to a decision about a call of another session.
\<close>

section \<open>In step\<close>

definition stored_message :: "chat_message \<Rightarrow> string \<times> string" where
  "stored_message m = (chat_role_to_string (msg_role m), bound_text (msg_content m))"

text \<open>Every session's log is numbered from 0 on and holds messages as \<open>record_agent_message\<close> stores them.\<close>

definition stored_well :: "string \<times> string \<Rightarrow> bool" where
  "stored_well rc \<longleftrightarrow> chat_role_to_string (chat_role_from_string (fst rc)) = fst rc \<and> bound_text (snd rc) = snd rc"

definition log_ok :: "memory_store \<Rightarrow> bool" where
  "log_ok m \<longleftrightarrow> (\<forall>s. (\<forall>i \<in> session_hops m s. i < int (length (session_messages m s)))
     \<and> (\<forall>rc \<in> set (session_messages m s). stored_well rc))"

definition in_step :: "'w host \<Rightarrow> bool" where
  "in_step h \<longleftrightarrow> session_messages (h_memory_store h) (h_current_session_id h) = map stored_message (h_agent_transcript h)"

definition pending_gated :: "'w host \<Rightarrow> bool" where
  "pending_gated h \<longleftrightarrow>
     (pc_active (h_pending_tool_call h) \<longrightarrow> tool_call_requires_approval (call_name (pc_decided_call (h_pending_tool_call h))))"

definition agent_ok :: "string \<Rightarrow> 'w host \<Rightarrow> bool" where
  "agent_ok session_id h \<longleftrightarrow> h_current_session_id h = session_id \<and> length (h_app_log h) \<le> 256
     \<and> ms_is_open (h_memory_store h) \<and> log_ok (h_memory_store h) \<and> in_step h \<and> pending_gated h"

text \<open>Only the stored messages matter.\<close>

lemma messages_cong:
  assumes "ms_is_open m = ms_is_open m'" and "ms_memory_entries m = ms_memory_entries m'"
  shows "session_messages m = session_messages m'" "session_hops m = session_hops m'"
  using assms by (simp_all add: session_messages_def session_hops_def load_session_def fun_eq_iff)

lemma agent_ok_framed:
  assumes "agent_ok session_id h" and "framed (agent_core h) h'"
  shows "agent_ok session_id h'"
proof -
  have c: "h_agent_transcript h' = h_agent_transcript h" "h_current_session_id h' = h_current_session_id h"
      "h_pending_tool_call h' = h_pending_tool_call h"
      "ms_is_open (h_memory_store h') = ms_is_open (h_memory_store h)"
      "ms_memory_entries (h_memory_store h') = ms_memory_entries (h_memory_store h)" "length (h_app_log h') \<le> 256"
    using assms(2) by (simp_all add: framed_def agent_core_def)
  then show ?thesis using assms(1) messages_cong [OF c(4,5)] by (auto simp: agent_ok_def log_ok_def in_step_def pending_gated_def)
qed

lemma framed_refl: "agent_ok session_id h \<Longrightarrow> framed (agent_core h) h"
  by (simp add: framed_def agent_ok_def)

definition always_done :: "'w os \<Rightarrow> bool" where
  "always_done os \<longleftrightarrow> (\<forall>w. fst (os_sql_done os w))"

text \<open>What recording a message for any session does when SQLite does not fail.\<close>

lemma record_message_parts:
  fixes role :: chat_role and session_id content :: string
  assumes "always_done os" and "ms_is_open (h_memory_store h)"
  defines "h' \<equiv> record_agent_message os session_id role content h"
  shows "h_agent_transcript h' = h_agent_transcript h @ [\<lparr>msg_role = role, msg_content = content\<rparr>]"
    and "h_current_session_id h' = h_current_session_id h" and "h_app_log h' = h_app_log h"
    and "h_pending_tool_call h' = h_pending_tool_call h" and "h_config h' = h_config h"
    and "\<exists>now. h_memory_store h' = snd (memory_append True now session_id (int (length (h_agent_transcript h)))
           (chat_role_to_string role) content (h_memory_store h))"
  using assms(1,2)
  by (auto simp: h'_def record_agent_message_def run_statement_def make_full_log_timestamp_def sense_def case_prod_beta
      Let_def always_done_def)

lemma bound_role [simp]: "bound_text (chat_role_to_string r) = chat_role_to_string r"
  by (cases r) (simp_all add: bound_text_def)

lemma bound_bound [simp]: "bound_text (bound_text v) = bound_text v"
  by (simp add: bound_text_def)

lemma stored_well_message [simp]: "stored_well (chat_role_to_string r, bound_text c)"
  by (cases r) (simp_all add: stored_well_def chat_role_from_string_def)

lemma same_session_messages:
  assumes "same_session_id s s'"
  shows "session_messages m s = session_messages m s'" "session_hops m s = session_hops m s'"
  using assms by (simp_all add: same_session_id_def session_messages_def session_hops_def load_session_def comp_def)

lemma hops_other:
  assumes "\<not> same_session_id s s'"
  shows "session_hops (snd (memory_append b now s' i role content m)) s = session_hops m s"
proof -
  have "bound_text s' \<noteq> bound_text s" using assms by (auto simp: same_session_id_def)
  then show ?thesis by (simp add: session_hops_def memory_append_def del: set_filter)
qed

lemma agent_ok_record:
  assumes ok: "agent_ok session_id h" and sql: "always_done os"
  shows "agent_ok session_id (record_agent_message os session_id role content h)"
proof -
  let ?h' = "record_agent_message os session_id role content h"
  let ?m = "h_memory_store h" and ?n = "int (length (h_agent_transcript h))"
  have o: "ms_is_open ?m" and cur: "h_current_session_id h = session_id" and lok: "log_ok ?m" and st: "in_step h"
    using ok by (simp_all add: agent_ok_def)
  obtain now where m: "h_memory_store ?h' = snd (memory_append True now session_id ?n (chat_role_to_string role) content ?m)"
    using record_message_parts(6) [OF sql o] by blast
  note parts = record_message_parts(1-4) [OF sql o, of session_id role content]
  have len: "length (session_messages ?m session_id) = length (h_agent_transcript h)"
    using st cur by (simp add: in_step_def)
  then have hops: "\<forall>i \<in> session_hops ?m session_id. i < ?n"
    using spec [OF lok [unfolded log_ok_def], of session_id] by simp
  have same: "session_messages (h_memory_store ?h') s = session_messages ?m s @ [(chat_role_to_string role, bound_text content)]"
      "session_hops (h_memory_store ?h') s = insert ?n (session_hops ?m s)" if "same_session_id s session_id" for s
  proof -
    have "\<forall>i \<in> session_hops ?m session_id. i \<le> ?n" using hops by (meson less_imp_le)
    then show "session_messages (h_memory_store ?h') s = session_messages ?m s @ [(chat_role_to_string role, bound_text content)]"
      using sqlite_log.messages_put [OF o that, where h = ?n] unfolding m by simp
    show "session_hops (h_memory_store ?h') s = insert ?n (session_hops ?m s)"
      using sqlite_log.hops_put [OF o, where s = session_id] same_session_messages(2) [OF that] unfolding m by simp
  qed
  have other: "session_messages (h_memory_store ?h') s = session_messages ?m s"
      "session_hops (h_memory_store ?h') s = session_hops ?m s" if "\<not> same_session_id s session_id" for s
  proof -
    show "session_messages (h_memory_store ?h') s = session_messages ?m s"
      unfolding m by (rule sqlite_log.messages_other [OF that])
    show "session_hops (h_memory_store ?h') s = session_hops ?m s"
      unfolding m by (rule hops_other [OF that])
  qed
  have "log_ok (h_memory_store ?h')"
    unfolding log_ok_def
  proof
    fix s
    show "(\<forall>i \<in> session_hops (h_memory_store ?h') s. i < int (length (session_messages (h_memory_store ?h') s)))
      \<and> (\<forall>rc \<in> set (session_messages (h_memory_store ?h') s). stored_well rc)"
    proof (cases "same_session_id s session_id")
      case True
      have l: "length (session_messages ?m s) = length (h_agent_transcript h)"
        using len same_session_messages(1) [OF True] by simp
      have "\<forall>i \<in> session_hops ?m s. i < ?n" using hops same_session_messages(2) [OF True] by simp
      then have "\<forall>i \<in> insert ?n (session_hops ?m s). i < ?n + 1" by (auto simp: less_add_one)
      then show ?thesis using lok l by (auto simp: same [OF True] log_ok_def)
    next
      case False
      then show ?thesis using lok by (simp add: other log_ok_def)
    qed
  qed
  moreover have "in_step ?h'"
    using st same(1) [of session_id] cur parts by (simp add: in_step_def stored_message_def same_session_id_def)
  moreover have "ms_is_open (h_memory_store ?h')" using o unfolding m by (simp add: memory_append_def)
  ultimately show ?thesis using ok cur parts by (simp add: agent_ok_def pending_gated_def)
qed

lemma ok_pending:
  assumes "agent_ok session_id h" and "pc_active p \<Longrightarrow> tool_call_requires_approval (call_name (pc_decided_call p))"
  shows "agent_ok session_id (h\<lparr>h_pending_tool_call := p\<rparr>)"
  using assms by (auto simp: agent_ok_def in_step_def pending_gated_def)

text \<open>Two invariants of the agent: the log in step, and what is pending is gated.\<close>

interpretation log: agent_invariant os session_id "\<lambda>h. always_done os \<and> agent_ok session_id h"
  for os :: "'w os" and session_id
  by unfold_locales (auto simp: agent_ok_record ok_pending agent_ok_framed, simp add: agent_ok_def)

definition gate_ok :: "'w host \<Rightarrow> bool" where
  "gate_ok h \<longleftrightarrow> pending_gated h \<and> length (h_app_log h) \<le> 256"

lemma gate_record: "gate_ok h \<Longrightarrow> gate_ok (record_agent_message os session_id role content h)"
  by (simp add: gate_ok_def pending_gated_def record_agent_message_def run_statement_def make_full_log_timestamp_def
      sense_def case_prod_beta Let_def)

interpretation gate: agent_invariant os session_id gate_ok
  for os :: "'w os" and session_id
  by unfold_locales (simp_all add: gate_ok_def pending_gated_def framed_def agent_core_def gate_record [unfolded gate_ok_def pending_gated_def])

end
