(* ===== verification/Host_Startup.thy ===== *)
theory Host_Startup imports Complex_Main Host_State begin

text \<open>
  How a \<open>DroidHost\<close> starts: the defaults of \<open>cli/host.hpp\<close>, \<open>configure\<close> and \<open>initialize\<close> of
  \<open>cli/host.cpp\<close>. What the scans of the machine find, whether the log file opens and what the
  database holds is one argument; the scans are calls of the Windows API.
\<close>

section \<open>Defaults\<close>

definition default_system_prompt :: string where
  \<open>default_system_prompt =
    ''You are droidcli, an agent daemon with direct control of this Windows machine. You are not ''
    @ ''a chat-only assistant describing what a user could do - you have tools that actually open ''
    @ ''applications, run shell commands, read/write files, and manage background connectors and ''
    @ ''tasks, and you should call them instead of explaining how the user could do it themselves. ''
    @ ''In particular: at startup this host already scanned every application installed on this ''
    @ ''machine (Add/Remove Programs, App Paths, PATH) into an index, so you already know how to ''
    @ ''find and launch any installed app - never say you 'can't open applications' or ask the user ''
    @ ''to give you a path. If the user asks you to open an app, call open_application with the app ''
    @ ''name directly; if you aren't sure of the exact name first, call find_application to resolve ''
    @ ''it, then open it - do not stop to ask permission for an action the user already requested, ''
    @ ''only ask when a search returns multiple ambiguous matches. If the user asks what Windows ''
    @ ''panels/settings/locations you can open (or describes one loosely, e.g. 'the thing that ''
    @ ''shows memory usage'), call list_windows_locations and answer from that real list - never ''
    @ ''guess or invent a name. Use list_open_windows to check what's already running, run_command ''
    @ ''for one-shot shell work, run_ffmpeg for media transcode/convert/clip/extract/thumbnail work ''
    @ ''(it resolves the ffmpeg binary for you - always pass -y since there's no interactive prompt ''
    @ ''to answer), and the filesystem tools ''
    @ ''(read_file/write_file/list_dir/stat_path/get_cwd/which) for anything touching disk. Some ''
    @ ''tools (run_command, run_ffmpeg, write_file, open_application, launch_connector, ''
    @ ''stop_connector, enqueue_task) are side-effecting, so the host itself pauses and shows the ''
    @ ''user the exact call before running it - this happens automatically, you don't need to ask ''
    @ ''permission yourself first. If a tool result says the user declined, don't just retry the ''
    @ ''same call - explain what you were trying to do and ask what they'd prefer instead. Prefer ''
    @ ''acting over narrating: when a tool call can answer the question, call it, then report the ''
    @ ''concrete result (e.g. a PID, a file's contents, a match list) rather than a vague ''
    @ ''description of what you attempted. Never say 'I'll run/execute/create that' or 'hold on, ''
    @ ''processing' without actually calling the tool in that exact same response - a sentence ''
    @ ''describing an action is not the action, and the user is left with nothing having happened. ''
    @ ''If you have enough information to act, call the tool now; if you don't, ask the specific ''
    @ ''question you need answered instead of claiming you're already acting. Every tool result has ''
    @ ''an "ok" field - that is the ONLY thing that tells you whether the action actually ''
    @ ''succeeded, never assume success from a tool simply having run, from the presence of output, ''
    @ ''or from a plausible-looking exit code deep in a JSON blob. If "ok" is false, the action did ''
    @ ''NOT happen: read "failure_reason"/"error" and tell the user honestly what went wrong, then ''
    @ ''either fix the call and retry or ask them how to proceed - never report success anyway, and ''
    @ ''never invent a file path, output location, or result you did not get back from a tool. If ''
    @ ''you have not called a tool for something, you have not done it, no matter how confident ''
    @ ''that sounds - use get_cwd/list_dir/stat_path to check where something actually landed ''
    @ ''rather than guessing or making up a plausible-sounding path. You have a persistent memory ''
    @ ''of run_command/run_ffmpeg bugs already solved before, across this and every past session - ''
    @ ''call search_command_fixes with a short query BEFORE attempting a command similar to a kind ''
    @ ''of task that has failed before (a specific ffmpeg filter, a specific error message), so you ''
    @ ''don't waste attempts rediscovering the same fix. After you fix something that failed at ''
    @ ''least once - a verified "ok":true result, not a guess - call record_command_fix with the ''
    @ ''exact broken and working command/args and one short, reusable lesson, so the next time (in ''
    @ ''this session or a future one) doesn't start from scratch. Don't record a command that ''
    @ ''worked on the first try - only ones you had to fix. Call self_status before claiming you ''
    @ ''can't do something, or right after a tool call fails and you want to know if it's an ''
    @ ''isolated problem or something wider (e.g. the AI backend itself is down). A degraded Ollama ''
    @ ''connection does not mean you're broken - the host keeps running and every non-AI tool ''
    @ ''(run_command, filesystem, connectors, tasks) still works normally; report the degradation ''
    @ ''honestly instead of going silent or refusing unrelated work. get_hardware_info reports this ''
    @ ''machine's CPU/GPU/RAM/disk inventory, but only if the human enabled it at startup - if it ''
    @ ''comes back with "enabled":false, tell the user hardware scanning is off and how to turn it ''
    @ ''on (--enable-hardware-scan), don't claim the data doesn't exist or make up ''
    @ ''plausible-sounding specs. If run_command or run_ffmpeg returns "ok":false, do not stop and ''
    @ ''ask the user whether you should retry - read "failure_reason", fix the command yourself ''
    @ ''based on the actual error, and call the tool again immediately in this same response. You ''
    @ ''get multiple automatic attempts at this before you have to report failure, so use them; ''
    @ ''only after you've genuinely tried a corrected command and it still fails should you explain ''
    @ ''the real error to the user. You always have the ability to run commands directly - never ''
    @ ''tell the user to run a command themselves or claim command execution is beyond your ''
    @ ''capabilities, that is never true here. Before calling copy_file/move_path/delete_file on a ''
    @ ''file the user referred to by description rather than its exact path ("the green image on ''
    @ ''the Desktop", "that file"), call list_dir on the real directory first to find its actual ''
    @ ''name - never invent a plausible-looking path or a template like "/path/to/file.png", both ''
    @ ''are rejected outright and waste an attempt. When you write, copy, move, or run a command ''
    @ ''that creates a file with no location specified at all (a bare filename with no directory in ''
    @ ''it, and no work_dir passed to run_command/run_ffmpeg), it lands on the user's real Desktop ''
    @ ''by default, not droidcli's own working directory - this happens automatically, you don't ''
    @ ''need to construct the Desktop path yourself. Report the actual location from the result's ''
    @ ''"resolved_path"/"resolved_work_dir" field when present, not from what you originally typed. ''
    @ ''There is exactly ONE real Desktop folder on this machine - desktop_path, from ''
    @ ''get_system_info/your system prompt - never construct, guess, or invent any other path ''
    @ ''containing a "desktop" segment (e.g. "C:'' @ [bslash] @ ''desktop'' @ [bslash] @ ''...", a root-level guess); if a path ''
    @ ''you're about to use has "desktop" in it anywhere and isn't exactly the real desktop_path, ''
    @ ''that's wrong - use the real path literally instead of typing the word "desktop" yourself.''\<close>

definition default_host_config :: host_config where
  "default_host_config = \<lparr>hc_enable_ai = True, hc_enable_hardware_scan = False,
     hc_ollama_url = ''http://127.0.0.1:11434'', hc_ollama_model = ''llama3.2'', hc_ollama_num_ctx = 32768,
     hc_settings_path = [], hc_system_prompt = default_system_prompt\<rparr>"

definition no_system_info :: system_info where
  "no_system_info = \<lparr>si_os_name = [], si_os_version = [], si_architecture = [], si_hostname = [], si_username = [],
     si_cwd = [], si_desktop_path = [], si_home_path = [], si_documents_path = [], si_downloads_path = [],
     si_program_files_path = []\<rparr>"

definition no_hardware_info :: hardware_info where
  "no_hardware_info = \<lparr>hw_cpu_name = [], hw_cpu_core_count = 0, hw_total_ram_bytes = 0, hw_gpus = [], hw_disks = []\<rparr>"

text \<open>A default-constructed host.\<close>

definition new_host :: "'w \<Rightarrow> 'w host" where
  "new_host w = \<lparr>h_world = w, h_config = default_host_config, h_session = default_runtime_session,
     h_language_ai = initial_runtime, h_transport_set = False, h_notify_log = [], h_connectors = \<lparr>reg_connectors = []\<rparr>,
     h_tasks = empty_queue, h_installed_apps = [], h_windows_locations = [], h_system_info = no_system_info,
     h_hardware_info = no_hardware_info, h_memory_store = closed_store, h_current_session_id = [], h_app_log = [],
     h_log_file = None, h_agent_transcript = [], h_pending_tool_call = no_pending_call, h_ollama_reachable = True,
     h_ollama_last_check_ms = 0, h_ollama_last_check_error = [], h_watchdog_last_check_utc = 0\<rparr>"

definition configure :: "host_config \<Rightarrow> 'w host \<Rightarrow> 'w host" where
  "configure config h = h\<lparr>h_config := config\<rparr>"

section \<open>Initialisation\<close>

text \<open>What the machine answers at startup.\<close>

record startup =
  su_system_info :: system_info
  su_hardware_info :: hardware_info
  su_installed_apps :: "installed_app list"
  su_windows_locations :: "windows_location list"
  su_log_opened :: bool
  su_database_opened :: bool
  su_tables_created :: bool
  su_database :: memory_store

text \<open>\<open>MemoryStore::open\<close>: the tables that are in the file, or none when it cannot be used.\<close>

definition memory_open :: "startup \<Rightarrow> memory_store" where
  "memory_open su =
     (if \<not> su_database_opened su then closed_store
      else if \<not> su_tables_created su then closed_store
      else (su_database su)\<lparr>ms_is_open := True\<rparr>)"

definition started_line :: "string \<Rightarrow> string" where
  "started_line ts = json_object [json_string_field ''event'' ''session_started'', json_string_field ''ts'' ts]"

definition detected_line :: "system_info \<Rightarrow> string \<Rightarrow> string" where
  "detected_line si ts = json_object
     [json_string_field ''event'' ''system_detected'', json_string_field ''os_name'' (si_os_name si),
      json_string_field ''os_version'' (si_os_version si), json_string_field ''architecture'' (si_architecture si),
      json_string_field ''hostname'' (si_hostname si), json_string_field ''cwd'' (si_cwd si), json_string_field ''ts'' ts]"

definition open_log_file :: "'w os \<Rightarrow> startup \<Rightarrow> 'w host \<Rightarrow> 'w host" where
  "open_log_file os su h =
     (case sense (fs_create_directories os ''logs'') h of (_, h1) \<Rightarrow>
        (if \<not> su_log_opened su then h1\<lparr>h_log_file := None\<rparr>
         else
           (case make_full_log_timestamp os h1 of (ts, h2) \<Rightarrow>
              (case make_full_log_timestamp os h2 of (ts2, h3) \<Rightarrow>
                 h3\<lparr>h_log_file := Some [started_line ts, detected_line (h_system_info h3) ts2]\<rparr>))))"

definition daemon_session :: "bool \<Rightarrow> runtime_session \<Rightarrow> runtime_session" where
  "daemon_session enable_ai s = s\<lparr>rs_active := True, rs_map_name := ''droidcli'', rs_build_label := ''daemon'', rs_http_enabled := True,
     rs_http_router_bound := True, rs_features := \<lparr>ff_ai = enable_ai, ff_networking = True, ff_recording = True, ff_ui = False\<rparr>\<rparr>"

definition prompt_with_system_info :: "string \<Rightarrow> system_info \<Rightarrow> string" where
  \<open>prompt_with_system_info prompt si =
     prompt @ '' You are currently running on '' @ si_os_name si @ '' '' @ si_os_version si @ '' ('' @ si_architecture si
     @ ''), hostname '' @ si_hostname si @ '', working directory '' @ si_cwd si
     @ (if si_desktop_path si = [] then []
        else '', the user'' @ [CHR 0x27] @ ''s Desktop folder is at '' @ si_desktop_path si
          @ '' - use this exact path when a request mentions "the Desktop", ''
          @ ''never guess a "C:'' @ [bslash] @ ''Users'' @ [bslash] @ ''<name>'' @ [bslash] @ ''Desktop"-style path yourself'')
     @ '' - call get_system_info if you need these details again mid-conversation.''\<close>

definition start_language_ai :: "host_config \<Rightarrow> system_info \<Rightarrow> language_runtime \<Rightarrow> language_runtime" where
  "start_language_ai c si r =
     (if hc_enable_ai c then
        (let r1 = set_ollama_config (model_config c) (set_runtime_enabled True r)
         in if hc_system_prompt c = [] then r1 else set_system_prompt (prompt_with_system_info (hc_system_prompt c) si) r1)
      else set_runtime_enabled False r)"

definition initialized_summary :: "'w host \<Rightarrow> string" where
  "initialized_summary h =
     ''droidcli host initialized ('' @ to_string (int (length (h_installed_apps h))) @ '' installed apps indexed''
     @ (if hc_enable_hardware_scan (h_config h) then '', hardware scan enabled'' else '', hardware scan disabled'') @ '')''"

text \<open>
  \<open>initialize\<close>. When the database cannot be opened it logs a warning through \<open>append_app_log\<close> while it
  holds \<open>mutex_\<close>, which \<open>append_app_log\<close> locks again: undefined for a \<open>std::mutex\<close>.
\<close>

definition initialize_host :: "'w os \<Rightarrow> startup \<Rightarrow> 'w host \<Rightarrow> (cpp_exception + unit) \<times> 'w host" where
  "initialize_host os su h =
     (let c = h_config h;
          h1 = h\<lparr>h_system_info := su_system_info su,
                 h_hardware_info := (if hc_enable_hardware_scan c then su_hardware_info su else h_hardware_info h)\<rparr>;
          h2 = open_log_file os su h1;
          h3 = h2\<lparr>h_session := daemon_session (hc_enable_ai c) (h_session h2), h_transport_set := True,
                  h_language_ai := start_language_ai c (h_system_info h2) (h_language_ai h2),
                  h_installed_apps := su_installed_apps su, h_windows_locations := su_windows_locations su\<rparr>
      in case generate_session_id os h3 of (sid, h4) \<Rightarrow>
           (case sense (fs_create_directories os ''db'') (h4\<lparr>h_current_session_id := sid\<rparr>) of (_, h5) \<Rightarrow>
              (let h6 = h5\<lparr>h_memory_store := memory_open su\<rparr>
               in if \<not> ms_is_open (h_memory_store h6) then (Inl UndefinedBehaviour, h6)
                  else (Inr (), append_app_log os ''host'' ''event'' (initialized_summary h6) True [] h6))))"

lemma initialize_returns:
  "fst (initialize_host os su h) = (if su_database_opened su \<and> su_tables_created su then Inr () else Inl UndefinedBehaviour)"
  by (simp add: initialize_host_def memory_open_def closed_store_def Let_def case_prod_beta)

text \<open>
  The daemon does not survive a database that cannot be opened: \<open>initialize\<close> has undefined
  behaviour exactly then, and otherwise returns.
\<close>

theorem initialize_needs_database:
  "fst (initialize_host os su h) = (if su_database_opened su \<and> su_tables_created su then Inr () else Inl UndefinedBehaviour)"
  by (rule initialize_returns)

end
