(* ===== verification/Agent_History.thy ===== *)
theory Agent_History imports Complex_Main Agent_Log Host_Startup "HOL-Library.Sublist" begin

text \<open>
  Whole histories of the agent: the calls \<open>POST /api/agent\<close> and \<open>POST /api/agent/tool_decision\<close> in any
  order, and what every one of them keeps.
\<close>

section \<open>Before the model is asked\<close>

definition fresh_id :: "'w os \<Rightarrow> 'w host \<Rightarrow> string" where
  "fresh_id os h = fst (generate_session_id os (h\<lparr>h_agent_transcript := []\<rparr>))"

text \<open>The id of a new session has no stored messages yet.\<close>

definition unused_id :: "'w os \<Rightarrow> 'w host \<Rightarrow> bool" where
  "unused_id os h \<longleftrightarrow> session_messages (h_memory_store h) (fresh_id os h) = []"

lemma resumed_in_step:
  assumes "log_ok m"
  shows "map stored_message (resumed_transcript m s) = session_messages m s"
proof -
  have "stored_message \<lparr>msg_role = chat_role_from_string (mr_role r), msg_content = mr_content r\<rparr> = (mr_role r, mr_content r)"
    if "r \<in> set (load_session m s)" for r
  proof -
    have "(mr_role r, mr_content r) \<in> set (session_messages m s)" using that by (auto simp: session_messages_def)
    then have "stored_well (mr_role r, mr_content r)" using assms unfolding log_ok_def by blast
    then show ?thesis by (simp add: stored_message_def stored_well_def)
  qed
  then show ?thesis by (simp add: resumed_transcript_def session_messages_def)
qed

lemma agent_ok_select:
  fixes requested :: string
  assumes ok: "agent_ok (h_current_session_id h) h" and unused: "fresh_session \<Longrightarrow> unused_id os h"
  defines "h1 \<equiv> select_session os fresh_session requested h"
  shows "agent_ok (h_current_session_id h1) h1"
proof (cases fresh_session)
  case True
  have "session_messages (h_memory_store h) (fresh_id os h) = []" using unused [OF True] by (simp add: unused_id_def)
  then show ?thesis
    using True ok
    by (auto simp: h1_def select_session_def agent_ok_def in_step_def pending_gated_def fresh_id_def generate_session_id_def
        sense_def case_prod_beta)
next
  case False
  then show ?thesis
    using ok resumed_in_step [of "h_memory_store h" requested]
    by (simp add: h1_def select_session_def agent_ok_def in_step_def pending_gated_def)
qed

section \<open>One call\<close>

lemma turn_in_step:
  fixes body :: string
  assumes "always_done os" and "agent_ok (h_current_session_id h) h" and "wants_clear body \<Longrightarrow> unused_id os h"
  defines "h' \<equiv> snd (agent_turn os body h)"
  shows "agent_ok (h_current_session_id h') h'"
proof -
  let ?h1 = "select_session os (wants_clear body) (extract_json_string_field body ''session_id'' 0) h"
  have "always_done os \<and> agent_ok (h_current_session_id ?h1) ?h1" using agent_ok_select assms(1-3) by blast
  from log.turn_kept [OF refl this refl] show ?thesis by (simp add: h'_def agent_ok_def)
qed

lemma gate_select: "gate_ok h \<Longrightarrow> gate_ok (select_session os fresh_session requested h)"
  by (simp add: gate_ok_def pending_gated_def select_session_def generate_session_id_def sense_def case_prod_beta)

text \<open>A decision about a call of the current session, or about no call.\<close>

definition own_pending :: "'w host \<Rightarrow> bool" where
  "own_pending h \<longleftrightarrow> (pc_active (h_pending_tool_call h) \<longrightarrow> pc_session_id (h_pending_tool_call h) = h_current_session_id h)"

lemma decision_in_step:
  fixes body :: string
  assumes "always_done os" and "agent_ok (h_current_session_id h) h" and "own_pending h"
  defines "h' \<equiv> snd (agent_tool_decision os body h)"
  shows "agent_ok (h_current_session_id h') h'"
  using log.decision_kept [of os "h_current_session_id h" h] assms by (simp add: own_pending_def agent_ok_def)

section \<open>Histories\<close>

text \<open>Any calls in any order.\<close>

inductive agent_history :: "'w os \<Rightarrow> 'w host \<Rightarrow> 'w host \<Rightarrow> bool"
  for os h0
where
  started: "agent_history os h0 h0"
| turn: "agent_history os h0 h \<Longrightarrow> agent_history os h0 (snd (agent_turn os body h))"
| decision: "agent_history os h0 h \<Longrightarrow> agent_history os h0 (snd (agent_tool_decision os body h))"

text \<open>Calls that start new sessions under fresh ids, and decide only about calls of the current one.\<close>

inductive orderly_history :: "'w os \<Rightarrow> 'w host \<Rightarrow> 'w host \<Rightarrow> bool"
  for os h0
where
  started: "orderly_history os h0 h0"
| turn: "orderly_history os h0 h \<Longrightarrow> (wants_clear body \<Longrightarrow> unused_id os h) \<Longrightarrow>
    orderly_history os h0 (snd (agent_turn os body h))"
| decision: "orderly_history os h0 h \<Longrightarrow> own_pending h \<Longrightarrow>
    orderly_history os h0 (snd (agent_tool_decision os body h))"

lemma history_gated: "agent_history os h0 h \<Longrightarrow> gate_ok h0 \<Longrightarrow> gate_ok h"
proof (induction rule: agent_history.induct)
  case (turn h body)
  from gate.turn_kept [OF refl gate_select refl] turn show ?case by blast
next
  case (decision h body)
  from gate.decision_kept [of h "pc_session_id (h_pending_tool_call h)"] decision show ?case by blast
qed

lemma orderly_in_step:
  assumes "orderly_history os h0 h" and "always_done os" and "agent_ok (h_current_session_id h0) h0"
  shows "agent_ok (h_current_session_id h) h"
  using assms by (induction rule: orderly_history.induct) (auto intro: turn_in_step decision_in_step)

section \<open>A started host\<close>

text \<open>Nothing said, logged or proposed yet.\<close>

definition untouched :: "'w host \<Rightarrow> bool" where
  "untouched h \<longleftrightarrow> h_agent_transcript h = [] \<and> h_app_log h = [] \<and> h_pending_tool_call h = no_pending_call"

lemma untouched_simps:
  "untouched (snd (sense f h)) = untouched h" "untouched (snd (make_full_log_timestamp os h)) = untouched h"
  "untouched (h\<lparr>h_log_file := l\<rparr>) = untouched h" "untouched (h\<lparr>h_current_session_id := s\<rparr>) = untouched h"
  "untouched (snd (generate_session_id os h)) = untouched h" "untouched (h\<lparr>h_memory_store := m\<rparr>) = untouched h"
  "untouched (open_log_file os su h) = untouched h"
  "untouched (h\<lparr>h_system_info := si, h_hardware_info := hw\<rparr>) = untouched h"
  "untouched (h\<lparr>h_session := rs, h_transport_set := b, h_language_ai := ai, h_installed_apps := apps,
     h_windows_locations := wl\<rparr>) = untouched h"
  by (simp_all add: untouched_def sense_def case_prod_beta generate_session_id_def make_full_log_timestamp_def open_log_file_def)

lemma initialized_from:
  assumes "su_database_opened su" and "su_tables_created su" and "untouched h"
  shows "\<exists>g. untouched g \<and> h_memory_store g = memory_open su
    \<and> initialize_host os su h = (Inr (), append_app_log os ''host'' ''event'' (initialized_summary g) True [] g)"
proof -
  let ?h1 = "h\<lparr>h_system_info := su_system_info su,
      h_hardware_info := (if hc_enable_hardware_scan (h_config h) then su_hardware_info su else h_hardware_info h)\<rparr>"
  let ?h2 = "open_log_file os su ?h1"
  let ?h3 = "?h2\<lparr>h_session := daemon_session (hc_enable_ai (h_config h)) (h_session ?h2), h_transport_set := True,
      h_language_ai := start_language_ai (h_config h) (h_system_info ?h2) (h_language_ai ?h2),
      h_installed_apps := su_installed_apps su, h_windows_locations := su_windows_locations su\<rparr>"
  let ?h4 = "(snd (generate_session_id os ?h3))\<lparr>h_current_session_id := fst (generate_session_id os ?h3)\<rparr>"
  let ?g = "(snd (sense (fs_create_directories os ''db'') ?h4))\<lparr>h_memory_store := memory_open su\<rparr>"
  have "untouched ?g" using assms(3) by (simp only: untouched_simps)
  moreover have "initialize_host os su h = (Inr (), append_app_log os ''host'' ''event'' (initialized_summary ?g) True [] ?g)"
    using assms(1,2) unfolding initialize_host_def Let_def case_prod_beta by (simp add: memory_open_def)
  ultimately show ?thesis by (intro exI [of _ ?g]) simp
qed

lemma initialized_ok:
  fixes os :: "'w os" and c :: host_config and w :: 'w
  assumes "su_database_opened su" and "su_tables_created su" and "ms_memory_entries (su_database su) = []"
  defines "h \<equiv> snd (initialize_host os su (configure c (new_host w)))"
  shows "agent_ok (h_current_session_id h) h" and "\<not> pc_active (h_pending_tool_call h)"
proof -
  have "untouched (configure c (new_host w))" by (simp add: untouched_def configure_def new_host_def)
  from initialized_from [OF assms(1,2) this, of os] obtain g where
    g: "untouched g" "h_memory_store g = memory_open su" and
    h: "h = append_app_log os ''host'' ''event'' (initialized_summary g) True [] g"
    unfolding h_def by auto
  have m: "ms_is_open (memory_open su)" "ms_memory_entries (memory_open su) = []"
    using assms(1-3) by (simp_all add: memory_open_def)
  have "session_messages (memory_open su) s = []" "session_hops (memory_open su) s = {}" for s
    by (simp_all add: session_messages_def session_hops_def load_session_def m)
  then have ok: "agent_ok (h_current_session_id g) g"
    using g m by (simp add: agent_ok_def untouched_def log_ok_def in_step_def pending_gated_def no_pending_call_def)
  have f: "framed (agent_core g) h" unfolding h by (rule framed_app_log [OF framed_refl [OF ok]])
  from agent_ok_framed [OF ok f] show "agent_ok (h_current_session_id h) h" by (simp add: agent_ok_def)
  show "\<not> pc_active (h_pending_tool_call h)"
    using f g(1) by (simp add: framed_def agent_core_def untouched_def no_pending_call_def)
qed

definition first_start :: startup where
  "first_start = \<lparr>su_system_info = no_system_info, su_hardware_info = no_hardware_info, su_installed_apps = [],
     su_windows_locations = [], su_log_opened = True, su_database_opened = True, su_tables_created = True,
     su_database = closed_store\<rparr>"

definition started_host :: "unit host" where
  "started_host = snd (initialize_host idle_os first_start (configure default_host_config (new_host ())))"

lemma started_host_ok:
  "agent_ok (h_current_session_id started_host) started_host" "\<not> pc_active (h_pending_tool_call started_host)"
  "always_done (idle_os :: unit os)"
  using initialized_ok [of first_start idle_os default_host_config "()"]
  by (simp_all add: started_host_def first_start_def closed_store_def always_done_def idle_os_def)

section \<open>What histories keep\<close>

text \<open>
  In every history of agent calls, in any order and for any sessions, the call that awaits a
  decision is one whose tool needs approval, and the log in memory never holds more than 256
  entries.
\<close>

theorem pending_call_is_gated:
  assumes "agent_history os h0 h" and "\<not> pc_active (h_pending_tool_call h0)" and "length (h_app_log h0) \<le> 256"
  shows "(pc_active (h_pending_tool_call h) \<longrightarrow> tool_call_requires_approval (call_name (pc_decided_call (h_pending_tool_call h))))
    \<and> length (h_app_log h) \<le> 256"
  using history_gated [OF assms(1)] assms(2,3) by (simp add: gate_ok_def pending_gated_def)

theorem pending_call_is_gated_witness:
  "let h = snd (agent_tool_decision idle_os ''yes'' (snd (agent_turn idle_os ''hello'' started_host)))
   in (pc_active (h_pending_tool_call h) \<longrightarrow> tool_call_requires_approval (call_name (pc_decided_call (h_pending_tool_call h))))
    \<and> length (h_app_log h) \<le> 256"
  unfolding Let_def
  by (rule pending_call_is_gated [OF agent_history.decision [OF agent_history.turn [OF agent_history.started]]])
    (use started_host_ok in \<open>simp_all add: agent_ok_def\<close>)

text \<open>
  C12: after every orderly history a restart finds the conversation as it was: the database read back
  under the id of the session gives the transcript in memory, message by message in order, each
  text up to its first NUL.
\<close>

theorem restart_resumes_transcript:
  assumes "orderly_history os h0 h" and "always_done os" and "agent_ok (h_current_session_id h0) h0"
    and "su_database_opened su" and "su_tables_created su" and "su_database su = h_memory_store h"
  shows "resumed_transcript (memory_open su) (h_current_session_id h) =
    map (\<lambda>m. m\<lparr>msg_content := bound_text (msg_content m)\<rparr>) (h_agent_transcript h)"
proof -
  let ?read = "\<lambda>rc. \<lparr>msg_role = chat_role_from_string (fst rc), msg_content = snd rc\<rparr>"
  have ok: "agent_ok (h_current_session_id h) h" by (rule orderly_in_step [OF assms(1-3)])
  have "memory_open su = h_memory_store h" using assms(4-6) ok by (simp add: memory_open_def agent_ok_def)
  moreover have "resumed_transcript m s = map ?read (session_messages m s)" for m s
    by (simp add: resumed_transcript_def session_messages_def)
  moreover have "session_messages (h_memory_store h) (h_current_session_id h) = map stored_message (h_agent_transcript h)"
    using ok by (simp add: agent_ok_def in_step_def)
  moreover have "?read (stored_message m) = m\<lparr>msg_content := bound_text (msg_content m)\<rparr>" for m
    by (cases m; cases "msg_role m") (simp_all add: stored_message_def chat_role_from_string_def)
  ultimately show ?thesis by simp
qed

theorem restart_resumes_transcript_witness:
  "let h = snd (agent_turn idle_os ''hello'' started_host)
   in resumed_transcript (memory_open (first_start\<lparr>su_database := h_memory_store h\<rparr>)) (h_current_session_id h) =
    map (\<lambda>m. m\<lparr>msg_content := bound_text (msg_content m)\<rparr>) (h_agent_transcript h)"
proof -
  have "\<not> wants_clear ''hello''" unfolding wants_clear_def by code_simp
  then show ?thesis
    unfolding Let_def
    by (intro restart_resumes_transcript [OF orderly_history.turn [OF orderly_history.started]])
      (use started_host_ok in \<open>simp_all add: first_start_def\<close>)
qed

section \<open>A decision about a call of another session\<close>

definition other_ok :: "string \<Rightarrow> string \<Rightarrow> (string \<times> string) list \<Rightarrow> chat_message list \<Rightarrow> 'w host \<Rightarrow> bool" where
  "other_ok A B stored transcript h \<longleftrightarrow> \<not> same_session_id B A \<and> h_current_session_id h = B
     \<and> session_messages (h_memory_store h) B = stored \<and> prefix transcript (h_agent_transcript h) \<and> length (h_app_log h) \<le> 256"

lemma other_record:
  assumes "other_ok A B stored transcript h"
  shows "other_ok A B stored transcript (record_agent_message os A role content h)"
proof -
  have "session_messages (snd (memory_append done now A i r c m)) B = session_messages m B" for "done" now i r c m
    by (cases "done") (use assms sqlite_log.messages_other [of B A] in \<open>simp_all add: other_ok_def memory_append_def\<close>)
  then show ?thesis
    using assms by (auto simp: other_ok_def record_agent_message_def run_statement_def make_full_log_timestamp_def sense_def
        case_prod_beta Let_def)
qed

interpretation other: agent_invariant os A "other_ok A B stored transcript"
  for os :: "'w os" and A B stored transcript
proof
  fix h h' :: "'w host" assume "other_ok A B stored transcript h" and "framed (agent_core h) h'"
  then show "other_ok A B stored transcript h'"
    using messages_cong [of "h_memory_store h'" "h_memory_store h"] by (simp add: other_ok_def framed_def agent_core_def)
qed (simp_all add: other_record, simp_all add: other_ok_def)

lemma tool_result_transcript:
  "h_agent_transcript (log_tool_result os A what call result success h)
     = h_agent_transcript h @ [\<lparr>msg_role = Tool, msg_content = result\<rparr>]"
  by (simp add: log_tool_result_def record_agent_message_def run_statement_def append_app_log_def append_app_log_full_def
      make_log_timestamp_def make_full_log_timestamp_def sense_def case_prod_beta Let_def split: option.split)

definition approves :: "string \<Rightarrow> bool" where
  "approves body \<longleftrightarrow> extract_json_bool_field body ''approved'' 0 = Some True"

lemma approves_case: "(case extract_json_bool_field body ''approved'' 0 of None \<Rightarrow> False | Some b \<Rightarrow> b) = approves body"
  by (simp add: approves_def split: option.split)

lemma declined_keeps_other:
  assumes "pc_active (h_pending_tool_call h)" and "\<not> approves body" and "extract_json_string_field body ''session_id'' 0 = []"
    and "other_ok (pc_session_id (h_pending_tool_call h)) B stored (h_agent_transcript h) h"
  shows "other_ok (pc_session_id (h_pending_tool_call h)) B stored
    (h_agent_transcript h @ [\<lparr>msg_role = Tool, msg_content = declined_result (extract_json_string_field body ''reason'' 0)\<rparr>])
    (snd (agent_tool_decision os body h))"
proof -
  let ?A = "pc_session_id (h_pending_tool_call h)" and ?call = "pc_decided_call (h_pending_tool_call h)"
  let ?result = "declined_result (extract_json_string_field body ''reason'' 0)"
  let ?s = "log_tool_result os ?A ''tool declined '' ?call ?result False (h\<lparr>h_pending_tool_call := no_pending_call\<rparr>)"
  have "other_ok ?A B stored (h_agent_transcript h) ?s"
    by (rule other.ok_tool_log [OF other.ok_no_pending [OF assms(4)]])
  then have "other_ok ?A B stored (h_agent_transcript h @ [\<lparr>msg_role = Tool, msg_content = ?result\<rparr>]) ?s"
    by (simp add: other_ok_def tool_result_transcript)
  from keepsD [OF other.keeps_finish this] show ?thesis
    using assms(1-3) by (simp add: agent_tool_decision_def Let_def approves_case bindE_def)
qed

text \<open>
  Declining a call of a session that is not the current one puts the current one out of step
  with its log: the refusal lands in the transcript the next turn sends to the model, while nothing
  is stored for that session.
\<close>

theorem declined_call_of_other_session:
  assumes "pc_active (h_pending_tool_call h)" and "\<not> approves body" and "extract_json_string_field body ''session_id'' 0 = []"
    and "\<not> same_session_id (h_current_session_id h) (pc_session_id (h_pending_tool_call h))"
    and "in_step h" and "length (h_app_log h) \<le> 256"
  shows "let h' = snd (agent_tool_decision os body h) in
    h_current_session_id h' = h_current_session_id h
    \<and> session_messages (h_memory_store h') (h_current_session_id h') = session_messages (h_memory_store h) (h_current_session_id h)
    \<and> \<lparr>msg_role = Tool, msg_content = declined_result (extract_json_string_field body ''reason'' 0)\<rparr> \<in> set (h_agent_transcript h')
    \<and> \<not> in_step h'"
proof -
  let ?h' = "snd (agent_tool_decision os body h)" and ?B = "h_current_session_id h"
  let ?m = "\<lparr>msg_role = Tool, msg_content = declined_result (extract_json_string_field body ''reason'' 0)\<rparr>"
  have "other_ok (pc_session_id (h_pending_tool_call h)) ?B (session_messages (h_memory_store h) ?B) (h_agent_transcript h) h"
    using assms(4,6) by (simp add: other_ok_def)
  from declined_keeps_other [OF assms(1-3) this, of os]
  have k: "h_current_session_id ?h' = ?B" "session_messages (h_memory_store ?h') ?B = session_messages (h_memory_store h) ?B"
    and p: "prefix (h_agent_transcript h @ [?m]) (h_agent_transcript ?h')" by (simp_all add: other_ok_def)
  have "length (h_agent_transcript h) < length (h_agent_transcript ?h')" using prefix_length_le [OF p] by simp
  then have "\<not> in_step ?h'" using assms(5) k map_eq_imp_length_eq unfolding in_step_def by (metis less_irrefl)
  moreover have "?m \<in> set (h_agent_transcript ?h')" using p by (auto simp: prefix_def)
  ultimately show ?thesis using k by (simp add: Let_def)
qed

definition two_sessions :: "unit host" where
  "two_sessions = (new_host ())\<lparr>h_memory_store := closed_store\<lparr>ms_is_open := True\<rparr>, h_current_session_id := ''B'',
     h_pending_tool_call := \<lparr>pc_active = True, pc_session_id = ''A'', pc_decided_call = \<lparr>call_id = ''classified-0'',
       call_name = ''delete_file'', call_arguments_json = [lbrace, rbrace]\<rparr>, pc_actions = []\<rparr>\<rparr>"

theorem declined_call_of_other_session_witness:
  "let h' = snd (agent_tool_decision idle_os ''no'' two_sessions) in
    h_current_session_id h' = ''B'' \<and> \<not> in_step h'"
proof -
  have b: "\<not> approves ''no''" "extract_json_string_field ''no'' ''session_id'' 0 = []" unfolding approves_def by code_simp+
  have "in_step two_sessions"
    by (simp add: in_step_def two_sessions_def new_host_def session_messages_def load_session_def closed_store_def)
  with declined_call_of_other_session [OF _ b, of two_sessions idle_os]
  show ?thesis by (simp add: two_sessions_def new_host_def same_session_id_def bound_text_def Let_def)
qed

end
