(* ===== verification/Task_Outcomes.thy ===== *)
theory Task_Outcomes imports Complex_Main Host_Tasks Host_Status Host_Startup Task_Machine begin

text \<open>
  What the background loop (\<open>tick_tasks\<close> of \<open>cli/host.cpp\<close>) makes of the tasks it claims: the
  outcome of every kind of task, and that a queue of due tasks is worked off.
\<close>

section \<open>Outcomes\<close>

lemma success_refusal_object:
  "success_refusal m = render_object [(''success'', JBool False), (''error'', JStr m)]"
  unfolding success_refusal_def by (rule json_objectI) (simp add: object_simps)

lemma ok_error_object: "ok_error_json ok e = render_object [(''ok'', JBool ok), (''error'', JStr e)]"
  unfolding ok_error_json_def by (rule json_objectI) (simp add: object_simps)

lemma refusal_object: "refusal m = render_object [(''ok'', JBool False), (''error'', JStr m)]"
  unfolding refusal_def by (rule json_objectI) (simp add: object_simps)

lemmas answer_objects = success_refusal_object ok_error_object refusal_object

lemma plain_answer_keys: "plain_key ''success''" "plain_key ''ok''" "plain_key ''launched''" "plain_key ''error''"
  by (simp_all add: plain_key_def plain_char_def)

lemma plain_answers: "plain_keys [(''success'', v), (''error'', u)]" "plain_keys [(''ok'', v), (''error'', u)]"
  by (simp_all add: plain_keys_def plain_answer_keys)

lemma no_success:
  "\<not> contains (success_refusal m) (json_bool_field ''success'' True)"
  "\<not> contains (ok_error_json ok e) (json_bool_field ''success'' True)"
  by (simp_all add: answer_objects contains_bool_object plain_answer_keys plain_answers)

lemma launch_answer:
  "(\<exists>m. fst (launch_connector os c h) = success_refusal m) \<or> (\<exists>ok e. fst (launch_connector os c h) = ok_error_json ok e)"
  by (auto simp: launch_connector_def split: option.split prod.split)

lemma stop_answer: "\<exists>ok e. fst (stop_connector os c h) = ok_error_json ok e"
  by (auto simp: stop_connector_def split: prod.split)

text \<open>
  C40: A task that launches or stops a connector always ends as failed, whatever the process manager
  did: the loop looks for \<open>"success":true\<close>, and the two operations answer with \<open>"ok"\<close>.
\<close>

theorem connector_tasks_always_fail:
  assumes "task_command t = ''launch'' \<or> task_command t = ''stop''" and "task_connector_id t \<noteq> []"
  shows "fst (dispatch_task os t h) = Inr (False, task_command t @ ''_connector failed'', [])"
  using assms launch_answer [of os "task_connector_id t" h] stop_answer [of os "task_connector_id t" h]
  by (auto simp: dispatch_task_def case_prod_beta no_success Let_def)

definition launch_task :: task where
  "launch_task = empty_task\<lparr>task_id := ''t'', task_connector_id := ''a'', task_command := ''launch''\<rparr>"

theorem connector_tasks_always_fail_witness:
  "fst (dispatch_task (idle_os\<lparr>os_process_launch := (\<lambda>k l d c w. ((True, []), w))\<rparr>) launch_task (new_host ()))
     = Inr (False, ''launch_connector failed'', [])"
  using connector_tasks_always_fail [of launch_task "idle_os\<lparr>os_process_launch := (\<lambda>k l d c w. ((True, []), w))\<rparr>"]
  by (simp add: launch_task_def)

lemma report_object:
  "run_report what who requested effective wd ewd r =
     render_object ([(''ok'', JBool (command_succeeded r)), (''launched'', JBool (rr_launched r)),
       (''exit_code'', JInt (rr_exit_code r)), (''stdout'', JStr (rr_stdout_text r)), (''stderr'', JStr (rr_stderr_text r)),
       (''error'', JStr (rr_error_message r))]
       @ (if effective \<noteq> requested then [(what, JStr effective)] else [])
       @ (if wd \<noteq> ewd then [(''resolved_work_dir'', JStr ewd)] else [])
       @ (if \<not> command_succeeded r then [(''failure_reason'',
            JStr (who @ '' failed (exit_code='' @ to_string (rr_exit_code r) @ ''): '' @ summarize_command_failure r))] else []))"
  unfolding run_report_def by (rule json_objectI) (simp add: object_simps)

lemma report_launched:
  assumes "plain_key what"
  shows "contains (run_report what who requested effective wd ewd r) (json_bool_field ''launched'' True) \<longleftrightarrow> rr_launched r"
  unfolding report_object
  by (subst contains_bool_object) (use assms in \<open>auto simp: plain_keys_def plain_key_def plain_char_def\<close>)

text \<open>
  A task that runs a command ends as completed exactly when its process could be started: the
  exit code plays no part, so that a command that fails is recorded as done.
\<close>

theorem run_task_done_iff_started:
  assumes "task_command t = ''run''"
    and "extract_json_string_field (task_payload_json t) ''command'' 0 = command" and "command \<noteq> []"
    and "\<not> looks_like_placeholder_path command" and "int32_field (task_payload_json t) ''timeout_ms'' 30000 = Inr timeout_ms"
  shows "\<exists>report. fst (dispatch_task os t h) =
    Inr (rr_launched (fst (os_run_command_once os (substitute_bare_desktop_token command (desktop h))
           (resolve_work_dir_or_desktop (desktop h) (extract_json_string_field (task_payload_json t) ''work_dir'' 0))
           timeout_ms True (h_world h))),
         report)"
proof -
  have p: "plain_key ''resolved_command''" by (simp add: plain_key_def plain_char_def)
  show ?thesis
    using assms by (simp add: dispatch_task_def run_command_def bindE_def Let_def sense_def case_prod_beta report_launched [OF p])
qed

text \<open>A command that exits with 1.\<close>

definition failing_os :: "unit os" where
  "failing_os = idle_os\<lparr>os_run_command_once :=
     (\<lambda>c d t v w. (\<lparr>rr_launched = True, rr_exit_code = 1, rr_stdout_text = [], rr_stderr_text = [], rr_error_message = []\<rparr>, w))\<rparr>"

definition run_task :: task where
  "run_task = empty_task\<lparr>task_id := ''t'', task_command := ''run'', task_payload_json := [lbrace] @ json_string_field ''command'' ''false'' @ [rbrace]\<rparr>"

theorem run_task_done_iff_started_witness:
  "\<exists>report. fst (dispatch_task failing_os run_task (new_host ())) = Inr (True, report)"
proof -
  have "task_command run_task = ''run''" "extract_json_string_field (task_payload_json run_task) ''command'' 0 = ''false''"
    "''false'' \<noteq> ([] :: string)" "\<not> looks_like_placeholder_path ''false''"
    "int32_field (task_payload_json run_task) ''timeout_ms'' 30000 = Inr 30000"
    by (simp add: run_task_def, code_simp+)
  from run_task_done_iff_started [OF this, of failing_os "new_host ()"] show ?thesis by (simp add: failing_os_def)
qed

section \<open>A queue of due tasks is worked off\<close>

definition pending :: "task list \<Rightarrow> task list" where
  "pending ts = filter (\<lambda>t. task_status t = ''pending'') ts"

text \<open>No task recurs, and none is scheduled for later than any reading of the clock.\<close>

definition due_once :: "'w os \<Rightarrow> task list \<Rightarrow> bool" where
  "due_once os ts \<longleftrightarrow> (\<forall>t \<in> set ts. \<not> task_recurrence_ms t > 0 \<and> (\<forall>w. \<not> task_scheduled_for_ms t > fst (os_now_ms os w)))"

lemma pending_update:
  assumes "\<And>t. p t \<Longrightarrow> t \<in> set ts \<Longrightarrow> task_status (f t) \<noteq> ''pending''"
  shows "length (pending (update_first p f ts)) \<le> length (pending ts)"
    and "\<exists>t \<in> set ts. p t \<and> task_status t = ''pending'' \<Longrightarrow> (\<And>t. p t \<Longrightarrow> task_status t = ''pending'') \<Longrightarrow>
      length (pending (update_first p f ts)) < length (pending ts)"
  using assms by (induction ts) (auto simp: pending_def)

lemma pending_trim: "pending (trim_history ts) = pending ts"
proof -
  have "pending ts = filter (\<lambda>t. task_status t = ''pending'') (filter (\<lambda>t. \<not> is_terminal t) ts)" for ts
    by (auto simp: pending_def is_terminal_def intro!: filter_cong)
  then show ?thesis using filter_trim_history by metis
qed

lemma dispatch_tasks: "h_tasks (snd (dispatch_task os t h)) = h_tasks h"
proof -
  have log: "h_tasks (append_app_log os a b c d e g) = h_tasks g" for a b c d e g
    by (simp add: append_app_log_def append_app_log_full_def make_log_timestamp_def make_full_log_timestamp_def sense_def
        case_prod_beta Let_def split: option.split)
  have sen: "h_tasks (snd (sense f g)) = h_tasks g" for f g
    by (simp add: sense_def case_prod_beta)
  show ?thesis
    by (simp add: dispatch_task_def bindE_def run_command_def launch_connector_def stop_connector_def call_connector_def
        Let_def case_prod_beta log sen split: sum.split option.split)
qed

lemma settle_tasks:
  "\<exists>now. h_tasks (settle_task os t (success, err, result) h) =
    snd (if success then complete now (task_id t) result (h_tasks h) else fail now (task_id t) err (h_tasks h))"
  by (auto simp: settle_task_def append_app_log_def append_app_log_full_def make_log_timestamp_def
      make_full_log_timestamp_def sense_def case_prod_beta Let_def split: option.split)

lemma due_once_update:
  assumes "due_once os ts"
    and "\<And>t. t \<in> set ts \<Longrightarrow> task_recurrence_ms (f t) = task_recurrence_ms t \<and> task_scheduled_for_ms (f t) = task_scheduled_for_ms t"
  shows "due_once os (update_first p f ts)"
  unfolding due_once_def
proof
  fix x assume "x \<in> set (update_first p f ts)"
  then obtain t where "t \<in> set ts" and "x = t \<or> x = f t" using set_update_first by metis
  then show "\<not> task_recurrence_ms x > 0 \<and> (\<forall>w. \<not> task_scheduled_for_ms x > fst (os_now_ms os w))"
    using assms unfolding due_once_def by metis
qed

lemma due_once_trim: "due_once os ts \<Longrightarrow> due_once os (trim_history ts)"
  using set_trim_history unfolding due_once_def by blast

lemma mark_schedule_once:
  assumes "\<not> task_recurrence_ms t > 0"
  shows "task_scheduled_for_ms (mark_complete now r t) = task_scheduled_for_ms t"
    and "task_scheduled_for_ms (mark_failed now e t) = task_scheduled_for_ms t"
  unfolding mark_complete_def mark_failed_def Let_def using assms by simp_all

lemma settled_updates:
  assumes "due_once os ts" and "t \<in> set ts" and "f = mark_complete now r \<or> f = mark_failed now e"
  shows "task_status (f t) \<noteq> ''pending''"
    and "task_recurrence_ms (f t) = task_recurrence_ms t \<and> task_scheduled_for_ms (f t) = task_scheduled_for_ms t"
proof -
  have n: "\<not> task_recurrence_ms t > 0" using assms(1,2) by (simp add: due_once_def)
  from assms(3) show "task_status (f t) \<noteq> ''pending''" using n by (elim disjE) simp_all
  from assms(3) show "task_recurrence_ms (f t) = task_recurrence_ms t \<and> task_scheduled_for_ms (f t) = task_scheduled_for_ms t"
    by (elim disjE) (simp_all add: mark_schedule_once [OF n])
qed

lemma settled_tasks:
  assumes "q' = snd (if success then complete now i r q else fail now i e q)"
  obtains f where "f = mark_complete now r \<or> f = mark_failed now e"
    and "tq_tasks q' = tq_tasks q \<or> tq_tasks q' = trim_history (update_first (\<lambda>t. task_id t = i) f (tq_tasks q))"
  using assms by (cases success) (simp_all add: complete_def fail_def split: option.splits, blast+)

lemma settled_queue:
  assumes "due_once os (tq_tasks q)" and "q' = snd (if success then complete now i r q else fail now i e q)"
  shows "due_once os (tq_tasks q') \<and> length (pending (tq_tasks q')) \<le> length (pending (tq_tasks q))"
proof -
  obtain f where f: "f = mark_complete now r \<or> f = mark_failed now e"
      and q': "tq_tasks q' = tq_tasks q \<or> tq_tasks q' = trim_history (update_first (\<lambda>t. task_id t = i) f (tq_tasks q))"
    by (rule settled_tasks [OF assms(2)])
  let ?us = "update_first (\<lambda>t. task_id t = i) f (tq_tasks q)"
  note u = settled_updates [OF assms(1) _ f]
  have "due_once os (trim_history ?us)" by (rule due_once_trim [OF due_once_update [OF assms(1) u(2)]])
  moreover have "length (pending (trim_history ?us)) \<le> length (pending (tq_tasks q))"
    unfolding pending_trim by (rule pending_update(1) [OF u(1)])
  ultimately show ?thesis using q' assms(1) by (elim disjE) simp_all
qed

text \<open>One tick claims a due task and is done with it, however its run ends.\<close>

lemma tick_tasks_progress:
  assumes "due_once os (tq_tasks (h_tasks h))"
  defines "ts \<equiv> tq_tasks (h_tasks h)"
    and "ts' \<equiv> tq_tasks (h_tasks (snd (tick_tasks os h)))"
  shows "due_once os ts' \<and> (if pending ts = [] then pending ts' = [] else length (pending ts') < length (pending ts))"
proof -
  obtain now h1 where s: "sense (os_now_ms os) h = (now, h1)" by (cases "sense (os_now_ms os) h")
  have h1: "h_tasks h1 = h_tasks h" and now: "now = fst (os_now_ms os (h_world h))"
    using s by (auto simp: sense_def split: prod.splits)
  have c: "claimable now t \<longleftrightarrow> task_status t = ''pending''" if "t \<in> set ts" for t
    using assms(1) that unfolding claimable_def due_once_def ts_def now by auto
  show ?thesis
  proof (cases "find (claimable now) ts")
    case None
    have p: "pending ts = []"
      using None c unfolding find_None_iff pending_def filter_empty_conv by blast
    have "tick_tasks os h = (Inr (), h1\<lparr>h_tasks := h_tasks h\<rparr>)"
      using None by (simp add: tick_tasks_def s claim_next_def h1 ts_def)
    then have "ts' = ts" by (simp add: ts'_def ts_def)
    then show ?thesis using assms(1) p by (simp add: ts_def)
  next
    case (Some t)
    let ?q = "(h_tasks h)\<lparr>tq_tasks := update_first (claimable now) (mark_running now) ts\<rparr>"
    have t: "t \<in> set ts" "claimable now t" using Some by (auto simp: find_Some_iff)
    have d: "due_once os (tq_tasks ?q)"
      using due_once_update [OF assms(1), of "mark_running now" "claimable now"] by (simp add: mark_running_def ts_def)
    have less: "length (pending (tq_tasks ?q)) < length (pending ts)"
      using pending_update(2) [of "claimable now" ts "mark_running now"] t c
      by (auto simp: mark_running_def claimable_def)
    then have ne: "pending ts \<noteq> []" by auto
    obtain r h2 where r: "dispatch_task os (mark_running now t) (h1\<lparr>h_tasks := ?q\<rparr>) = (r, h2)" by fastforce
    have h2: "h_tasks h2 = ?q"
      using dispatch_tasks [of os "mark_running now t" "h1\<lparr>h_tasks := ?q\<rparr>"] r by simp
    have tick: "snd (tick_tasks os h) =
        snd (bindE (dispatch_task os (mark_running now t)) (\<lambda>outcome s. (Inr (), settle_task os (mark_running now t) outcome s))
              (h1\<lparr>h_tasks := ?q\<rparr>))"
      using Some by (simp add: tick_tasks_def s claim_next_def h1 ts_def)
    have "due_once os ts' \<and> length (pending ts') \<le> length (pending (tq_tasks ?q))"
    proof (cases r)
      case (Inl e)
      then show ?thesis using d h2 by (simp add: ts'_def tick bindE_def r)
    next
      case (Inr outcome)
      obtain success err result where o: "outcome = (success, err, result)" by (cases outcome)
      obtain n where n: "h_tasks (settle_task os (mark_running now t) outcome h2) =
          snd (if success then complete n (task_id (mark_running now t)) result ?q else fail n (task_id (mark_running now t)) err ?q)"
        using settle_tasks [of os "mark_running now t" success err result h2] unfolding o h2 by blast
      show ?thesis using settled_queue [OF d n] Inr by (simp add: ts'_def tick bindE_def r)
    qed
    then show ?thesis using less ne by simp
  qed
qed

definition ticks :: "nat \<Rightarrow> 'w os \<Rightarrow> 'w host \<Rightarrow> 'w host" where
  "ticks n os = ((\<lambda>h. snd (tick_tasks os h)) ^^ n)"



text \<open>\<open>DroidHost::tick\<close>: the watchdog, then the task loop.\<close>

definition tick :: "'w os \<Rightarrow> 'w host \<Rightarrow> (cpp_exception + unit) \<times> 'w host" where
  "tick os h = tick_tasks os (tick_watchdog os h)"

end
