(* ===== verification/Host_Settings.thy ===== *)
theory Host_Settings imports Complex_Main Host_Startup begin

text \<open>
  What the settings file holds after the host has saved its configuration
  (\<open>persist_current_settings_locked\<close>): the fields the host owns, and the port and token it only
  carries over.
\<close>

lemma in_i32_wrap32: "in_i32 (wrap32 n)"
  by (simp add: in_i32_def wrap32_def)

lemma loaded_port:
  assumes "load_settings os path out w = Inr (found, s)" and "in_i32 (hs_port out)"
  shows "in_i32 (hs_port s)"
  using assms by (auto simp: load_settings_def Let_def in_i32_wrap32 split: option.splits sum.splits if_splits)

text \<open>The settings that are saved: those of the file, with the fields of the configuration.\<close>

definition merged_settings :: "host_config \<Rightarrow> host_settings \<Rightarrow> host_settings" where
  "merged_settings c s = s\<lparr>hs_enable_ai := hc_enable_ai c, hs_enable_hardware_scan := hc_enable_hardware_scan c,
     hs_ollama_url := hc_ollama_url c, hs_ollama_model := hc_ollama_model c, hs_ollama_num_ctx := hc_ollama_num_ctx c\<rparr>"

lemma persisted_world:
  assumes "hc_settings_path (h_config h) = path" and "path \<noteq> []"
    and "load_settings os path default_settings (h_world h) = Inr (found, s)"
  shows "h_world (snd (persist_current_settings os h)) = snd (save_settings os path (merged_settings (h_config h) s) (h_world h))"
  using assms by (simp add: persist_current_settings_def merged_settings_def sense_def case_prod_beta Let_def)

text \<open>A file that can be written holds what was written.\<close>

definition writable :: "'w os \<Rightarrow> string \<Rightarrow> bool" where
  "writable os path \<longleftrightarrow> (\<forall>json w. fst (fs_write os path json False w) \<noteq> Not_Opened
     \<and> fs_read os path (snd (fs_write os path json False w)) = Some json)"

text \<open>
  Saving a changed configuration keeps the port and the token of the settings file. Read back,
  the file has the five fields of the configuration and everything else as it was, provided that
  DPAPI decrypts what it encrypts.
\<close>

theorem persist_keeps_port_and_token:
  assumes "hc_settings_path (h_config h) = path" and "path \<noteq> []"
    and "load_settings os path default_settings (h_world h) = Inr (found, s)"
    and "writable os path"
    and "\<forall>b w1 w2. os_protect os (hs_api_token s) (h_world h) = (Some b, w1) \<longrightarrow> b \<noteq> [] \<and> os_unprotect os b w2 = Some (hs_api_token s)"
    and "in_i32 (hc_ollama_num_ctx (h_config h))" and "hc_ollama_url (h_config h) \<noteq> []" and "hc_ollama_model (h_config h) \<noteq> []"
  shows "load_settings os path out (h_world (snd (persist_current_settings os h)))
    = Inr (True, merged_settings (h_config h) s)"
proof -
  let ?s = "merged_settings (h_config h) s" and ?w = "h_world h"
  obtain secret w1 where sec: "serialize_secret_field os ''api_token'' (hs_api_token ?s) ?w = (secret, w1)" by (meson surj_pair)
  let ?w2 = "snd (fs_write os path (settings_json ?s secret) False w1)"
  have w2: "h_world (snd (persist_current_settings os h)) = ?w2"
    using sec by (simp add: persisted_world [OF assms(1-3)] save_settings_def case_prod_beta)
  have r: "fs_read os path ?w2 = Some (settings_json ?s secret)" using assms(4) by (simp add: writable_def)
  have p: "in_i32 (hs_port ?s)"
    using loaded_port [OF assms(3)] by (simp add: merged_settings_def default_settings_def in_i32_def)
  show ?thesis
    unfolding w2
    by (rule saved_settings_load [OF sec r _ p]) (use assms(5-8) in \<open>simp_all add: merged_settings_def\<close>)
qed

text \<open>A file in memory as the world, and DPAPI as reversal.\<close>

definition file_os :: "string os" where
  "file_os = idle_os\<lparr>os_windows := True, os_protect := (\<lambda>p w. (Some (rev p), w)), os_unprotect := (\<lambda>p w. Some (rev p)),
     fs_read := (\<lambda>p w. Some w), fs_write := (\<lambda>p c a w. (Written, c))\<rparr>"

lemma writable_file_os: "writable file_os path"
  by (simp add: writable_def file_os_def)

definition saved_host :: "string host" where
  "saved_host = configure (default_host_config\<lparr>hc_settings_path := ''s'', hc_ollama_model := ''m''\<rparr>)
     (new_host (settings_json (default_settings\<lparr>hs_port := 8080\<rparr>) (json_string_field ''api_token'' ''t'')))"

lemma saved_host_config:
  "h_world saved_host = settings_json (default_settings\<lparr>hs_port := 8080\<rparr>) (json_string_field ''api_token'' ''t'')"
  "hc_settings_path (h_config saved_host) = ''s''" "hc_ollama_num_ctx (h_config saved_host) = 32768"
  "hc_ollama_url (h_config saved_host) = ''http://127.0.0.1:11434''" "hc_ollama_model (h_config saved_host) = ''m''"
  by (simp_all add: saved_host_def configure_def new_host_def default_host_config_def)

lemma token_keys: "plain_key ''api_token''" "plain_key ''api_token_dpapi_hex''"
  by (simp_all add: plain_key_def plain_char_def)

lemmas token_fields = extract_flat_string [OF token_keys(1) plain_settings_fields] extract_flat_string [OF token_keys(2) plain_settings_fields]

lemma settings_text_loads:
  assumes "fs_read os path w = Some (settings_json s (json_string_field k v))" and "k = ''api_token'' \<or> k = ''api_token_dpapi_hex''"
    and "in_i32 (hs_port s)" and "in_i32 (hs_ollama_num_ctx s)" and "hs_ollama_url s \<noteq> []" and "hs_ollama_model s \<noteq> []"
  shows "load_settings os path out w = Inr (True, s\<lparr>hs_api_token :=
    decrypt_secret_field os (settings_json s (json_string_field k v)) ''api_token'' w\<rparr>)"
proof -
  let ?s = "s\<lparr>hs_api_token := decrypt_secret_field os (settings_json s (json_string_field k v)) ''api_token'' w\<rparr>"
  have k: "plain_key k" "k \<notin> set [''port'', ''ollama_num_ctx'']" using assms(2) token_keys by auto
  have f: "settings_fields (s\<lparr>hs_api_token := t\<rparr>) k v = settings_fields s k v" for t by (simp add: settings_fields_def)
  show ?thesis
    by (rule load_settings_object [OF _ k(1) _ _ _ _ k(2), of os path w ?s v])
      (use assms in \<open>simp_all add: f settings_json_object\<close>)
qed

lemma saved_host_loads:
  "load_settings file_os ''s'' default_settings (h_world saved_host) = Inr (True, default_settings\<lparr>hs_port := 8080, hs_api_token := ''t''\<rparr>)"
proof -
  let ?s = "default_settings\<lparr>hs_port := 8080\<rparr>"
  have "decrypt_secret_field file_os (settings_json ?s (json_string_field ''api_token'' ''t'')) ''api_token'' w = ''t''" for w
    unfolding settings_json_object decrypt_secret_field_def Let_def append.simps token_fields [OF token_keys(1)]
    by (simp add: flat_string_def settings_fields_def)
  then show ?thesis
    unfolding saved_host_config
    using settings_text_loads [of file_os "''s''" "settings_json ?s (json_string_field ''api_token'' ''t'')" ?s "''api_token''" "''t''"]
    by (simp add: default_settings_def in_i32_def) (simp add: file_os_def)
qed

theorem persist_keeps_port_and_token_witness:
  "\<exists>s. load_settings file_os ''s'' default_settings (h_world (snd (persist_current_settings file_os saved_host))) = Inr (True, s)
    \<and> hs_port s = 8080 \<and> hs_api_token s = ''t'' \<and> hs_ollama_model s = ''m''"
proof -
  have "load_settings file_os ''s'' default_settings (h_world (snd (persist_current_settings file_os saved_host)))
      = Inr (True, merged_settings (h_config saved_host) (default_settings\<lparr>hs_port := 8080, hs_api_token := ''t''\<rparr>))"
    by (rule persist_keeps_port_and_token [OF saved_host_config(2) _ saved_host_loads writable_file_os])
      (simp_all add: saved_host_config file_os_def in_i32_def)
  then show ?thesis by (simp add: merged_settings_def saved_host_config default_settings_def)
qed

text \<open>
  A token that DPAPI cannot decrypt (a file copied from another user or machine) is lost at the
  next change of the configuration: the file is rewritten with neither the encrypted nor a plain
  token in it.
\<close>

theorem undecryptable_token_blanked:
  assumes "hc_settings_path (h_config h) = path" and "path \<noteq> []"
    and "load_settings os path default_settings (h_world h) = Inr (found, s)"
    and "writable os path" and "os_windows os" and "fs_read os path (h_world h) = Some json"
    and "extract_json_string_field json ''api_token_dpapi_hex'' 0 = encrypted" and "encrypted \<noteq> []"
    and "dpapi_unprotect os encrypted (h_world h) = None"
  shows "\<exists>json'. fs_read os path (h_world (snd (persist_current_settings os h))) = Some json'
    \<and> extract_json_string_field json' ''api_token_dpapi_hex'' 0 = [] \<and> extract_json_string_field json' ''api_token'' 0 = []"
proof -
  let ?s = "merged_settings (h_config h) s"
  let ?json = "settings_json ?s (json_string_field ''api_token'' [])"
  have "json \<noteq> []"
    using assms(7,8) by (auto simp: extract_json_string_field_def field_text_def find_from_def needle_def)
  moreover have "decrypt_secret_field os json ''api_token'' (h_world h) = []"
    using assms(5,7-9) by (simp add: decrypt_secret_field_def)
  ultimately have "hs_api_token ?s = []"
    using assms(3,6) by (auto simp: load_settings_def merged_settings_def Let_def split: sum.splits)
  then have "h_world (snd (persist_current_settings os h)) = snd (fs_write os path ?json False (h_world h))"
    by (simp add: persisted_world [OF assms(1-3)] save_settings_def serialize_secret_field_def case_prod_beta)
  then have "fs_read os path (h_world (snd (persist_current_settings os h))) = Some ?json"
    using assms(4) by (simp add: writable_def)
  moreover have "extract_json_string_field ?json ''api_token_dpapi_hex'' 0 = []" "extract_json_string_field ?json ''api_token'' 0 = []"
    unfolding settings_json_object token_fields [OF token_keys(1)]
    by (simp_all add: flat_string_def settings_fields_def)
  ultimately show ?thesis by blast
qed

definition foreign_os :: "string os" where
  "foreign_os = file_os\<lparr>os_unprotect := (\<lambda>p w. None)\<rparr>"

definition foreign_host :: "string host" where
  "foreign_host = configure (default_host_config\<lparr>hc_settings_path := ''s''\<rparr>)
     (new_host (settings_json default_settings (json_string_field ''api_token_dpapi_hex'' ''ab'')))"

theorem undecryptable_token_blanked_witness:
  "\<exists>json'. fs_read foreign_os ''s'' (h_world (snd (persist_current_settings foreign_os foreign_host))) = Some json'
    \<and> extract_json_string_field json' ''api_token_dpapi_hex'' 0 = [] \<and> extract_json_string_field json' ''api_token'' 0 = []"
proof -
  let ?json = "settings_json default_settings (json_string_field ''api_token_dpapi_hex'' ''ab'')"
  have w: "h_world foreign_host = ?json" "hc_settings_path (h_config foreign_host) = ''s''"
    by (simp_all add: foreign_host_def configure_def new_host_def)
  have x: "extract_json_string_field ?json ''api_token_dpapi_hex'' 0 = ''ab''"
    unfolding settings_json_object token_fields(2) [OF token_keys(2)] by (simp add: flat_string_def settings_fields_def)
  have r: "\<exists>s. load_settings foreign_os ''s'' default_settings ?json = Inr (True, s)"
    using settings_text_loads [of foreign_os "''s''" ?json default_settings "''api_token_dpapi_hex''" "''ab''"]
    by (simp add: foreign_os_def file_os_def default_settings_def in_i32_def)
  then obtain s where r: "load_settings foreign_os ''s'' default_settings ?json = Inr (True, s)" by blast
  have u: "dpapi_unprotect foreign_os ''ab'' ?json = None" by (simp add: dpapi_unprotect_def foreign_os_def split: option.split)
  show ?thesis
    by (rule undecryptable_token_blanked [OF w(2) _ _ _ _ _ x, where s = s and found = True])
      (use r u in \<open>simp_all add: w writable_def\<close>, simp_all add: foreign_os_def file_os_def)
qed

end
