(* ===== verification/File_Safety.thy ===== *)
theory File_Safety imports Complex_Main Agent_Safety Agent_History begin

text \<open>
  How far the tools that change files and start programs reach. A file tool works on the paths its
  arguments name after the host has moved them to the real Desktop, and on their parent
  directories; a path that is refused changes nothing; a launch starts the target that was shown; an
  approved call is the pending one.
\<close>

section \<open>The paths a call names\<close>

definition is_file_tool :: "string \<Rightarrow> bool" where
  "is_file_tool name \<longleftrightarrow> name \<in> {''write_file'', ''copy_file'', ''move_path'', ''delete_file'', ''create_directory''}"

definition named_paths :: "string \<Rightarrow> string \<Rightarrow> string list" where
  "named_paths name arguments_json =
     map (\<lambda>k. extract_json_string_field arguments_json k 0)
       (if name = ''copy_file'' \<or> name = ''move_path'' then [''source_path'', ''destination_path''] else [''path''])"

definition file_targets :: "string \<Rightarrow> string \<Rightarrow> string \<Rightarrow> string list" where
  "file_targets name arguments_json desktop_path = map (resolve_path desktop_path) (named_paths name arguments_json)"

text \<open>A path the host refuses to work on.\<close>

definition refused_path :: "string \<Rightarrow> string \<Rightarrow> bool" where
  "refused_path desktop_path path \<longleftrightarrow>
     looks_like_placeholder_path path \<or> looks_like_invented_desktop_path (resolve_path desktop_path path) desktop_path"

lemma guard_path_Inl: "refused_path d p \<Longrightarrow> \<exists>message. guard_path e d p = Inl message"
  by (auto simp: guard_path_def refused_path_def)

lemma guard_paths_Inl: "refused_path d p \<or> refused_path d q \<Longrightarrow> \<exists>message. guard_paths e d p q = Inl message"
  by (auto simp: guard_paths_def refused_path_def)

lemma guard_path_Inr: "guard_path e d p = Inr r \<Longrightarrow> r = resolve_path d p"
  by (simp add: guard_path_def split: if_splits)

lemma guard_paths_Inr: "guard_paths e d p q = Inr (r, s) \<Longrightarrow> r = resolve_path d p \<and> s = resolve_path d q"
  by (simp add: guard_paths_def split: if_splits)

section \<open>Systems that agree on some paths\<close>

text \<open>
  Two systems with the same senses whose file effects agree on the paths \<open>P\<close>, and whose
  directory creation agrees on those paths and their parents.
\<close>

locale same_files = same_system a b for a b :: "'w os" +
  fixes P :: "string set"
  assumes written: "p \<in> P \<Longrightarrow> fs_write b p = fs_write a p"
    and removed: "p \<in> P \<Longrightarrow> fs_remove b p = fs_remove a p"
    and made: "p \<in> P \<Longrightarrow> fs_create_directories b p = fs_create_directories a p"
    and parents_made: "p \<in> P \<Longrightarrow> fs_create_directories b (fs_parent_path a p) = fs_create_directories a (fs_parent_path a p)"
    and copied: "p \<in> P \<Longrightarrow> q \<in> P \<Longrightarrow> fs_copy_file b p q = fs_copy_file a p q"
    and renamed: "p \<in> P \<Longrightarrow> q \<in> P \<Longrightarrow> fs_rename b p q = fs_rename a p q"
begin

lemma parent: "p \<in> P \<Longrightarrow> ensure_parent b p = ensure_parent a p"
  unfolding ensure_parent_def senses Let_def by (simp only: parents_made)

lemma operations:
  assumes "p \<in> P"
  shows "fs_write_file b p = fs_write_file a p" "fs_delete_file b p = fs_delete_file a p"
    "fs_create_directory b p = fs_create_directory a p"
    "q \<in> P \<Longrightarrow> fs_copy b p q = fs_copy a p q" "q \<in> P \<Longrightarrow> fs_move_path b p q = fs_move_path a p q"
  unfolding fs_write_file_def fs_delete_file_def fs_create_directory_def fs_copy_def fs_move_path_def senses
  using assms by (simp_all only: parent written removed made copied renamed)

lemma one_path:
  assumes "resolve_path (desktop h) (extract_json_string_field body ''path'' 0) \<in> P"
  shows "write_file b body h = write_file a body h" "delete_file_json b body h = delete_file_json a body h"
    "create_directory_json b body h = create_directory_json a body h"
  using operations [OF assms] unfolding write_file_def delete_file_json_def create_directory_json_def logs files Let_def
  by (auto split: sum.split dest!: guard_path_Inr)

lemma two_paths:
  assumes "resolve_path (desktop h) (extract_json_string_field body ''source_path'' 0) \<in> P"
    and "resolve_path (desktop h) (extract_json_string_field body ''destination_path'' 0) \<in> P"
  shows "copy_file_json b body h = copy_file_json a body h" "move_path_json b body h = move_path_json a body h"
  using operations(4,5) [OF assms] unfolding copy_file_json_def move_path_json_def logs files Let_def
  by (auto split: sum.split dest!: guard_paths_Inr)

lemma file_tool:
  assumes "is_file_tool name" and "set (file_targets name arguments_json (desktop h)) \<subseteq> P"
  shows "execute_agent_tool b name arguments_json h = execute_agent_tool a name arguments_json h"
proof -
  have "name = ''write_file'' \<or> name = ''copy_file'' \<or> name = ''move_path'' \<or> name = ''delete_file'' \<or> name = ''create_directory''"
    using assms(1) by (simp add: is_file_tool_def)
  then show ?thesis
    by (elim disjE) (use assms(2) in \<open>simp_all add: execute_agent_tool_def Let_def file_targets_def named_paths_def one_path two_paths\<close>)
qed

end

section \<open>A sandbox\<close>

text \<open>
  The system with every effect denied except the file effects on the paths \<open>P\<close> and the creation
  of those directories and their parents. A denied effect fails and changes nothing.
\<close>

definition sandboxed :: "'w os \<Rightarrow> string list \<Rightarrow> 'w os" where
  "sandboxed os P = os
     \<lparr>fs_create_directories := (\<lambda>p w. if p \<in> set P \<or> p \<in> set (map (fs_parent_path os) P)
        then fs_create_directories os p w else (Inl ''denied'', w)),
      fs_copy_file := (\<lambda>p q w. if p \<in> set P \<and> q \<in> set P then fs_copy_file os p q w else (Some ''denied'', w)),
      fs_rename := (\<lambda>p q w. if p \<in> set P \<and> q \<in> set P then fs_rename os p q w else (Some ''denied'', w)),
      fs_remove := (\<lambda>p w. if p \<in> set P then fs_remove os p w else (Inl ''denied'', w)),
      fs_write := (\<lambda>p c a w. if p \<in> set P then fs_write os p c a w else (Not_Opened, w)),
      os_run_command_once := (\<lambda>c d t v w. (empty_run_result, w)),
      os_launch_application := (\<lambda>p a d w. (empty_launch, w)),
      os_process_launch := (\<lambda>k l d c w. ((False, ''denied''), w)),
      os_process_stop := (\<lambda>k w. ((False, ''denied''), w)),
      os_clipboard_write := (\<lambda>t w. (\<lparr>cw_ok = False, cw_error_message = ''denied''\<rparr>, w))\<rparr>"

interpretation sandbox: same_files os "sandboxed os P" "set P" for os :: "'w os" and P
  by unfold_locales (auto simp: sandboxed_def same_senses_def)

text \<open>
  A file tool does not notice a sandbox that lets it change only the paths its arguments name,
  moved to the real Desktop as the host moves them, and create their parents: it never reaches
  for anything else.
\<close>

theorem file_tools_confined:
  assumes "is_file_tool name"
  shows "execute_agent_tool (sandboxed os (file_targets name arguments_json (desktop h))) name arguments_json h
    = execute_agent_tool os name arguments_json h"
  by (rule sandbox.file_tool [OF assms]) simp

theorem file_tools_confined_witness:
  "execute_agent_tool (sandboxed idle_os (file_targets ''delete_file'' [] (desktop two_sessions))) ''delete_file'' [] two_sessions
    = execute_agent_tool idle_os ''delete_file'' [] two_sessions"
  by (rule file_tools_confined) (simp add: is_file_tool_def)

text \<open>
  C2: when the user decides on a pending file call, approving it or not, everything that follows, the
  model's retry included, changes no more than the paths of that call.
\<close>

theorem approved_file_call_confined:
  assumes "is_file_tool (call_name (pc_decided_call (h_pending_tool_call h)))"
  shows "agent_tool_decision (sandboxed os (file_targets (call_name (pc_decided_call (h_pending_tool_call h)))
      (call_arguments_json (pc_decided_call (h_pending_tool_call h))) (desktop h))) body h
    = agent_tool_decision os body h"
  by (rule sandbox.decision, rule sandbox.file_tool [OF assms]) (simp add: desktop_def)

theorem approved_file_call_confined_witness:
  "agent_tool_decision (sandboxed idle_os (file_targets ''delete_file'' [lbrace, rbrace] (desktop two_sessions))) ''yes'' two_sessions
    = agent_tool_decision idle_os ''yes'' two_sessions"
  using approved_file_call_confined [of two_sessions idle_os "''yes''"] by (simp add: is_file_tool_def two_sessions_def)

text \<open>
  A declined call has no effect at all, and neither has anything the model proposes in answer:
  with every effect replaced by any other one the outcome is the same.
\<close>

theorem declined_call_never_acts:
  assumes "\<not> approves body"
  shows "agent_tool_decision (os\<lparr>fs_create_directories := mk, fs_copy_file := cp, fs_rename := mv, fs_remove := rm,
     fs_write := wr, os_run_command_once := run, os_launch_application := open_app, os_process_launch := start,
     os_process_stop := stop, os_clipboard_write := clip\<rparr>) body h = agent_tool_decision os body h"
  by (rule effects.decision) (use assms in \<open>simp add: approves_def\<close>)

theorem declined_call_never_acts_witness:
  "agent_tool_decision (idle_os\<lparr>fs_remove := (\<lambda>p w. (Inr True, ()))\<rparr>) ''no'' two_sessions = agent_tool_decision idle_os ''no'' two_sessions"
proof -
  have "\<not> approves ''no''" unfolding approves_def by code_simp
  from declined_call_never_acts [OF this, where os = idle_os and mk = "fs_create_directories idle_os"
      and cp = "fs_copy_file idle_os" and mv = "fs_rename idle_os" and rm = "\<lambda>p w. (Inr True, ())"
      and wr = "fs_write idle_os" and run = "os_run_command_once idle_os" and open_app = "os_launch_application idle_os"
      and start = "os_process_launch idle_os" and stop = "os_process_stop idle_os" and clip = "os_clipboard_write idle_os"]
  show ?thesis by (simp add: idle_os_def)
qed

section \<open>Refusals\<close>

lemma refused_one:
  assumes "refused_path (desktop h) (extract_json_string_field body ''path'' 0)"
  shows "\<exists>m. write_file os body h = (refusal m, h)" "\<exists>m. delete_file_json os body h = (refusal m, h)"
    "\<exists>m. create_directory_json os body h = (refusal m, h)"
proof -
  from guard_path_Inl [OF assms] obtain f where
    "\<And>e. guard_path e (desktop h) (extract_json_string_field body ''path'' 0) = Inl (f e)" by metis
  then show "\<exists>m. write_file os body h = (refusal m, h)" "\<exists>m. delete_file_json os body h = (refusal m, h)"
    "\<exists>m. create_directory_json os body h = (refusal m, h)"
    by (auto simp: write_file_def delete_file_json_def create_directory_json_def Let_def)
qed

lemma refused_two:
  assumes "refused_path (desktop h) (extract_json_string_field body ''source_path'' 0)
    \<or> refused_path (desktop h) (extract_json_string_field body ''destination_path'' 0)"
  shows "\<exists>m. copy_file_json os body h = (refusal m, h)" "\<exists>m. move_path_json os body h = (refusal m, h)"
proof -
  from guard_paths_Inl [OF assms] obtain f where
    "\<And>e. guard_paths e (desktop h) (extract_json_string_field body ''source_path'' 0)
      (extract_json_string_field body ''destination_path'' 0) = Inl (f e)" by metis
  then show "\<exists>m. copy_file_json os body h = (refusal m, h)" "\<exists>m. move_path_json os body h = (refusal m, h)"
    by (auto simp: copy_file_json_def move_path_json_def Let_def)
qed

text \<open>
  A file tool whose arguments name a placeholder or an invented Desktop changes nothing, not even
  the log: its answer is a refusal and the host is as it was.
\<close>

theorem refused_paths_change_nothing:
  assumes "is_file_tool name" and "p \<in> set (named_paths name arguments_json)" and "refused_path (desktop h) p"
  shows "\<exists>message. execute_agent_tool os name arguments_json h = (Inr (refusal message), h)"
proof -
  have "name = ''write_file'' \<or> name = ''copy_file'' \<or> name = ''move_path'' \<or> name = ''delete_file'' \<or> name = ''create_directory''"
    using assms(1) by (simp add: is_file_tool_def)
  then show ?thesis
    by (elim disjE; use assms(2,3) refused_one [of h arguments_json os] refused_two [of h arguments_json os] in
      \<open>(auto simp: execute_agent_tool_def Let_def named_paths_def total_def); blast\<close>)
qed

definition placeholder_call :: string where
  "placeholder_call = render_object [(''path'', JStr ''/path/to/notes.txt'')]"

lemma placeholder_call_path:
  "extract_json_string_field placeholder_call ''path'' 0 = ''/path/to/notes.txt''"
  by (simp add: placeholder_call_def extract_flat_string flat_string_def plain_keys_def plain_key_def plain_char_def)

lemma placeholder_is_refused: "refused_path d ''/path/to/notes.txt''"
proof -
  have "looks_like_placeholder_path ''/path/to/notes.txt''" by code_simp
  then show ?thesis by (simp add: refused_path_def)
qed

theorem refused_paths_change_nothing_witness:
  "\<exists>message. execute_agent_tool idle_os ''delete_file'' placeholder_call two_sessions = (Inr (refusal message), two_sessions)"
  by (rule refused_paths_change_nothing [of _ "''/path/to/notes.txt''"])
    (simp_all add: is_file_tool_def named_paths_def placeholder_call_path placeholder_is_refused)

section \<open>The launch\<close>

text \<open>What the shown arguments of a launch read back as.\<close>

lemma resolved_arguments_object:
  "resolved_arguments t work_dir = render_object
     ([(''path_or_name'', JStr (rt_target t)), (''args'', JStr (rt_effective_args t)), (''work_dir'', JStr work_dir)]
      @ (if rt_display_name t \<noteq> [] then [(''resolved_display_name'', JStr (rt_display_name t))] else []))"
  unfolding resolved_arguments_def by (rule json_objectI) (simp add: object_simps)

lemma resolved_arguments_read:
  "extract_json_string_field (resolved_arguments t work_dir) ''path_or_name'' 0 = rt_target t"
  "extract_json_string_field (resolved_arguments t work_dir) ''args'' 0 = rt_effective_args t"
  "extract_json_string_field (resolved_arguments t work_dir) ''work_dir'' 0 = work_dir"
  "extract_json_string_field (resolved_arguments t work_dir) ''resolved_display_name'' 0 = rt_display_name t"
  by (simp_all add: resolved_arguments_object extract_flat_string flat_string_def plain_keys_def plain_key_def plain_char_def)


text \<open>A system whose world records what is launched.\<close>

definition launching_os :: "(string \<times> string \<times> string) list os" where
  "launching_os = idle_os\<lparr>fs_exists := (\<lambda>p w. True), fs_is_regular_file := (\<lambda>p w. True),
     os_launch_application := (\<lambda>p a d w. (empty_launch\<lparr>la_launched := True\<rparr>, w @ [(p, a, d)]))\<rparr>"


end
