(* ===== verification/Filesystem_Laws.thy ===== *)
theory Filesystem_Laws imports Complex_Main File_Safety begin

text \<open>
  What the file tools promise about contents: what \<open>write_file\<close> reports as written and verified is what
  \<open>read_file\<close> answers next, and a copied or moved file reads at its destination as it read at its
  source. The file system is a parameter: \<open>files_documented\<close> says of it what the documentation
  of \<open>std::filesystem\<close> and of file streams promises for the one path an operation works on, nothing
  about other names of the same file. A file system in memory shows that it can hold.
\<close>

section \<open>The documented file system\<close>

text \<open>\<open>contents w p\<close>: the bytes of the regular file \<open>p\<close>, if there is one that can be read.\<close>

definition files_documented :: "'w os \<Rightarrow> ('w \<Rightarrow> string \<Rightarrow> string option) \<Rightarrow> bool" where
  "files_documented os contents \<longleftrightarrow>
     (\<forall>w p c. contents w p = Some c \<longrightarrow> fs_exists os p w \<and> fs_is_directory os p w = (False, None)
        \<and> fs_is_regular_file os p w \<and> fs_file_size os p w = Inr (length c) \<and> fs_read os p w = Some c) \<and>
     (\<forall>w f. contents (snd (os_local_time os f w)) = contents w
        \<and> (\<forall>p. fs_is_regular_file os p (snd (os_local_time os f w)) = fs_is_regular_file os p w)) \<and>
     (\<forall>w p. contents (snd (fs_create_directories os p w)) = contents w) \<and>
     (\<forall>w p c w'. fs_write os p c False w = (Written, w') \<and> fs_is_regular_file os p w' \<longrightarrow> contents w' p = Some c) \<and>
     (\<forall>w p q w' c. fs_copy_file os p q w = (None, w') \<and> contents w p = Some c \<longrightarrow> contents w' q = Some c) \<and>
     (\<forall>w p q w' c. fs_rename os p q w = (None, w') \<and> contents w p = Some c \<longrightarrow> contents w' q = Some c)"

lemma documented_file:
  assumes "files_documented os contents" and "contents w p = Some c"
  shows "fs_exists os p w" "fs_is_directory os p w = (False, None)" "fs_is_regular_file os p w"
    "fs_file_size os p w = Inr (length c)" "fs_read os p w = Some c"
proof -
  from assms(1) have "\<forall>w p c. contents w p = Some c \<longrightarrow> fs_exists os p w \<and> fs_is_directory os p w = (False, None)
      \<and> fs_is_regular_file os p w \<and> fs_file_size os p w = Inr (length c) \<and> fs_read os p w = Some c"
    unfolding files_documented_def by (rule conjunct1)
  from this [rule_format, OF assms(2)]
  show "fs_exists os p w" "fs_is_directory os p w = (False, None)" "fs_is_regular_file os p w"
    "fs_file_size os p w = Inr (length c)" "fs_read os p w = Some c" by simp_all
qed

lemma documented:
  assumes "files_documented os contents"
  shows "contents (snd (os_local_time os f w)) = contents w"
    "fs_is_regular_file os p (snd (os_local_time os f w)) = fs_is_regular_file os p w"
    "contents (snd (fs_create_directories os p w)) = contents w"
    "fs_write os p c False w = (Written, w') \<Longrightarrow> fs_is_regular_file os p w' \<Longrightarrow> contents w' p = Some c"
    "fs_copy_file os p q w = (None, w') \<Longrightarrow> contents w p = Some c \<Longrightarrow> contents w' q = Some c"
    "fs_rename os p q w = (None, w') \<Longrightarrow> contents w p = Some c \<Longrightarrow> contents w' q = Some c"
proof -
  note d = assms [unfolded files_documented_def, THEN conjunct2]
  show "contents (snd (os_local_time os f w)) = contents w" by (rule d [THEN conjunct1, rule_format, THEN conjunct1])
  show "fs_is_regular_file os p (snd (os_local_time os f w)) = fs_is_regular_file os p w"
    by (rule d [THEN conjunct1, rule_format, THEN conjunct2, rule_format])
  show "contents (snd (fs_create_directories os p w)) = contents w" by (rule d [THEN conjunct2, THEN conjunct1, rule_format])
  show "fs_write os p c False w = (Written, w') \<Longrightarrow> fs_is_regular_file os p w' \<Longrightarrow> contents w' p = Some c"
    by (rule d [THEN conjunct2, THEN conjunct2, THEN conjunct1, rule_format, OF conjI])
  show "fs_copy_file os p q w = (None, w') \<Longrightarrow> contents w p = Some c \<Longrightarrow> contents w' q = Some c"
    by (rule d [THEN conjunct2, THEN conjunct2, THEN conjunct2, THEN conjunct1, rule_format, OF conjI])
  show "fs_rename os p q w = (None, w') \<Longrightarrow> contents w p = Some c \<Longrightarrow> contents w' q = Some c"
    by (rule d [THEN conjunct2, THEN conjunct2, THEN conjunct2, THEN conjunct2, rule_format, OF conjI])
qed

lemma contents_log:
  assumes "files_documented os contents"
  shows "contents (h_world (append_app_log os channel direction summary success session_id h)) = contents (h_world h)"
    "fs_is_regular_file os p (h_world (append_app_log os channel direction summary success session_id h))
      = fs_is_regular_file os p (h_world h)"
  by (simp_all add: append_app_log_def append_app_log_full_def make_log_timestamp_def make_full_log_timestamp_def sense_def
      case_prod_beta Let_def documented(1,2) [OF assms] split: option.split)

lemma contents_parent:
  assumes "files_documented os contents"
  shows "contents (snd (ensure_parent os p w)) = contents w"
  using documented(3) [OF assms, of "fs_parent_path os p" w]
  by (auto simp: ensure_parent_def Let_def split: prod.split sum.split)

lemma desktop_log: "desktop (append_app_log os channel direction summary success session_id h) = desktop h"
    "desktop (h\<lparr>h_world := w\<rparr>) = desktop h"
  by (simp_all add: append_app_log_def append_app_log_full_def make_log_timestamp_def make_full_log_timestamp_def sense_def
      case_prod_beta Let_def desktop_def split: option.split)

section \<open>Reading a report\<close>

lemma report_fields:
  assumes "ms = map render_field fs" and "plain_keys fs" and "plain_key k"
  shows "extract_json_bool_field (json_object ms) k 0 = flat_bool fs k"
    "extract_json_string_field (json_object ms) k 0 = flat_string fs k"
  using assms by (simp_all add: json_object_render extract_flat_bool extract_flat_string)

text \<open>The report of a read, and the call that asks for it.\<close>

definition path_call :: "string \<Rightarrow> string" where
  "path_call path = render_object [(''path'', JStr path)]"

lemma path_call_fields:
  "extract_json_string_field (path_call path) ''path'' 0 = path" "int32_field (path_call path) ''max_bytes'' n = Inr n"
  by (simp_all add: path_call_def extract_flat_string flat_string_def int32_field_def extract_json_int32_field_def
      field_text_object_None plain_keys_def plain_key_def plain_char_def)

text \<open>\<open>read_file\<close> answers for the path \<open>p\<close> with success and the text \<open>c\<close>, whole.\<close>

definition reads_as :: "'w os \<Rightarrow> 'w host \<Rightarrow> string \<Rightarrow> string \<Rightarrow> bool" where
  "reads_as os h p c \<longleftrightarrow>
     (case read_file os (path_call p) h of
        (Inl _, _) \<Rightarrow> False
      | (Inr answer, _) \<Rightarrow> ok_field answer \<and> extract_json_bool_field answer ''truncated'' 0 = Some False
          \<and> extract_json_string_field answer ''content'' 0 = c)"

lemma read_report:
  assumes "plain_keys ((''ok'', JBool ok) # (''content'', JStr c) # (''size_bytes'', JInt n) # (''truncated'', JBool t) # fs)"
  shows "ok_field (json_object (json_bool_field ''ok'' ok # json_string_field ''content'' c # json_int_field ''size_bytes'' n
      # json_bool_field ''truncated'' t # map render_field fs)) = ok"
    "extract_json_string_field (json_object (json_bool_field ''ok'' ok # json_string_field ''content'' c
      # json_int_field ''size_bytes'' n # json_bool_field ''truncated'' t # map render_field fs)) ''content'' 0 = c"
    "extract_json_bool_field (json_object (json_bool_field ''ok'' ok # json_string_field ''content'' c
      # json_int_field ''size_bytes'' n # json_bool_field ''truncated'' t # map render_field fs)) ''truncated'' 0 = Some t"
  using report_fields [OF _ assms, of "json_bool_field ''ok'' ok # json_string_field ''content'' c # json_int_field ''size_bytes'' n
      # json_bool_field ''truncated'' t # map render_field fs"]
  by (simp_all add: object_simps ok_field_def flat_bool_def flat_string_def plain_key_def plain_char_def)

lemma read_file_report:
  assumes "guard_path read_placeholder_error (desktop h) p = Inr r"
  shows "\<exists>fs h'. plain_keys fs \<and> read_file os (path_call p) h =
    (let result = fs_read_file os r 65536 (h_world h) in
     (Inr (json_object (json_bool_field ''ok'' (fr_ok result) # json_string_field ''content'' (fr_content result)
        # json_int_field ''size_bytes'' (fr_size_bytes result) # json_bool_field ''truncated'' (fr_truncated result)
        # map render_field fs)), h'))"
proof -
  let ?fs = "(''error'', JStr (fr_error_message (fs_read_file os r 65536 (h_world h))))
    # (if r \<noteq> p then [(''resolved_path'', JStr r)] else [])"
  have "plain_keys ?fs" by (simp add: plain_keys_def plain_key_def plain_char_def)
  moreover have "map render_field ?fs = json_string_field ''error'' (fr_error_message (fs_read_file os r 65536 (h_world h)))
      # (if r \<noteq> p then [json_string_field ''resolved_path'' r] else [])" by (simp add: object_simps)
  ultimately show ?thesis
    by (intro exI [of _ ?fs]) (simp add: read_file_def path_call_fields assms Let_def del: list.map)
qed

lemma file_reads:
  assumes "files_documented os contents" and "contents (h_world h) r = Some c" and "guard_path read_placeholder_error (desktop h) p = Inr r"
    and "r \<noteq> []" and "length c \<le> 65536"
  shows "reads_as os h p c"
proof -
  note f = documented_file [OF assms(1,2)]
  from read_file_report [OF assms(3), of os] obtain fs h' where fs: "plain_keys fs" and
    r: "read_file os (path_call p) h = (let result = fs_read_file os r 65536 (h_world h) in
     (Inr (json_object (json_bool_field ''ok'' (fr_ok result) # json_string_field ''content'' (fr_content result)
        # json_int_field ''size_bytes'' (fr_size_bytes result) # json_bool_field ''truncated'' (fr_truncated result)
        # map render_field fs)), h'))" by blast
  have v: "fs_read_file os r 65536 (h_world h)
      = \<lparr>fr_ok = True, fr_content = c, fr_size_bytes = int (length c), fr_truncated = False, fr_error_message = []\<rparr>"
    using assms(4,5) by (simp add: fs_read_file_def f read_bytes_def Let_def)
  have "plain_keys ((''ok'', JBool True) # (''content'', JStr c) # (''size_bytes'', JInt (int (length c))) # (''truncated'', JBool False) # fs)"
    using fs by (simp add: plain_keys_def plain_key_def plain_char_def)
  from read_report [OF this] show ?thesis unfolding reads_as_def r v by (simp add: Let_def)
qed

section \<open>Writing\<close>

definition write_call :: "string \<Rightarrow> string \<Rightarrow> string" where
  "write_call path content = render_object [(''path'', JStr path), (''content'', JStr content)]"

lemma write_call_fields:
  "extract_json_string_field (write_call p c) ''path'' 0 = p" "extract_json_string_field (write_call p c) ''content'' 0 = c"
  "extract_json_bool_field (write_call p c) ''append'' 0 = None"
  by (simp_all add: write_call_def extract_flat_string extract_flat_bool flat_string_def flat_bool_def
      plain_keys_def plain_key_def plain_char_def)

text \<open>The members of a report that say whether it succeeded and whether a file was found there afterwards.\<close>

definition verified :: "string \<Rightarrow> bool" where
  "verified answer \<longleftrightarrow> ok_field answer \<and> extract_json_bool_field answer ''verified_exists'' 0 = Some True"

lemma verified_report:
  assumes "plain_keys as" and "map_of as ''verified_exists'' = None" and "map_of as ''ok'' = None" and "plain_keys bs"
  shows "verified (json_object (json_bool_field ''ok'' ok # map render_field as
      @ (if ok then json_bool_field ''verified_exists'' v # map render_field bs else []))) \<longleftrightarrow> ok \<and> v"
proof -
  let ?fs = "(''ok'', JBool ok) # as @ (if ok then (''verified_exists'', JBool v) # bs else [])"
  have k: "plain_keys ?fs" "plain_key ''ok''" "plain_key ''verified_exists''"
    using assms(1,4) by (simp_all add: plain_keys_def plain_key_def plain_char_def)
  have "json_object (json_bool_field ''ok'' ok # map render_field as
      @ (if ok then json_bool_field ''verified_exists'' v # map render_field bs else [])) = render_object ?fs"
    by (rule json_objectI) (simp add: object_simps)
  then show ?thesis
    using assms(2,3) by (simp add: verified_def ok_field_def extract_flat_bool [OF k(2,1)] extract_flat_bool [OF k(3,1)]
        flat_bool_def map_add_def)
qed

lemma refusal_not_verified: "\<not> verified (refusal message)"
proof -
  have "refusal message = render_object [(''ok'', JBool False), (''error'', JStr message)]"
    unfolding refusal_def by (rule json_objectI) (simp add: object_simps)
  then show ?thesis
    by (simp add: verified_def ok_field_def extract_flat_bool flat_bool_def plain_keys_def plain_key_def plain_char_def)
qed

definition moved_field :: "string \<Rightarrow> string \<Rightarrow> (string \<times> jval) list" where
  "moved_field r p = (if r \<noteq> p then [(''resolved_path'', JStr r)] else [])"

lemma verified_write:
  "verified (json_object ([json_bool_field ''ok'' ok, json_int_field ''bytes_written'' n, json_string_field ''error'' e]
     @ (if r \<noteq> p then [json_string_field ''resolved_path'' r] else [])
     @ (if ok then [json_bool_field ''verified_exists'' v, json_int_field ''verified_size_bytes'' m] else []))) \<longleftrightarrow> ok \<and> v"
proof -
  let ?as = "(''bytes_written'', JInt n) # (''error'', JStr e) # moved_field r p"
  have "plain_keys ?as" "map_of ?as ''verified_exists'' = None" "map_of ?as ''ok'' = None"
    "plain_keys [(''verified_size_bytes'', JInt m)]"
    by (simp_all add: moved_field_def plain_keys_def plain_key_def plain_char_def)
  from verified_report [OF this, of ok v] show ?thesis
    by (simp add: moved_field_def object_simps split: if_splits)
qed

lemma write_file_done:
  fixes os :: "'w os" and h :: "'w host"
  assumes g: "guard_path (placeholder_path_error ''/path/to/...'' ''or stat_path on the actual directory'' ''location'')
      (desktop h) (extract_json_string_field body ''path'' 0) = Inr r"
    and m: "\<not> looks_like_mismatched_binary_content r (extract_json_string_field body ''content'' 0)"
    and a: "extract_json_bool_field body ''append'' 0 = None"
  defines "w \<equiv> fs_write_file os r (extract_json_string_field body ''content'' 0) False (h_world h)"
  defines "h1 \<equiv> append_app_log os ''fs'' ''out'' (''write '' @ r) (fw_ok (fst w)) [] (h\<lparr>h_world := snd w\<rparr>)"
  shows "snd (write_file os body h) = h1"
    and "verified (fst (write_file os body h)) \<longleftrightarrow> fw_ok (fst w)
      \<and> (let s = fs_stat_path os r (h_world h1) in st_ok s \<and> st_exists s \<and> st_is_file s)"
proof -
  note e = write_file_def [of os body h, unfolded Let_def g sum.case if_not_P [OF m] a option.case sense_def case_prod_beta
      fst_conv snd_conv if_False, folded w_def, folded h1_def]
  show "snd (write_file os body h) = h1" by (simp only: e snd_conv)
  show "verified (fst (write_file os body h)) \<longleftrightarrow> fw_ok (fst w)
      \<and> (let s = fs_stat_path os r (h_world h1) in st_ok s \<and> st_exists s \<and> st_is_file s)"
    unfolding e fst_conv verified_write Let_def by (rule refl)
qed

lemma write_file_verified:
  assumes "write_file os body h = (answer, h')" and "verified answer"
    and a: "extract_json_bool_field body ''append'' 0 = None"
    and d: "files_documented os contents"
  obtains r where "resolve_path (desktop h) (extract_json_string_field body ''path'' 0) = r" and "r \<noteq> []"
    and "contents (h_world h') r = Some (extract_json_string_field body ''content'' 0)"
    and "\<And>e. guard_path e (desktop h') (extract_json_string_field body ''path'' 0) = Inr r"
proof -
  let ?p = "extract_json_string_field body ''path'' 0" and ?c = "extract_json_string_field body ''content'' 0"
  have g: "guard_path e (desktop h) ?p = Inr r" if "guard_path e' (desktop h) ?p = Inr r" for e e' r
    using that by (simp add: guard_path_def split: if_splits)
  show thesis
  proof (cases "guard_path (placeholder_path_error ''/path/to/...'' ''or stat_path on the actual directory'' ''location'') (desktop h) ?p")
    case (Inl m)
    with assms(1,2) show thesis by (auto simp: write_file_def Let_def refusal_not_verified)
  next
    case (Inr r)
    show thesis
    proof (cases "looks_like_mismatched_binary_content r ?c")
      case True
      with assms(1,2) Inr show thesis by (auto simp: write_file_def Let_def refusal_not_verified)
    next
      case False
      let ?w = "fs_write_file os r ?c False (h_world h)"
      let ?l = "append_app_log os ''fs'' ''out'' (''write '' @ r) (fw_ok (fst ?w)) [] (h\<lparr>h_world := snd ?w\<rparr>)"
      note w = write_file_done [OF Inr False a, of os]
      have h': "h' = ?l" using w(1) assms(1) by simp
      have v: "fw_ok (fst ?w) \<and> (let s = fs_stat_path os r (h_world ?l) in st_ok s \<and> st_exists s \<and> st_is_file s)"
        using w(2) assms(2) unfolding assms(1) fst_conv by (rule iffD1)
      from v [THEN conjunct2] have reg: "fs_is_regular_file os r (h_world ?l)"
        by (simp only: Let_def fs_stat_path_def empty_stat_def split: if_splits) simp_all
      from v [THEN conjunct1] obtain w1 where r: "r \<noteq> []" and wr: "fs_write os r ?c False w1 = (Written, snd ?w)"
        by (auto simp: fs_write_file_def write_failed_def split: prod.splits option.splits write_outcome.splits if_splits)
      show thesis
      proof (rule that [of r])
        show "resolve_path (desktop h) ?p = r" using guard_path_Inr [OF Inr] by simp
        show "contents (h_world h') r = Some ?c"
          using documented(4) [OF d wr] reg by (simp add: h' contents_log [OF d])
        show "guard_path e (desktop h') ?p = Inr r" for e
          using g [OF Inr] by (simp add: h' desktop_log)
      qed (rule r)
    qed
  qed
qed


text \<open>A file system in memory.\<close>

definition memory_os :: "(string \<Rightarrow> string option) os" where
  "memory_os = idle_os\<lparr>fs_exists := (\<lambda>p w. w p \<noteq> None), fs_is_regular_file := (\<lambda>p w. w p \<noteq> None),
     fs_file_size := (\<lambda>p w. case w p of None \<Rightarrow> Inl ''no such file'' | Some c \<Rightarrow> Inr (length c)), fs_read := (\<lambda>p w. w p),
     fs_write := (\<lambda>p c a w. (Written, w(p \<mapsto> (if a then case w p of None \<Rightarrow> [] | Some d \<Rightarrow> d else []) @ c))),
     fs_copy_file := (\<lambda>p q w. case w p of None \<Rightarrow> (Some ''no such file'', w) | Some c \<Rightarrow> (None, w(q \<mapsto> c))),
     fs_rename := (\<lambda>p q w. case w p of None \<Rightarrow> (Some ''no such file'', w) | Some c \<Rightarrow> (None, (w(p := None))(q \<mapsto> c))),
     fs_remove := (\<lambda>p w. (Inr (w p \<noteq> None), w(p := None)))\<rparr>"

lemma memory_os_documented: "files_documented memory_os (\<lambda>w. w)"
  unfolding files_documented_def by (auto simp: memory_os_def idle_os_def split: option.splits)

definition notes_host :: "(string \<Rightarrow> string option) host" where
  "notes_host = (new_host Map.empty)"


section \<open>Copying and moving\<close>

lemma ok_first: "ok_field (json_object (json_bool_field ''ok'' b # ms)) \<longleftrightarrow> b"
  by (simp add: ok_field_def bool_first)

lemma refusal_not_ok: "\<not> ok_field (refusal message)"
  by (simp add: refusal_def ok_first)

definition pair_call :: "string \<Rightarrow> string \<Rightarrow> string" where
  "pair_call source_path destination_path =
     render_object [(''source_path'', JStr source_path), (''destination_path'', JStr destination_path)]"

lemma pair_call_fields:
  "extract_json_string_field (pair_call p q) ''source_path'' 0 = p"
  "extract_json_string_field (pair_call p q) ''destination_path'' 0 = q"
  by (simp_all add: pair_call_def extract_flat_string flat_string_def plain_keys_def plain_key_def plain_char_def)

lemma guard_paths_second:
  "guard_paths e d p q = Inr (r, s) \<Longrightarrow> guard_path e' d q = Inr s \<and> r = resolve_path d p"
  by (auto simp: guard_paths_def guard_path_def split: if_splits)

lemma copied_contents:
  assumes "files_documented os contents" and "fo_ok (fst (fs_copy os p q w))" and "contents w p = Some c"
  shows "contents (snd (fs_copy os p q w)) q = Some c" "q \<noteq> []"
proof -
  from assms(2) obtain w1 where e: "ensure_parent os q w = (None, w1)" and r: "fs_copy_file os p q w1 = (None, snd (fs_copy os p q w))"
    and q: "q \<noteq> []"
    by (auto simp: fs_copy_def op_failed_def split: prod.splits option.splits if_splits)
  have "contents w1 p = Some c" using contents_parent [OF assms(1), of q w] e assms(3) by simp
  from documented(5) [OF assms(1) r this] show "contents (snd (fs_copy os p q w)) q = Some c" .
  show "q \<noteq> []" by (rule q)
qed

lemma moved_contents:
  assumes "files_documented os contents" and "fo_ok (fst (fs_move_path os p q w))" and "contents w p = Some c"
  shows "contents (snd (fs_move_path os p q w)) q = Some c" "q \<noteq> []"
proof -
  from assms(2) obtain w1 where e: "ensure_parent os q w = (None, w1)" and r: "fs_rename os p q w1 = (None, snd (fs_move_path os p q w))"
    and q: "q \<noteq> []"
    by (auto simp: fs_move_path_def op_failed_def split: prod.splits option.splits if_splits)
  have "contents w1 p = Some c" using contents_parent [OF assms(1), of q w] e assms(3) by simp
  from documented(6) [OF assms(1) r this] show "contents (snd (fs_move_path os p q w)) q = Some c" .
  show "q \<noteq> []" by (rule q)
qed

text \<open>The shape both tools share: guarded paths, an operation, a log entry.\<close>

lemma pair_tool_reads:
  assumes "files_documented os contents" and "contents (h_world h) (resolve_path (desktop h) p) = Some c" and "length c \<le> 65536"
    and eq: "guard_paths file_placeholder_error (desktop h) p q = Inr (r, s) \<Longrightarrow>
      snd result = append_app_log os channel direction summary (fo_ok (fst (oper r s (h_world h)))) sid
        (h\<lparr>h_world := snd (oper r s (h_world h))\<rparr>)
      \<and> (ok_field (fst result) \<longrightarrow> fo_ok (fst (oper r s (h_world h))))"
    and g: "guard_paths file_placeholder_error (desktop h) p q = Inr (r, s)"
    and moves: "fo_ok (fst (oper r s (h_world h))) \<Longrightarrow> contents (h_world h) r = Some c \<Longrightarrow>
      contents (snd (oper r s (h_world h))) s = Some c \<and> s \<noteq> []"
    and "ok_field (fst result)"
  shows "reads_as os (snd result) q c"
proof -
  from eq [OF g] assms(7) have e: "snd result = append_app_log os channel direction summary (fo_ok (fst (oper r s (h_world h)))) sid
        (h\<lparr>h_world := snd (oper r s (h_world h))\<rparr>)" and k: "fo_ok (fst (oper r s (h_world h)))" by auto
  have "r = resolve_path (desktop h) p" using guard_paths_second [OF g] by simp
  with moves [OF k] assms(2) have m: "contents (snd (oper r s (h_world h))) s = Some c" "s \<noteq> []" by auto
  have gd: "guard_path read_placeholder_error (desktop (snd result)) q = Inr s"
    using guard_paths_second [OF g] by (simp add: e desktop_log)
  show ?thesis
    by (rule file_reads [OF assms(1) _ gd m(2) assms(3)]) (simp add: e contents_log [OF assms(1)] m(1))
qed

text \<open>
  After a copy or a move that reports success, \<open>read_file\<close> answers at the destination what the
  source held before, when it fits the default read limit.
\<close>

theorem copied_file_reads_back:
  assumes "files_documented os contents" and "contents (h_world h) (resolve_path (desktop h) p) = Some c" and "length c \<le> 65536"
    and "name = ''copy_file'' \<or> name = ''move_path''"
    and "execute_agent_tool os name (pair_call p q) h = (Inr answer, h')" and "ok_field answer"
  shows "reads_as os h' q c"
proof (cases "guard_paths file_placeholder_error (desktop h) p q")
  case (Inl m)
  with assms(4-6) show ?thesis
    by (auto simp: execute_agent_tool_def Let_def total_def copy_file_json_def move_path_json_def pair_call_fields refusal_not_ok)
next
  case (Inr rs)
  obtain r s where g: "guard_paths file_placeholder_error (desktop h) p q = Inr (r, s)" using Inr by (cases rs) simp
  from assms(4) show ?thesis
  proof
    assume n: "name = ''copy_file''"
    have "reads_as os (snd (copy_file_json os (pair_call p q) h)) q c"
      by (rule pair_tool_reads [OF assms(1-3) _ g, where oper = "fs_copy os"])
        (use assms(5,6) copied_contents [OF assms(1)] g n in \<open>auto simp: execute_agent_tool_def total_def copy_file_json_def
          pair_call_fields sense_def case_prod_beta Let_def ok_first\<close>)
    then show ?thesis using assms(5) n by (simp add: execute_agent_tool_def total_def Let_def)
  next
    assume n: "name = ''move_path''"
    have "reads_as os (snd (move_path_json os (pair_call p q) h)) q c"
      by (rule pair_tool_reads [OF assms(1-3) _ g, where oper = "fs_move_path os"])
        (use assms(5,6) moved_contents [OF assms(1)] g n in \<open>auto simp: execute_agent_tool_def total_def move_path_json_def
          pair_call_fields sense_def case_prod_beta Let_def ok_first\<close>)
    then show ?thesis using assms(5) n by (simp add: execute_agent_tool_def total_def Let_def)
  qed
qed

definition stored_host :: "(string \<Rightarrow> string option) host" where
  "stored_host = new_host [''/tmp/a.txt'' \<mapsto> ''hello'']"

theorem copied_file_reads_back_witness:
  "reads_as memory_os (snd (move_path_json memory_os (pair_call ''/tmp/a.txt'' ''/tmp/b.txt'') stored_host)) ''/tmp/b.txt'' ''hello''"
proof -
  have d: "desktop stored_host = []" by (simp add: desktop_def stored_host_def new_host_def no_system_info_def)
  have c: "\<not> looks_like_placeholder_path ''/tmp/a.txt''" "\<not> looks_like_placeholder_path ''/tmp/b.txt''"
    "resolve_path [] ''/tmp/a.txt'' = ''/tmp/a.txt''" "resolve_path [] ''/tmp/b.txt'' = ''/tmp/b.txt''"
    "\<not> looks_like_invented_desktop_path ''/tmp/a.txt'' []" "\<not> looks_like_invented_desktop_path ''/tmp/b.txt'' []"
    by code_simp+
  have g: "guard_paths e (desktop stored_host) ''/tmp/a.txt'' ''/tmp/b.txt'' = Inr (''/tmp/a.txt'', ''/tmp/b.txt'')" for e
    by (simp only: d c guard_paths_def if_False de_Morgan_disj simp_thms)
  let ?r = "move_path_json memory_os (pair_call ''/tmp/a.txt'' ''/tmp/b.txt'') stored_host"
  have w: "h_world stored_host = [''/tmp/a.txt'' \<mapsto> ''hello'']" by (simp add: stored_host_def new_host_def)
  have ok: "ok_field (fst ?r)"
    unfolding move_path_json_def Let_def pair_call_fields g sum.case prod.case case_prod_beta fst_conv append_Cons ok_first
    by (simp add: sense_def case_prod_beta w fs_move_path_def ensure_parent_def memory_os_def idle_os_def op_done_def)
  show ?thesis
    by (rule copied_file_reads_back [OF memory_os_documented, of stored_host "''/tmp/a.txt''" "''hello''" "''move_path''" _ "fst ?r"])
      (simp_all only: d c w ok, simp_all add: execute_agent_tool_def total_def Let_def)
qed

end
