(* ===== verification/Turn_Cost.thy ===== *)
theory Turn_Cost imports Complex_Main Agent_Log begin

text \<open>
  How much a turn of the agent asks of the network. A system is instrumented to count its HTTP
  requests; on it, whatever the model answers, a turn ends after at most eight of them, and a decision
  after at most five.
\<close>

section \<open>A system that counts\<close>

definition counted :: "nat \<Rightarrow> 'a \<times> 'w \<Rightarrow> 'w \<times> nat \<Rightarrow> 'a \<times> 'w \<times> nat" where
  "counted k r w = (fst r, snd r, snd w + k)"

text \<open>The system \<open>os\<close> over its world and the number of requests made so far.\<close>

definition counting :: "'w os \<Rightarrow> ('w \<times> nat) os" where
  "counting os = \<lparr>
     os_windows = os_windows os,
     os_now_ms = (\<lambda>w. counted 0 (os_now_ms os (fst w)) w),
     os_steady_ms = (\<lambda>w. counted 0 (os_steady_ms os (fst w)) w),
     os_time = (\<lambda>w. counted 0 (os_time os (fst w)) w),
     os_local_time = (\<lambda>x w. counted 0 (os_local_time os x (fst w)) w),
     os_stack_address = (\<lambda>w. counted 0 (os_stack_address os (fst w)) w),
     os_getenv = (\<lambda>x w. os_getenv os x (fst w)),
     fs_exists = (\<lambda>x w. fs_exists os x (fst w)),
     fs_is_directory = (\<lambda>x w. fs_is_directory os x (fst w)),
     fs_is_regular_file = (\<lambda>x w. fs_is_regular_file os x (fst w)),
     fs_file_size = (\<lambda>x w. fs_file_size os x (fst w)),
     fs_parent_path = fs_parent_path os,
     fs_join = fs_join os,
     fs_absolute = (\<lambda>x w. fs_absolute os x (fst w)),
     fs_current_path = (\<lambda>w. fs_current_path os (fst w)),
     fs_directory = (\<lambda>x w. fs_directory os x (fst w)),
     fs_read = (\<lambda>x w. fs_read os x (fst w)),
     os_http_get = (\<lambda>x w. counted 1 (os_http_get os x (fst w)) w),
     os_http_post = (\<lambda>x y z w. counted 1 (os_http_post os x y z (fst w)) w),
     os_app_paths_registry = (\<lambda>x w. os_app_paths_registry os x (fst w)),
     os_system_executable = (\<lambda>x w. os_system_executable os x (fst w)),
     os_process_snapshot = (\<lambda>w. counted 0 (os_process_snapshot os (fst w)) w),
     os_open_windows = (\<lambda>w. os_open_windows os (fst w)),
     os_clipboard_read = (\<lambda>w. counted 0 (os_clipboard_read os (fst w)) w),
     os_sql_done = (\<lambda>w. counted 0 (os_sql_done os (fst w)) w),
     os_protect = (\<lambda>x w. counted 0 (os_protect os x (fst w)) w),
     os_unprotect = (\<lambda>x w. os_unprotect os x (fst w)),
     fs_create_directories = (\<lambda>x w. counted 0 (fs_create_directories os x (fst w)) w),
     fs_copy_file = (\<lambda>x y w. counted 0 (fs_copy_file os x y (fst w)) w),
     fs_rename = (\<lambda>x y w. counted 0 (fs_rename os x y (fst w)) w),
     fs_remove = (\<lambda>x w. counted 0 (fs_remove os x (fst w)) w),
     fs_write = (\<lambda>x y z w. counted 0 (fs_write os x y z (fst w)) w),
     os_run_command_once = (\<lambda>x y z u w. counted 0 (os_run_command_once os x y z u (fst w)) w),
     os_launch_application = (\<lambda>x y z w. counted 0 (os_launch_application os x y z (fst w)) w),
     os_process_launch = (\<lambda>x y z u w. counted 0 (os_process_launch os x y z u (fst w)) w),
     os_process_stop = (\<lambda>x w. counted 0 (os_process_stop os x (fst w)) w),
     os_clipboard_write = (\<lambda>x w. counted 0 (os_clipboard_write os x (fst w)) w)\<rparr>"

definition requests :: "('w \<times> nat) host \<Rightarrow> nat" where
  "requests h = snd (h_world h)"

named_theorems meter \<open>what operations add to the count\<close>

lemma counted_snd [meter]: "snd (snd (counted k r w)) = snd w + k"
  by (simp add: counted_def)

lemma requests_sense [meter]: "requests (snd (sense f h)) = snd (snd (f (h_world h)))"
  by (simp add: requests_def sense_def case_prod_beta)

lemma counting_sel [meter]:
  "snd (snd (os_now_ms (counting os) w1)) = snd w1"
    "snd (snd (os_steady_ms (counting os) w2)) = snd w2"
    "snd (snd (os_time (counting os) w3)) = snd w3"
    "snd (snd (os_local_time (counting os) x4 w4)) = snd w4"
    "snd (snd (os_stack_address (counting os) w5)) = snd w5"
    "snd (snd (os_http_get (counting os) x6 w6)) = Suc (snd w6)"
    "snd (snd (os_http_post (counting os) x7 y7 z7 w7)) = Suc (snd w7)"
    "snd (snd (os_process_snapshot (counting os) w8)) = snd w8"
    "snd (snd (os_clipboard_read (counting os) w9)) = snd w9"
    "snd (snd (os_sql_done (counting os) w10)) = snd w10"
    "snd (snd (os_protect (counting os) x11 w11)) = snd w11"
    "snd (snd (fs_create_directories (counting os) x12 w12)) = snd w12"
    "snd (snd (fs_copy_file (counting os) x13 y13 w13)) = snd w13"
    "snd (snd (fs_rename (counting os) x14 y14 w14)) = snd w14"
    "snd (snd (fs_remove (counting os) x15 w15)) = snd w15"
    "snd (snd (fs_write (counting os) x16 y16 z16 w16)) = snd w16"
    "snd (snd (os_run_command_once (counting os) x17 y17 z17 u17 w17)) = snd w17"
    "snd (snd (os_launch_application (counting os) x18 y18 z18 w18)) = snd w18"
    "snd (snd (os_process_launch (counting os) x19 y19 z19 u19 w19)) = snd w19"
    "snd (snd (os_process_stop (counting os) x20 w20)) = snd w20"
    "snd (snd (os_clipboard_write (counting os) x21 w21)) = snd w21"
  by (simp_all add: counting_def counted_def)

section \<open>What costs nothing\<close>

lemma requests_update [meter]:
  "requests (h\<lparr>h_app_log := l\<rparr>) = requests h" "requests (h\<lparr>h_log_file := f\<rparr>) = requests h"
  "requests (h\<lparr>h_tasks := q\<rparr>) = requests h" "requests (h\<lparr>h_memory_store := m\<rparr>) = requests h"
  "requests (h\<lparr>h_agent_transcript := t\<rparr>) = requests h" "requests (h\<lparr>h_current_session_id := s\<rparr>) = requests h"
  "requests (h\<lparr>h_pending_tool_call := p\<rparr>) = requests h" "requests (h\<lparr>h_connectors := r\<rparr>) = requests h"
  by (simp_all add: requests_def)

lemma requests_world: "snd (h_world h) = requests h"
  by (simp add: requests_def)

lemma requests_log [meter]:
  "requests (append_app_log_full (counting os) channel direction summary success sid extra h) = requests h"
  "requests (append_app_log (counting os) channel direction summary success sid h) = requests h"
  by (simp_all add: append_app_log_def append_app_log_full_def make_log_timestamp_def make_full_log_timestamp_def
      case_prod_beta Let_def meter requests_world split: option.split)

lemma requests_memory [meter]:
  "requests (snd (make_full_log_timestamp (counting os) h)) = requests h"
  "requests (snd (generate_session_id (counting os) h)) = requests h"
  "requests (snd (run_statement (counting os) statement h)) = requests h"
  "requests (record_agent_message (counting os) sid role content h) = requests h"
  "requests (snd (record_command_fix_json (counting os) body h)) = requests h"
  "requests (snd (remember_location_json (counting os) body h)) = requests h"
  by (simp_all add: make_full_log_timestamp_def generate_session_id_def run_statement_def record_agent_message_def
      record_command_fix_json_def remember_location_json_def case_prod_beta Let_def meter requests_world)

lemma world_run [meter]: "snd (snd (run_ffmpeg (counting os) args d t w)) = snd w"
  by (simp add: run_ffmpeg_def case_prod_beta Let_def meter split: sum.split)

lemma world_parent: "snd (snd (ensure_parent (counting os) p w)) = snd w"
  by (simp add: ensure_parent_def Let_def case_prod_beta meter split: sum.split)

lemma world_files [meter]:
  "snd (snd (fs_write_file (counting os) p c a w)) = snd w"
  "snd (snd (fs_delete_file (counting os) p w)) = snd w"
  "snd (snd (fs_create_directory (counting os) p w)) = snd w"
  "snd (snd (fs_copy (counting os) p q w)) = snd w"
  "snd (snd (fs_move_path (counting os) p q w)) = snd w"
  by (simp_all add: fs_write_file_def fs_delete_file_def fs_create_directory_def fs_copy_def fs_move_path_def settle_def
      world_parent case_prod_beta meter split: option.split sum.split write_outcome.split)

lemma requests_files [meter]:
  "requests (snd (read_file (counting os) body h)) = requests h" "requests (snd (list_dir (counting os) body h)) = requests h"
  "requests (snd (read_clipboard_json (counting os) h)) = requests h"
  "requests (snd (build_system_info_json (counting os) h)) = requests h"
  "requests (snd (write_file (counting os) body h)) = requests h" "requests (snd (copy_file_json (counting os) body h)) = requests h"
  "requests (snd (move_path_json (counting os) body h)) = requests h" "requests (snd (delete_file_json (counting os) body h)) = requests h"
  "requests (snd (create_directory_json (counting os) body h)) = requests h"
  "requests (snd (write_clipboard_json (counting os) body h)) = requests h"
  by (simp_all add: read_file_def list_dir_def read_clipboard_json_def build_system_info_json_def write_file_def copy_file_json_def
      move_path_json_def delete_file_json_def create_directory_json_def write_clipboard_json_def Let_def case_prod_beta
      meter requests_world split: sum.split option.split)

lemma requests_programs [meter]:
  "requests (snd (run_command (counting os) body h)) = requests h" "requests (snd (run_ffmpeg_json (counting os) body h)) = requests h"
  "requests (snd (open_application (counting os) body h)) = requests h"
  "requests (snd (launch_connector (counting os) cid h)) = requests h" "requests (snd (stop_connector (counting os) cid h)) = requests h"
  "requests (snd (enqueue_task (counting os) body h)) = requests h" "requests (snd (cancel_task_json (counting os) tid h)) = requests h"
  by (simp_all add: run_command_def run_ffmpeg_json_def open_application_def launch_connector_def stop_connector_def
      enqueue_task_def cancel_task_json_def Let_def case_prod_beta meter requests_world split: sum.split option.split)

section \<open>What costs a request\<close>

text \<open>Only a connector's health check and a call of a connector reach the network.\<close>

lemma connector_requests:
  "requests (snd (connector_status_json (counting os) cid h)) \<le> Suc (requests h)"
  "requests (snd (call_connector (counting os) cid path m body h)) \<le> Suc (requests h)"
  by (simp_all add: connector_status_json_def call_connector_def Let_def case_prod_beta meter requests_world split: option.split)

lemma requests_total [meter]: "requests (snd (total r)) = requests (snd r)" "requests (snd (report s h)) = requests h"
  by (simp_all add: total_def report_def)

lemma tool_requests: "requests (snd (execute_agent_tool (counting os) name arguments_json h)) \<le> Suc (requests h)"
  unfolding execute_agent_tool_def Let_def
  by (intro if_split [where P = "\<lambda>x. requests (snd x) \<le> Suc (requests h)", THEN iffD2] conjI impI)
    (simp_all add: meter connector_requests)

lemma retriable_tool_requests:
  assumes "is_retriable_tool name"
  shows "requests (snd (execute_agent_tool (counting os) name arguments_json h)) = requests h"
proof -
  have "name = ''run_command'' \<or> name = ''run_ffmpeg'' \<or> name = ''read_file'' \<or> name = ''write_file'' \<or> name = ''copy_file''
    \<or> name = ''move_path'' \<or> name = ''delete_file'' \<or> name = ''create_directory'' \<or> name = ''open_application''"
    using assms by (simp add: is_retriable_tool_def retriable_tools_def)
  then show ?thesis
    by (elim disjE; simp add: execute_agent_tool_def Let_def meter)
qed

section \<open>The model\<close>

text \<open>\<open>m\<close> makes at most \<open>k\<close> requests.\<close>

definition spends :: "nat \<Rightarrow> (('w \<times> nat) host \<Rightarrow> 'a \<times> ('w \<times> nat) host) \<Rightarrow> bool" where
  "spends k m \<longleftrightarrow> (\<forall>h. requests (snd (m h)) \<le> requests h + k)"

lemma spendsI: "(\<And>h. requests (snd (m h)) \<le> requests h + k) \<Longrightarrow> spends k m"
  by (simp add: spends_def)

lemma spendsD: "spends k m \<Longrightarrow> requests (snd (m h)) \<le> requests h + k"
  by (simp add: spends_def)

lemma spends_bindE:
  assumes "spends j m" and "\<And>x. spends k (f x)"
  shows "spends (j + k) (bindE m f)"
proof (rule spendsI)
  fix h
  have m: "requests (snd (m h)) \<le> requests h + j" by (rule spendsD [OF assms(1)])
  show "requests (snd (bindE m f h)) \<le> requests h + (j + k)"
  proof (cases "m h")
    case (Pair r g)
    have "requests g \<le> requests h + j" using m Pair by simp
    then have "requests (snd (f x g)) \<le> requests h + (j + k)" for x using spendsD [OF assms(2), of x g] by linarith
    with m show ?thesis by (cases r) (simp_all add: bindE_def Pair)
  qed
qed

lemma spends_mono: "spends j m \<Longrightarrow> j \<le> k \<Longrightarrow> spends k m"
  unfolding spends_def by (meson add_le_mono1 add_left_mono le_trans)

lemma request_spends: "requests (snd (post_request (counting os) request h)) \<le> Suc (requests h)"
  by (simp add: post_request_def meter requests_world)

lemma ask_spends: "requests (snd (ask_model n (counting os) request s i h)) \<le> requests h + Suc n"
proof (induction n arbitrary: i h)
  case 0
  from request_spends [of os request h] show ?case
    by (subst ask_model.simps) (simp add: meter case_prod_beta split: sum.split)
next
  case (Suc n)
  let ?p = "snd (post_request (counting os) request h)"
  have "requests (snd (ask_model n (counting os) request s (i + 1)
      (append_app_log (counting os) a b c d e ?p))) \<le> requests h + Suc (Suc n)" for a b c d e
    using Suc.IH [of "i + 1" "append_app_log (counting os) a b c d e ?p"] request_spends [of os request h] by (simp add: meter)
  with request_spends [of os request h] show ?case
    by (subst ask_model.simps) (simp add: meter case_prod_beta split: sum.split)
qed

lemma classify_spends: "spends 3 (classify_via_llm (counting os) s tools provider)"
proof (rule spendsI)
  fix h :: "('a \<times> nat) host"
  have log: "requests (log_response (counting os) s i ms r g) = requests g" for i ms r and g :: "('a \<times> nat) host"
    by (simp add: log_response_def Let_def meter)
  have "spends (3 + 0) (bindE (ask_model kMaxEmptyRetries (counting os) request s 0) (\<lambda>(r, attempts) g.
      (case sense (os_steady_ms (counting os)) g of (stop, g1) \<Rightarrow>
         (Inr (decision_of r), log_response (counting os) s attempts (stop - start) r g1))))" for request start
    by (intro spends_bindE spendsI)
      (use ask_spends [of 2 os request s 0] in \<open>auto simp: kMaxEmptyRetries_def log case_prod_beta meter requests_world numeral_3_eq_3\<close>)
  note run = spendsD [OF this, unfolded add_0_right]
  obtain start g where g: "sense (os_steady_ms (counting os)) h = (start, g)" by fastforce
  have "requests (snd (sense (os_steady_ms (counting os)) h)) = requests h" by (simp add: meter requests_world)
  then have "requests g = requests h" by (simp add: g)
  then show "requests (snd (classify_via_llm (counting os) s tools provider h)) \<le> requests h + 3"
    using run [where h = g] unfolding classify_via_llm_def Let_def g by (simp add: meter)
qed

lemma conclude_spends: "spends 1 (conclude (counting os) provider sid name args result actions thinking)"
proof -
  have "spends (1 + 0) (conclude (counting os) provider sid name args result actions thinking)"
    unfolding conclude_def
    by (intro spends_bindE spendsI)
      (use request_spends [of os] in \<open>auto simp: phrase_result_def phrase_via_llm_def Let_def case_prod_beta meter split: sum.split\<close>)
  then show ?thesis by simp
qed

lemma tool_log_requests [meter]: "requests (log_tool_result (counting os) sid what call result success h) = requests h"
  by (simp add: log_tool_result_def meter)

lemma execute_spends:
  "spends (if is_retriable_tool name then 0 else 1)
     (execute_decision_or_pause (counting os) sid name args actions thinking)"
proof -
  let ?k = "if is_retriable_tool name then 0 else 1"
  have "spends (?k + 0) (bindE (execute_agent_tool (counting os) name args)
     (\<lambda>result s. (Inr (executed call actions result), log_tool_result (counting os) sid ''tool '' call result True s)))" for call
    by (intro spends_bindE spendsI) (use tool_requests [of os name args] retriable_tool_requests [of name os args] in \<open>auto simp: meter\<close>)
  note run = spendsD [OF this, unfolded add_0_right]
  show ?thesis
  proof (rule spendsI)
    fix h :: "('a \<times> nat) host"
    show "requests (snd (execute_decision_or_pause (counting os) sid name args actions thinking h)) \<le> requests h + ?k"
    proof (cases "tool_call_requires_approval name")
      case True
      then show ?thesis by (simp add: execute_decision_or_pause_def Let_def meter split: sum.split)
    next
      case False
      then show ?thesis unfolding execute_decision_or_pause_def Let_def by (simp only: if_False run)
    qed
  qed
qed

lemma finish_spends:
  "spends (if is_retriable_tool name then 5 else 1)
     (finish_turn_after_execution (counting os) sid name args result actions tools provider allow_retry thinking)"
proof -
  let ?finish = "finish_turn_after_execution (counting os) sid name args result actions tools provider allow_retry thinking"
  have end_: "spends 1 (case e of Paused response \<Rightarrow> (\<lambda>s. (Inr response, s))
        | Executed actions' result' \<Rightarrow> conclude (counting os) provider sid n a result' actions' thinking)" for e n a
    by (cases e) (auto simp del: One_nat_def simp: conclude_spends intro: spendsI)
  have "spends (3 + (1 + 1)) (bindE (classify_via_llm (counting os) sid tools provider)
          (\<lambda>retry.
             if td_kind retry = LlmTool then
               bindE (execute_decision_or_pause (counting os) sid (td_tool_name retry) (td_arguments_json retry) actions
                        (td_thinking_text retry))
                 (\<lambda>e. case e of
                    Paused response \<Rightarrow> (\<lambda>s. (Inr response, s))
                  | Executed actions' result \<Rightarrow>
                      conclude (counting os) provider sid (td_tool_name retry) (td_arguments_json retry) result actions' thinking)
             else conclude (counting os) provider sid name args result actions thinking))"
  proof (rule spends_bindE [OF classify_spends])
    fix retry
    have "spends 1 (execute_decision_or_pause (counting os) sid (td_tool_name retry) (td_arguments_json retry) actions
        (td_thinking_text retry))" by (rule spends_mono [OF execute_spends]) simp
    note b = spends_bindE [OF this end_]
    show "spends (1 + 1) (if td_kind retry = LlmTool then
               bindE (execute_decision_or_pause (counting os) sid (td_tool_name retry) (td_arguments_json retry) actions
                        (td_thinking_text retry))
                 (\<lambda>e. case e of
                    Paused response \<Rightarrow> (\<lambda>s. (Inr response, s))
                  | Executed actions' result \<Rightarrow>
                      conclude (counting os) provider sid (td_tool_name retry) (td_arguments_json retry) result actions' thinking)
             else conclude (counting os) provider sid name args result actions thinking)"
    proof (cases "td_kind retry = LlmTool")
      case True
      show ?thesis unfolding if_P [OF True] by (rule b)
    next
      case False
      show ?thesis unfolding if_not_P [OF False] by (rule spends_mono [OF conclude_spends]) simp
    qed
  qed
  note retry = order_trans [OF spendsD [OF this]]
  show ?thesis
  proof (rule spendsI)
    fix h :: "('a \<times> nat) host"
    show "requests (snd (?finish h)) \<le> requests h + (if is_retriable_tool name then 5 else 1)"
    proof (cases "allow_retry \<and> \<not> ok_field result \<and> is_retriable_tool name")
      case True
      show ?thesis
        unfolding finish_turn_after_execution_def if_P [OF True] by (rule retry) (simp add: meter True)
    next
      case False
      show ?thesis
        unfolding finish_turn_after_execution_def if_not_P [OF False]
        by (rule order_trans [OF spendsD [OF conclude_spends]]) simp
    qed
  qed
qed

lemma act_spends: "spends 5 (act_on_decision (counting os) sid tools provider decision)"
proof (cases "td_kind decision")
  case LlmTool
  let ?n = "td_tool_name decision"
  let ?j = "if is_retriable_tool ?n then 0 else 1" and ?k = "if is_retriable_tool ?n then 5 else 1"
  have "spends (?j + ?k) (bindE (execute_decision_or_pause (counting os) sid ?n (td_arguments_json decision) []
                   (td_thinking_text decision))
            (\<lambda>e. case e of
               Paused response \<Rightarrow> (\<lambda>s. (Inr response, s))
             | Executed actions result \<Rightarrow>
                 finish_turn_after_execution (counting os) sid ?n (td_arguments_json decision) result actions
                   tools provider True (td_thinking_text decision)))"
  proof (rule spends_bindE [OF execute_spends])
    fix e show "spends ?k (case e of
               Paused response \<Rightarrow> (\<lambda>s. (Inr response, s))
             | Executed actions result \<Rightarrow>
                 finish_turn_after_execution (counting os) sid ?n (td_arguments_json decision) result actions
                   tools provider True (td_thinking_text decision))"
      by (cases e) (simp_all only: execution.case finish_spends, simp add: spends_def)
  qed
  from spendsD [OF spends_mono [OF this, of 5]] show ?thesis
    by (intro spendsI) (simp add: act_on_decision_def LlmTool)
qed (auto intro!: spendsI simp: act_on_decision_def meter)

text \<open>
  C14: A turn of the agent ends after at most eight HTTP requests: three attempts to classify the message, then either
  one by a tool and one to phrase its result, or, when a tool that is worth a retry failed, three more
  attempts, one request by the corrected call and one to phrase it.
\<close>

theorem turn_request_bound:
  "requests (snd (agent_turn (counting os) body h)) \<le> requests h + 8"
proof -
  have select: "requests (select_session (counting os) b sid g) = requests g" for b sid and g :: "('a \<times> nat) host"
    using requests_memory(2) [of os "g\<lparr>h_agent_transcript := []\<rparr>"]
    by (cases "generate_session_id (counting os) (g\<lparr>h_agent_transcript := []\<rparr>)") (auto simp: select_session_def meter)
  have abandon: "requests (abandon_pending_call (counting os) sid g) = requests g" for sid and g :: "('a \<times> nat) host"
    by (simp add: abandon_pending_call_def Let_def meter)
  have seed: "requests (seed_system_prompt (counting os) sid g) = requests g" for sid and g :: "('a \<times> nat) host"
    using requests_memory(1) [of os g] by (cases "make_full_log_timestamp (counting os) g") (auto simp: seed_system_prompt_def meter)
  have "spends (3 + 5) (bindE (classify_via_llm (counting os) sid tools provider)
      (act_on_decision (counting os) sid tools provider))" for sid tools provider
    by (rule spends_bindE [OF classify_spends act_spends])
  note run = order_trans [OF spendsD [OF this]]
  show ?thesis
    unfolding agent_turn_def Let_def
    by (auto simp: meter select abandon seed intro!: run)
qed

text \<open>C32: A decision about a pending call ends after at most five requests.\<close>

theorem decision_request_bound:
  "requests (snd (agent_tool_decision (counting os) body h)) \<le> requests h + 5"
proof (cases "\<not> pc_active (h_pending_tool_call h)
    \<or> extract_json_string_field body ''session_id'' 0 \<noteq> [] \<and> extract_json_string_field body ''session_id'' 0 \<noteq> pc_session_id (h_pending_tool_call h)")
  case True
  then show ?thesis unfolding agent_tool_decision_def Let_def by (simp only: if_True snd_conv le_add1)
next
  case False
  let ?call = "pc_decided_call (h_pending_tool_call h)"
  let ?j = "if is_retriable_tool (call_name ?call) then 0 else 1" and ?k = "if is_retriable_tool (call_name ?call) then 5 else 1"
  have "spends ?j (if approved then execute_agent_tool (counting os) (call_name ?call) (call_arguments_json ?call)
      else (\<lambda>s. (Inr (declined_result reason), s)))" for approved reason
    using tool_requests [of os] retriable_tool_requests [of "call_name ?call" os] by (auto intro!: spendsI)
  moreover have "spends ?k (\<lambda>s. let s1 = log_tool_result (counting os) sid what ?call result approved s in
      finish_turn_after_execution (counting os) sid (call_name ?call) (call_arguments_json ?call) result (actions)
        tools (model_config (h_config s1)) approved [] s1)" for sid what approved result actions tools
    unfolding Let_def by (rule spendsI) (rule order_trans [OF spendsD [OF finish_spends]], simp only: meter order_refl)
  ultimately have "spends (?j + ?k) (bindE
      (if approved then execute_agent_tool (counting os) (call_name ?call) (call_arguments_json ?call)
       else (\<lambda>s. (Inr (declined_result reason), s)))
      (\<lambda>result s. let s1 = log_tool_result (counting os) sid what ?call result approved s in
      finish_turn_after_execution (counting os) sid (call_name ?call) (call_arguments_json ?call) result (actions result)
        tools (model_config (h_config s1)) approved [] s1))" for approved reason sid what actions tools
    by (rule spends_bindE)
  note run = order_trans [OF spendsD [OF spends_mono [OF this, of 5]], unfolded Let_def]
  show ?thesis
    unfolding agent_tool_decision_def Let_def if_not_P [OF False] by (rule run) (simp_all add: meter)
qed

end
