(* ===== verification/Agent_Answers.thy ===== *)
theory Agent_Answers imports Complex_Main Agent_Turn begin

text \<open>
  What the answer of a turn or of a decision can be: a final reply, a refusal, a failure of the
  provider, or the proposal of a call the host now waits for. The locale proves once that what
  holds of these four, beside the host they leave, holds of every answer.
\<close>

text \<open>What a step returns, and the host it leaves.\<close>

definition answers :: "('a \<Rightarrow> 'w host \<Rightarrow> bool) \<Rightarrow> ('w host \<Rightarrow> (cpp_exception + 'a) \<times> 'w host) \<Rightarrow> bool" where
  "answers Q m \<longleftrightarrow> (\<forall>h r h'. m h = (Inr r, h') \<longrightarrow> Q r h')"

lemma answersI: "(\<And>h r h'. m h = (Inr r, h') \<Longrightarrow> Q r h') \<Longrightarrow> answers Q m"
  by (auto simp: answers_def)

lemma answersD: "answers Q m \<Longrightarrow> m h = (Inr r, h') \<Longrightarrow> Q r h'"
  by (auto simp: answers_def)

lemma answers_bindE: "(\<And>x. answers Q (f x)) \<Longrightarrow> answers Q (bindE m f)"
  by (rule answersI) (auto elim!: bindE_InrE dest: answersD)

lemma answers_pair: "(\<And>s. Q r (g s)) \<Longrightarrow> answers Q (\<lambda>s. (Inr r, g s))"
  by (auto simp: answers_def)

locale agent_answers =
  fixes os :: "'w os" and Q :: "string \<Rightarrow> 'w host \<Rightarrow> bool"
  assumes final: "Q (build_final_agent_response session_id assistant_text actions thinking) s"
    and refused: "Q (refusal message) s"
    and failed: "Q (json_object [json_bool_field ''ok'' False, json_string_field ''error'' message,
      json_string_field ''session_id'' session_id]) s"
    and proposed: "Q (build_pending_tool_call_response os s session_id call actions thinking)
      (s\<lparr>h_pending_tool_call := \<lparr>pc_active = True, pc_session_id = session_id, pc_decided_call = call, pc_actions = actions\<rparr>\<rparr>)"
begin

lemma conclusion: "answers Q (conclude os provider sid name args result actions thinking)"
  unfolding conclude_def by (intro answers_bindE answers_pair final)

lemma paused: "execute_decision_or_pause os sid name args actions thinking h = (Inr (Paused r), h') \<Longrightarrow> Q r h'"
  by (auto simp: execute_decision_or_pause_def Let_def executed_def proposed split: if_splits sum.splits elim!: bindE_InrE)

lemma decided:
  assumes "\<And>actions' result. answers Q (f actions' result)"
  shows "answers Q (bindE (execute_decision_or_pause os sid name args actions thinking)
    (\<lambda>e. case e of Paused response \<Rightarrow> (\<lambda>s. (Inr response, s)) | Executed actions' result \<Rightarrow> f actions' result))"
proof (rule answersI)
  fix h r h'
  assume "bindE (execute_decision_or_pause os sid name args actions thinking)
    (\<lambda>e. case e of Paused response \<Rightarrow> (\<lambda>s. (Inr response, s)) | Executed actions' result \<Rightarrow> f actions' result) h = (Inr r, h')"
  then obtain e t where e: "execute_decision_or_pause os sid name args actions thinking h = (Inr e, t)"
    and r: "(case e of Paused response \<Rightarrow> (\<lambda>s. (Inr response, s)) | Executed actions' result \<Rightarrow> f actions' result) t = (Inr r, h')"
    by (rule bindE_InrE)
  show "Q r h'"
  proof (cases e)
    case (Executed actions' result)
    with r show ?thesis by (auto dest: answersD [OF assms])
  next
    case (Paused response)
    with e r show ?thesis by (auto dest: paused)
  qed
qed

lemma finished: "answers Q (finish_turn_after_execution os sid name args result actions tools provider allow_retry thinking)"
proof -
  have "answers Q (bindE (classify_via_llm os sid tools provider)
          (\<lambda>retry.
             if td_kind retry = LlmTool then
               bindE (execute_decision_or_pause os sid (td_tool_name retry) (td_arguments_json retry) actions
                        (td_thinking_text retry))
                 (\<lambda>e. case e of
                    Paused response \<Rightarrow> (\<lambda>s. (Inr response, s))
                  | Executed actions' result \<Rightarrow>
                      conclude os provider sid (td_tool_name retry) (td_arguments_json retry) result actions' thinking)
             else conclude os provider sid name args result actions thinking))"
  proof (rule answers_bindE)
    fix retry
    show "answers Q (if td_kind retry = LlmTool then
               bindE (execute_decision_or_pause os sid (td_tool_name retry) (td_arguments_json retry) actions
                        (td_thinking_text retry))
                 (\<lambda>e. case e of
                    Paused response \<Rightarrow> (\<lambda>s. (Inr response, s))
                  | Executed actions' result \<Rightarrow>
                      conclude os provider sid (td_tool_name retry) (td_arguments_json retry) result actions' thinking)
             else conclude os provider sid name args result actions thinking)"
      by (cases "td_kind retry = LlmTool") (simp_all only: if_True if_False simp_thms decided conclusion)
  qed
  then show ?thesis
    by (intro answersI) (auto simp: finish_turn_after_execution_def dest: answersD answersD [OF conclusion] split: if_splits)
qed

lemma acted: "answers Q (act_on_decision os sid tools provider decision)"
proof (cases "td_kind decision")
  case LlmTool
  show ?thesis using decided [OF finished] by (simp add: act_on_decision_def LlmTool answers_def)
qed (auto intro!: answersI simp: act_on_decision_def final failed)

lemma turn: "agent_turn os body h = (Inr r, h') \<Longrightarrow> Q r h'"
proof -
  have "answers Q (bindE (classify_via_llm os sid tools provider) (act_on_decision os sid tools provider))"
    for sid tools provider by (intro answers_bindE acted)
  then show "agent_turn os body h = (Inr r, h') \<Longrightarrow> Q r h'"
    by (auto simp: agent_turn_def Let_def refused dest: answersD split: if_splits)
qed

lemma decision:
  assumes "agent_tool_decision os body h = (Inr r, h')"
  shows "Q r h'"
proof -
  have d: "answers Q (bindE m (\<lambda>tool_result s. let s1 = f tool_result s in
    finish_turn_after_execution os sid name args tool_result (actions tool_result) tools (model_config (h_config s1)) approved [] s1))"
    for m f sid name args actions tools approved
    by (intro answers_bindE answersI) (auto simp: Let_def dest: answersD [OF finished])
  show ?thesis
    using assms answersD [OF d] unfolding agent_tool_decision_def Let_def
    by (auto simp: refused split: if_splits)
qed

end

end
