(* ===== verification/Host_Laws.thy ===== *)
theory Host_Laws imports Complex_Main Filesystem_Laws Agent_Answers begin

text \<open>
  Laws of the host's records. Its bounded logs are the end of the full history, its database of
  messages is a map from sessions to conversations, and every answer of the agent says whether it
  succeeded.
\<close>

section \<open>The logs\<close>

lemma push_bounded_end:
  assumes "length xs \<le> n"
  shows "fold (push_bounded n) es xs = drop (length xs + length es - n) (xs @ es)"
  using assms
proof (induction es arbitrary: xs)
  case (Cons e es)
  show ?case
  proof (cases "length xs < n")
    case True
    then have "push_bounded n e xs = xs @ [e]" by (simp add: push_bounded_def)
    with Cons.IH [of "xs @ [e]"] True show ?thesis by simp
  next
    case False
    with Cons.prems have n: "length xs = n" by simp
    then have p: "push_bounded n e xs = tl (xs @ [e])" by (simp add: push_bounded_def)
    with Cons.IH [of "tl (xs @ [e])"] n
    have "fold (push_bounded n) (e # es) xs = drop (length es) (tl (xs @ [e]) @ es)" by simp
    also have "\<dots> = drop (Suc (length es)) (xs @ e # es)" by (cases xs) simp_all
    finally show ?thesis using n by simp
  qed
qed simp

type_synonym log_call = "string \<times> string \<times> string \<times> bool \<times> string"

definition log_calls :: "'w os \<Rightarrow> log_call list \<Rightarrow> 'w host \<Rightarrow> 'w host" where
  "log_calls os calls = fold (\<lambda>(channel, direction, summary, success, sid). append_app_log os channel direction summary success sid) calls"

definition logged :: "app_log_entry \<Rightarrow> string \<times> string \<times> string \<times> bool" where
  "logged e = (al_channel e, al_direction e, al_summary e, al_success e)"

lemma append_app_log_logged:
  "map logged (h_app_log (append_app_log os channel direction summary success sid h))
     = push_bounded 256 (channel, direction, summary, success) (map logged (h_app_log h))"
  by (simp add: append_app_log_def append_app_log_full_def make_log_timestamp_def make_full_log_timestamp_def sense_def
      case_prod_beta Let_def push_bounded_def logged_def map_tl split: option.split)

lemma log_calls_push:
  "map logged (h_app_log (log_calls os calls h))
     = fold (push_bounded 256) (map (\<lambda>(c, d, t, k, sid). (c, d, t, k)) calls) (map logged (h_app_log h))"
  unfolding log_calls_def
  by (induction calls arbitrary: h) (auto simp: append_app_log_logged)

text \<open>
  C30: the log in memory refines the history of everything ever logged: however many entries are
  appended, it holds exactly the last 256 of them, oldest first.
\<close>

theorem app_log_is_end_of_history:
  assumes "length (h_app_log h) \<le> 256"
  shows "map logged (h_app_log (log_calls os calls h))
    = (let history = map logged (h_app_log h) @ map (\<lambda>(c, d, t, k, sid). (c, d, t, k)) calls
       in drop (length history - 256) history)"
  using push_bounded_end [of "map logged (h_app_log h)" 256] assms by (simp add: log_calls_push Let_def)

theorem app_log_is_end_of_history_witness:
  "map logged (h_app_log (log_calls idle_os (replicate 300 (''fs'', ''in'', ''list .'', True, [])) two_sessions))
    = replicate 256 (''fs'', ''in'', ''list .'', True)"
  using app_log_is_end_of_history [of two_sessions idle_os "replicate 300 (''fs'', ''in'', ''list .'', True, [])"]
  by (simp add: two_sessions_def new_host_def Let_def)

section \<open>The database of messages\<close>

datatype log_op = Append_Message string int string string | Forget_Session string

text \<open>A statement that ran to its end, at the time \<open>now\<close>, and what it means for the conversations.\<close>

fun log_step :: "string \<Rightarrow> log_op \<Rightarrow> memory_store \<Rightarrow> memory_store" where
  "log_step now (Append_Message s hop role content) m = snd (memory_append True now s hop role content m)"
| "log_step now (Forget_Session s) m = snd (delete_session True s m)"

type_synonym conversations = "string \<Rightarrow> (string \<times> string) list"

fun conversation_step :: "log_op \<Rightarrow> conversations \<Rightarrow> conversations" where
  "conversation_step (Append_Message s hop role content) f =
     (\<lambda>t. if same_session_id t s then f t @ [(bound_text role, bound_text content)] else f t)"
| "conversation_step (Forget_Session s) f = (\<lambda>t. if same_session_id t s then [] else f t)"

text \<open>No message is given a smaller index than one its session already holds.\<close>

fun in_order :: "string \<Rightarrow> log_op list \<Rightarrow> memory_store \<Rightarrow> bool" where
  "in_order now [] m = True"
| "in_order now (Append_Message s hop role content # ops) m \<longleftrightarrow>
     (\<forall>i \<in> session_hops m s. i \<le> hop) \<and> in_order now ops (log_step now (Append_Message s hop role content) m)"
| "in_order now (Forget_Session s # ops) m \<longleftrightarrow> in_order now ops (log_step now (Forget_Session s) m)"

lemma read_same_session: "same_session_id t s \<Longrightarrow> session_messages m t = session_messages m s"
  by (simp add: session_messages_def load_session_def same_session_id_def comp_def)

lemma log_step_refines:
  assumes "ms_is_open m" and "in_order now (op # ops) m"
  shows "session_messages (log_step now op m) = conversation_step op (session_messages m)"
    and "ms_is_open (log_step now op m)" and "in_order now ops (log_step now op m)"
proof -
  show "session_messages (log_step now op m) = conversation_step op (session_messages m)"
    using assms sqlite_log.messages_put [of m] sqlite_log.messages_other sqlite_log.messages_remove [of m]
    by (cases op) (auto simp: fun_eq_iff)
  show "ms_is_open (log_step now op m)"
    using assms(1) sqlite_log.open_put [of now] sqlite_log.open_remove by (cases op) auto
  show "in_order now ops (log_step now op m)" using assms(2) by (cases op) auto
qed

text \<open>
  C21: the SQLite log refines a map from sessions to conversations: after any sequence of appends and
  deletions, with indices that never go back, what is loaded for each session is what the map
  holds, in order and text for text up to the first NUL.
\<close>

theorem message_log_refines_conversations:
  assumes "ms_is_open m" and "in_order now ops m"
  shows "session_messages (fold (log_step now) ops m) = fold conversation_step ops (session_messages m)"
  using assms
proof (induction ops arbitrary: m)
  case (Cons op ops)
  from log_step_refines [OF Cons.prems] Cons.IH show ?case by simp
qed simp

theorem message_log_refines_conversations_witness:
  "session_messages (fold (log_step ''12:00'')
     [Append_Message ''a'' 0 ''user'' ''hi'', Append_Message ''b'' 0 ''user'' ''other'', Append_Message ''a'' 1 ''assistant'' ''hello'',
      Forget_Session ''b''] (closed_store\<lparr>ms_is_open := True\<rparr>)) ''a''
   = [(''user'', ''hi''), (''assistant'', ''hello'')]"
proof -
  let ?m = "closed_store\<lparr>ms_is_open := True\<rparr>"
  let ?ops = "[Append_Message ''a'' 0 ''user'' ''hi'', Append_Message ''b'' 0 ''user'' ''other'',
    Append_Message ''a'' 1 ''assistant'' ''hello'', Forget_Session ''b'']"
  have "in_order ''12:00'' ?ops ?m"
    by (simp add: session_hops_def memory_append_def delete_session_def closed_store_def bound_text_def)
  from message_log_refines_conversations [OF _ this] show ?thesis
    by (simp add: same_session_id_def bound_text_def session_messages_def load_session_def closed_store_def)
qed

section \<open>Answers that say whether they succeeded\<close>

definition says_ok :: "string \<Rightarrow> bool" where
  "says_ok json \<longleftrightarrow> extract_json_bool_field json ''ok'' 0 \<noteq> None"

lemma says_ok_first: "says_ok (json_object (json_bool_field ''ok'' b # ms))"
  by (simp add: says_ok_def bool_first)

lemmas says_ok_refusal = says_ok_first [of False "[json_string_field ''error'' message]" for message, folded refusal_def]

interpretation says: agent_answers os "\<lambda>r s. says_ok r"
  by unfold_locales
    (simp_all add: build_final_agent_response_def build_pending_tool_call_response_def says_ok_first says_ok_refusal)


end
