(* ===== verification/Http_Mount.thy ===== *)
theory Http_Mount imports Complex_Main Http_Server Agent_Turn Host_Startup begin

text \<open>
  \<open>cli/http_mount.cpp\<close>: the routes under \<open>/api\<close> that hand a request to an operation of the host,
  in the order of the source. The server of \<open>Http_Server\<close> asks them after its built-in routes.
\<close>

section \<open>Helpers\<close>

definition set_json :: "string \<Rightarrow> http_response" where
  "set_json body = empty_response\<lparr>rp_status := Ok, rp_content_type := ''application/json'', rp_body := body\<rparr>"

text \<open>The value of the first pair of a query string that starts with \<open>key=\<close>.\<close>

function mount_query_param :: "string \<Rightarrow> string \<Rightarrow> string" where
  "mount_query_param query_string key =
     (if query_string = [] then []
      else
        (let pair = takeWhile (\<lambda>c. c \<noteq> amp) query_string;
             rest = dropWhile (\<lambda>c. c \<noteq> amp) query_string
         in if starts_with pair (key @ [equal_sign]) then drop (length key + 1) pair
            else if rest = [] then []
            else mount_query_param (tl rest) key))"
  by pat_completeness auto
termination
proof (relation "measure (\<lambda>(s, k). length s)", goal_cases)
  case (2 s key pair rest)
  then have "rest \<noteq> []" "length rest \<le> length s" by (auto simp: length_dropWhile_le)
  then show ?case by (cases rest) auto
qed simp

declare mount_query_param.simps [simp del]

text \<open>The id and what follows it, of a path behind a prefix that ends in a slash.\<close>

definition split_id_and_rest :: "string \<Rightarrow> string \<Rightarrow> (string \<times> string) option" where
  "split_id_and_rest path pre =
     (if \<not> starts_with path pre then None
      else
        (let remainder = drop (length pre) path;
             out_id = takeWhile (\<lambda>c. c \<noteq> slash) remainder
         in if out_id = [] then None else Some (out_id, dropWhile (\<lambda>c. c \<noteq> slash) remainder)))"

section \<open>The routes\<close>

text \<open>A route that handles a request: an operation of the host and its JSON.\<close>

type_synonym 'w route = "'w host \<Rightarrow> (cpp_exception + string) \<times> 'w host"

definition mounted :: "'w route \<Rightarrow> 'w host \<Rightarrow> (cpp_exception + http_response option) \<times> 'w host" where
  "mounted m h = (case m h of (Inl e, h1) \<Rightarrow> (Inl e, h1) | (Inr body, h1) \<Rightarrow> (Inr (Some (set_json body)), h1))"

definition reads :: "('w host \<Rightarrow> string) \<Rightarrow> 'w route" where
  "reads f h = (Inr (f h), h)"

definition changes :: "('w host \<Rightarrow> string \<times> 'w host) \<Rightarrow> 'w route" where
  "changes f h = (Inr (fst (f h)), snd (f h))"

definition status_routes :: "'w os \<Rightarrow> http_request \<Rightarrow> 'w route option" where
  "status_routes os request =
     (let path = rq_path request; body = rq_body request;
          is_get = (rq_method request = Get); is_post = (rq_method request = Post)
      in if is_get \<and> path = ''/api/status'' then Some (reads build_status_json)
         else if is_get \<and> path = ''/api/network/status'' then Some (reads build_network_status_json)
         else if is_get \<and> path = ''/api/config'' then Some (reads build_config_json)
         else if is_post \<and> path = ''/api/config'' then Some (update_config os body)
         else if is_get \<and> path = ''/api/notify/log'' then Some (reads build_notify_log_json)
         else if is_get \<and> path = ''/api/app/log'' then Some (reads build_app_log_json)
         else if is_get \<and> path = ''/api/ollama/status'' then Some (changes (build_ollama_status_json os))
         else if is_post \<and> path = ''/api/ollama/config'' then Some (update_ollama_config os body)
         else if is_get \<and> path = ''/api/ollama/setup-status'' then Some (changes (ollama_setup_status_json os))
         else if is_post \<and> path = ''/api/ollama/install'' then Some (changes (install_ollama os))
         else if is_post \<and> path = ''/api/ollama/start'' then Some (changes (start_ollama os))
         else if is_post \<and> path = ''/api/ollama/pull'' then Some (pull_ollama_model os body)
         else if is_get \<and> path = ''/api/process/status'' then Some (changes (build_process_status_json os))
         else None)"

definition program_routes :: "'w os \<Rightarrow> http_request \<Rightarrow> 'w route option" where
  "program_routes os request =
     (let path = rq_path request; body = rq_body request;
          is_get = (rq_method request = Get); is_post = (rq_method request = Post)
      in if is_post \<and> path = ''/api/run'' then Some (run_command os body)
         else if is_post \<and> path = ''/api/ffmpeg/run'' then Some (run_ffmpeg_json os body)
         else if is_post \<and> path = ''/api/open'' then Some (changes (open_application os body))
         else if is_post \<and> path = ''/api/apps/find'' then Some (reads (find_applications_json body))
         else if is_get \<and> path = ''/api/apps/open'' then Some (reads (list_open_windows_json os))
         else None)"

definition file_routes :: "'w os \<Rightarrow> http_request \<Rightarrow> 'w route option" where
  "file_routes os request =
     (let path = rq_path request; body = rq_body request;
          is_get = (rq_method request = Get); is_post = (rq_method request = Post)
      in if is_post \<and> path = ''/api/fs/read'' then Some (read_file os body)
         else if is_post \<and> path = ''/api/fs/write'' then Some (changes (write_file os body))
         else if is_post \<and> path = ''/api/fs/list'' then Some (list_dir os body)
         else if is_post \<and> path = ''/api/fs/stat'' then Some (reads (stat_path os body))
         else if is_get \<and> path = ''/api/fs/cwd'' then Some (reads (get_cwd_json os))
         else if is_post \<and> path = ''/api/fs/which'' then Some (reads (which_executable_json os body))
         else if is_post \<and> path = ''/api/fs/copy'' then Some (changes (copy_file_json os body))
         else if is_post \<and> path = ''/api/fs/move'' then Some (changes (move_path_json os body))
         else if is_post \<and> path = ''/api/fs/delete'' then Some (changes (delete_file_json os body))
         else if is_post \<and> path = ''/api/fs/mkdir'' then Some (changes (create_directory_json os body))
         else if is_get \<and> path = ''/api/clipboard'' then Some (changes (read_clipboard_json os))
         else if is_post \<and> path = ''/api/clipboard'' then Some (changes (write_clipboard_json os body))
         else if is_get \<and> path = ''/api/system'' then Some (changes (build_system_info_json os))
         else if is_get \<and> path = ''/api/hardware'' then Some (reads build_hardware_info_json)
         else None)"

definition agent_routes :: "'w os \<Rightarrow> http_request \<Rightarrow> 'w route option" where
  "agent_routes os request =
     (let path = rq_path request; body = rq_body request;
          is_get = (rq_method request = Get); is_post = (rq_method request = Post)
      in if is_get \<and> path = ''/api/agent/tools'' then Some (reads (\<lambda>h. build_agent_tools_json))
         else if is_get \<and> path = ''/api/agent/self_status'' then Some (reads build_self_status_json)
         else if is_post \<and> path = ''/api/agent/turn'' then Some (agent_turn os body)
         else if is_post \<and> path = ''/api/agent/tool_decision'' then Some (agent_tool_decision os body)
         else if is_post \<and> path = ''/api/agent/lessons'' then Some (changes (record_command_fix_json os body))
         else if is_post \<and> path = ''/api/agent/lessons/search'' then Some (reads (search_command_fixes_json body))
         else if is_post \<and> path = ''/api/locations'' then Some (changes (remember_location_json os body))
         else if is_get \<and> path = ''/api/locations'' then Some (reads list_known_locations_json)
         else if is_get \<and> path = ''/api/agent/history'' then
           Some (reads (build_agent_history_json (mount_query_param (rq_query_string request) ''session_id'')))
         else if is_get \<and> path = ''/api/agent/sessions'' then Some (reads build_agent_sessions_json)
         else if is_post \<and> path = ''/api/agent/sessions/delete'' then Some (changes (delete_agent_session_json os body))
         else None)"

text \<open>An id whose rest is no known action falls through to the routes behind.\<close>

definition connector_routes :: "'w os \<Rightarrow> http_request \<Rightarrow> 'w route option" where
  "connector_routes os request =
     (let path = rq_path request; body = rq_body request;
          is_get = (rq_method request = Get); is_post = (rq_method request = Post)
      in if is_get \<and> path = ''/api/connectors'' then Some (reads list_connectors_json)
         else if is_post \<and> path = ''/api/connectors'' then Some (changes (register_connector_body body))
         else
           (case split_id_and_rest path ''/api/connectors/'' of
              None \<Rightarrow> None
            | Some (connector_id, rest) \<Rightarrow>
                if is_get \<and> rest = ''/status'' then Some (changes (connector_status_json os connector_id))
                else if is_post \<and> rest = ''/launch'' then Some (changes (launch_connector os connector_id))
                else if is_post \<and> rest = ''/stop'' then Some (changes (stop_connector os connector_id))
                else if is_post \<and> rest = ''/call'' then
                  (let call_path = extract_json_string_field body ''path'' 0;
                       call_method = extract_json_string_field body ''method'' 0;
                       payload = extract_json_string_field body ''payload_json'' 0
                   in Some (changes (call_connector os connector_id call_path
                        (if call_method = [] then ''POST'' else call_method) payload)))
                else None))"

definition task_routes :: "'w os \<Rightarrow> http_request \<Rightarrow> 'w route option" where
  "task_routes os request =
     (let path = rq_path request; body = rq_body request;
          is_get = (rq_method request = Get); is_post = (rq_method request = Post)
      in if is_get \<and> path = ''/api/tasks'' then Some (reads list_tasks_json)
         else if is_post \<and> path = ''/api/tasks'' then Some (enqueue_task os body)
         else
           (case split_id_and_rest path ''/api/tasks/'' of
              None \<Rightarrow> None
            | Some (id_of_task, task_rest) \<Rightarrow>
                if is_get \<and> task_rest = [] then Some (reads (task_status_json id_of_task))
                else if is_post \<and> task_rest = ''/cancel'' then Some (changes (cancel_task_json os id_of_task))
                else None))"

fun first_route :: "'a option list \<Rightarrow> 'a option" where
  "first_route [] = None"
| "first_route (None # rs) = first_route rs"
| "first_route (Some r # rs) = Some r"

definition droidcli_route_dispatch :: "'w os \<Rightarrow> 'w host custom_route" where
  "droidcli_route_dispatch os request h =
     (case first_route [status_routes os request, program_routes os request, file_routes os request,
             agent_routes os request, connector_routes os request, task_routes os request] of
        None \<Rightarrow> (Inr None, h)
      | Some m \<Rightarrow> mounted m h)"

section \<open>Query strings\<close>

lemma starts_with_pair:
  assumes "equal_sign \<notin> set k" and "equal_sign \<notin> set key"
  shows "starts_with (k @ equal_sign # v) (key @ [equal_sign]) \<longleftrightarrow> k = key"
proof -
  have t: "takeWhile (\<lambda>c. c \<noteq> equal_sign) (s @ equal_sign # z) = s" if "equal_sign \<notin> set s" for s z
    using that by (induction s) auto
  show ?thesis using t [OF assms(1), of v] t [OF assms(2)] by (auto simp: starts_with_def prefix_def)
qed

text \<open>A query parameter of the mounted routes is the value of the first pair with its name.\<close>

lemma mount_query_param_map_of:
  assumes "list_all (\<lambda>(k, v). amp \<notin> set k \<and> equal_sign \<notin> set k \<and> amp \<notin> set v) ps" and "equal_sign \<notin> set key"
  shows "mount_query_param (render_query ps) key = (case map_of ps key of Some v \<Rightarrow> v | None \<Rightarrow> [])"
  using assms(1)
proof (induction ps rule: render_query.induct)
  case 1
  then show ?case by (simp add: mount_query_param.simps)
next
  case (2 k v)
  then have "takeWhile (\<lambda>c. c \<noteq> amp) (k @ equal_sign # v) = k @ equal_sign # v" "dropWhile (\<lambda>c. c \<noteq> amp) (k @ equal_sign # v) = []"
    by (auto simp: takeWhile_eq_all_conv dropWhile_eq_Nil_conv)
  with 2 assms(2) show ?case
    by (subst mount_query_param.simps) (auto simp: starts_with_pair Let_def)
next
  case (3 k v p ps)
  then have "takeWhile (\<lambda>c. c \<noteq> amp) (k @ equal_sign # v @ amp # render_query (p # ps)) = k @ equal_sign # v"
    "dropWhile (\<lambda>c. c \<noteq> amp) (k @ equal_sign # v @ amp # render_query (p # ps)) = amp # render_query (p # ps)"
    by (simp_all add: takeWhile_append2 dropWhile_append2 takeWhile_append dropWhile_append)
  with 3 assms(2) show ?case
    by (subst mount_query_param.simps) (auto simp: starts_with_pair Let_def)
qed

section \<open>The gate over the routes\<close>

lemma split_id_api: "split_id_and_rest path (''/api/'' @ rest) \<noteq> None \<Longrightarrow> starts_with path ''/api/''"
  by (auto simp: split_id_and_rest_def starts_with_def prefix_def split: if_splits)

lemma mounted_paths_are_api:
  assumes "\<not> starts_with (rq_path request) ''/api/''"
  shows "droidcli_route_dispatch os request h = (Inr None, h)"
proof -
  have s: "split_id_and_rest (rq_path request) (''/api/'' @ rest) = None" for rest
    using split_id_api [of "rq_path request" rest] assms by blast
  have c: "split_id_and_rest (rq_path request) ''/api/connectors/'' = None"
      "split_id_and_rest (rq_path request) ''/api/tasks/'' = None"
    using s [of "''connectors/''"] s [of "''tasks/''"] by simp_all
  have p: "(rq_path request = q) = False" if "take 5 q = ''/api/''" for q
  proof -
    have "starts_with q ''/api/''" unfolding starts_with_def that [symmetric] by (rule take_is_prefix)
    with assms show ?thesis by auto
  qed
  have "status_routes os request = None" "program_routes os request = None" by (simp_all add: status_routes_def program_routes_def p)
  moreover have "file_routes os request = None" "agent_routes os request = None" by (simp_all add: file_routes_def agent_routes_def p)
  moreover have "connector_routes os request = None" "task_routes os request = None"
    by (simp_all add: connector_routes_def task_routes_def p c)
  ultimately show ?thesis by (simp add: droidcli_route_dispatch_def)
qed

lemma gate_keeps_host:
  assumes "\<not> is_authorized request (so_api_token (ms_options server))"
  shows "ms_host (snd (serve_request post (Some (droidcli_route_dispatch os)) request server)) = ms_host server"
proof (cases "starts_with (rq_path request) ''/api/''")
  case True
  then show ?thesis using assms by (simp add: serve_request_def request_requires_auth_def Let_def)
next
  case False
  then show ?thesis
    using assms mounted_paths_are_api [OF False, of os] by (simp add: serve_request_def Let_def case_prod_beta split: sum.split)
qed

text \<open>
  Without the bearer token no request reaches the host: whatever its method, path and body, the
  host, its files and its processes are as they were, with the mounted routes in place.
\<close>

theorem unauthorized_requests_never_reach_host:
  assumes "\<not> is_authorized request (so_api_token (ms_options server))"
  shows "ms_host (snd (serve_request post (Some (droidcli_route_dispatch os)) request server)) = ms_host server"
  using assms by (rule gate_keeps_host)

definition closed_server :: "unit host mini_http_server" where
  "closed_server = \<lparr>ms_running = True, ms_options = \<lparr>so_port = 30080, so_session = default_runtime_session, so_on_notify = True,
     so_enable_language_ai = True, so_ollama_config = default_openai_config, so_system_prompt = [], so_api_token = ''secret''\<rparr>,
     ms_language_ai = initial_runtime, ms_host = new_host ()\<rparr>"

theorem unauthorized_requests_never_reach_host_witness:
  "ms_host (snd (serve_request (\<lambda>u b h. (False, 0, [])) (Some (droidcli_route_dispatch idle_os))
      (empty_request\<lparr>rq_method := Post, rq_path := ''/api/fs/delete''\<rparr>) closed_server)) = new_host ()"
proof -
  have "\<not> is_authorized (empty_request\<lparr>rq_method := Post, rq_path := ''/api/fs/delete''\<rparr>) (so_api_token (ms_options closed_server))"
    by (simp add: is_authorized_iff find_header_value_def empty_request_def)
  from unauthorized_requests_never_reach_host [OF this] show ?thesis by (simp add: closed_server_def)
qed

end
