(* ===== verification/Daemon.thy ===== *)
theory Daemon imports Complex_Main Http_Mount Host_Startup Host_Tasks Host_Settings Task_Outcomes begin

text \<open>
  \<open>main\<close> of \<open>cli/droidcli.cpp\<close>: the command line over the settings file over the defaults, the
  start of the host and of the server, and the loop that polls the one and ticks the other. What is
  printed stands in \<open>Console\<close>; the entropy, the sockets and the service manager are arguments.
\<close>

section \<open>The command line\<close>

text \<open>The arguments behind the name of the program. The value behind the first occurrence of a flag that has one.\<close>

fun flag_value :: "string \<Rightarrow> string list \<Rightarrow> string option" where
  "flag_value flag (a # b # rest) = (if a = flag then Some b else flag_value flag (b # rest))"
| "flag_value flag _ = None"

text \<open>\<open>None\<close> is \<open>std::atoi\<close> out of range.\<close>

definition parse_port :: "string list \<Rightarrow> int \<Rightarrow> int option" where
  "parse_port args default_port =
     (case flag_value ''--port'' args of Some v \<Rightarrow> map_option (max 1) (atoi v) | None \<Rightarrow> Some default_port)"

definition parse_string_arg :: "string list \<Rightarrow> string \<Rightarrow> string \<Rightarrow> string" where
  "parse_string_arg args flag default_value = (case flag_value flag args of Some v \<Rightarrow> v | None \<Rightarrow> default_value)"

definition has_flag :: "string list \<Rightarrow> string \<Rightarrow> bool" where
  "has_flag args flag \<longleftrightarrow> list_ex (\<lambda>a. a = flag) args"

definition resolve_setting_string :: "string list \<Rightarrow> string \<Rightarrow> string \<Rightarrow> string \<Rightarrow> string" where
  "resolve_setting_string args flag settings_value default_value =
     (case flag_value flag args of
        Some v \<Rightarrow> v
      | None \<Rightarrow> if settings_value \<noteq> [] then settings_value else default_value)"

definition resolve_setting_int :: "string list \<Rightarrow> string \<Rightarrow> int \<Rightarrow> int \<Rightarrow> int option" where
  "resolve_setting_int args flag settings_value default_value =
     (case flag_value flag args of
        Some v \<Rightarrow> atoi v
      | None \<Rightarrow> Some (if settings_value > 0 then settings_value else default_value))"

definition generate_random_token :: "nat list \<Rightarrow> string" where
  "generate_random_token entropy = concat (map (\<lambda>b. [hex_digit (b div 16), hex_digit (b mod 16)]) entropy)"

definition resolve_api_token :: "string list \<Rightarrow> string option \<Rightarrow> nat list \<Rightarrow> string \<Rightarrow> string" where
  "resolve_api_token args env_value entropy settings_token =
     (let flag_token = parse_string_arg args ''--token'' []
      in if flag_token \<noteq> [] then flag_token
         else
           (case env_value of
              Some (c # s) \<Rightarrow> c # s
            | _ \<Rightarrow> if settings_token \<noteq> [] then settings_token else generate_random_token entropy))"

text \<open>The settings this run resolves to, from those that were loaded.\<close>

definition resolve_settings :: "string list \<Rightarrow> string option \<Rightarrow> nat list \<Rightarrow> host_settings \<Rightarrow> host_settings option" where
  "resolve_settings args env_value entropy settings =
     (case parse_port args (hs_port settings) of
        None \<Rightarrow> None
      | Some port \<Rightarrow>
          (case resolve_setting_int args ''--ollama-num-ctx'' (hs_ollama_num_ctx settings) 32768 of
             None \<Rightarrow> None
           | Some ollama_num_ctx \<Rightarrow>
               Some \<lparr>hs_port = port, hs_enable_ai = (\<not> has_flag args ''--no-ai''),
                 hs_enable_hardware_scan = (has_flag args ''--enable-hardware-scan'' \<or> hs_enable_hardware_scan settings),
                 hs_ollama_url = resolve_setting_string args ''--ollama-url'' (hs_ollama_url settings) ''http://127.0.0.1:11434'',
                 hs_ollama_model = resolve_setting_string args ''--ollama-model'' (hs_ollama_model settings) ''llama3.2'',
                 hs_ollama_num_ctx = ollama_num_ctx,
                 hs_api_token = resolve_api_token args env_value entropy (hs_api_token settings)\<rparr>))"

definition service_command_line :: "string \<Rightarrow> string \<Rightarrow> string" where
  "service_command_line executable settings_path =
     [quot] @ executable @ [quot] @ '' --service --headless --settings '' @ [quot] @ settings_path @ [quot]"

text \<open>\<open>module_name\<close> is what \<open>GetModuleFileNameA\<close> answers on Windows; elsewhere the first argument counts.\<close>

definition current_executable_path :: "string option \<Rightarrow> string option \<Rightarrow> string" where
  "current_executable_path module_name argv0 =
     (case module_name of
        Some path \<Rightarrow> if 0 < length path \<and> length path < 260 then path else case argv0 of Some a \<Rightarrow> a | None \<Rightarrow> ''droidcli''
      | None \<Rightarrow> case argv0 of Some a \<Rightarrow> a | None \<Rightarrow> ''droidcli'')"

section \<open>The start\<close>

text \<open>What the machine answers while the program starts.\<close>

record machine =
  mc_startup :: startup
  mc_entropy :: "nat list"
  mc_service_ok :: bool
  mc_library_ok :: bool
  mc_sockets_ok :: bool

datatype 's main_outcome = Exited int | Terminated cpp_exception | Listening 's

definition host_config_of :: "string \<Rightarrow> host_settings \<Rightarrow> host_config" where
  "host_config_of settings_path s = default_host_config\<lparr>hc_enable_ai := hs_enable_ai s,
     hc_enable_hardware_scan := hs_enable_hardware_scan s, hc_ollama_url := hs_ollama_url s,
     hc_ollama_model := hs_ollama_model s, hc_ollama_num_ctx := hs_ollama_num_ctx s, hc_settings_path := settings_path\<rparr>"

text \<open>The options of the server. The context window of the settings is not among them.\<close>

definition server_options_of :: "host_settings \<Rightarrow> runtime_session \<Rightarrow> server_options" where
  "server_options_of s session = \<lparr>so_port = hs_port s, so_session = session, so_on_notify = True,
     so_enable_language_ai = hs_enable_ai s,
     so_ollama_config = default_openai_config\<lparr>oc_base_url := hs_ollama_url s, oc_model := hs_ollama_model s, oc_enabled := hs_enable_ai s\<rparr>,
     so_system_prompt = [], so_api_token = hs_api_token s\<rparr>"

definition state_file_path :: string where
  "state_file_path = ''db/droidcli_state.json''"

text \<open>The connectors of the saved state, then those of the configuration file on top.\<close>

definition load_connectors :: "'w os \<Rightarrow> string \<Rightarrow> 'w host \<Rightarrow> 'w host" where
  "load_connectors os config_path h =
     (let h1 = set_connectors (load_state_if_present (fs_read os state_file_path (h_world h)) (h_connectors h)) h
      in if config_path = [] then h1
         else set_connectors (load_connectors_from_config
                (case fs_read os config_path (h_world h1) of None \<Rightarrow> [] | Some content \<Rightarrow> content) (h_connectors h1)) h1)"

definition stopped_server :: "'w host \<Rightarrow> 'w host mini_http_server" where
  "stopped_server h = \<lparr>ms_running = False, ms_options = \<lparr>so_port = 30080, so_session = default_runtime_session, so_on_notify = False,
     so_enable_language_ai = True, so_ollama_config = default_openai_config, so_system_prompt = [], so_api_token = []\<rparr>,
     ms_language_ai = initial_runtime, ms_host = h\<rparr>"

text \<open>From the resolved settings on.\<close>

definition start_daemon ::
    "'w os \<Rightarrow> machine \<Rightarrow> string list \<Rightarrow> string \<Rightarrow> host_settings \<Rightarrow> 'w \<Rightarrow> 'w host mini_http_server main_outcome \<times> 'w" where
  "start_daemon os mc args settings_path s w =
     (case initialize_host os (mc_startup mc) (configure (host_config_of settings_path s) (new_host w)) of
        (Inl e, h) \<Rightarrow> (Terminated e, h_world h)
      | (Inr _, h) \<Rightarrow>
          (let h1 = load_connectors os (parse_string_arg args ''--config'' []) h
           in case start_server (mc_library_ok mc) (mc_sockets_ok mc) (server_options_of s (h_session h1)) (stopped_server h1) of
                (ok, server) \<Rightarrow> (if ok then (Listening server, h_world h1) else (Exited 1, h_world h1))))"

definition main_start ::
    "'w os \<Rightarrow> machine \<Rightarrow> string list \<Rightarrow> 'w \<Rightarrow> 'w host mini_http_server main_outcome \<times> 'w" where
  "main_start os mc args w =
     (if has_flag args ''--help'' \<or> has_flag args ''-h'' then (Exited 0, w)
      else if has_flag args ''--version'' \<or> has_flag args ''-v'' then (Exited 0, w)
      else
        (let settings_path = parse_string_arg args ''--settings'' ''db/droidcli_settings.json''
         in case load_settings os settings_path default_settings w of
              Inl e \<Rightarrow> (Terminated e, w)
            | Inr (_, settings) \<Rightarrow>
                (case resolve_settings args (os_getenv os ''DROIDCLI_API_TOKEN'' w) (mc_entropy mc) settings of
                   None \<Rightarrow> (Terminated Decimal.UndefinedBehaviour, w)
                 | Some s \<Rightarrow>
                     (case save_settings os settings_path s w of
                        (_, w1) \<Rightarrow>
                          (if hs_ollama_num_ctx s \<le> 0 then (Exited 1, w1)
                           else if has_flag args ''--uninstall-service'' \<or> has_flag args ''--install-service'' then
                             (Exited (if mc_service_ok mc then 0 else 1), w1)
                           else start_daemon os mc args settings_path s w1)))))"

section \<open>The loop\<close>

text \<open>
  One round: a poll, then a tick unless the poll threw; the loop catches every exception. It ends when
  the server does not run. Undefined behaviour is no exception.
\<close>

datatype round = Next | Left | Undefined_Round

definition after_tick :: "(cpp_exception + unit) \<times> 'w host \<Rightarrow> 'w host mini_http_server \<Rightarrow> round \<times> 'w host mini_http_server" where
  "after_tick r server =
     (case r of
        (Inl Decimal.UndefinedBehaviour, h) \<Rightarrow> (Undefined_Round, server\<lparr>ms_host := h\<rparr>)
      | (_, h) \<Rightarrow> (Next, server\<lparr>ms_host := h\<rparr>))"

definition loop_round ::
    "'w os \<Rightarrow> post_json \<Rightarrow> string list option \<Rightarrow> 'w host mini_http_server \<Rightarrow> poll_outcome \<times> round \<times> 'w host mini_http_server" where
  "loop_round os post client server =
     (case poll_once post (Some (droidcli_route_dispatch os)) client server of
        (outcome, server1) \<Rightarrow>
          (outcome,
           (case outcome of
              NotRunning \<Rightarrow> (Left, server1)
            | Http_Server.UndefinedBehaviour \<Rightarrow> (Undefined_Round, server1)
            | Served s \<Rightarrow>
                (case sv_response s of
                   Inl e \<Rightarrow> (if e = Decimal.UndefinedBehaviour then Undefined_Round else Next, server1)
                 | Inr _ \<Rightarrow> after_tick (tick os (ms_host server1)) server1)
            | _ \<Rightarrow> after_tick (tick os (ms_host server1)) server1)))"

fun daemon_loop ::
    "'w os \<Rightarrow> post_json \<Rightarrow> string list option list \<Rightarrow> 'w host mini_http_server \<Rightarrow> poll_outcome list \<times> round \<times> 'w host mini_http_server" where
  "daemon_loop os post [] server = ([], Next, server)"
| "daemon_loop os post (client # clients) server =
     (case loop_round os post client server of
        (outcome, Next, server1) \<Rightarrow> apfst ((#) outcome) (daemon_loop os post clients server1)
      | (outcome, r, server1) \<Rightarrow> ([outcome], r, server1))"

text \<open>Behind the loop the connectors are saved and the server is stopped.\<close>

definition shut_down :: "'w os \<Rightarrow> 'w host mini_http_server \<Rightarrow> 'w host mini_http_server" where
  "shut_down os server =
     (case sense (fs_write os state_file_path (save_state (h_connectors (ms_host server))) False) (ms_host server) of
        (_, h) \<Rightarrow> stop_server (server\<lparr>ms_host := h\<rparr>))"

section \<open>What a started daemon is like\<close>

lemma hex_token_empty: "generate_random_token entropy = [] \<longleftrightarrow> entropy = []"
  by (cases entropy) (simp_all add: generate_random_token_def)

lemma token_resolved: "entropy \<noteq> [] \<Longrightarrow> resolve_api_token args env_value entropy settings_token \<noteq> []"
  by (auto simp: resolve_api_token_def Let_def hex_token_empty split: option.split list.split)

lemma resolved:
  assumes "resolve_settings args env_value entropy settings = Some s"
  shows "hs_enable_ai s = (\<not> has_flag args ''--no-ai'')"
    and "hs_api_token s = resolve_api_token args env_value entropy (hs_api_token settings)"
  using assms by (auto simp: resolve_settings_def split: option.splits)

lemma started_options:
  assumes "start_daemon os mc args settings_path s w = (Listening server, w')"
  shows "\<exists>session. ms_options server = server_options_of s session"
  using assms
  by (auto simp: start_daemon_def start_server_def stop_server_def configure_language_ai_def Let_def
      split: sum.splits prod.splits if_splits)

lemma listening_from:
  assumes "main_start os mc args w = (Listening server, w')"
  obtains settings s session where "resolve_settings args (os_getenv os ''DROIDCLI_API_TOKEN'' w) (mc_entropy mc) settings = Some s"
    and "ms_options server = server_options_of s session"
proof -
  from assms obtain found settings s where
      r: "resolve_settings args (os_getenv os ''DROIDCLI_API_TOKEN'' w) (mc_entropy mc) settings = Some s"
    and st: "start_daemon os mc args (parse_string_arg args ''--settings'' ''db/droidcli_settings.json'') s
       (snd (save_settings os (parse_string_arg args ''--settings'' ''db/droidcli_settings.json'') s w)) = (Listening server, w')"
    by (auto simp: main_start_def Let_def case_prod_beta split: if_splits sum.splits option.splits prod.splits)
  from started_options [OF st] that [OF r] show thesis by blast
qed

text \<open>
  C8: A daemon that listens always has a token, and nothing reaches its host without it, whatever
  the command line, the environment and the settings file hold.
\<close>

theorem listening_daemon_is_gated:
  assumes "main_start os mc args w = (Listening server, w')" and "mc_entropy mc \<noteq> []"
    and "find_header_value request ''authorization'' \<noteq> ''Bearer '' @ so_api_token (ms_options server)"
  shows "so_api_token (ms_options server) \<noteq> []
    \<and> ms_host (snd (serve_request post (Some (droidcli_route_dispatch os)) request server)) = ms_host server"
proof -
  from listening_from [OF assms(1)] obtain settings s session where
    "resolve_settings args (os_getenv os ''DROIDCLI_API_TOKEN'' w) (mc_entropy mc) settings = Some s"
    "ms_options server = server_options_of s session" .
  then have "so_api_token (ms_options server) \<noteq> []"
    using token_resolved [OF assms(2)] resolved(2) by (simp add: server_options_of_def)
  moreover have "\<not> is_authorized request (so_api_token (ms_options server))" using assms(3) by (simp add: is_authorized_iff)
  ultimately show ?thesis by (simp add: gate_keeps_host)
qed

text \<open>
  Whether the chat is enabled depends on the command line alone, and the window of its context is
  always the default: neither the saved \<open>enable_ai\<close> nor the context window of the settings or of
  the command line reaches the server.
\<close>

theorem chat_ignores_settings:
  assumes "main_start os mc args w = (Listening server, w')"
  shows "so_enable_language_ai (ms_options server) = (\<not> has_flag args ''--no-ai'')
    \<and> oc_num_ctx (so_ollama_config (ms_options server)) = 32768"
proof -
  from listening_from [OF assms] obtain settings s session where
    "resolve_settings args (os_getenv os ''DROIDCLI_API_TOKEN'' w) (mc_entropy mc) settings = Some s"
    "ms_options server = server_options_of s session" .
  then show ?thesis using resolved(1) by (simp add: server_options_of_def default_openai_config_def)
qed

section \<open>The loop goes on\<close>

lemma serve_keeps_running: "ms_running (snd (serve_request post custom request server)) = ms_running server"
  by (simp add: serve_request_def Let_def case_prod_beta split: sum.split option.split)

lemma poll_keeps_running: "ms_running (snd (poll_once post custom client server)) = ms_running server"
  by (auto simp: poll_once_def serve_keeps_running split: option.split read_result.split)

lemma tick_keeps_running: "ms_running (snd (after_tick r server)) = ms_running server"
  by (auto simp: after_tick_def split: prod.split sum.split cpp_exception.split)

lemma round_goes_on:
  assumes "ms_running server" and "fst (snd (loop_round os post client server)) \<noteq> Undefined_Round"
  shows "fst (snd (loop_round os post client server)) = Next \<and> ms_running (snd (snd (loop_round os post client server)))"
proof -
  obtain outcome s1 where p: "poll_once post (Some (droidcli_route_dispatch os)) client server = (outcome, s1)" by fastforce
  have run: "ms_running s1" using poll_keeps_running [of post "Some (droidcli_route_dispatch os)" client server] assms(1) p by simp
  have left: "outcome \<noteq> NotRunning"
    using p assms(1) by (auto simp: poll_once_def apfst_def map_prod_def split: option.splits read_result.splits prod.splits)
  have t: "fst (after_tick r s1) \<noteq> Left" for r by (auto simp: after_tick_def split: prod.split sum.split cpp_exception.split)
  show ?thesis
  proof (cases "fst (snd (loop_round os post client server))")
    case Left
    then show ?thesis using left t by (auto simp: loop_round_def p split: poll_outcome.splits sum.splits if_splits)
  qed (use assms(2) run in \<open>auto simp: loop_round_def p tick_keeps_running split: poll_outcome.splits sum.splits\<close>)
qed


section \<open>A daemon on an idle machine\<close>

definition idle_machine :: machine where
  "idle_machine = \<lparr>mc_startup = \<lparr>su_system_info = no_system_info, su_hardware_info = no_hardware_info, su_installed_apps = [],
     su_windows_locations = [], su_log_opened = True, su_database_opened = True, su_tables_created = True, su_database = closed_store\<rparr>,
     mc_entropy = replicate 32 171, mc_service_ok = True, mc_library_ok = True, mc_sockets_ok = True\<rparr>"

lemma start_listens:
  assumes "su_database_opened (mc_startup mc)" and "su_tables_created (mc_startup mc)" and "mc_library_ok mc" and "mc_sockets_ok mc"
  shows "\<exists>server w'. start_daemon os mc args path s w = (Listening server, w')"
proof -
  obtain r h where i: "initialize_host os (mc_startup mc) (configure (host_config_of path s) (new_host w)) = (r, h)" by fastforce
  then have "r = Inr ()" using initialize_returns [of os "mc_startup mc"] assms(1,2) by (metis fst_conv)
  with i assms(3,4) show ?thesis
    by (simp add: start_daemon_def start_server_def Let_def split: prod.split)
qed

lemma idle_machine_listens:
  assumes "args = [] \<or> args = [''--no-ai'']"
  shows "\<exists>server w'. main_start idle_os idle_machine args () = (Listening server, w')"
proof -
  have f: "flag_value flag args = None" for flag using assms by auto
  have l: "load_settings idle_os path s w = Inr (False, s)" for path s and w :: unit by (simp add: load_settings_def idle_os_def)
  have r: "\<exists>s. resolve_settings args None (mc_entropy idle_machine) default_settings = Some s \<and> hs_ollama_num_ctx s = 32768"
    by (simp add: resolve_settings_def parse_port_def resolve_setting_int_def f default_settings_def)
  then obtain s where s: "resolve_settings args None (mc_entropy idle_machine) default_settings = Some s" "hs_ollama_num_ctx s = 32768" by blast
  have h: "\<not> has_flag args f" if "f \<noteq> ''--no-ai''" for f using assms that by (auto simp: has_flag_def)
  have "\<exists>server w'. start_daemon idle_os idle_machine args path s w = (Listening server, w')" for path and w :: unit
    by (rule start_listens) (simp_all add: idle_machine_def)
  then show ?thesis
    unfolding main_start_def Let_def l using s h by (simp add: idle_os_def case_prod_beta)
qed

theorem listening_daemon_is_gated_witness:
  "\<exists>server w'. main_start idle_os idle_machine [] () = (Listening server, w') \<and> so_api_token (ms_options server) \<noteq> []
    \<and> ms_host (snd (serve_request (\<lambda>u b h. (False, 0, [])) (Some (droidcli_route_dispatch idle_os))
        (empty_request\<lparr>rq_method := Post, rq_path := ''/api/run''\<rparr>) server)) = ms_host server"
proof -
  from idle_machine_listens [of "[]"] obtain server w' where l: "main_start idle_os idle_machine [] () = (Listening server, w')" by auto
  have "find_header_value (empty_request\<lparr>rq_method := Post, rq_path := ''/api/run''\<rparr>) ''authorization''
      \<noteq> ''Bearer '' @ so_api_token (ms_options server)"
    by (simp add: find_header_value_def empty_request_def)
  from listening_daemon_is_gated [OF l _ this] l show ?thesis by (auto simp: idle_machine_def)
qed

theorem chat_ignores_settings_witness:
  "\<exists>server w'. main_start idle_os idle_machine [''--no-ai''] () = (Listening server, w') \<and> \<not> so_enable_language_ai (ms_options server)"
proof -
  from idle_machine_listens [of "[''--no-ai'']"] obtain server w' where
    l: "main_start idle_os idle_machine [''--no-ai''] () = (Listening server, w')" by auto
  from chat_ignores_settings [OF l] l show ?thesis by (auto simp: has_flag_def)
qed

lemma watchdog_keeps_tasks: "h_tasks (tick_watchdog os h) = h_tasks h"
  by (simp add: tick_watchdog_def append_app_log_def append_app_log_full_def make_log_timestamp_def make_full_log_timestamp_def
      sense_def case_prod_beta Let_def split: bool.split option.split)

lemma tick_without_tasks: "tq_tasks (h_tasks h) = [] \<Longrightarrow> fst (tick os h) = Inr ()"
  by (simp add: tick_def tick_tasks_def claim_next_def watchdog_keeps_tasks sense_def case_prod_beta split: option.split prod.split)


section \<open>From one run to the next\<close>

lemma atoi_range: "atoi v = Some n \<Longrightarrow> in_i32 n"
  by (auto simp: atoi_def Let_def split: if_splits)

lemma loaded_context:
  assumes "load_settings os path out w = Inr (found, s)" and "in_i32 (hs_ollama_num_ctx out)"
  shows "in_i32 (hs_ollama_num_ctx s)"
  using assms by (auto simp: load_settings_def Let_def in_i32_wrap32 split: option.splits sum.splits if_splits)

lemma port_range: "parse_port args d = Some n \<Longrightarrow> in_i32 d \<Longrightarrow> in_i32 n"
  by (auto simp: parse_port_def in_i32_def max_def dest!: atoi_range split: option.splits)

lemma context_range: "resolve_setting_int args flag v 32768 = Some n \<Longrightarrow> in_i32 v \<Longrightarrow> in_i32 n"
  by (auto simp: resolve_setting_int_def in_i32_def dest!: atoi_range split: option.splits if_splits)

lemma resolved_ranges:
  assumes "load_settings os path default_settings w = Inr (found, settings)"
    and "resolve_settings args env_value entropy settings = Some s"
  shows "in_i32 (hs_port s)" "in_i32 (hs_ollama_num_ctx s)"
proof -
  have "in_i32 (hs_port settings)" "in_i32 (hs_ollama_num_ctx settings)"
    by (rule loaded_port [OF assms(1)] loaded_context [OF assms(1)], simp add: default_settings_def in_i32_def)+
  then show "in_i32 (hs_port s)" "in_i32 (hs_ollama_num_ctx s)"
    using assms(2) by (auto simp: resolve_settings_def dest: port_range context_range split: option.splits)
qed



text \<open>
  A settings file with an integer that does not fit 64 bits ends the program before it starts: the
  exception of \<open>std::stoll\<close> leaves \<open>main\<close>.
\<close>

theorem out_of_range_settings_terminate:
  assumes "fs_read os (parse_string_arg args ''--settings'' ''db/droidcli_settings.json'') w = Some (render_object ((''port'', JInt n) # fs))"
    and "plain_keys ((''port'', JInt n) # fs)" and "\<not> in_i64 n"
    and "\<not> has_flag args ''--help''" and "\<not> has_flag args ''-h''" and "\<not> has_flag args ''--version''" and "\<not> has_flag args ''-v''"
  shows "main_start os mc args w = (Terminated OutOfRange, w)"
proof -
  have "extract_json_int_field (render_object ((''port'', JInt n) # fs)) ''port'' 0 = Inl OutOfRange"
    using extract_flat_int [OF _ assms(2), of "''port''" n] assms(3) by (simp add: plain_key_def plain_char_def)
  moreover have "render_object ((''port'', JInt n) # fs) \<noteq> []" by (simp add: render_object_def)
  ultimately have "load_settings os (parse_string_arg args ''--settings'' ''db/droidcli_settings.json'') default_settings w = Inl OutOfRange"
    using assms(1) by (simp add: load_settings_def)
  then show ?thesis unfolding main_start_def Let_def using assms(4-7) by simp
qed

theorem out_of_range_settings_terminate_witness:
  "main_start file_os idle_machine [] (render_object [(''port'', JInt 99999999999999999999)])
    = (Terminated OutOfRange, render_object [(''port'', JInt 99999999999999999999)])"
  by (rule out_of_range_settings_terminate [of _ _ _ 99999999999999999999 "[]"])
    (simp_all add: file_os_def plain_keys_def plain_key_def plain_char_def in_i64_def has_flag_def)

end
