(* ===== verification/Terminal_Parse.thy ===== *)
theory Terminal_Parse imports Complex_Main App_State Agent_Turn begin

text \<open>
  What the terminal interface (\<open>cli/tui.cpp\<close>) makes of the host's JSON documents: the rows of its
  panels and the state of the Ollama setup. It has extractors of its own for arrays of objects and
  of strings. The second half proves what survives the way from the host to the panels.
\<close>

section \<open>Arrays\<close>

definition extract_json_object_array :: "string \<Rightarrow> string \<Rightarrow> string list" where
  "extract_json_object_array json key =
     (case find_str (needle key) json of
        None \<Rightarrow> []
      | Some array_key \<Rightarrow>
          (case find_from ''['' json array_key of
             None \<Rightarrow> []
           | Some cursor \<Rightarrow> objects_loop (drop (cursor + 1) json)))"

text \<open>
  The inner loop behind an opening quote: the value, and the text from the closing quote on. A
  backslash is dropped and the character behind it taken as it is.
\<close>

fun array_string_body :: "string \<Rightarrow> string \<times> string" where
  "array_string_body [] = ([], [])"
| "array_string_body [c] = (if c = quot then ([], [c]) else ([c], []))"
| "array_string_body (c # d # s) =
     (if c = quot then ([], c # d # s)
      else if c = bslash then apfst ((#) d) (array_string_body s)
      else apfst ((#) c) (array_string_body (d # s)))"

lemma array_string_body_length: "length (snd (array_string_body s)) \<le> length s"
  by (induction s rule: array_string_body.induct) auto

function strings_loop :: "string \<Rightarrow> string list" where
  "strings_loop s =
     (let t = dropWhile is_array_gap s
      in if t = [] \<or> hd t = CHR '']'' then []
         else if hd t \<noteq> quot then []
         else fst (array_string_body (tl t)) # strings_loop (tl (snd (array_string_body (tl t)))))"
  by pat_completeness auto
termination
proof (relation "measure length", goal_cases)
  case 1
  show ?case by simp
next
  case (2 s t)
  have "length (tl (snd (array_string_body (tl t)))) \<le> length (tl t)"
    using array_string_body_length [of "tl t"] by simp
  also have "\<dots> < length t" using 2 by (cases t) auto
  also have "\<dots> \<le> length s" using 2 by (simp add: length_dropWhile_le)
  finally show ?case by simp
qed

declare strings_loop.simps [simp del]

definition parse_json_string_array :: "string \<Rightarrow> string \<Rightarrow> string list" where
  "parse_json_string_array json key =
     (case find_str (needle key) json of
        None \<Rightarrow> []
      | Some key_index \<Rightarrow>
          (case find_from ''['' json key_index of
             None \<Rightarrow> []
           | Some cursor \<Rightarrow> strings_loop (drop (cursor + 1) json)))"

section \<open>Rows\<close>

record connector_row =
  cw_id :: string
  cw_kind :: string
  cw_base_url :: string
  cw_launch_cmd :: string
  cw_enabled :: bool
  cw_live_status :: string

record task_row =
  tw_id :: string
  tw_connector_id :: string
  tw_command :: string
  tw_status :: string
  tw_scheduled_for_ms :: int

text \<open>A boolean field that is absent or malformed leaves the default.\<close>

definition bool_or :: "bool \<Rightarrow> string \<Rightarrow> string \<Rightarrow> bool" where
  "bool_or d json key = (case extract_json_bool_field json key 0 of Some b \<Rightarrow> b | None \<Rightarrow> d)"

definition connector_row_of :: "string \<Rightarrow> connector_row" where
  "connector_row_of obj = \<lparr>cw_id = extract_json_string_field obj ''id'' 0, cw_kind = extract_json_string_field obj ''kind'' 0,
     cw_base_url = extract_json_string_field obj ''base_url'' 0, cw_launch_cmd = extract_json_string_field obj ''launch_cmd'' 0,
     cw_enabled = bool_or True obj ''enabled'', cw_live_status = ''unknown''\<rparr>"

definition parse_connectors :: "string \<Rightarrow> connector_row list" where
  "parse_connectors json =
     filter (\<lambda>r. cw_id r \<noteq> []) (map connector_row_of (extract_json_object_array json ''connectors''))"

definition task_row_of :: "string \<Rightarrow> cpp_exception + task_row" where
  "task_row_of obj =
     (case extract_json_int_field obj ''scheduled_for_ms'' 0 of
        Inl e \<Rightarrow> Inl e
      | Inr scheduled_for_ms \<Rightarrow> Inr \<lparr>tw_id = extract_json_string_field obj ''id'' 0,
          tw_connector_id = extract_json_string_field obj ''connector_id'' 0,
          tw_command = extract_json_string_field obj ''command'' 0, tw_status = extract_json_string_field obj ''status'' 0,
          tw_scheduled_for_ms = (case scheduled_for_ms of Some n \<Rightarrow> n | None \<Rightarrow> 0)\<rparr>)"

text \<open>A number outside 64 bits throws out of the loop.\<close>

fun task_rows :: "string list \<Rightarrow> cpp_exception + task_row list" where
  "task_rows [] = Inr []"
| "task_rows (obj # objs) =
     (case task_row_of obj of
        Inl e \<Rightarrow> Inl e
      | Inr r \<Rightarrow>
          (case task_rows objs of Inl e \<Rightarrow> Inl e | Inr rows \<Rightarrow> Inr (if tw_id r \<noteq> [] then r # rows else rows)))"

definition parse_tasks :: "string \<Rightarrow> cpp_exception + task_row list" where
  "parse_tasks json = task_rows (extract_json_object_array json ''tasks'')"

record location_row =
  lw_name :: string
  lw_resolved_path :: string
  lw_updated_at :: string

type_synonym location_entry = "string \<times> string"

record locations_snapshot =
  ls_system_locations :: "location_entry list"
  ls_remembered :: "location_row list"

definition parse_locations :: "string \<Rightarrow> locations_snapshot" where
  "parse_locations json =
     (let cwd = extract_json_string_field json ''cwd'' 0;
          desktop_path = extract_json_string_field json ''desktop_path'' 0
      in \<lparr>ls_system_locations =
            (if cwd \<noteq> [] then [(''Current Directory'', cwd)] else [])
            @ (if desktop_path \<noteq> [] then [(''Desktop'', desktop_path)] else [])
            @ filter (\<lambda>e. fst e \<noteq> [])
                (map (\<lambda>obj. (extract_json_string_field obj ''name'' 0, extract_json_string_field obj ''path'' 0))
                  (extract_json_object_array json ''system_locations'')),
          ls_remembered = filter (\<lambda>r. lw_name r \<noteq> [])
            (map (\<lambda>obj. \<lparr>lw_name = extract_json_string_field obj ''name'' 0,
                lw_resolved_path = extract_json_string_field obj ''resolved_path'' 0,
                lw_updated_at = extract_json_string_field obj ''updated_at'' 0\<rparr>)
              (extract_json_object_array json ''known_locations''))\<rparr>)"

record log_row =
  gw_timestamp :: string
  gw_channel :: string
  gw_direction :: string
  gw_summary :: string
  gw_success :: bool

definition log_row_of :: "string \<Rightarrow> log_row" where
  "log_row_of obj = \<lparr>gw_timestamp = extract_json_string_field obj ''timestamp'' 0,
     gw_channel = extract_json_string_field obj ''channel'' 0, gw_direction = extract_json_string_field obj ''direction'' 0,
     gw_summary = extract_json_string_field obj ''summary'' 0, gw_success = bool_or True obj ''success''\<rparr>"

definition parse_log_lines :: "string \<Rightarrow> log_row list" where
  "parse_log_lines json = map log_row_of (extract_json_object_array json ''entries'')"

definition is_process_launch_channel :: "string \<Rightarrow> bool" where
  "is_process_launch_channel channel \<longleftrightarrow>
     channel = ''run'' \<or> channel = ''ffmpeg'' \<or> channel = ''open'' \<or> channel = ''process''"

definition summarize_status :: "string \<Rightarrow> string \<Rightarrow> string" where
  "summarize_status kind status_json =
     (if \<not> bool_or False status_json ''ok'' then ''error''
      else if kind = ''launched_process'' then
        (if bool_or False status_json ''running'' then ''running: '' else ''stopped: '')
        @ extract_json_string_field status_json ''status'' 0
      else if bool_or False status_json ''online'' then ''online'' else ''offline'')"

section \<open>The Ollama setup\<close>

record ollama_setup_status =
  os_installed :: bool
  os_online :: bool
  os_models :: "string list"
  os_configured_model :: string
  os_configured_model_pulled :: bool

definition parse_ollama_setup_status :: "string \<Rightarrow> ollama_setup_status" where
  "parse_ollama_setup_status json = \<lparr>os_installed = bool_or False json ''installed'', os_online = bool_or False json ''online'',
     os_models = parse_json_string_array json ''models'',
     os_configured_model = extract_json_string_field json ''configured_model'' 0,
     os_configured_model_pulled = bool_or False json ''configured_model_pulled''\<rparr>"

datatype ollama_setup_state = Ready | NeedsInstall | NeedsStart | NeedsModel

definition compute_setup_state :: "ollama_setup_status \<Rightarrow> ollama_setup_state" where
  "compute_setup_state status =
     (if \<not> os_installed status then NeedsInstall
      else if \<not> os_online status then NeedsStart
      else if os_models status = [] \<or> \<not> os_configured_model_pulled status then NeedsModel
      else Ready)"

section \<open>Arrays between other members\<close>

lemma object_array_after:
  assumes "after_str (needle k) s = Some (CHR ''['' # u)" and "CHR ''['' \<notin> set k"
  shows "extract_json_object_array s k = objects_loop u"
proof -
  from assms obtain i b where "find_str (needle k) s = Some i" "find_from ''['' s i = Some b" "drop (Suc b) s = u"
    by (rule bracket_after)
  then show ?thesis by (simp add: extract_json_object_array_def)
qed

lemma string_array_after:
  assumes "after_str (needle k) s = Some (CHR ''['' # u)" and "CHR ''['' \<notin> set k"
  shows "parse_json_string_array s k = strings_loop u"
proof -
  from assms obtain i b where "find_str (needle k) s = Some i" "find_from ''['' s i = Some b" "drop (Suc b) s = u"
    by (rule bracket_after)
  then show ?thesis by (simp add: parse_json_string_array_def)
qed

lemma join_comma_snoc: "join_comma (xs @ y # ys) = (if xs = [] then [] else join_comma xs @ [comma]) @ join_comma (y # ys)"
  by (induction xs rule: join_comma.induct) auto

lemma scan_members:
  assumes "plain_key k" and "plain_keys fs" and "k \<notin> fst ` set fs" and "member_end tail"
  shows "after_str (needle k) (join_comma (map render_field fs) @ tail) = after_str (needle k) tail"
proof (cases "fs = []")
  case False
  have "map_of fs k = None" using assms(3) by (simp add: map_of_eq_None_iff)
  with False show ?thesis
    using after_str_fields [of k fs tail] assms(1,2,4) by (simp add: plain_keys_def list_all_iff member_end_iff)
qed simp

text \<open>Where the array behind flat members is found.\<close>

lemma array_member:
  assumes "plain_key k" and "plain_keys fs" and "k \<notin> fst ` set fs"
  shows "\<exists>r. after_str (needle k) (json_object (map render_field fs @ json_array_field k es # ms))
    = Some (CHR ''['' # join_comma es @ CHR '']'' # r)"
proof -
  let ?array = "join_comma (json_array_field k es # ms) @ [rbrace]"
  have "\<exists>r. ?array = needle k @ CHR ''['' # join_comma es @ CHR '']'' # r"
    by (cases ms) (simp_all add: json_array_field_def)
  then obtain r where r: "?array = needle k @ CHR ''['' # join_comma es @ CHR '']'' # r" by blast
  have hit: "after_str (needle k) ?array = Some (CHR ''['' # join_comma es @ CHR '']'' # r)"
    unfolding r by (rule after_str_hit)
  show ?thesis
  proof (cases "fs = []")
    case True
    then have "json_object (map render_field fs @ json_array_field k es # ms) = lbrace # ?array"
      by (simp add: json_object_def)
    then show ?thesis using hit scan_char [of lbrace k ?array] by auto
  next
    case False
    have t: "json_object (map render_field fs @ json_array_field k es # ms) = lbrace # join_comma (map render_field fs) @ comma # ?array"
      using False by (simp add: json_object_def join_comma_snoc)
    have "after_str (needle k) (join_comma (map render_field fs) @ comma # ?array) = after_str (needle k) (comma # ?array)"
      by (rule scan_members [OF assms]) simp
    with hit scan_char [of comma k ?array] show ?thesis
      unfolding t using scan_char [of lbrace k "join_comma (map render_field fs) @ comma # ?array"] by auto
  qed
qed

text \<open>An array of objects whose braces balance is read object by object.\<close>

lemma object_array_read:
  assumes "plain_key k" and "CHR ''['' \<notin> set k" and "plain_keys fs" and "k \<notin> fst ` set fs" and "list_all object_text es"
  shows "extract_json_object_array (json_object (map render_field fs @ json_array_field k es # ms)) k = es"
proof -
  obtain r where "after_str (needle k) (json_object (map render_field fs @ json_array_field k es # ms))
      = Some (CHR ''['' # join_comma es @ CHR '']'' # r)"
    using array_member [OF assms(1,3,4)] by blast
  from object_array_after [OF this assms(2)] show ?thesis by (simp add: objects_loop_join [OF assms(5)])
qed

section \<open>Flat objects as elements\<close>

definition balanced_fields :: "(string \<times> jval) list \<Rightarrow> bool" where
  "balanced_fields fs \<longleftrightarrow> list_all (\<lambda>(k, v). case v of JStr s \<Rightarrow> balanced s | _ \<Rightarrow> True) fs"

lemma walk_field:
  assumes "plain_key k" and "case v of JStr s \<Rightarrow> balanced s | _ \<Rightarrow> True"
  shows "walk_depth 1 (render_field (k, v) @ t) = walk_depth 1 t"
proof -
  have b: "lbrace \<notin> set k" "rbrace \<notin> set k" using assms(1) by (auto simp: plain_key_def plain_char_def list_all_iff)
  show ?thesis
  proof (cases v)
    case (JStr s)
    then show ?thesis using assms(2) walk_string_field [OF b, of s 1 t] by (simp add: json_string_field_render)
  next
    case (JBool x)
    then show ?thesis using walk_key [OF b, of 1 "(if x then ''true'' else ''false'') @ t"] by (simp add: render_field_def needle_def)
  next
    case (JInt n)
    then show ?thesis using walk_key [OF b, of 1 "to_string n @ t"] walk_to_string [of 1 n t] by (simp add: render_field_def needle_def)
  qed
qed

lemma walk_fields:
  assumes "plain_keys fs" and "balanced_fields fs"
  shows "walk_depth 1 (join_comma (map render_field fs)) = Some 1"
  using assms
proof (induction fs)
  case (Cons f fs)
  obtain k v where f: "f = (k, v)" by (cases f)
  have w: "walk_depth 1 (render_field f @ t) = walk_depth 1 t" for t
    unfolding f by (rule walk_field) (use Cons.prems f in \<open>simp_all add: plain_keys_def balanced_fields_def\<close>)
  show ?case
    using Cons w [of "[]"] w [of "comma # join_comma (map render_field fs)"]
    by (cases fs) (simp_all add: plain_keys_def balanced_fields_def)
qed simp

lemma flat_object_text: "plain_keys fs \<Longrightarrow> balanced_fields fs \<Longrightarrow> object_text (render_object fs)"
  unfolding object_text_def by (intro exI [of _ "join_comma (map render_field fs)"]) (simp add: render_object_def walk_fields [unfolded One_nat_def])

section \<open>Strings as elements\<close>

text \<open>No character whose escape the loop does not undo.\<close>

definition one_line :: "string \<Rightarrow> bool" where
  "one_line s \<longleftrightarrow> newline \<notin> set s \<and> carriage \<notin> set s \<and> tab \<notin> set s"

lemma array_string_escaped: "one_line v \<Longrightarrow> array_string_body (escape_json_string v @ quot # r) = (v, quot # r)"
proof (induction v)
  case Nil
  then show ?case by (cases r) auto
next
  case (Cons c v)
  obtain d u where "escape_json_string v @ quot # r = d # u"
    by (cases "escape_json_string v @ quot # r") auto
  with Cons show ?case by (auto simp: one_line_def)
qed

lemma strings_loop_quoted: "one_line v \<Longrightarrow> strings_loop (quoted v @ r) = v # strings_loop r"
  by (subst strings_loop.simps) (simp add: quoted_def is_array_gap_def array_string_escaped)

lemma strings_loop_join: "list_all one_line vs \<Longrightarrow> strings_loop (join_comma (map quoted vs) @ CHR '']'' # r) = vs"
proof (induction vs rule: induct_list012)
  case 1
  show ?case by (subst strings_loop.simps) (simp add: is_array_gap_def)
next
  case (2 x)
  have "strings_loop (CHR '']'' # r) = []" by (subst strings_loop.simps) (simp add: is_array_gap_def)
  with 2 show ?case by (simp add: strings_loop_quoted)
next
  case (3 x y zs)
  have "strings_loop (comma # t) = strings_loop t" for t
    by (subst (1 2) strings_loop.simps) (simp add: is_array_gap_def)
  with 3 show ?case by (simp add: strings_loop_quoted)
qed

lemma string_array_read:
  assumes "plain_key k" and "CHR ''['' \<notin> set k" and "plain_keys fs" and "k \<notin> fst ` set fs" and "list_all one_line vs"
  shows "parse_json_string_array (json_object (map render_field fs @ json_array_field k (map quoted vs) # ms)) k = vs"
proof -
  obtain r where "after_str (needle k) (json_object (map render_field fs @ json_array_field k (map quoted vs) # ms))
      = Some (CHR ''['' # join_comma (map quoted vs) @ CHR '']'' # r)"
    using array_member [OF assms(1,3,4)] by blast
  from string_array_after [OF this assms(2)] show ?thesis by (simp add: strings_loop_join [OF assms(5)])
qed

section \<open>What the panels show\<close>

definition log_row_of_entry :: "app_log_entry \<Rightarrow> log_row" where
  "log_row_of_entry e = \<lparr>gw_timestamp = al_timestamp e, gw_channel = al_channel e, gw_direction = al_direction e,
     gw_summary = al_summary e, gw_success = al_success e\<rparr>"

definition balanced_entry :: "app_log_entry \<Rightarrow> bool" where
  "balanced_entry e \<longleftrightarrow> list_all balanced [al_timestamp e, al_channel e, al_direction e, al_summary e]"

definition entry_fields :: "app_log_entry \<Rightarrow> (string \<times> jval) list" where
  "entry_fields e = [(''timestamp'', JStr (al_timestamp e)), (''channel'', JStr (al_channel e)),
     (''direction'', JStr (al_direction e)), (''summary'', JStr (al_summary e)), (''success'', JBool (al_success e))]"

lemma entry_object: "app_log_entry_json e = render_object (entry_fields e)"
  unfolding app_log_entry_json_def by (rule json_objectI) (simp add: entry_fields_def object_simps)

lemma plain_entry_fields: "plain_keys (entry_fields e)"
  by (simp add: entry_fields_def plain_keys_def plain_key_def plain_char_def)

lemma entry_row: "log_row_of (app_log_entry_json e) = log_row_of_entry e"
proof -
  have "plain_key k" if "k \<in> {''timestamp'', ''channel'', ''direction'', ''summary'', ''success''}" for k
    using that by (auto simp: plain_key_def plain_char_def)
  then show ?thesis
    unfolding entry_object
    by (simp add: log_row_of_def log_row_of_entry_def bool_or_def extract_flat_string extract_flat_bool plain_entry_fields)
      (simp add: entry_fields_def flat_string_def flat_bool_def)
qed

text \<open>
  The log panel shows the log: every entry of the host's log, in order and field by field, as long
  as the braces in its texts balance.
\<close>

theorem log_panel_shows_log:
  assumes "list_all balanced_entry (h_app_log h)"
  shows "parse_log_lines (build_app_log_json h) = map log_row_of_entry (h_app_log h)"
proof -
  have "object_text (app_log_entry_json e)" if "balanced_entry e" for e
    unfolding entry_object
    by (rule flat_object_text [OF plain_entry_fields]) (use that in \<open>simp add: balanced_entry_def balanced_fields_def entry_fields_def\<close>)
  then have "list_all object_text (map app_log_entry_json (h_app_log h))"
    using assms by (auto simp: list_all_iff)
  moreover have "plain_key ''entries''" by (simp add: plain_key_def plain_char_def)
  ultimately have "extract_json_object_array (build_app_log_json h) ''entries'' = map app_log_entry_json (h_app_log h)"
    using object_array_read [of "''entries''" "[]" "map app_log_entry_json (h_app_log h)" "[]"]
    by (simp add: build_app_log_json_def plain_keys_def)
  then show ?thesis by (simp add: parse_log_lines_def entry_row)
qed

text \<open>The session menu lists the stored sessions, ids of one line each.\<close>

theorem session_menu_lists_sessions:
  assumes "list_all one_line (list_session_ids (h_memory_store h))"
  shows "parse_json_string_array (build_agent_sessions_json h) ''session_ids'' = list_session_ids (h_memory_store h)"
  using string_array_read [of "''session_ids''" "[(''current_session_id'', JStr (h_current_session_id h))]" _ "[]"] assms
  by (simp add: build_agent_sessions_json_def object_simps plain_key_def plain_keys_def plain_char_def)

section \<open>What they lose\<close>

lemma close_braceless: "braceless s \<Longrightarrow> close_object d (s @ t) = apfst ((@) s) (close_object d t)"
  by (induction s) (auto simp: apfst_def map_prod_def split: prod.split)

lemma no_needle_in_open_string:
  assumes "plain_key k"
  shows "after_str (needle k) (quot # escape_json_string v @ [rbrace]) = None"
proof (rule ccontr)
  assume "after_str (needle k) (quot # escape_json_string v @ [rbrace]) \<noteq> None"
  then have "contains (quot # escape_json_string v @ [rbrace]) (needle k)" by (simp add: contains_after)
  then obtain a b where ab: "quot # escape_json_string v @ [rbrace] = a @ needle k @ b" by (auto simp: contains_iff)
  have "b \<noteq> []"
  proof
    assume "b = []"
    with ab have "last (quot # escape_json_string v @ [rbrace]) = last (a @ needle k)" by simp
    then show False by (simp add: needle_def)
  qed
  then obtain b' x where "b = b' @ [x]" by (metis append_butlast_last_id)
  with ab have "(quot # escape_json_string v) @ [rbrace] = (a @ needle k @ b') @ [x]" by simp
  then have v: "quot # escape_json_string v = a @ needle k @ b'" by (simp only: append1_eq_conv)
  have "quot # escape_json_string v @ quot # [rbrace] = a @ needle k @ b' @ [quot, rbrace]"
    using arg_cong [OF v, of "\<lambda>u. u @ [quot, rbrace]"] by simp
  then have "contains (quot # escape_json_string v @ quot # [rbrace]) (needle k)" unfolding contains_iff by blast
  then have "contains [rbrace] (needle k)" using scan_string_value [OF assms, of "[rbrace]" v] by (simp add: contains_after)
  then show False by (simp add: contains_Cons contains_Nil needle_def)
qed

text \<open>
  A log entry whose text ends in an unbalanced closing brace hides every entry behind it, and is
  itself shown as a success whatever became of it.
\<close>

theorem brace_hides_log:
  assumes "h_app_log h = e # es" and "al_summary e = p @ [rbrace]"
    and "list_all braceless [al_timestamp e, al_channel e, al_direction e, p]"
  shows "map gw_success (parse_log_lines (build_app_log_json h)) = [True]"
proof -
  let ?fs = "take 3 (entry_fields e)"
  let ?tail = "comma # needle ''summary'' @ quot # escape_json_string p @ [rbrace]"
  let ?obj = "lbrace # join_comma (map render_field ?fs) @ ?tail"
  have k: "plain_key ''success''" "plain_key ''summary''" by (simp_all add: plain_key_def plain_char_def)
  have "\<exists>r. app_log_entry_json e = ?obj @ quot # r"
    unfolding entry_object
    by (simp add: entry_fields_def render_object_def render_field_def needle_def assms(2) numeral_3_eq_3)
  then obtain r where r: "app_log_entry_json e = ?obj @ quot # r" by blast
  have b: "braceless (join_comma (map render_field ?fs) @ comma # needle ''summary'' @ quot # escape_json_string p)"
    using assms(3) by (simp add: entry_fields_def render_field_def needle_def numeral_3_eq_3)
  have "close_object 0 (?obj @ quot # t) = (?obj, quot # t)" for t
    using close_braceless [OF b, of 1 "rbrace # quot # t"] by simp
  then have loop: "objects_loop (?obj @ quot # t) = [?obj]" for t
    by (subst objects_loop.simps) (simp add: is_array_gap_def objects_loop.simps [of "quot # t"])
  have "\<exists>t. after_str (needle ''entries'') (build_app_log_json h) = Some (CHR ''['' # ?obj @ quot # t)"
    using array_member [of "''entries''" "[]" "map app_log_entry_json (h_app_log h)" "[]"] assms(1) r
    by (cases es) (auto simp: build_app_log_json_def plain_keys_def plain_key_def plain_char_def)
  then obtain t where "after_str (needle ''entries'') (build_app_log_json h) = Some (CHR ''['' # ?obj @ quot # t)" by blast
  from object_array_after [OF this] have "extract_json_object_array (build_app_log_json h) ''entries'' = [?obj]"
    using loop by simp
  moreover have "after_str (needle ''success'') ?obj = None"
  proof -
    have "after_str (needle ''success'') ?obj = after_str (needle ''success'') ?tail"
      using after_str_fields [OF k(1), of ?fs ?tail]
      by (simp add: entry_fields_def plain_key_def plain_char_def numeral_3_eq_3 scan_char)
    also have "\<dots> = after_str (needle ''success'') (quot # escape_json_string p @ [rbrace])"
      using k by (simp add: scan_char scan_key)
    finally show ?thesis using no_needle_in_open_string [OF k(1)] by simp
  qed
  ultimately show ?thesis
    by (simp add: parse_log_lines_def log_row_of_def bool_or_def extract_json_bool_field_def field_text_after)
qed

end
