(* ===== verification/Terminal_Chat.thy ===== *)
theory Terminal_Chat imports Complex_Main Terminal_Parse begin

text \<open>
  The chat panel of the terminal interface (\<open>cli/tui.cpp\<close>): the lines an answer of the host turns
  into, the transcript as text, the session to resume, and the dialogue that leads through the
  Ollama setup.
\<close>

section \<open>Lines\<close>

record chat_entry =
  ce_role :: string
  ce_text :: string
  ce_timestamp :: string
  ce_expanded :: bool

text \<open>The two-argument constructor reads the clock.\<close>

definition new_chat_entry :: "'w os \<Rightarrow> string \<Rightarrow> string \<Rightarrow> 'w host \<Rightarrow> chat_entry \<times> 'w host" where
  "new_chat_entry os role line h =
     (case sense (os_local_time os ''%H:%M:%S'') h of (timestamp, h1) \<Rightarrow>
        (\<lparr>ce_role = role, ce_text = line, ce_timestamp = timestamp, ce_expanded = False\<rparr>, h1))"

text \<open>Entries constructed one after the other; a line that brings its time does not read the clock.\<close>

fun new_chat_entries :: "'w os \<Rightarrow> (string \<times> string \<times> string option) list \<Rightarrow> 'w host \<Rightarrow> chat_entry list \<times> 'w host" where
  "new_chat_entries os [] h = ([], h)"
| "new_chat_entries os ((role, line, stamp) # rest) h =
     (case (case stamp of
              Some timestamp \<Rightarrow> (\<lparr>ce_role = role, ce_text = line, ce_timestamp = timestamp, ce_expanded = False\<rparr>, h)
            | None \<Rightarrow> new_chat_entry os role line h) of (e, h1) \<Rightarrow>
        apfst ((#) e) (new_chat_entries os rest h1))"

definition transcript_line :: "chat_entry \<Rightarrow> string" where
  "transcript_line e =
     ''['' @ ce_timestamp e @ ''] ''
     @ (if ce_role e = ''user'' then ''[USER] ''
        else if ce_role e = ''assistant'' then ''[AGENT] ''
        else if ce_role e = ''thinking'' then ''[AGENT] [THINKING] ''
        else if ce_role e = ''tool'' then ''[AGENT] [EXECUTION] ''
        else if ce_role e = ''error'' then ''error: ''
        else ''[SYSTEM] '')
     @ ce_text e @ [newline]"

definition format_chat_transcript :: "chat_entry list \<Rightarrow> string" where
  "format_chat_transcript entries = concat (map transcript_line entries)"

section \<open>Answers of the agent\<close>

record agent_lines =
  an_session_id :: string
  an_pending :: "(string \<times> string) option"
  an_lines :: "(string \<times> string) list"

definition thinking_lines :: "string \<Rightarrow> (string \<times> string) list" where
  "thinking_lines json =
     (let thinking = extract_json_string_field json ''thinking'' 0
      in if thinking \<noteq> [] then [(''thinking'', thinking)] else [])"

definition action_line :: "string \<Rightarrow> string \<times> string" where
  "action_line action =
     (let result = extract_json_string_field action ''result_json'' 0
      in (''tool'', ''called '' @ extract_json_string_field action ''tool'' 0
            @ ''('' @ extract_json_string_field action ''arguments_json'' 0 @ '')''
            @ (if result = [] then [] else '' -> '' @ result)))"

definition approval_line :: "bool \<Rightarrow> string \<Rightarrow> string \<Rightarrow> string \<times> string" where
  "approval_line destructive name arguments =
     (''info'', (if destructive then ''[!! DESTRUCTIVE !!] '' else []) @ ''[AGENT WANTS TO] '' @ name
        @ ''('' @ arguments @ '') - approve? (yes/no, or say why not)'')"

definition parse_agent_turn_response :: "string \<Rightarrow> agent_lines" where
  "parse_agent_turn_response json =
     (let session_id = extract_json_string_field json ''session_id'' 0
      in if \<not> bool_or False json ''ok'' then
           (let err = extract_json_string_field json ''error'' 0
            in \<lparr>an_session_id = session_id, an_pending = None,
                 an_lines = [(''error'', if err = [] then ''agent turn failed'' else err)]\<rparr>)
         else
           (let before = thinking_lines json @ map action_line (extract_json_object_array json ''actions'')
            in case find_str (needle ''pending_tool_call'') json of
                 Some pending_index \<Rightarrow>
                   (let pending_object = drop pending_index json;
                        name = extract_json_string_field pending_object ''tool'' 0;
                        arguments = extract_json_string_field pending_object ''arguments_json'' 0
                    in \<lparr>an_session_id = session_id, an_pending = Some (name, arguments),
                         an_lines = before @ [approval_line (bool_or False pending_object ''looks_destructive'') name arguments]\<rparr>)
               | None \<Rightarrow>
                   (let assistant = extract_json_string_field json ''assistant'' 0
                    in \<lparr>an_session_id = session_id, an_pending = None,
                         an_lines = before @ [(''assistant'', if assistant = [] then ''(no reply)'' else assistant)]\<rparr>)))"

section \<open>The Ollama setup dialogue\<close>

text \<open>Leading and trailing \<open>std::isspace\<close> characters go.\<close>

definition trim :: "string \<Rightarrow> string" where
  "trim s = rev (dropWhile is_space (rev (dropWhile is_space s)))"

fun numbered_models :: "nat \<Rightarrow> string list \<Rightarrow> string" where
  "numbered_models n [] = []"
| "numbered_models n (m # ms) =
     (if n > 0 then ''  '' else []) @ to_string (int n + 1) @ '') '' @ m @ numbered_models (n + 1) ms"

definition describe_setup_prompt :: "ollama_setup_state \<Rightarrow> ollama_setup_status \<Rightarrow> string" where
  "describe_setup_prompt state status =
     (case state of
        NeedsInstall \<Rightarrow> ''Ollama isn'' @ [CHR 0x27] @ ''t installed. Type '' @ [CHR 0x27] @ ''install ollama'' @ [CHR 0x27]
          @ '' to install it automatically (via winget), or install it yourself from ollama.com.''
      | NeedsStart \<Rightarrow> ''Ollama is installed but not running. Type '' @ [CHR 0x27] @ ''start ollama'' @ [CHR 0x27] @ '' to launch it.''
      | NeedsModel \<Rightarrow>
          if os_models status = [] then
            ''No Ollama models found on this machine. Type a model name to download it (e.g. '' @ [CHR 0x27] @ ''llama3.2''
            @ [CHR 0x27] @ '', '' @ [CHR 0x27] @ ''qwen2.5'' @ [CHR 0x27] @ '', '' @ [CHR 0x27] @ ''mistral-nemo'' @ [CHR 0x27]
            @ '') and I'' @ [CHR 0x27] @ ''ll pull it for you.''
          else
            ''Ollama has these models available: '' @ numbered_models 0 (os_models status)
            @ ''. Type a number or name to use one (Enter = 1), or '' @ [CHR 0x27] @ ''pull <name>'' @ [CHR 0x27]
            @ '' to download a different model.''
      | Ready \<Rightarrow> [])"

text \<open>\<open>Inr None\<close> is the result \<open>false\<close>; a number out of the range of \<open>int\<close> is undefined behaviour of \<open>std::atoi\<close>.\<close>

definition try_resolve_model_selection :: "string \<Rightarrow> ollama_setup_status \<Rightarrow> cpp_exception + string option" where
  "try_resolve_model_selection trimmed_message status =
     (let models = os_models status
      in if models = [] then Inr None
         else if trimmed_message = [] then Inr (Some (hd models))
         else if list_all is_digit trimmed_message then
           (case atoi trimmed_message of
              None \<Rightarrow> Inl UndefinedBehaviour
            | Some index \<Rightarrow>
                Inr (if index \<ge> 1 \<and> nat index \<le> length models then Some (models ! (nat index - 1)) else None))
         else Inr (find (\<lambda>m. to_lower_ascii m = to_lower_ascii trimmed_message) models))"

section \<open>The last session\<close>

definition kLastSessionIdFile :: string where
  "kLastSessionIdFile = ''db/droidcli_last_session.json''"

definition read_last_session_id :: "'w os \<Rightarrow> 'w host \<Rightarrow> string" where
  "read_last_session_id os h =
     (case fs_read os kLastSessionIdFile (h_world h) of
        None \<Rightarrow> []
      | Some content \<Rightarrow> trim (extract_json_string_field content ''session_id'' 0))"

definition write_last_session_id :: "'w os \<Rightarrow> string \<Rightarrow> 'w host \<Rightarrow> 'w host" where
  "write_last_session_id os session_id h =
     snd (sense (fs_write os kLastSessionIdFile (json_object [json_string_field ''session_id'' session_id] @ [newline]) False) h)"

text \<open>A stored message as a line; a \<open>created_at\<close> of at least eight characters ends in its time.\<close>

definition resumed_line :: "string \<Rightarrow> string \<times> string \<times> string option" where
  "resumed_line message =
     (let role = extract_json_string_field message ''role'' 0;
          content = extract_json_string_field message ''content'' 0;
          created_at = extract_json_string_field message ''created_at'' 0;
          resumed_timestamp = (if length created_at \<ge> 8 then Some (drop (length created_at - 8) created_at) else None)
      in if role = ''assistant'' then (''assistant'', content, resumed_timestamp)
         else if role = ''tool'' then (''tool'', ''(resumed) '' @ content, resumed_timestamp)
         else (''user'', content, resumed_timestamp))"

definition resume_summary :: "nat \<Rightarrow> bool \<Rightarrow> string" where
  "resume_summary n saw_system_prompt =
     ''Resumed a prior session ('' @ to_string (int n) @ '' message'' @ (if n = 1 then [] else ''s'')
     @ (if saw_system_prompt then '', plus the system prompt'' else [])
     @ ''). Press '' @ [CHR 0x27] @ ''n'' @ [CHR 0x27] @ '' to start a new session instead.''"

definition parse_agent_history_for_resume :: "'w os \<Rightarrow> string \<Rightarrow> 'w host \<Rightarrow> chat_entry list \<times> 'w host" where
  "parse_agent_history_for_resume os json h =
     (let messages = extract_json_object_array json ''messages'';
          is_system = (\<lambda>m. extract_json_string_field m ''role'' 0 = ''system'')
      in case new_chat_entries os (map resumed_line (filter (\<lambda>m. \<not> is_system m) messages)) h of (entries, h1) \<Rightarrow>
           (if entries = [] then ([], h1)
            else
              (case new_chat_entry os ''info'' (resume_summary (length entries) (list_ex is_system messages)) h1 of
                 (summary, h2) \<Rightarrow> (summary # entries, h2))))"

end
