(* ===== verification/Terminal_Approval.thy ===== *)
theory Terminal_Approval imports Complex_Main Terminal_Chat Agent_Answers begin

text \<open>
  The approval prompt of the terminal interface against the pending call of the host: what the
  user is asked to approve is what the host waits to run, whatever text the model put into the
  name and the arguments of the call, and a finished answer never looks like a proposal.
\<close>

section \<open>Searching behind objects\<close>

lemma scan_flat_object:
  assumes "plain_key k" and "plain_keys fs" and "k \<notin> fst ` set fs"
  shows "after_str (needle k) (render_object fs @ t) = after_str (needle k) t"
proof -
  have "render_object fs @ t = lbrace # join_comma (map render_field fs) @ rbrace # t" by (simp add: render_object_def)
  then show ?thesis using scan_members [OF assms, of "rbrace # t"] by (simp add: scan_char)
qed

lemma scan_flat_objects:
  assumes "plain_key k" and "list_all (\<lambda>fs. plain_keys fs \<and> k \<notin> fst ` set fs) fss"
  shows "after_str (needle k) (join_comma (map render_object fss) @ t) = after_str (needle k) t"
  using assms(2)
proof (induction fss rule: induct_list012)
  case (3 x y zs)
  then show ?case by (simp add: scan_flat_object [OF assms(1)] scan_char)
qed (simp_all add: scan_flat_object [OF assms(1)])

lemma extract_behind_key:
  assumes "plain_key k" and "plain_key k'" and "k \<noteq> k'"
  shows "extract_json_string_field (needle k' @ t) k 0 = extract_json_string_field t k 0"
    and "extract_json_bool_field (needle k' @ t) k 0 = extract_json_bool_field t k 0"
  by (simp_all add: extract_json_string_field_def extract_json_bool_field_def field_text_after scan_key assms)

section \<open>Finished answers\<close>

definition final_fields :: "string \<Rightarrow> string \<Rightarrow> string \<Rightarrow> (string \<times> jval) list" where
  "final_fields session_id assistant_text thinking = (''ok'', JBool True)
     # (if thinking \<noteq> [] then [(''thinking'', JStr thinking)] else [])
     @ [(''assistant'', JStr assistant_text), (''session_id'', JStr session_id)]"

definition action_fields :: "string \<Rightarrow> action_record \<Rightarrow> (string \<times> jval) list" where
  "action_fields shown a = [(''tool'', JStr (ar_tool a)), (''arguments_json'', JStr shown), (''result_json'', JStr (ar_result_json a))]"

lemma action_object: "action_json shown a = render_object (action_fields shown a)"
  unfolding action_json_def by (rule json_objectI) (simp add: action_fields_def object_simps)

lemma plain_action_fields: "plain_keys (action_fields shown a)"
  by (simp add: action_fields_def plain_keys_def plain_key_def plain_char_def)

lemma plain_final_fields: "plain_keys (final_fields sid reply thinking)"
  by (simp add: final_fields_def plain_keys_def plain_key_def plain_char_def)

lemma final_text:
  "build_final_agent_response sid reply actions thinking = json_object (map render_field (final_fields sid reply thinking)
     @ json_array_field ''actions'' (map render_object (map (\<lambda>a. action_fields (ar_arguments_json a) a) actions)) # [])"
  by (simp add: build_final_agent_response_def final_fields_def object_simps action_object comp_def)

lemma final_members:
  "\<exists>tail. member_end tail \<and> build_final_agent_response sid reply actions thinking = render_members (final_fields sid reply thinking) tail"
proof -
  let ?as = "map render_object (map (\<lambda>a. action_fields (ar_arguments_json a) a) actions)"
  have "build_final_agent_response sid reply actions thinking
      = render_members (final_fields sid reply thinking) (comma # json_array_field ''actions'' ?as @ [rbrace])"
    unfolding final_text json_object_def render_members_def
    by (simp add: join_comma_snoc final_fields_def)
  then show ?thesis by (intro exI [of _ "comma # json_array_field ''actions'' ?as @ [rbrace]"]) simp
qed

lemma final_proposes_nothing: "find_str (needle ''pending_tool_call'') (build_final_agent_response sid reply actions thinking) = None"
proof -
  let ?k = "''pending_tool_call''"
  let ?fss = "map (\<lambda>a. action_fields (ar_arguments_json a) a) actions"
  let ?tail = "comma # json_array_field ''actions'' (map render_object ?fss) @ [rbrace]"
  have k: "plain_key ?k" "plain_key ''actions''" by (simp_all add: plain_key_def plain_char_def)
  have "build_final_agent_response sid reply actions thinking = lbrace # join_comma (map render_field (final_fields sid reply thinking)) @ ?tail"
    unfolding final_text json_object_def by (simp add: join_comma_snoc final_fields_def)
  moreover have "after_str (needle ?k) (join_comma (map render_field (final_fields sid reply thinking)) @ ?tail) = after_str (needle ?k) ?tail"
    by (rule scan_members [OF k(1) plain_final_fields]) (auto simp: final_fields_def)
  moreover have "after_str (needle ?k) ?tail = None"
  proof -
    have "list_all (\<lambda>fs. plain_keys fs \<and> ?k \<notin> fst ` set fs) ?fss"
      by (simp add: list_all_iff plain_action_fields) (simp add: action_fields_def)
    from scan_flat_objects [OF k(1) this, of "'']}''"]
    have "after_str (needle ?k) ?tail = after_str (needle ?k) '']}''"
      by (simp add: json_array_field_def scan_char scan_key k)
    then show ?thesis by (simp add: after_str_def needle_def)
  qed
  ultimately have "after_str (needle ?k) (build_final_agent_response sid reply actions thinking) = None"
    by (simp only: scan_char) (simp add: scan_char)
  then show ?thesis by (simp add: after_str_def)
qed

lemma final_read:
  "extract_json_bool_field (build_final_agent_response sid reply actions thinking) ''ok'' 0 = Some True"
  "extract_json_string_field (build_final_agent_response sid reply actions thinking) ''assistant'' 0 = reply"
  "extract_json_string_field (build_final_agent_response sid reply actions thinking) ''session_id'' 0 = sid"
proof -
  obtain tail where t: "member_end tail"
      "build_final_agent_response sid reply actions thinking = render_members (final_fields sid reply thinking) tail"
    using final_members by blast
  note m = members_read [OF plain_final_fields [of sid reply thinking] t(1)]
  have k: "k \<in> fst ` set (final_fields sid reply thinking)" if "k \<in> {''ok'', ''assistant'', ''session_id''}" for k
    using that by (auto simp: final_fields_def)
  show "extract_json_bool_field (build_final_agent_response sid reply actions thinking) ''ok'' 0 = Some True"
    "extract_json_string_field (build_final_agent_response sid reply actions thinking) ''assistant'' 0 = reply"
    "extract_json_string_field (build_final_agent_response sid reply actions thinking) ''session_id'' 0 = sid"
    unfolding t(2) by (simp_all add: m k) (auto simp: final_fields_def flat_bool_def flat_string_def)
qed

text \<open>
  A finished answer is shown as such: it asks for no approval, whatever the texts in it, it is shown under its
  session, and its last line is the reply.
\<close>

theorem finished_answer_asks_nothing:
  "let shown = parse_agent_turn_response (build_final_agent_response sid reply actions thinking)
   in an_pending shown = None \<and> an_session_id shown = sid
      \<and> last (an_lines shown) = (''assistant'', if reply = [] then ''(no reply)'' else reply)"
  by (simp add: parse_agent_turn_response_def final_proposes_nothing final_read bool_or_def Let_def)

section \<open>Proposals\<close>

definition proposal_head :: "string \<Rightarrow> string \<Rightarrow> (string \<times> jval) list" where
  "proposal_head session_id thinking = (''ok'', JBool True)
     # (if thinking \<noteq> [] then [(''thinking'', JStr thinking)] else []) @ [(''session_id'', JStr session_id)]"

definition proposal_fields :: "string \<Rightarrow> string \<Rightarrow> bool \<Rightarrow> (string \<times> jval) list" where
  "proposal_fields name arguments destructive =
     [(''tool'', JStr name), (''arguments_json'', JStr arguments), (''looks_destructive'', JBool destructive)]"

lemma plain_proposal:
  "plain_keys (proposal_head sid thinking)" "plain_keys (proposal_fields name arguments destructive)"
  by (simp_all add: proposal_head_def proposal_fields_def plain_keys_def plain_key_def plain_char_def)

lemma proposal_text:
  "\<exists>rest. build_pending_tool_call_response os h sid call actions thinking
    = render_members (proposal_head sid thinking)
        (comma # needle ''pending_tool_call'' @ render_members (proposal_fields (call_name call)
           (display_arguments_with_full_paths os h (call_name call) (call_arguments_json call)) (looks_destructive call)) (rbrace # rest))"
proof -
  let ?shown = "display_arguments_with_full_paths os h (call_name call) (call_arguments_json call)"
  let ?as = "json_array_field ''actions''
    (map (\<lambda>a. action_json (display_arguments_with_full_paths os h (ar_tool a) (ar_arguments_json a)) a) actions)"
  have f: "json_object [json_string_field ''tool'' (call_name call), json_string_field ''arguments_json'' ?shown,
      json_bool_field ''looks_destructive'' (looks_destructive call)]
    = render_object (proposal_fields (call_name call) ?shown (looks_destructive call))"
    by (rule json_objectI) (simp add: proposal_fields_def object_simps)
  have "build_pending_tool_call_response os h sid call actions thinking = json_object (map render_field (proposal_head sid thinking)
      @ (needle ''pending_tool_call'' @ render_object (proposal_fields (call_name call) ?shown (looks_destructive call))) # [?as])"
    unfolding build_pending_tool_call_response_def f by (simp add: proposal_head_def object_simps)
  also have "\<dots> = render_members (proposal_head sid thinking)
      (comma # needle ''pending_tool_call'' @ render_members (proposal_fields (call_name call) ?shown (looks_destructive call))
        (rbrace # comma # ?as @ [rbrace]))"
    by (simp add: json_object_def render_members_def render_object_def join_comma_snoc proposal_head_def)
  finally show ?thesis by blast
qed

lemma proposal_shown:
  "let shown = parse_agent_turn_response (build_pending_tool_call_response os h sid call actions thinking);
       arguments = display_arguments_with_full_paths os h (call_name call) (call_arguments_json call)
   in an_session_id shown = sid \<and> an_pending shown = Some (call_name call, arguments)
      \<and> last (an_lines shown) = approval_line (looks_destructive call) (call_name call) arguments"
proof -
  let ?json = "build_pending_tool_call_response os h sid call actions thinking"
  let ?k = "''pending_tool_call''"
  let ?shown = "display_arguments_with_full_paths os h (call_name call) (call_arguments_json call)"
  let ?fields = "proposal_fields (call_name call) ?shown (looks_destructive call)"
  obtain rest where j: "?json = render_members (proposal_head sid thinking) (comma # needle ?k @ render_members ?fields (rbrace # rest))"
    using proposal_text by blast
  have k: "plain_key ?k" "plain_key ''tool''" "plain_key ''arguments_json''" "plain_key ''looks_destructive''"
    by (simp_all add: plain_key_def plain_char_def)
  have h: "k \<in> fst ` set (proposal_head sid thinking)" if "k \<in> {''ok'', ''session_id''}" for k
    using that by (auto simp: proposal_head_def)
  have ok: "extract_json_bool_field ?json ''ok'' 0 = Some True" "extract_json_string_field ?json ''session_id'' 0 = sid"
    unfolding j by (simp_all add: members_read [OF plain_proposal(1)] h)
      (auto simp: proposal_head_def flat_bool_def flat_string_def)
  have "after_str (needle ?k) ?json = Some (render_members ?fields (rbrace # rest))"
    unfolding j render_members_def
    using scan_members [OF k(1) plain_proposal(1) [of sid thinking], of "comma # needle ?k @ render_members ?fields (rbrace # rest)"]
    by (auto simp: proposal_head_def scan_char scan_key k render_members_def)
  then obtain i where i: "find_str (needle ?k) ?json = Some i" "drop (i + length (needle ?k)) ?json = render_members ?fields (rbrace # rest)"
    by (auto simp: after_str_def)
  then have d: "drop i ?json = needle ?k @ render_members ?fields (rbrace # rest)" by (simp add: find_str_drop)
  have f: "k \<in> fst ` set ?fields" if "k \<in> {''tool'', ''arguments_json'', ''looks_destructive''}" for k
    using that by (auto simp: proposal_fields_def)
  have "extract_json_string_field (drop i ?json) ''tool'' 0 = flat_string ?fields ''tool''"
    "extract_json_string_field (drop i ?json) ''arguments_json'' 0 = flat_string ?fields ''arguments_json''"
    "extract_json_bool_field (drop i ?json) ''looks_destructive'' 0 = flat_bool ?fields ''looks_destructive''"
    unfolding d by (simp_all add: extract_behind_key k members_read [OF plain_proposal(2)] f)
  then have p: "extract_json_string_field (drop i ?json) ''tool'' 0 = call_name call"
    "extract_json_string_field (drop i ?json) ''arguments_json'' 0 = ?shown"
    "extract_json_bool_field (drop i ?json) ''looks_destructive'' 0 = Some (looks_destructive call)"
    by (simp_all add: proposal_fields_def flat_string_def flat_bool_def)
  show ?thesis by (simp add: parse_agent_turn_response_def ok i(1) p bool_or_def Let_def)
qed

section \<open>Every prompt\<close>

text \<open>If an answer asks for approval, it names the session and the call the host now waits for.\<close>

definition prompt_matches :: "'w os \<Rightarrow> string \<Rightarrow> 'w host \<Rightarrow> bool" where
  "prompt_matches os answer h =
     (case an_pending (parse_agent_turn_response answer) of
        None \<Rightarrow> True
      | Some (name, arguments) \<Rightarrow>
          (let p = h_pending_tool_call h; call = pc_decided_call p
           in pc_active p \<and> pc_session_id p = an_session_id (parse_agent_turn_response answer) \<and> name = call_name call
              \<and> arguments = display_arguments_with_full_paths os h (call_name call) (call_arguments_json call)
              \<and> last (an_lines (parse_agent_turn_response answer)) = approval_line (looks_destructive call) name arguments))"

lemma same_place:
  "h_world (h\<lparr>h_pending_tool_call := p\<rparr>) = h_world h" "h_system_info (h\<lparr>h_pending_tool_call := p\<rparr>) = h_system_info h"
  by simp_all

lemma display_field_same_place: "display_field os (h\<lparr>h_pending_tool_call := p\<rparr>) = display_field os h"
  unfolding display_field_def desktop_def same_place by (rule refl)

lemma display_same_place:
  "display_arguments_with_full_paths os (h\<lparr>h_pending_tool_call := p\<rparr>) name arguments = display_arguments_with_full_paths os h name arguments"
  unfolding display_arguments_with_full_paths_def display_field_same_place same_place by (rule refl)

lemma refusal_asks_nothing: "an_pending (parse_agent_turn_response (json_object (json_bool_field ''ok'' False # ms))) = None"
  by (simp add: parse_agent_turn_response_def bool_or_def bool_first Let_def)

interpretation prompt: agent_answers os "prompt_matches os" for os :: "'w os"
proof
  fix s :: "'w host" and sid reply actions thinking message call
  show "prompt_matches os (build_final_agent_response sid reply actions thinking) s"
    by (simp add: prompt_matches_def parse_agent_turn_response_def final_proposes_nothing Let_def)
  show "prompt_matches os (refusal message) s"
    by (simp add: prompt_matches_def refusal_def refusal_asks_nothing)
  show "prompt_matches os (json_object [json_bool_field ''ok'' False, json_string_field ''error'' message,
      json_string_field ''session_id'' sid]) s"
    by (simp add: prompt_matches_def refusal_asks_nothing)
  show "prompt_matches os (build_pending_tool_call_response os s sid call actions thinking)
      (s\<lparr>h_pending_tool_call := \<lparr>pc_active = True, pc_session_id = sid, pc_decided_call = call, pc_actions = actions\<rparr>\<rparr>)"
    using proposal_shown [of os s sid call actions thinking]
    by (simp add: prompt_matches_def display_same_place Let_def)
qed

text \<open>
  C3: what the user is asked to approve is what the host waits to run: whenever the answer of a turn or
  of a decision makes the terminal ask, the host has a pending call, of the session that is shown,
  and the prompt shows its tool and its arguments (file paths in full), marked as destructive
  exactly when it looks so. No text in the model's call can make another one appear.
\<close>

theorem prompt_shows_pending_call:
  "(case agent_turn os body h of (Inl _, _) \<Rightarrow> True | (Inr answer, h1) \<Rightarrow> prompt_matches os answer h1)
   \<and> (case agent_tool_decision os body h of (Inl _, _) \<Rightarrow> True | (Inr answer, h1) \<Rightarrow> prompt_matches os answer h1)"
  using prompt.turn [of os body h] prompt.decision [of os body h] by (simp split: prod.split sum.split)

end
