(* ===== verification/Terminal_State.thy ===== *)
theory Terminal_State imports Complex_Main Terminal_Chat begin

text \<open>
  The terminal interface as a state machine (\<open>run_tui\<close> of \<open>cli/tui.cpp\<close>): what the event loop owns,
  the hand-off structures it shares with the poller and the chat worker, and one function per
  handler. FTXUI itself is not modelled: what its widgets write (typed text, menu positions) is an
  argument of the event. The drawing is left out.
\<close>

section \<open>State\<close>

record polled_state =
  po_connectors :: "connector_row list"
  po_tasks :: "task_row list"
  po_log_lines :: "log_row list"
  po_locations :: locations_snapshot
  po_ollama_models :: "string list"
  po_agent_session_ids :: "string list"

text \<open>\<open>wo_pending_call\<close> is \<open>Some\<close> while \<open>has_pending_tool_call\<close> is set.\<close>

record chat_work =
  wo_pending_entries :: "chat_entry list"
  wo_clear_in_flight :: bool
  wo_session_id :: string
  wo_pending_call :: "(string \<times> string) option"

record pending_tool_approval =
  pa_active :: bool
  pa_session_id :: string
  pa_tool :: string
  pa_arguments_json :: string

definition no_approval :: pending_tool_approval where
  "no_approval = \<lparr>pa_active = False, pa_session_id = [], pa_tool = [], pa_arguments_json = []\<rparr>"

text \<open>The chat worker: what it was started with, or the results it is about to hand over.\<close>

datatype chat_job = Chat_Turn (job_message: string) (job_new_session: bool)
  | Tool_Decision (job_approved: bool) (job_reason: string) (job_session: string)

datatype worker = No_Job | Running chat_job | Computed "chat_entry list"

record terminal =
  t_connectors :: "connector_row list"
  t_connector_entries :: "string list"
  t_selected_connector :: int
  t_tasks :: "task_row list"
  t_log_lines :: "log_row list"
  t_locations :: locations_snapshot
  t_model_menu_entries :: "string list"
  t_model_menu_selected :: int
  t_model_menu_known_model :: string
  t_session_menu_entries :: "string list"
  t_session_menu_selected :: int
  t_session_dropdown_user_picked :: bool
  t_chat_entries :: "chat_entry list"
  t_chat_input_text :: string
  t_chat_input_cursor :: int
  t_chat_history :: "string list"
  t_chat_history_cursor :: int
  t_chat_history_draft :: string
  t_agent_turn_in_flight :: bool
  t_pending_tool_approval :: pending_tool_approval
  t_current_session_id :: string
  t_pending_new_session :: bool
  t_show_delete_confirm :: bool
  t_delete_confirm_session_id :: string
  t_chat_focused :: bool
  t_polled :: polled_state
  t_chat_work :: chat_work
  t_worker :: worker
  t_running :: bool

definition empty_chat_work :: chat_work where
  "empty_chat_work = \<lparr>wo_pending_entries = [], wo_clear_in_flight = False, wo_session_id = [], wo_pending_call = None\<rparr>"

definition blank_terminal :: terminal where
  "blank_terminal = \<lparr>t_connectors = [], t_connector_entries = [], t_selected_connector = 0, t_tasks = [], t_log_lines = [],
     t_locations = \<lparr>ls_system_locations = [], ls_remembered = []\<rparr>, t_model_menu_entries = [], t_model_menu_selected = 0,
     t_model_menu_known_model = [], t_session_menu_entries = [], t_session_menu_selected = 0,
     t_session_dropdown_user_picked = False, t_chat_entries = [], t_chat_input_text = [], t_chat_input_cursor = 0,
     t_chat_history = [], t_chat_history_cursor = -1, t_chat_history_draft = [], t_agent_turn_in_flight = False,
     t_pending_tool_approval = no_approval, t_current_session_id = [], t_pending_new_session = False,
     t_show_delete_confirm = False, t_delete_confirm_session_id = [], t_chat_focused = False,
     t_polled = \<lparr>po_connectors = [], po_tasks = [], po_log_lines = [], po_locations = \<lparr>ls_system_locations = [], ls_remembered = []\<rparr>,
       po_ollama_models = [], po_agent_session_ids = []\<rparr>,
     t_chat_work = empty_chat_work, t_worker = No_Job, t_running = True\<rparr>"

type_synonym 'w screen = "terminal \<times> 'w host"
type_synonym 'w screen_step = "'w screen \<Rightarrow> (cpp_exception + unit) \<times> 'w screen"

definition on_terminal :: "(terminal \<Rightarrow> terminal) \<Rightarrow> 'w screen_step" where
  "on_terminal f s = (Inr (), (f (fst s), snd s))"

definition on_screen :: "('w screen \<Rightarrow> 'w screen) \<Rightarrow> 'w screen_step" where
  "on_screen f s = (Inr (), f s)"

section \<open>Menus\<close>

definition push_chat_entry :: "'w os \<Rightarrow> string \<Rightarrow> string \<Rightarrow> 'w screen \<Rightarrow> 'w screen" where
  "push_chat_entry os role line s =
     (case new_chat_entry os role line (log_chat_entry os role line (snd s)) of
        (e, h) \<Rightarrow> ((fst s)\<lparr>t_chat_entries := t_chat_entries (fst s) @ [e]\<rparr>, h))"

definition connector_label :: "connector_row \<Rightarrow> string" where
  "connector_label row = (if cw_enabled row then ''[on]  '' else ''[off] '') @ cw_id row @ ''  ('' @ cw_kind row @ '')  '' @ cw_live_status row"

definition rebuild_connector_entries :: "terminal \<Rightarrow> terminal" where
  "rebuild_connector_entries t =
     (let entries = map connector_label (t_connectors t);
          selected = (if t_selected_connector t \<ge> int (length entries)
                      then (if entries = [] then 0 else int (length entries) - 1) else t_selected_connector t)
      in t\<lparr>t_connector_entries := entries, t_selected_connector := (if selected < 0 then 0 else selected)\<rparr>)"

text \<open>The index of the first entry that is \<open>x\<close>.\<close>

fun index_of :: "'a \<Rightarrow> 'a list \<Rightarrow> nat option" where
  "index_of x [] = None"
| "index_of x (y # ys) = (if y = x then Some 0 else map_option Suc (index_of x ys))"

definition sync_model_menu_from_host :: "'w host \<Rightarrow> terminal \<Rightarrow> terminal" where
  "sync_model_menu_from_host h t =
     (let active = active_model_name h
      in if t_model_menu_known_model t = active then t
         else t\<lparr>t_model_menu_selected :=
                 (case index_of active (t_model_menu_entries t) of Some i \<Rightarrow> int i | None \<Rightarrow> t_model_menu_selected t),
               t_model_menu_known_model := active\<rparr>)"

definition sync_session_menu_from_host :: "terminal \<Rightarrow> terminal" where
  "sync_session_menu_from_host t =
     (case index_of (t_current_session_id t) (t_session_menu_entries t) of
        Some i \<Rightarrow> t\<lparr>t_session_menu_selected := int i\<rparr>
      | None \<Rightarrow> t)"

definition refresh_session_menu_now :: "'w screen \<Rightarrow> 'w screen" where
  "refresh_session_menu_now s =
     (sync_session_menu_from_host ((fst s)\<lparr>t_session_menu_entries :=
        parse_json_string_array (build_agent_sessions_json (snd s)) ''session_ids''\<rparr>), snd s)"

definition picked_entry :: "int \<Rightarrow> 'a list \<Rightarrow> 'a option" where
  "picked_entry i xs = (if i < 0 \<or> i \<ge> int (length xs) then None else Some (xs ! nat i))"

definition apply_model_menu_selection :: "'w os \<Rightarrow> 'w screen_step" where
  "apply_model_menu_selection os s =
     (case picked_entry (t_model_menu_selected (fst s)) (t_model_menu_entries (fst s)) of
        None \<Rightarrow> (Inr (), s)
      | Some picked \<Rightarrow>
          if picked = t_model_menu_known_model (fst s) then (Inr (), s)
          else
            (case update_ollama_config os (json_object [json_string_field ''model'' picked]) (snd s) of
               (Inl e, h) \<Rightarrow> (Inl e, (fst s, h))
             | (Inr _, h) \<Rightarrow>
                 (Inr (), push_chat_entry os ''info'' (''Switched to model '' @ [CHR 0x27] @ picked @ [CHR 0x27] @ ''.'')
                    ((fst s)\<lparr>t_model_menu_known_model := picked\<rparr>, h))))"

definition apply_session_menu_selection :: "'w os \<Rightarrow> 'w screen \<Rightarrow> 'w screen" where
  "apply_session_menu_selection os s =
     (let t = (fst s)\<lparr>t_session_dropdown_user_picked := False\<rparr>
      in if \<not> t_session_dropdown_user_picked (fst s) then s
         else
           (case picked_entry (t_session_menu_selected t) (t_session_menu_entries t) of
              None \<Rightarrow> (t, snd s)
            | Some picked \<Rightarrow>
                if picked = t_current_session_id t then (t, snd s)
                else
                  (case parse_agent_history_for_resume os (build_agent_history_json picked (snd s)) (snd s) of (resumed, h) \<Rightarrow>
                     (case (if resumed = [] then
                              push_chat_entry os ''info'' (''Session '' @ [CHR 0x27] @ picked @ [CHR 0x27] @ '' has no messages yet.'')
                                (t\<lparr>t_chat_entries := []\<rparr>, h)
                            else (t\<lparr>t_chat_entries := resumed\<rparr>, h)) of
                        (t1, h1) \<Rightarrow> (t1\<lparr>t_current_session_id := picked\<rparr>, write_last_session_id os picked h1)))))"

end
