(* ===== verification/Terminal_Worker.thy ===== *)
theory Terminal_Worker imports Complex_Main Terminal_State begin

text \<open>
  The chat worker and the poller of the terminal interface (\<open>cli/tui.cpp\<close>): the background threads
  that call the host. A chat turn first leads through the Ollama setup; an exception becomes an
  error line. The text of an exception (\<open>what()\<close>) is an argument.
\<close>

section \<open>A running job\<close>

record 'w chat_run =
  ru_results :: "chat_entry list"
  ru_work :: chat_work
  ru_host :: "'w host"

type_synonym 'w run_step = "'w chat_run \<Rightarrow> (cpp_exception + unit) \<times> 'w chat_run"

definition say :: "'w os \<Rightarrow> string \<Rightarrow> string \<Rightarrow> 'w run_step" where
  "say os role line r =
     (case new_chat_entry os role line (ru_host r) of (e, h) \<Rightarrow> (Inr (), r\<lparr>ru_results := ru_results r @ [e], ru_host := h\<rparr>))"

definition on_host :: "('w host \<Rightarrow> (cpp_exception + 'a) \<times> 'w host) \<Rightarrow> 'w chat_run \<Rightarrow> (cpp_exception + 'a) \<times> 'w chat_run" where
  "on_host m r = (case m (ru_host r) of (a, h) \<Rightarrow> (a, r\<lparr>ru_host := h\<rparr>))"

definition total :: "('s \<Rightarrow> 'a \<times> 's) \<Rightarrow> 's \<Rightarrow> (cpp_exception + 'a) \<times> 's" where
  "total f s = (case f s of (a, s1) \<Rightarrow> (Inr a, s1))"

definition ingest_agent_response :: "'w os \<Rightarrow> string \<Rightarrow> 'w run_step" where
  "ingest_agent_response os response_json r =
     (let a = parse_agent_turn_response response_json; w = ru_work r
      in case new_chat_entries os (map (\<lambda>(role, line). (role, line, None)) (an_lines a)) (ru_host r) of (entries, h) \<Rightarrow>
           (Inr (), r\<lparr>ru_results := ru_results r @ entries, ru_host := h,
              ru_work := w\<lparr>wo_session_id := (if an_session_id a \<noteq> [] then an_session_id a else wo_session_id w),
                wo_pending_call := (case an_pending a of Some p \<Rightarrow> Some p | None \<Rightarrow> wo_pending_call w)\<rparr>\<rparr>))"

section \<open>Threads\<close>

text \<open>What \<open>core::spawn\<close> reports of a thread: its start, and its end unless it threw.\<close>

definition thread_spawned :: "'w os \<Rightarrow> string \<Rightarrow> 'w host \<Rightarrow> 'w host" where
  "thread_spawned os thread_name = log_thread_event os thread_name ''spawned''"

definition thread_joined :: "'w os \<Rightarrow> string \<Rightarrow> 'w host \<Rightarrow> 'w host" where
  "thread_joined os thread_name = log_thread_event os thread_name ''joined''"

section \<open>The setup dialogue\<close>

definition in_quotes :: "string \<Rightarrow> string" where
  "in_quotes s = [CHR 0x27] @ s @ [CHR 0x27]"

definition install_turn :: "'w os \<Rightarrow> 'w run_step" where
  "install_turn os =
     bindE (say os ''info'' ''Installing Ollama, this can take a few minutes...'')
       (\<lambda>_. bindE (on_host (total (install_ollama os)))
          (\<lambda>result_json.
             if bool_or False result_json ''ok'' then
               say os ''info'' (''Ollama installed. Type a message to continue - you'' @ [CHR 0x27] @ ''ll be asked to start it next.'')
             else
               (let err = extract_json_string_field result_json ''error'' 0
                in say os ''error'' (''Ollama install failed: ''
                     @ (if err = [] then extract_json_string_field result_json ''stderr'' 0 else err)))))"

definition start_turn :: "'w os \<Rightarrow> 'w run_step" where
  "start_turn os =
     bindE (say os ''info'' ''Starting Ollama...'')
       (\<lambda>_. bindE (on_host (total (start_ollama os)))
          (\<lambda>result_json.
             if bool_or False result_json ''ok'' \<and> bool_or False result_json ''online'' then
               say os ''info'' ''Ollama is running. Type a message to continue.''
             else if bool_or False result_json ''ok'' then
               say os ''error'' (''Ollama process started but is not yet reachable at its configured URL. '' @ ''Try again in a moment.'')
             else say os ''error'' (''Failed to start Ollama: '' @ extract_json_string_field result_json ''error'' 0)))"

fun listed_models :: "string list \<Rightarrow> string" where
  "listed_models [] = []"
| "listed_models [m] = m"
| "listed_models (m # n # ms) = m @ '', '' @ listed_models (n # ms)"

definition pull_turn :: "'w os \<Rightarrow> string \<Rightarrow> 'w run_step" where
  "pull_turn os model_to_pull =
     bindE (say os ''info'' (''Downloading model '' @ in_quotes model_to_pull @ '', this can take a while...''))
       (\<lambda>_. bindE (on_host (pull_ollama_model os (json_object [json_string_field ''model'' model_to_pull])))
          (\<lambda>result_json.
             if bool_or False result_json ''ok'' then
               say os ''info'' (''Model '' @ in_quotes model_to_pull @ '' downloaded and set as the active model. ''
                 @ ''Type a message to start chatting.'')
             else
               say os ''error'' (''Failed to pull model '' @ in_quotes model_to_pull @ '': ''
                 @ extract_json_string_field result_json ''error'' 0)))"

definition model_turn :: "'w os \<Rightarrow> ollama_setup_status \<Rightarrow> string \<Rightarrow> 'w run_step" where
  "model_turn os status trimmed_message =
     (let lower_message = to_lower_ascii trimmed_message;
          prompt = say os ''info'' (describe_setup_prompt NeedsModel status);
          has_pull_prefix = starts_with lower_message ''pull '';
          model_to_pull = (if has_pull_prefix then trim (drop 5 trimmed_message) else trimmed_message)
      in if lower_message = ''list'' then
           say os ''info'' (''Pulled models: '' @ (if listed_models (os_models status) = [] then ''(none)'' else listed_models (os_models status)))
         else if lower_message = ''install'' \<or> lower_message = ''install ollama'' \<or> lower_message = ''start''
             \<or> lower_message = ''start ollama'' then prompt
         else
           bindE (\<lambda>r. (if has_pull_prefix then Inr None else try_resolve_model_selection trimmed_message status, r))
             (\<lambda>selected. case selected of
                Some model \<Rightarrow>
                  bindE (on_host (update_ollama_config os (json_object [json_string_field ''model'' model])))
                    (\<lambda>_. say os ''info'' (''Using model '' @ in_quotes model @ ''. Type a message to start chatting.''))
              | None \<Rightarrow> if model_to_pull = [] then prompt else pull_turn os model_to_pull))"

section \<open>The jobs\<close>

definition chat_request :: "string \<Rightarrow> bool \<Rightarrow> string \<Rightarrow> string" where
  "chat_request message start_new_session session_id = json_object
     ([json_string_field ''message'' message]
      @ (if start_new_session then [json_bool_field ''clear'' True]
         else if session_id \<noteq> [] then [json_string_field ''session_id'' session_id] else []))"

definition decision_request :: "bool \<Rightarrow> string \<Rightarrow> string \<Rightarrow> string" where
  "decision_request approved reason session_id = json_object
     ([json_bool_field ''approved'' approved]
      @ (if reason \<noteq> [] then [json_string_field ''reason'' reason] else [])
      @ (if session_id \<noteq> [] then [json_string_field ''session_id'' session_id] else []))"

text \<open>\<open>session_id\<close> is what \<open>current_session_id\<close> holds when the request is built.\<close>

definition run_chat_turn :: "'w os \<Rightarrow> string \<Rightarrow> bool \<Rightarrow> string \<Rightarrow> 'w run_step" where
  "run_chat_turn os message start_new_session session_id =
     bindE (on_host (total (ollama_setup_status_json os)))
       (\<lambda>json.
          (let trimmed_message = trim message; lower_message = to_lower_ascii trimmed_message;
               status = parse_ollama_setup_status json
           in case compute_setup_state status of
                NeedsInstall \<Rightarrow>
                  if lower_message = ''install ollama'' \<or> lower_message = ''install'' then install_turn os
                  else say os ''info'' (describe_setup_prompt NeedsInstall status)
              | NeedsStart \<Rightarrow>
                  if lower_message = ''start ollama'' \<or> lower_message = ''start'' then start_turn os
                  else say os ''info'' (describe_setup_prompt NeedsStart status)
              | NeedsModel \<Rightarrow> model_turn os status trimmed_message
              | Ready \<Rightarrow>
                  bindE (on_host (agent_turn os (chat_request message start_new_session session_id)))
                    (ingest_agent_response os)))"

definition run_tool_decision :: "'w os \<Rightarrow> bool \<Rightarrow> string \<Rightarrow> string \<Rightarrow> 'w run_step" where
  "run_tool_decision os approved reason session_id =
     bindE (on_host (agent_tool_decision os (decision_request approved reason session_id))) (ingest_agent_response os)"

definition run_job :: "'w os \<Rightarrow> chat_job \<Rightarrow> string \<Rightarrow> 'w run_step" where
  "run_job os job session_id =
     (case job of
        Chat_Turn message start_new_session \<Rightarrow> run_chat_turn os message start_new_session session_id
      | Tool_Decision approved reason decision_session_id \<Rightarrow> run_tool_decision os approved reason decision_session_id)"

text \<open>The \<open>catch\<close> clauses; undefined behaviour is no exception.\<close>

definition caught :: "'w os \<Rightarrow> (cpp_exception \<Rightarrow> string) \<Rightarrow> 'w run_step \<Rightarrow> 'w run_step" where
  "caught os what m r =
     (case m r of
        (Inr _, r1) \<Rightarrow> (Inr (), r1)
      | (Inl UndefinedBehaviour, r1) \<Rightarrow> (Inl UndefinedBehaviour, r1)
      | (Inl e, r1) \<Rightarrow> say os ''error'' (''internal error: '' @ what e) r1)"

text \<open>The worker runs its job, and later hands its results over and says so.\<close>

definition worker_runs :: "'w os \<Rightarrow> (cpp_exception \<Rightarrow> string) \<Rightarrow> 'w screen_step" where
  "worker_runs os what s =
     (let t = fst s
      in case t_worker t of
           Running job \<Rightarrow>
             (case caught os what (run_job os job (t_current_session_id t))
                     \<lparr>ru_results = [], ru_work = t_chat_work t, ru_host = snd s\<rparr> of
                (Inl e, r) \<Rightarrow> (Inl e, (t, ru_host r))
              | (Inr _, r) \<Rightarrow> (Inr (), (t\<lparr>t_worker := Computed (ru_results r), t_chat_work := ru_work r\<rparr>, ru_host r)))
         | _ \<Rightarrow> (Inr (), s))"

definition worker_hands_over :: "terminal \<Rightarrow> terminal" where
  "worker_hands_over t =
     (case t_worker t of
        Computed results \<Rightarrow>
          t\<lparr>t_worker := No_Job, t_chat_work := (t_chat_work t)\<lparr>wo_pending_entries := wo_pending_entries (t_chat_work t) @ results,
            wo_clear_in_flight := True\<rparr>\<rparr>
      | _ \<Rightarrow> t)"

text \<open>With that the thread is at its end.\<close>

definition worker_ends :: "'w os \<Rightarrow> 'w screen \<Rightarrow> 'w screen" where
  "worker_ends os s =
     (case t_worker (fst s) of
        Computed results \<Rightarrow> (worker_hands_over (fst s), thread_joined os ''tui.chat_worker'' (snd s))
      | _ \<Rightarrow> s)"

section \<open>The poller\<close>

fun with_live_status :: "'w os \<Rightarrow> connector_row list \<Rightarrow> 'w host \<Rightarrow> connector_row list \<times> 'w host" where
  "with_live_status os [] h = ([], h)"
| "with_live_status os (row # rows) h =
     (case connector_status_json os (cw_id row) h of (status_json, h1) \<Rightarrow>
        apfst ((#) (row\<lparr>cw_live_status := summarize_status (cw_kind row) status_json\<rparr>)) (with_live_status os rows h1))"

text \<open>One round; an exception leaves the polled state as it was.\<close>

definition poll_round :: "'w os \<Rightarrow> 'w screen \<Rightarrow> 'w screen" where
  "poll_round os s =
     (case with_live_status os (parse_connectors (list_connectors_json (snd s))) (snd s) of (next_connectors, h1) \<Rightarrow>
        (case parse_tasks (list_tasks_json h1) of
           Inl _ \<Rightarrow> (fst s, h1)
         | Inr next_tasks \<Rightarrow>
             (let next_log = parse_log_lines (build_app_log_json h1);
                  next_locations = parse_locations (list_known_locations_json h1)
              in case build_ollama_status_json os h1 of (ollama_json, h2) \<Rightarrow>
                   ((fst s)\<lparr>t_polled := \<lparr>po_connectors = next_connectors, po_tasks = next_tasks, po_log_lines = next_log,
                      po_locations = next_locations, po_ollama_models = parse_json_string_array ollama_json ''models'',
                      po_agent_session_ids = parse_json_string_array (build_agent_sessions_json h2) ''session_ids''\<rparr>\<rparr>, h2))))"

end
