(* ===== verification/Terminal_Events.thy ===== *)
theory Terminal_Events imports Complex_Main Terminal_Worker begin

text \<open>
  The event handlers of the terminal interface (\<open>cli/tui.cpp\<close>), its start and its steps: an event of the
  user, a frame, a poll, or a step of the chat worker, in any order.
\<close>

section \<open>The chat input\<close>

definition record_chat_history :: "string \<Rightarrow> terminal \<Rightarrow> terminal" where
  "record_chat_history message t =
     (if message = [] then t
      else if t_chat_history t \<noteq> [] \<and> last (t_chat_history t) = message then t
      else t\<lparr>t_chat_history := t_chat_history t @ [message], t_chat_history_cursor := -1, t_chat_history_draft := []\<rparr>)"

text \<open>Show a text in the input, with the cursor behind it.\<close>

definition show_input :: "string \<Rightarrow> terminal \<Rightarrow> terminal" where
  "show_input line t = t\<lparr>t_chat_input_text := line, t_chat_input_cursor := int (length line)\<rparr>"

definition arrow_up :: "terminal \<Rightarrow> terminal" where
  "arrow_up t =
     (if t_chat_history t = [] then t
      else
        (let t1 = (if t_chat_history_cursor t = -1 then
                     t\<lparr>t_chat_history_draft := t_chat_input_text t, t_chat_history_cursor := int (length (t_chat_history t)) - 1\<rparr>
                   else if t_chat_history_cursor t > 0 then t\<lparr>t_chat_history_cursor := t_chat_history_cursor t - 1\<rparr>
                   else t)
         in show_input (t_chat_history t1 ! nat (t_chat_history_cursor t1)) t1))"

definition arrow_down :: "terminal \<Rightarrow> terminal" where
  "arrow_down t =
     (if t_chat_history_cursor t = -1 then t
      else
        (let cursor = t_chat_history_cursor t + 1
         in if cursor \<ge> int (length (t_chat_history t)) then
              show_input (t_chat_history_draft t) (t\<lparr>t_chat_history_cursor := -1\<rparr>)
            else show_input (t_chat_history t ! nat cursor) (t\<lparr>t_chat_history_cursor := cursor\<rparr>)))"

text \<open>The reply to an approval prompt: approved or not, and the reason that is passed on.\<close>

definition approves_reply :: "string \<Rightarrow> bool" where
  "approves_reply reply \<longleftrightarrow> to_lower_ascii reply = ''yes'' \<or> to_lower_ascii reply = ''y''"

definition decline_reason :: "string \<Rightarrow> string" where
  "decline_reason reply =
     (if approves_reply reply \<or> to_lower_ascii reply = ''no'' \<or> to_lower_ascii reply = ''n'' \<or> to_lower_ascii reply = ''cancel''
      then [] else reply)"

definition return_on_prompt :: "'w os \<Rightarrow> 'w screen \<Rightarrow> 'w screen" where
  "return_on_prompt os s =
     (let reply = trim (t_chat_input_text (fst s));
          s1 = ((fst s)\<lparr>t_chat_input_text := []\<rparr>, snd s);
          s2 = (if reply \<noteq> [] then push_chat_entry os ''user'' reply s1 else s1);
          session = pa_session_id (t_pending_tool_approval (fst s2));
          s3 = push_chat_entry os ''info'' (if approves_reply reply then ''Approved. Running...'' else ''Declined.'') s2
      in ((fst s3)\<lparr>t_agent_turn_in_flight := True, t_pending_tool_approval := no_approval,
            t_worker := Running (Tool_Decision (approves_reply reply) (decline_reason reply) session)\<rparr>,
          thread_spawned os ''tui.chat_worker'' (snd s3)))"

text \<open>An empty line is sent only while a model is to be picked.\<close>

definition return_on_message :: "'w os \<Rightarrow> 'w screen \<Rightarrow> 'w screen" where
  "return_on_message os s =
     (let message = t_chat_input_text (fst s)
      in case (if message = [] then
                 (case ollama_setup_status_json os (snd s) of (json, h) \<Rightarrow>
                    (compute_setup_state (parse_ollama_setup_status json) = NeedsModel, h))
               else (True, snd s)) of
           (sent, h) \<Rightarrow>
             (if \<not> sent then (fst s, h)
              else
                (let t = (fst s)\<lparr>t_chat_input_text := []\<rparr>
                 in case (if message \<noteq> [] then
                            (case new_chat_entry os ''user'' message h of (e, h1) \<Rightarrow>
                               (record_chat_history message (t\<lparr>t_chat_entries := t_chat_entries t @ [e]\<rparr>), h1))
                          else (t, h)) of
                      (t1, h1) \<Rightarrow>
                        (t1\<lparr>t_agent_turn_in_flight := True, t_pending_new_session := False,
                           t_worker := Running (Chat_Turn message (t_pending_new_session t1))\<rparr>,
                         thread_spawned os ''tui.chat_worker'' h1))))"

definition on_return :: "'w os \<Rightarrow> 'w screen \<Rightarrow> 'w screen" where
  "on_return os s =
     (if t_agent_turn_in_flight (fst s) then s
      else if pa_active (t_pending_tool_approval (fst s)) then return_on_prompt os s
      else return_on_message os s)"

section \<open>The drain\<close>

text \<open>\<open>Event::Custom\<close>: what the poller and the worker have left is taken over.\<close>

definition take_polled :: "terminal \<Rightarrow> terminal" where
  "take_polled t =
     (let p = t_polled t
      in t\<lparr>t_connectors := po_connectors p, t_tasks := po_tasks p, t_log_lines := po_log_lines p,
           t_locations := po_locations p, t_model_menu_entries := po_ollama_models p,
           t_session_menu_entries := po_agent_session_ids p\<rparr>)"

definition take_session :: "'w os \<Rightarrow> 'w screen \<Rightarrow> 'w screen" where
  "take_session os s =
     (let t = fst s; reported = wo_session_id (t_chat_work t)
      in if reported \<noteq> [] \<and> reported \<noteq> t_current_session_id t then
           refresh_session_menu_now
             (t\<lparr>t_current_session_id := reported, t_chat_work := (t_chat_work t)\<lparr>wo_session_id := []\<rparr>\<rparr>,
              write_last_session_id os reported (snd s))
         else s)"

definition take_proposal :: "terminal \<Rightarrow> terminal" where
  "take_proposal t =
     (case wo_pending_call (t_chat_work t) of
        None \<Rightarrow> t
      | Some (name, arguments) \<Rightarrow>
          t\<lparr>t_pending_tool_approval := \<lparr>pa_active = True, pa_session_id = t_current_session_id t, pa_tool = name,
              pa_arguments_json = arguments\<rparr>,
            t_chat_work := (t_chat_work t)\<lparr>wo_pending_call := None\<rparr>\<rparr>)"

definition take_clear :: "terminal \<Rightarrow> terminal" where
  "take_clear t =
     (if wo_clear_in_flight (t_chat_work t)
      then t\<lparr>t_agent_turn_in_flight := False, t_chat_work := (t_chat_work t)\<lparr>wo_clear_in_flight := False\<rparr>\<rparr>
      else t)"

definition take_entries :: "terminal \<Rightarrow> terminal" where
  "take_entries t = t\<lparr>t_chat_entries := t_chat_entries t @ wo_pending_entries (t_chat_work t),
     t_chat_work := (t_chat_work t)\<lparr>wo_pending_entries := []\<rparr>\<rparr>"

definition on_custom :: "'w os \<Rightarrow> 'w screen \<Rightarrow> 'w screen" where
  "on_custom os s =
     (let t = sync_session_menu_from_host (sync_model_menu_from_host (snd s) (rebuild_connector_entries (take_polled (fst s))));
          s1 = take_session os (take_entries t, snd s)
      in (take_clear (take_proposal (fst s1)), snd s1))"

section \<open>Keys\<close>

definition on_connector_key :: "'w os \<Rightarrow> char \<Rightarrow> 'w screen \<Rightarrow> 'w screen" where
  "on_connector_key os key s =
     (case picked_entry (t_selected_connector (fst s)) (t_connectors (fst s)) of
        None \<Rightarrow> s
      | Some row \<Rightarrow>
          (fst s, snd ((if key = CHR ''l'' then launch_connector else stop_connector) os (cw_id row) (snd s))))"

definition copy_chat :: "'w os \<Rightarrow> 'w screen \<Rightarrow> 'w screen" where
  "copy_chat os s =
     (let transcript = format_chat_transcript (t_chat_entries (fst s))
      in if transcript = [] then push_chat_entry os ''info'' ''Nothing to copy yet.'' s
         else
           (case sense (os_clipboard_write os transcript) (snd s) of (result, h) \<Rightarrow>
              (if cw_ok result then push_chat_entry os ''info'' ''Copied the chat transcript to the clipboard.'' (fst s, h)
               else push_chat_entry os ''error'' ''Could not copy to the clipboard.'' (fst s, h))))"

definition start_new_session :: "'w os \<Rightarrow> 'w screen \<Rightarrow> 'w screen" where
  "start_new_session os s = push_chat_entry os ''info'' ''Starting a new session on your next message.''
     ((fst s)\<lparr>t_pending_new_session := True, t_current_session_id := [], t_chat_entries := [],
        t_session_menu_selected := -1\<rparr>, snd s)"

definition ask_erase :: "'w os \<Rightarrow> 'w screen \<Rightarrow> 'w screen" where
  "ask_erase os s =
     (if t_current_session_id (fst s) = [] then push_chat_entry os ''info'' ''No active session to erase yet.'' s
      else ((fst s)\<lparr>t_delete_confirm_session_id := t_current_session_id (fst s), t_show_delete_confirm := True\<rparr>, snd s))"

definition confirm_erase :: "'w os \<Rightarrow> 'w screen \<Rightarrow> 'w screen" where
  "confirm_erase os s =
     (let erased = t_delete_confirm_session_id (fst s)
      in case delete_agent_session_json os (json_object [json_string_field ''session_id'' erased]) (snd s) of (result, h) \<Rightarrow>
           (if bool_or False result ''ok'' then
              push_chat_entry os ''info'' (''Erased session '' @ in_quotes erased @ ''.'')
                (refresh_session_menu_now
                  (if erased = t_current_session_id (fst s)
                   then (fst s)\<lparr>t_current_session_id := extract_json_string_field result ''new_session_id'' 0, t_chat_entries := []\<rparr>
                   else fst s, h))
            else push_chat_entry os ''error'' (''Could not erase session '' @ in_quotes erased @ ''.'') (fst s, h)))"

section \<open>Events\<close>

text \<open>
  \<open>Typed\<close> and the \<open>Menu\<close> events are what FTXUI's widgets have written. \<open>Key\<close> is a letter, \<open>Yes_Button\<close>
  and \<open>No_Button\<close> are the buttons of the popup.
\<close>

datatype event = Custom | Frame | Ctrl_C | Tab_Key | Escape_Key | Return_Key | Arrow_Up | Arrow_Down | Key char
  | Yes_Button | No_Button | Typed string int | Connector_Menu int | Model_Menu int | Session_Menu int

definition quit :: "terminal \<Rightarrow> terminal" where
  "quit t = t\<lparr>t_running := False\<rparr>"

definition close_popup :: "terminal \<Rightarrow> terminal" where
  "close_popup t = t\<lparr>t_show_delete_confirm := False\<rparr>"

text \<open>The popup, while it is shown, receives every event.\<close>

definition on_popup :: "'w os \<Rightarrow> event \<Rightarrow> 'w screen \<Rightarrow> 'w screen" where
  "on_popup os e s =
     (if e = Key (CHR ''y'') \<or> e = Yes_Button then apfst close_popup (confirm_erase os s)
      else if e = Key (CHR ''n'') \<or> e = Escape_Key \<or> e = No_Button then apfst close_popup s
      else s)"

definition on_key :: "'w os \<Rightarrow> char \<Rightarrow> 'w screen \<Rightarrow> 'w screen" where
  "on_key os key s =
     (if t_chat_focused (fst s) then s
      else if key = CHR ''q'' then apfst quit s
      else if key = CHR ''l'' \<or> key = CHR ''s'' then on_connector_key os key s
      else if key = CHR ''y'' then copy_chat os s
      else if key = CHR ''n'' then start_new_session os s
      else if key = CHR ''e'' then ask_erase os s
      else s)"

definition on_input_key :: "'w os \<Rightarrow> event \<Rightarrow> 'w screen \<Rightarrow> 'w screen" where
  "on_input_key os e s =
     (if \<not> t_chat_focused (fst s) then s
      else if e = Arrow_Up then apfst arrow_up s
      else if e = Arrow_Down then apfst arrow_down s
      else if e = Return_Key then on_return os s
      else s)"

definition on_main :: "'w os \<Rightarrow> event \<Rightarrow> 'w screen \<Rightarrow> 'w screen" where
  "on_main os e s =
     (case e of
        Custom \<Rightarrow> on_custom os s
      | Ctrl_C \<Rightarrow> apfst quit s
      | Tab_Key \<Rightarrow> apfst (\<lambda>t. t\<lparr>t_chat_focused := \<not> t_chat_focused t\<rparr>) s
      | Escape_Key \<Rightarrow> apfst (\<lambda>t. t\<lparr>t_chat_focused := False\<rparr>) s
      | Key key \<Rightarrow> on_key os key s
      | Typed line cursor \<Rightarrow>
          if t_chat_focused (fst s) then apfst (\<lambda>t. t\<lparr>t_chat_input_text := line, t_chat_input_cursor := cursor\<rparr>) s else s
      | Connector_Menu i \<Rightarrow> apfst (\<lambda>t. t\<lparr>t_selected_connector := i\<rparr>) s
      | Model_Menu i \<Rightarrow> apfst (\<lambda>t. t\<lparr>t_model_menu_selected := i\<rparr>) s
      | Session_Menu i \<Rightarrow> apfst (\<lambda>t. t\<lparr>t_session_menu_selected := i, t_session_dropdown_user_picked := True\<rparr>) s
      | _ \<Rightarrow> on_input_key os e s)"

text \<open>Drawing a frame applies what was picked in the menus; its exception leaves the event loop.\<close>

definition on_event :: "'w os \<Rightarrow> event \<Rightarrow> 'w screen_step" where
  "on_event os e s =
     (if e = Frame then bindE (apply_model_menu_selection os) (\<lambda>_ s1. (Inr (), apply_session_menu_selection os s1)) s
      else (Inr (), if t_show_delete_confirm (fst s) then on_popup os e s else on_main os e s))"

datatype terminal_step = User event | Poll | Worker_Runs | Worker_Hands_Over

definition terminal_does :: "'w os \<Rightarrow> (cpp_exception \<Rightarrow> string) \<Rightarrow> terminal_step \<Rightarrow> 'w screen_step" where
  "terminal_does os what step s =
     (case step of
        User e \<Rightarrow> on_event os e s
      | Poll \<Rightarrow> (Inr (), poll_round os s)
      | Worker_Runs \<Rightarrow> worker_runs os what s
      | Worker_Hands_Over \<Rightarrow> (Inr (), worker_ends os s))"

fun terminal_run :: "'w os \<Rightarrow> (cpp_exception \<Rightarrow> string) \<Rightarrow> terminal_step list \<Rightarrow> 'w screen_step" where
  "terminal_run os what [] s = (Inr (), s)"
| "terminal_run os what (step # steps) s = bindE (terminal_does os what step) (\<lambda>_. terminal_run os what steps) s"

section \<open>The start\<close>

definition resume_last_session :: "'w os \<Rightarrow> 'w screen \<Rightarrow> 'w screen" where
  "resume_last_session os s =
     (let last_session_id = read_last_session_id os (snd s)
      in if last_session_id = [] then s
         else
           (case parse_agent_history_for_resume os (build_agent_history_json last_session_id (snd s)) (snd s) of (resumed, h) \<Rightarrow>
              (if resumed = [] then (fst s, h)
               else ((fst s)\<lparr>t_current_session_id := last_session_id, t_chat_entries := t_chat_entries (fst s) @ resumed\<rparr>, h))))"

definition prompt_for_setup :: "'w os \<Rightarrow> 'w screen \<Rightarrow> 'w screen" where
  "prompt_for_setup os s =
     (case ollama_setup_status_json os (snd s) of (json, h) \<Rightarrow>
        (let status = parse_ollama_setup_status json; prompt = describe_setup_prompt (compute_setup_state status) status
         in if prompt \<noteq> [] then push_chat_entry os ''info'' prompt (fst s, h) else (fst s, h)))"

definition start_terminal :: "'w os \<Rightarrow> string \<Rightarrow> 'w host \<Rightarrow> 'w screen" where
  "start_terminal os version h =
     apsnd (thread_spawned os ''tui.poller'') (apsnd (thread_spawned os ''tui.spinner_ticker'')
       (prompt_for_setup os (resume_last_session os
         (push_chat_entry os ''info''
            (''Welcome to droidcli '' @ version @ ''. Type a message below and press Enter to chat.'') (blank_terminal, h)))))"

end
