(* ===== verification/Terminal_Laws.thy ===== *)
theory Terminal_Laws imports Complex_Main Terminal_Events Agent_History begin

text \<open>
  What holds of the terminal interface whatever the order of its events, polls and worker steps:
  at most one call of the agent is in flight and none is lost, the input is unlocked again, and the
  message history behaves like a shell's.
\<close>

section \<open>Reachable terminals\<close>

text \<open>
  A turn is in flight exactly while the worker has a job or has handed over and not been heard, and never
  both; the history cursor is \<open>-1\<close> or an index.
\<close>

definition terminal_ok :: "terminal \<Rightarrow> bool" where
  "terminal_ok t \<longleftrightarrow>
     (t_worker t \<noteq> No_Job \<longrightarrow> t_agent_turn_in_flight t \<and> \<not> wo_clear_in_flight (t_chat_work t))
     \<and> (wo_clear_in_flight (t_chat_work t) \<longrightarrow> t_agent_turn_in_flight t)
     \<and> (t_agent_turn_in_flight t \<longrightarrow> t_worker t \<noteq> No_Job \<or> wo_clear_in_flight (t_chat_work t))
     \<and> -1 \<le> t_chat_history_cursor t \<and> t_chat_history_cursor t < int (length (t_chat_history t))"

inductive reachable_terminal :: "'w os \<Rightarrow> (cpp_exception \<Rightarrow> string) \<Rightarrow> 'w screen \<Rightarrow> bool" for os what where
  started: "reachable_terminal os what (start_terminal os version h)"
| moved: "reachable_terminal os what s \<Longrightarrow> terminal_does os what step s = (Inr (), s') \<Longrightarrow> reachable_terminal os what s'"

text \<open>What the invariant looks at.\<close>

definition vital :: "terminal \<Rightarrow> worker \<times> bool \<times> bool \<times> int \<times> string list" where
  "vital t = (t_worker t, t_agent_turn_in_flight t, wo_clear_in_flight (t_chat_work t), t_chat_history_cursor t, t_chat_history t)"

lemma vital_ok: "vital t = vital u \<Longrightarrow> terminal_ok t = terminal_ok u"
  by (simp add: vital_def terminal_ok_def)

named_theorems vital_simps \<open>handlers that leave alone what the invariant looks at\<close>

lemma vital_push [vital_simps]: "vital (fst (push_chat_entry os role line s)) = vital (fst s)"
  by (simp add: push_chat_entry_def vital_def split: prod.split)

lemma vital_rebuild [vital_simps]: "vital (rebuild_connector_entries t) = vital t"
  by (simp add: rebuild_connector_entries_def vital_def Let_def)

lemma vital_model [vital_simps]: "vital (sync_model_menu_from_host h t) = vital t"
  by (simp add: sync_model_menu_from_host_def vital_def Let_def)

lemma vital_session [vital_simps]: "vital (sync_session_menu_from_host t) = vital t"
  by (simp add: sync_session_menu_from_host_def vital_def split: option.split)

lemma vital_refresh [vital_simps]: "vital (fst (refresh_session_menu_now s)) = vital (fst s)"
  by (simp add: refresh_session_menu_now_def vital_session) (simp add: vital_def)

lemma vital_take [vital_simps]:
  "vital (take_polled t) = vital t" "vital (take_entries t) = vital t" "vital (take_proposal t) = vital t"
  by (simp_all add: take_polled_def take_entries_def take_proposal_def vital_def Let_def split: option.split prod.split)

lemma vital_reported [vital_simps]: "vital (fst (take_session os s)) = vital (fst s)"
  by (simp add: take_session_def vital_refresh Let_def) (simp add: vital_def)

lemma vital_resume [vital_simps]: "vital (fst (apply_session_menu_selection os s)) = vital (fst s)"
proof -
  have "vital (t\<lparr>t_current_session_id := i\<rparr>) = vital t" "vital (t\<lparr>t_chat_entries := es\<rparr>) = vital t"
    "vital (t\<lparr>t_session_dropdown_user_picked := b\<rparr>) = vital t" for t i es b
    by (simp_all add: vital_def)
  then show ?thesis
    by (auto simp: apply_session_menu_selection_def Let_def case_prod_beta vital_push split: option.split)
qed

lemma vital_switch:
  "apply_model_menu_selection os s = (r, s') \<Longrightarrow> vital (fst s') = vital (fst s)"
proof -
  have "vital (t\<lparr>t_model_menu_known_model := i\<rparr>) = vital t" for t i by (simp add: vital_def)
  then show "apply_model_menu_selection os s = (r, s') \<Longrightarrow> vital (fst s') = vital (fst s)"
    by (auto simp: apply_model_menu_selection_def vital_push split: option.splits if_splits sum.splits prod.splits)
qed

lemma vital_keys [vital_simps]:
  "vital (fst (on_connector_key os k s)) = vital (fst s)" "vital (fst (copy_chat os s)) = vital (fst s)"
  "vital (fst (start_new_session os s)) = vital (fst s)" "vital (fst (ask_erase os s)) = vital (fst s)"
  "vital (fst (confirm_erase os s)) = vital (fst s)" "vital (quit t) = vital t" "vital (close_popup t) = vital t"
proof -
  have e: "vital (t\<lparr>t_pending_new_session := b, t_current_session_id := i, t_chat_entries := es, t_session_menu_selected := n\<rparr>) = vital t"
    "vital (t\<lparr>t_current_session_id := i, t_chat_entries := es\<rparr>) = vital t"
    "vital (t\<lparr>t_delete_confirm_session_id := i, t_show_delete_confirm := b\<rparr>) = vital t" for t i es b n
    by (simp_all add: vital_def)
  show "vital (fst (on_connector_key os k s)) = vital (fst s)"
    by (simp add: on_connector_key_def split: option.split)
  show "vital (fst (copy_chat os s)) = vital (fst s)"
    by (simp add: copy_chat_def vital_push Let_def case_prod_beta)
  show "vital (fst (start_new_session os s)) = vital (fst s)"
    by (simp add: start_new_session_def vital_push e)
  show "vital (fst (ask_erase os s)) = vital (fst s)"
    by (simp add: ask_erase_def vital_push e)
  show "vital (fst (confirm_erase os s)) = vital (fst s)"
    by (simp add: confirm_erase_def vital_push vital_refresh e Let_def case_prod_beta)
  show "vital (quit t) = vital t" "vital (close_popup t) = vital t"
    by (simp_all add: quit_def close_popup_def vital_def)
qed

lemma vital_poll [vital_simps]: "vital (fst (poll_round os s)) = vital (fst s)"
  by (simp add: poll_round_def vital_def Let_def case_prod_beta split: sum.split)

section \<open>The invariant\<close>

lemma ok_blank: "terminal_ok blank_terminal"
  by (simp add: terminal_ok_def blank_terminal_def empty_chat_work_def)

lemma ok_start: "terminal_ok (fst (start_terminal os version h))"
proof -
  have "vital (t\<lparr>t_current_session_id := i, t_chat_entries := es\<rparr>) = vital t" for t i es
    by (simp add: vital_def)
  then have "vital (fst (resume_last_session os s)) = vital (fst s)" "vital (fst (prompt_for_setup os s)) = vital (fst s)" for s :: "'a screen"
    by (simp_all add: resume_last_session_def prompt_for_setup_def Let_def case_prod_beta vital_push)
  then have "vital (fst (start_terminal os version h)) = vital blank_terminal"
    by (simp add: start_terminal_def vital_push)
  then show ?thesis
    using ok_blank vital_ok by blast
qed

lemma ok_history: "terminal_ok t \<Longrightarrow> terminal_ok (record_chat_history m t)"
  by (auto simp: terminal_ok_def record_chat_history_def)

lemma ok_arrows: "terminal_ok t \<Longrightarrow> terminal_ok (arrow_up t)" "terminal_ok t \<Longrightarrow> terminal_ok (arrow_down t)"
  by (auto simp: terminal_ok_def arrow_up_def arrow_down_def show_input_def Let_def)

lemma ok_hands_over: "terminal_ok t \<Longrightarrow> terminal_ok (worker_hands_over t)"
  by (auto simp: terminal_ok_def worker_hands_over_def split: worker.split)

lemma ok_ends: "terminal_ok (fst s) \<Longrightarrow> terminal_ok (fst (worker_ends os s))"
  by (simp add: worker_ends_def ok_hands_over split: worker.split)

lemma ok_clear: "terminal_ok t \<Longrightarrow> terminal_ok (take_clear t)"
  by (auto simp: terminal_ok_def take_clear_def)

lemma ok_custom: "terminal_ok (fst s) \<Longrightarrow> terminal_ok (fst (on_custom os s))"
proof -
  assume ok: "terminal_ok (fst s)"
  let ?u = "take_proposal (fst (take_session os (take_entries (sync_session_menu_from_host
          (sync_model_menu_from_host (snd s) (rebuild_connector_entries (take_polled (fst s))))), snd s)))"
  have u: "vital ?u = vital (fst s)"
    by (simp only: vital_simps fst_conv)
  have "terminal_ok ?u"
    unfolding vital_ok [OF u] by (rule ok)
  then show ?thesis
    unfolding on_custom_def Let_def fst_conv by (rule ok_clear)
qed

text \<open>A return starts a job where none is running.\<close>

lemma launched_ok:
  assumes "terminal_ok t" "\<not> t_agent_turn_in_flight t"
    "t_worker u = Running job" "t_agent_turn_in_flight u" "t_chat_work u = t_chat_work t"
    "-1 \<le> t_chat_history_cursor u" "t_chat_history_cursor u < int (length (t_chat_history u))"
  shows "terminal_ok u"
  using assms by (auto simp: terminal_ok_def)

lemma push_leaves:
  "t_chat_work (fst (push_chat_entry os role line s)) = t_chat_work (fst s)"
  "t_chat_history_cursor (fst (push_chat_entry os role line s)) = t_chat_history_cursor (fst s)"
  "t_chat_history (fst (push_chat_entry os role line s)) = t_chat_history (fst s)"
  "t_pending_tool_approval (fst (push_chat_entry os role line s)) = t_pending_tool_approval (fst s)"
  "t_current_session_id (fst (push_chat_entry os role line s)) = t_current_session_id (fst s)"
  "t_show_delete_confirm (fst (push_chat_entry os role line s)) = t_show_delete_confirm (fst s)"
  by (simp_all add: push_chat_entry_def split: prod.split)

text \<open>What a return on the prompt leaves behind: the decision for the prompt's session.\<close>

lemma return_on_prompt_terminal:
  fixes s :: "'w screen"
  defines "reply \<equiv> trim (t_chat_input_text (fst s))"
  obtains u where "fst (return_on_prompt os s) = u\<lparr>t_agent_turn_in_flight := True, t_pending_tool_approval := no_approval,
      t_worker := Running (Tool_Decision (approves_reply reply) (decline_reason reply)
        (pa_session_id (t_pending_tool_approval (fst s))))\<rparr>"
    "t_chat_work u = t_chat_work (fst s)" "t_chat_history_cursor u = t_chat_history_cursor (fst s)"
    "t_chat_history u = t_chat_history (fst s)" "t_current_session_id u = t_current_session_id (fst s)"
    "t_show_delete_confirm u = t_show_delete_confirm (fst s)"
proof -
  define s1 where "s1 = ((fst s)\<lparr>t_chat_input_text := []\<rparr>, snd s)"
  define s2 where "s2 = (if reply \<noteq> [] then push_chat_entry os ''user'' reply s1 else s1)"
  define s3 where "s3 = push_chat_entry os ''info'' (if approves_reply reply then ''Approved. Running...'' else ''Declined.'') s2"
  have e: "fst (return_on_prompt os s) = (fst s3)\<lparr>t_agent_turn_in_flight := True, t_pending_tool_approval := no_approval,
      t_worker := Running (Tool_Decision (approves_reply reply) (decline_reason reply) (pa_session_id (t_pending_tool_approval (fst s2))))\<rparr>"
    unfolding return_on_prompt_def Let_def s3_def s2_def s1_def reply_def fst_conv by (rule refl)
  have keeps: "t_chat_work (fst s2) = t_chat_work (fst s)" "t_chat_history_cursor (fst s2) = t_chat_history_cursor (fst s)"
    "t_chat_history (fst s2) = t_chat_history (fst s)" "t_pending_tool_approval (fst s2) = t_pending_tool_approval (fst s)"
    "t_current_session_id (fst s2) = t_current_session_id (fst s)" "t_show_delete_confirm (fst s2) = t_show_delete_confirm (fst s)"
    by (simp_all add: s2_def s1_def push_leaves)
  show ?thesis
    by (rule that [of "fst s3"]) (simp_all only: e keeps s3_def push_leaves)
qed

lemma ok_prompt:
  assumes "terminal_ok (fst s)" "\<not> t_agent_turn_in_flight (fst s)"
  shows "terminal_ok (fst (return_on_prompt os s))"
proof -
  obtain u reply where "fst (return_on_prompt os s) = u\<lparr>t_agent_turn_in_flight := True, t_pending_tool_approval := no_approval,
      t_worker := Running (Tool_Decision (approves_reply reply) (decline_reason reply)
        (pa_session_id (t_pending_tool_approval (fst s))))\<rparr>"
    and "t_chat_work u = t_chat_work (fst s)" "t_chat_history_cursor u = t_chat_history_cursor (fst s)"
    "t_chat_history u = t_chat_history (fst s)"
    by (rule return_on_prompt_terminal)
  then show ?thesis
    using assms by (simp add: terminal_ok_def)
qed

lemma ok_message:
  assumes "terminal_ok (fst s)" "\<not> t_agent_turn_in_flight (fst s)"
  shows "terminal_ok (fst (return_on_message os s))"
proof (cases "t_chat_input_text (fst s) = []")
  case True
  then show ?thesis
    using assms by (auto simp: return_on_message_def Let_def terminal_ok_def split: prod.split)
next
  case False
  define t where "t = record_chat_history (t_chat_input_text (fst s)) ((fst s)\<lparr>t_chat_input_text := [],
     t_chat_entries := t_chat_entries (fst s) @ [fst (new_chat_entry os ''user'' (t_chat_input_text (fst s)) (snd s))]\<rparr>)"
  have t: "terminal_ok t"
    unfolding t_def using assms by (intro ok_history) (simp add: terminal_ok_def)
  have "fst (return_on_message os s) = t\<lparr>t_agent_turn_in_flight := True, t_pending_new_session := False,
           t_worker := Running (Chat_Turn (t_chat_input_text (fst s)) (t_pending_new_session t))\<rparr>"
    using False by (simp add: return_on_message_def Let_def case_prod_beta t_def)
  moreover have "\<not> t_agent_turn_in_flight t"
    using assms by (simp add: t_def record_chat_history_def)
  ultimately show ?thesis
    using t by (auto simp: terminal_ok_def)
qed

lemma ok_return: "terminal_ok (fst s) \<Longrightarrow> terminal_ok (fst (on_return os s))"
  by (simp add: on_return_def ok_prompt ok_message)

text \<open>A job does not touch the flag of the hand-over.\<close>

definition keeps_clear :: "('w chat_run \<Rightarrow> (cpp_exception + 'a) \<times> 'w chat_run) \<Rightarrow> bool" where
  "keeps_clear m \<longleftrightarrow> (\<forall>r. wo_clear_in_flight (ru_work (snd (m r))) = wo_clear_in_flight (ru_work r))"

named_theorems clear_intros \<open>what keeps the flag of the hand-over\<close>

lemma clear_bind [clear_intros]: "keeps_clear m \<Longrightarrow> (\<And>x. keeps_clear (k x)) \<Longrightarrow> keeps_clear (bindE m k)"
  by (auto simp: keeps_clear_def bindE_def split: prod.split sum.split) (metis snd_conv)+

lemma clear_say [clear_intros]: "keeps_clear (say os role line)"
  by (simp add: keeps_clear_def say_def case_prod_beta)

lemma clear_host [clear_intros]: "keeps_clear (on_host m)"
  by (simp add: keeps_clear_def on_host_def case_prod_beta)

lemma clear_ingest [clear_intros]: "keeps_clear (ingest_agent_response os json)"
  by (simp add: keeps_clear_def ingest_agent_response_def Let_def case_prod_beta)

lemma clear_pure [clear_intros]: "keeps_clear (\<lambda>r. (x, r))"
  by (simp add: keeps_clear_def)

lemma clear_let [clear_intros]: "keeps_clear (f x) \<Longrightarrow> keeps_clear (let y = x in f y)"
  by simp

lemma clear_if [clear_intros]: "keeps_clear m \<Longrightarrow> keeps_clear n \<Longrightarrow> keeps_clear (if b then m else n)"
  by simp

lemma clear_option [clear_intros]: "keeps_clear m \<Longrightarrow> (\<And>x. keeps_clear (k x)) \<Longrightarrow> keeps_clear (case p of None \<Rightarrow> m | Some x \<Rightarrow> k x)"
  by (cases p) simp_all

lemma clear_state [clear_intros]:
  "keeps_clear a \<Longrightarrow> keeps_clear b \<Longrightarrow> keeps_clear c \<Longrightarrow> keeps_clear d
   \<Longrightarrow> keeps_clear (case x of NeedsInstall \<Rightarrow> a | NeedsStart \<Rightarrow> b | NeedsModel \<Rightarrow> c | Ready \<Rightarrow> d)"
  by (cases x) simp_all

lemma clear_job [clear_intros]: "keeps_clear (run_job os job session)"
proof -
  have "keeps_clear (install_turn os)" "keeps_clear (start_turn os)"
    unfolding install_turn_def start_turn_def by (intro clear_intros)+
  moreover have pull: "keeps_clear (pull_turn os m)" for m
    unfolding pull_turn_def by (intro clear_intros)
  moreover have "keeps_clear (model_turn os status m)" for status m
    unfolding model_turn_def by (intro clear_intros pull)
  ultimately have "keeps_clear (run_chat_turn os m new i)" for m new i
    unfolding run_chat_turn_def by (intro clear_intros)
  moreover have "keeps_clear (run_tool_decision os a why i)" for a why i
    unfolding run_tool_decision_def by (intro clear_intros)
  ultimately show ?thesis
    by (cases job) (simp_all add: run_job_def)
qed

lemma clear_caught: "keeps_clear m \<Longrightarrow> keeps_clear (caught os what m)"
  using clear_say [of os "''error''"]
  by (auto simp: keeps_clear_def caught_def split: prod.split sum.split cpp_exception.split) (metis snd_conv)+

lemma ok_run:
  assumes ok: "terminal_ok (fst s)" and runs: "worker_runs os what s = (r, s')"
  shows "terminal_ok (fst s')"
proof (cases "t_worker (fst s)")
  case (Running job)
  let ?r0 = "\<lparr>ru_results = [], ru_work = t_chat_work (fst s), ru_host = snd s\<rparr>"
  obtain a r1 where c: "caught os what (run_job os job (t_current_session_id (fst s))) ?r0 = (a, r1)"
    by fastforce
  have "wo_clear_in_flight (ru_work r1) = wo_clear_in_flight (t_chat_work (fst s))"
    using clear_caught [OF clear_job, of os what os job "t_current_session_id (fst s)"] c
    unfolding keeps_clear_def by (metis chat_run.select_convs(2) snd_conv)
  then show ?thesis
    using ok runs Running c by (cases a) (auto simp: worker_runs_def Let_def terminal_ok_def)
next
  case No_Job
  then show ?thesis
    using ok runs by (auto simp: worker_runs_def Let_def)
next
  case (Computed results)
  then show ?thesis
    using ok runs by (auto simp: worker_runs_def Let_def)
qed

lemma ok_same: "vital (fst s') = vital (fst s) \<Longrightarrow> terminal_ok (fst s) \<Longrightarrow> terminal_ok (fst s')"
  using vital_ok by blast

lemma ok_popup: "terminal_ok (fst s) \<Longrightarrow> terminal_ok (fst (on_popup os e s))"
  by (rule ok_same) (simp_all add: on_popup_def vital_simps)

lemma ok_key: "terminal_ok (fst s) \<Longrightarrow> terminal_ok (fst (on_key os k s))"
  by (rule ok_same) (simp_all add: on_key_def vital_simps)

lemma ok_input_key: "terminal_ok (fst s) \<Longrightarrow> terminal_ok (fst (on_input_key os e s))"
  by (simp add: on_input_key_def ok_arrows ok_return)

lemma ok_main: "terminal_ok (fst s) \<Longrightarrow> terminal_ok (fst (on_main os e s))"
proof -
  have "vital (quit t) = vital t" "vital (t\<lparr>t_chat_focused := b\<rparr>) = vital t"
    "vital (t\<lparr>t_chat_input_text := line, t_chat_input_cursor := c\<rparr>) = vital t"
    "vital (t\<lparr>t_selected_connector := i\<rparr>) = vital t" "vital (t\<lparr>t_model_menu_selected := i\<rparr>) = vital t"
    "vital (t\<lparr>t_session_menu_selected := i, t_session_dropdown_user_picked := b\<rparr>) = vital t" for t b line c i
    by (simp_all add: vital_def quit_def)
  note ok = this [THEN vital_ok]
  show "terminal_ok (fst s) \<Longrightarrow> terminal_ok (fst (on_main os e s))"
    by (simp add: on_main_def ok_custom ok_key ok_input_key ok split: event.split)
qed

lemma ok_frame:
  assumes "terminal_ok (fst s)" "bindE (apply_model_menu_selection os) (\<lambda>_ s1. (Inr (), apply_session_menu_selection os s1)) s = (r, s')"
  shows "terminal_ok (fst s')"
proof -
  obtain a s1 where a: "apply_model_menu_selection os s = (a, s1)" by (rule prod.exhaust)
  have "terminal_ok (fst s1)"
    using ok_same [OF vital_switch [OF a]] assms(1) by blast
  then show ?thesis
    using assms(2) ok_same [OF vital_resume [of os s1]] a by (cases a) (auto simp: bindE_def)
qed

lemma ok_event: "terminal_ok (fst s) \<Longrightarrow> on_event os e s = (r, s') \<Longrightarrow> terminal_ok (fst s')"
  by (auto simp: on_event_def ok_popup ok_main ok_frame split: if_splits)

lemma ok_step:
  assumes "terminal_ok (fst s)" "terminal_does os what step s = (r, s')"
  shows "terminal_ok (fst s')"
proof (cases step)
  case (User e)
  then show ?thesis
    using assms ok_event by (simp add: terminal_does_def)
next
  case Worker_Runs
  then show ?thesis
    using assms ok_run by (simp add: terminal_does_def)
qed (use assms ok_same [OF vital_poll [of os s]] in \<open>auto simp: terminal_does_def ok_ends\<close>)

lemma reachable_ok: "reachable_terminal os what s \<Longrightarrow> terminal_ok (fst s)"
  by (induction rule: reachable_terminal.induct) (auto intro: ok_start ok_step)

section \<open>One call at a time\<close>

text \<open>
  Whatever the order of events, polls and worker steps, the input is locked exactly while the worker
  has a job or its results wait to be taken over, never both, so that a new job never displaces one;
  and the cursor of the history is \<open>-1\<close> or an index.
\<close>

theorem one_agent_call_in_flight:
  assumes "reachable_terminal os what s"
  shows "t_agent_turn_in_flight (fst s) = (t_worker (fst s) \<noteq> No_Job \<or> wo_clear_in_flight (t_chat_work (fst s)))
    \<and> \<not> (t_worker (fst s) \<noteq> No_Job \<and> wo_clear_in_flight (t_chat_work (fst s)))
    \<and> -1 \<le> t_chat_history_cursor (fst s) \<and> t_chat_history_cursor (fst s) < int (length (t_chat_history (fst s)))"
  using reachable_ok [OF assms] by (auto simp: terminal_ok_def)

lemma worker_keeps_popup: "worker_runs os what s = (Inr (), s') \<Longrightarrow>
    t_show_delete_confirm (fst s') = t_show_delete_confirm (fst s) \<and> (t_worker (fst s) \<noteq> No_Job \<longrightarrow> (\<exists>rs. t_worker (fst s') = Computed rs))
    \<and> (t_worker (fst s) = No_Job \<longrightarrow> s' = s)"
  by (auto simp: worker_runs_def Let_def split: worker.splits prod.splits sum.splits)

lemma custom_unlocks: "wo_clear_in_flight (t_chat_work (fst s)) \<Longrightarrow>
    \<not> t_agent_turn_in_flight (fst (on_custom os s)) \<and> t_worker (fst (on_custom os s)) = t_worker (fst s)"
proof -
  let ?u = "take_proposal (fst (take_session os (take_entries (sync_session_menu_from_host
          (sync_model_menu_from_host (snd s) (rebuild_connector_entries (take_polled (fst s))))), snd s)))"
  have u: "vital ?u = vital (fst s)"
    by (simp only: vital_simps fst_conv)
  have e: "fst (on_custom os s) = take_clear ?u"
    unfolding on_custom_def Let_def fst_conv by (rule refl)
  show "wo_clear_in_flight (t_chat_work (fst s)) \<Longrightarrow>
    \<not> t_agent_turn_in_flight (fst (on_custom os s)) \<and> t_worker (fst (on_custom os s)) = t_worker (fst s)"
    using u unfolding e by (simp add: vital_def take_clear_def)
qed

text \<open>
  C18: the input never stays locked: unless the job of the worker runs into undefined behaviour, its end,
  the hand-over and the next drain (with the popup closed) leave the terminal ready for a message.
\<close>

theorem input_is_unlocked:
  assumes "reachable_terminal os what s" and "t_agent_turn_in_flight (fst s)" and "\<not> t_show_delete_confirm (fst s)"
    and "fst (worker_runs os what s) = Inr ()"
  shows "\<exists>s'. terminal_run os what [Worker_Runs, Worker_Hands_Over, User Custom] s = (Inr (), s')
      \<and> \<not> t_agent_turn_in_flight (fst s') \<and> t_worker (fst s') = No_Job"
proof -
  obtain s1 where s1: "worker_runs os what s = (Inr (), s1)"
    using assms(4) by (metis prod.collapse)
  define s2 where "s2 = worker_ends os s1"
  have w: "wo_clear_in_flight (t_chat_work (fst s2)) \<and> t_worker (fst s2) = No_Job \<and> \<not> t_show_delete_confirm (fst s2)"
  proof (cases "t_worker (fst s) = No_Job")
    case True
    then have "s1 = s" "wo_clear_in_flight (t_chat_work (fst s))"
      using worker_keeps_popup [OF s1] reachable_ok [OF assms(1)] assms(2) by (auto simp: terminal_ok_def)
    then show ?thesis
      using True assms(3) by (simp add: s2_def worker_ends_def worker_hands_over_def)
  next
    case False
    then obtain rs where "t_worker (fst s1) = Computed rs" "\<not> t_show_delete_confirm (fst s1)"
      using worker_keeps_popup [OF s1] assms(3) by auto
    then show ?thesis
      by (simp add: s2_def worker_ends_def worker_hands_over_def)
  qed
  have "on_event os Custom s2 = (Inr (), on_custom os s2)"
    using w by (simp add: on_event_def on_main_def)
  then have "terminal_run os what [Worker_Runs, Worker_Hands_Over, User Custom] s = (Inr (), on_custom os s2)"
    by (simp add: terminal_does_def bindE_def s1 s2_def)
  then show ?thesis
    using custom_unlocks [of s2 os] w by auto
qed

section \<open>A terminal that has sent a message\<close>

lemma start_leaves:
  "\<not> t_chat_focused (fst (start_terminal os version h)) \<and> \<not> t_show_delete_confirm (fst (start_terminal os version h))
   \<and> \<not> t_agent_turn_in_flight (fst (start_terminal os version h))
   \<and> \<not> pa_active (t_pending_tool_approval (fst (start_terminal os version h)))
   \<and> \<not> t_pending_new_session (fst (start_terminal os version h))"
proof -
  define calm where "calm t \<longleftrightarrow> \<not> t_chat_focused t \<and> \<not> t_show_delete_confirm t \<and> \<not> t_agent_turn_in_flight t
    \<and> \<not> pa_active (t_pending_tool_approval t) \<and> \<not> t_pending_new_session t" for t :: terminal
  have push: "calm (fst (push_chat_entry os role line s)) = calm (fst s)" for role line and s :: "'a screen"
    by (simp add: push_chat_entry_def calm_def split: prod.split)
  have resumed: "calm (t\<lparr>t_current_session_id := i, t_chat_entries := es\<rparr>) = calm t" for t i es
    by (simp add: calm_def)
  have "calm (fst (resume_last_session os s)) = calm (fst s)" "calm (fst (prompt_for_setup os s)) = calm (fst s)" for s :: "'a screen"
    by (simp_all add: resume_last_session_def prompt_for_setup_def Let_def case_prod_beta push resumed)
  then have "calm (fst (start_terminal os version h)) = calm blank_terminal"
    by (simp add: start_terminal_def push)
  then show ?thesis
    by (simp add: calm_def blank_terminal_def no_approval_def)
qed

definition waiting_screen :: "unit screen" where
  "waiting_screen = snd (terminal_run idle_os (\<lambda>e. []) [User Tab_Key, User (Typed ''hi'' 2), User Return_Key]
     (start_terminal idle_os ''1.0'' (new_host ())))"

lemma idle_setup: "bool_or False (fst (ollama_setup_status_json idle_os h)) ''installed'' = False"
proof -
  have "\<exists>ms. fst (ollama_setup_status_json idle_os h) = json_object (json_bool_field ''installed'' False # ms)"
    by (simp add: ollama_setup_status_json_def idle_os_def sense_def empty_run_result_def Let_def) (rule exI, rule refl)
  then show ?thesis
    by (auto simp: bool_or_def bool_first_member [of "''installed''"] plain_key_def plain_char_def)
qed

lemma waiting:
  "reachable_terminal idle_os (\<lambda>e. []) waiting_screen" "t_worker (fst waiting_screen) = Running (Chat_Turn ''hi'' False)"
  "t_agent_turn_in_flight (fst waiting_screen)" "\<not> t_show_delete_confirm (fst waiting_screen)"
proof -
  let ?w = "\<lambda>e. [] :: string"
  define s0 where "s0 = start_terminal idle_os ''1.0'' (new_host ())"
  obtain t h where s0: "s0 = (t, h)" by (cases s0)
  have calm: "\<not> t_chat_focused t" "\<not> t_show_delete_confirm t" "\<not> t_agent_turn_in_flight t" "\<not> pa_active (t_pending_tool_approval t)"
    "\<not> t_pending_new_session t"
    using start_leaves [of idle_os "''1.0''" "new_host ()"] s0 by (simp_all add: s0_def [symmetric])
  define t1 where "t1 = t\<lparr>t_chat_focused := True\<rparr>"
  define t2 where "t2 = t1\<lparr>t_chat_input_text := ''hi'', t_chat_input_cursor := 2\<rparr>"
  have e: "terminal_does idle_os ?w (User Tab_Key) (t, h) = (Inr (), (t1, h))"
    "terminal_does idle_os ?w (User (Typed ''hi'' 2)) (t1, h) = (Inr (), (t2, h))"
    "terminal_does idle_os ?w (User Return_Key) (t2, h) = (Inr (), return_on_message idle_os (t2, h))"
    using calm by (simp_all add: terminal_does_def on_event_def on_main_def on_input_key_def on_return_def t1_def t2_def)
  then have s: "waiting_screen = return_on_message idle_os (t2, h)"
    unfolding waiting_screen_def s0_def [symmetric] s0 by (simp add: bindE_def)
  have r: "reachable_terminal idle_os ?w (t, h)"
    using reachable_terminal.started [of idle_os ?w "''1.0''" "new_host ()"] s0 by (simp add: s0_def)
  show "reachable_terminal idle_os ?w waiting_screen"
    unfolding s by (rule reachable_terminal.moved [OF reachable_terminal.moved [OF reachable_terminal.moved [OF r e(1)] e(2)] e(3)])
  have "t_pending_new_session (record_chat_history m u) = t_pending_new_session u" "t_show_delete_confirm (record_chat_history m u) = t_show_delete_confirm u"
    for m u by (simp_all add: record_chat_history_def)
  then show "t_worker (fst waiting_screen) = Running (Chat_Turn ''hi'' False)"
    "t_agent_turn_in_flight (fst waiting_screen)" "\<not> t_show_delete_confirm (fst waiting_screen)"
    unfolding s using calm by (simp_all add: return_on_message_def Let_def case_prod_beta t2_def t1_def)
qed

lemma waiting_runs: "fst (worker_runs idle_os (\<lambda>e. []) waiting_screen) = Inr ()"
proof -
  have l: "to_lower_ascii (trim ''hi'') \<noteq> ''install ollama'' \<and> to_lower_ascii (trim ''hi'') \<noteq> ''install''"
    by code_simp
  have "compute_setup_state (parse_ollama_setup_status (fst (ollama_setup_status_json idle_os h))) = NeedsInstall" for h :: "unit host"
    by (simp add: parse_ollama_setup_status_def idle_setup compute_setup_state_def)
  then have "fst (run_job idle_os (Chat_Turn ''hi'' False) i r) = Inr ()" for i and r :: "unit chat_run"
    using l by (simp add: run_job_def run_chat_turn_def bindE_def on_host_def total_def say_def case_prod_beta Let_def)
  then have "fst (caught idle_os (\<lambda>e. []) (run_job idle_os (Chat_Turn ''hi'' False) i) r) = Inr ()" for i and r :: "unit chat_run"
    by (simp add: caught_def split: prod.split sum.split) (metis Inl_Inr_False fst_conv)
  then show ?thesis
    by (simp add: worker_runs_def waiting Let_def split: prod.split sum.split) (metis Inl_Inr_False fst_conv)
qed

theorem one_agent_call_in_flight_witness:
  "t_agent_turn_in_flight (fst waiting_screen) \<and> t_worker (fst waiting_screen) \<noteq> No_Job"
  using one_agent_call_in_flight [OF waiting(1)] waiting(2,3) by simp

theorem input_is_unlocked_witness:
  "\<exists>s'. terminal_run idle_os (\<lambda>e. []) [Worker_Runs, Worker_Hands_Over, User Custom] waiting_screen = (Inr (), s')
    \<and> \<not> t_agent_turn_in_flight (fst s')"
  using input_is_unlocked [OF waiting(1,3,4) waiting_runs] by blast

section \<open>The message history\<close>

lemma ups:
  assumes "t_chat_history_cursor t = -1" and "Suc k \<le> length (t_chat_history t)"
  shows "(arrow_up ^^ Suc k) t = show_input (t_chat_history t ! (length (t_chat_history t) - Suc k))
     (t\<lparr>t_chat_history_draft := t_chat_input_text t, t_chat_history_cursor := int (length (t_chat_history t) - Suc k)\<rparr>)"
  using assms(2)
proof (induction k)
  case 0
  then have "nat (int (length (t_chat_history t)) - 1) = length (t_chat_history t) - 1" "t_chat_history t \<noteq> []"
    "int (length (t_chat_history t)) - 1 = int (length (t_chat_history t) - Suc 0)"
    by auto
  then show ?case
    using assms(1) by (simp add: arrow_up_def show_input_def Let_def del: of_nat_diff)
next
  case (Suc k)
  let ?n = "length (t_chat_history t)"
  from Suc.prems have n: "?n - Suc k > 0" "int (?n - Suc k) - 1 = int (?n - Suc (Suc k))" "t_chat_history t \<noteq> []"
    by auto
  have "(arrow_up ^^ Suc (Suc k)) t = arrow_up ((arrow_up ^^ Suc k) t)"
    by simp
  also have "\<dots> = show_input (t_chat_history t ! (?n - Suc (Suc k)))
     (t\<lparr>t_chat_history_draft := t_chat_input_text t, t_chat_history_cursor := int (?n - Suc (Suc k))\<rparr>)"
    unfolding Suc.IH [OF Suc_leD [OF Suc.prems]] using n by (simp add: arrow_up_def show_input_def Let_def del: of_nat_diff)
  finally show ?case .
qed

lemma downs:
  assumes "k < length (t_chat_history t)" and "t_chat_history_cursor t = int (length (t_chat_history t) - Suc k)"
  shows "(arrow_down ^^ Suc k) t = show_input (t_chat_history_draft t) (t\<lparr>t_chat_history_cursor := -1\<rparr>)"
  using assms
proof (induction k arbitrary: t)
  case 0
  then show ?case by (simp add: arrow_down_def show_input_def Let_def of_nat_diff)
next
  case (Suc k)
  let ?n = "length (t_chat_history t)"
  let ?u = "arrow_down t"
  from Suc.prems have c: "int (?n - Suc (Suc k)) + 1 = int (?n - Suc k)" "int (?n - Suc k) < int ?n"
    by auto
  then have u: "?u = show_input (t_chat_history t ! (?n - Suc k)) (t\<lparr>t_chat_history_cursor := int (?n - Suc k)\<rparr>)"
    unfolding arrow_down_def Let_def Suc.prems(2) c(1) nat_int using c(2) by (simp del: of_nat_diff)
  then have h: "t_chat_history ?u = t_chat_history t" "t_chat_history_cursor ?u = int (?n - Suc k)" "t_chat_history_draft ?u = t_chat_history_draft t"
    by (simp_all add: show_input_def)
  have "(arrow_down ^^ Suc (Suc k)) t = (arrow_down ^^ Suc k) ?u"
    by (simp only: funpow_Suc_right comp_def)
  also have "\<dots> = show_input (t_chat_history_draft ?u) (?u\<lparr>t_chat_history_cursor := -1\<rparr>)"
    by (rule Suc.IH) (use Suc.prems h in simp_all)
  also have "\<dots> = show_input (t_chat_history_draft t) (t\<lparr>t_chat_history_cursor := -1\<rparr>)"
    unfolding h(3) unfolding u by (simp add: show_input_def)
  finally show ?case .
qed

text \<open>
  The arrow keys walk the sent messages the way a shell does: the \<open>k\<close>-th Up shows the \<open>k\<close>-th message
  from the end, and as many Downs bring back what was being typed, whatever it was.
\<close>

theorem arrows_walk_history:
  assumes "t_chat_history_cursor t = -1" and "k < length (t_chat_history t)"
  shows "t_chat_input_text ((arrow_up ^^ Suc k) t) = rev (t_chat_history t) ! k
    \<and> t_chat_input_text ((arrow_down ^^ Suc k) ((arrow_up ^^ Suc k) t)) = t_chat_input_text t
    \<and> t_chat_history_cursor ((arrow_down ^^ Suc k) ((arrow_up ^^ Suc k) t)) = -1
    \<and> t_chat_history ((arrow_down ^^ Suc k) ((arrow_up ^^ Suc k) t)) = t_chat_history t"
proof -
  have u: "(arrow_up ^^ Suc k) t = show_input (t_chat_history t ! (length (t_chat_history t) - Suc k))
     (t\<lparr>t_chat_history_draft := t_chat_input_text t, t_chat_history_cursor := int (length (t_chat_history t) - Suc k)\<rparr>)"
    by (rule ups) (use assms in simp_all)
  then have h: "t_chat_history ((arrow_up ^^ Suc k) t) = t_chat_history t"
    "t_chat_history_cursor ((arrow_up ^^ Suc k) t) = int (length (t_chat_history t) - Suc k)"
    "t_chat_history_draft ((arrow_up ^^ Suc k) t) = t_chat_input_text t"
    by (simp_all only: show_input_def) simp_all
  have "(arrow_down ^^ Suc k) ((arrow_up ^^ Suc k) t)
      = show_input (t_chat_input_text t) (((arrow_up ^^ Suc k) t)\<lparr>t_chat_history_cursor := -1\<rparr>)"
    using downs [of k "(arrow_up ^^ Suc k) t"] assms(2) unfolding h by blast
  then show ?thesis
    using assms(2) h(1) unfolding u by (simp add: show_input_def rev_nth)
qed

theorem arrows_walk_history_witness:
  "t_chat_input_text ((arrow_down ^^ Suc 1) ((arrow_up ^^ Suc 1)
     (blank_terminal\<lparr>t_chat_history := [''a'', ''b'', ''c''], t_chat_input_text := ''dra''\<rparr>))) = ''dra''"
  using arrows_walk_history [of "blank_terminal\<lparr>t_chat_history := [''a'', ''b'', ''c''], t_chat_input_text := ''dra''\<rparr>" 1]
  by (simp add: blank_terminal_def)

text \<open>
  Sending the recalled newest message again does not reset the cursor, against the comment on
  \<open>record_chat_history\<close>: the next Up does not show the newest message but the one before it.
\<close>

theorem resent_message_skips_newest:
  assumes "t_chat_history t = older @ [previous, newest]" and "t_chat_history_cursor t = -1"
  shows "t_chat_input_text (arrow_up t) = newest
    \<and> t_chat_input_text (arrow_up (record_chat_history newest ((arrow_up t)\<lparr>t_chat_input_text := []\<rparr>))) = previous"
proof -
  have n: "nat (1 + int (length older)) = Suc (length older)" "nat (int (length older) + 1) = Suc (length older)" by simp_all
  show ?thesis
    using assms n by (cases "newest = []") (simp_all add: arrow_up_def record_chat_history_def show_input_def Let_def nth_append)
qed

theorem resent_message_skips_newest_witness:
  "t_chat_input_text (arrow_up (record_chat_history ''b'' ((arrow_up (blank_terminal\<lparr>t_chat_history := [''a'', ''b'']\<rparr>))\<lparr>t_chat_input_text := []\<rparr>))) = ''a''"
  using resent_message_skips_newest [of "blank_terminal\<lparr>t_chat_history := [''a'', ''b'']\<rparr>" "[]" "''a''" "''b''"]
  by (simp add: blank_terminal_def)

end
