(* ===== verification/Terminal_Menus.thy ===== *)
theory Terminal_Menus imports Complex_Main Terminal_Laws begin

text \<open>
  The two menus of the terminal interface that FTXUI and the host both move: what the drain and the
  next frame make of them when the user has picked nothing, or something else.
\<close>

section \<open>The session that comes back\<close>

lemma custom_session:
  "t_current_session_id (fst (on_custom os s)) =
     (if wo_session_id (t_chat_work (fst s)) = [] then t_current_session_id (fst s) else wo_session_id (t_chat_work (fst s)))"
proof -
  have keeps: "t_current_session_id (take_clear t) = t_current_session_id t" "t_current_session_id (take_proposal t) = t_current_session_id t"
    "t_current_session_id (take_entries t) = t_current_session_id t" "t_current_session_id (take_polled t) = t_current_session_id t"
    "t_current_session_id (rebuild_connector_entries t) = t_current_session_id t"
    "t_current_session_id (sync_model_menu_from_host h t) = t_current_session_id t"
    "t_current_session_id (sync_session_menu_from_host t) = t_current_session_id t"
    "wo_session_id (t_chat_work (take_entries t)) = wo_session_id (t_chat_work t)" "wo_session_id (t_chat_work (take_polled t)) = wo_session_id (t_chat_work t)"
    "wo_session_id (t_chat_work (rebuild_connector_entries t)) = wo_session_id (t_chat_work t)"
    "wo_session_id (t_chat_work (sync_model_menu_from_host h t)) = wo_session_id (t_chat_work t)"
    "wo_session_id (t_chat_work (sync_session_menu_from_host t)) = wo_session_id (t_chat_work t)" for t and h :: "'a host"
    by (simp_all add: take_clear_def take_proposal_def take_entries_def take_polled_def rebuild_connector_entries_def
        sync_model_menu_from_host_def sync_session_menu_from_host_def Let_def split: option.split prod.split)
  have taken: "t_current_session_id (fst (take_session os s)) =
      (if wo_session_id (t_chat_work (fst s)) = [] then t_current_session_id (fst s) else wo_session_id (t_chat_work (fst s)))" for s
    by (simp add: take_session_def refresh_session_menu_now_def keeps Let_def)
  show ?thesis
    by (simp add: on_custom_def Let_def keeps taken)
qed

lemma frame_session:
  assumes "picked_entry (t_model_menu_selected (fst s)) (t_model_menu_entries (fst s)) \<in> {None, Some (t_model_menu_known_model (fst s))}"
    and "t_session_dropdown_user_picked (fst s)"
    and "picked_entry (t_session_menu_selected (fst s)) (t_session_menu_entries (fst s)) = Some other"
  shows "\<exists>s'. on_event os Frame s = (Inr (), s') \<and> t_current_session_id (fst s') = other
      \<and> t_chat_work (fst s') = t_chat_work (fst s) \<and> t_show_delete_confirm (fst s') = t_show_delete_confirm (fst s)"
proof -
  have "apply_model_menu_selection os s = (Inr (), s)"
    using assms(1) by (auto simp: apply_model_menu_selection_def)
  moreover have "t_current_session_id (fst (apply_session_menu_selection os s)) = other
      \<and> t_chat_work (fst (apply_session_menu_selection os s)) = t_chat_work (fst s)
      \<and> t_show_delete_confirm (fst (apply_session_menu_selection os s)) = t_show_delete_confirm (fst s)"
    using assms(2,3) by (simp add: apply_session_menu_selection_def Let_def case_prod_beta push_leaves)
  ultimately show ?thesis
    by (simp add: on_event_def bindE_def)
qed

text \<open>
  The session a turn reported is forgotten only when it differs from the current one. After a
  second message in a session it stays behind, and when the user then picks another session, the
  next drain (the poller asks for one twice a second) makes the old one current again: the next
  message goes to the session the user has left.
\<close>

theorem picked_session_is_undone:
  assumes "t_current_session_id (fst s) \<noteq> []" and "wo_session_id (t_chat_work (fst s)) = t_current_session_id (fst s)"
    and "\<not> t_show_delete_confirm (fst s)"
    and "picked_entry (t_model_menu_selected (fst s)) (t_model_menu_entries (fst s)) \<in> {None, Some (t_model_menu_known_model (fst s))}"
    and "picked_entry i (t_session_menu_entries (fst s)) = Some other"
  shows "\<exists>s1 s2. terminal_run os what [User (Session_Menu i), User Frame] s = (Inr (), s1) \<and> t_current_session_id (fst s1) = other
      \<and> terminal_does os what (User Custom) s1 = (Inr (), s2) \<and> t_current_session_id (fst s2) = t_current_session_id (fst s)"
proof -
  define s0 where "s0 = ((fst s)\<lparr>t_session_menu_selected := i, t_session_dropdown_user_picked := True\<rparr>, snd s)"
  have m: "on_event os (Session_Menu i) s = (Inr (), s0)"
    using assms(3) by (simp add: on_event_def on_main_def s0_def apfst_def map_prod_def split_beta)
  obtain s1 where s1: "on_event os Frame s0 = (Inr (), s1)" "t_current_session_id (fst s1) = other"
    "t_chat_work (fst s1) = t_chat_work (fst s)" "\<not> t_show_delete_confirm (fst s1)"
    using frame_session [of s0 other os] assms by (auto simp: s0_def)
  have "on_event os Custom s1 = (Inr (), on_custom os s1)"
    using s1(4) by (simp add: on_event_def on_main_def)
  moreover have "t_current_session_id (fst (on_custom os s1)) = t_current_session_id (fst s)"
    using assms(1,2) by (simp add: custom_session s1(3))
  moreover have "terminal_run os what [User (Session_Menu i), User Frame] s = (Inr (), s1)"
    using m s1(1) by (simp add: terminal_does_def bindE_def)
  ultimately show ?thesis
    using s1(2) unfolding terminal_does_def terminal_step.case by blast
qed

theorem picked_session_is_undone_witness:
  "\<exists>s2. terminal_run idle_os (\<lambda>e. []) [User (Session_Menu 1), User Frame, User Custom]
      (blank_terminal\<lparr>t_current_session_id := ''a'', t_session_menu_entries := [''a'', ''b''],
         t_chat_work := empty_chat_work\<lparr>wo_session_id := ''a''\<rparr>\<rparr>, new_host ()) = (Inr (), s2)
    \<and> t_current_session_id (fst s2) = ''a''"
  using picked_session_is_undone [of "(blank_terminal\<lparr>t_current_session_id := ''a'', t_session_menu_entries := [''a'', ''b''],
         t_chat_work := empty_chat_work\<lparr>wo_session_id := ''a''\<rparr>\<rparr>, new_host ())" 1 "''b''" idle_os "\<lambda>e. []"]
  by (auto simp: blank_terminal_def empty_chat_work_def picked_entry_def bindE_def split: prod.splits sum.splits)

section \<open>The model that changes by itself\<close>

lemma custom_model:
  "t_model_menu_entries (fst (on_custom os s)) = po_ollama_models (t_polled (fst s))"
  "t_model_menu_known_model (fst (on_custom os s)) = active_model_name (snd s)"
  "active_model_name (snd (on_custom os s)) = active_model_name (snd s)"
  "t_model_menu_known_model (fst s) = active_model_name (snd s) \<Longrightarrow>
     t_model_menu_selected (fst (on_custom os s)) = t_model_menu_selected (fst s)"
proof -
  define menu where "menu t = (t_model_menu_entries t, t_model_menu_known_model t, t_model_menu_selected t)" for t :: terminal
  have keeps: "menu (take_clear t) = menu t" "menu (take_proposal t) = menu t" "menu (take_entries t) = menu t"
    "menu (rebuild_connector_entries t) = menu t" "menu (sync_session_menu_from_host t) = menu t" for t
    by (simp_all add: menu_def take_clear_def take_proposal_def take_entries_def rebuild_connector_entries_def
        sync_session_menu_from_host_def Let_def split: option.split prod.split)
  have reported: "menu (t\<lparr>t_current_session_id := i, t_chat_work := w\<rparr>) = menu t" "menu (t\<lparr>t_session_menu_entries := es\<rparr>) = menu t" for t i w es
    by (simp_all add: menu_def)
  have taken: "menu (fst (take_session os s)) = menu (fst s)" for s
    by (simp add: take_session_def refresh_session_menu_now_def keeps reported Let_def)
  have drained: "menu (fst (on_custom os s)) = menu (sync_model_menu_from_host (snd s) (rebuild_connector_entries (take_polled (fst s))))"
    by (simp add: on_custom_def Let_def keeps taken)
  have synced: "menu (sync_model_menu_from_host h t) = (t_model_menu_entries t, active_model_name h,
      if t_model_menu_known_model t = active_model_name h then t_model_menu_selected t
      else case index_of (active_model_name h) (t_model_menu_entries t) of Some i \<Rightarrow> int i | None \<Rightarrow> t_model_menu_selected t)"
    for t and h :: "'a host"
    by (simp add: sync_model_menu_from_host_def menu_def Let_def split: option.split)
  have polled: "menu (take_polled t) = (po_ollama_models (t_polled t), t_model_menu_known_model t, t_model_menu_selected t)" for t
    by (simp add: take_polled_def menu_def Let_def)
  have m: "menu (fst (on_custom os s)) = (po_ollama_models (t_polled (fst s)), active_model_name (snd s),
      if t_model_menu_known_model (fst s) = active_model_name (snd s) then t_model_menu_selected (fst s)
      else case index_of (active_model_name (snd s)) (po_ollama_models (t_polled (fst s))) of Some i \<Rightarrow> int i | None \<Rightarrow> t_model_menu_selected (fst s))"
    using keeps(4) [of "take_polled (fst s)"] polled [of "fst s"] unfolding drained synced by (simp add: menu_def split: option.split)
  then show "t_model_menu_entries (fst (on_custom os s)) = po_ollama_models (t_polled (fst s))"
    "t_model_menu_known_model (fst (on_custom os s)) = active_model_name (snd s)"
    "t_model_menu_known_model (fst s) = active_model_name (snd s) \<Longrightarrow>
       t_model_menu_selected (fst (on_custom os s)) = t_model_menu_selected (fst s)"
    by (simp_all add: menu_def)
  have "h_config (write_last_session_id os i h) = h_config h" for i and h :: "'a host"
    by (simp add: write_last_session_id_def sense_def case_prod_beta)
  then have "h_config (snd (take_session os s)) = h_config (snd s)" for s
    by (simp add: take_session_def refresh_session_menu_now_def Let_def)
  then show "active_model_name (snd (on_custom os s)) = active_model_name (snd s)"
    by (simp add: on_custom_def active_model_name_def Let_def)
qed

lemma config_pushed: "h_config (snd (push_chat_entry os role line s)) = h_config (snd s)"
  by (simp add: push_chat_entry_def new_chat_entry_def log_chat_entry_def append_app_log_def append_app_log_full_def
      make_log_timestamp_def make_full_log_timestamp_def sense_def case_prod_beta Let_def split: option.split)

lemma config_entries: "h_config (snd (new_chat_entries os ls h)) = h_config h"
proof (induction ls arbitrary: h)
  case (Cons l ls)
  obtain role line stamp where l: "l = (role, line, stamp)" by (cases l)
  show ?case
    unfolding l by (cases stamp) (simp_all add: new_chat_entry_def sense_def case_prod_beta Cons)
qed simp

lemma config_resumed: "h_config (snd (apply_session_menu_selection os s)) = h_config (snd s)"
proof -
  have "h_config (write_last_session_id os i h) = h_config h" for i and h :: "'a host"
    by (simp add: write_last_session_id_def sense_def case_prod_beta)
  moreover have "h_config (snd (parse_agent_history_for_resume os json h)) = h_config h" for json and h :: "'a host"
    by (simp add: parse_agent_history_for_resume_def config_entries new_chat_entry_def sense_def Let_def case_prod_beta)
  ultimately show ?thesis
    by (simp add: apply_session_menu_selection_def config_pushed Let_def case_prod_beta split: option.split)
qed

lemma model_set:
  assumes "model \<noteq> []"
  shows "h_config (snd (update_ollama_config os (json_object [json_string_field ''model'' model]) h))
    = (h_config h)\<lparr>hc_ollama_model := model\<rparr>"
proof -
  have "h_config (snd (persist_current_settings os h)) = h_config h" for h :: "'a host"
    by (simp add: persist_current_settings_def Let_def sense_def case_prod_beta split: sum.split)
  moreover have "extract_json_string_field (json_object [json_string_field ''model'' model]) ''model'' 0 = model"
    using extract_flat_string [of "''model''" "[(''model'', JStr model)]"]
    by (simp add: json_objectI [of _ "[(''model'', JStr model)]"] object_simps flat_string_def plain_keys_def plain_key_def plain_char_def)
  ultimately show ?thesis
    using assms by (simp add: update_ollama_config_def apply_model_config_def Let_def case_prod_beta split: sum.split prod.split)
qed

text \<open>
  The model menu is put on the active model only when that model is new to the terminal. If the list
  of models was empty then (Ollama not yet up), the position stays at the first entry, and as soon
  as the poller brings a list, the next frame takes that entry for the user's choice: the host's
  model changes although nobody picked one.
\<close>

theorem model_changes_unasked:
  assumes "\<not> t_show_delete_confirm (fst s)" and "t_model_menu_known_model (fst s) = active_model_name (snd s)"
    and "t_model_menu_selected (fst s) = 0" and "po_ollama_models (t_polled (fst s)) = first # others"
    and "first \<noteq> []" and "first \<noteq> active_model_name (snd s)"
  shows "active_model_name (snd (snd (terminal_run os what [User Custom, User Frame] s))) = first"
proof -
  define s1 where "s1 = on_custom os s"
  have c: "terminal_does os what (User Custom) s = (Inr (), s1)"
    using assms(1) by (simp add: terminal_does_def on_event_def on_main_def s1_def)
  have m: "picked_entry (t_model_menu_selected (fst s1)) (t_model_menu_entries (fst s1)) = Some first"
    "t_model_menu_known_model (fst s1) = active_model_name (snd s)"
    using assms(2-4) by (simp_all add: s1_def custom_model picked_entry_def)
  obtain r s2 where a: "apply_model_menu_selection os s1 = (r, s2)" by (rule prod.exhaust)
  have "active_model_name (snd s2) = first"
    using a m assms(6) model_set [OF assms(5), of os "snd s1"]
    by (auto simp: apply_model_menu_selection_def active_model_name_def config_pushed split: prod.splits sum.splits)
  then show ?thesis
    using c a by (cases r) (simp_all add: terminal_does_def on_event_def bindE_def active_model_name_def config_resumed)
qed

theorem model_changes_unasked_witness:
  "active_model_name (snd (snd (terminal_run idle_os (\<lambda>e. []) [User Custom, User Frame]
     (blank_terminal\<lparr>t_model_menu_known_model := active_model_name (new_host ()),
        t_polled := (t_polled blank_terminal)\<lparr>po_ollama_models := [''other'']\<rparr>\<rparr>, new_host ())))) = ''other''"
  using model_changes_unasked [of "(blank_terminal\<lparr>t_model_menu_known_model := active_model_name (new_host ()),
        t_polled := (t_polled blank_terminal)\<lparr>po_ollama_models := [''other'']\<rparr>\<rparr>, new_host ())" "''other''" "[]" idle_os "\<lambda>e. []"]
  by (simp add: blank_terminal_def active_model_name_def new_host_def default_host_config_def)

end
