(* ===== verification/Terminal_Safety.thy ===== *)
theory Terminal_Safety imports Complex_Main Terminal_Laws Agent_Safety begin

text \<open>
  Only a typed yes lets a proposed call run: what the terminal sends for a reply is read back by the
  host as it was meant, and with any other reply nothing of the host's effects is reached.
\<close>

section \<open>The decision as it is read\<close>

definition decision_fields :: "bool \<Rightarrow> string \<Rightarrow> string \<Rightarrow> (string \<times> jval) list" where
  "decision_fields approved reason session_id = (''approved'', JBool approved)
     # (if reason \<noteq> [] then [(''reason'', JStr reason)] else [])
     @ (if session_id \<noteq> [] then [(''session_id'', JStr session_id)] else [])"

lemma decision_object: "decision_request approved reason session_id = render_object (decision_fields approved reason session_id)"
  unfolding decision_request_def by (rule json_objectI) (simp add: decision_fields_def object_simps)

lemma decision_read:
  "extract_json_bool_field (decision_request approved reason session_id) ''approved'' 0 = Some approved"
  "extract_json_string_field (decision_request approved reason session_id) ''reason'' 0 = reason"
  "extract_json_string_field (decision_request approved reason session_id) ''session_id'' 0 = session_id"
proof -
  have p: "plain_keys (decision_fields approved reason session_id)"
    by (simp add: decision_fields_def plain_keys_def plain_key_def plain_char_def)
  have k: "plain_key ''approved''" "plain_key ''reason''" "plain_key ''session_id''"
    by (simp_all add: plain_key_def plain_char_def)
  show "extract_json_bool_field (decision_request approved reason session_id) ''approved'' 0 = Some approved"
    "extract_json_string_field (decision_request approved reason session_id) ''reason'' 0 = reason"
    "extract_json_string_field (decision_request approved reason session_id) ''session_id'' 0 = session_id"
    unfolding decision_object extract_flat_bool [OF k(1) p] extract_flat_string [OF k(2) p] extract_flat_string [OF k(3) p]
    by (simp_all add: decision_fields_def flat_bool_def flat_string_def)
qed

section \<open>Two systems that differ in their effects\<close>

context same_system begin

lemma entry: "new_chat_entry b = new_chat_entry a"
  by (unfold new_chat_entry_def senses, (rule refl)+)

lemma entries: "new_chat_entries b ls h = new_chat_entries a ls h"
proof (induction ls arbitrary: h)
  case (Cons l ls)
  then show ?case by (cases l) (simp only: new_chat_entries.simps entry)
qed simp

lemma pushed: "push_chat_entry b = push_chat_entry a"
  by (unfold push_chat_entry_def log_chat_entry_def entry logs, (rule refl)+)

lemma said: "say b = say a"
  by (unfold say_def entry, (rule refl)+)

lemma ingested: "ingest_agent_response b = ingest_agent_response a"
  by (unfold ingest_agent_response_def entries, (rule refl)+)

lemma declined: "run_tool_decision b False reason session_id = run_tool_decision a False reason session_id"
proof -
  have "agent_tool_decision b (decision_request False reason session_id) = agent_tool_decision a (decision_request False reason session_id)"
    by (intro ext decision) (simp add: decision_read)
  then show ?thesis
    unfolding run_tool_decision_def ingested by simp
qed

lemma caught_same: "m b = m a \<Longrightarrow> caught b what (m b) = caught a what (m a)"
  unfolding caught_def said by simp

lemma spawned: "thread_spawned b = thread_spawned a"
  by (unfold thread_spawned_def log_thread_event_def logs, (rule refl)+)

lemma replied: "return_on_prompt b = return_on_prompt a"
  unfolding return_on_prompt_def pushed spawned by (rule refl)

lemma decided_by_worker:
  assumes "t_worker (fst s) = Running (Tool_Decision False reason session_id)"
  shows "worker_runs b what s = worker_runs a what s"
  using caught_same [of "\<lambda>os. run_job os (Tool_Decision False reason session_id) (t_current_session_id (fst s))"] declined assms
  by (simp add: worker_runs_def run_job_def)

lemma unapproved_reply:
  assumes "t_chat_focused (fst s)" and "\<not> t_show_delete_confirm (fst s)" and "\<not> t_agent_turn_in_flight (fst s)"
    and "pa_active (t_pending_tool_approval (fst s))" and "\<not> approves_reply (trim (t_chat_input_text (fst s)))"
  shows "terminal_run b what [User Return_Key, Worker_Runs] s = terminal_run a what [User Return_Key, Worker_Runs] s"
proof -
  have e: "on_event os Return_Key s = (Inr (), return_on_prompt os s)" for os :: "'w os"
    using assms by (simp add: on_event_def on_main_def on_input_key_def on_return_def)
  obtain u reply where "fst (return_on_prompt a s) = u\<lparr>t_agent_turn_in_flight := True, t_pending_tool_approval := no_approval,
      t_worker := Running (Tool_Decision (approves_reply (trim (t_chat_input_text (fst s)))) (decline_reason reply)
        (pa_session_id (t_pending_tool_approval (fst s))))\<rparr>"
    by (rule return_on_prompt_terminal)
  then have "t_worker (fst (return_on_prompt a s))
      = Running (Tool_Decision False (decline_reason reply) (pa_session_id (t_pending_tool_approval (fst s))))"
    using assms(5) by simp
  then show ?thesis
    by (simp add: terminal_does_def e replied bindE_def decided_by_worker split: prod.split sum.split)
qed

end

section \<open>What the user types\<close>

text \<open>
  C4: at an approval prompt any reply but yes or y (in whatever case, blanks around it) is a refusal: no
  matter what the host's effects would do (directories, copies, moves, deletions, writes, commands,
  launches, the clipboard), sending it and having the worker deal with it comes to the same.
\<close>

theorem only_yes_approves:
  assumes "t_chat_focused (fst s)" and "\<not> t_show_delete_confirm (fst s)" and "\<not> t_agent_turn_in_flight (fst s)"
    and "pa_active (t_pending_tool_approval (fst s))"
    and "to_lower_ascii (trim (t_chat_input_text (fst s))) \<notin> {''yes'', ''y''}"
  shows "terminal_run (os\<lparr>fs_create_directories := mk, fs_copy_file := cp, fs_rename := mv, fs_remove := rm, fs_write := wr,
     os_run_command_once := run, os_launch_application := open_app, os_process_launch := start, os_process_stop := stop,
     os_clipboard_write := clip\<rparr>) what [User Return_Key, Worker_Runs] s = terminal_run os what [User Return_Key, Worker_Runs] s"
  by (rule effects.unapproved_reply) (use assms in \<open>simp_all add: approves_reply_def\<close>)

definition asking_terminal :: "string \<Rightarrow> terminal" where
  "asking_terminal reply = blank_terminal\<lparr>t_chat_focused := True, t_chat_input_text := reply,
     t_pending_tool_approval := \<lparr>pa_active = True, pa_session_id = ''s1'', pa_tool = ''delete_file'', pa_arguments_json = [lbrace, rbrace]\<rparr>\<rparr>"

theorem only_yes_approves_witness:
  "terminal_run (idle_os\<lparr>fs_remove := (\<lambda>p w. (Inr True, ()))\<rparr>) (\<lambda>e. []) [User Return_Key, Worker_Runs]
     (asking_terminal ''yes please'', new_host ())
   = terminal_run idle_os (\<lambda>e. []) [User Return_Key, Worker_Runs] (asking_terminal ''yes please'', new_host ())"
proof -
  have t: "to_lower_ascii (trim ''yes please'') \<notin> {''yes'', ''y''}" by code_simp
  show ?thesis
    using only_yes_approves [where s = "(asking_terminal ''yes please'', new_host ())" and os = idle_os and what = "\<lambda>e. []"
        and mk = "fs_create_directories idle_os" and cp = "fs_copy_file idle_os" and mv = "fs_rename idle_os"
        and rm = "\<lambda>p w. (Inr True, ())" and wr = "fs_write idle_os" and run = "os_run_command_once idle_os"
        and open_app = "os_launch_application idle_os" and start = "os_process_launch idle_os"
        and stop = "os_process_stop idle_os" and clip = "os_clipboard_write idle_os"] t
    by (simp add: asking_terminal_def blank_terminal_def idle_os_def)
qed

end
