(* ===== verification/Terminal_Views.thy ===== *)
theory Terminal_Views imports Complex_Main Terminal_Events Host_Startup begin

text \<open>
  What the panels of the terminal show (the renderers of \<open>run_tui\<close>, \<open>cli/tui.cpp\<close>): the rows of each,
  their texts and colours, and which row a click opens or closes. How FTXUI lays rows out and wraps
  them is not modelled; a click is where it hits.
\<close>

section \<open>Rows\<close>

datatype colour = White | Black | Red | Green | Blue | Yellow | Cyan | Magenta | GrayDark | LightSkyBlue1

text \<open>\<open>Reflect i\<close> marks the box that a click is held against.\<close>

datatype style = Bold | Dim | Focus | Colour colour | Background colour | Width nat | Flex | Reflect nat

datatype element = Text string | Paragraph string | Separator | Spinner nat | Row "(element \<times> style list) list"

type_synonym styled = "element \<times> style list"

definition arrow :: "bool \<Rightarrow> string" where
  "arrow expanded = (if expanded then [CHR 0xE2, CHR 0x96, CHR 0xBC, blank] else [CHR 0xE2, CHR 0x96, CHR 0xB6, blank])"

definition stamp :: "string \<Rightarrow> string" where
  "stamp timestamp = ''['' @ timestamp @ ''] ''"

text \<open>The newest row is kept in view.\<close>

definition focus_last :: "styled list \<Rightarrow> styled list" where
  "focus_last rows = (if rows = [] then [] else butlast rows @ [(fst (last rows), snd (last rows) @ [Focus])])"

section \<open>Tasks\<close>

definition task_when :: "int \<Rightarrow> task_row \<Rightarrow> string" where
  "task_when now_ms task =
     (if tw_status task = ''pending'' \<and> tw_scheduled_for_ms task > now_ms
      then ''in '' @ to_string ((tw_scheduled_for_ms task - now_ms) div 1000) @ ''s'' else ''now'')"

definition task_line :: "int \<Rightarrow> task_row \<Rightarrow> styled" where
  "task_line now_ms task =
     (Row [(Paragraph (tw_id task), [Width 20]), (Paragraph (tw_connector_id task), [Width 14]), (Paragraph (tw_command task), [Width 9]),
        (Paragraph (task_when now_ms task), [Width 12]), (Paragraph (tw_status task), [Flex])], [])"

definition tasks_view :: "int \<Rightarrow> task_row list \<Rightarrow> styled list" where
  "tasks_view now_ms tasks =
     (Row [(Text ''ID'', [Width 20]), (Text ''CONNECTOR'', [Width 14]), (Text ''COMMAND'', [Width 9]), (Text ''WHEN'', [Width 12]),
        (Text ''STATUS'', [Flex])], [Bold])
     # map (task_line now_ms) tasks
     @ (if tasks = [] then [(Text ''(no tasks queued)'', [Dim])] else [])"

section \<open>Tools and applications\<close>

text \<open>The tool that a line of the chat log is about.\<close>

definition tool_of_line :: "log_row \<Rightarrow> string option" where
  "tool_of_line row =
     (let declined = starts_with (gw_summary row) ''tool declined '';
          executed = (\<not> declined \<and> starts_with (gw_summary row) ''tool '');
          rest = drop (length (if declined then ''tool declined '' else ''tool '')) (gw_summary row)
      in if gw_channel row \<noteq> ''chat'' then None
         else if \<not> declined \<and> \<not> executed then None
         else Some (case find_str [CHR 0x28] rest of None \<Rightarrow> rest | Some paren \<Rightarrow> take paren rest))"

definition success_colour :: "log_row \<Rightarrow> style" where
  "success_colour row = Colour (if gw_success row then Green else Red)"

definition tool_line :: "log_row \<Rightarrow> styled list" where
  "tool_line row =
     (case tool_of_line row of
        None \<Rightarrow> []
      | Some tool \<Rightarrow> [(Row [(Text (stamp (gw_timestamp row)), [Dim]), (Paragraph tool, [Bold, success_colour row])], [])])"

definition tools_view :: "log_row list \<Rightarrow> styled list" where
  "tools_view log_lines =
     (let rows = concat (map tool_line log_lines)
      in if rows = [] then [(Text ''(no tools used yet this session)'', [Dim])] else focus_last rows)"

definition app_line :: "log_row \<Rightarrow> styled list" where
  "app_line row =
     (if gw_channel row = ''open'' \<or> gw_channel row = ''process''
      then [(Row [(Text (stamp (gw_timestamp row)), [Dim]), (Paragraph (gw_summary row), [success_colour row])], [])] else [])"

definition apps_view :: "log_row list \<Rightarrow> styled list" where
  "apps_view log_lines =
     (let rows = concat (map app_line log_lines)
      in if rows = [] then [(Text ''(no apps launched yet this session)'', [Dim])] else focus_last rows)"

section \<open>Locations\<close>

text \<open>
  The rows so far and the keys of the headers among them, in order; \<open>expanded\<close> holds the keys of the
  open ones.
\<close>

definition add_location_row ::
    "string set \<Rightarrow> colour \<Rightarrow> string \<times> string \<times> string \<Rightarrow> styled list \<times> string list \<Rightarrow> styled list \<times> string list" where
  "add_location_row expanded name_colour entry v =
     (case entry of (key, name, path) \<Rightarrow>
        (fst v @ [(Text (arrow (key \<in> expanded) @ name), [Bold, Colour name_colour, Reflect (length (snd v))])]
           @ (if key \<in> expanded then [(Paragraph (''  '' @ path), [Dim])] else []),
         snd v @ [key]))"

definition system_entry :: "location_entry \<Rightarrow> string \<times> string \<times> string" where
  "system_entry e = (''sys:'' @ fst e, fst e, snd e)"

definition memory_entry :: "location_row \<Rightarrow> string \<times> string \<times> string" where
  "memory_entry l = (''mem:'' @ lw_name l, lw_name l, lw_resolved_path l)"

definition locations_view :: "string set \<Rightarrow> locations_snapshot \<Rightarrow> styled list \<times> string list" where
  "locations_view expanded locations =
     (let v1 = fold (add_location_row expanded White) (map system_entry (ls_system_locations locations)) ([], []);
          v2 = (if ls_system_locations locations = [] then v1 else (fst v1 @ [(Separator, [])], snd v1))
      in if ls_remembered locations = [] then (fst v2 @ [(Text ''(no locations remembered yet)'', [Dim])], snd v2)
         else fold (add_location_row expanded Cyan) (map memory_entry (ls_remembered locations)) v2)"

text \<open>The first header whose box the click is in.\<close>

definition hit_index :: "(nat \<Rightarrow> bool) \<Rightarrow> nat \<Rightarrow> nat option" where
  "hit_index hit n = find hit [0..<n]"

definition click_location :: "(nat \<Rightarrow> bool) \<Rightarrow> string list \<Rightarrow> string set \<Rightarrow> string set" where
  "click_location hit keys expanded =
     (case hit_index hit (length keys) of
        None \<Rightarrow> expanded
      | Some i \<Rightarrow> if keys ! i \<in> expanded then expanded - {keys ! i} else insert (keys ! i) expanded)"

section \<open>The log\<close>

definition log_styles :: "log_row \<Rightarrow> style list" where
  "log_styles row =
     (if \<not> gw_success row then [Colour Red]
      else if gw_channel row = ''chat'' \<and> starts_with (gw_summary row) ''tool '' then [Colour Green, Bold]
      else if is_process_launch_channel (gw_channel row) then [Colour Magenta, Bold]
      else if gw_channel row = ''watchdog'' then [Colour Yellow]
      else if gw_channel row = ''task'' then [Colour Cyan]
      else if gw_channel row = ''thread'' then [Colour Blue]
      else [])"

definition log_line :: "log_row \<Rightarrow> styled" where
  "log_line row =
     (Paragraph (''['' @ gw_timestamp row @ ''] ['' @ gw_channel row @ ''] ['' @ gw_direction row @ ''] '' @ gw_summary row), log_styles row)"

definition max_visible_lines :: nat where
  "max_visible_lines = 200"

definition log_view :: "log_row list \<Rightarrow> styled list" where
  "log_view log_lines =
     (let start = (if length log_lines > max_visible_lines then length log_lines - max_visible_lines else 0);
          rows = map log_line (drop start log_lines)
      in if rows = [] then [(Text ''(no log entries yet)'', [Dim])] else rows)"

section \<open>The chat\<close>

text \<open>A line that can be opened, at its place among the entries, with its text behind it when it is open.\<close>

definition folded_lines :: "string \<Rightarrow> string \<Rightarrow> colour \<Rightarrow> nat \<Rightarrow> chat_entry \<Rightarrow> styled list" where
  "folded_lines ts_prefix title c i entry =
     (Text (arrow (ce_expanded entry) @ ts_prefix @ title), [Dim, Colour c, Reflect i])
     # (if ce_expanded entry then [(Paragraph (ce_text entry), [Dim, Colour c])] else [])"

definition chat_lines :: "nat \<times> chat_entry \<Rightarrow> styled list" where
  "chat_lines x =
     (case x of (i, entry) \<Rightarrow>
        (let ts_prefix = stamp (ce_timestamp entry)
         in if ce_role entry = ''user'' then [(Paragraph (ts_prefix @ ''[USER] '' @ ce_text entry), [Bold, Colour Blue])]
            else if ce_role entry = ''assistant'' then [(Paragraph (ts_prefix @ ''[AGENT] '' @ ce_text entry), [Colour Green])]
            else if ce_role entry = ''thinking'' then folded_lines ts_prefix ''[AGENT] [THINKING]'' Green i entry
            else if ce_role entry = ''tool'' then folded_lines ts_prefix ''[AGENT] [EXECUTION]'' Yellow i entry
            else if ce_role entry = ''error'' then [(Paragraph (ts_prefix @ ''error: '' @ ce_text entry), [Colour Red])]
            else [(Paragraph (ts_prefix @ ''[SYSTEM] '' @ ce_text entry), [Colour GrayDark])]))"

definition spinner_frame :: "int \<Rightarrow> nat" where
  "spinner_frame now_ms = nat ((now_ms div 150) mod 4)"

definition chat_log_view :: "int \<Rightarrow> terminal \<Rightarrow> styled list" where
  "chat_log_view now_ms t =
     (let entries = t_chat_entries t;
          lines = concat (map chat_lines (zip [0..<length entries] entries))
            @ (if t_agent_turn_in_flight t then [(Row [(Text ''[AGENT] '', []), (Spinner (spinner_frame now_ms), [])], [])] else [])
      in if lines = [] then [(Paragraph ''(no messages yet - type below and press Enter)'', [])] else lines)"

text \<open>
  \<open>hit i\<close>: entry \<open>i\<close> has a header on the screen, and the click is in it. A click elsewhere is left to the
  other components.
\<close>

definition click_chat :: "(nat \<Rightarrow> bool) \<Rightarrow> terminal \<Rightarrow> terminal" where
  "click_chat hit t =
     (case hit_index hit (length (t_chat_entries t)) of
        None \<Rightarrow> t
      | Some i \<Rightarrow> t\<lparr>t_chat_entries := (t_chat_entries t)[i := (t_chat_entries t ! i)\<lparr>ce_expanded := \<not> ce_expanded (t_chat_entries t ! i)\<rparr>]\<rparr>)"

section \<open>The frame\<close>

definition focus_hint :: "terminal \<Rightarrow> string" where
  "focus_hint t =
     (if t_chat_focused t then ''chat focused - Tab/Esc: to connectors   Enter: send   Ctrl+C: quit anytime''
      else ''connectors focused - Tab: to chat   q: quit   l: launch   s: stop   n: new session   e: erase session   ''
        @ ''j/k/arrows: move   y: copy chat   drag borders to resize'')"

text \<open>What stands behind the two labels as long as their menus are empty.\<close>

definition session_text :: "terminal \<Rightarrow> string" where
  "session_text t = (if t_current_session_id t = [] then ''(none yet - starts on your first message)'' else t_current_session_id t)"

datatype 'a shown = Menu_Of "string list" int | Plain 'a

definition session_element :: "terminal \<Rightarrow> string shown" where
  "session_element t =
     (if t_session_menu_entries t = [] then Plain (session_text t) else Menu_Of (t_session_menu_entries t) (t_session_menu_selected t))"

definition model_element :: "terminal \<Rightarrow> string shown" where
  "model_element t =
     (if t_model_menu_entries t = [] then Plain ''none'' else Menu_Of (t_model_menu_entries t) (t_model_menu_selected t))"

text \<open>The question of the popup.\<close>

definition erase_question :: "terminal \<Rightarrow> string" where
  "erase_question t = ''Permanently delete all history for session '' @ [CHR 0x27] @ t_delete_confirm_session_id t @ [CHR 0x27]
     @ ''? This cannot be undone.''"

definition right_pane_width :: "int \<Rightarrow> int" where
  "right_pane_width terminal_width = max 0 (terminal_width - 36 - 2) div 2"

section \<open>What a click does\<close>

lemma hit_first: "hit i \<Longrightarrow> i < n \<Longrightarrow> (\<And>j. j < i \<Longrightarrow> \<not> hit j) \<Longrightarrow> hit_index hit n = Some i"
  by (auto simp: hit_index_def find_Some_iff intro!: exI [of _ i])

lemma location_keys: "snd (fold (add_location_row expanded c) es v) = snd v @ map fst es"
  by (induction es arbitrary: v) (auto simp: add_location_row_def)

lemma keys_of_view:
  "snd (locations_view expanded ls) = map (fst \<circ> system_entry) (ls_system_locations ls) @ map (fst \<circ> memory_entry) (ls_remembered ls)"
  by (simp add: locations_view_def Let_def location_keys)

lemma distinct_keys:
  assumes "distinct (map fst (ls_system_locations ls))" and "distinct (map lw_name (ls_remembered ls))"
  shows "distinct (snd (locations_view expanded ls))"
proof -
  have "distinct (map (fst \<circ> system_entry) (ls_system_locations ls))"
    using assms(1) by (simp add: distinct_map comp_def system_entry_def inj_on_def)
  moreover have "distinct (map (fst \<circ> memory_entry) (ls_remembered ls))"
    using assms(2) by (simp add: distinct_map comp_def memory_entry_def inj_on_def)
  moreover have "set (map (fst \<circ> system_entry) (ls_system_locations ls)) \<inter> set (map (fst \<circ> memory_entry) (ls_remembered ls)) = {}"
    by (auto simp: system_entry_def memory_entry_def)
  ultimately show ?thesis by (simp only: keys_of_view distinct_append)
qed

text \<open>
  A click on the header of a location opens or closes exactly that location, whatever its list: the
  keys of the lists do not mix. A second click undoes the first.
\<close>

theorem click_toggles_one_location:
  assumes "distinct (map fst (ls_system_locations ls))" and "distinct (map lw_name (ls_remembered ls))"
    and "hit i" and "i < length (snd (locations_view expanded ls))" and "\<And>j. j < i \<Longrightarrow> \<not> hit j"
  shows "(\<forall>j < length (snd (locations_view expanded ls)).
      (snd (locations_view expanded ls) ! j \<in> click_location hit (snd (locations_view expanded ls)) expanded)
        = ((snd (locations_view expanded ls) ! j \<in> expanded) \<noteq> (j = i)))
    \<and> click_location hit (snd (locations_view expanded ls)) (click_location hit (snd (locations_view expanded ls)) expanded) = expanded"
proof -
  let ?keys = "snd (locations_view expanded ls)"
  have h: "hit_index hit (length ?keys) = Some i" using assms(3-5) by (intro hit_first) simp_all
  have "?keys ! j = ?keys ! i \<longleftrightarrow> j = i" if "j < length ?keys" for j
    using distinct_keys [OF assms(1,2)] that assms(4) by (simp add: nth_eq_iff_index_eq)
  then show ?thesis
    by (auto simp: click_location_def h)
qed

section \<open>What the log says of tools\<close>

lemma row_of_log_entry:
  "log_row_of (app_log_entry_json e) = \<lparr>gw_timestamp = al_timestamp e, gw_channel = al_channel e, gw_direction = al_direction e,
     gw_summary = al_summary e, gw_success = al_success e\<rparr>"
proof -
  let ?fs = "[(''timestamp'', JStr (al_timestamp e)), (''channel'', JStr (al_channel e)), (''direction'', JStr (al_direction e)),
     (''summary'', JStr (al_summary e)), (''success'', JBool (al_success e))]"
  have o: "app_log_entry_json e = render_object ?fs"
    unfolding app_log_entry_json_def by (rule json_objectI) (simp add: object_simps)
  have k: "plain_keys ?fs" "plain_key ''timestamp''" "plain_key ''channel''" "plain_key ''direction''" "plain_key ''summary''" "plain_key ''success''"
    by (simp_all add: plain_keys_def plain_key_def plain_char_def)
  show ?thesis
    by (simp add: log_row_of_def bool_or_def o extract_flat_string extract_flat_bool k flat_string_def flat_bool_def)
qed

lemma last_push: "0 < n \<Longrightarrow> last (push_bounded n x xs) = x"
  by (cases xs) (simp_all add: push_bounded_def Let_def)

lemma last_logged: "last (h_app_log (log_chat_entry os role line h))
   = \<lparr>al_timestamp = fst (make_log_timestamp os h), al_channel = ''chat'', al_direction = role, al_summary = line, al_success = (role \<noteq> ''error'')\<rparr>"
  by (simp add: log_chat_entry_def append_app_log_def append_app_log_full_def last_push make_full_log_timestamp_def
      make_log_timestamp_def sense_def case_prod_beta Let_def split: option.split)

lemma find_paren: "CHR 0x28 \<notin> set name \<Longrightarrow> find_str [CHR 0x28] (name @ CHR 0x28 # rest) = Some (length name)"
  by (induction name) auto

text \<open>
  The panel of tools takes what it shows from texts alone: a message that the user types is logged as it
  is, and when it starts like the line of a tool that has run, it is shown as one, in bold green, although nothing ran.
\<close>

theorem typed_text_poses_as_tool:
  assumes "CHR 0x28 \<notin> set name" and "\<not> starts_with name ''declined ''"
  shows "let row = log_row_of (app_log_entry_json (last (h_app_log
        (log_chat_entry os ''user'' (''tool '' @ name @ [CHR 0x28] @ rest) h))))
    in tool_of_line row = Some name \<and> log_styles row = [Colour Green, Bold]"
proof -
  have "\<not> prefix ''declined '' (name @ CHR 0x28 # rest)"
    using assms(2) by (auto simp: prefix_append prefix_Cons starts_with_def append_eq_Cons_conv Cons_eq_append_conv)
  then have "\<not> starts_with (''tool '' @ name @ CHR 0x28 # rest) ''tool declined ''"
    by (simp add: starts_with_def)
  then show ?thesis
    using assms(1) by (simp add: Let_def row_of_log_entry last_logged tool_of_line_def log_styles_def find_paren starts_with_def)
qed

theorem typed_text_poses_as_tool_witness:
  "let row = log_row_of (app_log_entry_json (last (h_app_log
        (log_chat_entry idle_os ''user'' (''tool '' @ ''run_command'' @ [CHR 0x28] @ '')'') (new_host ())))))
    in tool_of_line row = Some ''run_command'' \<and> log_styles row = [Colour Green, Bold]"
  by (rule typed_text_poses_as_tool) (simp_all add: starts_with_def)

end
