(* ===== verification/Process_Manager.thy ===== *)
theory Process_Manager
  imports Complex_Main Os_Interface "HOL-Library.Multiset" "HOL-Library.Char_ord" "HOL-Library.List_Lexorder"
begin

text \<open>
  \<open>cli/process_manager.cpp\<close>: the processes droidcli has launched, by key, on Windows (a job object and
  a process handle each) and on POSIX systems (a process group each). The system calls are the record
  \<open>'w kernel\<close>: the child of \<open>fork\<close> is what the call is given, the handle that
  \<open>CreateProcess\<close> gives for the thread is closed at once and left out.
\<close>

section \<open>The system calls\<close>

text \<open>
  \<open>k_create_process\<close> gives an error code, or the process id and its handle; \<open>k_exit_code\<close> is \<open>None\<close> when
  the call fails; \<open>k_fork\<close> gives the id of the child, negative when there is none; \<open>k_waitpid\<close>
  is the result of the call with \<open>WNOHANG\<close>.
\<close>

record 'w kernel =
  k_windows :: bool
  k_path_exists :: "string \<Rightarrow> string \<Rightarrow> 'w \<Rightarrow> bool"
  k_create_job :: "'w \<Rightarrow> int option \<times> 'w"
  k_create_process :: "string \<Rightarrow> string \<Rightarrow> int \<Rightarrow> 'w \<Rightarrow> (nat + int \<times> int) \<times> 'w"
  k_terminate_job :: "int \<Rightarrow> 'w \<Rightarrow> 'w"
  k_close_handle :: "int \<Rightarrow> 'w \<Rightarrow> 'w"
  k_exit_code :: "int \<Rightarrow> 'w \<Rightarrow> nat option \<times> 'w"
  k_fork :: "string \<Rightarrow> string \<Rightarrow> 'w \<Rightarrow> int \<times> 'w"
  k_killpg :: "int \<Rightarrow> 'w \<Rightarrow> 'w"
  k_waitpid :: "int \<Rightarrow> 'w \<Rightarrow> int \<times> 'w"

definition STILL_ACTIVE :: nat where
  "STILL_ACTIVE = 259"

section \<open>Entries\<close>

text \<open>\<open>me_job\<close> and \<open>me_process\<close> are the handles of Windows, \<open>me_pgid\<close> the group of POSIX.\<close>

record managed_entry =
  me_info :: process_info
  me_command :: string
  me_working_dir :: string
  me_job :: "int option"
  me_process :: "int option"
  me_pgid :: int

definition idle_info :: process_info where
  "idle_info = \<lparr>pi_key = [], pi_label = [], pi_pid = 0, pi_running = False, pi_status_text = ''idle''\<rparr>"

definition empty_entry :: managed_entry where
  "empty_entry = \<lparr>me_info = idle_info, me_command = [], me_working_dir = [], me_job = None, me_process = None, me_pgid = 0\<rparr>"

text \<open>\<open>std::map\<close>: the entries in the order of their keys.\<close>

type_synonym process_entries = "(string \<times> managed_entry) list"
type_synonym 'w managed = "process_entries \<times> 'w"

fun put_entry :: "string \<Rightarrow> managed_entry \<Rightarrow> process_entries \<Rightarrow> process_entries" where
  "put_entry k e [] = [(k, e)]"
| "put_entry k e ((k', e') # m) =
     (if k < k' then (k, e) # (k', e') # m else if k = k' then (k, e) # m else (k', e') # put_entry k e m)"

definition entry_of :: "string \<Rightarrow> process_entries \<Rightarrow> managed_entry" where
  "entry_of k m = (case map_of m k of Some e \<Rightarrow> e | None \<Rightarrow> empty_entry)"

definition mark_info :: "(process_info \<Rightarrow> process_info) \<Rightarrow> managed_entry \<Rightarrow> managed_entry" where
  "mark_info f e = e\<lparr>me_info := f (me_info e)\<rparr>"

section \<open>Stopping\<close>

definition stop_windows :: "'w kernel \<Rightarrow> managed_entry \<Rightarrow> 'w \<Rightarrow> managed_entry \<times> 'w" where
  "stop_windows k e w =
     (let w1 = (case me_job e of Some job \<Rightarrow> k_close_handle k job (k_terminate_job k job w) | None \<Rightarrow> w);
          w2 = (case me_process e of Some process \<Rightarrow> k_close_handle k process w1 | None \<Rightarrow> w1);
          e1 = e\<lparr>me_job := None, me_process := None\<rparr>;
          e2 = (if pi_running (me_info e1) then mark_info (\<lambda>i. i\<lparr>pi_status_text := ''stopped''\<rparr>) e1 else e1)
      in (mark_info (\<lambda>i. i\<lparr>pi_running := False\<rparr>) e2, w2))"

definition stop_posix :: "'w kernel \<Rightarrow> managed_entry \<Rightarrow> 'w \<Rightarrow> managed_entry \<times> 'w" where
  "stop_posix k e w =
     (case (if me_pgid e > 0 then
              (let e1 = e\<lparr>me_pgid := 0\<rparr>
               in (if pi_running (me_info e1) then mark_info (\<lambda>i. i\<lparr>pi_status_text := ''stopped''\<rparr>) e1 else e1,
                   k_killpg k (me_pgid e) w))
            else (e, w)) of
        (e2, w2) \<Rightarrow> (mark_info (\<lambda>i. i\<lparr>pi_running := False\<rparr>) e2, w2))"

definition stop_locked :: "'w kernel \<Rightarrow> managed_entry \<Rightarrow> 'w \<Rightarrow> managed_entry \<times> 'w" where
  "stop_locked k = (if k_windows k then stop_windows k else stop_posix k)"

section \<open>Looking\<close>

definition refresh_windows :: "'w kernel \<Rightarrow> managed_entry \<Rightarrow> 'w \<Rightarrow> managed_entry \<times> 'w" where
  "refresh_windows k e w =
     (case me_process e of
        None \<Rightarrow> (mark_info (\<lambda>i. i\<lparr>pi_running := False\<rparr>) e, w)
      | Some process \<Rightarrow>
          (case k_exit_code k process w of (result, w1) \<Rightarrow>
             if result = Some STILL_ACTIVE then (mark_info (\<lambda>i. i\<lparr>pi_running := True, pi_status_text := ''running''\<rparr>) e, w1)
             else
               (let exit_code = (case result of Some c \<Rightarrow> c | None \<Rightarrow> 0);
                    e1 = mark_info (\<lambda>i. i\<lparr>pi_running := False, pi_status_text := ''exited ('' @ to_string (int exit_code) @ '')''\<rparr>) e;
                    w2 = k_close_handle k process w1
                in (e1\<lparr>me_process := None, me_job := None\<rparr>,
                    case me_job e of Some job \<Rightarrow> k_close_handle k job w2 | None \<Rightarrow> w2))))"

definition refresh_posix :: "'w kernel \<Rightarrow> managed_entry \<Rightarrow> 'w \<Rightarrow> managed_entry \<times> 'w" where
  "refresh_posix k e w =
     (if me_pgid e \<le> 0 then (mark_info (\<lambda>i. i\<lparr>pi_running := False\<rparr>) e, w)
      else
        (case k_waitpid k (pi_pid (me_info e)) w of (result, w1) \<Rightarrow>
           if result = 0 then (mark_info (\<lambda>i. i\<lparr>pi_running := True, pi_status_text := ''running''\<rparr>) e, w1)
           else ((mark_info (\<lambda>i. i\<lparr>pi_running := False, pi_status_text := ''exited''\<rparr>) e)\<lparr>me_pgid := 0\<rparr>, w1)))"

definition refresh_locked :: "'w kernel \<Rightarrow> managed_entry \<Rightarrow> 'w \<Rightarrow> managed_entry \<times> 'w" where
  "refresh_locked k = (if k_windows k then refresh_windows k else refresh_posix k)"

section \<open>Launching\<close>

text \<open>
  A bare first word that exists in the working directory is made relative, since \<open>cmd.exe\<close> may not
  look there.
\<close>

definition effective_command :: "'w kernel \<Rightarrow> string \<Rightarrow> string \<Rightarrow> 'w \<Rightarrow> string" where
  "effective_command k working_dir command w =
     (let first_token = takeWhile (\<lambda>c. c \<noteq> blank) command
      in if working_dir \<noteq> [] \<and> slash \<notin> set first_token \<and> bslash \<notin> set first_token \<and> k_path_exists k working_dir first_token w
         then [CHR ''.'', bslash] @ command else command)"

definition launch_windows :: "'w kernel \<Rightarrow> string \<Rightarrow> string \<Rightarrow> managed_entry \<Rightarrow> 'w \<Rightarrow> (bool \<times> string) \<times> managed_entry \<times> 'w" where
  "launch_windows k working_dir command e w =
     (case k_create_job k w of
        (None, w1) \<Rightarrow>
          ((False, ''CreateJobObject failed''), mark_info (\<lambda>i. i\<lparr>pi_status_text := ''CreateJobObject failed''\<rparr>) e, w1)
      | (Some job, w1) \<Rightarrow>
          (case k_create_process k (''cmd.exe /c '' @ effective_command k working_dir command w1) working_dir job w1 of
             (Inl last_error, w2) \<Rightarrow>
               (let err = ''CreateProcess failed ('' @ to_string (int last_error) @ '')''
                in ((False, err), mark_info (\<lambda>i. i\<lparr>pi_status_text := err\<rparr>) e, k_close_handle k job w2))
           | (Inr (pid, process), w2) \<Rightarrow>
               ((True, []),
                (mark_info (\<lambda>i. i\<lparr>pi_pid := pid, pi_running := True, pi_status_text := ''running''\<rparr>) e)
                  \<lparr>me_job := Some job, me_process := Some process\<rparr>, w2)))"

definition launch_posix :: "'w kernel \<Rightarrow> string \<Rightarrow> string \<Rightarrow> managed_entry \<Rightarrow> 'w \<Rightarrow> (bool \<times> string) \<times> managed_entry \<times> 'w" where
  "launch_posix k working_dir command e w =
     (case k_fork k working_dir command w of (pid, w1) \<Rightarrow>
        if pid < 0 then ((False, ''fork failed''), mark_info (\<lambda>i. i\<lparr>pi_status_text := ''fork failed''\<rparr>) e, w1)
        else ((True, []),
              (mark_info (\<lambda>i. i\<lparr>pi_pid := pid, pi_running := True, pi_status_text := ''running''\<rparr>) e)\<lparr>me_pgid := pid\<rparr>, w1))"

definition launch_process :: "'w kernel \<Rightarrow> string \<Rightarrow> string \<Rightarrow> string \<Rightarrow> string \<Rightarrow> 'w managed \<Rightarrow> (bool \<times> string) \<times> 'w managed" where
  "launch_process k key label working_dir command s =
     (case stop_locked k (entry_of key (fst s)) (snd s) of (e, w) \<Rightarrow>
        (let e1 = e\<lparr>me_info := idle_info\<lparr>pi_key := key, pi_label := label\<rparr>, me_command := command, me_working_dir := working_dir\<rparr>
         in case (if k_windows k then launch_windows else launch_posix) k working_dir command e1 w of
              (result, e2, w2) \<Rightarrow> (result, put_entry key e2 (fst s), w2)))"

section \<open>The other operations\<close>

definition had_process :: "'w kernel \<Rightarrow> managed_entry \<Rightarrow> bool" where
  "had_process k e = (if k_windows k then me_process e \<noteq> None else me_pgid e > 0)"

definition stop_process :: "'w kernel \<Rightarrow> string \<Rightarrow> 'w managed \<Rightarrow> (bool \<times> string) \<times> 'w managed" where
  "stop_process k key s =
     (case map_of (fst s) key of
        None \<Rightarrow> ((False, ''no process for key''), s)
      | Some e \<Rightarrow>
          if \<not> had_process k e then ((False, ''process not running''), s)
          else (case stop_locked k e (snd s) of (e1, w1) \<Rightarrow> ((True, []), put_entry key e1 (fst s), w1)))"

text \<open>One operation on every entry, in the order of the keys.\<close>

fun each_entry :: "(managed_entry \<Rightarrow> 'w \<Rightarrow> managed_entry \<times> 'w) \<Rightarrow> process_entries \<Rightarrow> 'w \<Rightarrow> process_entries \<times> 'w" where
  "each_entry f [] w = ([], w)"
| "each_entry f ((key, e) # m) w = (case f e w of (e1, w1) \<Rightarrow> apfst ((#) (key, e1)) (each_entry f m w1))"

definition process_snapshot :: "'w kernel \<Rightarrow> 'w managed \<Rightarrow> process_info list \<times> 'w managed" where
  "process_snapshot k s =
     (case each_entry (refresh_locked k) (fst s) (snd s) of (m, w) \<Rightarrow> (map (\<lambda>(key, e). me_info e) m, m, w))"

text \<open>The destructor.\<close>

definition destroy_manager :: "'w kernel \<Rightarrow> 'w managed \<Rightarrow> 'w managed" where
  "destroy_manager k s = each_entry (stop_locked k) (fst s) (snd s)"

end
