(* ===== verification/Process_Laws.thy ===== *)
theory Process_Laws imports Complex_Main Process_Manager Host_Tasks begin

text \<open>
  What the process manager guarantees: nothing it has started is lost. The kernel is watched for
  what begins (a process group, a handle) and what ends (killed, seen to exit, closed); the locale
  proves once, for both systems, that the entries hold exactly the difference. Then what a look at the
  processes lists.
\<close>

section \<open>A watched kernel\<close>

record life =
  begun :: "int multiset"
  ended :: "int multiset"

definition begins :: "int \<Rightarrow> life \<Rightarrow> life" where
  "begins x l = l\<lparr>begun := add_mset x (begun l)\<rparr>"

definition ends :: "int \<Rightarrow> life \<Rightarrow> life" where
  "ends x l = l\<lparr>ended := add_mset x (ended l)\<rparr>"

text \<open>Group 0 is no group: \<open>fork\<close> gives its parent a positive id.\<close>

definition watched :: "'w kernel \<Rightarrow> ('w \<times> life) kernel" where
  "watched k = \<lparr>k_windows = k_windows k, k_path_exists = (\<lambda>d p (w, l). k_path_exists k d p w),
     k_create_job = (\<lambda>(w, l). case k_create_job k w of
        (None, w1) \<Rightarrow> (None, w1, l) | (Some job, w1) \<Rightarrow> (Some job, w1, begins job l)),
     k_create_process = (\<lambda>c d j (w, l). case k_create_process k c d j w of
        (Inl e, w1) \<Rightarrow> (Inl e, w1, l) | (Inr (pid, process), w1) \<Rightarrow> (Inr (pid, process), w1, begins process l)),
     k_terminate_job = (\<lambda>j (w, l). (k_terminate_job k j w, l)),
     k_close_handle = (\<lambda>h (w, l). (k_close_handle k h w, ends h l)),
     k_exit_code = (\<lambda>h (w, l). case k_exit_code k h w of (c, w1) \<Rightarrow> (c, w1, l)),
     k_fork = (\<lambda>d c (w, l). case k_fork k d c w of (pid, w1) \<Rightarrow> (pid, w1, if pid > 0 then begins pid l else l)),
     k_killpg = (\<lambda>g (w, l). (k_killpg k g w, ends g l)),
     k_waitpid = (\<lambda>p (w, l). case k_waitpid k p w of (r, w1) \<Rightarrow> (r, w1, if r \<noteq> 0 then ends p l else l))\<rparr>"

text \<open>\<open>f\<close> turns what \<open>a\<close> holds into what \<open>b\<close> holds, and everything else it begins it also ends.\<close>

definition balances :: "int multiset \<Rightarrow> life \<Rightarrow> int multiset \<Rightarrow> life \<Rightarrow> bool" where
  "balances a l b l' \<longleftrightarrow> begun l' + ended l + a = begun l + ended l' + b"

lemma balances_add:
  assumes "balances a l b l'" and "balances c l' d l''"
  shows "balances (a + c) l (b + d) l''"
proof -
  have "begun l'' + ended l + (a + c) + (begun l' + ended l') = (begun l' + ended l + a) + (begun l'' + ended l' + c)"
    by (simp only: ac_simps)
  also have "\<dots> = (begun l + ended l' + b) + (begun l' + ended l'' + d)"
    using assms by (simp only: balances_def)
  also have "\<dots> = begun l + ended l'' + (b + d) + (begun l' + ended l')"
    by (simp only: ac_simps)
  finally show ?thesis
    unfolding balances_def by simp
qed

lemma balances_trans: "balances a l b l' \<Longrightarrow> balances b l' c l'' \<Longrightarrow> balances a l c l''"
  using balances_add [of a l b l' b c l''] by (simp add: balances_def ac_simps)

section \<open>The entries of a map\<close>

definition in_order :: "process_entries \<Rightarrow> bool" where
  "in_order m \<longleftrightarrow> sorted_wrt (<) (map fst m)"

lemma keys_put: "fst ` set (put_entry k e m) = insert k (fst ` set m)"
  by (induction k e m rule: put_entry.induct) auto

lemma in_order_put: "in_order m \<Longrightarrow> in_order (put_entry k e m)"
proof (induction k e m rule: put_entry.induct)
  case (2 k e k' e' m)
  then show ?case
    using keys_put [of k e m] by (auto simp: in_order_def)
qed (simp add: in_order_def)

lemma set_put: "x \<in> set (put_entry k e m) \<Longrightarrow> x = (k, e) \<or> x \<in> set m"
  by (induction k e m rule: put_entry.induct) (auto split: if_splits)

lemma map_of_put: "in_order m \<Longrightarrow> map_of (put_entry k e m) = (map_of m)(k \<mapsto> e)"
proof (induction k e m rule: put_entry.induct)
  case (2 k e k' e' m)
  then show ?case
    by (auto simp: in_order_def fun_upd_twist)
qed simp

lemma in_order_each: "map fst (fst (each_entry f m w)) = map fst m"
  by (induction f m w rule: each_entry.induct) (simp_all split: prod.split)

section \<open>Nothing is lost\<close>

datatype process_op = Launch_Process string string string string | Stop_Process string | Look_At_Processes

definition process_does :: "'w kernel \<Rightarrow> process_op \<Rightarrow> 'w managed \<Rightarrow> 'w managed" where
  "process_does k op s =
     (case op of
        Launch_Process key label working_dir command \<Rightarrow> snd (launch_process k key label working_dir command s)
      | Stop_Process key \<Rightarrow> snd (stop_process k key s)
      | Look_At_Processes \<Rightarrow> snd (process_snapshot k s))"

definition processes_after :: "'w kernel \<Rightarrow> process_op list \<Rightarrow> 'w \<Rightarrow> 'w managed" where
  "processes_after k ops w = fold (process_does k) ops ([], w)"

locale managed_system =
  fixes k :: "('w \<times> life) kernel" and holds :: "managed_entry \<Rightarrow> int multiset" and good :: "managed_entry \<Rightarrow> bool"
  assumes stops: "good e \<Longrightarrow> stop_locked k e (w, l) = (e', w', l') \<Longrightarrow> balances (holds e) l {#} l' \<and> holds e' = {#} \<and> good e'"
    and refreshes: "good e \<Longrightarrow> refresh_locked k e (w, l) = (e', w', l') \<Longrightarrow> balances (holds e) l (holds e') l' \<and> good e'"
    and launches: "holds e = {#} \<Longrightarrow> (if k_windows k then launch_windows else launch_posix) k working_dir command e (w, l) = (r, e', w', l')
      \<Longrightarrow> balances {#} l (holds e') l' \<and> good e'"
    and nothing_held: "holds empty_entry = {#}" "good empty_entry"
    and relabelled: "holds (e\<lparr>me_info := i, me_command := c, me_working_dir := d\<rparr>) = holds e"
begin

definition held :: "process_entries \<Rightarrow> int multiset" where
  "held m = sum_list (map (\<lambda>(key, e). holds e) m)"

definition accounted :: "('w \<times> life) managed \<Rightarrow> bool" where
  "accounted s \<longleftrightarrow> in_order (fst s) \<and> (\<forall>(key, e) \<in> set (fst s). good e)
     \<and> begun (snd (snd s)) = ended (snd (snd s)) + held (fst s)"

lemma held_put: "in_order m \<Longrightarrow> held (put_entry key e m) + holds (entry_of key m) = held m + holds e"
proof (induction key e m rule: put_entry.induct)
  case (2 key e k' e' m)
  have "map_of m key = None" if "key < k'"
    using that 2(2) by (auto simp: in_order_def map_of_eq_None_iff)
  then show ?case
    using 2 nothing_held by (auto simp: held_def entry_of_def in_order_def ac_simps)
qed (simp add: held_def entry_of_def nothing_held)

lemma good_entry: "\<forall>(key, e) \<in> set m. good e \<Longrightarrow> good (entry_of key m)"
  using nothing_held by (auto simp: entry_of_def split: option.split dest: map_of_SomeD)

text \<open>An entry is replaced by one that balances it.\<close>

lemma accounted_put:
  assumes "accounted (m, w, l)" and "balances (holds (entry_of key m)) l (holds e) l'" and "good e"
  shows "accounted (put_entry key e m, w', l')"
proof -
  have m: "in_order m" "\<forall>(key, e) \<in> set m. good e" "begun l = ended l + held m"
    using assms(1) by (simp_all add: accounted_def)
  have "begun l' + (ended l + holds (entry_of key m)) = ended l' + held (put_entry key e m) + (ended l + holds (entry_of key m))"
    using assms(2) m(3) held_put [OF m(1), of key e] unfolding balances_def by (metis (no_types, lifting) add.assoc add.commute)
  then show ?thesis
    using m assms(3) by (auto simp: accounted_def in_order_put dest!: set_put)
qed

lemma accounted_launch: "accounted s \<Longrightarrow> accounted (snd (launch_process k key label working_dir command s))"
proof -
  assume a: "accounted s"
  obtain m w l where s: "s = (m, w, l)" by (cases s)
  let ?e = "entry_of key m"
  obtain e1 w1 l1 where st: "stop_locked k ?e (w, l) = (e1, w1, l1)" by (rule prod_cases3)
  have g: "good ?e" using a good_entry by (simp add: s accounted_def)
  note 1 = stops [OF g st]
  let ?e1 = "e1\<lparr>me_info := idle_info\<lparr>pi_key := key, pi_label := label\<rparr>, me_command := command, me_working_dir := working_dir\<rparr>"
  obtain r e2 w2 l2 where la: "(if k_windows k then launch_windows else launch_posix) k working_dir command ?e1 (w1, l1) = (r, e2, w2, l2)"
    by (rule prod_cases4)
  have 2: "balances {#} l1 (holds e2) l2 \<and> good e2"
    by (rule launches [OF _ la]) (simp add: relabelled 1)
  have "launch_process k key label working_dir command s = (r, put_entry key e2 m, w2, l2)"
    using st la by (simp add: launch_process_def s Let_def)
  then show ?thesis
    using accounted_put [of m w l key e2 l2 w2] a s 1 2 balances_trans by auto
qed

lemma accounted_stop: "accounted s \<Longrightarrow> accounted (snd (stop_process k key s))"
proof (cases "map_of (fst s) key")
  case (Some e)
  assume a: "accounted s"
  obtain m w l where s: "s = (m, w, l)" by (cases s)
  obtain e1 w1 l1 where st: "stop_locked k e (w, l) = (e1, w1, l1)" by (rule prod_cases3)
  have e: "entry_of key m = e" using Some by (simp add: entry_of_def s)
  then have g: "good e" using a good_entry [of m key] by (auto simp: s accounted_def)
  note 1 = stops [OF g st]
  then have "accounted (put_entry key e1 m, w1, l1)"
    using accounted_put [of m w l key e1 l1 w1] a s e by auto
  then show ?thesis
    using a Some st by (simp add: stop_process_def s)
qed (simp add: stop_process_def)

lemma each_balances:
  assumes "\<And>e w l e' w' l'. good e \<Longrightarrow> f e (w, l) = (e', w', l') \<Longrightarrow> balances (holds e) l (holds e') l' \<and> good e'"
    and "\<forall>(key, e) \<in> set m. good e" and "each_entry f m (w, l) = (m', w', l')"
  shows "balances (held m) l (held m') l' \<and> (\<forall>(key, e) \<in> set m'. good e)"
  using assms(2,3)
proof (induction m arbitrary: w l m' w' l')
  case Nil
  then show ?case by (simp add: balances_def held_def)
next
  case (Cons x m)
  obtain key e where x: "x = (key, e)" by (cases x)
  obtain e1 w1 l1 where f: "f e (w, l) = (e1, w1, l1)" by (rule prod_cases3)
  obtain m1 w2 l2 where m1: "each_entry f m (w1, l1) = (m1, w2, l2)" by (rule prod_cases3)
  have m': "m' = (key, e1) # m1" "w' = w2" "l' = l2" using Cons.prems(2) x f m1 by auto
  have 1: "balances (holds e) l (holds e1) l1" "good e1" using assms(1) [OF _ f] Cons.prems(1) x by auto
  have 2: "balances (held m) l1 (held m1) l2" "\<forall>(key, e) \<in> set m1. good e"
    using Cons.IH [OF _ m1] Cons.prems(1) by auto
  have "balances (held (x # m)) l (held m') l'"
    using balances_add [OF 1(1) 2(1)] by (simp add: held_def x m')
  then show ?case
    using 1(2) 2(2) by (simp add: m')
qed

lemma accounted_each:
  assumes "\<And>e w l e' w' l'. good e \<Longrightarrow> f e (w, l) = (e', w', l') \<Longrightarrow> balances (holds e) l (holds e') l' \<and> good e'"
    and "accounted s"
  shows "accounted (each_entry f (fst s) (snd s))"
proof -
  obtain m w l where s: "s = (m, w, l)" by (cases s)
  obtain m' w' l' where e: "each_entry f m (w, l) = (m', w', l')" by (rule prod_cases3)
  have "balances (held m) l (held m') l' \<and> (\<forall>(key, e) \<in> set m'. good e)"
    by (rule each_balances [OF assms(1) _ e]) (use assms(2) s in \<open>auto simp: accounted_def\<close>)
  moreover have "in_order m'"
    using in_order_each [of f m "(w, l)"] assms(2) by (simp add: e s accounted_def in_order_def)
  moreover have "begun l = ended l + held m"
    using assms(2) by (simp add: s accounted_def)
  ultimately show ?thesis
    unfolding s e fst_conv snd_conv accounted_def balances_def by (simp add: ac_simps)
qed

lemma accounted_after: "accounted (processes_after k ops (w, \<lparr>begun = {#}, ended = {#}\<rparr>))"
proof -
  have step: "accounted (process_does k op s)" if "accounted s" for op s
    using that accounted_launch accounted_stop accounted_each [of "refresh_locked k" s] refreshes
    by (auto simp: process_does_def process_snapshot_def case_prod_beta split: process_op.split)
  have "accounted (fold (process_does k) ops s)" if "accounted s" for s
    using that by (induction ops arbitrary: s) (auto simp: step)
  moreover have "accounted ([], w, \<lparr>begun = {#}, ended = {#}\<rparr>)"
    by (simp add: accounted_def in_order_def held_def)
  ultimately show ?thesis
    unfolding processes_after_def by blast
qed

lemma all_stopped:
  assumes "\<forall>(key, e) \<in> set m. good e" and "each_entry (stop_locked k) m (w, l) = (m', w', l')"
  shows "held m' = {#}"
  using assms
proof (induction m arbitrary: w l m')
  case Nil
  then show ?case by (simp add: held_def)
next
  case (Cons x m)
  obtain key e where x: "x = (key, e)" by (cases x)
  obtain e1 w1 l1 where f: "stop_locked k e (w, l) = (e1, w1, l1)" by (rule prod_cases3)
  obtain m1 w2 l2 where m1: "each_entry (stop_locked k) m (w1, l1) = (m1, w2, l2)" by (rule prod_cases3)
  have m': "m' = (key, e1) # m1" "w' = w2" "l' = l2" using Cons.prems(2) x f m1 by auto
  have "holds e1 = {#}" using stops [OF _ f] Cons.prems(1) x by auto
  moreover have "held m1 = {#}" using Cons.IH [of w1 l1 m1] m1 m' Cons.prems(1) by auto
  ultimately show ?case by (simp add: m' held_def)
qed

lemma nothing_lost:
  "let l = snd (snd (destroy_manager k (processes_after k ops (w, \<lparr>begun = {#}, ended = {#}\<rparr>)))) in begun l = ended l"
proof -
  let ?s = "processes_after k ops (w, \<lparr>begun = {#}, ended = {#}\<rparr>)"
  obtain m v l where s: "?s = (m, v, l)" by (rule prod_cases3)
  obtain m' v' l' where e: "each_entry (stop_locked k) m (v, l) = (m', v', l')" by (rule prod_cases3)
  have "accounted (m, v, l)" using accounted_after [of ops w] by (simp add: s)
  then have "accounted (m', v', l')"
    using accounted_each [of "stop_locked k" "(m, v, l)"] stops e by auto
  moreover have "held m' = {#}"
    using all_stopped [OF _ e] accounted_after [of ops w] by (simp add: s accounted_def)
  ultimately show ?thesis
    by (simp add: destroy_manager_def s e accounted_def)
qed

end

section \<open>Both systems\<close>

definition handles_of :: "managed_entry \<Rightarrow> int multiset" where
  "handles_of e = (case me_job e of Some job \<Rightarrow> {#job#} | None \<Rightarrow> {#})
     + (case me_process e of Some process \<Rightarrow> {#process#} | None \<Rightarrow> {#})"

definition group_of :: "managed_entry \<Rightarrow> int multiset" where
  "group_of e = (if me_pgid e > 0 then {#me_pgid e#} else {#})"

definition leads_group :: "managed_entry \<Rightarrow> bool" where
  "leads_group e \<longleftrightarrow> (me_pgid e > 0 \<longrightarrow> pi_pid (me_info e) = me_pgid e)"

lemma watched_calls:
  "k_windows (watched k) = k_windows k"
  "k_path_exists (watched k) d p (w, l) = k_path_exists k d p w"
  "k_create_job (watched k) (w, l) = (case k_create_job k w of (None, w1) \<Rightarrow> (None, w1, l) | (Some job, w1) \<Rightarrow> (Some job, w1, begins job l))"
  "k_create_process (watched k) c d j (w, l) = (case k_create_process k c d j w of
     (Inl e, w1) \<Rightarrow> (Inl e, w1, l) | (Inr (pid, process), w1) \<Rightarrow> (Inr (pid, process), w1, begins process l))"
  "k_terminate_job (watched k) j (w, l) = (k_terminate_job k j w, l)"
  "k_close_handle (watched k) h (w, l) = (k_close_handle k h w, ends h l)"
  "k_exit_code (watched k) h (w, l) = (case k_exit_code k h w of (c, w1) \<Rightarrow> (c, w1, l))"
  "k_fork (watched k) d c (w, l) = (case k_fork k d c w of (pid, w1) \<Rightarrow> (pid, w1, if pid > 0 then begins pid l else l))"
  "k_killpg (watched k) g (w, l) = (k_killpg k g w, ends g l)"
  "k_waitpid (watched k) i (w, l) = (case k_waitpid k i w of (r, w1) \<Rightarrow> (r, w1, if r \<noteq> 0 then ends i l else l))"
  by (simp_all add: watched_def)

lemmas balance_simps = balances_def begins_def ends_def mark_info_def watched_calls

interpretation windows: managed_system "watched (k\<lparr>k_windows := True\<rparr>)" handles_of "\<lambda>_. True" for k :: "'w kernel"
proof
  fix e e' w w' l l' r working_dir command
  let ?k = "watched (k\<lparr>k_windows := True\<rparr>)"
  show "stop_locked ?k e (w, l) = (e', w', l') \<Longrightarrow> balances (handles_of e) l {#} l' \<and> handles_of e' = {#} \<and> True"
    by (cases "me_job e"; cases "me_process e")
      (auto simp: stop_locked_def stop_windows_def handles_of_def balance_simps Let_def)
  show "refresh_locked ?k e (w, l) = (e', w', l') \<Longrightarrow> balances (handles_of e) l (handles_of e') l' \<and> True"
    by (cases "me_job e"; cases "me_process e")
      (auto simp: refresh_locked_def refresh_windows_def handles_of_def balance_simps Let_def split: prod.splits if_splits)
  show "handles_of e = {#} \<Longrightarrow> (if k_windows ?k then launch_windows else launch_posix) ?k working_dir command e (w, l) = (r, e', w', l')
      \<Longrightarrow> balances {#} l (handles_of e') l' \<and> True"
    by (cases "me_job e"; cases "me_process e")
      (auto simp: launch_windows_def handles_of_def balance_simps Let_def split: prod.splits option.splits sum.splits)
qed (simp_all add: handles_of_def empty_entry_def)

interpretation posix: managed_system "watched (k\<lparr>k_windows := False\<rparr>)" group_of leads_group for k :: "'w kernel"
proof
  fix e e' w w' l l' r working_dir command
  let ?k = "watched (k\<lparr>k_windows := False\<rparr>)"
  show "leads_group e \<Longrightarrow> stop_locked ?k e (w, l) = (e', w', l') \<Longrightarrow> balances (group_of e) l {#} l' \<and> group_of e' = {#} \<and> leads_group e'"
    by (cases "pi_running (me_info e)") (auto simp: stop_locked_def stop_posix_def group_of_def leads_group_def balance_simps Let_def split: if_splits)
  show "leads_group e \<Longrightarrow> refresh_locked ?k e (w, l) = (e', w', l') \<Longrightarrow> balances (group_of e) l (group_of e') l' \<and> leads_group e'"
    by (auto simp: refresh_locked_def refresh_posix_def group_of_def leads_group_def balance_simps split: prod.splits if_splits)
  show "group_of e = {#} \<Longrightarrow> (if k_windows ?k then launch_windows else launch_posix) ?k working_dir command e (w, l) = (r, e', w', l')
      \<Longrightarrow> balances {#} l (group_of e') l' \<and> leads_group e'"
    by (auto simp: launch_posix_def group_of_def leads_group_def balance_simps split: prod.splits if_splits)
qed (simp_all add: group_of_def leads_group_def empty_entry_def)

text \<open>
  C10: whatever is launched, stopped and looked at, in any order and whatever the system answers, when
  the manager is destroyed everything it began has ended, exactly as often: on Windows every
  job and process handle is closed, on POSIX systems every process group was killed or its leader seen to exit.
\<close>

theorem no_process_is_lost:
  "begun (snd (snd (destroy_manager (watched k) (processes_after (watched k) ops (w, \<lparr>begun = {#}, ended = {#}\<rparr>)))))
   = ended (snd (snd (destroy_manager (watched k) (processes_after (watched k) ops (w, \<lparr>begun = {#}, ended = {#}\<rparr>)))))"
proof (cases "k_windows k")
  case True
  then have "k\<lparr>k_windows := True\<rparr> = k" by simp
  then show ?thesis using windows.nothing_lost [of k ops w] by (simp add: Let_def)
next
  case False
  then have "k\<lparr>k_windows := False\<rparr> = k" by simp
  then show ?thesis using posix.nothing_lost [of k ops w] by (simp add: Let_def)
qed

section \<open>What is listed\<close>

text \<open>Every entry is listed under its own key.\<close>

definition own_keys :: "process_entries \<Rightarrow> bool" where
  "own_keys m \<longleftrightarrow> in_order m \<and> (\<forall>(key, e) \<in> set m. pi_key (me_info e) = key)"

lemma key_marked [simp]: "(\<And>i. pi_key (f i) = pi_key i) \<Longrightarrow> pi_key (me_info (mark_info f e)) = pi_key (me_info e)"
  by (simp add: mark_info_def)

lemma key_stop: "pi_key (me_info (fst (stop_locked k e w))) = pi_key (me_info e)"
  by (simp add: stop_locked_def stop_windows_def stop_posix_def mark_info_def Let_def)

lemma key_refresh: "pi_key (me_info (fst (refresh_locked k e w))) = pi_key (me_info e)"
  by (simp add: refresh_locked_def refresh_windows_def refresh_posix_def mark_info_def Let_def split: option.split prod.split)

lemma key_launch:
  "pi_key (me_info (fst (snd (launch_windows k wd c e w)))) = pi_key (me_info e)"
  "pi_key (me_info (fst (snd (launch_posix k wd c e w)))) = pi_key (me_info e)"
  by (simp_all add: launch_windows_def launch_posix_def mark_info_def Let_def split: option.split prod.split sum.split)

lemma own_put: "own_keys m \<Longrightarrow> pi_key (me_info e) = key \<Longrightarrow> own_keys (put_entry key e m)"
  by (auto simp: own_keys_def in_order_put dest!: set_put)

lemma own_each:
  assumes "\<And>e w. pi_key (me_info (fst (f e w))) = pi_key (me_info e)" and "own_keys m"
  shows "own_keys (fst (each_entry f m w))"
proof -
  have "\<forall>(key, e) \<in> set (fst (each_entry f m w)). pi_key (me_info e) = key" if "\<forall>(key, e) \<in> set m. pi_key (me_info e) = key"
    using that
  proof (induction m arbitrary: w)
    case (Cons x m)
    obtain key e where x: "x = (key, e)" by (cases x)
    show ?case
      using Cons.IH [of "snd (f e w)"] Cons.prems assms(1) [of e w] by (simp add: x case_prod_beta)
  qed simp
  then show ?thesis
    using assms(2) in_order_each [of f m w] by (simp add: own_keys_def in_order_def)
qed

lemma own_does: "own_keys (fst s) \<Longrightarrow> own_keys (fst (process_does k op s))"
proof -
  assume own: "own_keys (fst s)"
  have launch: "own_keys (fst (snd (launch_process k key label wd c s)))" for key label wd c
    using own by (simp add: launch_process_def case_prod_beta Let_def own_put key_launch)
  have stop: "own_keys (fst (snd (stop_process k key s)))" for key
  proof (cases "map_of (fst s) key")
    case (Some e)
    then have "pi_key (me_info e) = key" using own by (auto simp: own_keys_def dest: map_of_SomeD)
    then show ?thesis
      using own Some by (simp add: stop_process_def case_prod_beta own_put key_stop)
  qed (simp add: stop_process_def own)
  show "own_keys (fst (process_does k op s))"
    using launch stop own_each [OF key_refresh own]
    by (cases op) (simp_all add: process_does_def process_snapshot_def case_prod_beta)
qed

lemma own_after: "own_keys (fst (processes_after k ops w))"
proof -
  have "own_keys (fst s) \<Longrightarrow> own_keys (fst (fold (process_does k) ops s))" for s
    by (induction ops arbitrary: s) (simp_all add: own_does)
  moreover have "own_keys (fst ([], w))"
    by (simp add: own_keys_def in_order_def)
  ultimately show ?thesis
    unfolding processes_after_def by blast
qed

lemma find_info: "own_keys m \<Longrightarrow> find (\<lambda>i. pi_key i = key) (map (\<lambda>(key, e). me_info e) m) = map_option me_info (map_of m key)"
  by (induction m) (auto simp: own_keys_def in_order_def)

lemma each_lookup: "map_of m key = Some e \<Longrightarrow> \<exists>w'. map_of (fst (each_entry f m w)) key = Some (fst (f e w'))"
proof (induction m arbitrary: w)
  case (Cons x m)
  obtain key' e' where x: "x = (key', e')" by (cases x)
  show ?case
    using Cons.IH [of "snd (f e' w)"] Cons.prems by (auto simp: x case_prod_beta)
qed simp

lemma snapshot_lists:
  assumes "own_keys (fst s)" and "map_of (fst s) key = Some e"
  shows "\<exists>w. find (\<lambda>i. pi_key i = key) (fst (process_snapshot k s)) = Some (me_info (fst (refresh_locked k e w)))"
proof -
  have o: "own_keys (fst (each_entry (refresh_locked k) (fst s) (snd s)))"
    by (rule own_each [OF key_refresh assms(1)])
  have l: "fst (process_snapshot k s) = map (\<lambda>(key, e). me_info e) (fst (each_entry (refresh_locked k) (fst s) (snd s)))"
    by (simp add: process_snapshot_def split: prod.split)
  obtain w where "map_of (fst (each_entry (refresh_locked k) (fst s) (snd s))) key = Some (fst (refresh_locked k e w))"
    using each_lookup [OF assms(2), of "refresh_locked k" "snd s"] by (rule exE)
  then have "map_option me_info (map_of (fst (each_entry (refresh_locked k) (fst s) (snd s))) key) = Some (me_info (fst (refresh_locked k e w)))"
    by (simp only: option.map)
  then show ?thesis
    unfolding l find_info [OF o] by (rule exI)
qed

text \<open>
  A launch that succeeded is listed as running, under its key and label, as long as the system says
  that the process lives.
\<close>

theorem launched_process_is_listed:
  assumes "launch_process k key label working_dir command (processes_after k ops w) = ((True, err), s)"
    and "\<And>p w. fst (k_waitpid k p w) = 0" and "\<And>h w. fst (k_exit_code k h w) = Some STILL_ACTIVE"
    and "\<And>d c w. fst (k_fork k d c w) \<noteq> 0"
  shows "\<exists>pid. find (\<lambda>i. pi_key i = key) (fst (process_snapshot k s))
    = Some \<lparr>pi_key = key, pi_label = label, pi_pid = pid, pi_running = True, pi_status_text = ''running''\<rparr>"
proof -
  let ?s0 = "processes_after k ops w"
  have own: "own_keys (fst s)"
    using own_does [of ?s0 k "Launch_Process key label working_dir command"] own_after [of k ops w] assms(1) by (simp add: process_does_def)
  have "in_order (fst ?s0)" using own_after [of k ops w] by (simp add: own_keys_def)
  note put = map_of_put [OF this]
  obtain e where e: "map_of (fst s) key = Some e"
    "\<exists>pid. \<forall>w. me_info (fst (refresh_locked k e w)) = \<lparr>pi_key = key, pi_label = label, pi_pid = pid, pi_running = True, pi_status_text = ''running''\<rparr>"
  proof (cases "k_windows k")
    case True
    then show ?thesis
      using assms(1,3) put that
      by (auto simp: launch_process_def launch_windows_def refresh_locked_def refresh_windows_def mark_info_def idle_info_def
          Let_def case_prod_beta split: prod.splits option.splits sum.splits)
  next
    case False
    then show ?thesis
      using assms(1,2) assms(4) put that
      by (auto simp: launch_process_def launch_posix_def refresh_locked_def refresh_posix_def mark_info_def idle_info_def
          Let_def case_prod_beta split: prod.splits if_splits)
  qed
  show ?thesis
    using snapshot_lists [OF own e(1), of k] e(2) by auto
qed

definition small_kernel :: "int \<Rightarrow> unit kernel" where
  "small_kernel waited = \<lparr>k_windows = False, k_path_exists = (\<lambda>d p w. False), k_create_job = (\<lambda>w. (Some 1, w)),
     k_create_process = (\<lambda>c d j w. (Inr (7, 2), w)), k_terminate_job = (\<lambda>j w. w), k_close_handle = (\<lambda>h w. w),
     k_exit_code = (\<lambda>h w. (Some STILL_ACTIVE, w)), k_fork = (\<lambda>d c w. (7, w)), k_killpg = (\<lambda>g w. w),
     k_waitpid = (\<lambda>p w. (waited, w))\<rparr>"

theorem launched_process_is_listed_witness:
  "\<exists>pid. find (\<lambda>i. pi_key i = ''bot'') (fst (process_snapshot (small_kernel 0)
       (snd (launch_process (small_kernel 0) ''bot'' ''Bot'' [] ''run'' (processes_after (small_kernel 0) [] ())))))
    = Some \<lparr>pi_key = ''bot'', pi_label = ''Bot'', pi_pid = pid, pi_running = True, pi_status_text = ''running''\<rparr>"
proof -
  let ?k = "small_kernel 0"
  have "\<exists>s. launch_process ?k ''bot'' ''Bot'' [] ''run'' (processes_after ?k [] ()) = ((True, []), s)"
    by (simp add: launch_process_def launch_posix_def stop_locked_def small_kernel_def processes_after_def Let_def case_prod_beta)
  then obtain s where s: "launch_process ?k ''bot'' ''Bot'' [] ''run'' (processes_after ?k [] ()) = ((True, []), s)" ..
  have "fst (k_waitpid ?k p w) = 0" "fst (k_exit_code ?k h w) = Some STILL_ACTIVE" "fst (k_fork ?k d c w) \<noteq> 0" for p w h d c
    by (simp_all add: small_kernel_def)
  then show ?thesis
    using launched_process_is_listed [OF s] s by simp
qed

text \<open>
  A stop that succeeded ends the process for the manager: it is listed as stopped, and a second
  stop finds nothing to stop.
\<close>

theorem stopped_process_is_listed:
  assumes "stop_process k key (processes_after k ops w) = ((True, err), s)"
  shows "(\<exists>i. find (\<lambda>i. pi_key i = key) (fst (process_snapshot k s)) = Some i \<and> \<not> pi_running i)
    \<and> stop_process k key s = ((False, ''process not running''), s)"
proof -
  let ?s0 = "processes_after k ops w"
  have own: "own_keys (fst s)"
    using own_does [of ?s0 k "Stop_Process key"] own_after [of k ops w] assms by (simp add: process_does_def)
  have "in_order (fst ?s0)" using own_after [of k ops w] by (simp add: own_keys_def)
  note put = map_of_put [OF this]
  obtain e v where e: "map_of (fst s) key = Some (fst (stop_locked k e v))"
    using assms put by (auto simp: stop_process_def case_prod_beta split: option.splits if_splits)
  have "\<not> had_process k (fst (stop_locked k e v))"
    by (simp add: had_process_def stop_locked_def stop_windows_def stop_posix_def mark_info_def Let_def)
  moreover have "\<not> pi_running (me_info (fst (refresh_locked k (fst (stop_locked k e v)) u)))" for u
    by (simp add: refresh_locked_def refresh_windows_def refresh_posix_def stop_locked_def stop_windows_def stop_posix_def mark_info_def Let_def)
  ultimately show ?thesis
    using snapshot_lists [OF own e, of k] e by (auto simp: stop_process_def)
qed

theorem stopped_process_is_listed_witness:
  "\<exists>s. stop_process (small_kernel 0) ''bot'' (processes_after (small_kernel 0) [Launch_Process ''bot'' ''Bot'' [] ''run''] ()) = ((True, []), s)
    \<and> stop_process (small_kernel 0) ''bot'' s = ((False, ''process not running''), s)"
proof -
  let ?k = "small_kernel 0"
  have "\<exists>s. stop_process ?k ''bot'' (processes_after ?k [Launch_Process ''bot'' ''Bot'' [] ''run''] ()) = ((True, []), s)"
    by (simp add: stop_process_def launch_process_def launch_posix_def stop_locked_def small_kernel_def processes_after_def process_does_def
        had_process_def Let_def case_prod_beta)
  then obtain s where s: "stop_process ?k ''bot'' (processes_after ?k [Launch_Process ''bot'' ''Bot'' [] ''run''] ()) = ((True, []), s)" ..
  then show ?thesis
    using stopped_process_is_listed [OF s] by blast
qed

text \<open>
  On a POSIX system a look at the processes forgets the group of a command whose shell has exited,
  although what that shell left in the background still runs in it: a stop then answers that
  nothing is running and kills nothing.
\<close>

theorem exited_leader_cannot_be_stopped:
  assumes "\<not> k_windows k" and "map_of (fst s) key = Some e" and "\<And>p w. fst (k_waitpid k p w) \<noteq> 0"
  shows "stop_process k key (snd (process_snapshot k s)) = ((False, ''process not running''), snd (process_snapshot k s))"
proof -
  obtain w where "map_of (fst (each_entry (refresh_locked k) (fst s) (snd s))) key = Some (fst (refresh_locked k e w))"
    using each_lookup [OF assms(2), of "refresh_locked k" "snd s"] by (rule exE)
  moreover have "\<not> had_process k (fst (refresh_locked k e w))"
    using assms(1,3) by (simp add: had_process_def refresh_locked_def refresh_posix_def mark_info_def case_prod_beta)
  ultimately show ?thesis
    by (simp add: stop_process_def process_snapshot_def case_prod_beta)
qed

theorem exited_leader_cannot_be_stopped_witness:
  "\<exists>s. s = processes_after (small_kernel 7) [Launch_Process ''bot'' ''Bot'' [] ''run &''] ()
    \<and> stop_process (small_kernel 7) ''bot'' (snd (process_snapshot (small_kernel 7) s))
      = ((False, ''process not running''), snd (process_snapshot (small_kernel 7) s))"
proof -
  let ?s = "processes_after (small_kernel 7) [Launch_Process ''bot'' ''Bot'' [] ''run &''] ()"
  have "\<exists>e. map_of (fst ?s) ''bot'' = Some e"
    by (simp add: processes_after_def process_does_def launch_process_def small_kernel_def case_prod_beta Let_def)
  then obtain e where e: "map_of (fst ?s) ''bot'' = Some e" ..
  have "\<not> k_windows (small_kernel 7)" "fst (k_waitpid (small_kernel 7) p w) \<noteq> 0" for p w
    by (simp_all add: small_kernel_def)
  then show ?thesis
    using exited_leader_cannot_be_stopped [OF _ e] by blast
qed

end
