(* ===== verification/Os_Registry.thy ===== *)
theory Os_Registry imports Complex_Main Os_Interface begin

text \<open>
  \<open>cli/os_registry.cpp\<close>: reading one value of the registry of Windows, and the same reads below an
  open key (\<open>cli/app_index.cpp\<close>). The registry is an argument: \<open>None\<close> for a key that cannot be opened,
  and for each name under a key the type and the bytes of its value. On other systems every key is
  \<open>None\<close>.
\<close>

datatype reg_type = REG_SZ | REG_EXPAND_SZ | REG_DWORD | Other_Type

record registry_value =
  rv_type :: reg_type
  rv_data :: string

datatype registry_root = CurrentUser | LocalMachine

type_synonym registry_key = "string \<Rightarrow> registry_value option"
type_synonym registry = "registry_root \<Rightarrow> string \<Rightarrow> registry_key option"

text \<open>A text that is passed as a C string ends at its first NUL.\<close>

definition c_str :: "string \<Rightarrow> string" where
  "c_str s = takeWhile (\<lambda>c. c \<noteq> CHR 0x00) s"

definition text_of_value :: "registry_value option \<Rightarrow> string" where
  "text_of_value found =
     (case found of
        None \<Rightarrow> []
      | Some v \<Rightarrow>
          if rv_data v = [] then []
          else if rv_type v \<noteq> REG_SZ \<and> rv_type v \<noteq> REG_EXPAND_SZ then []
          else c_str (rv_data v))"

definition read_registry_string :: "registry \<Rightarrow> registry_root \<Rightarrow> string \<Rightarrow> string \<Rightarrow> string" where
  "read_registry_string reg hive subkey value_name =
     (case reg hive (c_str subkey) of
        None \<Rightarrow> []
      | Some key \<Rightarrow> text_of_value (key (c_str value_name)))"

text \<open>The bytes of a \<open>DWORD\<close>, the lowest first.\<close>

definition dword_of :: "string \<Rightarrow> nat" where
  "dword_of bytes = foldr (\<lambda>c n. of_char c + 256 * n) bytes 0"

text \<open>The query fails when more than the four bytes of a \<open>DWORD\<close> are stored.\<close>

definition read_registry_dword :: "registry \<Rightarrow> registry_root \<Rightarrow> string \<Rightarrow> string \<Rightarrow> nat option" where
  "read_registry_dword reg hive subkey value_name =
     (case reg hive (c_str subkey) of
        None \<Rightarrow> None
      | Some key \<Rightarrow>
          (case key (c_str value_name) of
             None \<Rightarrow> None
           | Some v \<Rightarrow> if length (rv_data v) > 4 \<or> rv_type v \<noteq> REG_DWORD then None else Some (dword_of (rv_data v))))"

text \<open>
  The reader of the application index fills its argument, 0 before the call, whatever the type; what
  a query that fails leaves there is not documented, and the argument is kept.
\<close>

definition key_dword :: "registry_key \<Rightarrow> string \<Rightarrow> nat" where
  "key_dword key value_name =
     (case key value_name of
        None \<Rightarrow> 0
      | Some v \<Rightarrow> if length (rv_data v) > 4 then 0 else dword_of (rv_data v))"

end
