(* ===== verification/Command_Runner.thy ===== *)
theory Command_Runner imports Complex_Main Host_Launch Os_Registry "HOL-Library.Monad_Syntax" begin

text \<open>
  \<open>cli/command_runner.cpp\<close>: one command run to its end with its output captured, and an application
  launched without waiting for it, on POSIX systems and on Windows. The system calls are the record
  \<open>'w child_os\<close>; a call that reads the pipes of the child gives what is there at that moment.
\<close>

section \<open>The system calls\<close>

datatype stream = Stdout | Stderr

text \<open>\<open>read\<close>: at least one byte, the end of the pipe, nothing now, or an error.\<close>

datatype read_result = Bytes string | End_Of_File | Would_Block | Read_Error

datatype child_status = Exited int | Signaled int | Other_Status

text \<open>
  \<open>c_fork command work_dir\<close> starts \<open>sh -c command\<close> in the directory, \<open>c_wait_nohang\<close> is \<open>Some\<close> when \<open>waitpid\<close>
  has reaped the child, \<open>c_pid_report\<close> is what the detached child of a launch writes to its pipe.
  The second group is Windows: \<open>c_start\<close> is \<open>CreateProcess\<close> (an error code, or the process id),
  \<open>c_wait_for\<close> tells whether the time was up, \<open>c_all_output\<close> what a pipe gives until it breaks.
\<close>

record 'w child_os =
  c_pipe :: "'w \<Rightarrow> bool \<times> 'w"
  c_fork :: "string \<Rightarrow> string \<Rightarrow> 'w \<Rightarrow> int \<times> 'w"
  c_read :: "stream \<Rightarrow> 'w \<Rightarrow> read_result \<times> 'w"
  c_wait_nohang :: "'w \<Rightarrow> child_status option \<times> 'w"
  c_wait :: "'w \<Rightarrow> child_status \<times> 'w"
  c_kill :: "'w \<Rightarrow> 'w"
  c_now :: "'w \<Rightarrow> int \<times> 'w"
  c_sleep :: "int \<Rightarrow> 'w \<Rightarrow> 'w"
  c_detach :: "string \<Rightarrow> string \<Rightarrow> 'w \<Rightarrow> int \<times> 'w"
  c_pid_report :: "'w \<Rightarrow> int option \<times> 'w"
  c_start :: "string \<Rightarrow> string \<Rightarrow> 'w \<Rightarrow> (nat + int) \<times> 'w"
  c_wait_for :: "int \<Rightarrow> 'w \<Rightarrow> bool \<times> 'w"
  c_terminate :: "'w \<Rightarrow> 'w"
  c_all_output :: "stream \<Rightarrow> 'w \<Rightarrow> string \<times> 'w"
  c_exit_code :: "'w \<Rightarrow> nat \<times> 'w"
  c_image_path :: "'w \<Rightarrow> string option \<times> 'w"

section \<open>POSIX: reading while the command runs\<close>

partial_function (option) drain_available :: "'w child_os \<Rightarrow> stream \<Rightarrow> string \<Rightarrow> 'w \<Rightarrow> (bool \<times> string \<times> 'w) option" where
  "drain_available c fd out w =
     (case c_read c fd w of (result, w1) \<Rightarrow>
        (case result of
           Bytes b \<Rightarrow> drain_available c fd (out @ b) w1
         | End_Of_File \<Rightarrow> Some (False, out, w1)
         | Would_Block \<Rightarrow> Some (True, out, w1)
         | Read_Error \<Rightarrow> Some (False, out, w1)))"

text \<open>The loop ends with the status of the child, or without one when the time is up.\<close>

partial_function (option) watch_child ::
    "'w child_os \<Rightarrow> int \<Rightarrow> int \<Rightarrow> string \<Rightarrow> string \<Rightarrow> 'w \<Rightarrow> (child_status option \<times> string \<times> string \<times> 'w) option" where
  "watch_child c timeout_ms deadline out err w =
     Option.bind (drain_available c Stdout out w) (\<lambda>(stdout_open, out1, w1).
       Option.bind (drain_available c Stderr err w1) (\<lambda>(stderr_open, err1, w2).
         (case c_wait_nohang c w2 of (reaped, w3) \<Rightarrow>
            (if reaped \<noteq> None then Some (reaped, out1, err1, w3)
             else if \<not> stdout_open \<and> \<not> stderr_open then
               (case c_wait c w3 of (status, w4) \<Rightarrow> Some (Some status, out1, err1, w4))
             else
               (case (if timeout_ms > 0 then apfst Some (c_now c w3) else (None, w3)) of (now, w4) \<Rightarrow>
                  (if now \<noteq> None \<and> the now \<ge> deadline then Some (None, out1, err1, w4)
                   else watch_child c timeout_ms deadline out1 err1 (c_sleep c 20 w4)))))))"

definition status_code :: "child_status \<Rightarrow> int" where
  "status_code status = (case status of Exited code \<Rightarrow> code | Signaled sig \<Rightarrow> 128 + sig | Other_Status \<Rightarrow> 0)"

definition failed_run :: "string \<Rightarrow> command_run_result" where
  "failed_run message = empty_run_result\<lparr>rr_error_message := message\<rparr>"

definition timeout_message :: "int \<Rightarrow> string" where
  "timeout_message timeout_ms = ''command timed out after '' @ to_string timeout_ms @ ''ms''"

definition run_command_posix :: "'w child_os \<Rightarrow> string \<Rightarrow> string \<Rightarrow> int \<Rightarrow> 'w \<Rightarrow> (command_run_result \<times> 'w) option" where
  "run_command_posix c command work_dir timeout_ms w =
     (if command = [] then Some (failed_run ''command is empty'', w)
      else
        (case c_pipe c w of (first_pipe, w1) \<Rightarrow>
           (case (if first_pipe then c_pipe c w1 else (False, w1)) of (pipes, w2) \<Rightarrow>
              (if \<not> pipes then Some (failed_run ''pipe() failed'', w2)
               else
                 (case c_fork c command work_dir w2 of (child_pid, w3) \<Rightarrow>
                    (if child_pid < 0 then Some (failed_run ''fork() failed'', w3)
                     else
                       (case c_now c w3 of (now, w4) \<Rightarrow>
                          Option.bind (watch_child c timeout_ms (now + max timeout_ms 0) [] [] w4) (\<lambda>(ended, out, err, w5).
                            (case ended of
                               Some status \<Rightarrow>
                                 Some (\<lparr>rr_launched = True, rr_exit_code = status_code status, rr_stdout_text = out,
                                    rr_stderr_text = err, rr_error_message = []\<rparr>, w5)
                             | None \<Rightarrow>
                                 (case c_wait c (c_kill c w5) of (status, w6) \<Rightarrow>
                                    Option.bind (drain_available c Stdout out w6) (\<lambda>(_, out1, w7).
                                      Option.bind (drain_available c Stderr err w7) (\<lambda>(_, err1, w8).
                                        Some (\<lparr>rr_launched = True, rr_exit_code = 0, rr_stdout_text = out1,
                                          rr_stderr_text = err1, rr_error_message = timeout_message timeout_ms\<rparr>, w8)))))))))))))"

text \<open>
  The command line of a launched application is put together without quotes; the application is
  detached by a second fork, which reports its id through a pipe.
\<close>

definition posix_command_line :: "string \<Rightarrow> string \<Rightarrow> string" where
  "posix_command_line path_or_name args = path_or_name @ (if args \<noteq> [] then [blank] @ args else [])"

definition failed_launch :: "string \<Rightarrow> launch_app_result" where
  "failed_launch message = empty_launch\<lparr>la_error_message := message\<rparr>"

definition launch_application_posix :: "'w child_os \<Rightarrow> string \<Rightarrow> string \<Rightarrow> string \<Rightarrow> 'w \<Rightarrow> launch_app_result \<times> 'w" where
  "launch_application_posix c path_or_name args work_dir w =
     (if path_or_name = [] then (failed_launch ''path_or_name is empty'', w)
      else
        (case c_pipe c w of (piped, w1) \<Rightarrow>
           (if \<not> piped then (failed_launch ''pipe() failed'', w1)
            else
              (case c_detach c (posix_command_line path_or_name args) work_dir w1 of (middle_pid, w2) \<Rightarrow>
                 (if middle_pid < 0 then (failed_launch ''fork() failed'', w2)
                  else
                    (case c_pid_report c w2 of (report, w3) \<Rightarrow>
                       (case c_wait c w3 of (status, w4) \<Rightarrow>
                          (let app_pid = (case report of Some pid \<Rightarrow> pid | None \<Rightarrow> 0);
                               launched = (report \<noteq> None \<and> app_pid > 0)
                           in (\<lparr>la_launched = launched, la_pid = app_pid,
                                 la_error_message = (if launched then [] else ''failed to launch '' @ path_or_name),
                                 la_resolved_path = []\<rparr>, w4)))))))))"

section \<open>Windows\<close>

text \<open>\<open>INFINITE\<close>, as a \<open>DWORD\<close>.\<close>

definition INFINITE :: int where
  "INFINITE = 2 ^ 32 - 1"

definition create_process_failed :: "nat \<Rightarrow> string" where
  "create_process_failed last_error = ''CreateProcess failed ('' @ to_string (int last_error) @ '')''"

text \<open>The threads that read the pipes end when every writer is gone.\<close>

definition run_command_windows :: "'w child_os \<Rightarrow> string \<Rightarrow> string \<Rightarrow> int \<Rightarrow> bool \<Rightarrow> 'w \<Rightarrow> command_run_result \<times> 'w" where
  "run_command_windows c command work_dir timeout_ms via_shell w =
     (if command = [] then (failed_run ''command is empty'', w)
      else
        (case c_pipe c w of (first_pipe, w1) \<Rightarrow>
           (if \<not> first_pipe then (failed_run ''CreatePipe(stdout) failed'', w1)
            else
              (case c_pipe c w1 of (second_pipe, w2) \<Rightarrow>
                 (if \<not> second_pipe then (failed_run ''CreatePipe(stderr) failed'', w2)
                  else
                    (case c_start c (if via_shell then ''cmd.exe /c '' @ command else command) work_dir w2 of
                       (Inl last_error, w3) \<Rightarrow> (failed_run (create_process_failed last_error), w3)
                     | (Inr pid, w3) \<Rightarrow>
                         (case c_wait_for c (if timeout_ms > 0 then timeout_ms else INFINITE) w3 of (timed_out, w4) \<Rightarrow>
                            (let w5 = (if timed_out then snd (c_wait_for c 2000 (c_terminate c w4)) else w4)
                             in case c_all_output c Stdout w5 of (out, w6) \<Rightarrow>
                                  (case c_all_output c Stderr w6 of (err, w7) \<Rightarrow>
                                     (case c_exit_code c w7 of (exit_code, w8) \<Rightarrow>
                                        (\<lparr>rr_launched = True, rr_exit_code = wrap32 (int exit_code), rr_stdout_text = out,
                                           rr_stderr_text = err,
                                           rr_error_message = (if timed_out then timeout_message timeout_ms else [])\<rparr>, w8)))))))))))"

definition windows_command_line :: "string \<Rightarrow> string \<Rightarrow> string" where
  "windows_command_line path_or_name args = [quot] @ path_or_name @ [quot] @ (if args \<noteq> [] then [blank] @ args else [])"

definition launch_application_windows :: "'w child_os \<Rightarrow> string \<Rightarrow> string \<Rightarrow> string \<Rightarrow> 'w \<Rightarrow> launch_app_result \<times> 'w" where
  "launch_application_windows c path_or_name args work_dir w =
     (if path_or_name = [] then (failed_launch ''path_or_name is empty'', w)
      else if \<not> looks_like_path path_or_name then
        (failed_launch ([CHR 0x27] @ path_or_name @ [CHR 0x27] @ '' is not a resolved path - launch_application ''
           @ ''requires a caller to resolve a bare name first (see the Windows execution ruleset in ''
           @ ''ARCHITECTURE.md); it does not do so itself.''), w)
      else
        (case c_start c (windows_command_line path_or_name args) work_dir w of
           (Inl last_error, w1) \<Rightarrow>
             (failed_launch (create_process_failed last_error @ '' trying to launch the already-resolved path '' @ [quot] @ path_or_name
                @ [quot] @ '' - it may have been deleted or become inaccessible between resolution and launch.''), w1)
         | (Inr pid, w1) \<Rightarrow>
             (case c_image_path c w1 of (image_path, w2) \<Rightarrow>
                (\<lparr>la_launched = True, la_pid = pid, la_error_message = [],
                   la_resolved_path = (case image_path of Some p \<Rightarrow> p | None \<Rightarrow> [])\<rparr>, w2))))"

section \<open>Names of Windows\<close>

text \<open>
  The key of a name is looked for below the current user, then below the machine; its text is the
  value without a name. The two directories of Windows are \<open>None\<close> when the system does not name them.
\<close>

definition app_paths_subkey :: "string \<Rightarrow> string" where
  "app_paths_subkey name =
     ''SOFTWARE'' @ [bslash] @ ''Microsoft'' @ [bslash] @ ''Windows'' @ [bslash] @ ''CurrentVersion'' @ [bslash] @ ''App Paths'' @ [bslash]
     @ (if length name < 4 \<or> drop (length name - 4) name \<noteq> ''.exe'' then name @ ''.exe'' else name)"

definition resolve_app_paths_registry :: "registry \<Rightarrow> string \<Rightarrow> string" where
  "resolve_app_paths_registry reg name =
     (let resolved = read_registry_string reg CurrentUser (app_paths_subkey name) []
      in if resolved \<noteq> [] then resolved else read_registry_string reg LocalMachine (app_paths_subkey name) [])"

definition resolve_system_executable :: "'w os \<Rightarrow> string option \<Rightarrow> string option \<Rightarrow> string \<Rightarrow> 'w \<Rightarrow> string" where
  "resolve_system_executable os system_dir windows_dir name w =
     (let found = (\<lambda>dir. case dir of
            Some d \<Rightarrow> (let candidate = fs_join os d name in if fs_exists os candidate w \<and> fs_is_regular_file os candidate w then candidate else [])
          | None \<Rightarrow> [])
      in if found system_dir \<noteq> [] then found system_dir else found windows_dir)"

end
