(* ===== verification/Command_Laws.thy ===== *)
theory Command_Laws imports Complex_Main Command_Runner begin

text \<open>
  What a run command gives back: a command with a time limit is over in time, its output is what
  was read from its pipes, and success means that it was seen to exit with 0. What it writes in
  its last moments can be missed.
\<close>

section \<open>The end\<close>

text \<open>A clock that never goes back, on which a sleep takes its time, and pipes that run dry.\<close>

definition ticking :: "('w \<Rightarrow> int) \<Rightarrow> 'w child_os \<Rightarrow> bool" where
  "ticking steady c \<longleftrightarrow>
     (\<forall>w. fst (c_now c w) = steady w \<and> steady w \<le> steady (snd (c_now c w)))
     \<and> (\<forall>n w. steady w + n \<le> steady (c_sleep c n w))
     \<and> (\<forall>fd w. steady w \<le> steady (snd (c_read c fd w)))
     \<and> (\<forall>w. steady w \<le> steady (snd (c_wait_nohang c w)))
     \<and> (\<forall>fd out w. drain_available c fd out w \<noteq> None)"

lemma drain_ticks':
  assumes d: "drain_available c fd out w = Some y"
  shows "ticking steady c \<longrightarrow> steady w \<le> steady (snd (snd y))"
proof (rule drain_available.raw_induct [where P = "\<lambda>c fd out w y. ticking steady c \<longrightarrow> steady w \<le> steady (snd (snd y))", OF _ d], rule impI)
  fix f and c :: "'a child_os" and fd out w y
  assume ih: "\<And>c fd out w y. f c fd out w = Some y \<Longrightarrow> ticking steady c \<longrightarrow> steady w \<le> steady (snd (snd y))"
    and e: "(case c_read c fd w of (result, w1) \<Rightarrow> (case result of
         Bytes b \<Rightarrow> f c fd (out @ b) w1 | End_Of_File \<Rightarrow> Some (False, out, w1)
       | Would_Block \<Rightarrow> Some (True, out, w1) | Read_Error \<Rightarrow> Some (False, out, w1))) = Some y"
    and t: "ticking steady c"
  have "steady w \<le> steady (snd (c_read c fd w))" using t by (simp add: ticking_def)
  then show "steady w \<le> steady (snd (snd y))"
    using e t by (auto split: prod.splits read_result.splits dest!: ih)
qed

lemma drain_ticks: "ticking steady c \<Longrightarrow> drain_available c fd out w = Some (is_open, out', w') \<Longrightarrow> steady w \<le> steady w'"
  using drain_ticks' [of c fd out w "(is_open, out', w')" steady] by simp

lemma watch_returns:
  assumes t: "ticking steady c" and "timeout_ms > 0"
  shows "watch_child c timeout_ms deadline out err w \<noteq> None"
proof (induction "nat (deadline - steady w)" arbitrary: out err w rule: less_induct)
  case less
  obtain so out1 w1 where 1: "drain_available c Stdout out w = Some (so, out1, w1)"
    using t unfolding ticking_def by (metis option.exhaust prod_cases3)
  obtain se err1 w2 where 2: "drain_available c Stderr err w1 = Some (se, err1, w2)"
    using t unfolding ticking_def by (metis option.exhaust prod_cases3)
  obtain reaped w3 where 3: "c_wait_nohang c w2 = (reaped, w3)" by (rule prod.exhaust)
  obtain now w4 where 4: "c_now c w3 = (now, w4)" by (rule prod.exhaust)
  have s: "steady w \<le> steady w1" "steady w1 \<le> steady w2" "steady w2 \<le> steady w3" "now = steady w3" "steady w3 \<le> steady w4"
    "steady w4 + 20 \<le> steady (c_sleep c 20 w4)"
    using drain_ticks [OF t 1] drain_ticks [OF t 2] t 3 4 unfolding ticking_def by (metis fst_conv snd_conv)+
  have again: "watch_child c timeout_ms deadline out1 err1 (c_sleep c 20 w4) \<noteq> None" if "\<not> now \<ge> deadline"
    by (rule less) (use s that in simp)
  show ?case
    using again assms(2) by (subst watch_child.simps) (auto simp: 1 2 3 4 split: prod.split)
qed


section \<open>The output\<close>

text \<open>What has been read from each pipe, beside the world.\<close>

definition lifted :: "('w \<Rightarrow> 'a \<times> 'w) \<Rightarrow> 'w \<times> 'l \<Rightarrow> 'a \<times> 'w \<times> 'l" where
  "lifted f s = (case f (fst s) of (a, w1) \<Rightarrow> (a, w1, snd s))"

definition reading :: "'w child_os \<Rightarrow> ('w \<times> (stream \<Rightarrow> string)) child_os" where
  "reading c = \<lparr>c_pipe = lifted (c_pipe c), c_fork = (\<lambda>x y. lifted (c_fork c x y)),
     c_read = (\<lambda>fd s. case c_read c fd (fst s) of (result, w1) \<Rightarrow>
        (result, w1, case result of Bytes b \<Rightarrow> (snd s)(fd := snd s fd @ b) | _ \<Rightarrow> snd s)),
     c_wait_nohang = lifted (c_wait_nohang c), c_wait = lifted (c_wait c), c_kill = apfst (c_kill c),
     c_now = lifted (c_now c), c_sleep = (\<lambda>n. apfst (c_sleep c n)), c_detach = (\<lambda>x y. lifted (c_detach c x y)),
     c_pid_report = lifted (c_pid_report c), c_start = (\<lambda>x y. lifted (c_start c x y)),
     c_wait_for = (\<lambda>n. lifted (c_wait_for c n)), c_terminate = apfst (c_terminate c),
     c_all_output = (\<lambda>fd. lifted (c_all_output c fd)), c_exit_code = lifted (c_exit_code c),
     c_image_path = lifted (c_image_path c)\<rparr>"

lemma reading_calls:
  "c_read (reading c) fd s = (case c_read c fd (fst s) of (result, w1) \<Rightarrow>
     (result, w1, case result of Bytes b \<Rightarrow> (snd s)(fd := snd s fd @ b) | _ \<Rightarrow> snd s))"
  "snd (snd (c_pipe (reading c) s)) = snd s" "snd (snd (c_fork (reading c) x y s)) = snd s"
  "snd (snd (c_wait_nohang (reading c) s)) = snd s" "snd (snd (c_wait (reading c) s)) = snd s"
  "snd (snd (c_now (reading c) s)) = snd s" "snd (c_sleep (reading c) n s) = snd s" "snd (c_kill (reading c) s) = snd s"
  by (simp_all add: reading_def lifted_def case_prod_beta)

lemma drain_reads:
  assumes "drain_available (reading c) fd out s = Some (is_open, out', s')"
  shows "\<exists>more. out' = out @ more \<and> snd s' = (snd s)(fd := snd s fd @ more)"
proof -
  have "r = reading c \<longrightarrow> (\<exists>more. fst (snd y) = out @ more \<and> snd (snd (snd y)) = (snd s)(fd := snd s fd @ more))"
    if d: "drain_available r fd out s = Some y" for r y
  proof (rule drain_available.raw_induct [where P = "\<lambda>r fd out s y. r = reading c \<longrightarrow>
      (\<exists>more. fst (snd y) = out @ more \<and> snd (snd (snd y)) = (snd s)(fd := snd s fd @ more))", OF _ d], rule impI)
    fix f and r :: "('a \<times> (stream \<Rightarrow> string)) child_os" and fd out s y
    assume ih: "\<And>r fd out s y. f r fd out s = Some y \<Longrightarrow> r = reading c \<longrightarrow>
        (\<exists>more. fst (snd y) = out @ more \<and> snd (snd (snd y)) = (snd s)(fd := snd s fd @ more))"
      and e: "(case c_read r fd s of (result, w1) \<Rightarrow> (case result of
           Bytes b \<Rightarrow> f r fd (out @ b) w1 | End_Of_File \<Rightarrow> Some (False, out, w1)
         | Would_Block \<Rightarrow> Some (True, out, w1) | Read_Error \<Rightarrow> Some (False, out, w1))) = Some y"
      and r: "r = reading c"
    obtain result w1 where c: "c_read c fd (fst s) = (result, w1)" by (rule prod.exhaust)
    show "\<exists>more. fst (snd y) = out @ more \<and> snd (snd (snd y)) = (snd s)(fd := snd s fd @ more)"
    proof (cases result)
      case (Bytes b)
      then have "f r fd (out @ b) (w1, (snd s)(fd := snd s fd @ b)) = Some y"
        using e c by (simp add: r reading_calls)
      from ih [OF this] r obtain more where "fst (snd y) = (out @ b) @ more"
        "snd (snd (snd y)) = ((snd s)(fd := snd s fd @ b))(fd := ((snd s)(fd := snd s fd @ b)) fd @ more)" by auto
      then show ?thesis by (intro exI [of _ "b @ more"]) simp
    qed (use e c in \<open>auto simp: r reading_calls intro: exI [of _ "[]"]\<close>)
  qed
  then show ?thesis using assms by fastforce
qed

text \<open>One round of the loop, and how it can go on.\<close>

definition round_then ::
    "'w child_os \<Rightarrow> int \<Rightarrow> int \<Rightarrow> string \<Rightarrow> string \<Rightarrow> 'w \<Rightarrow> (string \<Rightarrow> string \<Rightarrow> 'w \<Rightarrow> (child_status option \<times> string \<times> string \<times> 'w) option)
      \<Rightarrow> (child_status option \<times> string \<times> string \<times> 'w) option" where
  "round_then c timeout_ms deadline out err w again =
     Option.bind (drain_available c Stdout out w) (\<lambda>(stdout_open, out1, w1).
       Option.bind (drain_available c Stderr err w1) (\<lambda>(stderr_open, err1, w2).
         (case c_wait_nohang c w2 of (reaped, w3) \<Rightarrow>
            (if reaped \<noteq> None then Some (reaped, out1, err1, w3)
             else if \<not> stdout_open \<and> \<not> stderr_open then
               (case c_wait c w3 of (status, w4) \<Rightarrow> Some (Some status, out1, err1, w4))
             else
               (case (if timeout_ms > 0 then apfst Some (c_now c w3) else (None, w3)) of (now, w4) \<Rightarrow>
                  (if now \<noteq> None \<and> the now \<ge> deadline then Some (None, out1, err1, w4)
                   else again out1 err1 (c_sleep c 20 w4)))))))"

lemma round_cases:
  assumes r: "round_then c timeout_ms deadline out err w again = Some y"
  obtains so se out1 err1 w1 w2 w3 w4 w5 reaped where
    "drain_available c Stdout out w = Some (so, out1, w1)" "drain_available c Stderr err w1 = Some (se, err1, w2)"
    "c_wait_nohang c w2 = (reaped, w3)"
    "(\<exists>status. reaped = Some status \<and> y = (Some status, out1, err1, w3))
     \<or> (\<exists>status. c_wait c w3 = (status, w4) \<and> y = (Some status, out1, err1, w4))
     \<or> (w5 = snd (c_now c w3) \<or> w5 = w3) \<and> (y = (None, out1, err1, w5) \<or> again out1 err1 (c_sleep c 20 w5) = Some y)"
proof -
  obtain so out1 w1 where 1: "drain_available c Stdout out w = Some (so, out1, w1)"
    using r unfolding round_then_def by (cases "drain_available c Stdout out w") auto
  obtain se err1 w2 where 2: "drain_available c Stderr err w1 = Some (se, err1, w2)"
    using r 1 unfolding round_then_def by (cases "drain_available c Stderr err w1") auto
  obtain reaped w3 where 3: "c_wait_nohang c w2 = (reaped, w3)" by (rule prod.exhaust)
  obtain status w4 where 4: "c_wait c w3 = (status, w4)" by (rule prod.exhaust)
  obtain now w5 where 5: "(if timeout_ms > 0 then apfst Some (c_now c w3) else (None, w3)) = (now, w5)" by (rule prod.exhaust)
  then have "w5 = snd (c_now c w3) \<or> w5 = w3" by (auto simp: apfst_def map_prod_def split: if_splits prod.splits)
  moreover have "(case reaped of Some status \<Rightarrow> Some (Some status, out1, err1, w3)
     | None \<Rightarrow> if \<not> so \<and> \<not> se then Some (Some status, out1, err1, w4)
        else if now \<noteq> None \<and> the now \<ge> deadline then Some (None, out1, err1, w5) else again out1 err1 (c_sleep c 20 w5)) = Some y"
    using r unfolding round_then_def
    by (cases reaped) (simp_all only: 1 2 3 4 5 Option.bind.simps prod.case option.case option.distinct simp_thms if_True if_False not_False_eq_True)
  ultimately show ?thesis
    using that [OF 1 2 3, of w4 w5] 4 by (cases reaped) (auto split: if_splits)
qed

lemma watch_step: "watch_child c timeout_ms deadline out err w = round_then c timeout_ms deadline out err w (watch_child c timeout_ms deadline)"
  unfolding round_then_def by (rule watch_child.simps)

lemma watch_induct:
  assumes "watch_child c timeout_ms deadline out err w = Some y"
    and "\<And>again out err w y. (\<And>out err w y. again out err w = Some y \<Longrightarrow> Q out err w y)
      \<Longrightarrow> round_then c timeout_ms deadline out err w again = Some y \<Longrightarrow> Q out err w y"
  shows "Q out err w y"
proof -
  have all: "c' = c \<and> t' = timeout_ms \<and> d' = deadline \<longrightarrow> Q out err w y" if w: "watch_child c' t' d' out err w = Some y" for c' t' d' out err w y
  proof (rule watch_child.raw_induct [where P = "\<lambda>c' t' d' out err w y. c' = c \<and> t' = timeout_ms \<and> d' = deadline \<longrightarrow> Q out err w y", OF _ w], rule impI)
    fix f c' t' d' out err w y
    assume ih: "\<And>c' t' d' out err w y. f c' t' d' out err w = Some y \<Longrightarrow> c' = c \<and> t' = timeout_ms \<and> d' = deadline \<longrightarrow> Q out err w y"
      and e: "drain_available c' Stdout out w \<bind> (\<lambda>(stdout_open, out1, w1).
       drain_available c' Stderr err w1 \<bind> (\<lambda>(stderr_open, err1, w2).
         (case c_wait_nohang c' w2 of (reaped, w3) \<Rightarrow>
            (if reaped \<noteq> None then Some (reaped, out1, err1, w3)
             else if \<not> stdout_open \<and> \<not> stderr_open then
               (case c_wait c' w3 of (status, w4) \<Rightarrow> Some (Some status, out1, err1, w4))
             else
               (case (if t' > 0 then apfst Some (c_now c' w3) else (None, w3)) of (now, w4) \<Rightarrow>
                  (if now \<noteq> None \<and> the now \<ge> d' then Some (None, out1, err1, w4)
                   else f c' t' d' out1 err1 (c_sleep c' 20 w4))))))) = Some y"
      and s: "c' = c \<and> t' = timeout_ms \<and> d' = deadline"
    from s have eqs: "c' = c" "t' = timeout_ms" "d' = deadline" by simp_all
    have "round_then c timeout_ms deadline out err w (f c timeout_ms deadline) = Some y"
      using e unfolding round_then_def eqs .
    then show "Q out err w y"
    proof (rule assms(2) [rotated])
      fix out err w y
      assume "f c timeout_ms deadline out err w = Some y"
      from ih [OF this] show "Q out err w y" by simp
    qed
  qed
  show ?thesis using all [OF assms(1)] by simp
qed

lemma watch_reads:
  assumes "watch_child (reading c) timeout_ms deadline out err s = Some y"
  shows "out = snd s Stdout \<and> err = snd s Stderr \<longrightarrow>
    fst (snd y) = snd (snd (snd (snd y))) Stdout \<and> fst (snd (snd y)) = snd (snd (snd (snd y))) Stderr"
proof (rule watch_induct [where Q = "\<lambda>out err s y. out = snd s Stdout \<and> err = snd s Stderr \<longrightarrow>
    fst (snd y) = snd (snd (snd (snd y))) Stdout \<and> fst (snd (snd y)) = snd (snd (snd (snd y))) Stderr", OF assms], rule impI)
  fix again out err s y
  assume ih: "\<And>out err s y. again out err s = Some y \<Longrightarrow> out = snd s Stdout \<and> err = snd s Stderr \<longrightarrow>
      fst (snd y) = snd (snd (snd (snd y))) Stdout \<and> fst (snd (snd y)) = snd (snd (snd (snd y))) Stderr"
    and r: "round_then (reading c) timeout_ms deadline out err s again = Some y"
    and start: "out = snd s Stdout \<and> err = snd s Stderr"
  from r show "fst (snd y) = snd (snd (snd (snd y))) Stdout \<and> fst (snd (snd y)) = snd (snd (snd (snd y))) Stderr"
  proof (rule round_cases)
    fix so se out1 err1 s1 s2 s3 s4 s5 reaped
    assume d: "drain_available (reading c) Stdout out s = Some (so, out1, s1)" "drain_available (reading c) Stderr err s1 = Some (se, err1, s2)"
      and n: "c_wait_nohang (reading c) s2 = (reaped, s3)"
      and rest: "(\<exists>status. reaped = Some status \<and> y = (Some status, out1, err1, s3))
     \<or> (\<exists>status. c_wait (reading c) s3 = (status, s4) \<and> y = (Some status, out1, err1, s4))
     \<or> (s5 = snd (c_now (reading c) s3) \<or> s5 = s3)
       \<and> (y = (None, out1, err1, s5) \<or> again out1 err1 (c_sleep (reading c) 20 s5) = Some y)"
    have 2: "out1 = snd s2 Stdout" "err1 = snd s2 Stderr"
      using drain_reads [OF d(1)] drain_reads [OF d(2)] start by auto
    have 3: "snd s3 = snd s2" using reading_calls(4) [of c s2] n by simp
    have 4: "snd s4 = snd s2" if "c_wait (reading c) s3 = (status, s4)" for status
      using reading_calls(5) [of c s3] that 3 by simp
    have 5: "snd s5 = snd s2" if "s5 = snd (c_now (reading c) s3) \<or> s5 = s3"
      using reading_calls(6) [of c s3] that 3 by auto
    from rest show ?thesis
      using 2 3 4 5 reading_calls(7) [of c 20 s5] ih [of out1 err1 "c_sleep (reading c) 20 s5" y] by auto
  qed
qed

text \<open>
  The output of a run, also of one that was cut off, is exactly what was read from the two pipes,
  each in its own text and in order.
\<close>

theorem output_is_what_was_read:
  assumes "run_command_posix (reading c) command work_dir timeout_ms (w, \<lambda>fd. []) = Some (r, w', heard)"
  shows "rr_stdout_text r = heard Stdout \<and> rr_stderr_text r = heard Stderr"
proof -
  let ?c = "reading c"
  have silent: "rr_stdout_text r = heard Stdout \<and> rr_stderr_text r = heard Stderr"
    if "Some (failed_run m, s) = Some (r, w', heard)" "snd s = (\<lambda>fd. [])" for m s
    using that by (auto simp: failed_run_def empty_run_result_def)
  obtain p1 s1 where 1: "c_pipe ?c (w, \<lambda>fd. []) = (p1, s1)" by (rule prod.exhaust)
  obtain p2 s2 where 2: "(if p1 then c_pipe ?c s1 else (False, s1)) = (p2, s2)" by (rule prod.exhaust)
  obtain pid s3 where 3: "c_fork ?c command work_dir s2 = (pid, s3)" by (rule prod.exhaust)
  obtain now s4 where 4: "c_now ?c s3 = (now, s4)" by (rule prod.exhaust)
  have l: "snd s1 = (\<lambda>fd. [])" "snd s2 = (\<lambda>fd. [])" "snd s3 = (\<lambda>fd. [])" "snd s4 = (\<lambda>fd. [])"
  proof -
    show l1: "snd s1 = (\<lambda>fd. [])" using reading_calls(2) [of c "(w, \<lambda>fd. [])"] 1 by simp
    show l2: "snd s2 = (\<lambda>fd. [])" using reading_calls(2) [of c s1] 2 l1 by (auto split: if_splits)
    show l3: "snd s3 = (\<lambda>fd. [])" using reading_calls(3) [of c command work_dir s2] 3 l2 by simp
    show "snd s4 = (\<lambda>fd. [])" using reading_calls(6) [of c s3] 4 l3 by simp
  qed
  show ?thesis
  proof (cases "command = [] \<or> \<not> p2 \<or> pid < 0")
    case True
    then consider "command = []" | "command \<noteq> []" "\<not> p2" | "command \<noteq> []" "p2" "pid < 0" by blast
    then show ?thesis
    proof cases
      case 1
      then show ?thesis using assms by (intro silent [of "''command is empty''" "(w, \<lambda>fd. [])"]) (simp_all add: run_command_posix_def)
    next
      case c2: 2
      then show ?thesis using assms l by (intro silent [of "''pipe() failed''" s2]) (simp_all add: run_command_posix_def 1 2)
    next
      case c3: 3
      then show ?thesis using assms l by (intro silent [of "''fork() failed''" s3]) (simp_all add: run_command_posix_def 1 2 3)
    qed
  next
    case False
    then have run: "Option.bind (watch_child ?c timeout_ms (now + max timeout_ms 0) [] [] s4) (\<lambda>(ended, out, err, w5).
        (case ended of
           Some status \<Rightarrow> Some (\<lparr>rr_launched = True, rr_exit_code = status_code status, rr_stdout_text = out,
             rr_stderr_text = err, rr_error_message = []\<rparr>, w5)
         | None \<Rightarrow> (case c_wait ?c (c_kill ?c w5) of (status, w6) \<Rightarrow>
             Option.bind (drain_available ?c Stdout out w6) (\<lambda>(_, out1, w7).
               Option.bind (drain_available ?c Stderr err w7) (\<lambda>(_, err1, w8).
                 Some (\<lparr>rr_launched = True, rr_exit_code = 0, rr_stdout_text = out1, rr_stderr_text = err1,
                   rr_error_message = timeout_message timeout_ms\<rparr>, w8)))))) = Some (r, w', heard)"
      using assms by (simp add: run_command_posix_def 1 2 3 4)
    then obtain ended out err s5 where 5: "watch_child ?c timeout_ms (now + max timeout_ms 0) [] [] s4 = Some (ended, out, err, s5)"
      by (cases "watch_child ?c timeout_ms (now + max timeout_ms 0) [] [] s4") auto
    have h: "out = snd s5 Stdout" "err = snd s5 Stderr"
      using watch_reads [OF 5] l by auto
    show ?thesis
    proof (cases ended)
      case (Some status)
      then show ?thesis using run 5 h by auto
    next
      case None
      obtain st s6 where 6: "c_wait ?c (c_kill ?c s5) = (st, s6)" by (rule prod.exhaust)
      have l6: "snd s6 = snd s5"
        using reading_calls(5) [of c "c_kill ?c s5"] reading_calls(8) [of c s5] 6 by simp
      obtain b1 out1 s7 where 7: "drain_available ?c Stdout out s6 = Some (b1, out1, s7)"
        using run 5 None 6 by (cases "drain_available ?c Stdout out s6") auto
      obtain b2 err1 s8 where 8: "drain_available ?c Stderr err s7 = Some (b2, err1, s8)"
        using run 5 None 6 7 by (cases "drain_available ?c Stderr err s7") auto
      have "out1 = snd s8 Stdout" "err1 = snd s8 Stderr"
        using drain_reads [OF 7] drain_reads [OF 8] h l6 by auto
      then show ?thesis using run 5 None 6 7 8 by auto
    qed
  qed
qed

section \<open>What a report of success means\<close>

lemma watch_ends:
  assumes "watch_child c timeout_ms deadline out err w = Some y"
  shows "\<forall>status. fst y = Some status \<longrightarrow> (\<exists>u v. c_wait_nohang c u = (Some status, v) \<or> c_wait c u = (status, v))"
proof (rule watch_induct [where Q = "\<lambda>out err w y. \<forall>status. fst y = Some status \<longrightarrow>
    (\<exists>u v. c_wait_nohang c u = (Some status, v) \<or> c_wait c u = (status, v))", OF assms])
  fix again out err w y
  assume ih: "\<And>out err w y. again out err w = Some y \<Longrightarrow> \<forall>status. fst y = Some status \<longrightarrow>
      (\<exists>u v. c_wait_nohang c u = (Some status, v) \<or> c_wait c u = (status, v))"
    and r: "round_then c timeout_ms deadline out err w again = Some y"
  from r show "\<forall>status. fst y = Some status \<longrightarrow> (\<exists>u v. c_wait_nohang c u = (Some status, v) \<or> c_wait c u = (status, v))"
    by (rule round_cases) (auto dest: ih, metis+)
qed

text \<open>
  A run that counts as a success was reaped with a status that is 0: the command was started, was not
  cut off, and did not end with another exit code or by a signal.
\<close>

theorem success_was_reaped:
  assumes "run_command_posix c command work_dir timeout_ms w = Some (r, w')" and "command_succeeded r"
  shows "\<exists>status u v. (c_wait_nohang c u = (Some status, v) \<or> c_wait c u = (status, v)) \<and> status_code status = 0"
proof -
  have ok: "rr_launched r" "rr_exit_code r = 0" "rr_error_message r = []"
    using assms(2) by (simp_all add: command_succeeded_def)
  obtain now w4 where "Option.bind (watch_child c timeout_ms (now + max timeout_ms 0) [] [] w4) (\<lambda>(ended, out, err, w5).
        (case ended of
           Some status \<Rightarrow> Some (\<lparr>rr_launched = True, rr_exit_code = status_code status, rr_stdout_text = out,
             rr_stderr_text = err, rr_error_message = []\<rparr>, w5)
         | None \<Rightarrow> (case c_wait c (c_kill c w5) of (status, w6) \<Rightarrow>
             Option.bind (drain_available c Stdout out w6) (\<lambda>(_, out1, w7).
               Option.bind (drain_available c Stderr err w7) (\<lambda>(_, err1, w8).
                 Some (\<lparr>rr_launched = True, rr_exit_code = 0, rr_stdout_text = out1, rr_stderr_text = err1,
                   rr_error_message = timeout_message timeout_ms\<rparr>, w8)))))) = Some (r, w')"
    using assms(1) ok(1) unfolding run_command_posix_def
    by (auto simp: failed_run_def empty_run_result_def split: if_splits prod.splits)
  then obtain ended out err w5 where e: "watch_child c timeout_ms (now + max timeout_ms 0) [] [] w4 = Some (ended, out, err, w5)"
    "(case ended of
           Some status \<Rightarrow> Some (\<lparr>rr_launched = True, rr_exit_code = status_code status, rr_stdout_text = out,
             rr_stderr_text = err, rr_error_message = []\<rparr>, w5)
         | None \<Rightarrow> (case c_wait c (c_kill c w5) of (status, w6) \<Rightarrow>
             Option.bind (drain_available c Stdout out w6) (\<lambda>(_, out1, w7).
               Option.bind (drain_available c Stderr err w7) (\<lambda>(_, err1, w8).
                 Some (\<lparr>rr_launched = True, rr_exit_code = 0, rr_stdout_text = out1, rr_stderr_text = err1,
                   rr_error_message = timeout_message timeout_ms\<rparr>, w8))))) = Some (r, w')"
    by (cases "watch_child c timeout_ms (now + max timeout_ms 0) [] [] w4") auto
  show ?thesis
  proof (cases ended)
    case (Some status)
    then have "status_code status = 0" using e(2) ok(2) by auto
    then show ?thesis using watch_ends [OF e(1)] Some by auto
  next
    case None
    then have "rr_error_message r = timeout_message timeout_ms"
      using e(2) by (auto simp: bind_eq_Some_conv split: prod.splits)
    then show ?thesis using ok(3) by (simp add: timeout_message_def)
  qed
qed

text \<open>
  A small system for examples: the world is the number of calls that waited for the child. The child
  writes \<open>late\<close> and exits between the first look at its pipes and the first look at its status.
\<close>

definition late_child :: "nat child_os" where
  "late_child = \<lparr>c_pipe = (\<lambda>w. (True, w)), c_fork = (\<lambda>x y w. (5, w)),
     c_read = (\<lambda>fd w. (if w = 1 \<and> fd = Stdout then (Bytes ''late'', 2) else if w = 0 then (Would_Block, w) else (End_Of_File, w))),
     c_wait_nohang = (\<lambda>w. (Some (Exited 0), w + 1)), c_wait = (\<lambda>w. (Exited 0, w + 1)), c_kill = (\<lambda>w. w),
     c_now = (\<lambda>w. (0, w)), c_sleep = (\<lambda>n w. w), c_detach = (\<lambda>x y w. (5, w)), c_pid_report = (\<lambda>w. (Some 6, w)),
     c_start = (\<lambda>x y w. (Inr 5, w)), c_wait_for = (\<lambda>n w. (False, w)), c_terminate = (\<lambda>w. w),
     c_all_output = (\<lambda>fd w. ([], w)), c_exit_code = (\<lambda>w. (0, w)), c_image_path = (\<lambda>w. (None, w))\<rparr>"

lemma late_run:
  "run_command_posix late_child ''x'' [] 1000 0
   = Some (\<lparr>rr_launched = True, rr_exit_code = 0, rr_stdout_text = [], rr_stderr_text = [], rr_error_message = []\<rparr>, 1)"
proof -
  have d: "drain_available late_child fd [] 0 = Some (True, [], 0)" for fd
    by (subst drain_available.simps) (simp add: late_child_def)
  have "watch_child late_child 1000 deadline [] [] 0 = Some (Some (Exited 0), [], [], 1)" for deadline
    by (subst watch_child.simps) (simp add: d, simp add: late_child_def)
  then show ?thesis
    by (simp add: run_command_posix_def) (simp add: late_child_def status_code_def)
qed


theorem success_was_reaped_witness:
  "\<exists>status u v. (c_wait_nohang late_child u = (Some status, v) \<or> c_wait late_child u = (status, v)) \<and> status_code status = 0"
  by (rule success_was_reaped [OF late_run]) (simp add: command_succeeded_def)

text \<open>A child that says nothing and does not end; the world is the clock.\<close>

definition silent_child :: "int child_os" where
  "silent_child = \<lparr>c_pipe = (\<lambda>w. (True, w)), c_fork = (\<lambda>x y w. (5, w)), c_read = (\<lambda>fd w. (Would_Block, w)),
     c_wait_nohang = (\<lambda>w. (None, w)), c_wait = (\<lambda>w. (Signaled 9, w)), c_kill = (\<lambda>w. w),
     c_now = (\<lambda>w. (w, w)), c_sleep = (\<lambda>n w. w + max n 0), c_detach = (\<lambda>x y w. (5, w)), c_pid_report = (\<lambda>w. (Some 6, w)),
     c_start = (\<lambda>x y w. (Inr 5, w)), c_wait_for = (\<lambda>n w. (False, w)), c_terminate = (\<lambda>w. w),
     c_all_output = (\<lambda>fd w. ([], w)), c_exit_code = (\<lambda>w. (0, w)), c_image_path = (\<lambda>w. (None, w))\<rparr>"


text \<open>A child that writes \<open>hi\<close> and exits.\<close>

definition brief_child :: "nat child_os" where
  "brief_child = late_child\<lparr>c_read := (\<lambda>fd w. if w = 0 \<and> fd = Stdout then (Bytes ''hi'', 1) else (Would_Block, w))\<rparr>"

theorem output_is_what_was_read_witness:
  "\<exists>r w' heard. run_command_posix (reading brief_child) ''x'' [] 1000 (0, \<lambda>fd. []) = Some (r, w', heard)
    \<and> rr_stdout_text r = heard Stdout \<and> rr_stdout_text r = ''hi''"
proof -
  let ?c = "reading brief_child"
  let ?l = "(\<lambda>fd. [])(Stdout := ''hi'') :: stream \<Rightarrow> string"
  have blocked: "drain_available ?c fd out (1, l) = Some (True, out, 1, l)" for fd out l
    by (subst drain_available.simps) (simp add: reading_calls brief_child_def)
  have first: "c_read ?c Stdout (0, \<lambda>fd. []) = (Bytes ''hi'', 1, ?l)"
    by (simp add: reading_calls brief_child_def)
  have "drain_available ?c Stdout [] (0, \<lambda>fd. []) = Some (True, ''hi'', 1, ?l)"
    by (subst drain_available.simps) (simp only: first blocked prod.case read_result.case append_Nil)
  then have "watch_child ?c 1000 deadline [] [] (0, \<lambda>fd. []) = Some (Some (Exited 0), ''hi'', [], 2, ?l)" for deadline
    by (subst watch_child.simps) (simp only: blocked Option.bind.simps prod.case, simp add: reading_def lifted_def brief_child_def late_child_def)
  then have "run_command_posix ?c ''x'' [] 1000 (0, \<lambda>fd. [])
      = Some (\<lparr>rr_launched = True, rr_exit_code = 0, rr_stdout_text = ''hi'', rr_stderr_text = [], rr_error_message = []\<rparr>, 2, ?l)"
    by (simp add: run_command_posix_def) (simp add: reading_def lifted_def brief_child_def late_child_def status_code_def)
  from output_is_what_was_read [OF this] this show ?thesis by simp
qed

section \<open>A flood of output\<close>

definition floods :: "'w child_os \<Rightarrow> bool" where
  "floods c \<longleftrightarrow> (\<forall>w. \<exists>b w1. c_read c Stdout w = (Bytes b, w1))"

lemma flood_never_drained:
  assumes d: "drain_available c fd out w = Some y"
  shows "\<not> (floods c \<and> fd = Stdout)"
proof (rule drain_available.raw_induct [where P = "\<lambda>c fd out w y. \<not> (floods c \<and> fd = Stdout)", OF _ d], rule notI)
  fix f and c :: "'a child_os" and fd out w y
  assume ih: "\<And>c fd out w y. f c fd out w = Some y \<Longrightarrow> \<not> (floods c \<and> fd = Stdout)"
    and e: "(case c_read c fd w of (result, w1) \<Rightarrow> (case result of
         Bytes b \<Rightarrow> f c fd (out @ b) w1 | End_Of_File \<Rightarrow> Some (False, out, w1)
       | Would_Block \<Rightarrow> Some (True, out, w1) | Read_Error \<Rightarrow> Some (False, out, w1))) = Some y"
    and fl: "floods c \<and> fd = Stdout"
  then obtain b w1 where "c_read c fd w = (Bytes b, w1)" unfolding floods_def by blast
  with e have "f c fd (out @ b) w1 = Some y" by simp
  from ih [OF this] fl show False by simp
qed

text \<open>
  C38: the time limit is looked at only when the pipes are dry: a command that always has more to say keeps
  the run in the loop that reads it, and the run does not return, whatever its limit.
\<close>

theorem flood_defeats_timeout:
  assumes "floods c" and "command \<noteq> []" and "\<And>w. fst (c_pipe c w)" and "\<And>w. 0 \<le> fst (c_fork c command work_dir w)"
  shows "run_command_posix c command work_dir timeout_ms w = None"
proof -
  have "drain_available c Stdout out w = None" for out w
    using flood_never_drained [of c Stdout out w] assms(1) by (cases "drain_available c Stdout out w") auto
  then have "watch_child c timeout_ms deadline out err w = None" for deadline out err w
    by (subst watch_child.simps) simp
  then show ?thesis
    using assms(2-4) by (simp add: run_command_posix_def case_prod_beta not_less)
qed

theorem flood_defeats_timeout_witness:
  "run_command_posix (silent_child\<lparr>c_read := (\<lambda>fd w. (Bytes ''y'', w + 1))\<rparr>) ''yes'' [] 1000 0 = None"
  by (rule flood_defeats_timeout) (simp_all add: floods_def silent_child_def)

end
