(* ===== verification/Machine_Scan.thy ===== *)
theory Machine_Scan imports Complex_Main Host_Startup Host_Match Os_Registry begin

text \<open>
  What droidcli looks up on the machine when it starts: the installed applications
  (\<open>cli/app_index.cpp\<close>) and the names of Windows' own panels (\<open>cli/windows_locations.cpp\<close>). The registry, the
  walk through a directory and the COM interfaces are arguments; what is made of them is modelled.
\<close>

section \<open>Paths of Windows\<close>

definition path_filename :: "string \<Rightarrow> string" where
  "path_filename p = rev (takeWhile (\<lambda>c. c \<noteq> slash \<and> c \<noteq> bslash) (rev p))"

text \<open>\<open>path::stem\<close> and \<open>path::extension\<close>: the last dot divides, unless it is the first character.\<close>

definition dot_index :: "string \<Rightarrow> nat option" where
  "dot_index f =
     (let tail = takeWhile (\<lambda>c. c \<noteq> CHR ''.'') (rev f); i = length f - Suc (length tail)
      in if f = ''.'' \<or> f = ''..'' \<or> length tail = length f \<or> i = 0 then None else Some i)"

definition path_extension :: "string \<Rightarrow> string" where
  "path_extension p = (case dot_index (path_filename p) of None \<Rightarrow> [] | Some i \<Rightarrow> drop i (path_filename p))"

definition path_stem :: "string \<Rightarrow> string" where
  "path_stem p = (case dot_index (path_filename p) of None \<Rightarrow> path_filename p | Some i \<Rightarrow> take i (path_filename p))"

section \<open>Installed applications\<close>

text \<open>A comma is cut off with what follows it when that is digits and minus signs.\<close>

definition strip_icon_index :: "string \<Rightarrow> string" where
  "strip_icon_index display_icon =
     (let suffix = rev (takeWhile (\<lambda>c. c \<noteq> comma) (rev display_icon))
      in if comma \<notin> set display_icon then display_icon
         else if suffix \<noteq> [] \<and> list_all (\<lambda>c. is_digit c \<or> c = CHR ''-'') suffix
           then take (length display_icon - Suc (length suffix)) display_icon
         else display_icon)"

definition is_usable_exe_path :: "'w os \<Rightarrow> string \<Rightarrow> 'w \<Rightarrow> bool" where
  "is_usable_exe_path os path w \<longleftrightarrow>
     to_lower_ascii (path_extension path) = ''.exe'' \<and> fs_exists os path w \<and> \<not> fst (fs_is_directory os path w)"

definition kMaxDepth :: nat where
  "kMaxDepth = 2"

text \<open>The walk is the paths the recursive iterator visits, each with its depth, in its order.\<close>

fun exe_loop :: "string \<Rightarrow> string \<Rightarrow> (string \<times> nat) list \<Rightarrow> string" where
  "exe_loop lower_name fallback [] = fallback"
| "exe_loop lower_name fallback ((path, depth) # walk) =
     (if depth > kMaxDepth then exe_loop lower_name fallback walk
      else if path_extension path \<noteq> ''.exe'' then exe_loop lower_name fallback walk
      else
        (let stem = to_lower_ascii (path_stem path)
         in if lower_name \<noteq> [] \<and> (contains lower_name stem \<or> contains stem lower_name) then path
            else exe_loop lower_name (if fallback = [] then path else fallback) walk))"

definition find_exe_in_directory :: "'w os \<Rightarrow> (string \<Rightarrow> (string \<times> nat) list) \<Rightarrow> string \<Rightarrow> string \<Rightarrow> 'w \<Rightarrow> string" where
  "find_exe_in_directory os walk directory display_name w =
     (if directory = [] then []
      else if \<not> fs_exists os directory w \<or> \<not> fst (fs_is_directory os directory w) then []
      else exe_loop (to_lower_ascii display_name) [] (walk directory))"

definition app_of_entry :: "'w os \<Rightarrow> (string \<Rightarrow> (string \<times> nat) list) \<Rightarrow> 'w \<Rightarrow> registry_key \<Rightarrow> installed_app list" where
  "app_of_entry os walk w key =
     (let display_name = text_of_value (key ''DisplayName'')
      in if display_name \<noteq> [] \<and> key_dword key ''SystemComponent'' = 0 then
           (let icon = strip_icon_index (text_of_value (key ''DisplayIcon''));
                path = (if icon = [] \<or> \<not> is_usable_exe_path os icon w
                        then find_exe_in_directory os walk (text_of_value (key ''InstallLocation'')) display_name w else icon)
            in if path \<noteq> [] then [\<lparr>ia_name = display_name, ia_path = path\<rparr>] else [])
         else [])"

text \<open>
  A hive is \<open>None\<close> when its key cannot be opened; an entry that cannot be enumerated or opened is
  \<open>None\<close>.
\<close>

definition scan_uninstall_hive ::
    "'w os \<Rightarrow> (string \<Rightarrow> (string \<times> nat) list) \<Rightarrow> 'w \<Rightarrow> registry_key option list option \<Rightarrow> installed_app list \<Rightarrow> installed_app list" where
  "scan_uninstall_hive os walk w hive out_apps =
     (case hive of
        None \<Rightarrow> out_apps
      | Some entries \<Rightarrow> out_apps @ concat (map (case_option [] (app_of_entry os walk w)) entries))"

definition kBuiltins :: "(string \<times> string) list" where
  "kBuiltins = [(''Notepad'', ''notepad.exe''), (''Calculator'', ''calc.exe''), (''Paint'', ''mspaint.exe''),
     (''WordPad'', ''write.exe''), (''Command Prompt'', ''cmd.exe''), (''PowerShell'', ''powershell.exe''),
     (''File Explorer'', ''explorer.exe''), (''Task Manager'', ''taskmgr.exe''), (''Control Panel'', ''control.exe''),
     (''Snipping Tool'', ''snippingtool.exe''), (''Magnifier'', ''magnify.exe''), (''Registry Editor'', ''regedit.exe''),
     (''Character Map'', ''charmap.exe''), (''Remote Desktop Connection'', ''mstsc.exe''), (''Disk Cleanup'', ''cleanmgr.exe'')]"

definition add_builtin_accessories :: "installed_app list \<Rightarrow> installed_app list" where
  "add_builtin_accessories out_apps = out_apps @ map (\<lambda>(n, exe). \<lparr>ia_name = n, ia_path = exe\<rparr>) kBuiltins"

text \<open>The machine's two views, then the user's. On other systems there is nothing to find.\<close>

definition scan_installed_applications ::
    "'w os \<Rightarrow> (string \<Rightarrow> (string \<times> nat) list) \<Rightarrow> registry_key option list option \<Rightarrow> registry_key option list option
      \<Rightarrow> registry_key option list option \<Rightarrow> 'w \<Rightarrow> installed_app list" where
  "scan_installed_applications os walk machine machine32 user w =
     (if os_windows os then
        add_builtin_accessories (scan_uninstall_hive os walk w user (scan_uninstall_hive os walk w machine32
          (scan_uninstall_hive os walk w machine [])))
      else [])"

section \<open>Windows' own panels\<close>

definition hardcoded :: "string \<Rightarrow> string \<Rightarrow> string \<Rightarrow> string \<Rightarrow> windows_location" where
  "hardcoded name display_name path_or_name args =
     \<lparr>wl_alias = name, wl_display_name = display_name, wl_path_or_name = path_or_name, wl_args = args\<rparr>"

definition kHardcodedWindowsLocationExceptions :: "windows_location list" where
  "kHardcodedWindowsLocationExceptions = [
     hardcoded ''sound settings'' ''Sound Settings'' ''explorer.exe'' ''ms-settings:sound'',
     hardcoded ''display settings'' ''Display Settings'' ''explorer.exe'' ''ms-settings:display'',
     hardcoded ''network settings'' ''Network Settings'' ''explorer.exe'' ''ms-settings:network'',
     hardcoded ''bluetooth settings'' ''Bluetooth Settings'' ''explorer.exe'' ''ms-settings:bluetooth'',
     hardcoded ''windows update'' ''Windows Update'' ''explorer.exe'' ''ms-settings:windowsupdate'',
     hardcoded ''windows settings'' ''Windows Settings'' ''explorer.exe'' ''ms-settings:'',
     hardcoded ''storage settings'' ''Storage Settings'' ''explorer.exe'' ''ms-settings:storagesense'',
     hardcoded ''about this pc'' ''About'' ''explorer.exe'' ''ms-settings:about'',
     hardcoded ''apps and features'' ''Apps & Features'' ''explorer.exe'' ''ms-settings:appsfeatures'',
     hardcoded ''windows security'' ''Windows Security'' ''explorer.exe'' ''windowsdefender:'',
     hardcoded ''windows defender'' ''Windows Security'' ''explorer.exe'' ''windowsdefender:'',
     hardcoded ''printers and scanners'' ''Printers & Scanners'' ''explorer.exe'' ''ms-settings:printers'',
     hardcoded ''control panel'' ''Control Panel'' ''control.exe'' [],
     hardcoded ''system properties'' ''System Properties'' ''control.exe'' ''system'',
     hardcoded ''programs and features'' ''Programs and Features'' ''control.exe'' ''appwiz.cpl'',
     hardcoded ''network connections'' ''Network Connections'' ''control.exe'' ''ncpa.cpl'',
     hardcoded ''power options'' ''Power Options'' ''control.exe'' ''powercfg.cpl'',
     hardcoded ''date and time'' ''Date and Time'' ''control.exe'' ''timedate.cpl'',
     hardcoded ''task manager'' ''Task Manager'' ''taskmgr.exe'' [],
     hardcoded ''process manager'' ''Task Manager'' ''taskmgr.exe'' [],
     hardcoded ''memory usage'' ''Task Manager'' ''taskmgr.exe'' [],
     hardcoded ''memory panel'' ''Task Manager'' ''taskmgr.exe'' [],
     hardcoded ''cpu usage'' ''Task Manager'' ''taskmgr.exe'' [],
     hardcoded ''running processes'' ''Task Manager'' ''taskmgr.exe'' [],
     hardcoded ''device manager'' ''Device Manager'' ''mmc.exe'' ''devmgmt.msc'',
     hardcoded ''disk management'' ''Disk Management'' ''mmc.exe'' ''diskmgmt.msc'',
     hardcoded ''disk partition'' ''Disk Management'' ''mmc.exe'' ''diskmgmt.msc'',
     hardcoded ''partition manager'' ''Disk Management'' ''mmc.exe'' ''diskmgmt.msc'',
     hardcoded ''manage disks'' ''Disk Management'' ''mmc.exe'' ''diskmgmt.msc'']"

text \<open>
  What \<open>CoInitializeEx\<close> answers: whether to go on, and whether to call \<open>CoUninitialize\<close> afterwards.
\<close>

datatype com_result = S_OK | S_FALSE | RPC_E_CHANGED_MODE | Com_Failed

definition com_scope_begin :: "com_result \<Rightarrow> bool \<times> bool" where
  "com_scope_begin result =
     (let succeeded = (result = S_OK \<or> result = S_FALSE)
      in (succeeded \<or> result = S_FALSE \<or> result = RPC_E_CHANGED_MODE, succeeded \<and> result \<noteq> S_FALSE))"

text \<open>
  A known folder has a canonical name and a localized one, each there or not, as UTF-8; a localized name that
  starts with @ refers to a resource, which \<open>SHLoadIndirectString\<close> may resolve.
\<close>

record known_folder =
  kf_name :: "string option"
  kf_localized_name :: "string option"

definition shown_name :: "(string \<Rightarrow> string option) \<Rightarrow> string \<Rightarrow> string option \<Rightarrow> string" where
  "shown_name load name localized_name =
     (let display_name =
        (case localized_name of
           None \<Rightarrow> []
         | Some l \<Rightarrow>
             if l \<noteq> [] \<and> hd l = CHR ''@'' then (case load l of Some resolved \<Rightarrow> resolved | None \<Rightarrow> []) else l)
      in if display_name = [] then name else display_name)"

definition known_folder_entry :: "(string \<Rightarrow> string option) \<Rightarrow> known_folder \<Rightarrow> windows_location list" where
  "known_folder_entry load f =
     (case kf_name f of
        None \<Rightarrow> []
      | Some name \<Rightarrow>
          (let display_name = shown_name load name (kf_localized_name f)
           in if display_name = [] then []
              else [hardcoded display_name display_name ''explorer.exe'' (''shell:'' @ name)]))"

text \<open>
  What the shell answers: to \<open>CoInitializeEx\<close>, whether there is a folder manager, the folders of the list
  in the code (\<open>None\<close> for one without a definition), the folder of the Administrative Tools and its
  files, each with target and arguments if it is a shortcut that loads.
\<close>

record shell =
  sh_com :: com_result
  sh_manager :: bool
  sh_load :: "string \<Rightarrow> string option"
  sh_folders :: "known_folder option list"
  sh_admin_tools :: "string option"
  sh_admin_files :: "(string \<times> (string \<times> string) option) list"

definition scan_known_folders :: "shell \<Rightarrow> windows_location list" where
  "scan_known_folders sh =
     (if \<not> fst (com_scope_begin (sh_com sh)) then []
      else if sh_manager sh then concat (map (case_option [] (known_folder_entry (sh_load sh))) (sh_folders sh))
      else [])"

definition scan_admin_tools :: "'w os \<Rightarrow> shell \<Rightarrow> 'w \<Rightarrow> windows_location list" where
  "scan_admin_tools os sh w =
     (case sh_admin_tools sh of
        None \<Rightarrow> []
      | Some directory \<Rightarrow>
          if directory = [] \<or> \<not> fs_exists os directory w then []
          else if \<not> fst (com_scope_begin (sh_com sh)) then []
          else concat (map (\<lambda>(path, link).
            if path_extension path \<noteq> ''.lnk'' then []
            else (case link of
               None \<Rightarrow> []
             | Some (target, args) \<Rightarrow>
                 if target \<noteq> [] \<and> fs_exists os target w then [hardcoded (path_stem path) (path_stem path) target args] else []))
            (sh_admin_files sh)))"

definition scan_windows_locations :: "'w os \<Rightarrow> shell \<Rightarrow> 'w \<Rightarrow> windows_location list" where
  "scan_windows_locations os sh w =
     kHardcodedWindowsLocationExceptions
     @ (if os_windows os then scan_known_folders sh @ scan_admin_tools os sh w else [])"

end
