(* ===== verification/Machine_Info.thy ===== *)
theory Machine_Info imports Complex_Main Filesystem_Tools Host_State Os_Registry "HOL-Library.Word" begin

text \<open>
  What droidcli reports of the machine: the system (\<open>cli/system_info.cpp\<close>), the hardware
  (\<open>cli/hardware_info.cpp\<close>) and the windows on the desktop (\<open>cli/window_list.cpp\<close>). The system calls are
  the record \<open>computer\<close>; the first group is Windows, the second the other systems.
\<close>

section \<open>The system calls\<close>

datatype drive_type = DRIVE_FIXED | Other_Drive

record computer =
  cp_registry :: registry
  cp_architecture :: nat
  cp_computer_name :: "string option"
  cp_user_name :: "string option"
  cp_known_folder :: "string \<Rightarrow> string option"
  cp_processors :: nat
  cp_total_phys :: "nat option"
  cp_display_devices :: "(string \<times> bool) list"
  cp_logical_drives :: "32 word"
  cp_drive_type :: "string \<Rightarrow> drive_type"
  cp_disk_space :: "string \<Rightarrow> (nat \<times> nat) option"
  cp_uname :: "(string \<times> string) option"
  cp_host_name :: "string option"
  cp_cpuinfo :: "string option"
  cp_nprocessors :: int
  cp_pages :: int
  cp_page_size :: int
  cp_statvfs :: "(nat \<times> nat \<times> nat) option"

section \<open>The system\<close>

text \<open>\<open>PROCESSOR_ARCHITECTURE_AMD64\<close>, \<open>..._ARM64\<close>, \<open>..._INTEL\<close>. \<open>uname\<close> gives machine and release.\<close>

definition architecture_windows :: "computer \<Rightarrow> string" where
  "architecture_windows m =
     (if cp_architecture m = 9 then ''x64'' else if cp_architecture m = 12 then ''arm64''
      else if cp_architecture m = 0 then ''x86'' else ''unknown'')"

definition architecture_posix :: "computer \<Rightarrow> string" where
  "architecture_posix m = (case cp_uname m of Some (mach, release) \<Rightarrow> mach | None \<Rightarrow> ''unknown'')"

definition detect_architecture :: "bool \<Rightarrow> computer \<Rightarrow> string" where
  "detect_architecture windows m = (if windows then architecture_windows m else architecture_posix m)"

definition current_version :: string where
  "current_version = ''SOFTWARE'' @ [bslash] @ ''Microsoft'' @ [bslash] @ ''Windows NT'' @ [bslash] @ ''CurrentVersion''"

definition version_part :: "computer \<Rightarrow> string \<Rightarrow> string" where
  "version_part m value_name =
     (case read_registry_dword (cp_registry m) LocalMachine current_version value_name of
        Some n \<Rightarrow> to_string (int n)
      | None \<Rightarrow> ''0'')"

definition os_version_windows :: "computer \<Rightarrow> string" where
  "os_version_windows m =
     (let build = read_registry_string (cp_registry m) LocalMachine current_version ''CurrentBuildNumber'';
          build_str = (if build = [] then ''0'' else build)
      in version_part m ''CurrentMajorVersionNumber'' @ ''.'' @ version_part m ''CurrentMinorVersionNumber'' @ ''.'' @ build_str)"

definition os_version_posix :: "computer \<Rightarrow> string" where
  "os_version_posix m = (case cp_uname m of Some (mach, release) \<Rightarrow> release | None \<Rightarrow> ''unknown'')"

definition detect_os_version :: "bool \<Rightarrow> computer \<Rightarrow> string" where
  "detect_os_version windows m = (if windows then os_version_windows m else os_version_posix m)"

definition or_unknown :: "string option \<Rightarrow> string" where
  "or_unknown name = (case name of Some n \<Rightarrow> n | None \<Rightarrow> ''unknown'')"

definition hostname_windows :: "computer \<Rightarrow> string" where
  "hostname_windows m = or_unknown (cp_computer_name m)"

definition hostname_posix :: "computer \<Rightarrow> string" where
  "hostname_posix m = or_unknown (cp_host_name m)"

definition detect_hostname :: "bool \<Rightarrow> computer \<Rightarrow> string" where
  "detect_hostname windows m = (if windows then hostname_windows m else hostname_posix m)"

definition username_windows :: "computer \<Rightarrow> string" where
  "username_windows m = or_unknown (cp_user_name m)"

definition username_posix :: "'w os \<Rightarrow> 'w \<Rightarrow> string" where
  "username_posix os w = or_unknown (os_getenv os ''USER'' w)"

definition detect_username :: "'w os \<Rightarrow> computer \<Rightarrow> 'w \<Rightarrow> string" where
  "detect_username os m w = (if os_windows os then username_windows m else username_posix os w)"

text \<open>A known folder by its identifier, empty when Windows does not resolve it.\<close>

definition detect_known_folder :: "computer \<Rightarrow> string \<Rightarrow> string" where
  "detect_known_folder m folder_id = (case cp_known_folder m folder_id of Some path \<Rightarrow> path | None \<Rightarrow> [])"

definition home_path_posix :: "'w os \<Rightarrow> 'w \<Rightarrow> string" where
  "home_path_posix os w = (case os_getenv os ''HOME'' w of Some home \<Rightarrow> home | None \<Rightarrow> [])"

definition below_home :: "'w os \<Rightarrow> string \<Rightarrow> 'w \<Rightarrow> string" where
  "below_home os dir w = (let home = home_path_posix os w in if home = [] then [] else home @ slash # dir)"

definition known_paths_windows :: "computer \<Rightarrow> string \<times> string \<times> string \<times> string \<times> string" where
  "known_paths_windows m =
     (detect_known_folder m ''Desktop'', detect_known_folder m ''Profile'', detect_known_folder m ''Documents'',
      detect_known_folder m ''Downloads'', detect_known_folder m ''ProgramFiles'')"

definition known_paths_posix :: "'w os \<Rightarrow> 'w \<Rightarrow> string \<times> string \<times> string \<times> string \<times> string" where
  "known_paths_posix os w =
     (below_home os ''Desktop'' w, home_path_posix os w, below_home os ''Documents'' w, below_home os ''Downloads'' w, [])"

definition get_system_info :: "'w os \<Rightarrow> computer \<Rightarrow> 'w \<Rightarrow> system_info" where
  "get_system_info os m w =
     (case (if os_windows os then known_paths_windows m else known_paths_posix os w) of
        (desktop, home, documents, downloads, program_files) \<Rightarrow> \<lparr>
          si_os_name = (if os_windows os then ''Windows'' else ''Linux''),
          si_os_version = detect_os_version (os_windows os) m,
          si_architecture = detect_architecture (os_windows os) m,
          si_hostname = detect_hostname (os_windows os) m,
          si_username = detect_username os m w,
          si_cwd = get_current_working_directory os w,
          si_desktop_path = desktop,
          si_home_path = home,
          si_documents_path = documents,
          si_downloads_path = downloads,
          si_program_files_path = program_files\<rparr>)"

section \<open>The hardware\<close>

text \<open>\<open>fgets\<close> into a buffer of 512: a line with its newline, or its next 511 characters.\<close>

fun fgets_lines :: "string \<Rightarrow> string \<Rightarrow> string list" where
  "fgets_lines line [] = (if line = [] then [] else [line])"
| "fgets_lines line (c # s) =
     (if c = newline \<or> length line = 510 then (line @ [c]) # fgets_lines [] s else fgets_lines (line @ [c]) s)"

text \<open>The text behind the colon of the first model name; \<open>substr\<close> throws when it starts behind the end.\<close>

fun cpu_name_loop :: "string list \<Rightarrow> cpp_exception + string" where
  "cpu_name_loop [] = Inr ''unknown''"
| "cpu_name_loop (line # lines) =
     (let txt = c_str line
      in if starts_with txt ''model name'' then
           (case find_str [colon] txt of
              None \<Rightarrow> Inr ''unknown''
            | Some i \<Rightarrow>
                if i + 2 > length txt then Inl OutOfRange
                else
                  (let name = drop (i + 2) txt
                   in Inr (if name \<noteq> [] \<and> last name = newline then butlast name else name)))
         else cpu_name_loop lines)"

definition processor_key :: string where
  "processor_key = ''HARDWARE'' @ [bslash] @ ''DESCRIPTION'' @ [bslash] @ ''System'' @ [bslash] @ ''CentralProcessor'' @ [bslash] @ ''0''"

definition cpu_name_windows :: "computer \<Rightarrow> string" where
  "cpu_name_windows m =
     (let name = read_registry_string (cp_registry m) LocalMachine processor_key ''ProcessorNameString''
      in if name = [] then ''unknown'' else name)"

definition cpu_name_posix :: "computer \<Rightarrow> cpp_exception + string" where
  "cpu_name_posix m = (case cp_cpuinfo m of None \<Rightarrow> Inr ''unknown'' | Some content \<Rightarrow> cpu_name_loop (fgets_lines [] content))"

definition detect_cpu_name :: "bool \<Rightarrow> computer \<Rightarrow> cpp_exception + string" where
  "detect_cpu_name windows m = (if windows then Inr (cpu_name_windows m) else cpu_name_posix m)"

definition core_count_windows :: "computer \<Rightarrow> int" where
  "core_count_windows m = wrap32 (int (cp_processors m))"

definition core_count_posix :: "computer \<Rightarrow> int" where
  "core_count_posix m = (if cp_nprocessors m > 0 then wrap32 (cp_nprocessors m) else 0)"

definition detect_cpu_core_count :: "bool \<Rightarrow> computer \<Rightarrow> int" where
  "detect_cpu_core_count windows m = (if windows then core_count_windows m else core_count_posix m)"

definition ram_bytes_windows :: "computer \<Rightarrow> int" where
  "ram_bytes_windows m = (case cp_total_phys m of Some n \<Rightarrow> wrap64 (int n) | None \<Rightarrow> 0)"

definition ram_bytes_posix :: "computer \<Rightarrow> int" where
  "ram_bytes_posix m = (if cp_pages m \<le> 0 \<or> cp_page_size m \<le> 0 then 0 else cp_pages m * cp_page_size m)"

definition detect_total_ram_bytes :: "bool \<Rightarrow> computer \<Rightarrow> int" where
  "detect_total_ram_bytes windows m = (if windows then ram_bytes_windows m else ram_bytes_posix m)"

text \<open>Display devices come with whether they are attached to the desktop.\<close>

definition detect_gpus :: "bool \<Rightarrow> computer \<Rightarrow> string list" where
  "detect_gpus windows m = (if windows then map fst (filter snd (cp_display_devices m)) else [])"

definition drive_root :: "nat \<Rightarrow> string" where
  "drive_root letter = [char_of (65 + letter), colon, bslash]"

definition disk_of_letter :: "computer \<Rightarrow> nat \<Rightarrow> disk_volume list" where
  "disk_of_letter m letter =
     (if \<not> bit (cp_logical_drives m) letter then []
      else if cp_drive_type m (drive_root letter) \<noteq> DRIVE_FIXED then []
      else
        (case cp_disk_space m (drive_root letter) of
           None \<Rightarrow> []
         | Some (free_bytes, total_bytes) \<Rightarrow>
             [\<lparr>dv_drive = drive_root letter, dv_total_bytes = wrap64 (int total_bytes), dv_free_bytes = wrap64 (int free_bytes)\<rparr>]))"

text \<open>\<open>statvfs\<close> gives the blocks, the size of one and the blocks that are free.\<close>

definition disks_posix :: "computer \<Rightarrow> disk_volume list" where
  "disks_posix m =
     (case cp_statvfs m of
        None \<Rightarrow> []
      | Some (blocks, frsize, bavail) \<Rightarrow>
          [\<lparr>dv_drive = [slash], dv_total_bytes = int blocks * int frsize, dv_free_bytes = int bavail * int frsize\<rparr>])"

definition detect_disks :: "bool \<Rightarrow> computer \<Rightarrow> disk_volume list" where
  "detect_disks windows m = (if windows then concat (map (disk_of_letter m) [0..<26]) else disks_posix m)"

definition scan_hardware_info :: "bool \<Rightarrow> computer \<Rightarrow> cpp_exception + hardware_info" where
  "scan_hardware_info windows m =
     (case detect_cpu_name windows m of
        Inl e \<Rightarrow> Inl e
      | Inr name \<Rightarrow> Inr \<lparr>hw_cpu_name = name, hw_cpu_core_count = detect_cpu_core_count windows m,
          hw_total_ram_bytes = detect_total_ram_bytes windows m, hw_gpus = detect_gpus windows m, hw_disks = detect_disks windows m\<rparr>)"

section \<open>Windows on the desktop\<close>

text \<open>
  A window as \<open>EnumWindows\<close> meets it: \<open>dw_image\<close> is \<open>None\<close> when its process cannot be opened or does not
  name its image.
\<close>

record desktop_window =
  dw_visible :: bool
  dw_title_length :: int
  dw_title :: string
  dw_pid :: nat
  dw_image :: "string option"

definition base_name :: "string \<Rightarrow> string" where
  "base_name full_path = rev (takeWhile (\<lambda>c. c \<noteq> bslash \<and> c \<noteq> slash) (rev full_path))"

definition enum_windows_callback :: "desktop_window \<Rightarrow> open_window list" where
  "enum_windows_callback d =
     (if \<not> dw_visible d then []
      else if dw_title_length d \<le> 0 then []
      else if c_str (dw_title d) = [] then []
      else if dw_pid d = 0 then []
      else [\<lparr>ow_title = c_str (dw_title d),
              ow_process_name = (case dw_image d of Some p \<Rightarrow> base_name (c_str p) | None \<Rightarrow> []), ow_pid = int (dw_pid d)\<rparr>])"

definition list_open_windows :: "bool \<Rightarrow> desktop_window list \<Rightarrow> open_window list" where
  "list_open_windows windows ds = (if windows then concat (map enum_windows_callback ds) else [])"

end
