(* ===== verification/Machine_Laws.thy ===== *)
theory Machine_Laws imports Complex_Main Machine_Scan Machine_Info begin

text \<open>
  What the startup scans promise to the lookups of the host: every listed application has a name and
  a path, the accessories and the panels of Windows are found under their names, and an icon
  reference is cut back to its path.
\<close>

section \<open>Icon references\<close>

text \<open>
  A path followed by a comma and an index of digits and minus signs is cut back to the path, commas
  in it included.
\<close>

theorem icon_index_stripped:
  assumes "index \<noteq> []" and "list_all (\<lambda>c. is_digit c \<or> c = CHR ''-'') index"
  shows "strip_icon_index (path @ comma # index) = path"
proof -
  have n: "comma \<notin> set index"
    using assms(2) by (auto simp: list_all_iff is_digit_def)
  then have "takeWhile (\<lambda>c. c \<noteq> comma) (rev index @ comma # rev path) = rev index"
    by (subst takeWhile_append2) auto
  then show ?thesis
    using assms by (simp add: strip_icon_index_def Let_def)
qed

section \<open>The index of applications\<close>

definition usable_app :: "installed_app \<Rightarrow> bool" where
  "usable_app a \<longleftrightarrow> ia_name a \<noteq> [] \<and> ia_path a \<noteq> []"

lemma usable_of_entry: "list_all usable_app (app_of_entry os walk w e)"
  by (simp add: app_of_entry_def usable_app_def Let_def)

lemma usable_hive: "list_all usable_app apps \<Longrightarrow> list_all usable_app (scan_uninstall_hive os walk w hive apps)"
  using usable_of_entry [of os walk w]
  by (auto simp: scan_uninstall_hive_def list_all_iff split: option.splits)

lemma usable_builtins: "list_all (\<lambda>(n, exe). n \<noteq> [] \<and> exe \<noteq> []) kBuiltins"
  by (simp add: kBuiltins_def)

lemma usable_scan: "list_all usable_app (scan_installed_applications os walk machine machine32 user w)"
proof -
  have "list_all usable_app (map (\<lambda>(n, exe). \<lparr>ia_name = n, ia_path = exe\<rparr>) kBuiltins)"
    using usable_builtins by (auto simp: list_all_iff usable_app_def)
  then show ?thesis
    by (auto simp: scan_installed_applications_def add_builtin_accessories_def intro!: usable_hive)
qed

lemma builtin_initials: "list_all (\<lambda>(n, exe). n \<noteq> [] \<and> is_alnum (hd n)) kBuiltins"
  by (simp add: kBuiltins_def is_alnum_def)

lemma alnum_initial: "n \<noteq> [] \<Longrightarrow> is_alnum (hd n) \<Longrightarrow> normalize_for_match n \<noteq> []"
  by (cases n) (simp_all add: normalize_for_match_def)

lemma builtin_names: "list_all (\<lambda>(n, exe). normalize_for_match n \<noteq> []) kBuiltins"
  using builtin_initials by (auto simp: list_all_iff alnum_initial)

lemma find_present: "x \<in> set xs \<Longrightarrow> p x \<Longrightarrow> \<exists>y. find p xs = Some y \<and> y \<in> set xs"
  by (induction xs) auto

text \<open>
  On Windows each of the accessories is found under its name, whatever the registry holds: the
  answer is a path, of an application of that very name.
\<close>

theorem accessory_is_found:
  assumes "os_windows os" and "(n, exe) \<in> set kBuiltins"
  shows "find_installed_app_match (scan_installed_applications os walk machine machine32 user w) n \<noteq> []
    \<and> (\<exists>a \<in> set (scan_installed_applications os walk machine machine32 user w).
         normalize_for_match (ia_name a) = normalize_for_match n
         \<and> find_installed_app_match (scan_installed_applications os walk machine machine32 user w) n = ia_path a)"
proof -
  let ?apps = "scan_installed_applications os walk machine machine32 user w"
  have q: "n \<noteq> []" "normalize_for_match n \<noteq> []"
    using assms(2) builtin_names usable_builtins by (auto simp: list_all_iff)
  have "\<lparr>ia_name = n, ia_path = exe\<rparr> \<in> set ?apps"
    using assms by (auto simp: scan_installed_applications_def add_builtin_accessories_def intro: rev_image_eqI)
  then obtain a where a: "find (\<lambda>a. normalize_for_match (ia_name a) = normalize_for_match n) ?apps = Some a" "a \<in> set ?apps"
    using find_present [of _ ?apps "\<lambda>a. normalize_for_match (ia_name a) = normalize_for_match n"] by fastforce
  have "normalize_for_match (ia_name a) = normalize_for_match n"
    using a(1) by (auto simp: find_Some_iff)
  moreover have "ia_path a \<noteq> []"
    using usable_scan [of os walk machine machine32 user w] a(2) by (auto simp: list_all_iff usable_app_def)
  ultimately show ?thesis
    using a q by (auto simp: find_installed_app_match_def Let_def)
qed

section \<open>Windows' own panels\<close>

lemma find_more: "find p xs = Some x \<Longrightarrow> find p (xs @ ys) = Some x"
  by (induction xs) auto

definition table_aliases :: "string list" where
  "table_aliases = [''soundsettings'', ''displaysettings'', ''networksettings'', ''bluetoothsettings'', ''windowsupdate'',
     ''windowssettings'', ''storagesettings'', ''aboutthispc'', ''appsandfeatures'', ''windowssecurity'',
     ''windowsdefender'', ''printersandscanners'', ''controlpanel'', ''systemproperties'', ''programsandfeatures'',
     ''networkconnections'', ''poweroptions'', ''dateandtime'', ''taskmanager'', ''processmanager'',
     ''memoryusage'', ''memorypanel'', ''cpuusage'', ''runningprocesses'', ''devicemanager'',
     ''diskmanagement'', ''diskpartition'', ''partitionmanager'', ''managedisks'']"

text \<open>The names are lower-case words with blanks between them.\<close>

lemma lower_case_kept: "list_all (\<lambda>c. is_alnum c \<and> tolower c = c) ''abcdefghijklmnopqrstuvwxyz''"
  by (simp add: is_alnum_def tolower_def)

lemma normalized_aliases: "map (\<lambda>t. normalize_for_match (wl_alias t)) kHardcodedWindowsLocationExceptions = table_aliases"
proof -
  have "\<not> is_alnum blank" by (simp add: is_alnum_def)
  then show ?thesis
    using lower_case_kept
    by (simp add: kHardcodedWindowsLocationExceptions_def hardcoded_def table_aliases_def normalize_for_match_def)
qed

text \<open>
  No name is a part of another: the shorter one is compared at the places of the longer one where it
  fits, which the simplifier can run.
\<close>

fun starts_within :: "nat \<Rightarrow> string \<Rightarrow> string \<Rightarrow> bool" where
  "starts_within n a b = (if n = 0 then prefix a b else prefix a b \<or> starts_within (n - 1) a (tl b))"

declare starts_within.simps [simp del]

lemma starts_withinI: "i \<le> n \<Longrightarrow> prefix a (drop i b) \<Longrightarrow> starts_within n a b"
proof (induction n a b arbitrary: i rule: starts_within.induct)
  case (1 n a b)
  show ?case
  proof (cases i)
    case 0
    then show ?thesis using "1.prems" by (subst starts_within.simps) simp
  next
    case (Suc j)
    then have "starts_within (n - 1) a (tl b)"
      using "1.prems" by (intro "1.IH" [of j]) (auto simp: drop_Suc)
    then show ?thesis using "1.prems" Suc by (subst starts_within.simps) simp
  qed
qed

lemma contains_within: "contains b a \<Longrightarrow> length a \<le> length b \<and> starts_within (length b - length a) a b"
proof -
  assume "contains b a"
  then obtain u v where b: "b = u @ a @ v" by (auto simp: contains_iff)
  then have "prefix a (drop (length u) b)" by simp
  then show ?thesis
    using starts_withinI [of "length u" "length b - length a" a b] b by simp
qed

lemma contains_same_length: "contains b a \<Longrightarrow> length a = length b \<Longrightarrow> a = b"
  by (auto simp: contains_iff)

fun apart :: "nat \<times> string \<Rightarrow> nat \<times> string \<Rightarrow> bool" where
  "apart (n, a) (m, b) =
     (if n < m then \<not> starts_within (m - n) a b else if n = m then a \<noteq> b else \<not> starts_within (n - m) b a)"

lemma apart_overlaps: "apart (length a, a) (length b, b) \<Longrightarrow> \<not> overlaps a b"
  using contains_within [of a b] contains_within [of b a] contains_same_length [of a b] contains_same_length [of b a]
  by (cases "length a" "length b" rule: linorder_cases) (auto simp: overlaps_def)

lemma table_lengths: "map (\<lambda>a. (length a, a)) table_aliases =
    [(13, ''soundsettings''), (15, ''displaysettings''), (15, ''networksettings''), (17, ''bluetoothsettings''), (13, ''windowsupdate''), (15, ''windowssettings''),
     (15, ''storagesettings''), (11, ''aboutthispc''), (15, ''appsandfeatures''), (15, ''windowssecurity''), (15, ''windowsdefender''), (19, ''printersandscanners''),
     (12, ''controlpanel''), (16, ''systemproperties''), (19, ''programsandfeatures''), (18, ''networkconnections''), (12, ''poweroptions''), (11, ''dateandtime''),
     (11, ''taskmanager''), (14, ''processmanager''), (11, ''memoryusage''), (11, ''memorypanel''), (8, ''cpuusage''), (16, ''runningprocesses''),
     (13, ''devicemanager''), (14, ''diskmanagement''), (13, ''diskpartition''), (16, ''partitionmanager''), (11, ''managedisks'')]"
  by (simp add: table_aliases_def)

lemma aliases_apart: "sorted_wrt (\<lambda>a b. \<not> overlaps a b) table_aliases"
proof -
  have "sorted_wrt apart (map (\<lambda>a. (length a, a)) table_aliases)"
    unfolding table_lengths by code_simp
  then have "sorted_wrt (\<lambda>a b. apart (length a, a) (length b, b)) table_aliases"
    by (simp add: sorted_wrt_map)
  then show ?thesis
    by (rule sorted_wrt_mono_rel [rotated]) (simp add: apart_overlaps del: apart.simps)
qed

lemma overlaps_self: "overlaps a a"
  by (cases a) (simp_all add: overlaps_def contains_def)

lemma find_apart:
  "sorted_wrt (\<lambda>a b. \<not> overlaps a b) (map f xs) \<Longrightarrow> t \<in> set xs \<Longrightarrow> find (\<lambda>u. f u = f t \<or> overlaps (f u) (f t)) xs = Some t"
  by (induction xs) (auto simp: overlaps_self)

text \<open>
  Every name of the built-in table opens what the table says: no earlier name hides a later one,
  and nothing the machine adds behind the table does.
\<close>

theorem table_name_opens_its_target:
  assumes "t \<in> set kHardcodedWindowsLocationExceptions"
  shows "find_known_windows_target (wl_alias t) (scan_windows_locations os sh w) = Some (target_of t)"
proof -
  let ?p = "\<lambda>u. normalize_for_match (wl_alias u) = normalize_for_match (wl_alias t)
         \<or> overlaps (normalize_for_match (wl_alias u)) (normalize_for_match (wl_alias t))"
  have "normalize_for_match (wl_alias t) \<in> set table_aliases"
    using assms normalized_aliases by (metis image_eqI image_set)
  then have q: "normalize_for_match (wl_alias t) \<noteq> []"
    by (auto simp: table_aliases_def)
  have "find ?p kHardcodedWindowsLocationExceptions = Some t"
    by (rule find_apart [OF _ assms]) (use aliases_apart normalized_aliases in simp)
  then have "find ?p (scan_windows_locations os sh w) = Some t"
    unfolding scan_windows_locations_def by (rule find_more)
  then show ?thesis
    using q by (simp add: find_known_windows_target_def Let_def)
qed

theorem table_name_opens_its_target_witness:
  "find_known_windows_target ''sound settings'' (scan_windows_locations (idle_os :: unit os)
      \<lparr>sh_com = Com_Failed, sh_manager = False, sh_load = (\<lambda>n. None), sh_folders = [], sh_admin_tools = None, sh_admin_files = []\<rparr> ())
    = Some (target_of (hardcoded ''sound settings'' ''Sound Settings'' ''explorer.exe'' ''ms-settings:sound''))"
proof -
  have "hardcoded ''sound settings'' ''Sound Settings'' ''explorer.exe'' ''ms-settings:sound'' \<in> set kHardcodedWindowsLocationExceptions"
    unfolding kHardcodedWindowsLocationExceptions_def list.set by (rule insertI1)
  from table_name_opens_its_target [OF this] show ?thesis by (simp add: hardcoded_def)
qed

section \<open>The name of the processor\<close>

lemma fgets_line: "newline \<notin> set l \<Longrightarrow> length acc + length l \<le> 510 \<Longrightarrow> fgets_lines acc (l @ newline # s) = (acc @ l @ [newline]) # fgets_lines [] s"
  by (induction l arbitrary: acc) auto

definition other_line :: "string \<Rightarrow> bool" where
  "other_line l \<longleftrightarrow> newline \<notin> set l \<and> length l \<le> 510 \<and> \<not> starts_with (c_str (l @ [newline])) ''model name''"

lemma cpu_name_skips:
  "list_all other_line ls \<Longrightarrow> cpu_name_loop (fgets_lines [] (concat (map (\<lambda>l. l @ [newline]) ls) @ s)) = cpu_name_loop (fgets_lines [] s)"
  by (induction ls) (simp_all add: other_line_def fgets_line Let_def)

lemma c_str_id: "CHR 0x00 \<notin> set s \<Longrightarrow> c_str s = s"
  by (auto simp: c_str_def takeWhile_eq_all_conv)

lemma find_colon: "colon \<notin> set a \<Longrightarrow> find_str [colon] (a @ colon # b) = Some (length a)"
  by (induction a) auto

lemma starts_with_append: "starts_with (a @ s) a"
  by (simp add: starts_with_def)

text \<open>
  The name of the processor is what \<open>/proc/cpuinfo\<close> says behind the colon and the blank of its first
  model name, whatever the lines before and behind.
\<close>

theorem cpu_name_is_read:
  assumes "list_all other_line ls" and "list_all (\<lambda>c. c = tab \<or> c = blank) gap"
    and "newline \<notin> set name" and "CHR 0x00 \<notin> set name" and "length gap + length name \<le> 498"
  shows "cpu_name_loop (fgets_lines []
      (concat (map (\<lambda>l. l @ [newline]) ls) @ ''model name'' @ gap @ [colon, blank] @ name @ [newline] @ rest)) = Inr name"
proof -
  let ?line = "''model name'' @ gap @ [colon, blank] @ name"
  have gap: "newline \<notin> set gap" "CHR 0x00 \<notin> set gap" "colon \<notin> set gap"
    using assms(2) by (auto simp: list_all_iff)
  have line: "fgets_lines [] (?line @ newline # rest) = ([] @ ?line @ [newline]) # fgets_lines [] rest"
    using gap assms(3,5) by (intro fgets_line) simp_all
  have z: "c_str (?line @ [newline]) = ?line @ [newline]"
    using gap assms(4) by (intro c_str_id) simp
  have "find_str [colon] ((''model name'' @ gap) @ colon # blank # name @ [newline]) = Some (length (''model name'' @ gap))"
    using gap by (intro find_colon) simp
  then show ?thesis
    using line z starts_with_append [of "''model name''" "gap @ [colon, blank] @ name @ [newline]"]
    by (simp add: cpu_name_skips [OF assms(1)] Let_def)
qed

end
