(* ===== verification/Clipboard.thy ===== *)
theory Clipboard imports Complex_Main Host_Files Host_Startup Os_Registry "HOL-Library.Word" begin

text \<open>
  \<open>cli/clipboard.cpp\<close>: text to and from the clipboard of Windows. The system calls are the record
  \<open>'w clip\<close>; the conversions between UTF-8 and UTF-16 give \<open>None\<close> when they fail. On other systems there
  is no clipboard. What holds of the clipboard tools of the host follows at the end.
\<close>

type_synonym wide = "16 word list"

text \<open>
  \<open>cl_alloc\<close> and \<open>cl_lock\<close> are \<open>GlobalAlloc\<close> and \<open>GlobalLock\<close> of a buffer for so many code units, \<open>cl_view\<close>
  locks what \<open>GetClipboardData\<close> gave.
\<close>

record 'w clip =
  cl_available :: "'w \<Rightarrow> bool"
  cl_open :: "'w \<Rightarrow> bool \<times> 'w"
  cl_close :: "'w \<Rightarrow> 'w"
  cl_to_wide :: "string \<Rightarrow> wide option"
  cl_to_utf8 :: "wide \<Rightarrow> string option"
  cl_alloc :: "nat \<Rightarrow> 'w \<Rightarrow> bool"
  cl_lock :: "nat \<Rightarrow> 'w \<Rightarrow> bool"
  cl_empty :: "'w \<Rightarrow> 'w"
  cl_set :: "wide \<Rightarrow> 'w \<Rightarrow> bool \<times> 'w"
  cl_get :: "'w \<Rightarrow> wide option"
  cl_view :: "wide \<Rightarrow> 'w \<Rightarrow> bool"

definition clip_failed :: "string \<Rightarrow> clipboard_write" where
  "clip_failed message = \<lparr>cw_ok = False, cw_error_message = message\<rparr>"

definition clip_unread :: "string \<Rightarrow> clipboard_read" where
  "clip_unread message = \<lparr>cb_ok = False, cb_text = [], cb_error_message = message\<rparr>"

definition clipboard_held :: string where
  "clipboard_held = ''could not open the clipboard (another process may be holding it)''"

definition no_clipboard :: string where
  "no_clipboard = ''clipboard access is not implemented on this platform''"

text \<open>The buffer has room for the text and its terminator.\<close>

definition write_text_to_clipboard :: "bool \<Rightarrow> 'w clip \<Rightarrow> string \<Rightarrow> 'w \<Rightarrow> clipboard_write \<times> 'w" where
  "write_text_to_clipboard windows c txt w =
     (if \<not> windows then (clip_failed no_clipboard, w)
      else
        (case cl_open c w of (opened, w1) \<Rightarrow>
           if \<not> opened then (clip_failed clipboard_held, w1)
           else
             (case cl_to_wide c (c_str txt) of
                None \<Rightarrow> (clip_failed ''failed to convert text to UTF-16 for the clipboard'', cl_close c w1)
              | Some u \<Rightarrow>
                  if \<not> cl_alloc c (Suc (length u)) w1 then (clip_failed ''GlobalAlloc failed'', cl_close c w1)
                  else if \<not> cl_lock c (Suc (length u)) w1 then (clip_failed ''GlobalLock failed'', cl_close c w1)
                  else
                    (case cl_set c u (cl_empty c w1) of (done, w2) \<Rightarrow>
                       (if done then \<lparr>cw_ok = True, cw_error_message = []\<rparr> else clip_failed ''SetClipboardData failed'',
                        cl_close c w2)))))"

definition read_text_from_clipboard :: "bool \<Rightarrow> 'w clip \<Rightarrow> 'w \<Rightarrow> clipboard_read \<times> 'w" where
  "read_text_from_clipboard windows c w =
     (if \<not> windows then (clip_unread no_clipboard, w)
      else if \<not> cl_available c w then (clip_unread ''clipboard does not currently hold text'', w)
      else
        (case cl_open c w of (opened, w1) \<Rightarrow>
           if \<not> opened then (clip_unread clipboard_held, w1)
           else
             (case cl_get c w1 of
                None \<Rightarrow> (clip_unread ''GetClipboardData failed'', cl_close c w1)
              | Some u \<Rightarrow>
                  if \<not> cl_view c u w1 then (clip_unread ''GlobalLock failed'', cl_close c w1)
                  else
                    (case cl_to_utf8 c u of
                       Some (a # s) \<Rightarrow> (\<lparr>cb_ok = True, cb_text = a # s, cb_error_message = []\<rparr>, cl_close c w1)
                     | _ \<Rightarrow> (clip_unread ''clipboard text was empty'', cl_close c w1)))))"

text \<open>The host with this clipboard.\<close>

definition with_clipboard :: "'w os \<Rightarrow> 'w clip \<Rightarrow> 'w os" where
  "with_clipboard os c = os\<lparr>os_clipboard_read := read_text_from_clipboard (os_windows os) c,
     os_clipboard_write := write_text_to_clipboard (os_windows os) c\<rparr>"

section \<open>Reading back\<close>

text \<open>
  A clipboard as it is documented: what has been set is what is there, open or closed, emptied before
  or not, and a UTF-8 text that converts comes back from UTF-16.
\<close>

definition clip_keeps :: "'w clip \<Rightarrow> bool" where
  "clip_keeps c \<longleftrightarrow>
     (\<forall>u w w2. cl_set c u w = (True, w2) \<longrightarrow> cl_available c (cl_close c w2) \<and> fst (cl_open c (cl_close c w2))
        \<and> cl_get c (snd (cl_open c (cl_close c w2))) = Some u \<and> cl_view c u (snd (cl_open c (cl_close c w2))))
     \<and> (\<forall>txt u. cl_to_wide c txt = Some u \<longrightarrow> cl_to_utf8 c u = Some txt)"

lemma written_state:
  assumes "write_text_to_clipboard True c txt w = (r, w')" and "cw_ok r"
  obtains u w1 w2 where "cl_to_wide c (c_str txt) = Some u" "cl_set c u w1 = (True, w2)" "w' = cl_close c w2"
  using assms by (auto simp: write_text_to_clipboard_def clip_failed_def split: prod.splits option.splits if_splits)

lemma read_after_write:
  assumes "clip_keeps c" and "write_text_to_clipboard True c txt w = (r, w')" and "cw_ok r"
  shows "fst (read_text_from_clipboard True c w')
    = (if c_str txt = [] then clip_unread ''clipboard text was empty'' else \<lparr>cb_ok = True, cb_text = c_str txt, cb_error_message = []\<rparr>)"
proof -
  obtain u w1 w2 where u: "cl_to_wide c (c_str txt) = Some u" "cl_set c u w1 = (True, w2)" "w' = cl_close c w2"
    by (rule written_state [OF assms(2,3)])
  then have "cl_to_utf8 c u = Some (c_str txt)"
    "cl_available c w'" "fst (cl_open c w')" "cl_get c (snd (cl_open c w')) = Some u" "cl_view c u (snd (cl_open c w'))"
    using assms(1) by (auto simp: clip_keeps_def)
  then show ?thesis
    by (cases "c_str txt") (simp_all add: read_text_from_clipboard_def case_prod_beta)
qed

text \<open>
  A text that the clipboard took is read back, up to its first NUL.
\<close>

theorem clipboard_text_reads_back:
  assumes "clip_keeps c" and "write_text_to_clipboard True c txt w = (r, w')" and "cw_ok r" and "txt \<noteq> []" and "hd txt \<noteq> CHR 0x00"
  shows "fst (read_text_from_clipboard True c w') = \<lparr>cb_ok = True, cb_text = c_str txt, cb_error_message = []\<rparr>"
proof -
  have "c_str txt \<noteq> []" using assms(4,5) by (cases "txt") (simp_all add: c_str_def)
  then show ?thesis using read_after_write [OF assms(1-3)] by simp
qed

text \<open>A clipboard of one text, each character as one code unit.\<close>

definition plain_clip :: "wide option clip" where
  "plain_clip = \<lparr>cl_available = (\<lambda>w. w \<noteq> None), cl_open = (\<lambda>w. (True, w)), cl_close = (\<lambda>w. w),
     cl_to_wide = (\<lambda>s. Some (map of_char s)), cl_to_utf8 = (\<lambda>u. Some (map (\<lambda>x. char_of (unat x)) u)),
     cl_alloc = (\<lambda>n w. True), cl_lock = (\<lambda>n w. True), cl_empty = (\<lambda>w. None),
     cl_set = (\<lambda>u w. (True, Some u)), cl_get = (\<lambda>w. w), cl_view = (\<lambda>u w. True)\<rparr>"

lemma unit_of_char: "char_of (unat (of_char c :: 16 word)) = c"
proof -
  have "(of_char c :: 16 word) = word_of_nat (of_char c)" by (simp only: of_nat_of_char)
  moreover have "(of_char c :: nat) < 2 ^ LENGTH(16)" by (rule order.strict_trans [OF nat_of_char_less_256]) simp
  ultimately have "unat (of_char c :: 16 word) = (of_char c :: nat)" by (simp only: unsigned_of_nat take_bit_nat_eq_self of_nat_id)
  then show ?thesis by simp
qed

lemma plain_keeps: "clip_keeps plain_clip"
  by (simp add: clip_keeps_def plain_clip_def unit_of_char comp_def)

theorem clipboard_text_reads_back_witness:
  "fst (read_text_from_clipboard True plain_clip (snd (write_text_to_clipboard True plain_clip ''note'' None)))
    = \<lparr>cb_ok = True, cb_text = ''note'', cb_error_message = []\<rparr>"
proof -
  have taken: "write_text_to_clipboard True plain_clip ''note'' None
      = (\<lparr>cw_ok = True, cw_error_message = []\<rparr>, Some (map of_char ''note''))"
    by (simp add: write_text_to_clipboard_def plain_clip_def c_str_def)
  show ?thesis
    using clipboard_text_reads_back [OF plain_keeps taken] taken by (simp add: c_str_def)
qed

section \<open>The tools of the host\<close>

text \<open>
  The tool that writes the clipboard checks its own work: what the clipboard took is reported as
  verified exactly when it is not empty and holds no NUL. An empty text is taken, yet never verified.
\<close>

theorem clipboard_write_is_verified:
  assumes "clip_keeps c" and "os_windows os" and "\<And>f w. snd (os_local_time os f w) = w"
    and "cw_ok (fst (write_text_to_clipboard True c (extract_json_string_field body ''text'' 0) (h_world h)))"
  shows "fst (write_clipboard_json (with_clipboard os c) body h)
    = json_object [json_bool_field ''ok'' True, json_string_field ''error'' [],
        json_bool_field ''verified_matches''
          (extract_json_string_field body ''text'' 0 \<noteq> [] \<and> CHR 0x00 \<notin> set (extract_json_string_field body ''text'' 0))]"
proof -
  let ?t = "extract_json_string_field body ''text'' 0" and ?os = "with_clipboard os c"
  obtain r w' where r: "write_text_to_clipboard True c ?t (h_world h) = (r, w')" by (cases "write_text_to_clipboard True c ?t (h_world h)")
  have ok: "cw_ok r" "cw_error_message r = []"
    using assms(4) r by (auto simp: write_text_to_clipboard_def clip_failed_def split: prod.splits option.splits if_splits)
  have wr: "sense (os_clipboard_write ?os ?t) h = (r, h\<lparr>h_world := w'\<rparr>)"
    using assms(2) r by (simp add: sense_def with_clipboard_def)
  have log: "h_world (append_app_log ?os ch d m b s g) = h_world g" for ch d m b s g
    using assms(3) by (simp add: append_app_log_def append_app_log_full_def make_log_timestamp_def make_full_log_timestamp_def
        sense_def with_clipboard_def Let_def case_prod_beta split: option.split)
  have rd: "fst (sense (os_clipboard_read ?os) g) = fst (read_text_from_clipboard True c (h_world g))" for g
    using assms(2) by (simp add: sense_def with_clipboard_def case_prod_beta)
  have "c_str ?t = ?t \<longleftrightarrow> CHR 0x00 \<notin> set ?t"
    by (auto simp: c_str_def takeWhile_eq_all_conv)
  moreover have "c_str ?t \<noteq> [] \<Longrightarrow> ?t \<noteq> []"
    by (auto simp: c_str_def)
  ultimately show ?thesis
    using read_after_write [OF assms(1) r ok(1)] ok
    by (auto simp: write_clipboard_json_def Let_def wr case_prod_beta rd log clip_unread_def)
qed

theorem clipboard_write_is_verified_witness:
  "fst (write_clipboard_json (with_clipboard (idle_os\<lparr>os_windows := True\<rparr>) plain_clip) (render_object [(''text'', JStr [])]) (new_host None))
    = json_object [json_bool_field ''ok'' True, json_string_field ''error'' [], json_bool_field ''verified_matches'' False]"
proof -
  have t: "extract_json_string_field (render_object [(''text'', JStr [])]) ''text'' 0 = []"
    by (simp add: extract_flat_string flat_string_def plain_keys_def plain_key_def plain_char_def)
  have "cw_ok (fst (write_text_to_clipboard True plain_clip [] (h_world (new_host None))))"
    by (simp add: write_text_to_clipboard_def plain_clip_def c_str_def)
  then show ?thesis
    using clipboard_write_is_verified [OF plain_keeps, of "idle_os\<lparr>os_windows := True\<rparr>" "render_object [(''text'', JStr [])]" "new_host None"] t
    by (simp add: idle_os_def)
qed

end
