(* ===== verification/Service.thy ===== *)
theory Service imports Complex_Main Daemon begin

text \<open>
  How \<open>main\<close> runs what it has started without a terminal: in the foreground until a signal
  (\<open>--headless\<close>), or as a service of Windows (\<open>cli/windows_service.cpp\<close>, \<open>--service\<close>), whose manager sends its
  controls while the loop runs. Then: a service that is told to stop ends, saved and reported.
\<close>

section \<open>In the foreground\<close>

text \<open>Every round comes with the flag as the loop finds it; a signal clears it for good.\<close>

definition handle_signal :: "bool \<Rightarrow> bool" where
  "handle_signal running = False"

fun headless_loop ::
    "'w os \<Rightarrow> post_json \<Rightarrow> bool \<Rightarrow> (bool \<times> string list option) list \<Rightarrow> 'w host mini_http_server
      \<Rightarrow> poll_outcome list \<times> round \<times> 'w host mini_http_server" where
  "headless_loop os post running [] server = ([], Next, server)"
| "headless_loop os post running ((signalled, client) # rounds) server =
     (let running1 = (if signalled then handle_signal running else running)
      in if \<not> running1 then ([], Left, server)
         else
           (case loop_round os post client server of
              (outcome, Next, server1) \<Rightarrow> apfst ((#) outcome) (headless_loop os post running1 rounds server1)
            | (outcome, r, server1) \<Rightarrow> ([outcome], r, server1)))"

section \<open>The service\<close>

datatype service_state = SERVICE_START_PENDING | SERVICE_RUNNING | SERVICE_STOP_PENDING | SERVICE_STOPPED
datatype service_control = SERVICE_CONTROL_STOP | SERVICE_CONTROL_SHUTDOWN | Other_Control

text \<open>
  The status handle, the flag of the loop and everything reported, each with its wait hint.
\<close>

record service =
  sx_handle :: bool
  sx_running :: bool
  sx_reported :: "(service_state \<times> nat) list"

definition report_status :: "service_state \<Rightarrow> nat \<Rightarrow> service \<Rightarrow> service" where
  "report_status current_state wait_hint sv =
     (if \<not> sx_handle sv then sv else sv\<lparr>sx_reported := sx_reported sv @ [(current_state, wait_hint)]\<rparr>)"

definition service_ctrl_handler :: "service_control \<Rightarrow> service \<Rightarrow> service" where
  "service_ctrl_handler ctrl sv =
     (if ctrl = SERVICE_CONTROL_STOP \<or> ctrl = SERVICE_CONTROL_SHUTDOWN
      then (report_status SERVICE_STOP_PENDING 5000 sv)\<lparr>sx_running := False\<rparr> else sv)"

text \<open>Every round comes with the controls that arrived before the loop looks at its flag.\<close>

fun service_loop ::
    "'w os \<Rightarrow> post_json \<Rightarrow> (service_control list \<times> string list option) list \<Rightarrow> service \<Rightarrow> 'w host mini_http_server
      \<Rightarrow> poll_outcome list \<times> round \<times> service \<times> 'w host mini_http_server" where
  "service_loop os post [] sv server = ([], Next, sv, server)"
| "service_loop os post ((ctrls, client) # rounds) sv server =
     (let sv1 = fold service_ctrl_handler ctrls sv
      in if \<not> sx_running sv1 then ([], Left, sv1, server)
         else
           (case loop_round os post client server of
              (outcome, Next, server1) \<Rightarrow> apfst ((#) outcome) (service_loop os post rounds sv1 server1)
            | (outcome, r, server1) \<Rightarrow> ([outcome], r, sv1, server1)))"

text \<open>
  \<open>early\<close> are the controls between the two first reports. The answer says whether the service has ended;
  one whose handler is refused ends at once, with nothing reported or saved.
\<close>

definition service_main ::
    "'w os \<Rightarrow> post_json \<Rightarrow> bool \<Rightarrow> service_control list \<Rightarrow> (service_control list \<times> string list option) list \<Rightarrow> service
      \<Rightarrow> 'w host mini_http_server \<Rightarrow> poll_outcome list \<times> bool \<times> service \<times> 'w host mini_http_server" where
  "service_main os post registered early rounds sv server =
     (let sv1 = sv\<lparr>sx_handle := registered\<rparr>
      in if \<not> registered then ([], True, sv1, server)
         else
           (let sv2 = report_status SERVICE_RUNNING 0 (fold service_ctrl_handler early (report_status SERVICE_START_PENDING 3000 sv1))
            in case service_loop os post rounds sv2 server of
                 (outcomes, r, sv3, server1) \<Rightarrow>
                   if r = Left then (outcomes, True, report_status SERVICE_STOPPED 0 sv3, shut_down os server1)
                   else (outcomes, False, sv3, server1)))"

definition idle_service :: service where
  "idle_service = \<lparr>sx_handle = False, sx_running = True, sx_reported = []\<rparr>"

text \<open>\<open>None\<close>: the process was not started by the service manager, or this is not Windows.\<close>

definition run_as_windows_service ::
    "'w os \<Rightarrow> bool \<Rightarrow> post_json \<Rightarrow> bool \<Rightarrow> service_control list \<Rightarrow> (service_control list \<times> string list option) list
      \<Rightarrow> 'w host mini_http_server \<Rightarrow> (poll_outcome list \<times> bool \<times> service \<times> 'w host mini_http_server) option" where
  "run_as_windows_service os from_scm post registered early rounds server =
     (if os_windows os \<and> from_scm then Some (service_main os post registered early rounds idle_service server) else None)"

definition install_windows_service :: "'w os \<Rightarrow> bool \<Rightarrow> bool \<Rightarrow> bool" where
  "install_windows_service os scm_opened created \<longleftrightarrow> os_windows os \<and> scm_opened \<and> created"

definition uninstall_windows_service :: "'w os \<Rightarrow> bool \<Rightarrow> bool \<Rightarrow> bool \<Rightarrow> bool" where
  "uninstall_windows_service os scm_opened service_opened deleted \<longleftrightarrow> os_windows os \<and> scm_opened \<and> service_opened \<and> deleted"

text \<open>
  The end of \<open>main\<close> for a server that listens: the exit code and what is left, \<open>None\<close> while it still runs.
  \<open>interactive\<close> is what the terminal and the thread that serves behind it leave (\<open>Interactive\<close>).
\<close>

definition main_runs ::
    "'w os \<Rightarrow> post_json \<Rightarrow> string list \<Rightarrow> bool \<Rightarrow> bool \<Rightarrow> service_control list \<Rightarrow> (service_control list \<times> string list option) list
      \<Rightarrow> (bool \<times> string list option) list \<Rightarrow> ('w host mini_http_server \<Rightarrow> 'w host mini_http_server)
      \<Rightarrow> 'w host mini_http_server \<Rightarrow> (int \<times> 'w host mini_http_server) option" where
  "main_runs os post args from_scm registered early service_rounds rounds interactive server =
     (if has_flag args ''--service'' then
        (case run_as_windows_service os from_scm post registered early service_rounds server of
           None \<Rightarrow> Some (1, server)
         | Some (outcomes, ended, sv, server1) \<Rightarrow> if ended then Some (0, server1) else None)
      else if has_flag args ''--headless'' then
        (case headless_loop os post True rounds server of
           (outcomes, r, server1) \<Rightarrow> if r = Left then Some (0, shut_down os server1) else None)
      else Some (0, shut_down os (interactive server)))"

section \<open>What a service does\<close>

lemma report_simps [simp]:
  "sx_handle (report_status st n sv) = sx_handle sv" "sx_running (report_status st n sv) = sx_running sv"
  "sx_handle sv \<Longrightarrow> sx_reported (report_status st n sv) = sx_reported sv @ [(st, n)]"
  by (simp_all add: report_status_def)

definition asks_to_stop :: "service_control \<Rightarrow> bool" where
  "asks_to_stop ctrl \<longleftrightarrow> ctrl = SERVICE_CONTROL_STOP \<or> ctrl = SERVICE_CONTROL_SHUTDOWN"

lemma handler_simps [simp]:
  "sx_handle (service_ctrl_handler ctrl sv) = sx_handle sv"
  "sx_running (service_ctrl_handler ctrl sv) \<longleftrightarrow> sx_running sv \<and> \<not> asks_to_stop ctrl"
  "sx_handle sv \<Longrightarrow> sx_reported (service_ctrl_handler ctrl sv) = sx_reported sv @ (if asks_to_stop ctrl then [(SERVICE_STOP_PENDING, 5000)] else [])"
  by (auto simp: service_ctrl_handler_def asks_to_stop_def)

lemma controls_simps [simp]:
  "sx_handle (fold service_ctrl_handler ctrls sv) = sx_handle sv"
  "sx_running (fold service_ctrl_handler ctrls sv) \<longleftrightarrow> sx_running sv \<and> \<not> list_ex asks_to_stop ctrls"
  by (induction ctrls arbitrary: sv) auto

text \<open>What is reported between two states of the service: only that it is about to stop.\<close>

definition only_pending :: "service \<Rightarrow> service \<Rightarrow> bool" where
  "only_pending sv sv' \<longleftrightarrow> (\<exists>n. sx_reported sv' = sx_reported sv @ replicate n (SERVICE_STOP_PENDING, 5000)) \<and> sx_handle sv'"

lemma only_pending_trans: "only_pending a b \<Longrightarrow> only_pending b c \<Longrightarrow> only_pending a c"
  by (auto simp: only_pending_def replicate_add [symmetric] intro: exI [of _ "n + m" for n m])

lemma controls_pending: "sx_handle sv \<Longrightarrow> only_pending sv (fold service_ctrl_handler ctrls sv)"
proof (induction ctrls arbitrary: sv)
  case (Cons ctrl ctrls)
  have "only_pending sv (service_ctrl_handler ctrl sv)"
    using Cons.prems by (auto simp: only_pending_def intro: exI [of _ 0] exI [of _ 1])
  moreover have "only_pending (service_ctrl_handler ctrl sv) (fold service_ctrl_handler ctrls (service_ctrl_handler ctrl sv))"
    using Cons.prems by (intro Cons.IH) simp
  ultimately show ?case by (auto intro: only_pending_trans)
qed (simp add: only_pending_def)

lemma loop_pending:
  "sx_handle sv \<Longrightarrow> service_loop os post rounds sv server = (outcomes, r, sv', server') \<Longrightarrow> only_pending sv sv'"
proof (induction rounds arbitrary: sv server outcomes)
  case (Cons x rounds)
  obtain ctrls client where x: "x = (ctrls, client)" by (cases x)
  note pend = controls_pending [OF Cons.prems(1), of ctrls]
  obtain outcome q s1 where l: "loop_round os post client server = (outcome, q, s1)" by (rule prod_cases3)
  show ?case
  proof (cases "sx_running (fold service_ctrl_handler ctrls sv) \<and> q = Next")
    case True
    then obtain os' where "service_loop os post rounds (fold service_ctrl_handler ctrls sv) s1 = (os', r, sv', server')"
      using Cons.prems(2) l by (cases "service_loop os post rounds (fold service_ctrl_handler ctrls sv) s1") (auto simp: x Let_def)
    with pend Cons.IH [OF _ this] Cons.prems(1) show ?thesis by (auto intro: only_pending_trans)
  next
    case False
    then show ?thesis
      using Cons.prems(2) l pend by (cases q) (auto simp: x Let_def split: if_splits)
  qed
qed (simp add: only_pending_def)

text \<open>
  A service that has ended has reported, in this order, that it starts, that it runs and that it
  has stopped; in between it reported at most that it is about to stop, and its server is down.
\<close>

theorem service_ends_reported:
  assumes "service_main os post True early rounds idle_service server = (outcomes, True, sv, server')"
  shows "\<exists>n m. sx_reported sv = (SERVICE_START_PENDING, 3000) # replicate n (SERVICE_STOP_PENDING, 5000) @ (SERVICE_RUNNING, 0)
      # replicate m (SERVICE_STOP_PENDING, 5000) @ [(SERVICE_STOPPED, 0)]
    \<and> \<not> ms_running server'"
proof -
  let ?sv0 = "report_status SERVICE_START_PENDING 3000 (idle_service\<lparr>sx_handle := True\<rparr>)"
  let ?sv1 = "fold service_ctrl_handler early ?sv0"
  obtain sv3 server1 where l: "service_loop os post rounds (report_status SERVICE_RUNNING 0 ?sv1) server = (outcomes, Left, sv3, server1)"
    and e: "sv = report_status SERVICE_STOPPED 0 sv3" "server' = shut_down os server1"
    using assms by (auto simp: service_main_def Let_def split: prod.splits if_splits)
  have "only_pending ?sv0 ?sv1" by (rule controls_pending) simp
  moreover have "only_pending (report_status SERVICE_RUNNING 0 ?sv1) sv3" by (rule loop_pending [OF _ l]) simp
  ultimately obtain n m where "sx_reported ?sv1 = sx_reported ?sv0 @ replicate n (SERVICE_STOP_PENDING, 5000)"
    "sx_reported sv3 = sx_reported (report_status SERVICE_RUNNING 0 ?sv1) @ replicate m (SERVICE_STOP_PENDING, 5000)" "sx_handle sv3"
    unfolding only_pending_def by blast
  then have "sx_reported sv = (SERVICE_START_PENDING, 3000) # replicate n (SERVICE_STOP_PENDING, 5000) @ (SERVICE_RUNNING, 0)
      # replicate m (SERVICE_STOP_PENDING, 5000) @ [(SERVICE_STOPPED, 0)]"
    by (simp add: e idle_service_def)
  moreover have "\<not> ms_running server'"
    by (simp add: e shut_down_def stop_server_def case_prod_beta)
  ultimately show ?thesis by blast
qed

definition running_server :: "unit host mini_http_server" where
  "running_server = (stopped_server (new_host ()))\<lparr>ms_running := True\<rparr>"

lemma stopped_at_once:
  "service_main idle_os post True [] [([SERVICE_CONTROL_STOP], None)] idle_service running_server
   = ([], True, \<lparr>sx_handle = True, sx_running = False, sx_reported =
        [(SERVICE_START_PENDING, 3000), (SERVICE_RUNNING, 0), (SERVICE_STOP_PENDING, 5000), (SERVICE_STOPPED, 0)]\<rparr>,
      shut_down idle_os running_server)"
  by (simp add: service_main_def report_status_def service_ctrl_handler_def idle_service_def)

theorem service_ends_reported_witness:
  "\<exists>sv n m. service_main idle_os (\<lambda>u b h. (False, 0, [])) True [] [([SERVICE_CONTROL_STOP], None)] idle_service running_server
      = ([], True, sv, shut_down idle_os running_server)
    \<and> sx_reported sv = (SERVICE_START_PENDING, 3000) # replicate n (SERVICE_STOP_PENDING, 5000) @ (SERVICE_RUNNING, 0)
      # replicate m (SERVICE_STOP_PENDING, 5000) @ [(SERVICE_STOPPED, 0)]"
  using service_ends_reported [OF stopped_at_once] stopped_at_once by blast

lemma stop_leaves_loop:
  assumes "ms_running server" and "list_ex asks_to_stop ctrls"
    and "fst (snd (service_loop os post (before @ (ctrls, client) # behind) sv server)) \<noteq> Undefined_Round"
  shows "fst (snd (service_loop os post (before @ (ctrls, client) # behind) sv server)) = Left
    \<and> length (fst (service_loop os post (before @ (ctrls, client) # behind) sv server)) \<le> length before"
  using assms
proof (induction before arbitrary: sv server)
  case (Cons x before)
  obtain cs cl where x: "x = (cs, cl)" by (cases x)
  obtain outcome q s1 where l: "loop_round os post cl server = (outcome, q, s1)" by (rule prod_cases3)
  show ?case
  proof (cases "sx_running (fold service_ctrl_handler cs sv)")
    case True
    then have "q \<noteq> Undefined_Round"
      using Cons.prems(3) l by (auto simp: x Let_def)
    then have n: "q = Next" "ms_running s1"
      using round_goes_on [OF Cons.prems(1), of os post cl] l by simp_all
    then show ?thesis
      using Cons.IH [of s1 "fold service_ctrl_handler cs sv"] Cons.prems(2,3) True l
      by (simp add: x Let_def apfst_def map_prod_def case_prod_beta)
  qed (simp add: x)
qed simp



end
