(* ===== verification/Https_Client.thy ===== *)
theory Https_Client imports Complex_Main Http_Client Os_Registry begin

text \<open>
  The \<open>https\<close> transport of \<open>src/tools/sync_http_client.cpp\<close>: WinHTTP is the record \<open>winhttp\<close>, what is asked
  of it and what is made of its answers is modelled. It takes the place of \<open>nw_https\<close> in \<open>Http_Client\<close>.
\<close>

section \<open>WinHTTP\<close>

type_synonym wide_text = "nat list"

text \<open>
  One turn of the loop over the body: \<open>WinHttpQueryDataAvailable\<close> fails, or tells how much there is and
  \<open>WinHttpReadData\<close> gives some bytes or fails.
\<close>

datatype body_read = Query_Failed | Available nat "string option"

record winhttp =
  wh_session :: bool
  wh_connect :: "wide_text \<Rightarrow> nat \<Rightarrow> bool"
  wh_request :: "wide_text \<Rightarrow> wide_text \<Rightarrow> bool"
  wh_send :: "wide_text option \<Rightarrow> string \<Rightarrow> bool"
  wh_response :: bool
  wh_status :: "nat option"
  wh_body :: "body_read list"

text \<open>One code unit a byte; what is passed as a C string ends at its first NUL.\<close>

definition widen_ascii :: "string \<Rightarrow> wide_text" where
  "widen_ascii value = map of_char value"

definition c_wide :: "wide_text \<Rightarrow> wide_text" where
  "c_wide u = takeWhile (\<lambda>x. x \<noteq> 0) u"

definition wide_crlf :: wide_text where
  "wide_crlf = [13, 10]"

definition header_block_of :: "string \<Rightarrow> string list \<Rightarrow> wide_text" where
  "header_block_of method extra_headers =
     (if method = ''POST'' then widen_ascii ''Content-Type: application/json'' @ wide_crlf else [])
     @ concat (map (\<lambda>h. widen_ascii h @ wide_crlf) extra_headers)"

fun body_loop :: "body_read list \<Rightarrow> string" where
  "body_loop [] = []"
| "body_loop (r # rs) =
     (case r of
        Query_Failed \<Rightarrow> []
      | Available n chunk \<Rightarrow>
          if n = 0 then []
          else (case chunk of None \<Rightarrow> [] | Some bytes \<Rightarrow> if bytes = [] then [] else bytes @ body_loop rs))"

definition https_request_winhttp ::
    "winhttp \<Rightarrow> string \<Rightarrow> parsed_http_url \<Rightarrow> string \<Rightarrow> string list \<Rightarrow> bool \<times> int \<times> string" where
  "https_request_winhttp wh method parsed body extra_headers =
     (if \<not> wh_session wh then (False, 0, [])
      else if \<not> wh_connect wh (c_wide (widen_ascii (pu_host parsed))) (nat (port_on_wire parsed)) then (False, 0, [])
      else if \<not> wh_request wh (c_wide (widen_ascii method)) (c_wide (widen_ascii (pu_path parsed))) then (False, 0, [])
      else
        (let header_block = header_block_of method extra_headers;
             headers = (if header_block = [] then None else Some (c_wide header_block))
         in if \<not> wh_send wh headers body \<or> \<not> wh_response wh then (False, 0, [])
            else (True, (case wh_status wh of Some n \<Rightarrow> wrap32 (int n) | None \<Rightarrow> 0), body_loop (wh_body wh))))"

text \<open>The network of a Windows machine.\<close>

definition with_winhttp :: "network \<Rightarrow> winhttp \<Rightarrow> network" where
  "with_winhttp net wh = net\<lparr>nw_https := Some (https_request_winhttp wh)\<rparr>"

section \<open>What is read\<close>

text \<open>The pieces of a body, each as it is announced and read.\<close>

definition pieces :: "string list \<Rightarrow> body_read list" where
  "pieces bs = map (\<lambda>b. Available (length b) (Some b)) bs"

lemma body_of_pieces:
  "list_all (\<lambda>b. b \<noteq> []) bs \<Longrightarrow> body_loop (pieces bs @ rs) = concat bs @ body_loop rs"
  by (induction bs) (simp_all add: pieces_def)

text \<open>
  A get over \<open>https\<close> that is answered gives the status and the whole body, in however many pieces it
  comes. A connection that is lost on the way is no error: what has come before is given as the answer,
  with the same flag and status.
\<close>

theorem https_get_reads_body:
  assumes "parse_http_url url = Some parsed" and "pu_valid parsed" and "pu_is_https parsed"
    and "wh_session wh" and "\<And>h p. wh_connect wh h p" and "\<And>m p. wh_request wh m p" and "\<And>h b. wh_send wh h b" and "wh_response wh"
    and "wh_status wh = Some 200" and "list_all (\<lambda>b. b \<noteq> []) bs"
  shows "sync_http_get (with_winhttp net (wh\<lparr>wh_body := pieces bs @ [Available 0 None]\<rparr>)) url = Some (True, 200, concat bs)
    \<and> sync_http_get (with_winhttp net (wh\<lparr>wh_body := pieces bs @ [Query_Failed]\<rparr>)) url = Some (True, 200, concat bs)"
  using assms
  by (simp add: sync_http_get_def sync_http_request_def with_winhttp_def https_request_winhttp_def Let_def body_of_pieces wrap32_def)

definition plain_winhttp :: winhttp where
  "plain_winhttp = \<lparr>wh_session = True, wh_connect = (\<lambda>h p. True), wh_request = (\<lambda>m p. True), wh_send = (\<lambda>h b. True),
     wh_response = True, wh_status = Some 200, wh_body = []\<rparr>"

definition no_network :: network where
  "no_network = \<lparr>nw_library_ok = False, nw_socket_ok = False, nw_resolves = (\<lambda>h. False), nw_connects = (\<lambda>h p. False),
     nw_sents = [], nw_received = [], nw_https = None\<rparr>"

theorem https_get_reads_body_witness:
  "sync_http_get (with_winhttp no_network (plain_winhttp\<lparr>wh_body := pieces [''ab'', ''c''] @ [Query_Failed]\<rparr>)) ''https://h''
    = Some (True, 200, ''abc'')"
proof -
  have "parse_http_url ''https://h'' = Some \<lparr>pu_host = ''h'', pu_path = ''/'', pu_port = 443, pu_is_https = True, pu_valid = True\<rparr>"
    by (simp add: parse_http_url_def starts_with_def empty_url_def Let_def)
  from https_get_reads_body [OF this, of plain_winhttp "[''ab'', ''c'']" no_network] show ?thesis
    by (simp add: plain_winhttp_def)
qed

end
