(* ===== verification/Media_Decode.thy ===== *)
theory Media_Decode imports Complex_Main Os_Interface begin

text \<open>
  \<open>src/media\<close>: the identity of a file, an image held in memory as FFmpeg reads it, the first frame of a
  file as RGBA (\<open>decode.cpp\<close>), and what is told of a media file (\<open>probe.cpp\<close>). FFmpeg and the clocks are
  arguments; a pixel is a value of type \<open>'p\<close>.
\<close>

section \<open>Images\<close>

record image_metadata =
  im_source_path :: string
  im_file_size :: int
  im_file_modified_unix :: int
  im_width :: int
  im_height :: int
  im_channel_count :: int

record 'p rgba_image =
  ri_width :: int
  ri_height :: int
  ri_pixels :: "'p list"
  ri_metadata :: image_metadata

definition no_image :: "'p rgba_image" where
  "no_image = \<lparr>ri_width = 0, ri_height = 0, ri_pixels = [], ri_metadata = \<lparr>im_source_path = [], im_file_size = 0,
     im_file_modified_unix = 0, im_width = 0, im_height = 0, im_channel_count = 0\<rparr>\<rparr>"

definition valid_image :: "'p rgba_image \<Rightarrow> bool" where
  "valid_image i \<longleftrightarrow> ri_width i > 0 \<and> ri_height i > 0 \<and> ri_pixels i \<noteq> []"

definition set_metadata :: "(image_metadata \<Rightarrow> image_metadata) \<Rightarrow> 'p rgba_image \<Rightarrow> 'p rgba_image" where
  "set_metadata f i = i\<lparr>ri_metadata := f (ri_metadata i)\<rparr>"

section \<open>The identity of a file\<close>

text \<open>Times are in nanoseconds: when the file was last written, by the clock of the file system, and both clocks.\<close>

record 'w clocks =
  ck_last_write :: "string \<Rightarrow> 'w \<Rightarrow> int option"
  ck_file_now :: "'w \<Rightarrow> int \<times> 'w"
  ck_system_now :: "'w \<Rightarrow> int \<times> 'w"

text \<open>\<open>duration_cast\<close> truncates towards zero.\<close>

definition whole_seconds :: "int \<Rightarrow> int" where
  "whole_seconds ns = (if ns \<ge> 0 then ns div 10 ^ 9 else - (- ns div 10 ^ 9))"

definition fill_metadata :: "'w os \<Rightarrow> 'w clocks \<Rightarrow> string \<Rightarrow> 'p rgba_image \<Rightarrow> 'w \<Rightarrow> (bool \<times> 'p rgba_image) \<times> 'w" where
  "fill_metadata os ck path img w =
     (if \<not> fs_exists os path w then ((False, img), w)
      else
        (let img1 = set_metadata (\<lambda>m. m\<lparr>im_source_path := path,
               im_file_size := (case fs_file_size os path w of Inl e \<Rightarrow> 0 | Inr n \<Rightarrow> int n)\<rparr>) img
         in case ck_last_write ck path w of
              None \<Rightarrow> ((True, set_metadata (\<lambda>m. m\<lparr>im_file_modified_unix := 0\<rparr>) img1), w)
            | Some modified_time \<Rightarrow>
                (case ck_file_now ck w of (file_now, w1) \<Rightarrow>
                   (case ck_system_now ck w1 of (system_now, w2) \<Rightarrow>
                      ((True, set_metadata (\<lambda>m. m\<lparr>im_file_modified_unix := whole_seconds (system_now + (modified_time - file_now))\<rparr>) img1), w2)))))"

definition get_file_identity :: "'w os \<Rightarrow> 'w clocks \<Rightarrow> string \<Rightarrow> 'w \<Rightarrow> (int \<times> int) option \<times> 'w" where
  "get_file_identity os ck path w =
     (case fill_metadata os ck path (no_image :: unit rgba_image) w of ((ok, probe), w1) \<Rightarrow>
        (if ok then Some (im_file_size (ri_metadata probe), im_file_modified_unix (ri_metadata probe)) else None, w1))"

section \<open>An image in memory\<close>

record 'b memory_input =
  mi_data :: "'b list"
  mi_offset :: nat

text \<open>\<open>None\<close> is \<open>AVERROR_EOF\<close>.\<close>

definition read_memory_packet :: "int \<Rightarrow> 'b memory_input \<Rightarrow> 'b list option \<times> 'b memory_input" where
  "read_memory_packet buffer_size input =
     (if buffer_size \<le> 0 then (None, input)
      else if mi_offset input \<ge> length (mi_data input) then (None, input)
      else
        (let remaining = length (mi_data input) - mi_offset input;
             to_read = (if nat buffer_size < remaining then nat buffer_size else remaining)
         in (Some (take to_read (drop (mi_offset input) (mi_data input))), input\<lparr>mi_offset := mi_offset input + to_read\<rparr>)))"

datatype whence = SEEK_SET | SEEK_CUR | SEEK_END | AVSEEK_SIZE | Other_Whence

text \<open>A sum that is cast to \<open>size_t\<close>.\<close>

definition to_size :: "int \<Rightarrow> nat" where
  "to_size n = nat (n mod 2 ^ 64)"

definition at_most_size :: "'b memory_input \<Rightarrow> int option \<times> 'b memory_input" where
  "at_most_size input =
     (let input1 = (if mi_offset input > length (mi_data input) then input\<lparr>mi_offset := length (mi_data input)\<rparr> else input)
      in (Some (int (mi_offset input1)), input1))"

text \<open>\<open>None\<close> is \<open>AVERROR(EINVAL)\<close>.\<close>

fun seek_memory_packet :: "int \<Rightarrow> whence \<Rightarrow> 'b memory_input \<Rightarrow> int option \<times> 'b memory_input" where
  "seek_memory_packet offset SEEK_SET input = at_most_size (input\<lparr>mi_offset := (if offset < 0 then 0 else to_size offset)\<rparr>)"
| "seek_memory_packet offset SEEK_CUR input = at_most_size (input\<lparr>mi_offset := to_size (int (mi_offset input) + offset)\<rparr>)"
| "seek_memory_packet offset SEEK_END input = at_most_size (input\<lparr>mi_offset := to_size (int (length (mi_data input)) + offset)\<rparr>)"
| "seek_memory_packet offset AVSEEK_SIZE input = (Some (int (length (mi_data input))), input)"
| "seek_memory_packet offset Other_Whence input = (None, input)"

section \<open>The first frame\<close>

text \<open>
  A frame with its size, whether a scaler can be had for it, and the RGBA pixels the scaler writes. A packet
  with its stream, whether the decoder takes it, and the first frame that comes out.
\<close>

record 'p av_frame =
  fr_width :: int
  fr_height :: int
  fr_scaler :: bool
  fr_rgba :: "'p list"

record 'p av_packet =
  pk_stream_index :: int
  pk_sent :: bool
  pk_frame :: "'p av_frame option"

record 'p format_context =
  fc_stream_info :: bool
  fc_best_stream :: int
  fc_decoder :: bool
  fc_context_allocated :: bool
  fc_parameters_copied :: bool
  fc_decoder_opened :: bool
  fc_packets :: "'p av_packet list"

text \<open>The number of pixels is computed as an \<open>int\<close>.\<close>

definition frame_to_rgba :: "'p av_frame \<Rightarrow> 'p rgba_image \<Rightarrow> cpp_exception + bool \<times> 'p rgba_image" where
  "frame_to_rgba frame out_img =
     (if fr_width frame \<le> 0 \<or> fr_height frame \<le> 0 then Inr (False, out_img)
      else if \<not> fr_scaler frame then Inr (False, out_img)
      else if \<not> in_i32 (fr_width frame * fr_height frame) then Inl UndefinedBehaviour
      else Inr (True, set_metadata (\<lambda>m. m\<lparr>im_width := fr_width frame, im_height := fr_height frame, im_channel_count := 4\<rparr>)
             (out_img\<lparr>ri_width := fr_width frame, ri_height := fr_height frame, ri_pixels := fr_rgba frame\<rparr>)))"

fun frame_loop :: "int \<Rightarrow> 'p av_packet list \<Rightarrow> 'p rgba_image \<Rightarrow> cpp_exception + bool \<times> 'p rgba_image" where
  "frame_loop stream_index [] out_img = Inr (False, out_img)"
| "frame_loop stream_index (packet # packets) out_img =
     (if pk_stream_index packet \<noteq> stream_index then frame_loop stream_index packets out_img
      else
        (case (if pk_sent packet then
                 (case pk_frame packet of Some frame \<Rightarrow> frame_to_rgba frame out_img | None \<Rightarrow> Inr (False, out_img))
               else Inr (False, out_img)) of
           Inl e \<Rightarrow> Inl e
         | Inr (decoded, img) \<Rightarrow> if decoded then Inr (True, img) else frame_loop stream_index packets img))"

definition decode_first_frame :: "'p format_context \<Rightarrow> 'p rgba_image \<Rightarrow> string \<Rightarrow> cpp_exception + bool \<times> 'p rgba_image" where
  "decode_first_frame fc out_img source_label =
     (if fc_best_stream fc < 0 then Inr (False, out_img)
      else if \<not> fc_decoder fc then Inr (False, out_img)
      else if \<not> fc_context_allocated fc then Inr (False, out_img)
      else if \<not> fc_parameters_copied fc then Inr (False, out_img)
      else if \<not> fc_decoder_opened fc then Inr (False, out_img)
      else
        (case frame_loop (fc_best_stream fc) (fc_packets fc) out_img of
           Inl e \<Rightarrow> Inl e
         | Inr (decoded, img) \<Rightarrow> Inr (decoded, set_metadata (\<lambda>m. m\<lparr>im_source_path := source_label\<rparr>) img)))"

definition decode_from_format_context ::
    "'p format_context \<Rightarrow> 'p rgba_image \<Rightarrow> string \<Rightarrow> cpp_exception + bool \<times> 'p rgba_image" where
  "decode_from_format_context fc out_img source_label =
     (if \<not> fc_stream_info fc then Inr (False, out_img) else decode_first_frame fc out_img source_label)"

text \<open>\<open>opens\<close> is \<open>avformat_open_input\<close> on a path.\<close>

definition decode_image_from_file ::
    "'w os \<Rightarrow> 'w clocks \<Rightarrow> (string \<Rightarrow> 'w \<Rightarrow> 'p format_context option) \<Rightarrow> string \<Rightarrow> 'w
      \<Rightarrow> (cpp_exception + bool \<times> 'p rgba_image) \<times> 'w" where
  "decode_image_from_file os ck opens path w =
     (case fill_metadata os ck path no_image w of ((ok, out_img), w1) \<Rightarrow>
        if \<not> ok then (Inr (False, out_img), w1)
        else
          (case opens path w1 of
             None \<Rightarrow> (Inr (False, no_image), w1)
           | Some fc \<Rightarrow> (decode_from_format_context fc out_img path, w1)))"

text \<open>Whether the buffer and the two contexts can be had, and \<open>avformat_open_input\<close> on the reader.\<close>

definition decode_image_from_memory ::
    "bool \<Rightarrow> bool \<Rightarrow> bool \<Rightarrow> ('b memory_input \<Rightarrow> 'p format_context option) \<Rightarrow> 'b list \<Rightarrow> string
      \<Rightarrow> cpp_exception + bool \<times> 'p rgba_image" where
  "decode_image_from_memory buffer_ok avio_ok context_ok opens bytes source_label =
     (if bytes = [] then Inr (False, no_image)
      else if \<not> buffer_ok then Inr (False, no_image)
      else if \<not> avio_ok then Inr (False, no_image)
      else if \<not> context_ok then Inr (False, no_image)
      else
        (case opens \<lparr>mi_data = bytes, mi_offset = 0\<rparr> of
           None \<Rightarrow> Inr (False, no_image)
         | Some fc \<Rightarrow> decode_from_format_context fc no_image source_label))"

section \<open>Probing a media file\<close>

text \<open>
  A stream as FFmpeg describes it; \<open>ps_codec\<close> is the name of its decoder. A frame rate is a fraction.
\<close>

record probed_stream =
  ps_width :: int
  ps_height :: int
  ps_codec :: "string option"
  ps_frame_rate :: "int \<times> int"
  ps_duration :: int
  ps_time_base :: "int \<times> int"

record probed_file =
  pf_stream_info :: bool
  pf_format_name :: "string option"
  pf_video :: "probed_stream option"
  pf_duration :: int

record media_probe_info =
  mp_valid :: bool
  mp_path :: string
  mp_format_name :: string
  mp_codec_name :: string
  mp_width :: int
  mp_height :: int
  mp_duration_ms :: int
  mp_frame_rate :: "int \<times> int"

definition AV_TIME_BASE :: int where
  "AV_TIME_BASE = 1000000"

definition probe_stream :: "probed_stream \<Rightarrow> media_probe_info \<Rightarrow> cpp_exception + media_probe_info" where
  "probe_stream s info =
     (let info1 = info\<lparr>mp_width := ps_width s, mp_height := ps_height s,
            mp_codec_name := (case ps_codec s of Some n \<Rightarrow> n | None \<Rightarrow> mp_codec_name info),
            mp_frame_rate := (if snd (ps_frame_rate s) > 0 then ps_frame_rate s else mp_frame_rate info)\<rparr>;
          scaled = ps_duration s * 1000 * fst (ps_time_base s)
      in if ps_duration s > 0 then
           (if \<not> in_i64 (ps_duration s * 1000) \<or> \<not> in_i64 scaled \<or> snd (ps_time_base s) = 0 then Inl UndefinedBehaviour
            else Inr (info1\<lparr>mp_duration_ms := sgn scaled * sgn (snd (ps_time_base s)) * (\<bar>scaled\<bar> div \<bar>snd (ps_time_base s)\<bar>)\<rparr>))
         else Inr info1)"

text \<open>\<open>None\<close>: the file cannot be opened.\<close>

definition probe_media_file :: "probed_file option \<Rightarrow> string \<Rightarrow> cpp_exception + bool \<times> media_probe_info" where
  "probe_media_file opened path =
     (let info = \<lparr>mp_valid = False, mp_path = path, mp_format_name = [], mp_codec_name = [], mp_width = 0, mp_height = 0,
            mp_duration_ms = 0, mp_frame_rate = (0, 1)\<rparr>
      in case opened of
           None \<Rightarrow> Inr (False, info)
         | Some f \<Rightarrow>
             if \<not> pf_stream_info f then Inr (False, info)
             else
               (let info1 = info\<lparr>mp_format_name := (case pf_format_name f of Some n \<Rightarrow> n | None \<Rightarrow> [])\<rparr>
                in case (case pf_video f of Some s \<Rightarrow> probe_stream s info1 | None \<Rightarrow> Inr info1) of
                     Inl e \<Rightarrow> Inl e
                   | Inr info2 \<Rightarrow>
                       if mp_duration_ms info2 \<le> 0 \<and> pf_duration f > 0 then
                         (if \<not> in_i64 (pf_duration f * 1000) then Inl UndefinedBehaviour
                          else Inr (True, info2\<lparr>mp_duration_ms := pf_duration f * 1000 div AV_TIME_BASE, mp_valid := True\<rparr>))
                       else Inr (True, info2\<lparr>mp_valid := True\<rparr>)))"

end
