(* ===== verification/Media_Store.thy ===== *)
theory Media_Store imports Complex_Main Media_Decode begin

text \<open>
  The cache of decoded images (\<open>src/media/store.cpp\<close>), two lists side by side, as a map from paths to
  images, and the laws of the reader of \<open>Media_Decode\<close>.
\<close>

section \<open>The store\<close>

record 'p cache_entry =
  ce_image :: "'p rgba_image"
  ce_file_size :: int
  ce_modified_unix :: int

record 'p media_store =
  st_paths :: "string list"
  st_entries :: "'p cache_entry list"

definition empty_store :: "'p media_store" where
  "empty_store = \<lparr>st_paths = [], st_entries = []\<rparr>"

text \<open>The index of the first occurrence.\<close>

fun path_index :: "string \<Rightarrow> string list \<Rightarrow> nat option" where
  "path_index path [] = None"
| "path_index path (p # ps) = (if p = path then Some 0 else map_option Suc (path_index path ps))"

definition fresh_entry :: "string \<Rightarrow> int \<Rightarrow> int \<Rightarrow> 'p media_store \<Rightarrow> 'p cache_entry option" where
  "fresh_entry path file_size modified_unix s =
     (case path_index path (st_paths s) of
        None \<Rightarrow> None
      | Some i \<Rightarrow>
          (let entry = st_entries s ! i
           in if ce_file_size entry = file_size \<and> ce_modified_unix entry = modified_unix then Some entry else None))"

definition store_entry :: "string \<Rightarrow> 'p cache_entry \<Rightarrow> 'p media_store \<Rightarrow> 'p media_store" where
  "store_entry path entry s =
     (case path_index path (st_paths s) of
        Some i \<Rightarrow> s\<lparr>st_entries := (st_entries s)[i := entry]\<rparr>
      | None \<Rightarrow> s\<lparr>st_paths := st_paths s @ [path], st_entries := st_entries s @ [entry]\<rparr>)"

definition load_file ::
    "'w os \<Rightarrow> 'w clocks \<Rightarrow> (string \<Rightarrow> 'w \<Rightarrow> 'p format_context option) \<Rightarrow> string \<Rightarrow> 'p rgba_image \<Rightarrow> bool
      \<Rightarrow> 'p media_store \<times> 'w \<Rightarrow> (cpp_exception + bool \<times> 'p rgba_image) \<times> 'p media_store \<times> 'w" where
  "load_file os ck opens path out_img force_reload s =
     (if path = [] then (Inr (False, out_img), s)
      else
        (case get_file_identity os ck path (snd s) of
           (None, w1) \<Rightarrow> (Inr (False, out_img), fst s, w1)
         | (Some (file_size, modified_unix), w1) \<Rightarrow>
             (case (if force_reload then None else fresh_entry path file_size modified_unix (fst s)) of
                Some entry \<Rightarrow> (Inr (valid_image (ce_image entry), ce_image entry), fst s, w1)
              | None \<Rightarrow>
                  (case decode_image_from_file os ck opens path w1 of
                     (Inl e, w2) \<Rightarrow> (Inl e, fst s, w2)
                   | (Inr (decoded, img), w2) \<Rightarrow>
                       if \<not> decoded then (Inr (False, out_img), fst s, w2)
                       else (Inr (True, img),
                             store_entry path \<lparr>ce_image = img, ce_file_size = file_size, ce_modified_unix = modified_unix\<rparr> (fst s), w2)))))"

definition find_cached :: "string \<Rightarrow> 'p media_store \<Rightarrow> 'p rgba_image option" where
  "find_cached path s = map_option (\<lambda>i. ce_image (st_entries s ! i)) (path_index path (st_paths s))"

definition without :: "nat \<Rightarrow> 'a list \<Rightarrow> 'a list" where
  "without i xs = take i xs @ drop (Suc i) xs"

definition invalidate_path :: "string \<Rightarrow> 'p media_store \<Rightarrow> 'p media_store" where
  "invalidate_path path s =
     (case path_index path (st_paths s) of
        Some i \<Rightarrow> s\<lparr>st_paths := without i (st_paths s), st_entries := without i (st_entries s)\<rparr>
      | None \<Rightarrow> s)"

definition invalidate_all :: "'p media_store \<Rightarrow> 'p media_store" where
  "invalidate_all s = empty_store"

section \<open>The store as a map\<close>

definition store_ok :: "'p media_store \<Rightarrow> bool" where
  "store_ok s \<longleftrightarrow> length (st_paths s) = length (st_entries s) \<and> distinct (st_paths s)"

definition store_map :: "'p media_store \<Rightarrow> string \<rightharpoonup> 'p cache_entry" where
  "store_map s = map_of (zip (st_paths s) (st_entries s))"

lemma path_index_less: "path_index path ps = Some i \<Longrightarrow> i < length ps \<and> ps ! i = path"
  by (induction ps arbitrary: i) (auto split: if_splits)

lemma path_index_None: "path_index path ps = None \<longleftrightarrow> path \<notin> set ps"
  by (induction ps) auto

lemma map_of_index:
  "length ps = length es \<Longrightarrow> map_of (zip ps es) path = map_option ((!) es) (path_index path ps)"
  by (induction ps es rule: list_induct2) (auto simp: option.map_comp comp_def)

lemma store_map_index: "store_ok s \<Longrightarrow> store_map s path = map_option ((!) (st_entries s)) (path_index path (st_paths s))"
  by (simp add: store_map_def store_ok_def map_of_index)

lemma fresh_entry_map:
  "store_ok s \<Longrightarrow> fresh_entry path bytes mtime s
    = (case store_map s path of Some e \<Rightarrow> if ce_file_size e = bytes \<and> ce_modified_unix e = mtime then Some e else None | None \<Rightarrow> None)"
  by (simp add: fresh_entry_def store_map_index Let_def split: option.split)

lemma find_cached_map: "store_ok s \<Longrightarrow> find_cached path s = map_option ce_image (store_map s path)"
  by (simp add: find_cached_def store_map_index option.map_comp comp_def)

lemma map_of_zip_update:
  "length ps = length es \<Longrightarrow> distinct ps \<Longrightarrow> i < length ps \<Longrightarrow> map_of (zip ps (es[i := e])) = (map_of (zip ps es))(ps ! i \<mapsto> e)"
proof (induction ps es arbitrary: i rule: list_induct2)
  case (Cons p ps x es)
  then show ?case by (cases i) (auto simp: fun_eq_iff)
qed simp

lemma map_of_zip_without:
  "length ps = length es \<Longrightarrow> distinct ps \<Longrightarrow> i < length ps
    \<Longrightarrow> map_of (zip (without i ps) (without i es)) = (map_of (zip ps es))(ps ! i := None)"
proof (induction ps es arbitrary: i rule: list_induct2)
  case (Cons p ps x es)
  show ?case
  proof (cases i)
    case 0
    have "map_of (zip ps es) p = None" using Cons.hyps Cons.prems by (simp add: map_of_zip_is_None)
    then show ?thesis using 0 by (auto simp: without_def fun_eq_iff)
  next
    case (Suc j)
    then show ?thesis using Cons.IH [of j] Cons.prems by (auto simp: without_def fun_eq_iff)
  qed
qed simp

lemma add_new: "m k = None \<Longrightarrow> [k \<mapsto> v] ++ m = m(k \<mapsto> v)"
  by (auto simp: map_add_def fun_eq_iff split: option.split)

lemma store_entry_map:
  assumes "store_ok s"
  shows "store_ok (store_entry path e s) \<and> store_map (store_entry path e s) = (store_map s)(path \<mapsto> e)"
proof (cases "path_index path (st_paths s)")
  case None
  then have new: "path \<notin> set (st_paths s)" by (simp add: path_index_None)
  then have "map_of (zip (st_paths s) (st_entries s)) path = None"
    using assms by (simp add: store_ok_def map_of_zip_is_None)
  then show ?thesis
    using assms new by (simp add: store_entry_def None store_ok_def store_map_def add_new)
next
  case (Some i)
  then show ?thesis
    using assms path_index_less [OF Some] map_of_zip_update [of "st_paths s" "st_entries s" i e]
    by (simp add: store_entry_def store_ok_def store_map_def)
qed

lemma invalidate_path_map:
  assumes "store_ok s"
  shows "store_ok (invalidate_path path s) \<and> store_map (invalidate_path path s) = (store_map s)(path := None)"
proof (cases "path_index path (st_paths s)")
  case None
  then have "map_of (zip (st_paths s) (st_entries s)) path = None"
    using assms by (simp add: store_ok_def path_index_None map_of_zip_is_None)
  then show ?thesis
    using assms by (simp add: invalidate_path_def None store_map_def fun_upd_idem)
next
  case (Some i)
  have "distinct (without i (st_paths s))"
    using assms by (auto simp: without_def store_ok_def distinct_take distinct_drop set_take_disj_set_drop_if_distinct)
  then show ?thesis
    using assms path_index_less [OF Some] map_of_zip_without [of "st_paths s" "st_entries s" i] Some
    by (simp add: invalidate_path_def store_ok_def store_map_def without_def)
qed

section \<open>What a cache promises\<close>

text \<open>The same operations on a map.\<close>

datatype media_op = Load string bool | Invalidate string | Invalidate_All

definition store_does ::
    "'w os \<Rightarrow> 'w clocks \<Rightarrow> (string \<Rightarrow> 'w \<Rightarrow> 'p format_context option) \<Rightarrow> media_op \<Rightarrow> 'p media_store \<times> 'w \<Rightarrow> 'p media_store \<times> 'w" where
  "store_does os ck opens op s =
     (case op of
        Load path force \<Rightarrow> snd (load_file os ck opens path no_image force s)
      | Invalidate path \<Rightarrow> (invalidate_path path (fst s), snd s)
      | Invalidate_All \<Rightarrow> (invalidate_all (fst s), snd s))"

definition cache_step ::
    "'w os \<Rightarrow> 'w clocks \<Rightarrow> (string \<Rightarrow> 'w \<Rightarrow> 'p format_context option) \<Rightarrow> media_op
      \<Rightarrow> (string \<rightharpoonup> 'p cache_entry) \<times> 'w \<Rightarrow> (string \<rightharpoonup> 'p cache_entry) \<times> 'w" where
  "cache_step os ck opens op c =
     (case op of
        Invalidate path \<Rightarrow> ((fst c)(path := None), snd c)
      | Invalidate_All \<Rightarrow> (Map.empty, snd c)
      | Load path force \<Rightarrow>
          if path = [] then c
          else
            (case get_file_identity os ck path (snd c) of
               (None, w1) \<Rightarrow> (fst c, w1)
             | (Some (bytes, mtime), w1) \<Rightarrow>
                 if \<not> force \<and> (\<exists>e. fst c path = Some e \<and> ce_file_size e = bytes \<and> ce_modified_unix e = mtime) then (fst c, w1)
                 else
                   (case decode_image_from_file os ck opens path w1 of
                      (Inr (True, img), w2) \<Rightarrow> ((fst c)(path \<mapsto> \<lparr>ce_image = img, ce_file_size = bytes, ce_modified_unix = mtime\<rparr>), w2)
                    | (_, w2) \<Rightarrow> (fst c, w2))))"

definition cache_of :: "'p media_store \<times> 'w \<Rightarrow> (string \<rightharpoonup> 'p cache_entry) \<times> 'w" where
  "cache_of s = (store_map (fst s), snd s)"

lemma load_refines:
  assumes "store_ok (fst s)"
  shows "store_ok (fst (snd (load_file os ck opens path out force s)))
    \<and> cache_of (snd (load_file os ck opens path out force s)) = cache_step os ck opens (Load path force) (cache_of s)"
proof (cases "path = []")
  case False
  obtain i w1 where i: "get_file_identity os ck path (snd s) = (i, w1)" by (rule prod.exhaust)
  show ?thesis
  proof (cases i)
    case None
    then show ?thesis using False i assms by (simp add: load_file_def cache_step_def cache_of_def)
  next
    case (Some t)
    obtain bytes mtime where t: "t = (bytes, mtime)" by (rule prod.exhaust)
    obtain r w2 where d: "decode_image_from_file os ck opens path w1 = (r, w2)" by (rule prod.exhaust)
    show ?thesis
      using False i Some t d assms store_entry_map [OF assms, of path]
      by (auto simp: load_file_def cache_step_def cache_of_def fresh_entry_map split: option.split sum.split prod.split bool.split)
  qed
qed (simp add: load_file_def cache_step_def cache_of_def assms)

lemma does_refines:
  assumes "store_ok (fst s)"
  shows "store_ok (fst (store_does os ck opens op s))
    \<and> cache_of (store_does os ck opens op s) = cache_step os ck opens op (cache_of s)"
proof (cases op)
  case (Load path force)
  then show ?thesis using load_refines [OF assms] by (simp add: store_does_def)
next
  case (Invalidate path)
  then show ?thesis using invalidate_path_map [OF assms] by (simp add: store_does_def cache_step_def cache_of_def)
next
  case Invalidate_All
  then show ?thesis by (simp add: store_does_def cache_step_def cache_of_def invalidate_all_def empty_store_def store_ok_def store_map_def)
qed

text \<open>
  C31: the two lists refine a map from paths to images: after any loads and invalidations, what is cached
  for each path is what the map holds, and the clocks and the file system were asked the same.
\<close>

theorem media_store_refines_map:
  "cache_of (fold (store_does os ck opens) ops (empty_store, w)) = fold (cache_step os ck opens) ops (Map.empty, w)
   \<and> (\<forall>path. find_cached path (fst (fold (store_does os ck opens) ops (empty_store, w)))
        = map_option ce_image (fst (fold (cache_step os ck opens) ops (Map.empty, w)) path))"
proof -
  have go: "store_ok (fst (fold (store_does os ck opens) ops s))
      \<and> cache_of (fold (store_does os ck opens) ops s) = fold (cache_step os ck opens) ops (cache_of s)" if "store_ok (fst s)" for s
    using that by (induction ops arbitrary: s) (simp_all add: does_refines)
  have "store_ok (fst (empty_store, w))" "cache_of (empty_store, w) = (Map.empty, w)"
    by (simp_all add: empty_store_def store_ok_def cache_of_def store_map_def)
  with go [of "(empty_store, w)"] show ?thesis
    by (metis cache_of_def find_cached_map fst_conv)
qed

text \<open>
  A file that has been loaded and has kept its size and time is not decoded again: the image comes
  from the cache, whatever the file holds now.
\<close>

theorem cached_image_is_reused:
  assumes "store_ok s" and "load_file os ck opens path out force (s, w) = (Inr (True, img), s1, w1)"
    and "path \<noteq> []" and "fst (get_file_identity os ck path w1) = fst (get_file_identity os ck path w)"
  shows "fst (load_file os ck opens' path out' False (s1, w1)) = Inr (valid_image img, img)"
proof -
  obtain bytes mtime v where i: "get_file_identity os ck path w = (Some (bytes, mtime), v)"
    using assms(2,3) by (auto simp: load_file_def split: prod.splits option.splits)
  obtain v' where i': "get_file_identity os ck path w1 = (Some (bytes, mtime), v')"
    using assms(4) i by (cases "get_file_identity os ck path w1") simp
  have "\<exists>e. store_ok s1 \<and> store_map s1 path = Some e \<and> ce_image e = img \<and> ce_file_size e = bytes \<and> ce_modified_unix e = mtime"
    using assms(1-3) i store_entry_map [OF assms(1), of path]
    by (auto simp: load_file_def fresh_entry_map split: prod.splits option.splits sum.splits if_splits)
  then show ?thesis
    using assms(3) i' by (auto simp: load_file_def fresh_entry_map)
qed

definition one_file_os :: "unit os" where
  "one_file_os = idle_os\<lparr>fs_exists := (\<lambda>p w. True), fs_file_size := (\<lambda>p w. Inr 4)\<rparr>"

definition still_clocks :: "unit clocks" where
  "still_clocks = \<lparr>ck_last_write = (\<lambda>p w. None), ck_file_now = (\<lambda>w. (0, w)), ck_system_now = (\<lambda>w. (0, w))\<rparr>"

definition one_pixel :: "nat format_context" where
  "one_pixel = \<lparr>fc_stream_info = True, fc_best_stream = 0, fc_decoder = True, fc_context_allocated = True,
     fc_parameters_copied = True, fc_decoder_opened = True,
     fc_packets = [\<lparr>pk_stream_index = 0, pk_sent = True,
       pk_frame = Some \<lparr>fr_width = 1, fr_height = 1, fr_scaler = True, fr_rgba = [255]\<rparr>\<rparr>]\<rparr>"

theorem cached_image_is_reused_witness:
  "\<exists>img s1. load_file one_file_os still_clocks (\<lambda>p w. Some one_pixel) ''a'' no_image False (empty_store, ()) = (Inr (True, img), s1, ())
    \<and> fst (load_file one_file_os still_clocks (\<lambda>p w. None) ''a'' no_image False (s1, ())) = Inr (valid_image img, img)"
proof -
  have "\<exists>img s1. load_file one_file_os still_clocks (\<lambda>p w. Some one_pixel) ''a'' no_image False (empty_store, ()) = (Inr (True, img), s1, ())"
    by (simp add: load_file_def get_file_identity_def fill_metadata_def one_file_os_def idle_os_def still_clocks_def set_metadata_def
        fresh_entry_def empty_store_def decode_image_from_file_def decode_from_format_context_def decode_first_frame_def
        one_pixel_def frame_to_rgba_def in_i32_def)
  then obtain img s1 where l: "load_file one_file_os still_clocks (\<lambda>p w. Some one_pixel) ''a'' no_image False (empty_store, ()) = (Inr (True, img), s1, ())"
    by blast
  have "store_ok (empty_store :: nat media_store)" by (simp add: empty_store_def store_ok_def)
  from cached_image_is_reused [OF this l] l show ?thesis by auto
qed

section \<open>Reading from memory\<close>

fun read_packets :: "int list \<Rightarrow> 'b memory_input \<Rightarrow> 'b list" where
  "read_packets [] input = []"
| "read_packets (n # ns) input =
     (case read_memory_packet n input of
        (None, input1) \<Rightarrow> []
      | (Some b, input1) \<Rightarrow> b @ read_packets ns input1)"

text \<open>Read to the end in pieces of any bytes, an image in memory is what was given, from where the reader stands.\<close>

theorem memory_is_read_whole:
  assumes "\<forall>n \<in> set ns. n > 0" and "int (length (mi_data input)) \<le> int (mi_offset input) + sum_list ns"
  shows "read_packets ns input = drop (mi_offset input) (mi_data input)"
  using assms
proof (induction ns arbitrary: input)
  case (Cons n ns)
  let ?k = "min (nat n) (length (mi_data input) - mi_offset input)"
  let ?next = "input\<lparr>mi_offset := mi_offset input + ?k\<rparr>"
  show ?case
  proof (cases "mi_offset input < length (mi_data input)")
    case True
    then have r: "read_memory_packet n input
        = (Some (take ?k (drop (mi_offset input) (mi_data input))), ?next)"
      using Cons.prems(1) by (simp add: read_memory_packet_def Let_def min_def)
    have "read_packets ns ?next = drop (mi_offset ?next) (mi_data ?next)"
      using Cons.prems True by (intro Cons.IH) (auto simp: min_def sum_list_nonneg order.strict_implies_order)
    then have "read_packets (n # ns) input = take ?k (drop (mi_offset input) (mi_data input)) @ drop ?k (drop (mi_offset input) (mi_data input))"
      using r by (simp add: add.commute)
    then show ?thesis by (simp only: append_take_drop_id)
  qed (simp add: read_memory_packet_def)
qed simp

theorem memory_is_read_whole_witness:
  "read_packets [2, 2, 4096] \<lparr>mi_data = ''image'', mi_offset = 0\<rparr> = ''image''"
  using memory_is_read_whole [of "[2, 2, 4096]" "\<lparr>mi_data = ''image'', mi_offset = 0\<rparr>"] by simp

text \<open>
  A seek to a place in the data goes there; a seek to a place before the start, which is an error
  elsewhere, goes to the end.
\<close>

theorem seek_goes_there:
  assumes "length (mi_data input) < 2 ^ 63" and "mi_offset input \<le> length (mi_data input)"
    and "\<bar>offset\<bar> < 2 ^ 63"
  shows "seek_memory_packet offset SEEK_CUR input
    = (let target = int (mi_offset input) + offset;
           goal = (if 0 \<le> target \<and> target \<le> int (length (mi_data input)) then target else int (length (mi_data input)))
       in (Some goal, input\<lparr>mi_offset := nat goal\<rparr>))"
proof -
  let ?t = "int (mi_offset input) + offset" and ?n = "int (length (mi_data input))"
  show ?thesis
  proof (cases "0 \<le> ?t")
    case True
    then have "to_size ?t = nat ?t"
      using assms by (simp add: to_size_def)
    then show ?thesis
      using True by (auto simp: at_most_size_def Let_def)
  next
    case False
    have "?t mod 2 ^ 64 = (?t + 2 ^ 64) mod 2 ^ 64" by simp
    also have "\<dots> = ?t + 2 ^ 64" using False assms by (intro mod_pos_pos_trivial) auto
    finally have "to_size ?t > length (mi_data input)"
      using False assms by (simp add: to_size_def)
    then show ?thesis
      using False by (simp add: at_most_size_def Let_def)
  qed
qed

end
