(* ===== verification/Connector_Processes.thy ===== *)
theory Connector_Processes imports Complex_Main Process_Laws Host_Startup begin

text \<open>
  The connectors of the host (\<open>cli/host.cpp\<close>) on the process manager (\<open>cli/process_manager.cpp\<close>): what
  the host answers about a connector it has launched or stopped is what the manager holds. The
  locale is what the host relies on; the manager provides it on both systems.
\<close>

section \<open>What the host relies on\<close>

text \<open>\<open>runs key pid\<close> and \<open>stopped key pid\<close>: the service lists the process under \<open>key\<close> so.\<close>

definition listed_as :: "string \<Rightarrow> int \<Rightarrow> bool \<Rightarrow> string \<Rightarrow> process_info list \<Rightarrow> bool" where
  "listed_as key pid running status ps \<longleftrightarrow>
     (\<exists>i. find (\<lambda>i. pi_key i = key) ps = Some i \<and> pi_pid i = pid \<and> pi_running i = running \<and> pi_status_text i = status)"

locale process_service =
  fixes os :: "'w os" and runs :: "string \<Rightarrow> int \<Rightarrow> 'w \<Rightarrow> bool" and stopped :: "string \<Rightarrow> int \<Rightarrow> 'w \<Rightarrow> bool"
    and sound :: "'w \<Rightarrow> bool"
  assumes launch_runs: "sound w \<Longrightarrow> os_process_launch os key label d c w = ((True, err), w') \<Longrightarrow> err = [] \<and> sound w' \<and> (\<exists>pid. runs key pid w')"
    and stop_stops: "sound w \<Longrightarrow> runs key pid w \<Longrightarrow> os_process_stop os key w = (r, w') \<Longrightarrow> r = (True, []) \<and> sound w' \<and> stopped key pid w'"
    and look_at_running: "sound w \<Longrightarrow> runs key pid w \<Longrightarrow> os_process_snapshot os w = (ps, w')
      \<Longrightarrow> listed_as key pid True ''running'' ps \<and> sound w' \<and> runs key pid w'"
    and look_at_stopped: "sound w \<Longrightarrow> stopped key pid w \<Longrightarrow> os_process_snapshot os w = (ps, w')
      \<Longrightarrow> listed_as key pid False ''stopped'' ps \<and> sound w' \<and> stopped key pid w'"
    and stop_again: "sound w \<Longrightarrow> stopped key pid w \<Longrightarrow> os_process_stop os key w = ((False, ''process not running''), w)"
    and clock: "os_local_time os f w = (x, w') \<Longrightarrow> sound w' = sound w \<and> runs key pid w' = runs key pid w \<and> stopped key pid w' = stopped key pid w"

definition process_status :: "int \<Rightarrow> bool \<Rightarrow> string \<Rightarrow> string" where
  "process_status pid running status =
     json_object [json_bool_field ''ok'' True, json_string_field ''kind'' ''launched_process'', json_int_field ''pid'' pid,
       json_bool_field ''running'' running, json_string_field ''status'' status]"

lemma ok_error_json_True: "ok_error_json ok e = ok_error_json True e' \<Longrightarrow> ok"
  by (cases ok) (simp_all add: ok_error_json_def json_object_def json_bool_field_def)

lemma success_refusal_not_ok: "success_refusal m \<noteq> ok_error_json ok e"
  by (simp add: success_refusal_def ok_error_json_def json_object_def json_bool_field_def)

context process_service
begin

definition untouched :: "'w \<Rightarrow> 'w \<Rightarrow> bool" where
  "untouched w w' \<longleftrightarrow> sound w' = sound w \<and> (\<forall>key pid. runs key pid w' = runs key pid w \<and> stopped key pid w' = stopped key pid w)"

lemma untouched_clock: "untouched w (snd (os_local_time os f w))"
  using clock by (simp add: untouched_def) (metis prod.collapse)

lemma untouched_log: "untouched (h_world h) (h_world (append_app_log os channel direction summary success sid h))"
proof -
  have "untouched w w1 \<Longrightarrow> untouched w (snd (os_local_time os f w1))" for w w1 f
    using untouched_clock [of w1 f] by (simp add: untouched_def)
  then show ?thesis
    using untouched_clock
    by (simp add: append_app_log_def append_app_log_full_def make_log_timestamp_def make_full_log_timestamp_def sense_def
        case_prod_beta Let_def split: option.split)
qed

lemma connectors_log: "h_connectors (append_app_log os channel direction summary success sid h) = h_connectors h"
  by (simp add: append_app_log_def append_app_log_full_def make_log_timestamp_def make_full_log_timestamp_def sense_def
      case_prod_beta Let_def split: option.split)

lemma launched:
  assumes "sound (h_world h)" and "find_connector (h_connectors h) cid = Some c"
    and "launch_connector os cid h = (ok_error_json True err, h1)"
  shows "con_kind c = ''launched_process'' \<and> h_connectors h1 = h_connectors h \<and> sound (h_world h1) \<and> (\<exists>pid. runs (con_id c) pid (h_world h1))"
proof -
  have kind: "con_kind c = ''launched_process''"
    using assms(2,3) success_refusal_not_ok by (auto simp: launch_connector_def split: if_splits)
  obtain ok e w1 where l: "os_process_launch os (con_id c) (con_id c) (con_work_dir c) (con_launch_cmd c) (h_world h) = ((ok, e), w1)"
    by (metis surj_pair)
  have h1: "h1 = append_app_log os ''process'' ''out'' (if ok then ''launched connector: '' @ con_id c else ''launch failed: '' @ e) ok [] (h\<lparr>h_world := w1\<rparr>)"
    and "ok_error_json ok e = ok_error_json True err"
    using assms(2,3) kind by (simp_all add: launch_connector_def sense_def l)
  then have "ok" by (rule_tac ok_error_json_True)
  then have "sound w1 \<and> (\<exists>pid. runs (con_id c) pid w1)" using launch_runs [OF assms(1)] l by simp
  then show ?thesis
    using untouched_log [of "h\<lparr>h_world := w1\<rparr>"] by (simp add: h1 kind connectors_log untouched_def)
qed

lemma status:
  assumes "find_connector (h_connectors h) cid = Some c" and "con_kind c = ''launched_process''"
    and "listed_as (con_id c) pid running status (fst (os_process_snapshot os (h_world h)))"
  shows "connector_status_json os cid h = (process_status pid running status, h\<lparr>h_world := snd (os_process_snapshot os (h_world h))\<rparr>)"
  using assms by (auto simp: connector_status_json_def sense_def case_prod_beta process_status_def listed_as_def)

lemma stops:
  assumes "sound (h_world h)" and "runs cid pid (h_world h)"
  shows "fst (stop_connector os cid h) = ok_error_json True []
    \<and> h_connectors (snd (stop_connector os cid h)) = h_connectors h
    \<and> sound (h_world (snd (stop_connector os cid h))) \<and> stopped cid pid (h_world (snd (stop_connector os cid h)))"
proof -
  obtain w1 where s: "os_process_stop os cid (h_world h) = ((True, []), w1)" and "sound w1 \<and> stopped cid pid w1"
    using stop_stops [OF assms] by (metis surj_pair)
  then show ?thesis
    using untouched_log [of "h\<lparr>h_world := w1\<rparr>"]
    by (simp add: stop_connector_def sense_def s connectors_log untouched_def)
qed

lemma refused:
  assumes "sound (h_world h)" and "stopped cid pid (h_world h)"
  shows "fst (stop_connector os cid h) = ok_error_json False ''process not running''"
  by (simp add: stop_connector_def sense_def stop_again [OF assms])

lemma found_id: "find_connector r cid = Some c \<Longrightarrow> con_id c = cid"
  by (auto simp: find_connector_def find_Some_iff)

text \<open>Launched, looked at, stopped, looked at, stopped again.\<close>

lemma life:
  assumes "sound (h_world h)" and "find_connector (h_connectors h) cid = Some c"
    and "launch_connector os cid h = (ok_error_json True err, h1)"
    and "connector_status_json os cid h1 = (status1, h2)" and "stop_connector os cid h2 = (answer, h3)"
    and "connector_status_json os cid h3 = (status2, h4)"
  shows "\<exists>pid. status1 = process_status pid True ''running'' \<and> answer = ok_error_json True []
    \<and> status2 = process_status pid False ''stopped''
    \<and> fst (stop_connector os cid h4) = ok_error_json False ''process not running''"
proof -
  have c: "con_id c = cid" using assms(2) by (rule found_id)
  obtain pid where l: "con_kind c = ''launched_process''" "h_connectors h1 = h_connectors h" "sound (h_world h1)" "runs cid pid (h_world h1)"
    using launched [OF assms(1-3)] c by auto
  obtain ps w where ps: "os_process_snapshot os (h_world h1) = (ps, w)" by fastforce
  note look = look_at_running [OF l(3,4) ps]
  have 1: "status1 = process_status pid True ''running''" "h2 = h1\<lparr>h_world := w\<rparr>"
    using status [of h1 cid c pid True "''running''"] assms(2,4) l(1,2) look ps c by simp_all
  have st: "answer = ok_error_json True []" "h_connectors h3 = h_connectors h" "sound (h_world h3)" "stopped cid pid (h_world h3)"
    using stops [of h2 cid pid] look 1(2) assms(5) l(2) by simp_all
  obtain ps' w' where ps': "os_process_snapshot os (h_world h3) = (ps', w')" by fastforce
  note look' = look_at_stopped [OF st(3,4) ps']
  have 2: "status2 = process_status pid False ''stopped''" "h4 = h3\<lparr>h_world := w'\<rparr>"
    using status [of h3 cid c pid False "''stopped''"] assms(2,6) l(1) st(2) look' ps' c by simp_all
  from 1(1) st(1) 2(1) refused [of h4 cid pid] look' 2(2) show ?thesis by auto
qed

end

section \<open>The manager provides it\<close>

text \<open>The host's process calls go to the manager, whose entries nothing else touches; telling the time is the system's.\<close>

definition managing :: "'v managed os \<Rightarrow> 'v kernel \<Rightarrow> 'v managed os" where
  "managing os k = os\<lparr>os_local_time := (\<lambda>f (m, v). case os_local_time os f (m, v) of (t, _, v') \<Rightarrow> (t, m, v')),
     os_process_snapshot := process_snapshot k, os_process_launch := launch_process k, os_process_stop := stop_process k\<rparr>"

text \<open>A kernel on which what was started lives on: \<open>fork\<close> returns in the parent, no process exits by itself.\<close>

definition living :: "'v kernel \<Rightarrow> 'v kernel" where
  "living k = k\<lparr>k_exit_code := (\<lambda>h w. (Some STILL_ACTIVE, snd (k_exit_code k h w))),
     k_fork := (\<lambda>d c w. (if fst (k_fork k d c w) = 0 then -1 else fst (k_fork k d c w), snd (k_fork k d c w))),
     k_waitpid := (\<lambda>p w. (0, snd (k_waitpid k p w)))\<rparr>"

lemma living_kernel:
  assumes "\<And>p w. fst (k_waitpid k p w) = 0" and "\<And>h w. fst (k_exit_code k h w) = Some STILL_ACTIVE"
    and "\<And>d c w. fst (k_fork k d c w) \<noteq> 0"
  shows "living k = k"
proof -
  have "(\<lambda>p w. (0, snd (k_waitpid k p w))) = k_waitpid k" "(\<lambda>h w. (Some STILL_ACTIVE, snd (k_exit_code k h w))) = k_exit_code k"
    "(\<lambda>d c w. (if fst (k_fork k d c w) = 0 then -1 else fst (k_fork k d c w), snd (k_fork k d c w))) = k_fork k"
    using assms by (simp_all add: fun_eq_iff prod_eq_iff)
  then show ?thesis by (simp add: living_def)
qed

definition entry_runs :: "'v kernel \<Rightarrow> string \<Rightarrow> int \<Rightarrow> 'v managed \<Rightarrow> bool" where
  "entry_runs k key pid s \<longleftrightarrow> (\<exists>e. map_of (fst s) key = Some e \<and> had_process k e \<and> pi_pid (me_info e) = pid
     \<and> pi_running (me_info e) \<and> pi_status_text (me_info e) = ''running'')"

definition entry_stopped :: "'v kernel \<Rightarrow> string \<Rightarrow> int \<Rightarrow> 'v managed \<Rightarrow> bool" where
  "entry_stopped k key pid s \<longleftrightarrow> (\<exists>e. map_of (fst s) key = Some e \<and> \<not> had_process k e \<and> pi_pid (me_info e) = pid
     \<and> \<not> pi_running (me_info e) \<and> pi_status_text (me_info e) = ''stopped'')"

lemma launch_entry:
  assumes "in_order (fst s)" and "launch_process (living k) key label d c s = ((True, err), s')"
  shows "err = [] \<and> (\<exists>pid. entry_runs (living k) key pid s')"
proof (cases "k_windows k")
  case True
  then show ?thesis
    using assms(2) map_of_put [OF assms(1)]
    by (auto simp: launch_process_def launch_windows_def entry_runs_def had_process_def mark_info_def living_def
        Let_def case_prod_beta split: prod.splits option.splits sum.splits)
next
  case False
  then show ?thesis
    using assms(2) map_of_put [OF assms(1)]
    by (auto simp: launch_process_def launch_posix_def entry_runs_def had_process_def mark_info_def living_def
        Let_def case_prod_beta split: prod.splits if_splits)
qed

lemma stop_entry:
  assumes "in_order (fst s)" and "entry_runs k key pid s" and "stop_process k key s = (r, s')"
  shows "r = (True, []) \<and> entry_stopped k key pid s'"
proof -
  from assms(2) obtain e where e: "map_of (fst s) key = Some e" "had_process k e" "pi_pid (me_info e) = pid"
    "pi_running (me_info e)"
    unfolding entry_runs_def by blast
  let ?e = "fst (stop_locked k e (snd s))"
  have "r = (True, [])" "s' = (put_entry key ?e (fst s), snd (stop_locked k e (snd s)))"
    using assms(3) e by (simp_all add: stop_process_def case_prod_beta)
  moreover have "\<not> had_process k ?e \<and> pi_pid (me_info ?e) = pid \<and> \<not> pi_running (me_info ?e) \<and> pi_status_text (me_info ?e) = ''stopped''"
    using e(2-4)
    by (cases "k_windows k") (simp_all add: stop_locked_def stop_windows_def stop_posix_def had_process_def mark_info_def Let_def)
  ultimately show ?thesis
    using map_of_put [OF assms(1)] by (simp add: entry_stopped_def)
qed

lemma look_at_entry:
  assumes "own_keys (fst s)" and "map_of (fst s) key = Some e" and "process_snapshot k s = (ps, s')"
  obtains w where "find (\<lambda>i. pi_key i = key) ps = Some (me_info (fst (refresh_locked k e w)))"
    and "map_of (fst s') key = Some (fst (refresh_locked k e w))"
proof -
  let ?m = "fst (each_entry (refresh_locked k) (fst s) (snd s))"
  obtain w where w: "map_of ?m key = Some (fst (refresh_locked k e w))"
    using each_lookup [OF assms(2), of "refresh_locked k" "snd s"] by blast
  moreover have "ps = map (\<lambda>(key, e). me_info e) ?m" "fst s' = ?m"
    using assms(3) by (auto simp: process_snapshot_def case_prod_beta)
  moreover have "find (\<lambda>i. pi_key i = key) (map (\<lambda>(key, e). me_info e) ?m) = map_option me_info (map_of ?m key)"
    by (rule find_info [OF own_each [OF key_refresh assms(1)]])
  ultimately show thesis
    using that [of w] by simp
qed

lemma refresh_running:
  assumes "had_process (living k) e" and "pi_running (me_info e)" and "pi_status_text (me_info e) = ''running''"
  shows "fst (refresh_locked (living k) e w) = e"
  using assms
  by (cases "k_windows k")
    (auto simp: refresh_locked_def refresh_windows_def refresh_posix_def had_process_def living_def mark_info_def)

lemma refresh_stopped:
  assumes "\<not> had_process k e" and "\<not> pi_running (me_info e)"
  shows "fst (refresh_locked k e w) = e"
  using assms
  by (cases "k_windows k")
    (auto simp: refresh_locked_def refresh_windows_def refresh_posix_def had_process_def mark_info_def)

lemmas own_moves = own_does [where op = "Launch_Process key label d c" for key label d c, unfolded process_does_def, simplified]
  own_does [where op = "Stop_Process key" for key, unfolded process_does_def, simplified]
  own_does [where op = Look_At_Processes, unfolded process_does_def, simplified]

interpretation connector_processes: process_service "managing os (living k)" "entry_runs (living k)" "entry_stopped (living k)" "\<lambda>s. own_keys (fst s)"
  for os :: "'v managed os" and k :: "'v kernel"
proof
  fix w :: "'v managed" and key label d c err w'
  assume own: "own_keys (fst w)" and "os_process_launch (managing os (living k)) key label d c w = ((True, err), w')"
  then have l: "launch_process (living k) key label d c w = ((True, err), w')" by (simp add: managing_def)
  from own have "in_order (fst w)" by (simp add: own_keys_def)
  from launch_entry [OF this l] own_moves(1) [OF own, of "living k" key label d c] l
  show "err = [] \<and> own_keys (fst w') \<and> (\<exists>pid. entry_runs (living k) key pid w')" by simp
next
  fix w :: "'v managed" and key pid r w'
  assume own: "own_keys (fst w)" and run: "entry_runs (living k) key pid w" and "os_process_stop (managing os (living k)) key w = (r, w')"
  then have s: "stop_process (living k) key w = (r, w')" by (simp add: managing_def)
  from own have "in_order (fst w)" by (simp add: own_keys_def)
  from stop_entry [OF this run s] own_moves(2) [OF own, of "living k" key] s
  show "r = (True, []) \<and> own_keys (fst w') \<and> entry_stopped (living k) key pid w'" by simp
next
  fix w :: "'v managed" and key pid ps w'
  assume own: "own_keys (fst w)" and run: "entry_runs (living k) key pid w" and "os_process_snapshot (managing os (living k)) w = (ps, w')"
  then have s: "process_snapshot (living k) w = (ps, w')" by (simp add: managing_def)
  from run obtain e where e: "map_of (fst w) key = Some e" "had_process (living k) e" "pi_pid (me_info e) = pid"
    "pi_running (me_info e)" "pi_status_text (me_info e) = ''running''"
    unfolding entry_runs_def by blast
  from look_at_entry [OF own e(1) s] refresh_running [OF e(2,4,5)] have
    "find (\<lambda>i. pi_key i = key) ps = Some (me_info e) \<and> map_of (fst w') key = Some e" by metis
  with e own_moves(3) [OF own, of "living k"] s
  show "listed_as key pid True ''running'' ps \<and> own_keys (fst w') \<and> entry_runs (living k) key pid w'"
    by (simp add: listed_as_def entry_runs_def)
next
  fix w :: "'v managed" and key pid ps w'
  assume own: "own_keys (fst w)" and run: "entry_stopped (living k) key pid w" and "os_process_snapshot (managing os (living k)) w = (ps, w')"
  then have s: "process_snapshot (living k) w = (ps, w')" by (simp add: managing_def)
  from run obtain e where e: "map_of (fst w) key = Some e" "\<not> had_process (living k) e" "pi_pid (me_info e) = pid"
    "\<not> pi_running (me_info e)" "pi_status_text (me_info e) = ''stopped''"
    unfolding entry_stopped_def by blast
  from look_at_entry [OF own e(1) s] refresh_stopped [OF e(2,4)] have
    "find (\<lambda>i. pi_key i = key) ps = Some (me_info e) \<and> map_of (fst w') key = Some e" by metis
  with e own_moves(3) [OF own, of "living k"] s
  show "listed_as key pid False ''stopped'' ps \<and> own_keys (fst w') \<and> entry_stopped (living k) key pid w'"
    by (simp add: listed_as_def entry_stopped_def)
next
  fix w :: "'v managed" and key pid
  assume "entry_stopped (living k) key pid w"
  then show "os_process_stop (managing os (living k)) key w = ((False, ''process not running''), w)"
    by (auto simp: managing_def stop_process_def entry_stopped_def)
next
  fix f x key pid and w w' :: "'v managed"
  assume "os_local_time (managing os (living k)) f w = (x, w')"
  then have "fst w' = fst w" by (auto simp: managing_def split: prod.splits)
  then show "own_keys (fst w') = own_keys (fst w) \<and> entry_runs (living k) key pid w' = entry_runs (living k) key pid w
      \<and> entry_stopped (living k) key pid w' = entry_stopped (living k) key pid w"
    by (simp add: entry_runs_def entry_stopped_def)
qed

section \<open>A connector's life\<close>


definition bot :: connector where
  "bot = empty_connector\<lparr>con_id := ''bot'', con_kind := ''launched_process'', con_launch_cmd := ''run''\<rparr>"

definition bot_host :: "unit managed host" where
  "bot_host = (new_host ([], ()))\<lparr>h_connectors := \<lparr>reg_connectors = [bot]\<rparr>\<rparr>"


end
