(* ===== verification/Interactive.thy ===== *)
theory Interactive imports Complex_Main Service Terminal_Safety begin

text \<open>
  The program in its default mode (the end of \<open>main\<close> in \<open>cli/droidcli.cpp\<close>): the terminal interface
  on one thread, the server and the background loop on another, both on one host. Their steps come
  in any order; a step is a call of the host as a whole, which is how far the locks of the host
  are modelled. The locale shows once what every such program keeps.
\<close>

section \<open>Two threads\<close>

text \<open>The threads that \<open>run_tui\<close> joins at its end. The chat worker is only joined when its job is done.\<close>

datatype tui_thread = Poller | Spinner_Ticker | Chat_Worker

definition thread_ends :: "'w os \<Rightarrow> (cpp_exception \<Rightarrow> string) \<Rightarrow> tui_thread \<Rightarrow> 'w screen_step" where
  "thread_ends os what thread s =
     (case thread of
        Poller \<Rightarrow> (Inr (), apsnd (thread_joined os ''tui.poller'') s)
      | Spinner_Ticker \<Rightarrow> (Inr (), apsnd (thread_joined os ''tui.spinner_ticker'') s)
      | Chat_Worker \<Rightarrow> bindE (worker_runs os what) (\<lambda>_ s. (Inr (), worker_ends os s)) s)"

datatype program_step = Dashboard terminal_step | Serving "string list option" | Ends tui_thread

type_synonym 'w program = "terminal \<times> 'w host mini_http_server"

definition program_does ::
    "'w os \<Rightarrow> post_json \<Rightarrow> (cpp_exception \<Rightarrow> string) \<Rightarrow> program_step \<Rightarrow> 'w program \<Rightarrow> (cpp_exception + unit) \<times> 'w program" where
  "program_does os post what step s =
     (case step of
        Dashboard d \<Rightarrow>
          (case terminal_does os what d (fst s, ms_host (snd s)) of (r, t, h) \<Rightarrow> (r, t, (snd s)\<lparr>ms_host := h\<rparr>))
      | Ends thread \<Rightarrow>
          (case thread_ends os what thread (fst s, ms_host (snd s)) of (r, t, h) \<Rightarrow> (r, t, (snd s)\<lparr>ms_host := h\<rparr>))
      | Serving client \<Rightarrow>
          (case loop_round os post client (snd s) of
             (_, r, server) \<Rightarrow> (if r = Undefined_Round then Inl Decimal.UndefinedBehaviour else Inr (), fst s, server)))"

fun program_run ::
    "'w os \<Rightarrow> post_json \<Rightarrow> (cpp_exception \<Rightarrow> string) \<Rightarrow> program_step list \<Rightarrow> 'w program \<Rightarrow> (cpp_exception + unit) \<times> 'w program" where
  "program_run os post what [] s = (Inr (), s)"
| "program_run os post what (step # steps) s = bindE (program_does os post what step) (\<lambda>_. program_run os post what steps) s"

text \<open>The terminal interface is started on the host of the listening server.\<close>

definition start_program :: "'w os \<Rightarrow> string \<Rightarrow> 'w host mini_http_server \<Rightarrow> 'w program" where
  "start_program os version server =
     (case start_terminal os version (ms_host server) of (t, h) \<Rightarrow> (t, server\<lparr>ms_host := h\<rparr>))"

text \<open>
  The steps until the user quits or an exception leaves the event loop, then the steps until every
  thread has been joined, then the end of \<open>main\<close>. Undefined behaviour has no end.
\<close>

definition run_interactive ::
    "'w os \<Rightarrow> post_json \<Rightarrow> (cpp_exception \<Rightarrow> string) \<Rightarrow> string \<Rightarrow> program_step list \<Rightarrow> program_step list
      \<Rightarrow> 'w host mini_http_server \<Rightarrow> (cpp_exception + int) \<times> 'w program" where
  "run_interactive os post what version steps closing server =
     (case program_run os post what steps (start_program os version server) of
        (Inl Decimal.UndefinedBehaviour, s) \<Rightarrow> (Inl Decimal.UndefinedBehaviour, s)
      | (_, s) \<Rightarrow>
          (case program_run os post what closing s of
             (Inl e, s1) \<Rightarrow> (Inl e, s1)
           | (Inr _, s1) \<Rightarrow> (Inr 0, fst s1, shut_down os (snd s1))))"

text \<open>Without a flag that asks for another mode, this is how \<open>main\<close> ends.\<close>

lemma interactive_main:
  assumes "\<not> has_flag args ''--service''" and "\<not> has_flag args ''--headless''"
    and "run_interactive os post what version steps closing server = (Inr code, s)"
  shows "main_runs os post args from_scm registered early service_rounds rounds
      (\<lambda>server. snd (snd (program_run os post what closing (snd (program_run os post what steps (start_program os version server)))))) server
    = Some (code, snd s)"
  using assms by (auto simp: main_runs_def run_interactive_def split: prod.splits sum.splits Decimal.cpp_exception.splits)

inductive interleaved ::
    "'w os \<Rightarrow> post_json \<Rightarrow> (cpp_exception \<Rightarrow> string) \<Rightarrow> string \<Rightarrow> 'w host mini_http_server \<Rightarrow> 'w program \<Rightarrow> bool"
  for os post what version server
where
  started: "interleaved os post what version server (start_program os version server)"
| moved: "interleaved os post what version server s \<Longrightarrow> program_does os post what step s = (Inr (), s')
    \<Longrightarrow> interleaved os post what version server s'"

section \<open>What the whole program keeps\<close>

locale program_invariant =
  fixes os :: "'w os" and P :: "'w host \<Rightarrow> bool"
  assumes bounded: "P h \<Longrightarrow> length (h_app_log h) \<le> 256"
    and framed_kept: "P h \<Longrightarrow> framed (agent_core h) h' \<Longrightarrow> P h'"
    and turns: "P h \<Longrightarrow> P (snd (agent_turn os body h))"
    and decides: "P h \<Longrightarrow> P (snd (agent_tool_decision os body h))"
    and configured: "P h \<Longrightarrow> P (h\<lparr>h_config := c\<rparr>)"
    and erased: "P h \<Longrightarrow> P (snd (delete_agent_session_json os body h))"
begin

lemma own_frame: "P h \<Longrightarrow> framed (agent_core h) h"
  by (simp add: framed_def bounded)

lemma keeps_framed:
  assumes "\<And>c h. framed c h \<Longrightarrow> framed c (snd (m h))"
  shows "keeps P m"
  by (rule keepsI) (rule framed_kept [OF _ assms [OF own_frame]])

lemma P_framed: "(\<And>c. framed c h \<Longrightarrow> framed c h') \<Longrightarrow> P h \<Longrightarrow> P h'"
  using framed_kept own_frame by blast

lemma P_log: "P h \<Longrightarrow> P (append_app_log os channel direction summary success sid h)"
  by (rule P_framed) (rule framed_app_log)

lemma P_sense: "P h \<Longrightarrow> P (snd (sense f h))"
  by (rule P_framed) (simp_all add: frame_simps)

lemma P_updates:
  "P h \<Longrightarrow> P (h\<lparr>h_language_ai := ai\<rparr>)" "P h \<Longrightarrow> P (h\<lparr>h_tasks := q\<rparr>)" "P h \<Longrightarrow> P (h\<lparr>h_connectors := cs\<rparr>)"
  "P h \<Longrightarrow> P (h\<lparr>h_watchdog_last_check_utc := n\<rparr>)"
  "P h \<Longrightarrow> P (h\<lparr>h_ollama_reachable := b\<rparr>)" "P h \<Longrightarrow> P (h\<lparr>h_ollama_last_check_ms := n\<rparr>)"
  "P h \<Longrightarrow> P (h\<lparr>h_ollama_last_check_error := e\<rparr>)"
  by (erule P_framed [rotated], simp add: framed_def agent_core_def)+

lemmas P_simps = P_log P_sense P_updates configured

lemma keeps_config:
  "keeps P (update_config os body)" "keeps P (update_ollama_config os body)"
proof -
  have "P h \<Longrightarrow> P (apply_model_config h)" for h by (simp add: apply_model_config_def P_updates)
  moreover have "P h \<Longrightarrow> P (snd (persist_current_settings os h))" for h
    by (auto simp: persist_current_settings_def Let_def case_prod_beta P_sense split: sum.split)
  ultimately have "P h \<Longrightarrow> P (snd (persist_current_settings os (apply_model_config (h\<lparr>h_config := c\<rparr>))))" for h c
    using configured by blast
  then show "keeps P (update_config os body)" "keeps P (update_ollama_config os body)"
    by (auto simp: keeps_def update_config_def update_ollama_config_def Let_def split: prod.split sum.split)
       (metis snd_conv)+
qed

lemma P_poll: "P h \<Longrightarrow> P (snd (poll_online n os url h))"
  by (induction n arbitrary: h) (auto simp: case_prod_beta P_sense)

lemma keeps_ollama:
  "keeps P (changes (build_ollama_status_json os))" "keeps P (changes (ollama_setup_status_json os))"
  "keeps P (changes (install_ollama os))" "keeps P (changes (start_ollama os))" "keeps P (pull_ollama_model os body)"
  "keeps P (changes (build_process_status_json os))"
proof -
  show "keeps P (changes (build_ollama_status_json os))" "keeps P (changes (ollama_setup_status_json os))"
    "keeps P (changes (build_process_status_json os))"
    by (simp_all add: keeps_def changes_def build_ollama_status_json_def ollama_setup_status_json_def build_process_status_json_def
        Let_def case_prod_beta P_sense)
  show "keeps P (changes (install_ollama os))" "keeps P (changes (start_ollama os))"
    by (simp_all add: keeps_def changes_def install_ollama_def start_ollama_def Let_def case_prod_beta P_simps P_poll)
  have "keeps P (bindE (\<lambda>s. if ok then update_ollama_config os b s else (Inr [], s)) (\<lambda>_ s. (Inr j, s)))" for ok b and j :: string
    by (rule keeps_bindE) (use keeps_config(2) in \<open>auto simp: keeps_def\<close>)
  then show "keeps P (pull_ollama_model os body)"
    unfolding keeps_def pull_ollama_model_def Let_def by (auto simp: case_prod_beta P_simps)
qed

lemma keeps_changes: "(\<And>h. P h \<Longrightarrow> P (snd (f h))) \<Longrightarrow> keeps P (changes f)"
  by (simp add: keeps_def changes_def)

lemma keeps_reads: "keeps P (reads f)"
  by (simp add: keeps_def reads_def)

lemma keeps_route:
  "status_routes os request = Some m \<Longrightarrow> keeps P m" "program_routes os request = Some m \<Longrightarrow> keeps P m"
  "file_routes os request = Some m \<Longrightarrow> keeps P m" "agent_routes os request = Some m \<Longrightarrow> keeps P m"
  "connector_routes os request = Some m \<Longrightarrow> keeps P m" "task_routes os request = Some m \<Longrightarrow> keeps P m"
proof -
  have f: "keeps P (changes g)" if "\<And>c h. framed c h \<Longrightarrow> framed c (snd (g h))" for g
    by (rule keeps_changes) (rule P_framed, rule that)
  have k: "keeps P (agent_turn os b)" "keeps P (agent_tool_decision os b)" "keeps P (changes (delete_agent_session_json os b))" for b
    using turns decides erased by (simp_all add: keeps_def changes_def)
  have r: "keeps P (changes (register_connector_body b))" for b
    by (rule keeps_changes) (simp add: register_connector_body_def set_connectors_def case_prod_beta P_updates)
  note keep = keeps_reads keeps_config keeps_ollama k r f keeps_framed
  show "status_routes os request = Some m \<Longrightarrow> keeps P m"
    by (auto simp: status_routes_def Let_def keep split: if_splits)
  show "program_routes os request = Some m \<Longrightarrow> keeps P m"
    by (auto simp: program_routes_def Let_def keep frame_simps split: if_splits)
  show "file_routes os request = Some m \<Longrightarrow> keeps P m"
    by (auto simp: file_routes_def Let_def keep frame_simps split: if_splits)
  show "agent_routes os request = Some m \<Longrightarrow> keeps P m"
    by (auto simp: agent_routes_def Let_def keep frame_simps split: if_splits)
  show "connector_routes os request = Some m \<Longrightarrow> keeps P m"
    by (auto simp: connector_routes_def Let_def keep frame_simps split: if_splits option.splits)
  show "task_routes os request = Some m \<Longrightarrow> keeps P m"
    by (auto simp: task_routes_def Let_def keep frame_simps split: if_splits option.splits)
qed

lemma keeps_dispatch: "P h \<Longrightarrow> P (snd (droidcli_route_dispatch os request h))"
proof -
  have "first_route rs = Some m \<Longrightarrow> (\<And>r. r \<in> set rs \<Longrightarrow> r = Some m \<Longrightarrow> keeps P m) \<Longrightarrow> keeps P m" for rs m
    by (induction rs rule: first_route.induct) auto
  then have "first_route [status_routes os request, program_routes os request, file_routes os request,
      agent_routes os request, connector_routes os request, task_routes os request] = Some m \<Longrightarrow> keeps P m" for m
    using keeps_route [of request m] by (smt (verit) empty_iff empty_set set_ConsD)
  then show "P h \<Longrightarrow> P (snd (droidcli_route_dispatch os request h))"
    by (auto simp: droidcli_route_dispatch_def mounted_def keeps_def split: option.split prod.split sum.split)
       (metis snd_conv)+
qed

lemma P_served:
  "P (ms_host server) \<Longrightarrow> P (ms_host (snd (serve_request post (Some (droidcli_route_dispatch os)) request server)))"
proof -
  assume p: "P (ms_host server)"
  have h: "ms_host (server\<lparr>ms_language_ai := ai\<rparr>) = ms_host server" for ai by simp
  have "P (snd (droidcli_route_dispatch os request (ms_host server)))" by (rule keeps_dispatch [OF p])
  then show ?thesis
    using p by (auto simp: serve_request_def Let_def h split: prod.splits sum.splits option.splits)
qed

lemma P_polled: "P (ms_host server) \<Longrightarrow> P (ms_host (snd (poll_once post (Some (droidcli_route_dispatch os)) client server)))"
  by (auto simp: poll_once_def P_served split: option.split read_result.split)

lemma P_ticked: "P h \<Longrightarrow> P (snd (tick os h))"
proof -
  have w: "P h \<Longrightarrow> P (tick_watchdog os h)" for h
    by (simp add: tick_watchdog_def case_prod_beta Let_def P_simps split: bool.split)
  have d: "keeps P (dispatch_task os t)" for t
    by (rule keeps_framed)
      (auto simp: dispatch_task_def case_prod_beta Let_def bindE_def frame_simps split: prod.split sum.split
        dest: framed_commands(1))
  have "P h \<Longrightarrow> P (settle_task os t outcome h)" for t outcome h
    by (simp add: settle_task_def case_prod_beta Let_def P_simps)
  then have "keeps P (bindE (dispatch_task os t) (\<lambda>outcome s. (Inr (), settle_task os t outcome s)))" for t
    by (intro keeps_bindE d) (simp add: keeps_def)
  then have "P h \<Longrightarrow> P (snd (tick_tasks os h))" for h
    by (auto simp: tick_tasks_def case_prod_beta keeps_def P_simps split: option.split prod.split)
  with w show "P h \<Longrightarrow> P (snd (tick os h))" by (simp add: tick_def)
qed

lemma P_round:
  assumes "P (ms_host server)"
  shows "P (ms_host (snd (snd (loop_round os post client server))))"
proof -
  let ?s = "snd (poll_once post (Some (droidcli_route_dispatch os)) client server)"
  have s: "P (ms_host ?s)" by (rule P_polled [OF assms])
  have "ms_host (snd (after_tick r server)) = snd r" for r and server :: "'w host mini_http_server"
    by (auto simp: after_tick_def split: prod.split sum.split cpp_exception.split)
  then show ?thesis
    using s P_ticked [OF s] by (auto simp: loop_round_def case_prod_beta split: poll_outcome.split sum.split)
qed

lemma P_entries:
  "P h \<Longrightarrow> P (snd (new_chat_entry os role line h))" "P h \<Longrightarrow> P (snd (new_chat_entries os ls h))"
proof -
  show n: "P h \<Longrightarrow> P (snd (new_chat_entry os role line h))" for role line h
    by (simp add: new_chat_entry_def case_prod_beta P_sense)
  show "P h \<Longrightarrow> P (snd (new_chat_entries os ls h))"
  proof (induction ls arbitrary: h)
    case (Cons l ls)
    obtain role line stamp where l: "l = (role, line, stamp)" by (cases l)
    show ?case
      using Cons.IH [OF Cons.prems] Cons.IH [OF n [OF Cons.prems]] by (auto simp: l case_prod_beta split: option.split)
  qed simp
qed

lemma P_push: "P (snd s) \<Longrightarrow> P (snd (push_chat_entry os role line s))"
  by (simp add: push_chat_entry_def log_chat_entry_def case_prod_beta P_entries P_log)

lemma P_resumed: "P h \<Longrightarrow> P (snd (parse_agent_history_for_resume os json h))"
  by (simp add: parse_agent_history_for_resume_def Let_def case_prod_beta P_entries)

lemma P_last_session: "P h \<Longrightarrow> P (write_last_session_id os sid h)"
  by (simp add: write_last_session_id_def P_sense)

lemma P_thread: "P h \<Longrightarrow> P (thread_spawned os name h)" "P h \<Longrightarrow> P (thread_joined os name h)"
  by (simp_all add: thread_spawned_def thread_joined_def log_thread_event_def P_log)

lemma P_connectors:
  "P h \<Longrightarrow> P (snd (launch_connector os cid h))" "P h \<Longrightarrow> P (snd (stop_connector os cid h))"
  "P h \<Longrightarrow> P (snd (connector_status_json os cid h))"
  by (erule P_framed [rotated], simp add: frame_simps)+

lemma P_setup: "P h \<Longrightarrow> P (snd (ollama_setup_status_json os h))" "P h \<Longrightarrow> P (snd (build_ollama_status_json os h))"
  using keeps_ollama(1,2) by (simp_all add: keeps_def changes_def)

lemmas P_screen = P_simps P_entries P_push P_resumed P_last_session P_thread P_connectors P_setup erased

text \<open>The worker: a step of its run keeps the predicate on the host it holds.\<close>

definition run_keeps :: "('w chat_run \<Rightarrow> 'a \<times> 'w chat_run) \<Rightarrow> bool" where
  "run_keeps m \<longleftrightarrow> (\<forall>r. P (ru_host r) \<longrightarrow> P (ru_host (snd (m r))))"

lemma run_keeps_bindE: "run_keeps m \<Longrightarrow> (\<And>x. run_keeps (f x)) \<Longrightarrow> run_keeps (bindE m f)"
  by (fastforce simp: run_keeps_def bindE_def split: prod.split sum.split)

lemma run_keeps_host: "keeps P m \<Longrightarrow> run_keeps (on_host m)"
  by (simp add: run_keeps_def keeps_def on_host_def case_prod_beta)

lemma run_keeps_say: "run_keeps (say os role line)"
  by (simp add: run_keeps_def say_def case_prod_beta P_entries)

lemma run_keeps_ingest: "run_keeps (ingest_agent_response os response)"
  by (simp add: run_keeps_def ingest_agent_response_def Let_def case_prod_beta P_entries)

lemma keeps_total: "(\<And>h. P h \<Longrightarrow> P (snd (f h))) \<Longrightarrow> keeps P (Terminal_Worker.total f)"
  by (simp add: keeps_def Terminal_Worker.total_def case_prod_beta)

lemma keeps_dialogue:
  "keeps P (Terminal_Worker.total (install_ollama os))" "keeps P (Terminal_Worker.total (start_ollama os))"
  "keeps P (Terminal_Worker.total (ollama_setup_status_json os))" "keeps P (agent_turn os body)" "keeps P (agent_tool_decision os body)"
  using keeps_ollama turns decides by (simp_all add: keeps_def changes_def Terminal_Worker.total_def case_prod_beta)

lemmas run_keeps_rules = run_keeps_bindE run_keeps_host run_keeps_say run_keeps_ingest keeps_dialogue keeps_ollama(5) keeps_config(2)

lemma run_keeps_job: "run_keeps (run_job os job sid)"
proof -
  have d: "run_keeps (run_tool_decision os approved reason sid)" for approved reason sid
    unfolding run_tool_decision_def by (intro run_keeps_rules)
  have i: "run_keeps (install_turn os)" "run_keeps (start_turn os)" "run_keeps (pull_turn os m)" for m
    unfolding install_turn_def start_turn_def pull_turn_def Let_def
    by (auto intro!: run_keeps_rules split: if_split)
  have k: "run_keeps (\<lambda>r. (x, r))" for x :: "cpp_exception + string option" by (simp add: run_keeps_def)
  have m: "run_keeps (model_turn os status line)" for status line
    unfolding model_turn_def Let_def by (auto intro!: run_keeps_rules i(3) k split: if_split option.split)
  have "run_keeps (run_chat_turn os message fresh sid)" for message fresh sid
    unfolding run_chat_turn_def Let_def by (auto intro!: run_keeps_rules i m split: ollama_setup_state.split)
  then show ?thesis using d by (simp add: run_job_def split: chat_job.split)
qed

text \<open>Every step of the terminal.\<close>

lemma P_worker: "P (snd s) \<Longrightarrow> P (snd (snd (worker_runs os what s)))"
proof -
  assume p: "P (snd s)"
  have "run_keeps (caught os what m)" if "run_keeps m" for m
    using that run_keeps_say by (auto simp: run_keeps_def caught_def split: prod.split sum.split cpp_exception.split)
  from this [OF run_keeps_job] have c: "P h \<Longrightarrow>
      P (ru_host (snd (caught os what (run_job os job sid) \<lparr>ru_results = [], ru_work = u, ru_host = h\<rparr>)))" for job sid u h
    by (simp add: run_keeps_def)
  show ?thesis
  proof (cases "t_worker (fst s)")
    case (Running job)
    then show ?thesis
      using c [OF p, of job "t_current_session_id (fst s)" "t_chat_work (fst s)"]
      by (simp add: worker_runs_def Let_def case_prod_beta split: sum.split)
  qed (simp_all add: worker_runs_def p)
qed

lemma P_live: "P h \<Longrightarrow> P (snd (with_live_status os rows h))"
  by (induction rows arbitrary: h) (simp_all add: case_prod_beta P_connectors)

lemma P_poll_round: "P (snd s) \<Longrightarrow> P (snd (poll_round os s))"
  by (auto simp: poll_round_def case_prod_beta Let_def P_live P_setup split: sum.split)

lemma P_return: "P (snd s) \<Longrightarrow> P (snd (on_return os s))"
proof -
  have "P (snd s) \<Longrightarrow> P (snd (return_on_prompt os s))" for s
    by (simp add: return_on_prompt_def Let_def P_screen)
  moreover have "P (snd s) \<Longrightarrow> P (snd (return_on_message os s))" for s
    by (auto simp: return_on_message_def Let_def case_prod_beta P_screen)
  ultimately show "P (snd s) \<Longrightarrow> P (snd (on_return os s))" by (simp add: on_return_def)
qed

lemma P_custom: "P (snd s) \<Longrightarrow> P (snd (on_custom os s))"
  by (simp add: on_custom_def take_session_def refresh_session_menu_now_def Let_def P_screen)

lemma P_keys:
  assumes "P (snd s)"
  shows "P (snd (on_key os k s))"
  using assms
  by (auto simp: on_key_def on_connector_key_def copy_chat_def start_new_session_def ask_erase_def Let_def case_prod_beta
      P_screen split: option.split)

lemma P_erase: "P (snd s) \<Longrightarrow> P (snd (confirm_erase os s))"
  by (simp add: confirm_erase_def refresh_session_menu_now_def Let_def case_prod_beta P_screen)

lemma P_event: "P (snd s) \<Longrightarrow> P (snd (snd (on_event os e s)))"
proof -
  assume p: "P (snd s)"
  have m: "P (snd s) \<Longrightarrow> P (snd (snd (apply_model_menu_selection os s)))" for s
    using keeps_config(2) unfolding keeps_def apply_model_menu_selection_def
    by (auto split: option.split prod.split sum.split intro!: P_push) (metis snd_conv)+
  have r: "P (snd s) \<Longrightarrow> P (snd (apply_session_menu_selection os s))" for s
    by (auto simp: apply_session_menu_selection_def Let_def case_prod_beta P_screen split: option.split)
  have f: "P (snd (snd (on_event os Frame s)))"
    using m [OF p] r by (cases "apply_model_menu_selection os s") (simp add: on_event_def bindE_def split: sum.split)
  have "P (snd (on_popup os e s))" using p by (simp add: on_popup_def P_erase)
  moreover have "P (snd (on_main os e s))"
    using p by (simp add: on_main_def on_input_key_def P_keys P_return P_custom split: event.split)
  ultimately show ?thesis using f by (cases "e = Frame") (auto simp: on_event_def)
qed

lemma P_step: "P (snd s) \<Longrightarrow> P (snd (snd (terminal_does os what step s)))"
  by (simp add: terminal_does_def P_event P_poll_round P_worker worker_ends_def P_thread split: terminal_step.split worker.split)

lemma P_ends: "P (snd s) \<Longrightarrow> P (snd (snd (thread_ends os what thread s)))"
proof -
  assume p: "P (snd s)"
  have "P (snd s) \<Longrightarrow> P (snd (worker_ends os s))" for s :: "'w screen"
    by (simp add: worker_ends_def P_thread split: worker.split)
  then show ?thesis
    using p P_worker [OF p, of what] by (auto simp: thread_ends_def bindE_def P_thread split: tui_thread.split prod.split sum.split)
qed

lemma P_start: "P h \<Longrightarrow> P (snd (start_terminal os version h))"
  by (simp add: start_terminal_def prompt_for_setup_def resume_last_session_def Let_def case_prod_beta P_screen)

lemma P_program:
  assumes "interleaved os post what version server s" and "P (ms_host server)"
  shows "P (ms_host (snd s))"
  using assms
proof (induction rule: interleaved.induct)
  case started
  then show ?case by (simp add: start_program_def case_prod_beta P_start)
next
  case (moved s step s')
  then show ?case
    using P_step [of "(fst s, ms_host (snd s))" what] P_ends [of "(fst s, ms_host (snd s))" what] P_round [of "snd s" post]
    by (auto simp: program_does_def case_prod_beta split: program_step.splits)
qed

end

section \<open>What is pending is gated\<close>

interpretation gated_program: program_invariant os gate_ok for os :: "'w os"
proof
  fix h h' :: "'w host" and body c
  show "gate_ok h \<Longrightarrow> length (h_app_log h) \<le> 256" by (simp add: gate_ok_def)
  show "gate_ok h \<Longrightarrow> framed (agent_core h) h' \<Longrightarrow> gate_ok h'" by (simp add: gate_ok_def pending_gated_def framed_def agent_core_def)
  show "gate_ok h \<Longrightarrow> gate_ok (snd (agent_turn os body h))" by (rule gate.turn_kept [OF refl gate_select refl])
  show "gate_ok h \<Longrightarrow> gate_ok (snd (agent_tool_decision os body h))" by (rule gate.decision_kept) simp_all
  show "gate_ok h \<Longrightarrow> gate_ok (h\<lparr>h_config := c\<rparr>)" by (simp add: gate_ok_def pending_gated_def)
  show "gate_ok (snd (delete_agent_session_json os body h))" if "gate_ok h"
  proof -
    have l: "gate_ok h \<Longrightarrow> gate_ok (append_app_log os a b t ok sid h)" for a b t ok sid and h :: "'w host"
      by (rule gate.ok_log)
    have g: "gate_ok (h\<lparr>h_memory_store := m\<rparr>) = gate_ok h" "gate_ok (h\<lparr>h_agent_transcript := ts\<rparr>) = gate_ok h"
      "gate_ok (h\<lparr>h_current_session_id := i\<rparr>) = gate_ok h" "gate_ok (snd (sense f h)) = gate_ok h"
      for m ts i f and h :: "'w host"
      by (simp_all add: gate_ok_def pending_gated_def sense_def case_prod_beta)
    show ?thesis
      using that by (simp add: delete_agent_session_json_def Let_def case_prod_beta l g generate_session_id_def)
  qed
qed

lemma options_kept: "ms_options (snd (snd (loop_round os post client server))) = ms_options server"
proof -
  have t: "ms_options (snd (after_tick r server)) = ms_options server" for r and server :: "'w host mini_http_server"
    by (auto simp: after_tick_def split: prod.split sum.split cpp_exception.split)
  have "ms_options (snd (serve_request post custom request server)) = ms_options server" for custom request and server :: "'w host mini_http_server"
    by (simp add: serve_request_def Let_def case_prod_beta split: sum.split option.split)
  then have "ms_options (snd (poll_once post custom client server)) = ms_options server" for custom and server :: "'w host mini_http_server"
    by (auto simp: poll_once_def split: option.split read_result.split)
  then show ?thesis by (auto simp: loop_round_def case_prod_beta t split: poll_outcome.split sum.split)
qed

lemma ok_thread_ends:
  assumes "terminal_ok (fst s)" and "thread_ends os what thread s = (Inr (), s')"
  shows "terminal_ok (fst s')"
proof (cases thread)
  case Chat_Worker
  then obtain s1 where "terminal_does os what Worker_Runs s = (Inr (), s1)" "terminal_does os what Worker_Hands_Over s1 = (Inr (), s')"
    using assms(2) by (auto simp: thread_ends_def bindE_def terminal_does_def split: prod.splits sum.splits)
  then show ?thesis using ok_step assms(1) by blast
qed (use assms in \<open>auto simp: thread_ends_def\<close>)

lemma program_kept:
  assumes "interleaved os post what version server s" and "ms_running server"
  shows "terminal_ok (fst s) \<and> ms_options (snd s) = ms_options server \<and> ms_running (snd s)"
  using assms
proof (induction rule: interleaved.induct)
  case started
  then show ?case using ok_start [of os version "ms_host server"] by (simp add: start_program_def case_prod_beta)
next
  case (moved s step s')
  have "terminal_ok t" if "terminal_does os what d (fst s, ms_host (snd s)) = (Inr (), t, h)" for d t h
    using ok_step [OF _ that] moved by simp
  moreover have "terminal_ok t" if "thread_ends os what thread (fst s, ms_host (snd s)) = (Inr (), t, h)" for thread t h
    using ok_thread_ends [OF _ that] moved by simp
  moreover have "fst (snd (loop_round os post client (snd s))) \<noteq> Undefined_Round \<Longrightarrow>
      ms_running (snd (snd (loop_round os post client (snd s))))" for client
    using round_goes_on moved by blast
  ultimately show ?case
    using moved options_kept [of os post _ "snd s"]
    by (auto simp: program_does_def split: program_step.splits prod.splits if_splits) (metis snd_conv fst_conv)+
qed

lemma listening_host_ok:
  assumes "main_start os mc args w = (Listening server, w')"
  shows "gate_ok (ms_host server) \<and> \<not> pc_active (h_pending_tool_call (ms_host server)) \<and> ms_running server"
proof -
  obtain path s w1 where d: "start_daemon os mc args path s w1 = (Listening server, w')"
    using assms by (auto simp: main_start_def Let_def split: if_splits sum.splits option.splits prod.splits)
  let ?i = "initialize_host os (mc_startup mc) (configure (host_config_of path s) (new_host w1))"
  have i: "fst ?i = Inr ()" using d by (auto simp: start_daemon_def split: sum.splits prod.splits)
  then have "su_database_opened (mc_startup mc) \<and> su_tables_created (mc_startup mc)"
    using initialize_returns [of os "mc_startup mc"] by (metis Inl_Inr_False)
  moreover have "untouched (configure c (new_host w1))" for c by (simp add: untouched_def configure_def new_host_def)
  ultimately obtain g where g: "untouched g" "snd ?i = append_app_log os ''host'' ''event'' (initialized_summary g) True [] g"
    using initialized_from by (metis snd_conv)
  have "framed (agent_core g) g" using g(1) by (simp add: framed_def untouched_def)
  then have "framed (agent_core g) (snd ?i)" using g(2) by (simp add: framed_app_log)
  then have f: "framed (agent_core g) (load_connectors os cp (snd ?i))" for cp
    by (simp add: load_connectors_def Let_def set_connectors_def frame_simps)
  have "ms_running server \<and> (\<exists>cp. ms_host server = load_connectors os cp (snd ?i))"
    using d i
    by (auto simp: start_daemon_def start_server_def stop_server_def configure_language_ai_def stopped_server_def Let_def
        split: sum.splits prod.splits if_splits)
  then show ?thesis
    using f g(1) by (auto simp: framed_def agent_core_def gate_ok_def pending_gated_def untouched_def no_pending_call_def)
qed

text \<open>
  C5: the whole program, from \<open>main\<close> on, with the user, the chat worker, the poller, any clients and the
  background loop in any order: a call awaits approval only if its tool needs one; the log in memory
  holds at most 256 entries; the terminal's input is locked exactly while a turn is under way; and
  the server still runs under the token it started with.
\<close>

theorem interactive_program_is_sound:
  assumes "main_start os mc args w = (Listening server, w')" and "interleaved os post what version server s"
  shows "(pc_active (h_pending_tool_call (ms_host (snd s))) \<longrightarrow>
      tool_call_requires_approval (call_name (pc_decided_call (h_pending_tool_call (ms_host (snd s))))))
    \<and> length (h_app_log (ms_host (snd s))) \<le> 256
    \<and> t_agent_turn_in_flight (fst s) = (t_worker (fst s) \<noteq> No_Job \<or> wo_clear_in_flight (t_chat_work (fst s)))
    \<and> ms_running (snd s) \<and> so_api_token (ms_options (snd s)) = so_api_token (ms_options server)"
proof -
  note start = listening_host_ok [OF assms(1)]
  have "gate_ok (ms_host (snd s))" using gated_program.P_program [OF assms(2)] start by blast
  moreover have "terminal_ok (fst s) \<and> ms_options (snd s) = ms_options server \<and> ms_running (snd s)"
    using program_kept [OF assms(2)] start by blast
  ultimately show ?thesis by (auto simp: gate_ok_def pending_gated_def terminal_ok_def)
qed

section \<open>The end\<close>

text \<open>Behind the event loop no event comes any more.\<close>

fun without_events :: "program_step \<Rightarrow> bool" where
  "without_events (Dashboard (User e)) = False"
| "without_events _ = True"

lemma idle_worker_stays:
  assumes "t_worker (fst s) = No_Job" and "without_events step" and "program_does os post what step s = (r, s')"
  shows "t_worker (fst s') = No_Job"
  using assms
  by (cases step rule: without_events.cases)
    (auto simp: program_does_def terminal_does_def thread_ends_def bindE_def worker_runs_def worker_ends_def poll_round_def Let_def
      case_prod_beta split: tui_thread.splits sum.splits prod.splits if_splits)

lemma joined_worker_is_idle:
  assumes "program_does os post what (Ends Chat_Worker) s = (Inr (), s')"
  shows "t_worker (fst s') = No_Job"
  using assms
  by (auto simp: program_does_def thread_ends_def bindE_def worker_runs_def worker_ends_def worker_hands_over_def Let_def
      case_prod_beta split: worker.splits sum.splits prod.splits)

lemma idle_worker_stays_idle:
  "t_worker (fst s) = No_Job \<Longrightarrow> list_all without_events closing \<Longrightarrow> t_worker (fst (snd (program_run os post what closing s))) = No_Job"
  by (induction closing arbitrary: s) (auto simp: bindE_def split: prod.split sum.split dest: idle_worker_stays)

lemma closing_joins_worker:
  assumes "list_all without_events closing" and "Ends Chat_Worker \<in> set closing" and "program_run os post what closing s = (Inr (), s')"
  shows "t_worker (fst s') = No_Job"
  using assms
proof (induction closing arbitrary: s)
  case (Cons step closing)
  obtain s1 where s1: "program_does os post what step s = (Inr (), s1)" "program_run os post what closing s1 = (Inr (), s')"
    using Cons.prems(3) by (auto simp: bindE_def split: prod.splits sum.splits)
  show ?case
  proof (cases "step = Ends Chat_Worker")
    case True
    then show ?thesis
      using joined_worker_is_idle [of os post what s s1] s1 idle_worker_stays_idle [of s1 closing os post what] Cons.prems(1) by simp
  next
    case False
    then show ?thesis using Cons.IH [OF _ _ s1(2)] Cons.prems(1,2) by simp
  qed
qed simp


lemma started_idle: "t_worker (fst (start_terminal os version h)) = No_Job"
  by (simp add: start_terminal_def prompt_for_setup_def resume_last_session_def push_chat_entry_def blank_terminal_def Let_def case_prod_beta)

lemma idle_worker_joins:
  "t_worker (fst s) = No_Job \<Longrightarrow> program_does os post what (Ends Chat_Worker) s = (Inr (), s)"
  by (simp add: program_does_def thread_ends_def bindE_def worker_runs_def worker_ends_def case_prod_beta)


section \<open>What an approval approves\<close>

lemma prompt_reply:
  "return_on_prompt os (t\<lparr>t_pending_tool_approval := (t_pending_tool_approval t)\<lparr>pa_tool := x, pa_arguments_json := y\<rparr>\<rparr>, h)
     = return_on_prompt os (t, h)"
  by (simp add: return_on_prompt_def push_chat_entry_def Let_def case_prod_beta)

lemma prompt_event:
  assumes "t_chat_focused t" and "\<not> t_show_delete_confirm t" and "\<not> t_agent_turn_in_flight t"
    and "pa_active (t_pending_tool_approval t)"
  shows "program_does os post what (Dashboard (User Return_Key)) (t, server)
    = (case return_on_prompt os (t, ms_host server) of (t', h) \<Rightarrow> (Inr (), t', server\<lparr>ms_host := h\<rparr>))"
  using assms by (simp add: program_does_def terminal_does_def on_event_def on_main_def on_input_key_def on_return_def case_prod_beta)


definition asking_program :: "unit program" where
  "asking_program = (asking_terminal ''yes'', closed_server)"


theorem interactive_program_is_sound_witness:
  "\<exists>server w' s. main_start idle_os idle_machine [] () = (Listening server, w')
    \<and> interleaved idle_os (\<lambda>u b h. (False, 0, [])) (\<lambda>e. []) ''1'' server s
    \<and> length (h_app_log (ms_host (snd s))) \<le> 256 \<and> ms_running (snd s)"
proof -
  from idle_machine_listens [of "[]"] obtain server w' where l: "main_start idle_os idle_machine [] () = (Listening server, w')" by auto
  have i: "interleaved idle_os (\<lambda>u b h. (False, 0, [])) (\<lambda>e. []) ''1'' server (start_program idle_os ''1'' server)"
    by (rule interleaved.started)
  from interactive_program_is_sound [OF l i] l i show ?thesis by blast
qed

end
