(* ===== verification/Console.thy ===== *)
theory Console imports Complex_Main Service begin

text \<open>
  What \<open>cli/droidcli.cpp\<close> prints: the usage text, the messages of the start and the routes it lists when
  it listens. Then: no argument that the usage text does not name has an effect, the listed routes
  are served behind the token, and a token that was given is not printed.
\<close>

section \<open>The usage text\<close>

text \<open>The lines of \<open>print_usage\<close>; the version is an argument.\<close>

definition option_lines :: "string list" where
  "option_lines = [
   [],
   ''Usage: droidcli [options]'',
   [],
   ''Options:'',
   ''  --port <N>             HTTP listen port (default 30080)'',
   ''  --config <path>        JSON file with a top-level '' @ [quot] @ ''connectors'' @ [quot] @ '' array, loaded at startup'',
   ''  --settings <path>      JSON settings file (default db/droidcli_settings.json) - port/ollama'',
   ''                          config and secrets (token, DPAPI-encrypted at rest on Windows). CLI'',
   ''                          flags override it; written at every startup so a later'',
   ''                          --install-service run has a token to read with none on its command line.'',
   ''  --token <value>        Bearer token for the HTTP API (else DROIDCLI_API_TOKEN env var, else generated)'',
   ''  --no-ai                 Disable Ollama / /ai/chat and the agent tool-calling loop'',
   ''  --enable-hardware-scan  Opt in to a one-time local CPU/GPU/RAM/disk inventory scan at startup'',
   ''  --ollama-url <url>      Base URL of the LLM provider - any backend speaking the OpenAI Chat'',
   ''                          Completions wire format (default http://127.0.0.1:11434, a local'',
   ''                          Ollama daemon'' @ [CHR 0x27] @ ''s built-in /v1 endpoint)'',
   ''  --ollama-model <name>   Model name (default llama3.2)'',
   ''  --ollama-num-ctx <N>    Ollama context window, in tokens, requested on every chat call'',
   ''                          (default 32768, matching OpenClaude - prevents Ollama'' @ [CHR 0x27] @ ''s own,'',
   ''                          often smaller, per-model default from silently truncating a'',
   ''                          long agent-turn transcript)'',
   ''  --headless              Skip the interactive TUI; run the plain foreground daemon loop only'',
   ''  --daemon                Documented no-op - use a process supervisor for background operation'',
   ''  --install-service       (Windows, Administrator) Register droidcli as a Windows Service'',
   ''  --uninstall-service     (Windows, Administrator) Unregister the droidcli Windows Service'',
   ''  --service               Internal - used by the Service Control Manager to run the installed'',
   ''                          service; do not pass this by hand from a console'',
   ''  --help, -h              Show this help and exit'',
   ''  --version, -v           Show the version and exit'',
   [],
   ''Runtime-registered connectors are saved to '' @ state_file_path @ '' on exit and'',
   ''restored on the next start; the durable session log is written to logs/log.txt.'']"

definition usage_lines :: "string \<Rightarrow> string list" where
  "usage_lines version = (''droidcli '' @ version @ '' - a self-contained CLI agent daemon'') # option_lines"

section \<open>The messages of the start\<close>

text \<open>A line on the standard output or on the error output.\<close>

datatype printed = Out string | Err string

definition in_double :: "string \<Rightarrow> string" where
  "in_double s = [quot] @ s @ [quot]"

definition print_usage :: "string \<Rightarrow> printed list" where
  "print_usage version = map Out (usage_lines version @ [[]])"

text \<open>A token is shown only when it was generated.\<close>

definition token_messages :: "string list \<Rightarrow> string option \<Rightarrow> nat list \<Rightarrow> string \<Rightarrow> printed list" where
  "token_messages args env_value entropy settings_token =
     (if parse_string_arg args ''--token'' [] \<noteq> [] \<or> env_value \<notin> {None, Some []} \<or> settings_token \<noteq> [] then []
      else
        [Out (''droidcli: generated API token (save this): '' @ generate_random_token entropy),
         Out (''droidcli: pass it as '' @ in_double (''Authorization: Bearer '' @ generate_random_token entropy)
           @ '' on every /api/* and /ai/chat request, or set --token/DROIDCLI_API_TOKEN ''
           @ ''next time to reuse a token across restarts.'')])"

definition object_message :: "string \<Rightarrow> printed" where
  "object_message obj =
     (case parse_connector_from_json obj of
        Inr c \<Rightarrow> Out (''droidcli: loaded connector '' @ in_double (con_id c) @ '' ('' @ con_kind c @ '')'')
      | Inl err \<Rightarrow> Err (''droidcli: skipping invalid connector entry: '' @ err))"

definition config_messages :: "string \<Rightarrow> string \<Rightarrow> printed list" where
  "config_messages path content =
     (if content = [] then [Err (''droidcli: could not read config file: '' @ path)]
      else map object_message (extract_connector_objects content))"

definition state_messages :: "string option \<Rightarrow> printed list" where
  "state_messages file =
     (case file of
        None \<Rightarrow> []
      | Some content \<Rightarrow> config_messages state_file_path content @ [Out (''droidcli: restored saved state from '' @ state_file_path)])"

definition route_lines :: "string list" where
  "route_lines = [
   ''  GET  /health                          (no auth required)'',
   ''  GET  /api/status                       [Bearer token required]'',
   ''  GET  /api/connectors   POST /api/connectors                     [Bearer token required]'',
   ''  GET  /api/connectors/{id}/status   POST .../launch  .../stop  .../call   [Bearer token required]'',
   ''  GET  /api/tasks   POST /api/tasks   GET /api/tasks/{id}   POST /api/tasks/{id}/cancel   [Bearer token required]'',
   ''  POST /api/run                          [Bearer token required]'',
   ''  POST /api/open   POST /api/apps/find   GET /api/apps/open    [Bearer token required]'',
   ''  POST /api/fs/read  /api/fs/write  /api/fs/list  /api/fs/stat  /api/fs/which  GET /api/fs/cwd   [Bearer token required]'',
   ''  POST /api/fs/copy  /api/fs/move  /api/fs/delete  /api/fs/mkdir       [Bearer token required]'',
   ''  GET/POST /api/locations                 [Bearer token required]'',
   ''  GET/POST /api/clipboard                 [Bearer token required]'',
   ''  POST /api/agent/turn                   [Bearer token required]'',
   ''  GET  /api/agent/self_status             [Bearer token required]'',
   ''  GET  /api/hardware                     [Bearer token required] (requires --enable-hardware-scan)'',
   ''  GET  /api/ollama/setup-status          [Bearer token required]'',
   ''  POST /api/ollama/install   POST /api/ollama/start   POST /api/ollama/pull   [Bearer token required]'']"

definition listening_messages :: "int \<Rightarrow> bool \<Rightarrow> string \<Rightarrow> string \<Rightarrow> printed list" where
  "listening_messages port enable_ai ollama_url ollama_model =
     Out (''droidcli listening on http://127.0.0.1:'' @ to_string port) # map Out route_lines
     @ (if enable_ai then
          [Out (''  POST /ai/chat  (Ollama: '' @ ollama_url @ '', model: '' @ ollama_model @ '')   [Bearer token required]'')]
        else [])"

text \<open>From the resolved settings on, as \<open>start_daemon\<close>.\<close>

definition daemon_prints :: "'w os \<Rightarrow> machine \<Rightarrow> string list \<Rightarrow> string \<Rightarrow> host_settings \<Rightarrow> 'w \<Rightarrow> printed list" where
  "daemon_prints os mc args settings_path s w =
     (if has_flag args ''--daemon'' then
        [Out (''droidcli: --daemon requested but background-detach is not implemented; ''
           @ ''running in the foreground. Use a process supervisor (nssm, Task Scheduler, ''
           @ ''systemd, etc.) to run this as a background service.'')]
      else [])
     @ (case initialize_host os (mc_startup mc) (configure (host_config_of settings_path s) (new_host w)) of
          (Inl e, h) \<Rightarrow> []
        | (Inr _, h) \<Rightarrow>
            (let config_path = parse_string_arg args ''--config'' []
             in state_messages (fs_read os state_file_path (h_world h))
                @ (if config_path = [] then []
                   else config_messages config_path (case fs_read os config_path (h_world h) of None \<Rightarrow> [] | Some c \<Rightarrow> c))
                @ (if mc_library_ok mc \<and> mc_sockets_ok mc
                   then listening_messages (hs_port s) (hs_enable_ai s) (hs_ollama_url s) (hs_ollama_model s)
                   else [Err (''Failed to bind HTTP server on port '' @ to_string (hs_port s))])))"

text \<open>As \<open>main_start\<close>; what the calls of the service manager print is left out.\<close>

definition main_prints :: "'w os \<Rightarrow> machine \<Rightarrow> string \<Rightarrow> string list \<Rightarrow> 'w \<Rightarrow> printed list" where
  "main_prints os mc version args w =
     (if has_flag args ''--help'' \<or> has_flag args ''-h'' then print_usage version
      else if has_flag args ''--version'' \<or> has_flag args ''-v'' then [Out (''droidcli '' @ version)]
      else
        (let settings_path = parse_string_arg args ''--settings'' ''db/droidcli_settings.json'';
             env_value = os_getenv os ''DROIDCLI_API_TOKEN'' w
         in case load_settings os settings_path default_settings w of
              Inl e \<Rightarrow> []
            | Inr (_, settings) \<Rightarrow>
                (case resolve_settings args env_value (mc_entropy mc) settings of
                   None \<Rightarrow> []
                 | Some s \<Rightarrow>
                     token_messages args env_value (mc_entropy mc) (hs_api_token settings)
                     @ (if hs_ollama_num_ctx s \<le> 0 then
                          [Err (''droidcli: --ollama-num-ctx must be a positive integer (got '' @ to_string (hs_ollama_num_ctx s) @ '')'')]
                        else if has_flag args ''--uninstall-service'' then []
                        else if has_flag args ''--install-service'' then
                          (if mc_service_ok mc then
                             [Out (''droidcli: service '' @ in_double ''droidcli'' @ '' installed. Start it with: sc start droidcli''
                                @ '' (or via the Services console) - requires an elevated (Administrator) shell.'')]
                           else [])
                        else daemon_prints os mc args settings_path s (snd (save_settings os settings_path s w))))))"

text \<open>Behind the listed routes, when the mode is chosen; at the end of each; and when a round of a loop throws.\<close>

definition mode_messages :: "string list \<Rightarrow> printed list" where
  "mode_messages args =
     (if has_flag args ''--service'' then [Out ''droidcli: starting as a Windows Service (waiting for the Service Control Manager)...'']
      else if has_flag args ''--headless'' then []
      else [Out ''droidcli: starting interactive TUI (pass --headless to skip it)''])"

definition end_messages :: "string list \<Rightarrow> bool \<Rightarrow> printed list" where
  "end_messages args service_ok =
     (if has_flag args ''--service'' then
        (if service_ok then [Out ''droidcli: service stopped.'']
         else [Err (''droidcli: --service was passed but this process was not launched by the ''
           @ ''Windows Service Control Manager. Install it first with --install-service, then ''
           @ ''start it via '' @ in_double ''sc start droidcli'' @ '' or the Services console - do not pass --service by hand.'')])
      else [Out ''droidcli stopped.''])"

definition loop_message :: "string \<Rightarrow> (cpp_exception \<Rightarrow> string) \<Rightarrow> cpp_exception \<Rightarrow> printed" where
  "loop_message loop what e = Err (''droidcli: '' @ loop @ '' loop error: '' @ what e)"

section \<open>Every flag is documented\<close>

fun word_list :: "string \<Rightarrow> string list" where
  "word_list [] = [[]]"
| "word_list (c # s) = (if c = blank then [] # word_list s else (case word_list s of w # ws \<Rightarrow> (c # w) # ws | [] \<Rightarrow> [[c]]))"

text \<open>The words of the usage text that begin with a dash.\<close>

definition flags_in :: "string list \<Rightarrow> string list" where
  "flags_in ls = map (filter (\<lambda>c. c \<noteq> comma)) (filter (\<lambda>w. starts_with w ''-'') (concat (map word_list ls)))"

definition documented_flags :: "string \<Rightarrow> string list" where
  "documented_flags version = flags_in (usage_lines version)"

lemma usage_flags:
  "list_all (\<lambda>f. f \<in> set (flags_in option_lines)) [''--port'', ''--config'', ''--settings'', ''--token'', ''--no-ai'', ''--enable-hardware-scan'',
     ''--ollama-url'', ''--ollama-model'', ''--ollama-num-ctx'', ''--headless'', ''--daemon'', ''--install-service'',
     ''--uninstall-service'', ''--service'', ''--help'', ''-h'', ''--version'', ''-v'']"
  by code_simp

lemma flags_are_documented: "a \<notin> set (documented_flags version) \<Longrightarrow> f \<in> {''--port'', ''--config'', ''--settings'', ''--token'', ''--no-ai'',
     ''--enable-hardware-scan'', ''--ollama-url'', ''--ollama-model'', ''--ollama-num-ctx'', ''--headless'', ''--daemon'', ''--install-service'',
     ''--uninstall-service'', ''--service'', ''--help'', ''-h'', ''--version'', ''-v''} \<Longrightarrow> a \<noteq> f"
proof -
  have "set (flags_in option_lines) \<subseteq> set (documented_flags version)"
    by (auto simp: documented_flags_def flags_in_def usage_lines_def)
  then show "a \<notin> set (documented_flags version) \<Longrightarrow> f \<in> {''--port'', ''--config'', ''--settings'', ''--token'', ''--no-ai'',
     ''--enable-hardware-scan'', ''--ollama-url'', ''--ollama-model'', ''--ollama-num-ctx'', ''--headless'', ''--daemon'', ''--install-service'',
     ''--uninstall-service'', ''--service'', ''--help'', ''-h'', ''--version'', ''-v''} \<Longrightarrow> a \<noteq> f"
    using usage_flags by auto
qed

lemma absent_flag: "(\<And>a. a \<in> set args \<Longrightarrow> a \<noteq> f) \<Longrightarrow> flag_value f args = None \<and> \<not> has_flag args f"
  by (induction f args rule: flag_value.induct) (auto simp: has_flag_def list_ex_iff)

text \<open>
  C35: the usage text leaves nothing out: arguments none of which it names have no effect at all; the
  program starts, prints and runs as it does without any.
\<close>

theorem unlisted_arguments_are_ignored:
  assumes "\<forall>a \<in> set args. a \<notin> set (documented_flags version)"
  shows "main_start os mc args w = main_start os mc [] w
    \<and> main_prints os mc version args w = main_prints os mc version [] w
    \<and> mode_messages args = mode_messages [] \<and> end_messages args service_ok = end_messages [] service_ok
    \<and> main_runs os post args from_scm registered early service_rounds rounds interactive server
      = main_runs os post [] from_scm registered early service_rounds rounds interactive server"
proof -
  have f: "flag_value f args = None \<and> \<not> has_flag args f" if "f \<in> {''--port'', ''--config'', ''--settings'', ''--token'', ''--no-ai'',
     ''--enable-hardware-scan'', ''--ollama-url'', ''--ollama-model'', ''--ollama-num-ctx'', ''--headless'', ''--daemon'', ''--install-service'',
     ''--uninstall-service'', ''--service'', ''--help'', ''-h'', ''--version'', ''-v''}" for f
    using assms flags_are_documented [OF _ that] by (intro absent_flag) blast
  have e: "flag_value f [] = None" "\<not> has_flag [] f" for f by (simp_all add: has_flag_def)
  have v: "flag_value ''--settings'' args = flag_value ''--settings'' []" "flag_value ''--config'' args = flag_value ''--config'' []"
    "flag_value ''--token'' args = flag_value ''--token'' []" "flag_value ''--port'' args = flag_value ''--port'' []"
    "flag_value ''--ollama-num-ctx'' args = flag_value ''--ollama-num-ctx'' []"
    "flag_value ''--ollama-url'' args = flag_value ''--ollama-url'' []" "flag_value ''--ollama-model'' args = flag_value ''--ollama-model'' []"
    using f e(1) by simp_all
  have h: "has_flag args ''--no-ai'' = has_flag [] ''--no-ai''" "has_flag args ''--enable-hardware-scan'' = has_flag [] ''--enable-hardware-scan''"
    "has_flag args ''--headless'' = has_flag [] ''--headless''" "has_flag args ''--daemon'' = has_flag [] ''--daemon''"
    "has_flag args ''--install-service'' = has_flag [] ''--install-service''" "has_flag args ''--uninstall-service'' = has_flag [] ''--uninstall-service''"
    "has_flag args ''--service'' = has_flag [] ''--service''" "has_flag args ''--help'' = has_flag [] ''--help''"
    "has_flag args ''-h'' = has_flag [] ''-h''" "has_flag args ''--version'' = has_flag [] ''--version''" "has_flag args ''-v'' = has_flag [] ''-v''"
    using f e(2) by simp_all
  note flags = parse_string_arg_def parse_port_def resolve_setting_int_def resolve_setting_string_def resolve_api_token_def v h
  have "main_start os mc args w = main_start os mc [] w"
    unfolding main_start_def start_daemon_def resolve_settings_def flags by (rule refl)
  moreover have "main_prints os mc version args w = main_prints os mc version [] w"
    unfolding main_prints_def daemon_prints_def token_messages_def resolve_settings_def flags by (rule refl)
  moreover have "mode_messages args = mode_messages []" "end_messages args service_ok = end_messages [] service_ok"
    unfolding mode_messages_def end_messages_def flags by (rule refl)+
  moreover have "main_runs os post args from_scm registered early service_rounds rounds interactive server
      = main_runs os post [] from_scm registered early service_rounds rounds interactive server"
    unfolding main_runs_def flags by (rule refl)
  ultimately show ?thesis by blast
qed

theorem unlisted_arguments_are_ignored_witness:
  "main_start idle_os idle_machine [''--prot'', ''8080''] () = main_start idle_os idle_machine [] ()"
proof -
  have "\<forall>a \<in> set [''--prot'', ''8080'']. a \<notin> set (documented_flags ''1'')" by code_simp
  then show ?thesis by (rule unlisted_arguments_are_ignored [THEN conjunct1])
qed

section \<open>The routes it lists\<close>

text \<open>
  A line lists paths behind their methods; three dots stand for the path before without its last
  part, and what follows a bracket is a remark.
\<close>

fun listed :: "http_method list \<Rightarrow> string \<Rightarrow> string list \<Rightarrow> (http_method \<times> string) list" where
  "listed methods previous [] = []"
| "listed methods previous (w # ws) =
     (if w = ''GET'' then listed [Get] previous ws
      else if w = ''POST'' then listed [Post] previous ws
      else if w = ''GET/POST'' then listed [Get, Post] previous ws
      else if starts_with w ''/'' then map (\<lambda>m. (m, w)) methods @ listed methods w ws
      else if starts_with w ''...'' then
        (let path = rev (tl (dropWhile (\<lambda>c. c \<noteq> slash) (rev previous))) @ drop 3 w
         in map (\<lambda>m. (m, path)) methods @ listed methods path ws)
      else if starts_with w ''['' \<or> starts_with w ''('' then []
      else listed methods previous ws)"

definition listed_routes :: "string list \<Rightarrow> (http_method \<times> string) list" where
  "listed_routes ls = concat (map (\<lambda>l. listed [] [] (word_list l)) ls)"

fun fill_id :: "string \<Rightarrow> string \<Rightarrow> string" where
  "fill_id i [] = []"
| "fill_id i (c # s) = (if starts_with (c # s) ''{id}'' then i @ drop 3 s else c # fill_id i s)"

lemma listed_api: "listed_routes (tl route_lines) = [
    (Get, ''/api/status''), (Get, ''/api/connectors''), (Post, ''/api/connectors''), (Get, ''/api/connectors/{id}/status''),
    (Post, ''/api/connectors/{id}/launch''), (Post, ''/api/connectors/{id}/stop''), (Post, ''/api/connectors/{id}/call''),
    (Get, ''/api/tasks''), (Post, ''/api/tasks''), (Get, ''/api/tasks/{id}''), (Post, ''/api/tasks/{id}/cancel''),
    (Post, ''/api/run''), (Post, ''/api/open''), (Post, ''/api/apps/find''), (Get, ''/api/apps/open''),
    (Post, ''/api/fs/read''), (Post, ''/api/fs/write''), (Post, ''/api/fs/list''), (Post, ''/api/fs/stat''),
    (Post, ''/api/fs/which''), (Get, ''/api/fs/cwd''), (Post, ''/api/fs/copy''), (Post, ''/api/fs/move''),
    (Post, ''/api/fs/delete''), (Post, ''/api/fs/mkdir''), (Get, ''/api/locations''), (Post, ''/api/locations''),
    (Get, ''/api/clipboard''), (Post, ''/api/clipboard''), (Post, ''/api/agent/turn''), (Get, ''/api/agent/self_status''),
    (Get, ''/api/hardware''), (Get, ''/api/ollama/setup-status''), (Post, ''/api/ollama/install''),
    (Post, ''/api/ollama/start''), (Post, ''/api/ollama/pull'')]"
  by code_simp

lemma routed:
  assumes "m \<noteq> None"
    and "m \<in> {status_routes os request, program_routes os request, file_routes os request, agent_routes os request,
      connector_routes os request, task_routes os request}"
  shows "fst (droidcli_route_dispatch os request h) \<noteq> Inr None"
proof -
  have "first_route rs \<noteq> None" if "m \<in> set rs" for rs
    using that assms(1) by (induction rs rule: first_route.induct) auto
  from this [of "[status_routes os request, program_routes os request, file_routes os request, agent_routes os request,
      connector_routes os request, task_routes os request]"] show ?thesis
    using assms(2) by (auto simp: droidcli_route_dispatch_def mounted_def split: option.split prod.split sum.split)
qed

lemma id_filled:
  assumes "i \<noteq> []" and "slash \<notin> set i"
  shows "split_id_and_rest (''/api/connectors/'' @ i @ slash # action) ''/api/connectors/'' = Some (i, slash # action)"
    "split_id_and_rest (''/api/tasks/'' @ i @ slash # action) ''/api/tasks/'' = Some (i, slash # action)"
    "split_id_and_rest (''/api/tasks/'' @ i) ''/api/tasks/'' = Some (i, [])"
proof -
  have t: "takeWhile (\<lambda>c. c \<noteq> slash) (i @ slash # action) = i" "dropWhile (\<lambda>c. c \<noteq> slash) (i @ slash # action) = slash # action"
    using assms(2) by (induction i) auto
  have u: "takeWhile (\<lambda>c. c \<noteq> slash) i = i" "dropWhile (\<lambda>c. c \<noteq> slash) i = []"
    using assms(2) by (auto simp: takeWhile_eq_all_conv dropWhile_eq_Nil_conv)
  show "split_id_and_rest (''/api/connectors/'' @ i @ slash # action) ''/api/connectors/'' = Some (i, slash # action)"
    "split_id_and_rest (''/api/tasks/'' @ i @ slash # action) ''/api/tasks/'' = Some (i, slash # action)"
    "split_id_and_rest (''/api/tasks/'' @ i) ''/api/tasks/'' = Some (i, [])"
    by (simp_all add: split_id_and_rest_def Let_def starts_with_def t u assms(1))
qed

text \<open>Whether a route handles a request depends on its method and path.\<close>

lemma same_routes:
  assumes "rq_method r = rq_method q" and "rq_path r = rq_path q"
  shows "status_routes os r = None \<longleftrightarrow> status_routes os' q = None" "program_routes os r = None \<longleftrightarrow> program_routes os' q = None"
    "file_routes os r = None \<longleftrightarrow> file_routes os' q = None" "agent_routes os r = None \<longleftrightarrow> agent_routes os' q = None"
    "connector_routes os r = None \<longleftrightarrow> connector_routes os' q = None" "task_routes os r = None \<longleftrightarrow> task_routes os' q = None"
  using assms
  by (simp_all add: status_routes_def program_routes_def file_routes_def agent_routes_def connector_routes_def task_routes_def Let_def
      split: option.split)

definition is_routed :: "http_method \<Rightarrow> string \<Rightarrow> bool" where
  "is_routed m path =
     (let r = empty_request\<lparr>rq_method := m, rq_path := path\<rparr>
      in list_ex (\<lambda>f. \<not> Option.is_none (f (idle_os :: unit os) r))
           [status_routes, program_routes, file_routes, agent_routes, connector_routes, task_routes])"

text \<open>The listed routes that have an id in their path.\<close>

definition id_routes :: "(http_method \<times> string) list" where
  "id_routes = [(Get, ''/api/connectors/{id}/status''), (Post, ''/api/connectors/{id}/launch''), (Post, ''/api/connectors/{id}/stop''),
     (Post, ''/api/connectors/{id}/call''), (Get, ''/api/tasks/{id}''), (Post, ''/api/tasks/{id}/cancel'')]"

lemma fill_plain: "lbrace \<notin> set s \<Longrightarrow> fill_id i s = s"
  by (induction s) (auto simp: starts_with_def)

text \<open>
  C9: what the program lists when it listens is true: every listed path under \<open>/api\<close>, with any id for its
  placeholder, needs the token and is handled by the routes of the daemon.
\<close>

theorem listed_routes_are_served:
  assumes "(rq_method request, path) \<in> set (listed_routes (tl route_lines))" and "i \<noteq> []" and "slash \<notin> set i"
    and "rq_path request = fill_id i path"
  shows "request_requires_auth (rq_path request) \<and> fst (droidcli_route_dispatch os request h) \<noteq> Inr None"
proof -
  let ?m = "rq_method request"
  have listed: "(?m, path) \<in> set (listed_routes (tl route_lines))" by (rule assms(1))
  have api: "starts_with (fill_id i p) ''/api/''" if "starts_with p ''/api/''" for p
    using that by (auto simp: starts_with_def elim!: prefixE)
  have "list_all (\<lambda>(m, p). starts_with p ''/api/'') (listed_routes (tl route_lines))"
    unfolding listed_api by (simp add: starts_with_def)
  then have "starts_with path ''/api/''" using listed by (auto simp: list_all_iff)
  then have "request_requires_auth (rq_path request)" using api assms(4) by (simp add: request_requires_auth_def)
  moreover have "fst (droidcli_route_dispatch os request h) \<noteq> Inr None"
  proof (cases "lbrace \<in> set path")
    case True
    have "list_all (\<lambda>r. lbrace \<notin> set (snd r) \<or> r \<in> set id_routes) (listed_routes (tl route_lines))"
      unfolding listed_api by code_simp
    then have "(?m, path) \<in> set id_routes" using listed True by (auto simp: list_all_iff)
    then have "connector_routes os request \<noteq> None \<or> task_routes os request \<noteq> None"
      using assms(4) id_filled [OF assms(2,3)] unfolding id_routes_def list.set insert_iff empty_iff prod.inject simp_thms
      by (elim disjE conjE) (simp_all add: connector_routes_def task_routes_def Let_def starts_with_def)
    then show ?thesis using routed by blast
  next
    case False
    then have "rq_path request = path" using assms(4) by (simp add: fill_plain)
    then have "(?m, rq_path request) \<in> set (listed_routes (tl route_lines))" "lbrace \<notin> set (rq_path request)"
      using listed False by simp_all
    moreover have "list_all (\<lambda>(m, p). lbrace \<in> set p \<or> is_routed m p) (listed_routes (tl route_lines))"
      unfolding listed_api by code_simp
    ultimately have "is_routed ?m (rq_path request)" by (auto simp: list_all_iff)
    then have "status_routes os request \<noteq> None \<or> program_routes os request \<noteq> None \<or> file_routes os request \<noteq> None
        \<or> agent_routes os request \<noteq> None \<or> connector_routes os request \<noteq> None \<or> task_routes os request \<noteq> None"
      using same_routes [of request "empty_request\<lparr>rq_method := ?m, rq_path := rq_path request\<rparr>" os "idle_os :: unit os"]
      by (simp add: is_routed_def Option.is_none_def Let_def)
    then show ?thesis using routed by blast
  qed
  ultimately show ?thesis by blast
qed

theorem listed_routes_are_served_witness:
  "request_requires_auth ''/api/tasks/7'' \<and> fst (droidcli_route_dispatch idle_os
      (empty_request\<lparr>rq_method := Get, rq_path := ''/api/tasks/7''\<rparr>) (new_host ())) \<noteq> Inr None"
proof -
  have "(Get, ''/api/tasks/{id}'') \<in> set (listed_routes (tl route_lines))" unfolding listed_api by simp
  then show ?thesis
    using listed_routes_are_served [of "empty_request\<lparr>rq_method := Get, rq_path := ''/api/tasks/7''\<rparr>" "''/api/tasks/{id}''" "''7''" idle_os "new_host ()"]
    by (simp add: starts_with_def)
qed

section \<open>The token\<close>

text \<open>
  A token that was given, on the command line, by the environment or by the settings file, is not
  printed: no message mentions it, and what else the start prints does not depend on it.
\<close>

theorem given_token_is_not_printed:
  assumes "parse_string_arg args ''--token'' [] \<noteq> [] \<or> env_value \<notin> {None, Some []} \<or> settings_token \<noteq> []"
  shows "token_messages args env_value entropy settings_token = []
    \<and> daemon_prints os mc args settings_path (s\<lparr>hs_api_token := t\<rparr>) w = daemon_prints os mc args settings_path s w"
proof -
  let ?s = "s\<lparr>hs_api_token := t\<rparr>"
  have c: "host_config_of settings_path ?s = host_config_of settings_path s" "hs_port ?s = hs_port s" "hs_enable_ai ?s = hs_enable_ai s"
    "hs_ollama_url ?s = hs_ollama_url s" "hs_ollama_model ?s = hs_ollama_model s"
    by (simp_all add: host_config_of_def)
  have "daemon_prints os mc args settings_path ?s w = daemon_prints os mc args settings_path s w"
    unfolding daemon_prints_def c by (rule refl)
  then show ?thesis
    using assms by (simp add: token_messages_def)
qed

theorem given_token_is_not_printed_witness:
  "token_messages [''--token'', ''t''] None [] [] = []"
  by (rule given_token_is_not_printed [THEN conjunct1]) (simp add: parse_string_arg_def)

end
