(* ===== verification/Floats.thy ===== *)
theory Floats imports Complex_Main "HOL-Library.Log_Nat" begin

text \<open>
  The type \<open>float\<close> of C++ as IEEE binary32: a result is the exact one rounded to the nearest value, ties
  to even. The sign of zero is left out. \<open>sqrt\<close>, \<open>sin\<close> and \<open>cos\<close>, whose accuracy the standard does not
  fix, are arguments of what uses them.
\<close>

section \<open>Rounding\<close>

datatype f32 = NaN | Infinite bool | Finite rat

text \<open>The exponent of the power of two at or below a positive number.\<close>

definition binade :: "rat \<Rightarrow> int" where
  "binade a = (if a \<ge> 1 then int (floorlog 2 (nat \<lfloor>a\<rfloor>)) - 1 else - int (floorlog 2 (nat (\<lceil>1 / a\<rceil> - 1))))"

definition two_to :: "int \<Rightarrow> rat" where
  "two_to e = (if e \<ge> 0 then 2 ^ nat e else 1 / 2 ^ nat (- e))"

text \<open>The distance of neighbours: 24 digits, and no exponent below that of the subnormal numbers.\<close>

definition ulp :: "rat \<Rightarrow> rat" where
  "ulp a = two_to (max (binade a - 23) (-149))"

definition nearest_even :: "rat \<Rightarrow> int" where
  "nearest_even x =
     (let f = \<lfloor>x\<rfloor>; d = x - of_int f
      in if d < 1 / 2 then f else if d > 1 / 2 then f + 1 else if even f then f else f + 1)"

definition rnd :: "rat \<Rightarrow> f32" where
  "rnd r =
     (if r = 0 then Finite 0
      else
        (let u = ulp \<bar>r\<bar>; v = of_int (nearest_even (\<bar>r\<bar> / u)) * u
         in if v \<ge> 2 ^ 128 then Infinite (r < 0) else Finite (if r < 0 then - v else v)))"

section \<open>Arithmetic\<close>

fun f_neg :: "f32 \<Rightarrow> f32" where
  "f_neg NaN = NaN"
| "f_neg (Infinite s) = Infinite (\<not> s)"
| "f_neg (Finite x) = Finite (- x)"

fun f_add :: "f32 \<Rightarrow> f32 \<Rightarrow> f32" where
  "f_add (Finite x) (Finite y) = rnd (x + y)"
| "f_add (Infinite s) (Infinite t) = (if s = t then Infinite s else NaN)"
| "f_add (Infinite s) (Finite y) = Infinite s"
| "f_add (Finite x) (Infinite t) = Infinite t"
| "f_add _ _ = NaN"

definition f_sub :: "f32 \<Rightarrow> f32 \<Rightarrow> f32" where
  "f_sub x y = f_add x (f_neg y)"

fun f_mul :: "f32 \<Rightarrow> f32 \<Rightarrow> f32" where
  "f_mul (Finite x) (Finite y) = rnd (x * y)"
| "f_mul (Infinite s) (Infinite t) = Infinite (s \<noteq> t)"
| "f_mul (Infinite s) (Finite y) = (if y = 0 then NaN else Infinite (s \<noteq> (y < 0)))"
| "f_mul (Finite x) (Infinite t) = (if x = 0 then NaN else Infinite ((x < 0) \<noteq> t))"
| "f_mul _ _ = NaN"

text \<open>A zero that is divided by counts as positive.\<close>

fun f_div :: "f32 \<Rightarrow> f32 \<Rightarrow> f32" where
  "f_div (Finite x) (Finite y) = (if y = 0 then (if x = 0 then NaN else Infinite (x < 0)) else rnd (x / y))"
| "f_div (Infinite s) (Finite y) = Infinite (s \<noteq> (y < 0))"
| "f_div (Finite x) (Infinite t) = Finite 0"
| "f_div _ _ = NaN"

text \<open>Comparisons with a NaN are false.\<close>

fun f_less :: "f32 \<Rightarrow> f32 \<Rightarrow> bool" where
  "f_less (Finite x) (Finite y) \<longleftrightarrow> x < y"
| "f_less (Infinite s) (Infinite t) \<longleftrightarrow> s \<and> \<not> t"
| "f_less (Infinite s) (Finite y) \<longleftrightarrow> s"
| "f_less (Finite x) (Infinite t) \<longleftrightarrow> \<not> t"
| "f_less _ _ \<longleftrightarrow> False"

definition f_le :: "f32 \<Rightarrow> f32 \<Rightarrow> bool" where
  "f_le x y \<longleftrightarrow> f_less x y \<or> (x = y \<and> x \<noteq> NaN)"

text \<open>\<open>std::max\<close>, \<open>std::min\<close> and \<open>std::clamp\<close>.\<close>

definition f_max :: "f32 \<Rightarrow> f32 \<Rightarrow> f32" where
  "f_max a b = (if f_less a b then b else a)"

definition f_min :: "f32 \<Rightarrow> f32 \<Rightarrow> f32" where
  "f_min a b = (if f_less b a then b else a)"

definition f_clamp :: "f32 \<Rightarrow> f32 \<Rightarrow> f32 \<Rightarrow> f32" where
  "f_clamp v lo hi = (if f_less v lo then lo else if f_less hi v then hi else v)"

abbreviation f_zero :: f32 where "f_zero \<equiv> Finite 0"
abbreviation f_one :: f32 where "f_one \<equiv> Finite 1"

definition of_i32 :: "int \<Rightarrow> f32" where
  "of_i32 n = rnd (of_int n)"

section \<open>Bounds that rounding keeps\<close>

lemma two_to_pos [simp]: "0 < two_to e"
  by (simp add: two_to_def)

lemma ulp_pos [simp]: "0 < ulp a"
  by (simp add: ulp_def)

lemma nearest_even_le: "x \<le> of_int k \<Longrightarrow> nearest_even x \<le> k"
proof -
  assume x: "x \<le> of_int k"
  then have f: "\<lfloor>x\<rfloor> \<le> k" by linarith
  show ?thesis
  proof (cases "\<lfloor>x\<rfloor> = k")
    case True
    then have "x - of_int \<lfloor>x\<rfloor> = 0" using x by linarith
    then show ?thesis by (simp add: nearest_even_def Let_def True)
  next
    case False
    then show ?thesis using f by (auto simp: nearest_even_def Let_def)
  qed
qed

lemma nearest_even_ge: "of_int k \<le> x \<Longrightarrow> k \<le> nearest_even x"
  by (auto simp: nearest_even_def Let_def le_floor_iff intro: order_trans [of k "\<lfloor>x\<rfloor>"])

lemma nearest_even_int [simp]: "nearest_even (of_int k) = k"
  by (simp add: nearest_even_def)

lemma binade_le:
  assumes "0 < a" and "a < 2 ^ n" and "0 < n"
  shows "binade a < int n"
proof (cases "a \<ge> 1")
  case True
  then have "nat \<lfloor>a\<rfloor> < 2 ^ n" "0 < nat \<lfloor>a\<rfloor>" using assms(2) by (auto simp: nat_less_iff floor_less_iff)
  then have "floorlog 2 (nat \<lfloor>a\<rfloor>) \<le> n" by (simp add: floorlog_leI)
  then show ?thesis using True by (simp add: binade_def)
qed (use assms in \<open>simp add: binade_def\<close>)

lemma binade_of:
  assumes "2 ^ n \<le> a" and "a < 2 ^ Suc n"
  shows "binade a = int n"
proof -
  have "1 \<le> a" using assms(1) by (metis dual_order.trans one_le_numeral one_le_power)
  moreover have "2 ^ n \<le> nat \<lfloor>a\<rfloor>" "nat \<lfloor>a\<rfloor> < 2 ^ Suc n"
    using assms by (auto simp: le_nat_iff nat_less_iff le_floor_iff floor_less_iff)
  then have "floorlog 2 (nat \<lfloor>a\<rfloor>) = Suc n"
    by (intro antisym floorlog_leI floorlog_ge_SucI) simp_all
  ultimately show ?thesis by (simp add: binade_def)
qed

lemma ulp_of_small:
  assumes "0 < a" and "a < 2 ^ 24"
  shows "\<exists>k. ulp a = 1 / 2 ^ k"
proof -
  have "max (binade a - 23) (-149) \<le> 0" using binade_le [of a 24] assms by simp
  then have "ulp a = 1 / 2 ^ nat (- max (binade a - 23) (-149))" by (simp add: ulp_def two_to_def)
  then show ?thesis by blast
qed

lemma ulp_24: "ulp (2 ^ 24) = 2"
  using binade_of [of 24 "2 ^ 24"] by (simp add: ulp_def two_to_def)

text \<open>Rounding does not leave an interval of whole numbers up to \<open>2^24\<close>.\<close>

lemma rnd_between:
  assumes "of_int m \<le> r" and "r \<le> of_int n" and "0 \<le> m" and "n \<le> 2 ^ 24"
  shows "\<exists>v. rnd r = Finite v \<and> of_int m \<le> v \<and> v \<le> of_int n"
proof (cases "r = 0")
  case True
  then show ?thesis using assms by (simp add: rnd_def)
next
  case False
  with assms have r: "0 < r" by (metis dual_order.trans of_int_0_le_iff order_less_le)
  let ?v = "of_int (nearest_even (r / ulp r)) * ulp r"
  have "\<exists>i j :: int. of_int m = of_int i * ulp r \<and> of_int n = of_int j * ulp r \<or> r = 2 ^ 24"
  proof (cases "r < 2 ^ 24")
    case True
    then obtain k where "ulp r = 1 / 2 ^ k" using ulp_of_small [OF r] by blast
    then have "of_int m = of_int (m * 2 ^ k) * ulp r \<and> of_int n = of_int (n * 2 ^ k) * ulp r" by simp
    then show ?thesis by blast
  next
    case False
    moreover have "r \<le> 2 ^ 24" using assms(2,4) by (metis dual_order.trans of_int_le_iff of_int_numeral of_int_power)
    ultimately show ?thesis by auto
  qed
  then consider i j where "of_int m = of_int i * ulp r" "of_int n = of_int j * ulp r" | "r = 2 ^ 24" by blast
  then have v: "of_int m \<le> ?v \<and> ?v \<le> of_int n"
  proof cases
    case 1
    then have "of_int i \<le> r / ulp r" "r / ulp r \<le> of_int j"
      using assms(1,2) by (simp_all add: pos_le_divide_eq pos_divide_le_eq)
    then have "i \<le> nearest_even (r / ulp r)" "nearest_even (r / ulp r) \<le> j"
      by (simp_all add: nearest_even_ge nearest_even_le)
    then show ?thesis by (simp add: 1 mult_right_mono)
  next
    case 2
    have u: "ulp r = 2" by (simp only: 2 ulp_24)
    then have "r / ulp r = of_int (2 ^ 23)" by (simp add: 2)
    then have "?v = r" using nearest_even_int [of "2 ^ 23"] u by (simp only: 2)
    then show ?thesis using assms(1,2) by simp
  qed
  moreover have "?v < 2 ^ 128"
  proof -
    have "?v \<le> of_int (2 ^ 24)" using v assms(4) by (metis of_int_le_iff order_trans)
    also have "\<dots> < (2 :: rat) ^ 128" by simp
    finally show ?thesis .
  qed
  ultimately show ?thesis using r by (auto simp: rnd_def Let_def)
qed

lemma rnd_int: "0 \<le> n \<Longrightarrow> n \<le> 2 ^ 24 \<Longrightarrow> rnd (of_int n) = Finite (of_int n)"
  using rnd_between [of n "of_int n" n] by auto

lemma rnd_neg: "rnd (- r) = f_neg (rnd r)"
  by (auto simp: rnd_def Let_def)

end
