(* ===== verification/Vectors.thy ===== *)
theory Vectors imports Complex_Main Floats begin

text \<open>
  \<open>core/types.cpp\<close> and \<open>core/math.cpp\<close>: vectors, rotations and curves over \<open>float\<close>, each operation rounded
  as it is written (no contraction). Nothing in the daemon calls them. A read outside the samples of
  a curve, and a conversion to \<open>int\<close> that does not fit, have no value.
\<close>

section \<open>Vectors\<close>

record vec3 =
  vx :: f32
  vy :: f32
  vz :: f32

record libm =
  m_sqrt :: "f32 \<Rightarrow> f32"
  m_sin :: "f32 \<Rightarrow> f32"
  m_cos :: "f32 \<Rightarrow> f32"

abbreviation lit :: "rat \<Rightarrow> f32" where "lit \<equiv> rnd"

definition vec_zero :: vec3 where
  "vec_zero = \<lparr>vx = f_zero, vy = f_zero, vz = f_zero\<rparr>"

definition vec_add :: "vec3 \<Rightarrow> vec3 \<Rightarrow> vec3" where
  "vec_add a b = \<lparr>vx = f_add (vx a) (vx b), vy = f_add (vy a) (vy b), vz = f_add (vz a) (vz b)\<rparr>"

definition vec_sub :: "vec3 \<Rightarrow> vec3 \<Rightarrow> vec3" where
  "vec_sub a b = \<lparr>vx = f_sub (vx a) (vx b), vy = f_sub (vy a) (vy b), vz = f_sub (vz a) (vz b)\<rparr>"

definition vec_scale :: "vec3 \<Rightarrow> f32 \<Rightarrow> vec3" where
  "vec_scale a s = \<lparr>vx = f_mul (vx a) s, vy = f_mul (vy a) s, vz = f_mul (vz a) s\<rparr>"

definition sum_of_products :: "f32 \<Rightarrow> f32 \<Rightarrow> f32 \<Rightarrow> f32 \<Rightarrow> f32 \<Rightarrow> f32 \<Rightarrow> f32" where
  "sum_of_products a x b y c z = f_add (f_add (f_mul a x) (f_mul b y)) (f_mul c z)"

definition vec_dot :: "vec3 \<Rightarrow> vec3 \<Rightarrow> f32" where
  "vec_dot a b = sum_of_products (vx a) (vx b) (vy a) (vy b) (vz a) (vz b)"

definition length_squared :: "vec3 \<Rightarrow> f32" where
  "length_squared a = vec_dot a a"

definition vec_length :: "libm \<Rightarrow> vec3 \<Rightarrow> f32" where
  "vec_length m a = m_sqrt m (length_squared a)"

definition normalized_or :: "libm \<Rightarrow> vec3 \<Rightarrow> vec3 \<Rightarrow> vec3" where
  "normalized_or m fallback a =
     (let len = vec_length m a
      in if f_le len (lit (1 / 10000)) then fallback
         else \<lparr>vx = f_div (vx a) len, vy = f_div (vy a) len, vz = f_div (vz a) len\<rparr>)"

definition normalized :: "libm \<Rightarrow> vec3 \<Rightarrow> vec3" where
  "normalized m = normalized_or m \<lparr>vx = f_zero, vy = f_zero, vz = f_one\<rparr>"

definition nearly_zero :: "f32 \<Rightarrow> vec3 \<Rightarrow> bool" where
  "nearly_zero tolerance a \<longleftrightarrow> f_le (length_squared a) (f_mul tolerance tolerance)"

section \<open>Rotations\<close>

record rotator =
  pitch_deg :: f32
  yaw_deg :: f32
  roll_deg :: f32

definition k_pi :: f32 where
  "k_pi = lit (314159265358979323846 / 10 ^ 20)"

definition to_radians :: "f32 \<Rightarrow> f32" where
  "to_radians deg = f_mul deg (f_div k_pi (lit 180))"

definition rotate_vector :: "libm \<Rightarrow> rotator \<Rightarrow> vec3 \<Rightarrow> vec3" where
  "rotate_vector m r local =
     (let pitch = to_radians (pitch_deg r); yaw = to_radians (yaw_deg r); roll = to_radians (roll_deg r);
          sp = m_sin m pitch; cp = m_cos m pitch; sy = m_sin m yaw; cy = m_cos m yaw; sr = m_sin m roll; cr = m_cos m roll;
          m00 = f_mul cy cp;
          m01 = f_sub (f_mul (f_mul cy sp) sr) (f_mul sy cr);
          m02 = f_add (f_mul (f_mul cy sp) cr) (f_mul sy sr);
          m10 = f_mul sy cp;
          m11 = f_add (f_mul (f_mul sy sp) sr) (f_mul cy cr);
          m12 = f_sub (f_mul (f_mul sy sp) cr) (f_mul cy sr);
          m20 = f_neg sp;
          m21 = f_mul cp sr;
          m22 = f_mul cp cr
      in \<lparr>vx = sum_of_products (vx local) m00 (vy local) m01 (vz local) m02,
          vy = sum_of_products (vx local) m10 (vy local) m11 (vz local) m12,
          vz = sum_of_products (vx local) m20 (vy local) m21 (vz local) m22\<rparr>)"

definition rotate_around_axis :: "libm \<Rightarrow> vec3 \<Rightarrow> vec3 \<Rightarrow> f32 \<Rightarrow> vec3" where
  "rotate_around_axis m vector axis angle_rad =
     (let normalized_axis = normalized m axis;
          cos_angle = m_cos m angle_rad; sin_angle = m_sin m angle_rad; one_minus_cos = f_sub f_one cos_angle;
          x = vx normalized_axis; y = vy normalized_axis; z = vz normalized_axis;
          diagonal = (\<lambda>a. f_add cos_angle (f_mul (f_mul a a) one_minus_cos));
          plus = (\<lambda>a b c. f_add (f_mul (f_mul a b) one_minus_cos) (f_mul c sin_angle));
          minus = (\<lambda>a b c. f_sub (f_mul (f_mul a b) one_minus_cos) (f_mul c sin_angle))
      in \<lparr>vx = sum_of_products (diagonal x) (vx vector) (minus x y z) (vy vector) (plus x z y) (vz vector),
          vy = sum_of_products (plus y x z) (vx vector) (diagonal y) (vy vector) (minus y z x) (vz vector),
          vz = sum_of_products (minus z x y) (vx vector) (plus z y x) (vy vector) (diagonal z) (vz vector)\<rparr>)"

section \<open>Curves\<close>

text \<open>The template of \<open>math.hpp\<close>, not \<open>std::clamp\<close>.\<close>

definition math_clamp :: "f32 \<Rightarrow> f32 \<Rightarrow> f32 \<Rightarrow> f32" where
  "math_clamp v min_value max_value = f_max min_value (f_min max_value v)"

definition lerp :: "f32 \<Rightarrow> f32 \<Rightarrow> f32 \<Rightarrow> f32" where
  "lerp a b alpha = f_add a (f_mul (f_sub b a) alpha)"

definition vec_lerp :: "vec3 \<Rightarrow> vec3 \<Rightarrow> f32 \<Rightarrow> vec3" where
  "vec_lerp a b alpha = \<lparr>vx = lerp (vx a) (vx b) alpha, vy = lerp (vy a) (vy b) alpha, vz = lerp (vz a) (vz b) alpha\<rparr>"

definition smooth_step01 :: "f32 \<Rightarrow> f32" where
  "smooth_step01 alpha =
     (let clamped = math_clamp alpha f_zero f_one
      in f_mul (f_mul clamped clamped) (f_sub (lit 3) (f_mul (lit 2) clamped)))"

text \<open>\<open>static_cast<int>(std::floor(x))\<close>.\<close>

fun floor_to_i32 :: "f32 \<Rightarrow> int option" where
  "floor_to_i32 (Finite v) = (if - (2 ^ 31) \<le> \<lfloor>v\<rfloor> \<and> \<lfloor>v\<rfloor> < 2 ^ 31 then Some \<lfloor>v\<rfloor> else None)"
| "floor_to_i32 _ = None"

definition sample_at :: "f32 list \<Rightarrow> int \<Rightarrow> f32 option" where
  "sample_at samples i = (if 0 \<le> i \<and> i < int (length samples) then Some (samples ! nat i) else None)"

text \<open>\<open>None\<close> for the samples is the null pointer.\<close>

definition evaluate_curve01 :: "f32 \<Rightarrow> f32 list option \<Rightarrow> int \<Rightarrow> f32 option" where
  "evaluate_curve01 normalized_time samples sample_count =
     (case samples of
        None \<Rightarrow> Some (math_clamp normalized_time f_zero f_one)
      | Some xs \<Rightarrow>
          if sample_count \<le> 0 then Some (math_clamp normalized_time f_zero f_one)
          else if sample_count = 1 then map_option (\<lambda>s. math_clamp s f_zero f_one) (sample_at xs 0)
          else
            (let clamped_time = math_clamp normalized_time f_zero f_one;
                 scaled = f_mul clamped_time (of_i32 (sample_count - 1))
             in case floor_to_i32 scaled of
                  None \<Rightarrow> None
                | Some lower_index \<Rightarrow>
                    (let upper_index = min (lower_index + 1) (sample_count - 1);
                         fraction = f_sub scaled (of_i32 lower_index)
                     in case (sample_at xs lower_index, sample_at xs upper_index) of
                          (Some a, Some b) \<Rightarrow> Some (math_clamp (lerp a b fraction) f_zero f_one)
                        | _ \<Rightarrow> None)))"

section \<open>What the curve keeps\<close>

text \<open>Whatever is clamped, a NaN included, lands in the interval.\<close>

lemma clamped: "\<exists>v. math_clamp x f_zero f_one = Finite v \<and> 0 \<le> v \<and> v \<le> 1"
  by (cases x) (auto simp: math_clamp_def f_max_def f_min_def)

text \<open>A curve never leaves the unit interval, whatever its samples and the time are.\<close>

theorem curve_stays_in_unit_interval:
  assumes "evaluate_curve01 t samples n = Some y"
  shows "\<exists>v. y = Finite v \<and> 0 \<le> v \<and> v \<le> 1"
  using assms clamped by (auto simp: evaluate_curve01_def Let_def split: option.splits if_splits)

lemma scaled_between:
  assumes "0 \<le> v" and "v \<le> 1" and "1 \<le> n" and "n \<le> 2 ^ 24"
  shows "\<exists>w. f_mul (Finite v) (of_i32 n) = Finite w \<and> 0 \<le> w \<and> w \<le> of_int n"
proof -
  have "of_i32 n = Finite (of_int n)" using assms(3,4) by (simp add: of_i32_def rnd_int)
  moreover have "v * of_int n \<le> of_int n" using assms by (simp add: mult_left_le_one_le)
  ultimately show ?thesis using rnd_between [of 0 "v * of_int n" n] assms by simp
qed

text \<open>
  C33: with at most \<open>2^24\<close> samples a curve reads inside its samples at every time, a NaN or an infinite one
  included.
\<close>

theorem curve_reads_inside:
  assumes "0 < length xs" and "length xs \<le> 2 ^ 24"
  shows "evaluate_curve01 t (Some xs) (int (length xs)) \<noteq> None"
proof (cases "length xs = 1")
  case True
  then show ?thesis by (simp add: evaluate_curve01_def sample_at_def)
next
  case False
  let ?n = "int (length xs) - 1"
  have "2 \<le> length xs" using False assms(1) by arith
  moreover have "int (length xs) \<le> 2 ^ 24" using assms(2) by (metis of_nat_le_iff of_nat_numeral of_nat_power)
  ultimately have n: "1 \<le> ?n" "?n \<le> 2 ^ 24" by linarith+
  obtain v where v: "math_clamp t f_zero f_one = Finite v" "0 \<le> v" "v \<le> 1" using clamped by blast
  obtain w where w: "f_mul (Finite v) (of_i32 ?n) = Finite w" "0 \<le> w" "w \<le> of_int ?n"
    using scaled_between [OF v(2,3) n] by blast
  then have f: "0 \<le> \<lfloor>w\<rfloor>" "\<lfloor>w\<rfloor> \<le> ?n" by (simp_all add: floor_le_iff) linarith
  moreover have "(0 :: int) < 2 ^ 31" "(2 :: int) ^ 24 < 2 ^ 31" by simp_all
  ultimately have "- (2 ^ 31) \<le> \<lfloor>w\<rfloor> \<and> \<lfloor>w\<rfloor> < 2 ^ 31" using n by linarith
  then have "floor_to_i32 (Finite w) = Some \<lfloor>w\<rfloor>" by (simp only: floor_to_i32.simps simp_thms if_True)
  then show ?thesis
    using False assms f n v(1) w(1) by (simp add: evaluate_curve01_def Let_def sample_at_def split: option.split)
qed

theorem curve_stays_in_unit_interval_witness:
  "evaluate_curve01 NaN None 0 = Some f_one \<and> (\<exists>v. f_one = Finite v \<and> 0 \<le> v \<and> v \<le> 1)"
proof -
  have e: "evaluate_curve01 NaN None 0 = Some f_one"
    by (simp add: evaluate_curve01_def math_clamp_def f_min_def f_max_def)
  from curve_stays_in_unit_interval [OF e] e show ?thesis by blast
qed

theorem curve_reads_inside_witness:
  "evaluate_curve01 NaN (Some [f_zero, f_one, NaN]) 3 \<noteq> None"
  using curve_reads_inside [of "[f_zero, f_one, NaN]" NaN] by simp

text \<open>
  Beyond \<open>2^24\<close> the count is no longer a float: with 16777220 samples the last time is rounded up past
  the last sample, and the curve reads behind its end.
\<close>

lemma count_rounds_up: "of_i32 16777219 = Finite 16777220" "rnd 16777220 = Finite 16777220"
proof -
  have "ulp 16777219 = 2" "ulp 16777220 = 2"
    using binade_of [of 24 16777219] binade_of [of 24 16777220] by (simp_all add: ulp_def two_to_def)
  moreover have "\<lfloor>16777219 / 2 :: rat\<rfloor> = 8388609" by (simp add: floor_eq_iff)
  ultimately show "of_i32 16777219 = Finite 16777220" "rnd 16777220 = Finite 16777220"
    by (simp_all add: of_i32_def rnd_def nearest_even_def Let_def)
qed

theorem long_curve_reads_behind_its_end:
  assumes "length xs = 16777220"
  shows "evaluate_curve01 f_one (Some xs) (int (length xs)) = None"
proof -
  have "math_clamp f_one f_zero f_one = f_one" by (simp add: math_clamp_def f_min_def f_max_def)
  moreover have "f_mul f_one (of_i32 16777219) = Finite 16777220" by (simp add: count_rounds_up)
  ultimately show ?thesis
    using assms by (simp add: evaluate_curve01_def Let_def sample_at_def)
qed

theorem long_curve_reads_behind_its_end_witness:
  "evaluate_curve01 f_one (Some (replicate 16777220 f_zero)) 16777220 = None"
proof -
  have "length (replicate 16777220 f_zero) = 16777220" by (rule length_replicate)
  from long_curve_reads_behind_its_end [OF this] show ?thesis by (simp only: length_replicate of_nat_numeral)
qed

section \<open>Long vectors\<close>

text \<open>
  A finite vector whose squared length is too large for a float, from about \<open>2^64\<close> on, has no direction:
  it is divided by an infinite length, and what is called normalized is the zero vector.
\<close>

theorem long_vector_vanishes:
  assumes "length_squared \<lparr>vx = Finite x, vy = Finite y, vz = Finite z\<rparr> = Infinite False" and "m_sqrt m (Infinite False) = Infinite False"
  shows "normalized m \<lparr>vx = Finite x, vy = Finite y, vz = Finite z\<rparr> = vec_zero"
proof -
  obtain w where "rnd (1 / 10000) = Finite w" using rnd_between [of 0 "1 / 10000" 1] by auto
  then have "\<not> f_le (Infinite False) (rnd (1 / 10000))" by (simp add: f_le_def)
  then show ?thesis
    using assms by (simp add: normalized_def normalized_or_def vec_length_def vec_zero_def Let_def)
qed

lemma square_overflows: "rnd (2 ^ 128) = Infinite False"
proof -
  have "ulp (2 ^ 128) = 2 ^ 105" using binade_of [of 128 "2 ^ 128"] by (simp add: ulp_def two_to_def)
  then show ?thesis by (simp add: rnd_def nearest_even_def Let_def)
qed

theorem long_vector_vanishes_witness:
  "normalized \<lparr>m_sqrt = \<lambda>x. x, m_sin = \<lambda>x. x, m_cos = \<lambda>x. x\<rparr> \<lparr>vx = Finite (2 ^ 64), vy = Finite 0, vz = Finite 0\<rparr> = vec_zero"
proof (rule long_vector_vanishes)
  have "rnd (2 ^ 64 * 2 ^ 64) = Infinite False" using square_overflows by (simp flip: power_add)
  then show "length_squared \<lparr>vx = Finite (2 ^ 64), vy = Finite 0, vz = Finite 0\<rparr> = Infinite False"
    by (simp add: length_squared_def vec_dot_def sum_of_products_def rnd_def [of 0] del: power_numeral)
qed simp

end
