(* ===== verification/Terminal_Layout.thy ===== *)
theory Terminal_Layout imports Complex_Main Floats Terminal_Views begin

text \<open>
  The frame of the terminal interface (\<open>cli/tui.cpp\<close>). First scrolling: the chat panel and the log panel
  each keep a position between 0 (top) and 1 (bottom), moved by the wheel and by dragging the scroll
  bar, and pinned to the bottom while new lines arrive; whether a box contains the pointer, and
  whether the mouse can be captured, FTXUI says. Then the tree of FTXUI elements that \<open>full_ui\<close>, its
  columns and the popup build from the panels of \<open>Terminal_Views\<close>. FTXUI places and draws the tree.
\<close>

section \<open>The position\<close>

record scroll =
  sc_y :: f32
  sc_seen :: nat
  sc_captured :: bool

definition scroll_start :: scroll where
  "scroll_start = \<lparr>sc_y = f_one, sc_seen = 0, sc_captured = False\<rparr>"

text \<open>What every frame does with the number of lines there are.\<close>

definition pin_bottom :: "nat \<Rightarrow> scroll \<Rightarrow> scroll" where
  "pin_bottom n s =
     (if n \<noteq> sc_seen s
      then s\<lparr>sc_y := (if f_le (rnd (999 / 1000)) (sc_y s) then f_one else sc_y s), sc_seen := n\<rparr>
      else s)"

datatype mouse_button = Left_Button | Wheel_Up | Wheel_Down | Other_Button
datatype mouse_motion = Mouse_Pressed | Mouse_Released | Mouse_Moved

text \<open>An event of the mouse, the panel's rectangle when it comes, and what FTXUI answers.\<close>

record mouse_event =
  mo_button :: mouse_button
  mo_motion :: mouse_motion
  mo_x :: int
  mo_y :: int
  mo_x_max :: int
  mo_y_min :: int
  mo_y_max :: int
  mo_contained :: bool
  mo_capturable :: bool

definition drag_to :: "mouse_event \<Rightarrow> scroll \<Rightarrow> scroll" where
  "drag_to e s =
     (let height = mo_y_max e - mo_y_min e
      in if height > 0 then s\<lparr>sc_y := f_clamp (f_div (of_i32 (mo_y e - mo_y_min e)) (of_i32 height)) f_zero f_one\<rparr> else s)"

definition wheel_step :: f32 where
  "wheel_step = rnd (5 / 100)"

text \<open>The common part of both panels; \<open>None\<close> when the event is left to what is behind.\<close>

definition on_scroll :: "mouse_event \<Rightarrow> scroll \<Rightarrow> (bool \<times> scroll) option" where
  "on_scroll e s =
     (if mo_button e = Wheel_Up then Some (True, s\<lparr>sc_y := f_max f_zero (f_sub (sc_y s) wheel_step)\<rparr>)
      else if mo_button e = Wheel_Down then Some (True, s\<lparr>sc_y := f_min f_one (f_add (sc_y s) wheel_step)\<rparr>)
      else if sc_captured s then
        Some (True, if mo_motion e = Mouse_Released then s\<lparr>sc_captured := False\<rparr> else drag_to e s)
      else if \<not> (mo_button e = Left_Button \<and> mo_motion e = Mouse_Pressed) then Some (False, s)
      else if mo_x e = mo_x_max e \<and> mo_contained e \<and> mo_capturable e then Some (True, drag_to e (s\<lparr>sc_captured := True\<rparr>))
      else None)"

definition on_log_mouse :: "mouse_event \<Rightarrow> scroll \<Rightarrow> bool \<times> scroll" where
  "on_log_mouse e s = (case on_scroll e s of Some r \<Rightarrow> r | None \<Rightarrow> (False, s))"

text \<open>Behind the scroll bar of the chat a click opens or folds an entry.\<close>

definition on_chat_mouse :: "(nat \<Rightarrow> bool) \<Rightarrow> mouse_event \<Rightarrow> scroll \<times> terminal \<Rightarrow> bool \<times> scroll \<times> terminal" where
  "on_chat_mouse hit e st =
     (case on_scroll e (fst st) of
        Some (handled, s) \<Rightarrow> (handled, s, snd st)
      | None \<Rightarrow> (hit_index hit (length (t_chat_entries (snd st))) \<noteq> None, fst st, click_chat hit (snd st)))"

section \<open>The position stays in its range\<close>

datatype scroll_step = Frame_With nat | Mouse mouse_event

definition scrolls :: "scroll_step \<Rightarrow> scroll \<Rightarrow> scroll" where
  "scrolls step s = (case step of Frame_With n \<Rightarrow> pin_bottom n s | Mouse e \<Rightarrow> snd (on_log_mouse e s))"

definition in_unit :: "f32 \<Rightarrow> bool" where
  "in_unit x \<longleftrightarrow> (\<exists>v. x = Finite v \<and> 0 \<le> v \<and> v \<le> 1)"

text \<open>A screen of at most \<open>2^24\<close> rows.\<close>

definition on_screen_rows :: "scroll_step \<Rightarrow> bool" where
  "on_screen_rows step =
     (case step of
        Frame_With n \<Rightarrow> True
      | Mouse e \<Rightarrow> 0 \<le> mo_y e \<and> mo_y e \<le> 2 ^ 24 \<and> 0 \<le> mo_y_min e \<and> mo_y_max e \<le> 2 ^ 24)"

lemma rnd_not_NaN [simp]: "rnd r \<noteq> NaN"
  by (simp add: rnd_def Let_def)

lemma clamp_in_unit: "x \<noteq> NaN \<Longrightarrow> in_unit (f_clamp x f_zero f_one)"
  by (cases x) (auto simp: in_unit_def f_clamp_def)

lemma small_int:
  assumes "\<bar>n\<bar> \<le> 2 ^ 24"
  shows "of_i32 n = Finite (of_int n)"
proof (cases "0 \<le> n")
  case True
  then show ?thesis using assms by (simp add: of_i32_def rnd_int)
next
  case False
  then have "rnd (of_int (- n)) = Finite (of_int (- n))" using assms by (intro rnd_int) simp_all
  then show ?thesis using rnd_neg [of "of_int (- n)"] by (simp add: of_i32_def)
qed

lemma drag_in_unit:
  assumes "on_screen_rows (Mouse e)" and "in_unit (sc_y s)"
  shows "in_unit (sc_y (drag_to e s))"
proof (cases "mo_y_max e - mo_y_min e > 0")
  case True
  have "\<bar>mo_y e - mo_y_min e\<bar> \<le> 2 ^ 24" "\<bar>mo_y_max e - mo_y_min e\<bar> \<le> 2 ^ 24"
    using True assms(1) by (auto simp: on_screen_rows_def)
  then have "f_div (of_i32 (mo_y e - mo_y_min e)) (of_i32 (mo_y_max e - mo_y_min e)) \<noteq> NaN"
    using True by (simp add: small_int del: of_int_diff)
  then show ?thesis using True by (simp add: drag_to_def clamp_in_unit)
qed (simp add: drag_to_def assms(2))

lemma wheel_step_range: "\<exists>v. wheel_step = Finite v \<and> 0 \<le> v \<and> v \<le> 1"
  using rnd_between [of 0 "5 / 100" 1] by (simp add: wheel_step_def)

lemma wheel_in_unit:
  assumes "in_unit y"
  shows "in_unit (f_max f_zero (f_sub y wheel_step))" "in_unit (f_min f_one (f_add y wheel_step))"
proof -
  obtain v where v: "y = Finite v" "0 \<le> v" "v \<le> 1" using assms by (auto simp: in_unit_def)
  obtain d where d: "wheel_step = Finite d" "0 \<le> d" "d \<le> 1" using wheel_step_range by blast
  obtain p where p: "rnd (v + d) = Finite p" "0 \<le> p" using rnd_between [of 0 "v + d" 2] v d by auto
  show "in_unit (f_min f_one (f_add y wheel_step))" using p by (auto simp: v d f_min_def in_unit_def)
  show "in_unit (f_max f_zero (f_sub y wheel_step))"
  proof (cases "v \<ge> d")
    case True
    then obtain q where "rnd (v - d) = Finite q" "0 \<le> q" "q \<le> 1" using rnd_between [of 0 "v - d" 1] v d by auto
    then show ?thesis by (auto simp: v d f_sub_def f_max_def in_unit_def)
  next
    case False
    then obtain q where "rnd (d - v) = Finite q" "0 \<le> q" using rnd_between [of 0 "d - v" 1] v d by auto
    then have "rnd (v - d) = Finite (- q)" using rnd_neg [of "d - v"] by simp
    then show ?thesis using \<open>0 \<le> q\<close> by (auto simp: v d f_sub_def f_max_def in_unit_def)
  qed
qed

text \<open>
  Whatever the wheel, the drags and the frames do, in any order, the position of a panel stays a
  number between 0 and 1, rounding included.
\<close>

theorem scroll_stays_in_range:
  assumes "\<forall>step \<in> set steps. on_screen_rows step"
  shows "in_unit (sc_y (fold scrolls steps scroll_start))"
proof -
  have "in_unit (sc_y s) \<Longrightarrow> in_unit (sc_y (fold scrolls steps s))" for s
    using assms
  proof (induction steps arbitrary: s)
    case (Cons step steps)
    have "in_unit (sc_y (scrolls step s))"
    proof (cases step)
      case (Frame_With n)
      then show ?thesis using Cons.prems by (auto simp: scrolls_def pin_bottom_def in_unit_def)
    next
      case (Mouse e)
      then show ?thesis
        using Cons.prems drag_in_unit [of e s] drag_in_unit [of e "s\<lparr>sc_captured := True\<rparr>"] wheel_in_unit [of "sc_y s"]
        by (auto simp: scrolls_def on_log_mouse_def on_scroll_def)
    qed
    then show ?case using Cons by simp
  qed simp
  then show ?thesis by (simp add: scroll_start_def in_unit_def)
qed

definition dragged_below :: mouse_event where
  "dragged_below = \<lparr>mo_button = Left_Button, mo_motion = Mouse_Pressed, mo_x = 9, mo_y = 99, mo_x_max = 9, mo_y_min = 1,
     mo_y_max = 8, mo_contained = True, mo_capturable = True\<rparr>"

theorem scroll_stays_in_range_witness:
  "in_unit (sc_y (fold scrolls [Frame_With 3, Mouse dragged_below, Mouse (dragged_below\<lparr>mo_button := Wheel_Down\<rparr>)] scroll_start))"
  by (rule scroll_stays_in_range) (simp add: on_screen_rows_def dragged_below_def)

section \<open>The tree\<close>

datatype paint = Named colour | Rgb int int int

datatype decoration =
    Emboldened | Flexed | X_Flexed | Framed | Y_Framed | Scroll_Bar
  | Scrolled_To f32 | On_Background paint | In_Colour paint | At_Least int

datatype layout =
    Rows "styled list"
  | Column "layout list"
  | Beside "layout list"
  | Window layout layout
  | Dropdown "string list" int
  | Menu "string list" int
  | Input_Line string string
  | Button string
  | Rule
  | Filler
  | Split_Left layout layout int
  | Split_Right layout layout int
  | Over layout layout
  | Decorated layout "decoration list"

abbreviation line :: "string \<Rightarrow> layout" where
  "line s \<equiv> Rows [(Text s, [])]"

abbreviation wrapped :: "string \<Rightarrow> layout" where
  "wrapped s \<equiv> Rows [(Paragraph s, [])]"

section \<open>Panels\<close>

definition kAppBackground :: paint where
  "kAppBackground = Rgb 235 235 235"

definition kAppForeground :: paint where
  "kAppForeground = Rgb 20 20 20"

definition bar :: "layout \<Rightarrow> decoration list \<Rightarrow> layout" where
  "bar l ds = Decorated l (ds @ [On_Background (Named LightSkyBlue1), In_Colour (Named Black)])"

definition panel_title :: "string \<Rightarrow> layout" where
  "panel_title label = bar (line label) []"

definition panel :: "string \<Rightarrow> layout \<Rightarrow> layout" where
  "panel title content = Decorated (Window (panel_title title) content) [On_Background kAppBackground, In_Colour kAppForeground]"

text \<open>What the frame shows that is not in \<open>terminal\<close>: the scroll positions, the open locations and the splits.\<close>

record display =
  d_chat :: scroll
  d_log :: scroll
  d_expanded :: "string set"
  d_left_pane_width :: int
  d_right_pane_width :: int

definition scrolled :: "styled list \<Rightarrow> scroll \<Rightarrow> layout" where
  "scrolled rows s = Decorated (Rows rows) [Scroll_Bar, Scrolled_To (sc_y s), Y_Framed, Flexed]"

definition left_column :: "int \<Rightarrow> display \<Rightarrow> terminal \<Rightarrow> layout" where
  "left_column now_ms d t = Column (map (\<lambda>p. Decorated p [Flexed])
     [panel '' Connectors  (l=launch, s=stop) '' (Menu (t_connector_entries t) (t_selected_connector t)),
      panel '' Tasks '' (Decorated (Rows (tasks_view now_ms (t_tasks t))) [Framed, Flexed]),
      panel '' Agent Tools '' (Decorated (Rows (tools_view (t_log_lines t))) [Y_Framed, Flexed]),
      panel '' Apps '' (Decorated (Rows (apps_view (t_log_lines t))) [Y_Framed, Flexed]),
      panel '' Locations '' (Decorated (Rows (fst (locations_view (d_expanded d) (t_locations t)))) [Y_Framed, Flexed])])"

definition chat_column :: "int \<Rightarrow> display \<Rightarrow> terminal \<Rightarrow> layout" where
  "chat_column steady_ms d t = panel '' Agent Chat  (Tab/Esc to leave, Enter to send) ''
     (Column [Decorated (scrolled (chat_log_view steady_ms t) (d_chat d)) [Flexed], Rule,
        Input_Line (t_chat_input_text t) ''type a message, Enter to send...''])"

definition right_column :: "display \<Rightarrow> terminal \<Rightarrow> layout" where
  "right_column d t = panel '' App Log '' (scrolled (log_view (t_log_lines t)) (d_log d))"

section \<open>The frame\<close>

definition picker :: "string shown \<Rightarrow> layout" where
  "picker s = (case s of Menu_Of entries selected \<Rightarrow> Dropdown entries selected | Plain text \<Rightarrow> line text)"

definition provider_menu_entries :: "string list" where
  "provider_menu_entries = [''ollama'']"

definition split :: "int \<Rightarrow> int \<Rightarrow> display \<Rightarrow> terminal \<Rightarrow> layout" where
  "split now_ms steady_ms d t =
     Split_Left (left_column now_ms d t)
       (Split_Right (right_column d t) (chat_column steady_ms d t) (d_right_pane_width d)) (d_left_pane_width d)"

definition full_ui :: "int \<Rightarrow> int \<Rightarrow> display \<Rightarrow> terminal \<Rightarrow> layout" where
  "full_ui now_ms steady_ms d t =
     Decorated
       (Column [
          Decorated (bar (line ''droidcli TUI'') [Emboldened]) [X_Flexed],
          panel '' Session / Provider / Model ''
            (Beside [line ''session: '', picker (session_element t), line '' | provider: '', Dropdown provider_menu_entries 0,
               line '' | model: '', picker (model_element t)]),
          Decorated (split now_ms steady_ms d t) [Flexed],
          Decorated (bar (line (focus_hint t)) []) [X_Flexed]])
       [On_Background kAppBackground, In_Colour kAppForeground]"

definition build_confirm_popup :: "string \<Rightarrow> string \<Rightarrow> layout" where
  "build_confirm_popup title message =
     Decorated
       (Window (Decorated (line ('' '' @ title @ '' '')) [Emboldened, In_Colour (Named Red)])
          (Decorated
             (Column [Decorated (wrapped message) [In_Colour (Rgb 255 255 255)], line [],
                Beside [Filler, Beside [Button ''  Yes  '', Button ''  No  ''], Filler]])
             [At_Least 44]))
       [On_Background (Rgb 0 0 0)]"

definition app_root :: "int \<Rightarrow> int \<Rightarrow> display \<Rightarrow> terminal \<Rightarrow> layout" where
  "app_root now_ms steady_ms d t =
     (if t_show_delete_confirm t
      then Over (build_confirm_popup ''Erase session?'' (erase_question t)) (full_ui now_ms steady_ms d t)
      else full_ui now_ms steady_ms d t)"

section \<open>What is in the frame\<close>

fun rows_of :: "styled \<Rightarrow> element list" where
  "rows_of (Row cells, _) = map fst cells"
| "rows_of (e, _) = [e]"

fun drawn :: "layout \<Rightarrow> element list" where
  "drawn (Rows rows) = concat (map rows_of rows)"
| "drawn (Column ls) = concat (map drawn ls)"
| "drawn (Beside ls) = concat (map drawn ls)"
| "drawn (Window title content) = drawn title @ drawn content"
| "drawn (Split_Left a b _) = drawn a @ drawn b"
| "drawn (Split_Right a b _) = drawn a @ drawn b"
| "drawn (Over a b) = drawn a @ drawn b"
| "drawn (Decorated l _) = drawn l"
| "drawn _ = []"

lemma chat_in_frame: "set (drawn (scrolled (chat_log_view steady_ms t) s)) \<subseteq> set (drawn (full_ui now_ms steady_ms d t))"
  by (auto simp: full_ui_def split_def chat_column_def panel_def scrolled_def)

lemma entry_in_chat:
  assumes "e \<in> set (t_chat_entries t)"
  shows "\<exists>i. set (chat_lines (i, e)) \<subseteq> set (chat_log_view steady_ms t)"
proof -
  obtain i where i: "i < length (t_chat_entries t)" "t_chat_entries t ! i = e" using assms by (auto simp: in_set_conv_nth)
  then have "(i, e) \<in> set (zip [0..<length (t_chat_entries t)] (t_chat_entries t))" by (force simp: set_zip)
  then show ?thesis by (intro exI [of _ i]) (auto simp: chat_log_view_def Let_def)
qed


definition asked_entry :: chat_entry where
  "asked_entry = \<lparr>ce_role = ''info'', ce_text = snd (approval_line True ''run_command'' ''del x''), ce_timestamp = ''12:00:00'', ce_expanded = False\<rparr>"


end
