(* ===== verification/Spec2Isabelle.thy ===== *)
theory Spec2Isabelle
  imports Complex_Main Notify Session Path_Guards Task_Machine App_State Response_Templates Http_Client
    Agent_Safety Agent_History Task_Outcomes Host_Settings File_Safety Filesystem_Laws Turn_Cost Host_Laws Daemon
    Terminal_Approval Terminal_Menus Terminal_Safety Terminal_Views
    Process_Laws Command_Laws Machine_Laws Clipboard Service Https_Client Media_Store
    Connector_Processes Interactive Console Vectors Terminal_Layout
begin

text \<open>
  A model of droidcli, a desktop daemon that lets a language model act on the machine: it answers
  HTTP requests, keeps a task queue and a registry of connectors, and runs an agent whose tools read
  and change files, run commands and open applications, the dangerous ones only after the user has
  approved the call. The model follows the C++ sources under \<open>src/\<close> function by function.

  Conventions. A \<open>std::string\<close> is a \<open>string\<close>; an index cursor is the suffix it points at where a loop
  only moves forward, and an index elsewhere. Integers are \<open>int\<close>, wrapped to 32 or 64 bits where the
  code can leave the range. A C++ exception is a left value of a sum (\<open>cpp_exception\<close>), undefined
  behaviour (\<open>std::atoi\<close> out of range, a null dereference) is a result of its own. A mutex makes the
  section it guards one step. The operating system, \<open>std::filesystem\<close>, the clock and the network are
  the record \<open>'w os\<close> of \<open>Os_Interface\<close>, operations on an arbitrary world \<open>'w\<close>: nothing is assumed
  of them unless a theorem says so (\<open>files_documented\<close>, \<open>always_done\<close>). \<open>idle_os\<close> is the instance on
  which the witnesses run.

  Shared helpers. \<open>Prelude\<close> (string operations of the standard library), \<open>Decimal\<close> (\<open>std::to_string\<close>,
  \<open>std::stoll\<close>, \<open>std::atoi\<close>), \<open>Keyed_Store\<close> (vectors searched by key, two locales every such container
  interprets).

  The core library (\<open>src/src\<close>).
  \<^item> \<open>Json\<close>, \<open>Json_Object\<close>, \<open>Json_Array\<close>: \<open>net/json.cpp\<close>, the field extractors that scan instead of
    parsing, and the brace-counting array walk that several units copy. No text in a value can forge
    a field of a flat object; braces in texts do mislead the array walk.
  \<^item> \<open>Notify\<close>, \<open>Session\<close>, \<open>Path_Guards\<close>: \<open>notify/\<close>, \<open>session/\<close> and \<open>reliability/\<close>; the loop that
    recognises invented Desktop paths equals its specification.
  \<^item> \<open>Task_Queue\<close>, \<open>Task_Machine\<close>: \<open>app/tasks.cpp\<close> and the state machine of its operations, with the
    invariants of every reachable queue.
  \<^item> \<open>Connector\<close>, \<open>App_State\<close>: \<open>net/connector.cpp\<close> and the saved state of \<open>cli/droidcli.cpp\<close>.
  \<^item> \<open>OpenAI_Client\<close>, \<open>Language_Runtime\<close>: \<open>ai/\<close>, the request to an OpenAI-compatible backend, the
    reading of its answer, and the transcript behind \<open>/ai/chat\<close>.
  \<^item> \<open>Net_Handlers\<close>, \<open>Response_Templates\<close>: \<open>net/handlers.cpp\<close>, \<open>net/router.cpp\<close> and \<open>classify/\<close>.

  \<^item> \<open>Media_Decode\<close>, \<open>Media_Store\<close>: \<open>media/\<close>, images through FFmpeg and their cache.
  \<^item> \<open>Floats\<close>, \<open>Vectors\<close>: \<open>core/types.cpp\<close> and \<open>core/math.cpp\<close> over a 32-bit \<open>float\<close> that is a NaN, an
    infinity or a rational rounded to nearest even; the sign of zero is left out, and square root,
    sine and cosine are arguments.

  HTTP (\<open>src/tools\<close>). \<open>Http_Wire\<close>, \<open>Http_Server\<close>, \<open>Http_Client\<close>: sockets as the list of the byte runs
  that \<open>recv\<close> gives, in any cut. The bearer gate, and that client and server read each other.
  \<open>Https_Client\<close> is the WinHTTP transport.

  The host (\<open>cli/host.cpp\<close>, \<open>cli/host.hpp\<close>).
  \<^item> \<open>Host_Text\<close>, \<open>Host_Match\<close>, \<open>Host_State\<close>, \<open>Host_Startup\<close>, \<open>Host_Status\<close>, \<open>Host_Commands\<close>,
    \<open>Host_Files\<close>, \<open>Host_Launch\<close>, \<open>Host_Tasks\<close>, \<open>Host_Settings\<close>: the operations by subject. \<open>'w host\<close>
    is the state of \<open>DroidHost\<close>, its field \<open>h_world\<close> everything outside.
  \<^item> \<open>Filesystem_Tools\<close>, \<open>Settings_Store\<close>, \<open>Memory_Store\<close>: the units of the same names. SQLite is a
    list of rows with the documented meaning of the statements the source prepares.
  \<^item> \<open>Agent_Schemas\<close>, \<open>Agent_Tools\<close>, \<open>Agent_Turn\<close>: the tools offered to the model, their dispatch, and
    one turn: classify, run or pause for approval, phrase.
  \<^item> \<open>Http_Mount\<close>, \<open>Daemon\<close>: \<open>cli/http_mount.cpp\<close> and \<open>main\<close>: flags over file over defaults, the
    start, and the loop that serves and ticks.

  The units behind the host (\<open>cli/\<close>). Each has the system calls it makes as a record of its own, on
  Windows and on POSIX systems, and is an implementation of fields of \<open>'w os\<close> or of the arguments of
  \<open>Host_Startup\<close> and \<open>Daemon\<close>.
  \<^item> \<open>Process_Manager\<close>, \<open>Process_Laws\<close>: \<open>process_manager.cpp\<close>, job objects and process groups.
  \<^item> \<open>Command_Runner\<close>, \<open>Command_Laws\<close>: \<open>command_runner.cpp\<close>, a command with its output captured.
  \<^item> \<open>Os_Registry\<close>, \<open>Machine_Scan\<close>, \<open>Machine_Info\<close>, \<open>Machine_Laws\<close>: \<open>os_registry.cpp\<close>, \<open>app_index.cpp\<close>,
    \<open>windows_locations.cpp\<close>, \<open>system_info.cpp\<close>, \<open>hardware_info.cpp\<close> and \<open>window_list.cpp\<close>.
  \<^item> \<open>Clipboard\<close>: \<open>clipboard.cpp\<close> and the clipboard tools of the host over it.
  \<^item> \<open>Connector_Processes\<close>: the connectors of the host over this process manager, through a locale of
    what they need of it.
  \<^item> \<open>Service\<close>: \<open>windows_service.cpp\<close> and how \<open>main\<close> ends: as a service, in the foreground, or with the
    terminal interface.
  \<^item> \<open>Console\<close>: what \<open>main\<close> prints.

  The terminal interface (\<open>cli/tui.cpp\<close>). \<open>Terminal_Parse\<close> and \<open>Terminal_Chat\<close> are its readers of the
  host's JSON and its texts; \<open>Terminal_State\<close>, \<open>Terminal_Worker\<close> and \<open>Terminal_Events\<close> the state
  machine of \<open>run_tui\<close>: a step is an event, a frame, a poll, the run of the chat worker or its
  hand-over, in any order (\<open>reachable_terminal\<close>). \<open>Terminal_Views\<close> is what the panels show,
  \<open>Terminal_Layout\<close> how they are scrolled and the tree of elements that a frame is.
  \<open>Interactive\<close> is the whole program in its default mode: the terminal with its threads and the
  thread that serves clients and ticks, their steps in any order on one host (\<open>interleaved\<close>).

  What is shown of the whole. Safety: \<open>Agent_Safety\<close> (two systems that differ in their effects cannot
  be told apart by a turn), \<open>File_Safety\<close> (an approved call is the pending one and stays on the paths
  it names), \<open>Terminal_Approval\<close> and \<open>Terminal_Safety\<close> (the prompt shows the pending call, and only a
  typed yes lets it run), \<open>Terminal_Layout\<close> (the question is in every frame), \<open>Console\<close> (no argument
  has an effect that the usage text does not name, the listed routes are served), \<open>Http_Mount\<close> and \<open>Daemon\<close> (no request without the token, and a started
  daemon has one). Invariants over histories in any order: \<open>Agent_Invariant\<close>, \<open>Agent_History\<close>,
  \<open>Agent_Log\<close>, \<open>Task_Machine\<close>, \<open>Terminal_Laws\<close>, \<open>Process_Laws\<close> (no process or handle is lost), \<open>Interactive\<close>
  (the whole program keeps what its parts keep).
  Refinements: \<open>Host_Laws\<close> (the log in memory is the end of all that was logged, the database a map
  from sessions to conversations), \<open>Media_Store\<close>. Bounds and
  termination: \<open>Turn_Cost\<close> (at most eight requests a turn, five a decision), \<open>Task_Outcomes\<close> (due
  tasks are worked off), \<open>Terminal_Laws\<close> (the input is unlocked again), \<open>Interactive\<close> (quitting finishes the job
  under way), \<open>Vectors\<close> and \<open>Terminal_Layout\<close> (ranges, rounding included), \<open>Command_Laws\<close> (a run with a limit returns),
  \<open>Service\<close> (a stop is obeyed). Round trips:
  \<open>Filesystem_Laws\<close>, \<open>Settings_Store\<close>, \<open>App_State\<close>, \<open>Http_Client\<close>, \<open>OpenAI_Client\<close>, \<open>Clipboard\<close>. Errors of
  the code that the model shows are theorems too (\<open>Terminal_Menus\<close>, \<open>Terminal_Views\<close>, \<open>Task_Outcomes\<close>,
  \<open>Agent_Log\<close>, \<open>Daemon\<close>, \<open>Command_Laws\<close>, \<open>Process_Laws\<close>, \<open>Interactive\<close>, \<open>Vectors\<close>).
  The interfaces are locales (\<open>same_system\<close>, \<open>agent_answers\<close>, the invariant of \<open>Agent_Invariant\<close>,
  \<open>managed_system\<close>, \<open>process_service\<close>, \<open>program_invariant\<close>, the stores of \<open>Keyed_Store\<close>), each interpreted on the definitions of the code.

  Bounds and fuel. No definition has fuel that can run out unnoticed: loops over texts and sockets are
  recursive functions with termination proofs, and the loop counters of the code (three attempts of
  the model, six polls of a started Ollama, 256 log entries, 64 KB of a file that is read) are the
  numbers of the model. The loop of the daemon is a function of the list of its rounds. A loop over what
  another process writes is a partial function, so that not returning is \<open>None\<close>.

  Not modelled. The system calls themselves, the registry, COM, the clipboard and the service manager
  of Windows, WinHTTP, sockets and TLS, FFmpeg, SQLite and the other vendored code: each is a record of
  operations or an argument. What FTXUI does with a tree of elements and with raw input: placing,
  wrapping, drawing, the editing of a line. The messages of the service manager's calls and of the
  settings file. Data races of threads: a locked section is one step, a call of the host by
  the chat worker or by the server is one step of the host, and only these are interleaved.
\<close>

end
